(* ===== verification/Go_Prelude.thy ===== *)
theory Go_Prelude
  imports Main "HOL-Library.Char_ord" "HOL-Library.List_Lexorder" "HOL-Library.AList"
    "HOL-Library.Sublist" "HOL-Library.Multiset"
begin

text \<open>
  Shared vocabulary of the development: the functions of Go's \<open>strings\<close> and \<open>strconv\<close>
  packages that the modelled files call, Go maps as association lists with distinct keys,
  and the lemmas about them that the component theories share.

  A Go string is a sequence of bytes, so it is a HOL \<open>string\<close> (HOL characters are bytes).
  Case mapping and white space are those of ASCII; bytes above 0x7F are left alone.
  \<open>int\<close> is a 64-bit integer: arithmetic that can overflow is written with \<open>wrap64\<close>.
\<close>

named_theorems go_map \<open>laws of Go maps\<close>
named_theorems go_str \<open>laws of the string functions\<close>

section \<open>Characters\<close>

abbreviation NL :: char where "NL \<equiv> CHR 0x0A"
abbreviation NUL :: char where "NUL \<equiv> CHR 0x00"
abbreviation DQUOTE :: char where "DQUOTE \<equiv> CHR 0x22"
abbreviation SQUOTE :: char where "SQUOTE \<equiv> CHR 0x27"
abbreviation BSLASH :: char where "BSLASH \<equiv> CHR 0x5C"
abbreviation DOT :: char where "DOT \<equiv> CHR 0x2E"

abbreviation code_of :: "char \<Rightarrow> nat" where "code_of c \<equiv> of_char c"

definition is_upper :: "char \<Rightarrow> bool" where
  "is_upper c \<longleftrightarrow> 65 \<le> code_of c \<and> code_of c \<le> 90"

definition is_lower :: "char \<Rightarrow> bool" where
  "is_lower c \<longleftrightarrow> 97 \<le> code_of c \<and> code_of c \<le> 122"

definition is_digit :: "char \<Rightarrow> bool" where
  "is_digit c \<longleftrightarrow> 48 \<le> code_of c \<and> code_of c \<le> 57"

definition is_alnum :: "char \<Rightarrow> bool" where
  "is_alnum c \<longleftrightarrow> is_lower c \<or> is_upper c \<or> is_digit c"

definition is_space :: "char \<Rightarrow> bool" where
  "is_space c \<longleftrightarrow> code_of c = 32 \<or> (9 \<le> code_of c \<and> code_of c \<le> 13)"

definition lower_char :: "char \<Rightarrow> char" where
  "lower_char c = (if is_upper c then char_of (code_of c + 32) else c)"

definition upper_char :: "char \<Rightarrow> char" where
  "upper_char c = (if is_lower c then char_of (code_of c - 32) else c)"

lemma lower_char_idem [simp]: "lower_char (lower_char c) = lower_char c"
  by (auto simp: lower_char_def is_upper_def)

lemma lower_char_not_upper [simp]: "\<not> is_upper (lower_char c)"
  by (auto simp: lower_char_def is_upper_def)

lemma lower_char_eq_iff_small:
  "code_of d < 65 \<Longrightarrow> lower_char c = d \<longleftrightarrow> c = d"
  by (auto simp: lower_char_def is_upper_def)

section \<open>Strings\<close>

definition to_lower :: "string \<Rightarrow> string" where
  "to_lower s = map lower_char s"

definition to_upper :: "string \<Rightarrow> string" where
  "to_upper s = map upper_char s"

definition equal_fold :: "string \<Rightarrow> string \<Rightarrow> bool" where
  "equal_fold a b \<longleftrightarrow> to_lower a = to_lower b"

abbreviation has_prefix :: "string \<Rightarrow> string \<Rightarrow> bool" where
  "has_prefix s p \<equiv> prefix p s"

abbreviation has_suffix :: "string \<Rightarrow> string \<Rightarrow> bool" where
  "has_suffix s p \<equiv> suffix p s"

lemma to_lower_idem [simp, go_str]: "to_lower (to_lower s) = to_lower s"
  by (simp add: to_lower_def)

lemma to_lower_Nil [simp]: "to_lower [] = []"
  by (simp add: to_lower_def)

lemma to_lower_eq_Nil [simp]: "to_lower s = [] \<longleftrightarrow> s = []"
  by (simp add: to_lower_def)

lemma length_to_lower [simp]: "length (to_lower s) = length s"
  by (simp add: to_lower_def)

lemma to_lower_append: "to_lower (a @ b) = to_lower a @ to_lower b"
  by (simp add: to_lower_def)

lemma to_lower_drop: "to_lower (drop n s) = drop n (to_lower s)"
  by (simp add: to_lower_def drop_map)

lemma small_in_to_lower:
  "code_of d < 65 \<Longrightarrow> d \<in> set (to_lower s) \<longleftrightarrow> d \<in> set s"
proof -
  assume d: "code_of d < 65"
  have "lower_char x = d \<longleftrightarrow> x = d" for x using d by (rule lower_char_eq_iff_small)
  then show ?thesis unfolding to_lower_def by (metis (no_types, lifting) image_iff set_map)
qed

fun index_sub :: "string \<Rightarrow> string \<Rightarrow> nat option" where
  "index_sub sub [] = (if sub = [] then Some 0 else None)"
| "index_sub sub (c # cs) =
     (if prefix sub (c # cs) then Some 0 else map_option Suc (index_sub sub cs))"

definition contains :: "string \<Rightarrow> string \<Rightarrow> bool" where
  "contains s sub \<longleftrightarrow> index_sub sub s \<noteq> None"

definition contains_any :: "string \<Rightarrow> string \<Rightarrow> bool" where
  "contains_any s cs \<longleftrightarrow> list_ex (\<lambda>c. c \<in> set cs) s"

text \<open>\<open>strings.Cut\<close>: the text before and after the first separator, or \<open>None\<close>.\<close>

definition cut :: "string \<Rightarrow> string \<Rightarrow> (string \<times> string) option" where
  "cut s sep = (case index_sub sep s of None \<Rightarrow> None
     | Some i \<Rightarrow> Some (take i s, drop (i + length sep) s))"

definition cut_prefix :: "string \<Rightarrow> string \<Rightarrow> string option" where
  "cut_prefix s p = (if prefix p s then Some (drop (length p) s) else None)"

definition trim_prefix :: "string \<Rightarrow> string \<Rightarrow> string" where
  "trim_prefix s p = (if prefix p s then drop (length p) s else s)"

definition trim_suffix :: "string \<Rightarrow> string \<Rightarrow> string" where
  "trim_suffix s p = (if suffix p s then take (length s - length p) s else s)"

definition trim_left :: "string \<Rightarrow> string \<Rightarrow> string" where
  "trim_left s cs = dropWhile (\<lambda>c. c \<in> set cs) s"

definition trim_right :: "string \<Rightarrow> string \<Rightarrow> string" where
  "trim_right s cs = rev (dropWhile (\<lambda>c. c \<in> set cs) (rev s))"

definition trim_space :: "string \<Rightarrow> string" where
  "trim_space s = rev (dropWhile is_space (rev (dropWhile is_space s)))"

fun string_fields_acc :: "string \<Rightarrow> string \<Rightarrow> string list" where
  "string_fields_acc w [] = (if w = [] then [] else [rev w])"
| "string_fields_acc w (c # cs) =
     (if is_space c then (if w = [] then string_fields_acc [] cs else rev w # string_fields_acc [] cs)
      else string_fields_acc (c # w) cs)"

definition string_fields :: "string \<Rightarrow> string list" where
  "string_fields s = string_fields_acc [] s"

text \<open>\<open>strings.Split\<close> on a one-byte separator: never the empty list.\<close>

fun split_on :: "char \<Rightarrow> string \<Rightarrow> string list" where
  "split_on c [] = [[]]"
| "split_on c (x # xs) =
     (if x = c then [] # split_on c xs
      else (case split_on c xs of [] \<Rightarrow> [[x]] | y # ys \<Rightarrow> (x # y) # ys))"

fun join :: "string \<Rightarrow> string list \<Rightarrow> string" where
  "join sep [] = []"
| "join sep [x] = x"
| "join sep (x # y # ys) = x @ sep @ join sep (y # ys)"

fun last_index :: "char \<Rightarrow> string \<Rightarrow> nat option" where
  "last_index c [] = None"
| "last_index c (x # xs) = (case last_index c xs of Some i \<Rightarrow> Some (Suc i)
     | None \<Rightarrow> if x = c then Some 0 else None)"

text \<open>\<open>strings.ReplaceAll\<close> for a non-empty \<open>old\<close>; the counter skips a replaced match.\<close>

fun replace_from :: "string \<Rightarrow> string \<Rightarrow> nat \<Rightarrow> string \<Rightarrow> string" where
  "replace_from old new k [] = []"
| "replace_from old new (Suc k) (c # cs) = replace_from old new k cs"
| "replace_from old new 0 (c # cs) =
     (if prefix old (c # cs) then new @ replace_from old new (length old - 1) cs
      else c # replace_from old new 0 cs)"

definition replace_all :: "string \<Rightarrow> string \<Rightarrow> string \<Rightarrow> string" where
  "replace_all s old new = replace_from old new 0 s"

lemma split_on_not_Nil [simp]: "split_on c s \<noteq> []"
  by (cases s) (auto split: list.splits)

lemma split_on_parts [go_str]: "p \<in> set (split_on c s) \<Longrightarrow> c \<notin> set p"
proof (induction s arbitrary: p)
  case Nil
  then show ?case by simp
next
  case (Cons x xs)
  then show ?case by (auto split: if_splits list.splits)
qed

lemma join_split_on [simp, go_str]: "join [c] (split_on c s) = s"
proof (induction s)
  case Nil
  then show ?case by simp
next
  case (Cons x xs)
  obtain y ys where "split_on c xs = y # ys" by (cases "split_on c xs") auto
  with Cons show ?case by (cases ys) auto
qed

lemma split_on_no_sep: "c \<notin> set s \<Longrightarrow> split_on c s = [s]"
  by (induction s) auto

lemma split_on_append_sep:
  "c \<notin> set a \<Longrightarrow> split_on c (a @ c # b) = a # split_on c b"
  by (induction a) auto

lemma split_on_join [go_str]:
  "ps \<noteq> [] \<Longrightarrow> \<forall>p\<in>set ps. c \<notin> set p \<Longrightarrow> split_on c (join [c] ps) = ps"
proof (induction ps rule: induct_list012)
  case (3 x y zs)
  then show ?case by (simp add: split_on_append_sep)
qed (auto simp: split_on_no_sep)

lemma join_Cons: "ps \<noteq> [] \<Longrightarrow> join sep (p # ps) = p @ sep @ join sep ps"
  by (cases ps) auto

lemma join_append:
  "xs \<noteq> [] \<Longrightarrow> ys \<noteq> [] \<Longrightarrow> join sep (xs @ ys) = join sep xs @ sep @ join sep ys"
proof (induction xs)
  case (Cons x xs)
  then show ?case by (cases "xs = []") (simp_all add: join_Cons)
qed simp

lemma split_on_append:
  "split_on c (a @ c # b) = split_on c a @ split_on c b"
proof (induction a)
  case Nil
  then show ?case by simp
next
  case (Cons x xs)
  then show ?case by (auto split: list.splits)
qed

lemma cut_prefix_Some: "cut_prefix s p = Some r \<longleftrightarrow> s = p @ r"
  by (auto simp: cut_prefix_def prefix_def)

lemma trim_prefix_append [simp]: "trim_prefix (p @ r) p = r"
  by (simp add: trim_prefix_def)

lemma last_index_None: "last_index c s = None \<longleftrightarrow> c \<notin> set s"
  by (induction s) (auto split: option.splits)

lemma last_index_bound: "last_index c s = Some i \<Longrightarrow> i < length s"
  by (induction s arbitrary: i) (auto split: option.splits if_splits)

lemma last_index_Some:
  "last_index c s = Some i \<Longrightarrow>
     s = take i s @ c # drop (Suc i) s \<and> c \<notin> set (drop (Suc i) s)"
proof (induction s arbitrary: i)
  case (Cons x xs)
  show ?case
  proof (cases "last_index c xs")
    case None
    with Cons.prems show ?thesis by (auto simp: last_index_None split: if_splits)
  next
    case (Some j)
    with Cons.prems have "i = Suc j" by simp
    with Cons.IH [OF Some] show ?thesis by simp
  qed
qed simp

lemma trim_space_ends:
  "trim_space s \<noteq> [] \<Longrightarrow> \<not> is_space (hd (trim_space s)) \<and> \<not> is_space (last (trim_space s))"
proof -
  let ?l = "dropWhile is_space s"
  let ?t = "dropWhile is_space (rev ?l)"
  assume "trim_space s \<noteq> []"
  then have ne: "?t \<noteq> []" by (simp add: trim_space_def)
  then have l: "?l \<noteq> []" by (metis dropWhile.simps(1) rev.simps(1))
  obtain pre where pre: "rev ?l = pre @ ?t"
    by (metis takeWhile_dropWhile_id)
  then have "?l = rev ?t @ rev pre"
    by (metis rev_append rev_rev_ident)
  then have "hd ?l = last ?t" using ne by (metis hd_append2 hd_rev rev_is_Nil_conv)
  moreover have "\<not> is_space (hd ?l)" using l by (simp add: hd_dropWhile)
  moreover have "\<not> is_space (hd ?t)" using ne by (rule hd_dropWhile)
  ultimately show ?thesis using ne by (simp add: trim_space_def hd_rev last_rev)
qed

lemma set_trim_space: "set (trim_space s) \<subseteq> set s"
proof -
  have "set (trim_space s) \<subseteq> set (rev (dropWhile is_space s))"
    unfolding trim_space_def by (auto dest: set_dropWhileD)
  also have "\<dots> \<subseteq> set s" by (auto dest: set_dropWhileD)
  finally show ?thesis .
qed

section \<open>Integers\<close>

abbreviation max_int64 :: int where "max_int64 \<equiv> 9223372036854775807"
abbreviation min_int64 :: int where "min_int64 \<equiv> - 9223372036854775808"

definition in_int64 :: "int \<Rightarrow> bool" where
  "in_int64 n \<longleftrightarrow> min_int64 \<le> n \<and> n \<le> max_int64"

text \<open>Two's complement wrap-around of a 64-bit result.\<close>

definition wrap64 :: "int \<Rightarrow> int" where
  "wrap64 n = (n + 9223372036854775808) mod 18446744073709551616 - 9223372036854775808"

text \<open>Go's integer division truncates towards zero.\<close>

definition go_div :: "int \<Rightarrow> int \<Rightarrow> int" where
  "go_div a b = sgn a * sgn b * (\<bar>a\<bar> div \<bar>b\<bar>)"

lemma wrap64_range [simp]: "in_int64 (wrap64 n)"
proof -
  have "0 \<le> (n + 9223372036854775808) mod 18446744073709551616"
    and "(n + 9223372036854775808) mod 18446744073709551616 < 18446744073709551616"
    by simp_all
  then show ?thesis unfolding in_int64_def wrap64_def by linarith
qed

lemma wrap64_id: "in_int64 n \<Longrightarrow> wrap64 n = n"
  by (auto simp: in_int64_def wrap64_def)

definition digit_val :: "char \<Rightarrow> int" where
  "digit_val c = int (code_of c) - 48"

definition dec_val :: "string \<Rightarrow> int" where
  "dec_val ds = foldl (\<lambda>a c. a * 10 + digit_val c) 0 ds"

text \<open>\<open>strconv.Atoi\<close> and \<open>strconv.ParseInt(s, 10, 64)\<close>: \<open>None\<close> is a syntax or range error.\<close>

definition parse_int :: "string \<Rightarrow> int option" where
  "parse_int s =
     (let (neg, ds) = (case s of [] \<Rightarrow> (False, [])
            | c # cs \<Rightarrow> if c = CHR ''-'' then (True, cs)
                      else if c = CHR ''+'' then (False, cs) else (False, s))
      in if ds = [] \<or> \<not> list_all is_digit ds then None
         else let v = (if neg then - dec_val ds else dec_val ds)
              in if in_int64 v then Some v else None)"

abbreviation atoi :: "string \<Rightarrow> int option" where "atoi \<equiv> parse_int"

lemma parse_int_range: "parse_int s = Some n \<Longrightarrow> in_int64 n"
  by (auto simp: parse_int_def Let_def split: prod.splits if_splits)

fun itoa_nat :: "nat \<Rightarrow> string" where
  "itoa_nat n = (if n < 10 then [char_of (48 + n)]
     else itoa_nat (n div 10) @ [char_of (48 + n mod 10)])"

declare itoa_nat.simps [simp del]

definition itoa :: "int \<Rightarrow> string" where
  "itoa n = (if n < 0 then CHR ''-'' # itoa_nat (nat (- n)) else itoa_nat (nat n))"

section \<open>Go maps\<close>

text \<open>
  A Go \<open>map[string]V\<close> is an association list with distinct keys. The list order stands
  for the order in which \<open>range\<close> happens to visit the keys, which Go leaves open: where a
  function ranges over a map, its result for every order of the list is a separate
  question, and the theorems about such functions answer it.
\<close>

type_synonym 'v gomap = "(string \<times> 'v) list"

abbreviation mget :: "'v gomap \<Rightarrow> string \<Rightarrow> 'v option" where "mget \<equiv> map_of"
abbreviation mput :: "string \<Rightarrow> 'v \<Rightarrow> 'v gomap \<Rightarrow> 'v gomap" where "mput \<equiv> AList.update"
abbreviation mdel :: "string \<Rightarrow> 'v gomap \<Rightarrow> 'v gomap" where "mdel \<equiv> AList.delete"

definition wfm :: "'v gomap \<Rightarrow> bool" where
  "wfm m \<longleftrightarrow> distinct (map fst m)"

definition sorted_keys :: "'v gomap \<Rightarrow> string list" where
  "sorted_keys m = sort (map fst m)"

definition has_key :: "'v gomap \<Rightarrow> string \<Rightarrow> bool" where
  "has_key m k \<longleftrightarrow> map_of m k \<noteq> None"

text \<open>Reading a \<open>map[string]bool\<close>: a missing key reads as false.\<close>

definition is_set :: "bool gomap \<Rightarrow> string \<Rightarrow> bool" where
  "is_set m k \<longleftrightarrow> map_of m k = Some True"

lemma wfm_Nil [simp, go_map]: "wfm []"
  by (simp add: wfm_def)

lemma wfm_put [simp, go_map]: "wfm m \<Longrightarrow> wfm (mput k v m)"
  by (simp add: wfm_def distinct_update)

lemma wfm_del [simp, go_map]: "wfm m \<Longrightarrow> wfm (mdel k m)"
  by (simp add: wfm_def distinct_delete)

lemma mget_put [simp, go_map]: "mget (mput k v m) k' = (if k' = k then Some v else mget m k')"
  by (simp add: AList.update_conv)

lemma mget_del [simp, go_map]: "mget (mdel k m) k' = (if k' = k then None else mget m k')"
  by (simp add: AList.delete_conv)

lemma is_set_Nil [simp]: "\<not> is_set [] k"
  by (simp add: is_set_def)

lemma is_set_put [simp]: "is_set (mput k b m) k' \<longleftrightarrow> (if k' = k then b else is_set m k')"
  by (simp add: is_set_def)

lemma mput_same: "map_of m k = Some v \<Longrightarrow> mput k v m = m"
  by (induction m) (auto split: if_splits)

lemma mput_mput [simp]: "mput k v (mput k w m) = mput k v m"
  by (induction m) auto

lemma mput_commute:
  "k \<noteq> l \<Longrightarrow> map_of m k \<noteq> None \<Longrightarrow> map_of m l \<noteq> None \<Longrightarrow>
     mput k v (mput l w m) = mput l w (mput k v m)"
proof (induction m)
  case (Cons x m)
  obtain a b where x: "x = (a, b)" by (cases x)
  have "mput k v (mput l w m) = mput l w (mput k v m)" if "a \<noteq> k" "a \<noteq> l"
    using Cons that by (simp add: x)
  with Cons.prems show ?case by (auto simp: x)
qed simp

lemma mdel_mput: "k \<noteq> l \<Longrightarrow> mdel k (mput l w m) = mput l w (mdel k m)"
  by (induction m) auto

lemma mdel_mput_same [simp]: "mdel k (mput k v m) = mdel k m"
  by (induction m) auto

lemma mdel_commute: "mdel k (mdel l m) = mdel l (mdel k m)"
  by (auto simp: AList.delete_eq intro: filter_cong)

lemma keys_put [simp, go_map]: "fst ` set (mput k v m) = insert k (fst ` set m)"
  by (induction m) auto

lemma keys_del [simp, go_map]: "fst ` set (mdel k m) = fst ` set m - {k}"
  by (auto simp: AList.delete_eq image_iff)

lemma has_key_iff [go_map]: "has_key m k \<longleftrightarrow> k \<in> fst ` set m"
  by (simp add: has_key_def map_of_eq_None_iff)

lemma set_sorted_keys [simp, go_map]: "set (sorted_keys m) = fst ` set m"
  by (simp add: sorted_keys_def)

lemma sorted_sorted_keys [simp, go_map]: "sorted (sorted_keys m)"
  by (simp add: sorted_keys_def)

lemma distinct_sorted_keys [simp, go_map]: "distinct (sorted_keys m) \<longleftrightarrow> wfm m"
  by (simp add: sorted_keys_def wfm_def)

lemma wfm_perm_get:
  "wfm m \<Longrightarrow> mset m = mset m' \<Longrightarrow> map_of m = map_of m'"
  unfolding wfm_def by (metis map_of_inject_set mset_eq_setD mset_eq_imp_distinct_iff mset_map)

lemma sorted_keys_cong:
  "wfm a \<Longrightarrow> wfm b \<Longrightarrow> fst ` set a = fst ` set b \<Longrightarrow> sorted_keys a = sorted_keys b"
  by (metis distinct_sorted_keys set_sorted_keys sorted_distinct_set_unique sorted_sorted_keys)

section \<open>Interfaces\<close>

text \<open>
  What the clients of a string-keyed map rely on: reads after writes and deletes. The loops
  \<open>for ... { m[k] = v }\<close> of the code are folds of \<open>put\<close>; their result is read off by
  \<open>get_put_all\<close>.
\<close>

locale string_map =
  fixes get :: "'m \<Rightarrow> string \<Rightarrow> 'v option" and put :: "string \<Rightarrow> 'v \<Rightarrow> 'm \<Rightarrow> 'm"
    and del :: "string \<Rightarrow> 'm \<Rightarrow> 'm" and ok :: "'m \<Rightarrow> bool"
  assumes get_put: "get (put k v m) k' = (if k' = k then Some v else get m k')"
    and get_del: "get (del k m) k' = (if k' = k then None else get m k')"
    and ok_put: "ok m \<Longrightarrow> ok (put k v m)"
    and ok_del: "ok m \<Longrightarrow> ok (del k m)"
begin

lemma get_put_all:
  "get (foldl (\<lambda>m x. put (key x) (val x) m) m xs) k =
     (case find (\<lambda>x. key x = k) (rev xs) of Some x \<Rightarrow> Some (val x) | None \<Rightarrow> get m k)"
  by (induction xs rule: rev_induct) (auto simp: get_put)

lemma ok_put_all: "ok m \<Longrightarrow> ok (foldl (\<lambda>m x. put (key x) (val x) m) m xs)"
  by (induction xs rule: rev_induct) (auto simp: ok_put)

lemma get_del_all:
  "get (foldl (\<lambda>m x. del x m) m xs) k = (if k \<in> set xs then None else get m k)"
  by (induction xs rule: rev_induct) (auto simp: get_del)

end

interpretation gm: string_map map_of AList.update AList.delete wfm
  by unfold_locales simp_all

text \<open>
  A \<open>range\<close> over a Go map visits the keys in an unspecified order. When the loop body
  commutes with itself at different keys, the order does not show; when it is idempotent as
  well, running the loop again changes nothing.
\<close>

locale map_range =
  fixes body :: "'k \<Rightarrow> 's \<Rightarrow> 's"
  assumes commute: "body k (body l s) = body l (body k s)"
begin

lemma order_free: "mset ks = mset ls \<Longrightarrow> fold body ks s = fold body ls s"
  using fold_multiset_equiv [of ks body ls] commute by (auto simp: fun_eq_iff)

lemma body_fold: "body k (fold body ks s) = fold body ks (body k s)"
  by (induction ks arbitrary: s) (simp_all add: commute)

lemma again:
  assumes "\<And>k s. body k (body k s) = body k s"
  shows "fold body ks (fold body ks s) = fold body ks s"
proof (induction ks arbitrary: s)
  case (Cons k ks)
  have "fold body (k # ks) (fold body (k # ks) s) = fold body ks (fold body ks (body k (body k s)))"
    by (simp add: body_fold)
  with Cons show ?case by (simp add: assms)
qed simp

end

text \<open>
  A cell filled by its first read (the memoized tree of a projection, the one core
  resolution of a discovery): the first read decides, every later read returns the same
  value and changes nothing.
\<close>

locale memo_cell =
  fixes read :: "'s \<Rightarrow> 'a \<times> 's"
  assumes reread: "read (snd (read s)) = (fst (read s), snd (read s))"
begin

fun reads :: "nat \<Rightarrow> 's \<Rightarrow> 'a list \<times> 's" where
  "reads 0 s = ([], s)"
| "reads (Suc n) s = (let (x, s') = read s; (xs, s'') = reads n s' in (x # xs, s''))"

lemma reads_after: "reads n (snd (read s)) = (replicate n (fst (read s)), snd (read s))"
  by (induction n) (simp_all add: reread case_prod_beta)

lemma reads_same: "fst (reads n s) = replicate n (fst (read s))"
  by (cases n) (simp_all add: case_prod_beta reads_after)

lemma reads_state: "snd (reads (Suc n) s) = snd (read s)"
  by (simp add: case_prod_beta reads_after)

end

text \<open>Printing a number and reading it back.\<close>

lemma dec_val_snoc: "dec_val (ds @ [c]) = dec_val ds * 10 + digit_val c"
  by (simp add: dec_val_def)

lemma dec_val_Nil [simp]: "dec_val [] = 0"
  by (simp add: dec_val_def)

lemma digit_val_char [simp]: "n < 10 \<Longrightarrow> digit_val (char_of (48 + n)) = int n"
  by (simp add: digit_val_def of_char_of)

lemma is_digit_char: "n < 10 \<Longrightarrow> is_digit (char_of (48 + n :: nat))"
  by (simp add: is_digit_def of_char_of)

lemma itoa_nat_dec_val [simp]: "dec_val (itoa_nat n) = int n"
proof (induction n rule: itoa_nat.induct)
  case (1 n)
  show ?case
  proof (cases "n < 10")
    case True
    then show ?thesis using dec_val_snoc [of "[]"] by (subst itoa_nat.simps) simp
  next
    case False
    with 1 have "dec_val (itoa_nat (n div 10)) = int (n div 10)" by simp
    with False show ?thesis by (subst itoa_nat.simps) (simp add: dec_val_snoc zdiv_int zmod_int)
  qed
qed

lemma itoa_nat_digits [simp]: "list_all is_digit (itoa_nat n)"
proof (induction n rule: itoa_nat.induct)
  case (1 n)
  then show ?case by (subst itoa_nat.simps) (auto simp: is_digit_char)
qed

lemma itoa_nat_not_Nil [simp]: "itoa_nat n \<noteq> []"
  by (subst itoa_nat.simps) simp

lemma parse_int_digits:
  "ds \<noteq> [] \<Longrightarrow> list_all is_digit ds \<Longrightarrow> in_int64 (dec_val ds) \<Longrightarrow> parse_int ds = Some (dec_val ds)"
  by (cases ds) (auto simp: parse_int_def Let_def is_digit_def)

lemma parse_int_itoa: "in_int64 n \<Longrightarrow> parse_int (itoa n) = Some n"
  by (cases "n < 0") (simp_all add: itoa_def parse_int_digits, simp add: parse_int_def)

lemma trim_space_id: "s = [] \<or> (\<not> is_space (hd s) \<and> \<not> is_space (last s)) \<Longrightarrow> trim_space s = s"
proof (cases s)
  case (Cons c cs)
  assume "s = [] \<or> (\<not> is_space (hd s) \<and> \<not> is_space (last s))"
  with Cons have c: "\<not> is_space c" and l: "\<not> is_space (hd (rev s))" by (simp_all only: hd_rev) auto
  have "dropWhile is_space s = s" using c Cons by simp
  moreover have "dropWhile is_space (rev s) = rev s" using l by (cases "rev s") auto
  ultimately show ?thesis by (simp add: trim_space_def)
qed (simp add: trim_space_def)

text \<open>Cutting at a separator of one byte.\<close>

lemma index_sub_char: "c \<notin> set n \<Longrightarrow> index_sub [c] (n @ c # v) = Some (length n)"
  by (induction n) auto

lemma index_sub_char_None: "index_sub [c] s = None \<longleftrightarrow> c \<notin> set s"
  by (induction s) auto

lemma cut_at: "c \<notin> set n \<Longrightarrow> cut (n @ c # v) [c] = Some (n, v)"
  by (simp add: cut_def index_sub_char)

lemma cut_None: "cut s [c] = None \<longleftrightarrow> c \<notin> set s"
  using index_sub_char_None [of c s] by (auto simp: cut_def split: option.splits)

lemma find_append: "find p (xs @ ys) = (case find p xs of None \<Rightarrow> find p ys | Some x \<Rightarrow> Some x)"
  by (induction xs) auto

lemma cut_parts:
  assumes "cut s [c] = Some (n, v)"
  shows "s = n @ c # v \<and> c \<notin> set n"
proof -
  have "c \<in> set s" using assms cut_None [of s c] by auto
  then obtain a b where "s = a @ c # b" "c \<notin> set a" by (meson split_list_first)
  with cut_at [of c a b] assms show ?thesis by simp
qed

end
