(* ===== verification/Go_Value.thy ===== *)
theory Go_Value
  imports Go_Prelude
begin

text \<open>
  The dynamic values a fact can hold (Go's \<open>any\<close>, restricted to the types the engine's
  resolvers, decoders and registered facts produce) and the resolved-fact record of
  \<open>internal/engine/fact.go\<close>.

  A \<open>float64\<close> is carried as its shortest decimal text, the result of
  \<open>strconv.FormatFloat(v, 'f', -1, 64)\<close>, which determines the value. A map with string
  keys that is not \<open>map[string]any\<close> (for instance \<open>map[string]string\<close>) is a
  \<open>GTypedMap\<close>: type switches on \<open>map[string]any\<close> do not match it. Values are trees: two
  positions of a value never share a map. Typed nil maps and slices, pointers and structs
  do not occur.
\<close>

record gtime =
  t_year :: int
  t_month :: int
  t_day :: int
  t_hour :: int
  t_minute :: int
  t_second :: int
  t_nanos :: int
  t_offset_minutes :: int

datatype gkey = KNil | KBool bool | KInt int | KFloat string | KStr string

datatype gval =
    GNil
  | GBool bool
  | GInt int
  | GInt64 int
  | GFloat string
  | GStr string
  | GTime gtime
  | GNumber string
  | GList "gval list"
  | GStrs "string list"
  | GInts "int list"
  | GMap "(string \<times> gval) list"
  | GTypedMap "(string \<times> gval) list"
  | GAnyMap "(gkey \<times> gval) list"

record ResolvedFact =
  rf_Name :: string
  rf_Value :: gval
  rf_UserQuery :: string
  rf_Type :: string
  rf_File :: string

text \<open>A composite literal \<open>ResolvedFact{Name: n, Value: v}\<close>: the other fields are empty.\<close>

definition core_fact :: "string \<Rightarrow> gval \<Rightarrow> ResolvedFact" where
  "core_fact n v = \<lparr>rf_Name = n, rf_Value = v, rf_UserQuery = [], rf_Type = [], rf_File = []\<rparr>"

definition typed_fact :: "string \<Rightarrow> gval \<Rightarrow> string \<Rightarrow> ResolvedFact" where
  "typed_fact n v t = \<lparr>rf_Name = n, rf_Value = v, rf_UserQuery = [], rf_Type = t, rf_File = []\<rparr>"

lemma core_fact_sel [simp]:
  "rf_Name (core_fact n v) = n" "rf_Value (core_fact n v) = v"
  "rf_UserQuery (core_fact n v) = []" "rf_Type (core_fact n v) = []" "rf_File (core_fact n v) = []"
  by (simp_all add: core_fact_def)

lemma typed_fact_sel [simp]:
  "rf_Name (typed_fact n v t) = n" "rf_Value (typed_fact n v t) = v"
  "rf_UserQuery (typed_fact n v t) = []" "rf_Type (typed_fact n v t) = t"
  "rf_File (typed_fact n v t) = []"
  by (simp_all add: typed_fact_def)

definition is_gmap :: "gval \<Rightarrow> bool" where
  "is_gmap v = (case v of GMap _ \<Rightarrow> True | _ \<Rightarrow> False)"

lemma is_gmap_simps [simp]: "is_gmap (GMap m)" "\<not> is_gmap GNil"
  by (simp_all add: is_gmap_def)

lemma is_gmapE: "is_gmap v \<Longrightarrow> (\<And>m. v = GMap m \<Longrightarrow> P) \<Longrightarrow> P"
  by (cases v) (auto simp: is_gmap_def)

text \<open>\<open>fmt.Sprint\<close> of a map key. A float prints in the \<open>%g\<close> format.\<close>

definition exp_text :: "int \<Rightarrow> string" where
  "exp_text e = (let m = itoa \<bar>e\<bar>; m2 = (if length m < 2 then CHR ''0'' # m else m)
     in CHR ''e'' # (if e < 0 then CHR ''-'' else CHR ''+'') # m2)"

definition float_g :: "string \<Rightarrow> string" where
  "float_g t =
     (let neg = prefix ''-'' t; u = (if neg then drop 1 t else t);
          sign = (if neg then ''-'' else [])
      in if \<not> list_all (\<lambda>c. is_digit c \<or> c = DOT) u then t
         else
           (let (ip, fp) = (case cut u [DOT] of None \<Rightarrow> (u, []) | Some (a, b) \<Rightarrow> (a, b));
                ds = ip @ fp;
                lead = length (takeWhile (\<lambda>c. c = CHR ''0'') ds);
                sig = trim_right (drop lead ds) ''0'';
                e = int (length ip) - int lead - 1
            in if sig = [] then t
               else if e < -4 \<or> 6 \<le> e
               then sign @ take 1 sig @ (if length sig > 1 then DOT # drop 1 sig else [])
                      @ exp_text e
               else t))"

definition sprint_key :: "gkey \<Rightarrow> string" where
  "sprint_key k = (case k of KNil \<Rightarrow> ''<nil>'' | KBool b \<Rightarrow> (if b then ''true'' else ''false'')
     | KInt n \<Rightarrow> itoa n | KFloat t \<Rightarrow> float_g t | KStr s \<Rightarrow> s)"

text \<open>Well-formed values: every map inside has distinct keys.\<close>

fun wfv :: "gval \<Rightarrow> bool" where
  "wfv (GMap m) \<longleftrightarrow> distinct (map fst m) \<and> list_all (\<lambda>kv. wfv (snd kv)) m"
| "wfv (GTypedMap m) \<longleftrightarrow> distinct (map fst m) \<and> list_all (\<lambda>kv. wfv (snd kv)) m"
| "wfv (GAnyMap m) \<longleftrightarrow> distinct (map fst m) \<and> list_all (\<lambda>kv. wfv (snd kv)) m"
| "wfv (GList xs) \<longleftrightarrow> list_all wfv xs"
| "wfv _ \<longleftrightarrow> True"

lemma wfv_GMap_Nil [simp]: "wfv (GMap [])"
  by simp

lemma wfv_map_get: "wfv (GMap m) \<Longrightarrow> map_of m k = Some v \<Longrightarrow> wfv v"
  by (auto simp: list_all_iff dest!: map_of_SomeD)

lemma wfv_map_put: "wfv (GMap m) \<Longrightarrow> wfv v \<Longrightarrow> wfv (GMap (mput k v m))"
proof -
  assume m: "wfv (GMap m)" and v: "wfv v"
  then have d: "distinct (map fst (mput k v m))" by (simp add: distinct_update)
  have "wfv (snd kv)" if "kv \<in> set (mput k v m)" for kv
  proof -
    obtain a b where kv: "kv = (a, b)" by (cases kv)
    with that have "(a, b) \<in> set (mput k v m)" by simp
    with d have "map_of (mput k v m) a = Some b" by (rule map_of_is_SomeI)
    with v m show ?thesis by (auto simp: kv wfv_map_get split: if_splits)
  qed
  with d show ?thesis by (auto simp: list_all_iff)
qed

lemma wfv_map_del: "wfv (GMap m) \<Longrightarrow> wfv (GMap (mdel k m))"
  by (auto simp: list_all_iff AList.delete_eq distinct_map_filter)

end
