(* ===== verification/Env_Facts.thy ===== *)
theory Env_Facts
  imports Go_Value
begin

text \<open>
  The environment part of \<open>internal/engine/external.go\<close>: which environment variables become
  external facts, and the reserved control variable that feeds the disabled set. An
  environment is the list of its \<open>NAME=value\<close> entries, as \<open>os.Environ\<close> returns it.
\<close>

section \<open>Errors\<close>

text \<open>Go errors: the sentinels the engine compares with \<open>errors.Is\<close>, and wrapping by
  \<open>fmt.Errorf("...: %w")\<close> with the text in front.\<close>

datatype goerror =
    ErrNullByte
  | ErrExternalFactTooLarge
  | ErrNotExist
  | ErrPermission
  | ErrFactNotFound
  | ErrContext
  | ErrExternalFactExec
  | ErrExternalFactOpen
  | ErrText string
  | ErrWrap string goerror
  | ErrJoin goerror goerror

fun errors_is :: "goerror \<Rightarrow> goerror \<Rightarrow> bool" where
  "errors_is (ErrWrap s e) target \<longleftrightarrow> ErrWrap s e = target \<or> errors_is e target"
| "errors_is (ErrJoin a b) target \<longleftrightarrow> ErrJoin a b = target \<or> errors_is a target \<or> errors_is b target"
| "errors_is e target \<longleftrightarrow> e = target"

definition validateExternalString :: "string \<Rightarrow> goerror option" where
  "validateExternalString value = (if NUL \<in> set value then Some ErrNullByte else None)"

section \<open>Names\<close>

definition externalFactResolutionEnv :: string where
  "externalFactResolutionEnv = ''FACTER_EXTERNAL_FACTS_RUNNING''"

definition reservedDisableControlName :: string where
  "reservedDisableControlName = ''disable''"

definition isRubyWord :: "string \<Rightarrow> bool" where
  "isRubyWord s \<longleftrightarrow> s \<noteq> [] \<and> list_all (\<lambda>c. c = CHR ''_'' \<or> is_digit c \<or> is_lower c) s"

definition environmentPrefixes :: "(string \<times> bool) list" where
  "environmentPrefixes =
     [(''facts_'', True), (''facts'', True), (''facter_'', False), (''facter'', False)]"

text \<open>\<open>None\<close> where Go returns \<open>ok = false\<close>; the first prefix decides.\<close>

definition environmentFactName :: "string \<Rightarrow> (string \<times> bool) option" where
  "environmentFactName name =
     (let lowerName = to_lower name
      in case find (\<lambda>(p, native). prefix p lowerName) environmentPrefixes of
           None \<Rightarrow> None
         | Some (p, native) \<Rightarrow>
             (if isRubyWord (drop (length p) lowerName) then Some (drop (length p) name, native)
              else None))"

section \<open>Facts from the environment\<close>

fun envFactsLoop ::
  "string list \<Rightarrow> string gomap \<Rightarrow> bool gomap \<Rightarrow> goerror + string gomap" where
  "envFactsLoop [] values nativeNames = Inr values"
| "envFactsLoop (entry # env) values nativeNames =
     (case cut entry ''='' of
        None \<Rightarrow> envFactsLoop env values nativeNames
      | Some (name, value) \<Rightarrow>
          if name = externalFactResolutionEnv then envFactsLoop env values nativeNames
          else
            (case environmentFactName name of
               None \<Rightarrow> envFactsLoop env values nativeNames
             | Some (rawName, native) \<Rightarrow>
                 (let factName = to_lower rawName
                  in if factName = reservedDisableControlName then envFactsLoop env values nativeNames
                     else if validateExternalString factName \<noteq> None
                     then Inl (ErrWrap (''external fact name '' @ DQUOTE # factName @ [DQUOTE]) ErrNullByte)
                     else if validateExternalString value \<noteq> None
                     then Inl (ErrWrap (''external fact '' @ factName @ '' value'') ErrNullByte)
                     else if is_set nativeNames factName \<and> \<not> native
                     then envFactsLoop env values nativeNames
                     else envFactsLoop env (mput factName value values)
                            (if native then mput factName True nativeNames else nativeNames))))"

definition loadExternalEnvFacts :: "string list \<Rightarrow> goerror + ResolvedFact list" where
  "loadExternalEnvFacts env =
     (case envFactsLoop env [] [] of
        Inl e \<Rightarrow> Inl e
      | Inr values \<Rightarrow>
          Inr (map (\<lambda>key. typed_fact key (GStr (the (mget values key))) ''external'')
                 (sorted_keys values)))"

section \<open>The disable control variable\<close>

definition splitDisableList :: "string \<Rightarrow> string list" where
  "splitDisableList value =
     filter (\<lambda>part. part \<noteq> []) (map (\<lambda>part. to_lower (trim_space part)) (split_on (CHR '','') value))"

fun disabledControlLoop ::
  "string list \<Rightarrow> string option \<Rightarrow> string option \<Rightarrow> string option \<times> string option" where
  "disabledControlLoop [] native compatible = (native, compatible)"
| "disabledControlLoop (entry # env) native compatible =
     (case cut entry ''='' of
        None \<Rightarrow> disabledControlLoop env native compatible
      | Some (name, value) \<Rightarrow>
          (case environmentFactName name of
             None \<Rightarrow> disabledControlLoop env native compatible
           | Some (factName, isNative) \<Rightarrow>
               if to_lower factName \<noteq> reservedDisableControlName
               then disabledControlLoop env native compatible
               else if isNative then disabledControlLoop env (Some value) compatible
               else disabledControlLoop env native (Some value)))"

definition environmentDisabledFacts :: "string list \<Rightarrow> string list" where
  "environmentDisabledFacts env =
     (case disabledControlLoop env None None of
        (Some value, _) \<Rightarrow> splitDisableList value
      | (None, Some value) \<Rightarrow> splitDisableList value
      | (None, None) \<Rightarrow> [])"

section \<open>What the loops compute\<close>

text \<open>The fact assignments of an environment in order: name, native spelling, value.\<close>

definition assignment :: "string \<Rightarrow> (string \<times> bool \<times> string) option" where
  "assignment entry =
     (case cut entry ''='' of None \<Rightarrow> None
      | Some (name, value) \<Rightarrow>
          if name = externalFactResolutionEnv then None
          else map_option (\<lambda>(raw, native). (to_lower raw, native, value)) (environmentFactName name))"

definition assignments :: "string list \<Rightarrow> (string \<times> bool \<times> string) list" where
  "assignments env = List.map_filter assignment env"

text \<open>The assignment that decides a name: the last native one, else the last one.\<close>

definition winner :: "string \<Rightarrow> (string \<times> bool \<times> string) list \<Rightarrow> string option" where
  "winner n asg =
     (case find (\<lambda>(m, native, v). m = n \<and> native) (rev asg) of
        Some (m, native, v) \<Rightarrow> Some v
      | None \<Rightarrow> map_option (\<lambda>(m, native, v). v) (find (\<lambda>(m, native, v). m = n) (rev asg)))"

lemma winner_Nil [simp]: "winner n [] = None"
  by (simp add: winner_def)

lemma winner_snoc:
  "winner n (asg @ [(m, native, v)]) =
     (if m = n \<and> (native \<or> (\<forall>w. (n, True, w) \<notin> set asg)) then Some v else winner n asg)"
proof -
  have "find (\<lambda>(m, native, v). m = n \<and> native) (rev asg) = None \<longleftrightarrow> (\<forall>w. (n, True, w) \<notin> set asg)"
    by (auto simp: find_None_iff)
  then show ?thesis by (auto simp: winner_def split: option.splits)
qed

lemma winner_filter: "P n \<Longrightarrow> winner n (filter (\<lambda>(m, _). P m) asg) = winner n asg"
  by (induction asg rule: rev_induct) (auto simp: winner_snoc)

lemma winner_None: "winner n asg = None \<longleftrightarrow> (\<forall>native v. (n, native, v) \<notin> set asg)"
proof (induction asg rule: rev_induct)
  case (snoc a asg)
  obtain m native v where "a = (m, native, v)" by (cases a)
  with snoc show ?case by (cases "m = n"; cases native) (auto simp: winner_snoc)
qed simp

lemma winner_Some: "winner n asg = Some v \<Longrightarrow> \<exists>native. (n, native, v) \<in> set asg"
proof (induction asg rule: rev_induct)
  case (snoc a asg)
  obtain m native w where "a = (m, native, w)" by (cases a)
  with snoc show ?case by (auto simp: winner_snoc split: if_splits)
qed simp

lemma assignments_Cons:
  "assignments (entry # env) =
     (case assignment entry of None \<Rightarrow> assignments env | Some a \<Rightarrow> a # assignments env)"
  by (simp add: assignments_def List.map_filter_simps split: option.split)

lemma environmentFactName_word:
  assumes "environmentFactName name = Some (raw, native)"
  shows "isRubyWord (to_lower raw)"
proof (cases "find (\<lambda>(p, native). prefix p (to_lower name)) environmentPrefixes")
  case None
  with assms show ?thesis by (simp add: environmentFactName_def)
next
  case (Some pn)
  with assms show ?thesis
    by (auto simp: environmentFactName_def to_lower_drop split: if_splits prod.splits)
qed

lemma word_no_NUL: "isRubyWord s \<Longrightarrow> NUL \<notin> set s"
proof
  assume "isRubyWord s" and "NUL \<in> set s"
  then have "NUL = CHR ''_'' \<or> is_digit NUL \<or> is_lower NUL"
    unfolding isRubyWord_def list_all_iff by blast
  then show False by (simp add: is_digit_def is_lower_def)
qed

lemma word_lower: "isRubyWord s \<Longrightarrow> to_lower s = s"
proof -
  assume "isRubyWord s"
  then have "\<forall>c\<in>set s. c = CHR ''_'' \<or> is_digit c \<or> is_lower c"
    by (simp add: isRubyWord_def list_all_iff)
  moreover have "lower_char c = c" if "c = CHR ''_'' \<or> is_digit c \<or> is_lower c" for c
    using that by (auto simp: lower_char_def is_upper_def is_digit_def is_lower_def)
  ultimately show ?thesis unfolding to_lower_def by (intro map_idI) blast
qed

text \<open>Fact assignments: those of names other than the control name.\<close>

definition fact_assignments :: "string list \<Rightarrow> (string \<times> bool \<times> string) list" where
  "fact_assignments env = filter (\<lambda>(m, _). m \<noteq> reservedDisableControlName) (assignments env)"

lemma envFactsLoop_step:
  "envFactsLoop (entry # env) vals nativeNames =
     (case assignment entry of
        None \<Rightarrow> envFactsLoop env vals nativeNames
      | Some (n, native, v) \<Rightarrow>
          if n = reservedDisableControlName then envFactsLoop env vals nativeNames
          else if NUL \<in> set v then Inl (ErrWrap (''external fact '' @ n @ '' value'') ErrNullByte)
          else if is_set nativeNames n \<and> \<not> native then envFactsLoop env vals nativeNames
          else envFactsLoop env (mput n v vals)
                 (if native then mput n True nativeNames else nativeNames))"
proof (cases "cut entry ''=''")
  case None
  then show ?thesis by (simp add: assignment_def)
next
  case (Some nv)
  obtain name v where nv: "nv = (name, v)" by (cases nv)
  show ?thesis
  proof (cases "environmentFactName name")
    case None
    with Some nv show ?thesis by (simp add: assignment_def)
  next
    case (Some rn)
    obtain raw native where rn: "rn = (raw, native)" by (cases rn)
    with Some have "NUL \<notin> set (to_lower raw)"
      by (intro word_no_NUL environmentFactName_word) simp
    then show ?thesis using \<open>cut entry ''='' = Some nv\<close> Some
      by (simp add: assignment_def nv rn Let_def validateExternalString_def)
  qed
qed

lemma fact_assignments_Cons:
  "fact_assignments (entry # env) =
     (case assignment entry of None \<Rightarrow> fact_assignments env
      | Some (n, native, v) \<Rightarrow> if n = reservedDisableControlName then fact_assignments env
          else (n, native, v) # fact_assignments env)"
  by (auto simp: fact_assignments_def assignments_Cons split: option.splits)

lemma envFactsLoop_winner:
  assumes "\<forall>n. mget vals n = winner n asg"
    and "\<forall>n. is_set nativeNames n \<longleftrightarrow> (\<exists>v. (n, True, v) \<in> set asg)"
    and "envFactsLoop env vals nativeNames = Inr result"
  shows "mget result n = winner n (asg @ fact_assignments env)"
  using assms
proof (induction env arbitrary: vals nativeNames asg)
  case Nil
  then show ?case by (simp add: fact_assignments_def assignments_def List.map_filter_simps)
next
  case (Cons entry env)
  show ?case
  proof (cases "assignment entry")
    case None
    with Cons show ?thesis by (simp add: envFactsLoop_step fact_assignments_Cons del: envFactsLoop.simps)
  next
    case (Some a)
    obtain m native v where a: "a = (m, native, v)" by (cases a)
    show ?thesis
    proof (cases "m = reservedDisableControlName")
      case True
      with Cons Some a show ?thesis
        by (simp add: envFactsLoop_step fact_assignments_Cons del: envFactsLoop.simps)
    next
      case False
      then have f: "asg @ fact_assignments (entry # env) = (asg @ [(m, native, v)]) @ fact_assignments env"
        using Some a by (simp add: fact_assignments_Cons)
      let ?skip = "is_set nativeNames m \<and> \<not> native"
      let ?vals = "if ?skip then vals else mput m v vals"
      let ?nat = "if ?skip then nativeNames else if native then mput m True nativeNames else nativeNames"
      have loop: "envFactsLoop env ?vals ?nat = Inr result"
        using Cons.prems(3) False Some a
        by (auto simp: envFactsLoop_step simp del: envFactsLoop.simps split: if_splits)
      have "\<forall>n. mget ?vals n = winner n (asg @ [(m, native, v)])"
        using Cons.prems(1,2) by (auto simp: winner_snoc)
      moreover have "\<forall>n. is_set ?nat n \<longleftrightarrow> (\<exists>w. (n, True, w) \<in> set (asg @ [(m, native, v)]))"
        using Cons.prems(2) by (auto simp: is_set_def)
      ultimately show ?thesis unfolding f by (rule Cons.IH) (rule loop)
    qed
  qed
qed

lemma envFactsLoop_error:
  "(\<exists>e. envFactsLoop env vals nativeNames = Inl e) \<longleftrightarrow>
     (\<exists>(n, native, v)\<in>set (fact_assignments env). NUL \<in> set v)"
proof (induction env arbitrary: vals nativeNames)
  case Nil
  then show ?case by (simp add: fact_assignments_def assignments_def List.map_filter_simps)
next
  case (Cons entry env)
  then show ?case
    by (auto simp: envFactsLoop_step fact_assignments_Cons simp del: envFactsLoop.simps
        split: option.splits)
qed

lemma envFactsLoop_wf:
  "wfm vals \<Longrightarrow> envFactsLoop env vals nativeNames = Inr result \<Longrightarrow> wfm result"
proof (induction env arbitrary: vals nativeNames)
  case (Cons entry env)
  have a: "\<And>nn. envFactsLoop env vals nn = Inr result \<Longrightarrow> wfm result"
    by (rule Cons.IH [OF Cons.prems(1)])
  have b: "\<And>k v nn. envFactsLoop env (mput k v vals) nn = Inr result \<Longrightarrow> wfm result"
    by (rule Cons.IH) (simp_all add: Cons.prems(1))
  from Cons.prems(2) show ?case
    by (auto simp: envFactsLoop_step simp del: envFactsLoop.simps
        split: option.splits if_splits dest: a b)
qed simp

definition last_control :: "bool \<Rightarrow> (string \<times> bool \<times> string) list \<Rightarrow> string option" where
  "last_control b asg = map_option (\<lambda>(m, native, v). v)
     (find (\<lambda>(m, native, v). m = reservedDisableControlName \<and> native = b) (rev asg))"

lemma last_control_snoc:
  "last_control b (asg @ [(m, native, v)]) =
     (if m = reservedDisableControlName \<and> native = b then Some v else last_control b asg)"
  by (simp add: last_control_def)

lemma last_control_native: "last_control True asg = None \<longleftrightarrow>
    (\<forall>w. (reservedDisableControlName, True, w) \<notin> set asg)"
  by (auto simp: last_control_def find_None_iff)

lemma winner_control:
  "winner reservedDisableControlName asg =
     (case last_control True asg of Some v \<Rightarrow> Some v | None \<Rightarrow> last_control False asg)"
proof (induction asg rule: rev_induct)
  case Nil
  then show ?case by (simp add: last_control_def)
next
  case (snoc a asg)
  obtain m native v where a: "a = (m, native, v)" by (cases a)
  show ?case
    using snoc last_control_native [of asg]
    by (cases native) (auto simp: a winner_snoc last_control_snoc split: option.splits)
qed

lemma disabledControlLoop_step:
  "disabledControlLoop (entry # env) native compatible =
     (case assignment entry of
        Some (m, True, v) \<Rightarrow> if m = reservedDisableControlName
          then disabledControlLoop env (Some v) compatible else disabledControlLoop env native compatible
      | Some (m, False, v) \<Rightarrow> if m = reservedDisableControlName
          then disabledControlLoop env native (Some v) else disabledControlLoop env native compatible
      | None \<Rightarrow> disabledControlLoop env native compatible)"
proof -
  have "environmentFactName externalFactResolutionEnv = Some (''EXTERNAL_FACTS_RUNNING'', False)"
    by code_simp
  moreover have "to_lower ''EXTERNAL_FACTS_RUNNING'' \<noteq> reservedDisableControlName" by code_simp
  ultimately show ?thesis by (auto simp: assignment_def split: option.splits)
qed

lemma disabledControlLoop_eq:
  "disabledControlLoop env (last_control True asg) (last_control False asg) =
     (last_control True (asg @ assignments env), last_control False (asg @ assignments env))"
proof (induction env arbitrary: asg)
  case Nil
  then show ?case by (simp add: assignments_def List.map_filter_simps)
next
  case (Cons entry env)
  show ?case
  proof (cases "assignment entry")
    case None
    with Cons show ?thesis
      by (simp add: disabledControlLoop_step assignments_Cons del: disabledControlLoop.simps)
  next
    case (Some a)
    obtain m native v where a: "a = (m, native, v)" by (cases a)
    have "disabledControlLoop (entry # env) (last_control True asg) (last_control False asg) =
        disabledControlLoop env (last_control True (asg @ [a])) (last_control False (asg @ [a]))"
      by (cases native) (simp_all add: disabledControlLoop_step Some a last_control_snoc
          del: disabledControlLoop.simps)
    also have "\<dots> = (last_control True ((asg @ [a]) @ assignments env),
        last_control False ((asg @ [a]) @ assignments env))" by (rule Cons.IH)
    finally show ?thesis by (simp add: assignments_Cons Some)
  qed
qed

lemma splitDisableList_parts:
  "p \<in> set (splitDisableList value) \<Longrightarrow> p \<noteq> [] \<and> CHR '','' \<notin> set p \<and> to_lower p = p"
proof -
  assume "p \<in> set (splitDisableList value)"
  then obtain q where q: "q \<in> set (split_on (CHR '','') value)" "p = to_lower (trim_space q)" "p \<noteq> []"
    by (auto simp: splitDisableList_def)
  then have "CHR '','' \<notin> set (trim_space q)" using split_on_parts [OF q(1)] set_trim_space by blast
  then have "CHR '','' \<notin> set p" by (simp add: q(2) small_in_to_lower)
  with q show ?thesis by simp
qed

lemma loadExternalEnvFacts_eq:
  "(case loadExternalEnvFacts env of
      Inl e \<Rightarrow> (\<exists>(n, native, v)\<in>set (fact_assignments env). NUL \<in> set v)
    | Inr facts \<Rightarrow>
        list_all (\<lambda>(n, native, v). NUL \<notin> set v) (fact_assignments env) \<and>
        facts = map (\<lambda>n. typed_fact n (GStr (the (winner n (assignments env)))) ''external'')
                  (sorted_list_of_set (fst ` set (fact_assignments env))))"
proof (cases "envFactsLoop env [] []")
  case (Inl e)
  then show ?thesis using envFactsLoop_error [of env "[]" "[]"] by (simp add: loadExternalEnvFacts_def)
next
  case (Inr vals)
  have w: "mget vals n = winner n (fact_assignments env)" for n
    using envFactsLoop_winner [OF _ _ Inr, of "[]"] by (simp add: is_set_def)
  have "wfm vals" by (rule envFactsLoop_wf [OF _ Inr]) simp
  have keys: "fst ` set vals = fst ` set (fact_assignments env)"
  proof -
    have "n \<in> fst ` set vals \<longleftrightarrow> n \<in> fst ` set (fact_assignments env)" for n
    proof -
      have "n \<in> fst ` set vals \<longleftrightarrow> winner n (fact_assignments env) \<noteq> None"
        by (simp add: map_of_eq_None_iff w [symmetric])
      then show ?thesis by (force simp: winner_None)
    qed
    then show ?thesis by blast
  qed
  have sk: "sorted_keys vals = sorted_list_of_set (fst ` set (fact_assignments env))"
    using \<open>wfm vals\<close> keys
    by (metis distinct_sorted_keys set_sorted_keys sorted_list_of_set.idem_if_sorted_distinct
        sorted_sorted_keys)
  have "mget vals n = winner n (assignments env)" if "n \<in> fst ` set (fact_assignments env)" for n
    using that winner_filter [of "\<lambda>m. m \<noteq> reservedDisableControlName" n]
    by (auto simp: w fact_assignments_def)
  then have "map (\<lambda>n. typed_fact n (GStr (the (mget vals n))) ''external'') (sorted_keys vals) =
      map (\<lambda>n. typed_fact n (GStr (the (winner n (assignments env)))) ''external'')
        (sorted_list_of_set (fst ` set (fact_assignments env)))"
    by (simp add: sk)
  moreover have "list_all (\<lambda>(n, native, v). NUL \<notin> set v) (fact_assignments env)"
    using envFactsLoop_error [of env "[]" "[]"] Inr by (auto simp: list_all_iff)
  ultimately show ?thesis by (simp add: loadExternalEnvFacts_def Inr)
qed

lemma assignments_names:
  "(n, native, v) \<in> set (assignments env) \<Longrightarrow> isRubyWord n"
  by (induction env)
    (auto simp: assignments_Cons assignment_def assignments_def List.map_filter_simps
      dest: environmentFactName_word split: option.splits if_splits)

section \<open>Properties\<close>

text \<open>The environment facts are the deciding assignments: the list is sorted by name without
  repeats, never contains the control name, and gives every other assigned name the value of
  its last \<open>FACTS_\<close> variable, or of its last \<open>FACTER_\<close> variable when there is no native one.
  Loading fails exactly when some such value contains a NUL byte.\<close>

lemma loadExternalEnvFacts_spec:
  "(case loadExternalEnvFacts env of
      Inl e \<Rightarrow> (\<exists>(n, native, v)\<in>set (fact_assignments env). NUL \<in> set v)
    | Inr facts \<Rightarrow>
        list_all (\<lambda>(n, native, v). NUL \<notin> set v) (fact_assignments env) \<and>
        facts = map (\<lambda>n. typed_fact n (GStr (the (winner n (assignments env)))) ''external'')
                  (sorted_list_of_set (fst ` set (fact_assignments env))))"
  by (rule loadExternalEnvFacts_eq)

text \<open>The disabled names from the environment are the entries of one variable: the last
  \<open>FACTS_DISABLE\<close>, even an empty one, or else the last \<open>FACTER_DISABLE\<close>; every entry is
  lower case, not empty and without a comma.\<close>

lemma environmentDisabledFacts_spec:
  "environmentDisabledFacts env =
     (case winner ''disable'' (assignments env) of None \<Rightarrow> [] | Some v \<Rightarrow> splitDisableList v) \<and>
   list_all (\<lambda>p. p \<noteq> [] \<and> CHR '','' \<notin> set p \<and> to_lower p = p) (environmentDisabledFacts env)"
proof -
  have "disabledControlLoop env None None =
      (last_control True (assignments env), last_control False (assignments env))"
    using disabledControlLoop_eq [of env "[]"] by (simp add: last_control_def)
  then have "environmentDisabledFacts env =
     (case winner ''disable'' (assignments env) of None \<Rightarrow> [] | Some v \<Rightarrow> splitDisableList v)"
    using winner_control [of "assignments env"]
    by (auto simp: environmentDisabledFacts_def reservedDisableControlName_def split: option.splits)
  then show ?thesis using splitDisableList_parts by (auto simp: list_all_iff split: option.splits)
qed

text \<open>Splitting a disable list written from lower-case trimmed entries without commas gives
  the entries back.\<close>

lemma splitDisableList_join:
  assumes "list_all (\<lambda>p. p \<noteq> [] \<and> CHR '','' \<notin> set p \<and> to_lower p = p \<and> trim_space p = p) ps"
  shows "splitDisableList (join '','' ps) = ps"
proof (cases "ps = []")
  case True
  then show ?thesis by (simp add: splitDisableList_def trim_space_def)
next
  case False
  with assms have "split_on (CHR '','') (join '','' ps) = ps"
    by (intro split_on_join) (auto simp: list_all_iff)
  moreover have "map (\<lambda>part. to_lower (trim_space part)) ps = ps"
    using assms by (intro map_idI) (auto simp: list_all_iff)
  ultimately show ?thesis using assms by (auto simp: splitDisableList_def list_all_iff filter_id_conv)
qed

lemma splitDisableList_join_witness:
  "splitDisableList (join '','' [''os'', ''networking.ip'']) = [''os'', ''networking.ip'']"
  by (rule splitDisableList_join) code_simp

end
