(* ===== verification/Go_Library.thy ===== *)
theory Go_Library
  imports Env_Facts
begin

text \<open>
  The parts of Go's standard library that several components call: \<open>strconv.Quote\<close>,
  \<open>path/filepath\<close> with the separator of Unix, \<open>errors.Join\<close>, line scanning, and the
  severity levels of log records.
\<close>

section \<open>Quoting\<close>

definition hex_digit :: "nat \<Rightarrow> char" where
  "hex_digit n = (if n < 10 then char_of (48 + n) else char_of (87 + n))"

text \<open>\<open>strconv.Quote\<close> of a byte string; bytes above 0x7F stand for printable characters.\<close>

definition quote_char :: "char \<Rightarrow> string" where
  "quote_char c =
     (if c = DQUOTE then [BSLASH, DQUOTE] else if c = BSLASH then [BSLASH, BSLASH]
      else if code_of c = 7 then [BSLASH, CHR ''a''] else if code_of c = 8 then [BSLASH, CHR ''b'']
      else if code_of c = 9 then [BSLASH, CHR ''t''] else if code_of c = 10 then [BSLASH, CHR ''n'']
      else if code_of c = 11 then [BSLASH, CHR ''v''] else if code_of c = 12 then [BSLASH, CHR ''f'']
      else if code_of c = 13 then [BSLASH, CHR ''r'']
      else if code_of c < 32 \<or> code_of c = 127
      then [BSLASH, CHR ''x'', hex_digit (code_of c div 16), hex_digit (code_of c mod 16)]
      else [c])"

definition go_quote :: "string \<Rightarrow> string" where
  "go_quote s = DQUOTE # concat (map quote_char s) @ [DQUOTE]"

section \<open>Paths\<close>

abbreviation SLASH :: char where "SLASH \<equiv> CHR 0x2F"

fun clean_parts :: "bool \<Rightarrow> string list \<Rightarrow> string list \<Rightarrow> string list" where
  "clean_parts rooted out [] = rev out"
| "clean_parts rooted out (p # ps) =
     (if p = [] \<or> p = ''.'' then clean_parts rooted out ps
      else if p = ''..'' then
        (case out of
           [] \<Rightarrow> clean_parts rooted (if rooted then [] else [p]) ps
         | q # qs \<Rightarrow> if q = ''..'' then clean_parts rooted (p # out) ps else clean_parts rooted qs ps)
      else clean_parts rooted (p # out) ps)"

definition path_clean :: "string \<Rightarrow> string" where
  "path_clean path =
     (let rooted = has_prefix path [SLASH];
          body = join [SLASH] (clean_parts rooted [] (split_on SLASH path))
      in if rooted then SLASH # body else if body = [] then ''.'' else body)"

definition path_join :: "string \<Rightarrow> string \<Rightarrow> string" where
  "path_join a b = (if a = [] \<and> b = [] then [] else if a = [] then path_clean b
     else if b = [] then path_clean a else path_clean (a @ [SLASH] @ b))"

definition path_isAbs :: "string \<Rightarrow> bool" where
  "path_isAbs path \<longleftrightarrow> has_prefix path [SLASH]"

text \<open>The extension: from the last dot of the last path element on.\<close>

definition path_ext :: "string \<Rightarrow> string" where
  "path_ext path = (let elem = last (split_on SLASH path)
     in case last_index DOT elem of None \<Rightarrow> [] | Some i \<Rightarrow> drop i elem)"

definition path_base :: "string \<Rightarrow> string" where
  "path_base path =
     (if path = [] then ''.''
      else let p = trim_right path [SLASH] in if p = [] then [SLASH] else last (split_on SLASH p))"

section \<open>Errors and logs\<close>

fun errors_join :: "goerror list \<Rightarrow> goerror option" where
  "errors_join [] = None"
| "errors_join [e] = Some e"
| "errors_join (e # f # es) = (case errors_join (f # es) of None \<Rightarrow> Some e | Some g \<Rightarrow> Some (ErrJoin e g))"

datatype level = LevelDebug | LevelInfo | LevelWarn | LevelError

type_synonym log = "(level \<times> string) list"

section \<open>Lines\<close>

definition strip_cr :: "string \<Rightarrow> string" where
  "strip_cr s = trim_suffix s [CHR 0x0D]"

text \<open>The lines of \<open>bufio.ScanLines\<close>, before the carriage return at the end is dropped.\<close>

definition scan_lines :: "string \<Rightarrow> string list" where
  "scan_lines s = (let ls = split_on NL s in if last ls = [] then butlast ls else ls)"

section \<open>Lemmas\<close>

lemma errors_join_None [simp]: "errors_join es = None \<longleftrightarrow> es = []"
  by (induction es rule: errors_join.induct) (auto split: option.splits)

lemma errors_join_is:
  "errors_join es = Some e \<Longrightarrow> f \<in> set es \<Longrightarrow> errors_is f t \<Longrightarrow> errors_is e t"
proof (induction es arbitrary: e rule: errors_join.induct)
  case (3 a b es)
  then show ?case by (auto split: option.splits)
qed auto

lemma errors_is_refl [simp]: "errors_is e e"
  by (cases e) auto

lemma errors_is_wrap [simp]: "errors_is e t \<Longrightarrow> errors_is (ErrWrap s e) t"
  by simp

lemma path_clean_single:
  "SLASH \<notin> set name \<Longrightarrow> name \<noteq> [] \<Longrightarrow> path_clean name = name"
  by (auto simp: path_clean_def split_on_no_sep prefix_def Let_def)

section \<open>UTF-8\<close>

text \<open>The length of the valid UTF-8 character at the front, or 0.\<close>

definition utf8_size :: "string \<Rightarrow> nat" where
  "utf8_size s =
     (let b = (\<lambda>i. if i < length s then code_of (s ! i) else 0); cont = (\<lambda>i. 0x80 \<le> b i \<and> b i \<le> 0xBF)
      in if s = [] then 0
         else if b 0 < 0x80 then 1
         else if 0xC2 \<le> b 0 \<and> b 0 \<le> 0xDF \<and> cont 1 then 2
         else if ((b 0 = 0xE0 \<and> 0xA0 \<le> b 1 \<and> b 1 \<le> 0xBF) \<or> (b 0 = 0xED \<and> 0x80 \<le> b 1 \<and> b 1 \<le> 0x9F) \<or>
                  (0xE1 \<le> b 0 \<and> b 0 \<le> 0xEF \<and> b 0 \<noteq> 0xED \<and> cont 1)) \<and> cont 2 then 3
         else if ((b 0 = 0xF0 \<and> 0x90 \<le> b 1 \<and> b 1 \<le> 0xBF) \<or> (b 0 = 0xF4 \<and> 0x80 \<le> b 1 \<and> b 1 \<le> 0x8F) \<or>
                  (0xF1 \<le> b 0 \<and> b 0 \<le> 0xF3 \<and> cont 1)) \<and> cont 2 \<and> cont 3 then 4
         else 0)"

text \<open>The bytes after the first of a character are not ASCII.\<close>

lemma byte_there: "0x80 \<le> (if i < length s then code_of (s ! i) else 0) \<Longrightarrow> i < length s \<and> 0x80 \<le> code_of (s ! i)"
  by (simp split: if_splits)

lemma size_ladder:
  "(if a then 0 else if b then 1 else if c then 2 else if d then 3 else if e then 4 else 0) = (n :: nat) \<Longrightarrow>
   n = 0 \<or> n = 1 \<or> n = 2 \<and> c \<or> n = 3 \<and> d \<or> n = 4 \<and> e"
  by (simp split: if_splits)

lemma utf8_size_bytes:
  "\<forall>i\<in>{1..<utf8_size s}. i < length s \<and> 0x80 \<le> code_of (s ! i)"
proof -
  define b where "b = (\<lambda>i. if i < length s then code_of (s ! i) else 0)"
  have there: "0x80 \<le> b i \<Longrightarrow> i < length s \<and> 0x80 \<le> code_of (s ! i)" for i
    unfolding b_def by (rule byte_there)
  have sz: "utf8_size s = 0 \<or> utf8_size s = 1 \<or> utf8_size s = 2 \<and> 0x80 \<le> b 1 \<or>
      utf8_size s = 3 \<and> 0x80 \<le> b 1 \<and> 0x80 \<le> b 2 \<or>
      utf8_size s = 4 \<and> 0x80 \<le> b 1 \<and> 0x80 \<le> b 2 \<and> 0x80 \<le> b 3"
    using size_ladder [OF utf8_size_def [of s, unfolded Let_def, symmetric]]
    unfolding b_def by (elim disjE conjE) simp_all
  have "i = 1 \<or> i = 2 \<or> i = 3" if "i \<in> {1..<utf8_size s}" for i
    using sz that by (elim disjE conjE; force simp: less_Suc_eq numeral_eq_Suc)
  with sz there show ?thesis by fastforce
qed

lemma utf8_size_rest:
  assumes "0 < i" and "i < utf8_size s"
  shows "i < length s \<and> 0x80 \<le> code_of (s ! i)"
  using utf8_size_bytes [of s] assms by simp

end
