(* ===== verification/Platform_Profile.thy ===== *)
theory Platform_Profile
  imports Go_Prelude
begin

text \<open>
  \<open>internal/platform/profile.go\<close>: the table of target platforms - one definition per entry
  of the map - and the queries over it. The code's panic for an unknown id of the policy
  order is \<open>Profiles = None\<close>; it does not occur (\<open>Profiles_total\<close>).
\<close>

section \<open>Data\<close>

datatype SupportTier = SupportTierRelease | SupportTierLabValidated

record Target =
  tg_GOOS :: string
  tg_GOARCH :: string

record IdentityPolicy =
  ip_OSFamily :: string
  ip_OSName :: string
  ip_KernelName :: string

record CapabilityPolicy =
  cp_Filesystems :: bool
  cp_ZFS :: bool
  cp_OSRelease :: bool

record GateMetadata =
  gm_GOOS :: string
  gm_Name :: string
  gm_CIJob :: string
  gm_LocalTarget :: string
  gm_Script :: string
  gm_LabGuest :: string

record Profile =
  pp_ID :: string
  pp_Label :: string
  pp_SupportTier :: SupportTier
  pp_SchemaVisible :: bool
  pp_CompileTargets :: "Target list"
  pp_DistributionTargets :: "Target list"
  pp_Gate :: GateMetadata
  pp_Identity :: IdentityPolicy
  pp_Capabilities :: CapabilityPolicy

section \<open>The table\<close>

definition profile_linux :: Profile where
  "profile_linux = \<lparr>pp_ID = ''linux'', pp_Label = ''Linux'', pp_SupportTier = SupportTierRelease, pp_SchemaVisible = True,
     pp_CompileTargets = [\<lparr>tg_GOOS = ''linux'', tg_GOARCH = ''amd64''\<rparr>, \<lparr>tg_GOOS = ''linux'', tg_GOARCH = ''arm64''\<rparr>],
     pp_DistributionTargets = [\<lparr>tg_GOOS = ''linux'', tg_GOARCH = ''amd64''\<rparr>, \<lparr>tg_GOOS = ''linux'', tg_GOARCH = ''arm64''\<rparr>],
     pp_Gate = \<lparr>gm_GOOS = ''linux'',
       gm_Name = ''Linux GitHub-hosted runners and container workloads'',
       gm_CIJob = ''go_tests, linux_container_tests, linux_distro_fact_tests'',
       gm_LocalTarget = [],
       gm_Script = [], gm_LabGuest = []\<rparr>,
     pp_Identity = \<lparr>ip_OSFamily = ''Linux'', ip_OSName = ''Linux'', ip_KernelName = ''Linux''\<rparr>,
     pp_Capabilities = \<lparr>cp_Filesystems = True, cp_ZFS = False, cp_OSRelease = True\<rparr>\<rparr>"

definition profile_darwin :: Profile where
  "profile_darwin = \<lparr>pp_ID = ''darwin'', pp_Label = ''macOS / Darwin'', pp_SupportTier = SupportTierRelease, pp_SchemaVisible = True,
     pp_CompileTargets = [\<lparr>tg_GOOS = ''darwin'', tg_GOARCH = ''amd64''\<rparr>, \<lparr>tg_GOOS = ''darwin'', tg_GOARCH = ''arm64''\<rparr>],
     pp_DistributionTargets = [\<lparr>tg_GOOS = ''darwin'', tg_GOARCH = ''amd64''\<rparr>, \<lparr>tg_GOOS = ''darwin'', tg_GOARCH = ''arm64''\<rparr>],
     pp_Gate = \<lparr>gm_GOOS = ''darwin'',
       gm_Name = ''macOS GitHub-hosted runners'',
       gm_CIJob = ''go_tests'',
       gm_LocalTarget = [],
       gm_Script = [], gm_LabGuest = []\<rparr>,
     pp_Identity = \<lparr>ip_OSFamily = ''Darwin'', ip_OSName = ''Darwin'', ip_KernelName = ''Darwin''\<rparr>,
     pp_Capabilities = \<lparr>cp_Filesystems = True, cp_ZFS = False, cp_OSRelease = True\<rparr>\<rparr>"

definition profile_windows :: Profile where
  "profile_windows = \<lparr>pp_ID = ''windows'', pp_Label = ''Windows'', pp_SupportTier = SupportTierRelease, pp_SchemaVisible = True,
     pp_CompileTargets = [\<lparr>tg_GOOS = ''windows'', tg_GOARCH = ''amd64''\<rparr>, \<lparr>tg_GOOS = ''windows'', tg_GOARCH = ''arm64''\<rparr>],
     pp_DistributionTargets = [\<lparr>tg_GOOS = ''windows'', tg_GOARCH = ''amd64''\<rparr>, \<lparr>tg_GOOS = ''windows'', tg_GOARCH = ''arm64''\<rparr>],
     pp_Gate = \<lparr>gm_GOOS = ''windows'',
       gm_Name = ''Windows release gate'',
       gm_CIJob = ''go_tests'',
       gm_LocalTarget = ''go test ./... on Windows runner'',
       gm_Script = ''tools/windows-release-gate.ps1'', gm_LabGuest = []\<rparr>,
     pp_Identity = \<lparr>ip_OSFamily = ''windows'', ip_OSName = ''windows'', ip_KernelName = ''windows''\<rparr>,
     pp_Capabilities = \<lparr>cp_Filesystems = False, cp_ZFS = False, cp_OSRelease = True\<rparr>\<rparr>"

definition profile_freebsd :: Profile where
  "profile_freebsd = \<lparr>pp_ID = ''freebsd'', pp_Label = ''FreeBSD'', pp_SupportTier = SupportTierRelease, pp_SchemaVisible = True,
     pp_CompileTargets = [\<lparr>tg_GOOS = ''freebsd'', tg_GOARCH = ''amd64''\<rparr>, \<lparr>tg_GOOS = ''freebsd'', tg_GOARCH = ''arm''\<rparr>, \<lparr>tg_GOOS = ''freebsd'', tg_GOARCH = ''arm64''\<rparr>],
     pp_DistributionTargets = [\<lparr>tg_GOOS = ''freebsd'', tg_GOARCH = ''amd64''\<rparr>, \<lparr>tg_GOOS = ''freebsd'', tg_GOARCH = ''arm''\<rparr>, \<lparr>tg_GOOS = ''freebsd'', tg_GOARCH = ''arm64''\<rparr>],
     pp_Gate = \<lparr>gm_GOOS = ''freebsd'',
       gm_Name = ''FreeBSD release gate'',
       gm_CIJob = ''freebsd_tests'',
       gm_LocalTarget = ''lima-freebsd-smoke, local-freebsd-amd64-smoke'',
       gm_Script = ''tools/freebsd-release-gate.sh'', gm_LabGuest = ''freebsd''\<rparr>,
     pp_Identity = \<lparr>ip_OSFamily = ''FreeBSD'', ip_OSName = ''FreeBSD'', ip_KernelName = ''FreeBSD''\<rparr>,
     pp_Capabilities = \<lparr>cp_Filesystems = False, cp_ZFS = True, cp_OSRelease = True\<rparr>\<rparr>"

definition profile_openbsd :: Profile where
  "profile_openbsd = \<lparr>pp_ID = ''openbsd'', pp_Label = ''OpenBSD'', pp_SupportTier = SupportTierRelease, pp_SchemaVisible = True,
     pp_CompileTargets = [\<lparr>tg_GOOS = ''openbsd'', tg_GOARCH = ''amd64''\<rparr>, \<lparr>tg_GOOS = ''openbsd'', tg_GOARCH = ''arm''\<rparr>, \<lparr>tg_GOOS = ''openbsd'', tg_GOARCH = ''arm64''\<rparr>],
     pp_DistributionTargets = [\<lparr>tg_GOOS = ''openbsd'', tg_GOARCH = ''amd64''\<rparr>, \<lparr>tg_GOOS = ''openbsd'', tg_GOARCH = ''arm''\<rparr>, \<lparr>tg_GOOS = ''openbsd'', tg_GOARCH = ''arm64''\<rparr>],
     pp_Gate = \<lparr>gm_GOOS = ''openbsd'',
       gm_Name = ''OpenBSD release gate'',
       gm_CIJob = ''openbsd_tests'',
       gm_LocalTarget = ''local-openbsd-smoke, local-openbsd-amd64-smoke'',
       gm_Script = ''tools/openbsd-release-gate.sh'', gm_LabGuest = ''openbsd''\<rparr>,
     pp_Identity = \<lparr>ip_OSFamily = ''OpenBSD'', ip_OSName = ''OpenBSD'', ip_KernelName = ''OpenBSD''\<rparr>,
     pp_Capabilities = \<lparr>cp_Filesystems = False, cp_ZFS = False, cp_OSRelease = True\<rparr>\<rparr>"

definition profile_netbsd :: Profile where
  "profile_netbsd = \<lparr>pp_ID = ''netbsd'', pp_Label = ''NetBSD'', pp_SupportTier = SupportTierRelease, pp_SchemaVisible = True,
     pp_CompileTargets = [\<lparr>tg_GOOS = ''netbsd'', tg_GOARCH = ''amd64''\<rparr>, \<lparr>tg_GOOS = ''netbsd'', tg_GOARCH = ''arm''\<rparr>, \<lparr>tg_GOOS = ''netbsd'', tg_GOARCH = ''arm64''\<rparr>],
     pp_DistributionTargets = [\<lparr>tg_GOOS = ''netbsd'', tg_GOARCH = ''amd64''\<rparr>, \<lparr>tg_GOOS = ''netbsd'', tg_GOARCH = ''arm''\<rparr>, \<lparr>tg_GOOS = ''netbsd'', tg_GOARCH = ''arm64''\<rparr>],
     pp_Gate = \<lparr>gm_GOOS = ''netbsd'',
       gm_Name = ''NetBSD release gate'',
       gm_CIJob = ''netbsd_tests'',
       gm_LocalTarget = ''local-netbsd-smoke, local-netbsd-amd64-smoke'',
       gm_Script = ''tools/netbsd-release-gate.sh'', gm_LabGuest = ''netbsd''\<rparr>,
     pp_Identity = \<lparr>ip_OSFamily = ''NetBSD'', ip_OSName = ''NetBSD'', ip_KernelName = ''NetBSD''\<rparr>,
     pp_Capabilities = \<lparr>cp_Filesystems = False, cp_ZFS = True, cp_OSRelease = True\<rparr>\<rparr>"

definition profile_dragonfly :: Profile where
  "profile_dragonfly = \<lparr>pp_ID = ''dragonfly'', pp_Label = ''DragonFly BSD'', pp_SupportTier = SupportTierRelease, pp_SchemaVisible = True,
     pp_CompileTargets = [\<lparr>tg_GOOS = ''dragonfly'', tg_GOARCH = ''amd64''\<rparr>],
     pp_DistributionTargets = [\<lparr>tg_GOOS = ''dragonfly'', tg_GOARCH = ''amd64''\<rparr>],
     pp_Gate = \<lparr>gm_GOOS = ''dragonfly'',
       gm_Name = ''DragonFly BSD release gate'',
       gm_CIJob = ''dragonfly_tests'',
       gm_LocalTarget = ''local-dragonfly-amd64-smoke'',
       gm_Script = ''tools/dragonfly-release-gate.sh'', gm_LabGuest = ''dragonfly''\<rparr>,
     pp_Identity = \<lparr>ip_OSFamily = ''DragonFly'', ip_OSName = ''DragonFly'', ip_KernelName = ''DragonFly''\<rparr>,
     pp_Capabilities = \<lparr>cp_Filesystems = False, cp_ZFS = False, cp_OSRelease = True\<rparr>\<rparr>"

definition profile_illumos :: Profile where
  "profile_illumos = \<lparr>pp_ID = ''illumos'', pp_Label = ''illumos'', pp_SupportTier = SupportTierRelease, pp_SchemaVisible = True,
     pp_CompileTargets = [\<lparr>tg_GOOS = ''illumos'', tg_GOARCH = ''amd64''\<rparr>],
     pp_DistributionTargets = [\<lparr>tg_GOOS = ''illumos'', tg_GOARCH = ''amd64''\<rparr>],
     pp_Gate = \<lparr>gm_GOOS = ''illumos'',
       gm_Name = ''illumos release gate through OmniOS'',
       gm_CIJob = ''omnios_tests'',
       gm_LocalTarget = ''local-illumos-amd64-smoke'',
       gm_Script = ''tools/illumos-release-gate.sh'', gm_LabGuest = ''omnios''\<rparr>,
     pp_Identity = \<lparr>ip_OSFamily = ''illumos'', ip_OSName = ''illumos'', ip_KernelName = ''SunOS''\<rparr>,
     pp_Capabilities = \<lparr>cp_Filesystems = False, cp_ZFS = True, cp_OSRelease = True\<rparr>\<rparr>"

definition profile_plan9 :: Profile where
  "profile_plan9 = \<lparr>pp_ID = ''plan9'', pp_Label = ''Plan 9'', pp_SupportTier = SupportTierLabValidated, pp_SchemaVisible = True,
     pp_CompileTargets = [\<lparr>tg_GOOS = ''plan9'', tg_GOARCH = ''amd64''\<rparr>],
     pp_DistributionTargets = [],
     pp_Gate = \<lparr>gm_GOOS = ''plan9'',
       gm_Name = ''Plan 9 lab release gate'',
       gm_CIJob = [],
       gm_LocalTarget = [],
       gm_Script = ''tools/plan9-release-gate.rc'', gm_LabGuest = ''plan9''\<rparr>,
     pp_Identity = \<lparr>ip_OSFamily = ''Plan 9'', ip_OSName = ''Plan 9'', ip_KernelName = ''Plan 9''\<rparr>,
     pp_Capabilities = \<lparr>cp_Filesystems = False, cp_ZFS = False, cp_OSRelease = False\<rparr>\<rparr>"

definition profileOrder :: "string list" where
  "profileOrder = [''linux'', ''darwin'', ''windows'', ''freebsd'', ''openbsd'', ''netbsd'', ''dragonfly'', ''illumos'', ''plan9'']"

definition profiles :: "Profile gomap" where
  "profiles = [(''linux'', profile_linux),
     (''darwin'', profile_darwin),
     (''windows'', profile_windows),
     (''freebsd'', profile_freebsd),
     (''openbsd'', profile_openbsd),
     (''netbsd'', profile_netbsd),
     (''dragonfly'', profile_dragonfly),
     (''illumos'', profile_illumos),
     (''plan9'', profile_plan9)]"

section \<open>Queries\<close>

definition Lookup :: "string \<Rightarrow> Profile option" where
  "Lookup goos = mget profiles goos"

fun profilesInOrder :: "string list \<Rightarrow> Profile list option" where
  "profilesInOrder [] = Some []"
| "profilesInOrder (pid # pids) =
     (case mget profiles pid of
        None \<Rightarrow> None
      | Some p \<Rightarrow> map_option (\<lambda>ps. p # ps) (profilesInOrder pids))"

definition Profiles :: "Profile list option" where
  "Profiles = profilesInOrder profileOrder"

definition SchemaVisibleProfiles :: "Profile list option" where
  "SchemaVisibleProfiles = map_option (filter pp_SchemaVisible) Profiles"

definition CompileTargets :: "Target list option" where
  "CompileTargets = map_option (\<lambda>ps. concat (map pp_CompileTargets ps)) Profiles"

definition DistributionTargets :: "Target list option" where
  "DistributionTargets = map_option (\<lambda>ps. concat (map pp_DistributionTargets ps)) Profiles"

definition NativeGates :: "GateMetadata list option" where
  "NativeGates = map_option (\<lambda>ps. map pp_Gate (filter (\<lambda>p. gm_Name (pp_Gate p) \<noteq> []) ps)) Profiles"

section \<open>Consistency of the table\<close>

lemma Profiles_total: "Profiles = Some (map snd profiles)"
  by code_simp

text \<open>The table is consistent: the policy order lists every profile once, each under its own
  id; the targets and the gate of a profile carry its id; every published target is also
  compiled; only released platforms publish anything; no two compile targets coincide.\<close>

lemma profiles_consistent:
  "distinct profileOrder \<and> profileOrder = map fst profiles \<and>
   list_all (\<lambda>(pid, p). pp_ID p = pid \<and> gm_GOOS (pp_Gate p) = pid \<and>
     list_all (\<lambda>t. tg_GOOS t = pid) (pp_CompileTargets p) \<and>
     list_all (\<lambda>t. t \<in> set (pp_CompileTargets p)) (pp_DistributionTargets p) \<and>
     (pp_DistributionTargets p \<noteq> []) = (pp_SupportTier p = SupportTierRelease)) profiles \<and>
   distinct (the CompileTargets) \<and> length (the NativeGates) = length profiles"
  by code_simp

end
