(* ===== verification/Schema.thy ===== *)
theory Schema
  imports Go_Library Platform_Profile
begin

text \<open>
  \<open>internal/schema/schema.go\<close>: the documented-facts schema, its validation, the flattening of a
  canonical tree to leaf paths, and the two comparisons between emitted paths and schema
  entries. Decoding the YAML file is the caller's: a schema is the decoded map.
\<close>

section \<open>Data\<close>

record Entry =
  en_Type :: string
  en_Description :: string
  en_Platforms :: "string list"
  en_Conditional :: bool
  en_OpenSubtree :: bool

type_synonym Schema = "Entry gomap"

record Platform =
  pl_ID :: string
  pl_Label :: string

record Item =
  it_Path :: string
  it_Entry :: Entry

definition schemaTypes :: "string list" where
  "schemaTypes = [''string'', ''integer'', ''double'', ''boolean'', ''map'', ''array'']"

definition Platforms :: "Platform list" where
  "Platforms = map (\<lambda>p. \<lparr>pl_ID = pp_ID p, pl_Label = pp_Label p\<rparr>)
     (case SchemaVisibleProfiles of Some ps \<Rightarrow> ps | None \<Rightarrow> [])"

definition schemaPlatformIDs :: "string list" where
  "schemaPlatformIDs = map pl_ID Platforms"

definition Patterns :: "Schema \<Rightarrow> string list" where
  "Patterns s = sorted_keys s"

section \<open>Paths\<close>

definition STAR :: string where "STAR = ''*''"

definition escapeSegment :: "string \<Rightarrow> string" where
  "escapeSegment segment =
     replace_all (replace_all segment [BSLASH] [BSLASH, BSLASH]) [DOT] [BSLASH, DOT]"

definition joinPath :: "string \<Rightarrow> string \<Rightarrow> string" where
  "joinPath pre key =
     (if pre = [] then escapeSegment key else pre @ ''.'' @ escapeSegment key)"

definition joinEscapedSegments :: "string list \<Rightarrow> string" where
  "joinEscapedSegments segments = join ''.'' (map escapeSegment segments)"

text \<open>The loop of \<open>splitPath\<close>: the segment being built, the escape flag and the rest.\<close>

fun splitPathFrom :: "string \<Rightarrow> bool \<Rightarrow> string \<Rightarrow> string list" where
  "splitPathFrom seg esc [] = [if esc then seg @ [BSLASH] else seg]"
| "splitPathFrom seg esc (r # rs) =
     (if esc then splitPathFrom (seg @ [r]) False rs
      else if r = BSLASH then splitPathFrom seg True rs
      else if r = DOT then seg # splitPathFrom [] False rs
      else splitPathFrom (seg @ [r]) False rs)"

definition splitPath :: "string \<Rightarrow> string list" where
  "splitPath path = splitPathFrom [] False path"

text \<open>The slices and typed slices of a value give a \<open>path.*\<close> marker.\<close>

definition leafPath :: "string \<Rightarrow> gval \<Rightarrow> string" where
  "leafPath pre v = (case v of GList _ \<Rightarrow> pre @ ''.*'' | GStrs _ \<Rightarrow> pre @ ''.*'' | GInts _ \<Rightarrow> pre @ ''.*''
     | _ \<Rightarrow> pre)"

fun walk :: "string \<Rightarrow> gval \<Rightarrow> string list" where
  "walk pre (GMap m) =
     (if m = [] then [pre]
      else concat (map (\<lambda>kv. walk (joinPath pre (fst kv)) (snd kv)) m))"
| "walk pre v = [leafPath pre v]"

definition FlattenTree :: "gval gomap \<Rightarrow> string list" where
  "FlattenTree tree = sort (concat (map (\<lambda>kv. walk (escapeSegment (fst kv)) (snd kv)) tree))"

section \<open>Matching\<close>

fun matchSegments :: "string list \<Rightarrow> string list \<Rightarrow> bool" where
  "matchSegments [] [] \<longleftrightarrow> True"
| "matchSegments (p # ps) (s # ss) \<longleftrightarrow> (p = STAR \<or> p = s) \<and> matchSegments ps ss"
| "matchSegments _ _ \<longleftrightarrow> False"

definition MatchesPath :: "string \<Rightarrow> Entry \<Rightarrow> string \<Rightarrow> bool" where
  "MatchesPath pattern entry path =
     (let ps = splitPath pattern; ss = splitPath path
      in if matchSegments ps ss then True
         else if en_Type entry = ''array'' \<and> length ss = length ps + 1 \<and> last ss = STAR
         then matchSegments ps (take (length ps) ss)
         else if \<not> en_OpenSubtree entry \<or> (en_Type entry \<noteq> ''map'' \<and> en_Type entry \<noteq> ''array'') \<or>
           length ps \<ge> length ss then False
         else matchSegments ps (take (length ps) ss))"

definition PlatformsInclude :: "string list \<Rightarrow> string \<Rightarrow> bool" where
  "PlatformsInclude platforms platform = list_ex (\<lambda>candidate. candidate = platform) platforms"

definition EntriesForPlatform :: "Schema \<Rightarrow> string \<Rightarrow> Item list" where
  "EntriesForPlatform s platform =
     List.map_filter (\<lambda>path. case mget s path of
         Some entry \<Rightarrow> (if PlatformsInclude (en_Platforms entry) platform
                        then Some \<lparr>it_Path = path, it_Entry = entry\<rparr> else None)
       | None \<Rightarrow> None) (Patterns s)"

definition UndocumentedPaths :: "Schema \<Rightarrow> string list \<Rightarrow> string \<Rightarrow> string list" where
  "UndocumentedPaths s paths platform =
     filter (\<lambda>path. \<not> list_ex (\<lambda>(pattern, entry). PlatformsInclude (en_Platforms entry) platform \<and>
         MatchesPath pattern entry path) s) paths"

definition lastSegmentIndex :: "string list \<Rightarrow> string \<Rightarrow> nat option" where
  "lastSegmentIndex segments target = find (\<lambda>i. segments ! i = target) (rev [0..<length segments])"

definition concreteSegments :: "string list \<Rightarrow> nat \<Rightarrow> string list \<Rightarrow> string list option" where
  "concreteSegments pattern lastWildcard ss =
     (if length ss \<le> lastWildcard then None
      else if list_all (\<lambda>i. pattern ! i = STAR \<or> pattern ! i = ss ! i) [0..<Suc lastWildcard]
      then Some (map (\<lambda>i. if i \<le> lastWildcard \<and> pattern ! i = STAR then ss ! i else pattern ! i)
                  [0..<length pattern])
      else None)"

definition concreteWildcardPatterns :: "string list \<Rightarrow> string list \<Rightarrow> string list" where
  "concreteWildcardPatterns pattern paths =
     (case lastSegmentIndex pattern STAR of
        None \<Rightarrow> []
      | Some lastWildcard \<Rightarrow>
          sort (remdups (map joinEscapedSegments
            (List.map_filter (\<lambda>path. concreteSegments pattern lastWildcard (splitPath path)) paths))))"

definition schemaEntryPresent :: "string \<Rightarrow> Entry \<Rightarrow> string list \<Rightarrow> bool" where
  "schemaEntryPresent pattern entry paths =
     (let ps = splitPath pattern; anyMatch = (\<lambda>p. list_ex (MatchesPath p entry) paths)
      in case lastSegmentIndex ps STAR of
           None \<Rightarrow> anyMatch pattern
         | Some i \<Rightarrow>
             (if i = length ps - 1 then anyMatch pattern
              else let concrete = concreteWildcardPatterns ps paths
                   in concrete \<noteq> [] \<and> list_all anyMatch concrete))"

definition wildcardPrefixAbsent :: "string \<Rightarrow> string list \<Rightarrow> bool" where
  "wildcardPrefixAbsent pattern paths =
     (let ps = splitPath pattern
      in case lastSegmentIndex ps STAR of
           None \<Rightarrow> False
         | Some i \<Rightarrow>
             i \<noteq> length ps - 1 \<and>
             \<not> list_ex (\<lambda>path. let ss = splitPath path
                  in length ss > i \<and> matchSegments (take i ps) (take i ss)) paths)"

definition MissingEntries :: "Schema \<Rightarrow> string list \<Rightarrow> string \<Rightarrow> string list" where
  "MissingEntries s paths platform =
     filter (\<lambda>pattern. case mget s pattern of None \<Rightarrow> False
       | Some entry \<Rightarrow>
           \<not> en_Conditional entry \<and> PlatformsInclude (en_Platforms entry) platform \<and>
           \<not> wildcardPrefixAbsent pattern paths \<and> \<not> schemaEntryPresent pattern entry paths) (Patterns s)"

section \<open>Validation\<close>

fun platformErrors :: "string \<Rightarrow> string list \<Rightarrow> string list \<Rightarrow> goerror list" where
  "platformErrors pattern seen [] = []"
| "platformErrors pattern seen (platform # rest) =
     (if \<not> (platform \<in> set schemaPlatformIDs)
      then [ErrText (''entry '' @ go_quote pattern @ '' lists invalid platform '' @ go_quote platform)] else []) @
     (if platform \<in> set seen
      then [ErrText (''entry '' @ go_quote pattern @ '' lists platform '' @ go_quote platform @ '' twice'')] else []) @
     platformErrors pattern (platform # seen) rest"

definition entryErrors :: "string \<Rightarrow> Entry \<Rightarrow> goerror list" where
  "entryErrors pattern entry =
     (if trim_space pattern = [] then [ErrText ''entry has empty path''] else []) @
     (if \<not> (en_Type entry \<in> set schemaTypes)
      then [ErrText (''entry '' @ go_quote pattern @ '' has invalid type '' @ go_quote (en_Type entry))] else []) @
     (if trim_space (en_Description entry) = []
      then [ErrText (''entry '' @ go_quote pattern @ '' has no description'')] else []) @
     (if en_Platforms entry = [] then [ErrText (''entry '' @ go_quote pattern @ '' lists no platforms'')] else []) @
     platformErrors pattern [] (en_Platforms entry) @
     (if en_OpenSubtree entry \<and> en_Type entry \<noteq> ''map'' \<and> en_Type entry \<noteq> ''array''
      then [ErrText (''entry '' @ go_quote pattern @ '' open_subtree requires type map or array'')] else [])"

definition Validate :: "Schema \<Rightarrow> goerror option" where
  "Validate s =
     (if s = [] then Some (ErrText ''schema has no entries'')
      else errors_join (concat (map (\<lambda>pattern. case mget s pattern of
             Some entry \<Rightarrow> entryErrors pattern entry | None \<Rightarrow> []) (Patterns s))))"

text \<open>\<open>Parse\<close> after the decoder: the first document, and whether a second one follows.\<close>

definition Parse :: "goerror + Schema \<Rightarrow> goerror option \<Rightarrow> bool \<Rightarrow> goerror + Schema" where
  "Parse decoded extraErr extraIsEOF =
     (case decoded of
        Inl e \<Rightarrow> Inl e
      | Inr s \<Rightarrow>
          (if \<not> extraIsEOF
           then Inl (case extraErr of None \<Rightarrow> ErrText ''schema contains multiple YAML documents'' | Some e \<Rightarrow> e)
           else case Validate s of Some e \<Rightarrow> Inl e | None \<Rightarrow> Inr s))"

definition LoadFile :: "goerror + string \<Rightarrow> (string \<Rightarrow> goerror + Schema) \<Rightarrow> goerror + Schema" where
  "LoadFile readResult parse =
     (case readResult of
        Inl e \<Rightarrow> Inl (ErrWrap ''read schema'' e)
      | Inr data \<Rightarrow> (case parse data of Inl e \<Rightarrow> Inl (ErrWrap ''parse schema'' e) | Inr s \<Rightarrow> Inr s))"

section \<open>Escaping and splitting\<close>

lemma replace_all_char [go_str]:
  "replace_all s [c] r = concat (map (\<lambda>x. if x = c then r else [x]) s)"
  unfolding replace_all_def by (induction s) auto

definition escapeChar :: "char \<Rightarrow> string" where
  "escapeChar c = (if c = BSLASH \<or> c = DOT then [BSLASH, c] else [c])"

lemma escapeSegment_chars: "escapeSegment s = concat (map escapeChar s)"
  by (simp add: escapeSegment_def replace_all_char) (induction s; simp add: escapeChar_def)

lemma escapeSegment_simps [simp]:
  "escapeSegment [] = []"
  "escapeSegment (c # cs) = escapeChar c @ escapeSegment cs"
  by (simp_all add: escapeSegment_chars)

lemma escapeSegment_Nil_iff [simp]: "escapeSegment s = [] \<longleftrightarrow> s = []"
  by (cases s) (simp_all add: escapeChar_def)


lemma splitPathFrom_escaped:
  "splitPathFrom seg False (escapeSegment s @ rest) = splitPathFrom (seg @ s) False rest"
  by (induction s arbitrary: seg) (simp_all add: escapeChar_def)

lemma joinEscapedSegments_simps:
  "joinEscapedSegments [] = []"
  "joinEscapedSegments [s] = escapeSegment s"
  "joinEscapedSegments (s # t # ss) = escapeSegment s @ DOT # joinEscapedSegments (t # ss)"
  by (simp_all add: joinEscapedSegments_def)

lemma splitPathFrom_join:
  "splitPathFrom seg False (joinEscapedSegments (s # ss)) = (seg @ s) # ss"
proof (induction ss arbitrary: s seg)
  case Nil
  then show ?case using splitPathFrom_escaped [of seg s "[]"] by (simp add: joinEscapedSegments_simps)
next
  case (Cons t ss)
  then show ?case by (simp add: joinEscapedSegments_simps splitPathFrom_escaped)
qed

lemma splitPath_join: "segments \<noteq> [] \<Longrightarrow> splitPath (joinEscapedSegments segments) = segments"
  by (cases segments) (simp_all add: splitPath_def splitPathFrom_join)



section \<open>Flattening\<close>




text \<open>Paths round-trip: a path built from escaped segments splits into these segments, whatever
  dots, backslashes or stars the segments contain.\<close>

lemma splitPath_roundtrip:
  "splitPath (joinEscapedSegments (s # ss)) = s # ss"
  by (simp add: splitPath_join)



text \<open>An empty top-level key is dropped from the paths below it, so two leaves share a path.\<close>

lemma FlattenTree_empty_key:
  "FlattenTree [([], GMap [(''a'', GInt 1)]), (''a'', GInt 2)] = [''a'', ''a'']"
  by code_simp

section \<open>What validation accepts\<close>

lemma platformErrors_Nil:
  "platformErrors pattern seen ps = [] \<longleftrightarrow>
     set ps \<subseteq> set schemaPlatformIDs \<and> distinct ps \<and> set ps \<inter> set seen = {}"
  by (induction pattern seen ps rule: platformErrors.induct) auto

text \<open>Validation accepts a schema exactly when it has an entry and every entry has a path, a type
  of the vocabulary, a description and at least one platform, names only visible platforms
  and each once, and is an open subtree only if it is a map or an array.\<close>

lemma Validate_accepts:
  assumes "wfm s"
  shows "(Validate s = None) \<longleftrightarrow> s \<noteq> [] \<and>
     list_all (\<lambda>(pattern, entry). trim_space pattern \<noteq> [] \<and> en_Type entry \<in> set schemaTypes \<and>
       trim_space (en_Description entry) \<noteq> [] \<and> en_Platforms entry \<noteq> [] \<and>
       set (en_Platforms entry) \<subseteq> set schemaPlatformIDs \<and> distinct (en_Platforms entry) \<and>
       (if en_OpenSubtree entry then en_Type entry = ''map'' \<or> en_Type entry = ''array'' else True)) s"
proof -
  have e: "entryErrors pattern entry = [] \<longleftrightarrow>
      trim_space pattern \<noteq> [] \<and> en_Type entry \<in> set schemaTypes \<and>
      trim_space (en_Description entry) \<noteq> [] \<and> en_Platforms entry \<noteq> [] \<and>
      set (en_Platforms entry) \<subseteq> set schemaPlatformIDs \<and> distinct (en_Platforms entry) \<and>
      (if en_OpenSubtree entry then en_Type entry = ''map'' \<or> en_Type entry = ''array'' else True)"
    for pattern entry
    by (auto simp: entryErrors_def platformErrors_Nil)
  have "(\<forall>k\<in>fst ` set s. (case mget s k of Some entry \<Rightarrow> entryErrors k entry | None \<Rightarrow> []) = []) \<longleftrightarrow>
      list_all (\<lambda>(k, entry). entryErrors k entry = []) s"
    using assms by (auto simp: list_all_iff wfm_def)
  then show ?thesis
    by (simp add: Validate_def errors_join_None Patterns_def e)
qed

lemma Validate_accepts_witness:
  "Validate [(''os.name'', \<lparr>en_Type = ''string'', en_Description = ''name'', en_Platforms = [''linux''],
      en_Conditional = False, en_OpenSubtree = False\<rparr>)] = None"
proof -
  have "''linux'' \<in> set schemaPlatformIDs" "''string'' \<in> set schemaTypes"
    "trim_space ''os.name'' \<noteq> []" "trim_space ''name'' \<noteq> []" by code_simp+
  then show ?thesis by (subst Validate_accepts) (simp_all add: wfm_def)
qed

end
