(* ===== verification/Cli_Options.thy ===== *)
theory Cli_Options
  imports Go_Library
begin

text \<open>
  \<open>internal/cli/options.go\<close>: the table of command-line options, one definition per entry, its
  index by name and alias, and the queries over it. The code's copies of an option are the
  identity on values.
\<close>

section \<open>Data\<close>

datatype ValueArity = NoValue | RequiredValue

record OptionDocumentation =
  od_Help :: string
  od_Man :: string

record Option =
  op_Canonical :: string
  op_Aliases :: "string list"
  op_Arity :: ValueArity
  op_Repeatable :: bool
  op_TaskFlag :: bool
  op_Hidden :: bool
  op_Conflicts :: "string list"
  op_Documentation :: OptionDocumentation

section \<open>The table\<close>

definition opt_color :: Option where
  "opt_color = \<lparr>op_Canonical = ''--color'', op_Aliases = [], op_Arity = NoValue, op_Repeatable = False,
     op_TaskFlag = False, op_Hidden = False, op_Conflicts = [''--no-color''],
     op_Documentation = \<lparr>od_Help = [CHR 0x09] @ ''       [--color]                      Force color output (default: enabled when writing to a terminal). In the default output format, fact keys are colored by nesting depth.'',
       od_Man = ''  * --color: Force color output (default: enabled when writing to a terminal). In the default output format, fact keys are colored by nesting depth.''\<rparr>\<rparr>"

definition opt_no_color :: Option where
  "opt_no_color = \<lparr>op_Canonical = ''--no-color'', op_Aliases = [], op_Arity = NoValue, op_Repeatable = False,
     op_TaskFlag = False, op_Hidden = False, op_Conflicts = [],
     op_Documentation = \<lparr>od_Help = [CHR 0x09] @ ''       [--no-color]                   Disable color output.'',
       od_Man = ''  * --no-color: Disable color output.''\<rparr>\<rparr>"

definition opt_config :: Option where
  "opt_config = \<lparr>op_Canonical = ''--config'', op_Aliases = [''-c''], op_Arity = RequiredValue, op_Repeatable = False,
     op_TaskFlag = False, op_Hidden = False, op_Conflicts = [],
     op_Documentation = \<lparr>od_Help = [CHR 0x09] @ ''    -c [--config]                     The location of the config file.'',
       od_Man = ''  * -c, --config: The location of the config file.''\<rparr>\<rparr>"

definition opt_debug :: Option where
  "opt_debug = \<lparr>op_Canonical = ''--debug'', op_Aliases = [''-d''], op_Arity = NoValue, op_Repeatable = False,
     op_TaskFlag = False, op_Hidden = False, op_Conflicts = [],
     op_Documentation = \<lparr>od_Help = [CHR 0x09] @ ''    -d [--debug]                      Enable debug output.'',
       od_Man = ''  * -d, --debug: Enable debug output.''\<rparr>\<rparr>"

definition opt_disable :: Option where
  "opt_disable = \<lparr>op_Canonical = ''--disable'', op_Aliases = [], op_Arity = RequiredValue, op_Repeatable = True,
     op_TaskFlag = False, op_Hidden = False, op_Conflicts = [],
     op_Documentation = \<lparr>od_Help = [CHR 0x09] @ ''       [--disable]                    Disable facts or fact groups (comma-separated, repeatable). Standalone resolvers are skipped; others are pruned from output, even when queried.'',
       od_Man = ''  * --disable: Disable facts or fact groups (comma-separated, repeatable). Standalone resolvers are skipped; others are pruned from output, even when queried. Unions with the FACTS_DISABLE environment variable and the config file disable list; --no-block clears the whole set.''\<rparr>\<rparr>"

definition opt_external_dir :: Option where
  "opt_external_dir = \<lparr>op_Canonical = ''--external-dir'', op_Aliases = [], op_Arity = RequiredValue, op_Repeatable = True,
     op_TaskFlag = False, op_Hidden = False, op_Conflicts = [''--no-external-facts''],
     op_Documentation = \<lparr>od_Help = [CHR 0x09] @ ''       [--external-dir]               A directory to use for external facts.'',
       od_Man = ''  * --external-dir: A directory to use for external facts.''\<rparr>\<rparr>"

definition opt_force_dot_resolution :: Option where
  "opt_force_dot_resolution = \<lparr>op_Canonical = ''--force-dot-resolution'', op_Aliases = [], op_Arity = NoValue, op_Repeatable = False,
     op_TaskFlag = False, op_Hidden = False, op_Conflicts = [],
     op_Documentation = \<lparr>od_Help = [CHR 0x09] @ ''       [--force-dot-resolution]       Merge dotted facts into structured facts.'',
       od_Man = ''  * --force-dot-resolution: Merge dotted facts into structured facts.''\<rparr>\<rparr>"

definition opt_hocon :: Option where
  "opt_hocon = \<lparr>op_Canonical = ''--hocon'', op_Aliases = [], op_Arity = NoValue, op_Repeatable = False,
     op_TaskFlag = False, op_Hidden = False, op_Conflicts = [''--no-hocon''],
     op_Documentation = \<lparr>od_Help = [CHR 0x09] @ ''       [--hocon]                      Output in Hocon format.'',
       od_Man = ''  * --hocon: Output in Hocon format.''\<rparr>\<rparr>"

definition opt_json :: Option where
  "opt_json = \<lparr>op_Canonical = ''--json'', op_Aliases = [''-j''], op_Arity = NoValue, op_Repeatable = False,
     op_TaskFlag = False, op_Hidden = False, op_Conflicts = [''--no-json'', ''-y'', ''--yaml'', ''--hocon''],
     op_Documentation = \<lparr>od_Help = [CHR 0x09] @ ''    -j [--json]                       Output in JSON format.'',
       od_Man = ''  * -j, --json: Output in JSON format.''\<rparr>\<rparr>"

definition opt_log_level :: Option where
  "opt_log_level = \<lparr>op_Canonical = ''--log-level'', op_Aliases = [''-l''], op_Arity = RequiredValue, op_Repeatable = False,
     op_TaskFlag = False, op_Hidden = False, op_Conflicts = [],
     op_Documentation = \<lparr>od_Help = [CHR 0x09] @ ''    -l [--log-level]                  Set logging level.'',
       od_Man = ''  * -l, --log-level: Set logging level.''\<rparr>\<rparr>"

definition opt_no_block :: Option where
  "opt_no_block = \<lparr>op_Canonical = ''--no-block'', op_Aliases = [], op_Arity = NoValue, op_Repeatable = False,
     op_TaskFlag = False, op_Hidden = False, op_Conflicts = [],
     op_Documentation = \<lparr>od_Help = [CHR 0x09] @ ''       [--no-block]                   Disable fact blocking.'',
       od_Man = ''  * --no-block: Disable fact blocking.''\<rparr>\<rparr>"

definition opt_no_cache :: Option where
  "opt_no_cache = \<lparr>op_Canonical = ''--no-cache'', op_Aliases = [], op_Arity = NoValue, op_Repeatable = False,
     op_TaskFlag = False, op_Hidden = False, op_Conflicts = [],
     op_Documentation = \<lparr>od_Help = [CHR 0x09] @ ''       [--no-cache]                   Disable loading and refreshing facts from the cache.'',
       od_Man = ''  * --no-cache: Disable loading and refreshing facts from the cache.''\<rparr>\<rparr>"

definition opt_no_external_facts :: Option where
  "opt_no_external_facts = \<lparr>op_Canonical = ''--no-external-facts'', op_Aliases = [], op_Arity = NoValue, op_Repeatable = False,
     op_TaskFlag = False, op_Hidden = False, op_Conflicts = [''--external-dir''],
     op_Documentation = \<lparr>od_Help = [CHR 0x09] @ ''       [--no-external-facts]          Disable external facts.'',
       od_Man = ''  * --no-external-facts: Disable external facts.''\<rparr>\<rparr>"

definition opt_no_hocon :: Option where
  "opt_no_hocon = \<lparr>op_Canonical = ''--no-hocon'', op_Aliases = [], op_Arity = NoValue, op_Repeatable = False,
     op_TaskFlag = False, op_Hidden = True, op_Conflicts = [],
     op_Documentation = \<lparr>od_Help = [],
       od_Man = []\<rparr>\<rparr>"

definition opt_no_json :: Option where
  "opt_no_json = \<lparr>op_Canonical = ''--no-json'', op_Aliases = [], op_Arity = NoValue, op_Repeatable = False,
     op_TaskFlag = False, op_Hidden = True, op_Conflicts = [],
     op_Documentation = \<lparr>od_Help = [],
       od_Man = []\<rparr>\<rparr>"

definition opt_no_yaml :: Option where
  "opt_no_yaml = \<lparr>op_Canonical = ''--no-yaml'', op_Aliases = [], op_Arity = NoValue, op_Repeatable = False,
     op_TaskFlag = False, op_Hidden = True, op_Conflicts = [],
     op_Documentation = \<lparr>od_Help = [],
       od_Man = []\<rparr>\<rparr>"

definition opt_verbose :: Option where
  "opt_verbose = \<lparr>op_Canonical = ''--verbose'', op_Aliases = [], op_Arity = NoValue, op_Repeatable = False,
     op_TaskFlag = False, op_Hidden = False, op_Conflicts = [],
     op_Documentation = \<lparr>od_Help = [CHR 0x09] @ ''       [--verbose]                    Enable verbose output.'',
       od_Man = ''  * --verbose: Enable verbose output.''\<rparr>\<rparr>"

definition opt_yaml :: Option where
  "opt_yaml = \<lparr>op_Canonical = ''--yaml'', op_Aliases = [''-y''], op_Arity = NoValue, op_Repeatable = False,
     op_TaskFlag = False, op_Hidden = False, op_Conflicts = [''--no-yaml'', ''-j'', ''--hocon''],
     op_Documentation = \<lparr>od_Help = [CHR 0x09] @ ''    -y [--yaml]                       Output in YAML format.'',
       od_Man = ''  * -y, --yaml: Output in YAML format.''\<rparr>\<rparr>"

definition opt_strict :: Option where
  "opt_strict = \<lparr>op_Canonical = ''--strict'', op_Aliases = [], op_Arity = NoValue, op_Repeatable = False,
     op_TaskFlag = False, op_Hidden = False, op_Conflicts = [],
     op_Documentation = \<lparr>od_Help = [CHR 0x09] @ ''       [--strict]                     Enable more aggressive error reporting.'',
       od_Man = ''  * --strict: Enable more aggressive error reporting.''\<rparr>\<rparr>"

definition opt_timing :: Option where
  "opt_timing = \<lparr>op_Canonical = ''--timing'', op_Aliases = [''-t''], op_Arity = NoValue, op_Repeatable = False,
     op_TaskFlag = False, op_Hidden = False, op_Conflicts = [],
     op_Documentation = \<lparr>od_Help = [CHR 0x09] @ ''    -t [--timing]                     Show how much time it took to resolve each fact.'',
       od_Man = ''  * -t, --timing: Show how much time it took to resolve each fact.''\<rparr>\<rparr>"

definition opt_sequential :: Option where
  "opt_sequential = \<lparr>op_Canonical = ''--sequential'', op_Aliases = [], op_Arity = NoValue, op_Repeatable = False,
     op_TaskFlag = False, op_Hidden = False, op_Conflicts = [],
     op_Documentation = \<lparr>od_Help = [CHR 0x09] @ ''       [--sequential]                 Resolve facts sequentially.'',
       od_Man = ''  * --sequential: Resolve facts sequentially.''\<rparr>\<rparr>"

definition opt_http_debug :: Option where
  "opt_http_debug = \<lparr>op_Canonical = ''--http-debug'', op_Aliases = [], op_Arity = NoValue, op_Repeatable = False,
     op_TaskFlag = False, op_Hidden = False, op_Conflicts = [],
     op_Documentation = \<lparr>od_Help = [CHR 0x09] @ ''       [--http-debug]                 Write HTTP request and responses to stderr.'',
       od_Man = ''  * --http-debug: Write HTTP request and responses to stderr.''\<rparr>\<rparr>"

definition opt_help :: Option where
  "opt_help = \<lparr>op_Canonical = ''--help'', op_Aliases = [''-h''], op_Arity = NoValue, op_Repeatable = False,
     op_TaskFlag = True, op_Hidden = False, op_Conflicts = [],
     op_Documentation = \<lparr>od_Help = [CHR 0x09] @ ''    -h [--help]                       Help for all arguments'',
       od_Man = ''  * --help, -h: Help for all arguments.''\<rparr>\<rparr>"

definition opt_version :: Option where
  "opt_version = \<lparr>op_Canonical = ''--version'', op_Aliases = [''-v''], op_Arity = NoValue, op_Repeatable = False,
     op_TaskFlag = True, op_Hidden = False, op_Conflicts = [],
     op_Documentation = \<lparr>od_Help = [CHR 0x09] @ ''       --version, -v                  Print the version'',
       od_Man = ''  * --version, -v: Print the version.''\<rparr>\<rparr>"

definition opt_man :: Option where
  "opt_man = \<lparr>op_Canonical = ''--man'', op_Aliases = [], op_Arity = NoValue, op_Repeatable = False,
     op_TaskFlag = True, op_Hidden = False, op_Conflicts = [],
     op_Documentation = \<lparr>od_Help = [CHR 0x09] @ ''       --man                          Display manual.'',
       od_Man = ''  * --man: Display manual.''\<rparr>\<rparr>"

definition opt_list_block_groups :: Option where
  "opt_list_block_groups = \<lparr>op_Canonical = ''--list-block-groups'', op_Aliases = [], op_Arity = NoValue, op_Repeatable = False,
     op_TaskFlag = True, op_Hidden = False, op_Conflicts = [],
     op_Documentation = \<lparr>od_Help = [CHR 0x09] @ ''       --list-block-groups            List block groups'',
       od_Man = ''  * --list-block-groups: List block groups.''\<rparr>\<rparr>"

definition opt_list_cache_groups :: Option where
  "opt_list_cache_groups = \<lparr>op_Canonical = ''--list-cache-groups'', op_Aliases = [], op_Arity = NoValue, op_Repeatable = False,
     op_TaskFlag = True, op_Hidden = False, op_Conflicts = [],
     op_Documentation = \<lparr>od_Help = [CHR 0x09] @ ''       --list-cache-groups            List cache groups'',
       od_Man = ''  * --list-cache-groups: List cache groups.''\<rparr>\<rparr>"

definition optionDefinitions :: "Option list" where
  "optionDefinitions =
    [opt_color, opt_no_color, opt_config, opt_debug, opt_disable, opt_external_dir,
     opt_force_dot_resolution, opt_hocon, opt_json, opt_log_level, opt_no_block, opt_no_cache,
     opt_no_external_facts, opt_no_hocon, opt_no_json, opt_no_yaml, opt_verbose, opt_yaml,
     opt_strict, opt_timing, opt_sequential, opt_http_debug, opt_help, opt_version, opt_man,
     opt_list_block_groups, opt_list_cache_groups]"

definition taskNames :: "string list" where
  "taskNames = [''help'', ''query'', ''version'', ''man'', ''list_block_groups'', ''list_cache_groups'']"

section \<open>Queries\<close>

definition buildOptionIndex :: "Option list \<Rightarrow> Option gomap" where
  "buildOptionIndex opts =
     foldl (\<lambda>m opt. foldl (\<lambda>m' alias. mput alias opt m') (mput (op_Canonical opt) opt m) (op_Aliases opt)) [] opts"

definition optionByName :: "Option gomap" where
  "optionByName = buildOptionIndex optionDefinitions"

definition Options :: "Option list" where
  "Options = optionDefinitions"

definition DocumentedOptions :: "Option list" where
  "DocumentedOptions = filter (\<lambda>opt. \<not> op_Hidden opt) optionDefinitions"

definition LookupOption :: "string \<Rightarrow> Option option" where
  "LookupOption arg =
     (case cut arg ''='' of
        None \<Rightarrow> mget optionByName arg
      | Some (name, _) \<Rightarrow>
          (case mget optionByName name of
             None \<Rightarrow> None
           | Some opt \<Rightarrow> (if op_Arity opt = NoValue then None else Some opt)))"

definition CanonicalOption :: "string \<Rightarrow> string" where
  "CanonicalOption arg = (case LookupOption arg of Some opt \<Rightarrow> op_Canonical opt | None \<Rightarrow> arg)"

definition KnownOption :: "string \<Rightarrow> bool" where
  "KnownOption arg \<longleftrightarrow> LookupOption arg \<noteq> None"

definition OptionTakesSeparateValue :: "string \<Rightarrow> bool" where
  "OptionTakesSeparateValue arg \<longleftrightarrow>
     (if cut arg ''='' \<noteq> None then False
      else case LookupOption arg of Some opt \<Rightarrow> op_Arity opt = RequiredValue | None \<Rightarrow> False)"

definition ShortOptionTakesAttachedValue :: "char \<Rightarrow> bool" where
  "ShortOptionTakesAttachedValue flag \<longleftrightarrow>
     (case LookupOption [CHR ''-'', flag] of Some opt \<Rightarrow> op_Arity opt = RequiredValue | None \<Rightarrow> False)"

definition IsTask :: "string \<Rightarrow> bool" where
  "IsTask arg \<longleftrightarrow> arg \<in> set taskNames"

definition IsTaskFlag :: "string \<Rightarrow> bool" where
  "IsTaskFlag arg \<longleftrightarrow> (case LookupOption arg of Some opt \<Rightarrow> op_TaskFlag opt | None \<Rightarrow> False)"

definition rawOption :: "string \<Rightarrow> string" where
  "rawOption arg = (case cut arg ''='' of Some (name, _) \<Rightarrow> name | None \<Rightarrow> arg)"

record optionConflict =
  oc_option :: string
  oc_conflicts :: "string list"

definition optionConflictRuleFor :: "string \<Rightarrow> optionConflict" where
  "optionConflictRuleFor name =
     \<lparr>oc_option = name, oc_conflicts = (case LookupOption name of Some opt \<Rightarrow> op_Conflicts opt | None \<Rightarrow> [])\<rparr>"

definition optionConflictRules :: "optionConflict list" where
  "optionConflictRules =
     map optionConflictRuleFor [''--color'', ''--json'', ''--yaml'', ''--hocon''] @
     [\<lparr>oc_option = ''-j'', oc_conflicts = [''--no-json'', ''--hocon'']\<rparr>,
      \<lparr>oc_option = ''-y'', oc_conflicts = [''--no-yaml'', ''-j'', ''--hocon'']\<rparr>,
      optionConflictRuleFor ''--no-external-facts'']"

section \<open>The index, evaluated\<close>

lemma option_names:
  "op_Canonical opt_color = ''--color''" "op_Aliases opt_color = []"
  "op_Canonical opt_no_color = ''--no-color''" "op_Aliases opt_no_color = []"
  "op_Canonical opt_config = ''--config''" "op_Aliases opt_config = [''-c'']"
  "op_Canonical opt_debug = ''--debug''" "op_Aliases opt_debug = [''-d'']"
  "op_Canonical opt_disable = ''--disable''" "op_Aliases opt_disable = []"
  "op_Canonical opt_external_dir = ''--external-dir''" "op_Aliases opt_external_dir = []"
  "op_Canonical opt_force_dot_resolution = ''--force-dot-resolution''" "op_Aliases opt_force_dot_resolution = []"
  "op_Canonical opt_hocon = ''--hocon''" "op_Aliases opt_hocon = []"
  "op_Canonical opt_json = ''--json''" "op_Aliases opt_json = [''-j'']"
  "op_Canonical opt_log_level = ''--log-level''" "op_Aliases opt_log_level = [''-l'']"
  "op_Canonical opt_no_block = ''--no-block''" "op_Aliases opt_no_block = []"
  "op_Canonical opt_no_cache = ''--no-cache''" "op_Aliases opt_no_cache = []"
  "op_Canonical opt_no_external_facts = ''--no-external-facts''" "op_Aliases opt_no_external_facts = []"
  "op_Canonical opt_no_hocon = ''--no-hocon''" "op_Aliases opt_no_hocon = []"
  "op_Canonical opt_no_json = ''--no-json''" "op_Aliases opt_no_json = []"
  "op_Canonical opt_no_yaml = ''--no-yaml''" "op_Aliases opt_no_yaml = []"
  "op_Canonical opt_verbose = ''--verbose''" "op_Aliases opt_verbose = []"
  "op_Canonical opt_yaml = ''--yaml''" "op_Aliases opt_yaml = [''-y'']"
  "op_Canonical opt_strict = ''--strict''" "op_Aliases opt_strict = []"
  "op_Canonical opt_timing = ''--timing''" "op_Aliases opt_timing = [''-t'']"
  "op_Canonical opt_sequential = ''--sequential''" "op_Aliases opt_sequential = []"
  "op_Canonical opt_http_debug = ''--http-debug''" "op_Aliases opt_http_debug = []"
  "op_Canonical opt_help = ''--help''" "op_Aliases opt_help = [''-h'']"
  "op_Canonical opt_version = ''--version''" "op_Aliases opt_version = [''-v'']"
  "op_Canonical opt_man = ''--man''" "op_Aliases opt_man = []"
  "op_Canonical opt_list_block_groups = ''--list-block-groups''" "op_Aliases opt_list_block_groups = []"
  "op_Canonical opt_list_cache_groups = ''--list-cache-groups''" "op_Aliases opt_list_cache_groups = []"
  by (simp_all add: opt_color_def opt_no_color_def opt_config_def opt_debug_def opt_disable_def
      opt_external_dir_def opt_force_dot_resolution_def opt_hocon_def opt_json_def
      opt_log_level_def opt_no_block_def opt_no_cache_def opt_no_external_facts_def
      opt_no_hocon_def opt_no_json_def opt_no_yaml_def opt_verbose_def opt_yaml_def
      opt_strict_def opt_timing_def opt_sequential_def opt_http_debug_def opt_help_def
      opt_version_def opt_man_def opt_list_block_groups_def opt_list_cache_groups_def)

lemma option_fields:
  "op_Arity opt_color = NoValue" "op_Repeatable opt_color = False" "op_TaskFlag opt_color = False" "op_Conflicts opt_color = [''--no-color'']"
  "op_Arity opt_no_color = NoValue" "op_Repeatable opt_no_color = False" "op_TaskFlag opt_no_color = False" "op_Conflicts opt_no_color = []"
  "op_Arity opt_config = RequiredValue" "op_Repeatable opt_config = False" "op_TaskFlag opt_config = False" "op_Conflicts opt_config = []"
  "op_Arity opt_debug = NoValue" "op_Repeatable opt_debug = False" "op_TaskFlag opt_debug = False" "op_Conflicts opt_debug = []"
  "op_Arity opt_disable = RequiredValue" "op_Repeatable opt_disable = True" "op_TaskFlag opt_disable = False" "op_Conflicts opt_disable = []"
  "op_Arity opt_external_dir = RequiredValue" "op_Repeatable opt_external_dir = True" "op_TaskFlag opt_external_dir = False" "op_Conflicts opt_external_dir = [''--no-external-facts'']"
  "op_Arity opt_force_dot_resolution = NoValue" "op_Repeatable opt_force_dot_resolution = False" "op_TaskFlag opt_force_dot_resolution = False" "op_Conflicts opt_force_dot_resolution = []"
  "op_Arity opt_hocon = NoValue" "op_Repeatable opt_hocon = False" "op_TaskFlag opt_hocon = False" "op_Conflicts opt_hocon = [''--no-hocon'']"
  "op_Arity opt_json = NoValue" "op_Repeatable opt_json = False" "op_TaskFlag opt_json = False" "op_Conflicts opt_json = [''--no-json'', ''-y'', ''--yaml'', ''--hocon'']"
  "op_Arity opt_log_level = RequiredValue" "op_Repeatable opt_log_level = False" "op_TaskFlag opt_log_level = False" "op_Conflicts opt_log_level = []"
  "op_Arity opt_no_block = NoValue" "op_Repeatable opt_no_block = False" "op_TaskFlag opt_no_block = False" "op_Conflicts opt_no_block = []"
  "op_Arity opt_no_cache = NoValue" "op_Repeatable opt_no_cache = False" "op_TaskFlag opt_no_cache = False" "op_Conflicts opt_no_cache = []"
  "op_Arity opt_no_external_facts = NoValue" "op_Repeatable opt_no_external_facts = False" "op_TaskFlag opt_no_external_facts = False" "op_Conflicts opt_no_external_facts = [''--external-dir'']"
  "op_Arity opt_no_hocon = NoValue" "op_Repeatable opt_no_hocon = False" "op_TaskFlag opt_no_hocon = False" "op_Conflicts opt_no_hocon = []"
  "op_Arity opt_no_json = NoValue" "op_Repeatable opt_no_json = False" "op_TaskFlag opt_no_json = False" "op_Conflicts opt_no_json = []"
  "op_Arity opt_no_yaml = NoValue" "op_Repeatable opt_no_yaml = False" "op_TaskFlag opt_no_yaml = False" "op_Conflicts opt_no_yaml = []"
  "op_Arity opt_verbose = NoValue" "op_Repeatable opt_verbose = False" "op_TaskFlag opt_verbose = False" "op_Conflicts opt_verbose = []"
  "op_Arity opt_yaml = NoValue" "op_Repeatable opt_yaml = False" "op_TaskFlag opt_yaml = False" "op_Conflicts opt_yaml = [''--no-yaml'', ''-j'', ''--hocon'']"
  "op_Arity opt_strict = NoValue" "op_Repeatable opt_strict = False" "op_TaskFlag opt_strict = False" "op_Conflicts opt_strict = []"
  "op_Arity opt_timing = NoValue" "op_Repeatable opt_timing = False" "op_TaskFlag opt_timing = False" "op_Conflicts opt_timing = []"
  "op_Arity opt_sequential = NoValue" "op_Repeatable opt_sequential = False" "op_TaskFlag opt_sequential = False" "op_Conflicts opt_sequential = []"
  "op_Arity opt_http_debug = NoValue" "op_Repeatable opt_http_debug = False" "op_TaskFlag opt_http_debug = False" "op_Conflicts opt_http_debug = []"
  "op_Arity opt_help = NoValue" "op_Repeatable opt_help = False" "op_TaskFlag opt_help = True" "op_Conflicts opt_help = []"
  "op_Arity opt_version = NoValue" "op_Repeatable opt_version = False" "op_TaskFlag opt_version = True" "op_Conflicts opt_version = []"
  "op_Arity opt_man = NoValue" "op_Repeatable opt_man = False" "op_TaskFlag opt_man = True" "op_Conflicts opt_man = []"
  "op_Arity opt_list_block_groups = NoValue" "op_Repeatable opt_list_block_groups = False" "op_TaskFlag opt_list_block_groups = True" "op_Conflicts opt_list_block_groups = []"
  "op_Arity opt_list_cache_groups = NoValue" "op_Repeatable opt_list_cache_groups = False" "op_TaskFlag opt_list_cache_groups = True" "op_Conflicts opt_list_cache_groups = []"
  by (simp_all add: opt_color_def opt_no_color_def opt_config_def opt_debug_def opt_disable_def
      opt_external_dir_def opt_force_dot_resolution_def opt_hocon_def opt_json_def
      opt_log_level_def opt_no_block_def opt_no_cache_def opt_no_external_facts_def
      opt_no_hocon_def opt_no_json_def opt_no_yaml_def opt_verbose_def opt_yaml_def
      opt_strict_def opt_timing_def opt_sequential_def opt_http_debug_def opt_help_def
      opt_version_def opt_man_def opt_list_block_groups_def opt_list_cache_groups_def)

lemmas option_simps = option_names option_fields

lemma optionByName_eq:
  "optionByName =
     [(''--color'', opt_color), (''--no-color'', opt_no_color), (''--config'', opt_config),
      (''-c'', opt_config), (''--debug'', opt_debug), (''-d'', opt_debug),
      (''--disable'', opt_disable), (''--external-dir'', opt_external_dir),
      (''--force-dot-resolution'', opt_force_dot_resolution), (''--hocon'', opt_hocon),
      (''--json'', opt_json), (''-j'', opt_json), (''--log-level'', opt_log_level),
      (''-l'', opt_log_level), (''--no-block'', opt_no_block), (''--no-cache'', opt_no_cache),
      (''--no-external-facts'', opt_no_external_facts), (''--no-hocon'', opt_no_hocon),
      (''--no-json'', opt_no_json), (''--no-yaml'', opt_no_yaml), (''--verbose'', opt_verbose),
      (''--yaml'', opt_yaml), (''-y'', opt_yaml), (''--strict'', opt_strict),
      (''--timing'', opt_timing), (''-t'', opt_timing), (''--sequential'', opt_sequential),
      (''--http-debug'', opt_http_debug), (''--help'', opt_help), (''-h'', opt_help),
      (''--version'', opt_version), (''-v'', opt_version), (''--man'', opt_man),
      (''--list-block-groups'', opt_list_block_groups),
      (''--list-cache-groups'', opt_list_cache_groups)]"
  by (simp add: optionByName_def buildOptionIndex_def optionDefinitions_def option_names)

end
