(* ===== verification/Cli.thy ===== *)
theory Cli
  imports Cli_Options
begin

text \<open>
  \<open>internal/cli/arguments.go\<close> and \<open>validation.go\<close>: expansion of bundled short options, the move of
  tasks to the front, and the validation of the option combination. \<open>range\<close> over a string
  walks UTF-8 characters: \<open>runes\<close> keeps the continuation bytes with their lead byte.
\<close>

section \<open>Preparing the arguments\<close>

definition cont_byte :: "char \<Rightarrow> bool" where
  "cont_byte c \<longleftrightarrow> 128 \<le> code_of c \<and> code_of c < 192"

fun runes :: "string \<Rightarrow> string list" where
  "runes [] = []"
| "runes (c # cs) =
     (case runes cs of
        [] \<Rightarrow> [[c]]
      | r # rs \<Rightarrow> (if 128 \<le> code_of c \<and> cont_byte (hd r) then (c # r) # rs else [c] # r # rs))"

definition expandShortOption :: "string \<Rightarrow> string list" where
  "expandShortOption arg =
     (if length arg \<le> 2 \<or> arg ! 0 \<noteq> CHR ''-'' \<or> arg ! 1 = CHR ''-'' \<or> CHR ''='' \<in> set arg then [arg]
      else if ShortOptionTakesAttachedValue (arg ! 1) then [take 2 arg, drop 2 arg]
      else map (\<lambda>flag. CHR ''-'' # flag) (runes (drop 1 arg)))"

fun expandShortOptions :: "string list \<Rightarrow> string list" where
  "expandShortOptions [] = []"
| "expandShortOptions (arg # args) =
     (if arg = ''--'' then arg # args else expandShortOption arg @ expandShortOptions args)"

fun containsKnownTaskOrMappedFlag :: "string list \<Rightarrow> bool" where
  "containsKnownTaskOrMappedFlag [] \<longleftrightarrow> False"
| "containsKnownTaskOrMappedFlag [arg] \<longleftrightarrow> arg \<noteq> ''--'' \<and> (IsTask arg \<or> IsTaskFlag arg)"
| "containsKnownTaskOrMappedFlag (arg # val # args) \<longleftrightarrow>
     (if arg = ''--'' then False
      else if IsTask arg \<or> IsTaskFlag arg then True
      else if OptionTakesSeparateValue arg then containsKnownTaskOrMappedFlag args
      else containsKnownTaskOrMappedFlag (val # args))"

text \<open>The loop of \<open>PrepareArguments\<close>: the task words, and everything else.\<close>

fun splitPriority :: "string list \<Rightarrow> string list \<times> string list" where
  "splitPriority [] = ([], [])"
| "splitPriority [arg] =
     (if arg \<noteq> ''--'' \<and> (IsTaskFlag arg \<or> IsTask arg) then ([arg], []) else ([], [arg]))"
| "splitPriority (arg # val # args) =
     (if arg = ''--'' then ([], arg # val # args)
      else if IsTaskFlag arg \<or> IsTask arg
      then (let (priority, normal) = splitPriority (val # args) in (arg # priority, normal))
      else if OptionTakesSeparateValue arg
      then (let (priority, normal) = splitPriority args in (priority, arg # val # normal))
      else (let (priority, normal) = splitPriority (val # args) in (priority, arg # normal)))"

definition PrepareArguments :: "string list \<Rightarrow> string list" where
  "PrepareArguments args =
     (let expanded = expandShortOptions args;
          prepared = (if \<not> containsKnownTaskOrMappedFlag expanded then ''query'' # expanded else expanded);
          (priority, normal) = splitPriority prepared
      in priority @ normal)"

section \<open>Validation\<close>

text \<open>The state of the loop of \<open>validateOptions\<close>.\<close>

record scanState =
  sc_seen :: "string list"
  sc_seenRaw :: "string list"
  sc_counts :: "int gomap"
  sc_logLevel :: string

definition SupportedLogLevel :: "string \<Rightarrow> bool" where
  "SupportedLogLevel level \<longleftrightarrow>
     level \<in> set [''none'', ''trace'', ''debug'', ''info'', ''warn'', ''error'', ''fatal'', ''log_level'']"

definition logOptionsConflict :: "string list \<Rightarrow> string \<Rightarrow> bool" where
  "logOptionsConflict seen logLevel =
     (let debug = ''--debug'' \<in> set seen; verbose = ''--verbose'' \<in> set seen; logLevelSet = ''--log-level'' \<in> set seen
      in if debug \<and> verbose then True
         else if debug \<and> logLevelSet \<and> logLevel \<noteq> ''debug'' \<and> logLevel \<noteq> ''trace'' then True
         else if verbose \<and> logLevelSet \<and> logLevel \<noteq> ''info'' then True
         else False)"

definition noteOption :: "string \<Rightarrow> Option \<Rightarrow> string list \<Rightarrow> scanState \<Rightarrow> scanState" where
  "noteOption arg opt rest st =
     st\<lparr>sc_seenRaw := rawOption arg # sc_seenRaw st,
        sc_seen := op_Canonical opt # sc_seen st,
        sc_counts := mput (op_Canonical opt)
          ((case mget (sc_counts st) (op_Canonical opt) of Some n \<Rightarrow> n | None \<Rightarrow> 0) + 1) (sc_counts st),
        sc_logLevel :=
          (if op_Canonical opt = ''--log-level''
           then (case cut arg ''='' of
                   Some (_, v) \<Rightarrow> v
                 | None \<Rightarrow> (case rest of v # _ \<Rightarrow> v | [] \<Rightarrow> sc_logLevel st))
           else sc_logLevel st)\<rparr>"

definition unrecognised :: "string \<Rightarrow> goerror" where
  "unrecognised arg = ErrText (''unrecognised option '' @ [SQUOTE] @ arg @ [SQUOTE])"

fun scanOptions :: "string list \<Rightarrow> scanState \<Rightarrow> goerror + scanState" where
  "scanOptions [] st = Inr st"
| "scanOptions [arg] st =
     (if arg = ''--'' then Inr st
      else if \<not> has_prefix arg ''-'' then Inr st
      else case LookupOption arg of
             None \<Rightarrow> Inl (unrecognised arg)
           | Some opt \<Rightarrow>
               (if OptionTakesSeparateValue arg then Inl (ErrText (CanonicalOption arg @ '' requires a value''))
                else Inr (noteOption arg opt [] st)))"
| "scanOptions (arg # val # args) st =
     (if arg = ''--'' then Inr st
      else if \<not> has_prefix arg ''-'' then (if IsTask arg then scanOptions (val # args) st else Inr st)
      else case LookupOption arg of
             None \<Rightarrow> Inl (unrecognised arg)
           | Some opt \<Rightarrow>
               (let st' = noteOption arg opt (val # args) st
                in if OptionTakesSeparateValue arg then scanOptions args st'
                   else scanOptions (val # args) st'))"

text \<open>The loop over the counts ranges over a map: when several options are repeated, which of them
  the message names depends on the map's order.\<close>

definition repeatedOption :: "int gomap \<Rightarrow> string option" where
  "repeatedOption counts =
     map_option fst (find (\<lambda>(name, n). n > 1 \<and>
       (case LookupOption name of Some opt \<Rightarrow> \<not> op_Repeatable opt | None \<Rightarrow> True)) counts)"

definition conflictPairs :: "(string \<times> string) list" where
  "conflictPairs = concat (map (\<lambda>r. map (\<lambda>c. (oc_option r, c)) (oc_conflicts r)) optionConflictRules)"

definition firstConflict :: "string list \<Rightarrow> (string \<times> string) option" where
  "firstConflict seenRaw = find (\<lambda>(a, b). a \<in> set seenRaw \<and> b \<in> set seenRaw) conflictPairs"

definition validateOptions :: "string list \<Rightarrow> goerror option" where
  "validateOptions args =
     (case scanOptions args \<lparr>sc_seen = [], sc_seenRaw = [], sc_counts = [], sc_logLevel = []\<rparr> of
        Inl e \<Rightarrow> Some e
      | Inr st \<Rightarrow>
          (case repeatedOption (sc_counts st) of
             Some name \<Rightarrow> Some (ErrText (''option '' @ name @ '' cannot be specified more than once.''))
           | None \<Rightarrow>
               (case firstConflict (sc_seenRaw st) of
                  Some (a, b) \<Rightarrow> Some (ErrText (a @ '' and '' @ b @ '' options conflict: please specify only one.''))
                | None \<Rightarrow>
                    (if logOptionsConflict (sc_seen st) (sc_logLevel st)
                     then Some (ErrText ''debug, verbose, and log-level options conflict: please specify only one.'')
                     else if ''--log-level'' \<in> set (sc_seen st) \<and> \<not> SupportedLogLevel (sc_logLevel st)
                     then Some (ErrText (''unsupported log level '' @ sc_logLevel st))
                     else None))))"

text \<open>An option error is the marked error of \<open>OptionError\<close>.\<close>

datatype cliError = OptionError goerror | PlainError goerror | ExitStatus int

definition ValidateOptions :: "string list \<Rightarrow> cliError option" where
  "ValidateOptions args = map_option OptionError (validateOptions args)"

definition IsOptionError :: "cliError \<Rightarrow> bool" where
  "IsOptionError e \<longleftrightarrow> (case e of OptionError _ \<Rightarrow> True | _ \<Rightarrow> False)"

section \<open>What preparing does\<close>

lemma splitPriority_parts:
  "mset (fst (splitPriority args)) + mset (snd (splitPriority args)) = mset args"
  by (induction args rule: splitPriority.induct) (simp_all add: case_prod_beta Let_def add.assoc add.commute)

lemma splitPriority_tasks: "list_all (\<lambda>a. IsTask a \<or> IsTaskFlag a) (fst (splitPriority args))"
  by (induction args rule: splitPriority.induct) (auto simp: case_prod_beta Let_def)

lemma splitPriority_found:
  "containsKnownTaskOrMappedFlag args \<Longrightarrow> fst (splitPriority args) \<noteq> []"
  by (induction args rule: splitPriority.induct) (auto simp: case_prod_beta Let_def split: if_splits)

definition dispatchWords :: "string list" where
  "dispatchWords = [''help'', ''-h'', ''--help'', ''man'', ''--man'', ''version'', ''--version'', ''-v'',
     ''list_block_groups'', ''--list-block-groups'', ''list_cache_groups'', ''--list-cache-groups'', ''query'']"

lemma task_flags_inline:
  "list_all (\<lambda>(k, opt). op_TaskFlag opt \<longrightarrow> op_Arity opt = NoValue \<and> k \<in> set dispatchWords) optionByName"
  by (simp add: optionByName_eq option_simps dispatchWords_def)

lemma IsTaskFlag_dispatch: "IsTaskFlag arg \<Longrightarrow> arg \<in> set dispatchWords"
proof -
  assume "IsTaskFlag arg"
  then obtain opt where opt: "LookupOption arg = Some opt" "op_TaskFlag opt"
    by (auto simp: IsTaskFlag_def split: option.splits)
  have t: "op_Arity o' = NoValue \<and> k \<in> set dispatchWords" if "mget optionByName k = Some o'" "op_TaskFlag o'" for k o'
    using task_flags_inline map_of_SomeD [OF that(1)] that(2) by (auto simp: list_all_iff)
  show ?thesis
  proof (cases "cut arg ''=''")
    case None
    with opt t show ?thesis by (auto simp: LookupOption_def)
  next
    case (Some p)
    with opt t show ?thesis by (auto simp: LookupOption_def split: option.splits if_splits prod.splits)
  qed
qed

lemma IsTask_dispatch: "IsTask arg \<Longrightarrow> arg \<in> set dispatchWords"
  by (auto simp: IsTask_def taskNames_def dispatchWords_def)

lemma splitPriority_empty: "fst (splitPriority xs) @ snd (splitPriority xs) = [] \<Longrightarrow> xs = []"
  using splitPriority_parts [of xs] by (metis append_is_Nil_conv empty_neutral(1) mset.simps(1) mset_zero_iff)

lemma PrepareArguments_not_Nil: "PrepareArguments args \<noteq> []"
proof -
  let ?e = "expandShortOptions args"
  let ?p = "if \<not> containsKnownTaskOrMappedFlag ?e then ''query'' # ?e else ?e"
  have "?p \<noteq> []"
  proof
    assume "?p = []"
    then have "?e = [] \<and> containsKnownTaskOrMappedFlag ?e" by (simp split: if_splits)
    then show False by (metis containsKnownTaskOrMappedFlag.simps(1))
  qed
  then have "fst (splitPriority ?p) @ snd (splitPriority ?p) \<noteq> []" using splitPriority_empty by blast
  then show ?thesis unfolding PrepareArguments_def Let_def case_prod_beta .
qed

text \<open>Preparing the arguments loses nothing and invents at most the word \<open>query\<close>, and the first
  prepared argument is always a word the command dispatches on, so the unknown-command
  branch is never taken.\<close>

lemma PrepareArguments_spec:
  "PrepareArguments args \<noteq> [] \<and> hd (PrepareArguments args) \<in> set dispatchWords \<and>
   mset (PrepareArguments args) =
     mset (expandShortOptions args) +
       (if containsKnownTaskOrMappedFlag (expandShortOptions args) then {#} else {#''query''#})"
proof -
  let ?e = "expandShortOptions args"
  let ?p = "if \<not> containsKnownTaskOrMappedFlag ?e then ''query'' # ?e else ?e"
  have q: "IsTask ''query''" "''query'' \<noteq> ''--''" by code_simp+
  have "fst (splitPriority ?p) \<noteq> []"
  proof (cases "containsKnownTaskOrMappedFlag ?e")
    case False
    with q show ?thesis by (cases ?e) (simp_all add: case_prod_beta Let_def)
  qed (simp add: splitPriority_found)
  then obtain w ws where w: "fst (splitPriority ?p) = w # ws" by (cases "fst (splitPriority ?p)") auto
  have "IsTask w \<or> IsTaskFlag w" using splitPriority_tasks [of ?p] w by simp
  then have "w \<in> set dispatchWords" using IsTask_dispatch IsTaskFlag_dispatch by blast
  moreover have "PrepareArguments args = w # ws @ snd (splitPriority ?p)"
    using w by (simp add: PrepareArguments_def Let_def case_prod_beta)
  moreover have "mset (w # ws @ snd (splitPriority ?p)) = mset ?p"
    using splitPriority_parts [of ?p] by (simp add: w)
  ultimately show ?thesis by auto
qed

end
