(* ===== verification/App_Options.thy ===== *)
theory App_Options
  imports Cli Env_Facts
begin

text \<open>
  \<open>internal/app/options.go\<close>: the binding of the option table to the fields of \<open>parsedOptions\<close>, and
  the two parsers - the permissive one of the list tasks and the one of a query, which is Go's
  \<open>flag\<close> package. A binder is the update its flag performs. The usage text the package prints
  on an error is not modelled.
\<close>

section \<open>Options\<close>

record parsedOptions =
  po_JSON :: bool
  po_NoJSON :: bool
  po_YAML :: bool
  po_NoYAML :: bool
  po_HOCON :: bool
  po_NoHOCON :: bool
  po_Debug :: bool
  po_Color :: bool
  po_NoColor :: bool
  po_Timing :: bool
  po_Strict :: bool
  po_ForceDotResolution :: bool
  po_NoBlock :: bool
  po_NoCache :: bool
  po_Verbose :: bool
  po_Sequential :: bool
  po_HTTPDebug :: bool
  po_NoExternalFacts :: bool
  po_ConfigPath :: string
  po_LogLevel :: string
  po_ExternalDirs :: "string list"
  po_DisableEntries :: "string list"

definition no_options :: parsedOptions where
  "no_options = \<lparr>po_JSON = False, po_NoJSON = False, po_YAML = False, po_NoYAML = False, po_HOCON = False,
     po_NoHOCON = False, po_Debug = False, po_Color = False, po_NoColor = False, po_Timing = False,
     po_Strict = False, po_ForceDotResolution = False, po_NoBlock = False, po_NoCache = False,
     po_Verbose = False, po_Sequential = False, po_HTTPDebug = False, po_NoExternalFacts = False,
     po_ConfigPath = [], po_LogLevel = [], po_ExternalDirs = [], po_DisableEntries = []\<rparr>"

text \<open>A binder holds the destination of its flag: the pointer to a field is the field's name.\<close>

datatype boolField =
    FColor | FNoColor | FDebug | FForceDotResolution | FHOCON | FJSON | FNoBlock | FNoCache | FNoExternalFacts
  | FNoHOCON | FNoJSON | FNoYAML | FVerbose | FYAML | FStrict | FTiming | FSequential | FHTTPDebug

datatype stringField = FConfigPath | FLogLevel | FExternalDirs | FDisableEntries

datatype optionBinder = bindBool boolField | bindString stringField

fun setBool :: "boolField \<Rightarrow> bool \<Rightarrow> parsedOptions \<Rightarrow> parsedOptions" where
  "setBool FColor b p = p\<lparr>po_Color := b\<rparr>"
| "setBool FNoColor b p = p\<lparr>po_NoColor := b\<rparr>"
| "setBool FDebug b p = p\<lparr>po_Debug := b\<rparr>"
| "setBool FForceDotResolution b p = p\<lparr>po_ForceDotResolution := b\<rparr>"
| "setBool FHOCON b p = p\<lparr>po_HOCON := b\<rparr>"
| "setBool FJSON b p = p\<lparr>po_JSON := b\<rparr>"
| "setBool FNoBlock b p = p\<lparr>po_NoBlock := b\<rparr>"
| "setBool FNoCache b p = p\<lparr>po_NoCache := b\<rparr>"
| "setBool FNoExternalFacts b p = p\<lparr>po_NoExternalFacts := b\<rparr>"
| "setBool FNoHOCON b p = p\<lparr>po_NoHOCON := b\<rparr>"
| "setBool FNoJSON b p = p\<lparr>po_NoJSON := b\<rparr>"
| "setBool FNoYAML b p = p\<lparr>po_NoYAML := b\<rparr>"
| "setBool FVerbose b p = p\<lparr>po_Verbose := b\<rparr>"
| "setBool FYAML b p = p\<lparr>po_YAML := b\<rparr>"
| "setBool FStrict b p = p\<lparr>po_Strict := b\<rparr>"
| "setBool FTiming b p = p\<lparr>po_Timing := b\<rparr>"
| "setBool FSequential b p = p\<lparr>po_Sequential := b\<rparr>"
| "setBool FHTTPDebug b p = p\<lparr>po_HTTPDebug := b\<rparr>"

definition bindExternalDir :: "string \<Rightarrow> parsedOptions \<Rightarrow> parsedOptions" where
  "bindExternalDir val p = p\<lparr>po_ExternalDirs := po_ExternalDirs p @ [val]\<rparr>"

definition bindDisable :: "string \<Rightarrow> parsedOptions \<Rightarrow> parsedOptions" where
  "bindDisable val p = p\<lparr>po_DisableEntries := po_DisableEntries p @ splitDisableList val\<rparr>"

fun setString :: "stringField \<Rightarrow> string \<Rightarrow> parsedOptions \<Rightarrow> parsedOptions" where
  "setString FConfigPath val p = p\<lparr>po_ConfigPath := val\<rparr>"
| "setString FLogLevel val p = p\<lparr>po_LogLevel := val\<rparr>"
| "setString FExternalDirs val p = bindExternalDir val p"
| "setString FDisableEntries val p = bindDisable val p"

definition optionBindings :: "optionBinder gomap" where
  "optionBindings =
     [(''--color'', bindBool FColor),
      (''--no-color'', bindBool FNoColor),
      (''--config'', bindString FConfigPath),
      (''--debug'', bindBool FDebug),
      (''--disable'', bindString FDisableEntries),
      (''--external-dir'', bindString FExternalDirs),
      (''--force-dot-resolution'', bindBool FForceDotResolution),
      (''--hocon'', bindBool FHOCON),
      (''--json'', bindBool FJSON),
      (''--log-level'', bindString FLogLevel),
      (''--no-block'', bindBool FNoBlock),
      (''--no-cache'', bindBool FNoCache),
      (''--no-external-facts'', bindBool FNoExternalFacts),
      (''--no-hocon'', bindBool FNoHOCON),
      (''--no-json'', bindBool FNoJSON),
      (''--no-yaml'', bindBool FNoYAML),
      (''--verbose'', bindBool FVerbose),
      (''--yaml'', bindBool FYAML),
      (''--strict'', bindBool FStrict),
      (''--timing'', bindBool FTiming),
      (''--sequential'', bindBool FSequential),
      (''--http-debug'', bindBool FHTTPDebug)]"

definition flagName :: "string \<Rightarrow> string" where
  "flagName opt = trim_left opt ''-''"

section \<open>The flag set\<close>

fun bindOptions :: "Option list \<Rightarrow> optionBinder gomap \<Rightarrow> goerror + optionBinder gomap" where
  "bindOptions [] formal = Inr formal"
| "bindOptions (opt # opts) formal =
     (if op_TaskFlag opt then bindOptions opts formal
      else case mget optionBindings (op_Canonical opt) of
             None \<Rightarrow> Inl (ErrText (''missing parser binding for '' @ op_Canonical opt))
           | Some b \<Rightarrow> bindOptions opts
               (foldl (\<lambda>m name. mput (flagName name) b m) formal (op_Canonical opt # op_Aliases opt)))"

definition newParsedOptionFlagSet :: "goerror + optionBinder gomap" where
  "newParsedOptionFlagSet = bindOptions Options []"

text \<open>\<open>strconv.ParseBool\<close>.\<close>

definition parse_bool :: "string \<Rightarrow> bool option" where
  "parse_bool s =
     (if s \<in> set [''1'', ''t'', ''T'', ''true'', ''TRUE'', ''True''] then Some True
      else if s \<in> set [''0'', ''f'', ''F'', ''false'', ''FALSE'', ''False''] then Some False else None)"

definition flagParts :: "string \<Rightarrow> string \<times> string option" where
  "flagParts body = (case cut body ''='' of Some (n, v) \<Rightarrow> (n, Some v) | None \<Rightarrow> (body, None))"

text \<open>\<open>FlagSet.Parse\<close>: it stops at the first argument that is no flag, or after \<open>--\<close>.\<close>

fun parseFlags ::
  "optionBinder gomap \<Rightarrow> string list \<Rightarrow> parsedOptions \<Rightarrow> goerror + parsedOptions \<times> string list" where
  "parseFlags formal [] p = Inr (p, [])"
| "parseFlags formal (s # args) p =
     (if length s < 2 \<or> hd s \<noteq> CHR ''-'' then Inr (p, s # args)
      else if s = ''--'' then Inr (p, args)
      else
        let body = (if s ! 1 = CHR ''-'' then drop 2 s else drop 1 s);
            (name, val) = flagParts body
        in if body = [] \<or> hd body = CHR ''-'' \<or> hd body = CHR ''=''
           then Inl (ErrText (''bad flag syntax: '' @ s))
           else case mget formal name of
                  None \<Rightarrow> Inl (ErrText (if name = ''help'' \<or> name = ''h'' then ''flag: help requested''
                             else ''flag provided but not defined: -'' @ name))
                | Some (bindBool f) \<Rightarrow>
                    (case val of
                       None \<Rightarrow> parseFlags formal args (setBool f True p)
                     | Some v \<Rightarrow>
                         (case parse_bool v of
                            None \<Rightarrow> Inl (ErrText (''invalid boolean value '' @ go_quote v @ '' for -'' @ name
                                      @ '': parse error''))
                          | Some b \<Rightarrow> parseFlags formal args (setBool f b p)))
                | Some (bindString f) \<Rightarrow>
                    (case val of
                       Some v \<Rightarrow> parseFlags formal args (setString f v p)
                     | None \<Rightarrow>
                         (case args of
                            [] \<Rightarrow> Inl (ErrText (''flag needs an argument: -'' @ name))
                          | v # rest \<Rightarrow> parseFlags formal rest (setString f v p))))"

definition parseOptions :: "string list \<Rightarrow> goerror + parsedOptions \<times> string list" where
  "parseOptions args =
     (case newParsedOptionFlagSet of Inl e \<Rightarrow> Inl e | Inr formal \<Rightarrow> parseFlags formal args no_options)"

section \<open>The list tasks\<close>

definition inlineOptionValue :: "string \<Rightarrow> string option" where
  "inlineOptionValue arg = map_option snd (cut arg ''='')"

text \<open>The parser skips what it does not know; \<open>--config\<close> and \<open>--external-dir\<close> without a value are
  ignored at the end.\<close>

fun parseListOptionsFrom :: "string list \<Rightarrow> parsedOptions \<Rightarrow> parsedOptions" where
  "parseListOptionsFrom [] p = p"
| "parseListOptionsFrom (arg # args) p =
     (case LookupOption arg of
        None \<Rightarrow> parseListOptionsFrom args p
      | Some opt \<Rightarrow>
          (if op_TaskFlag opt then parseListOptionsFrom args p
           else if op_Canonical opt = ''--config'' then
             (case inlineOptionValue arg of
                Some v \<Rightarrow> parseListOptionsFrom args (p\<lparr>po_ConfigPath := v\<rparr>)
              | None \<Rightarrow> (case args of
                    [] \<Rightarrow> p
                  | v # rest \<Rightarrow> parseListOptionsFrom rest (p\<lparr>po_ConfigPath := v\<rparr>)))
           else if op_Canonical opt = ''--external-dir'' then
             (case inlineOptionValue arg of
                Some v \<Rightarrow> parseListOptionsFrom args (bindExternalDir v p)
              | None \<Rightarrow> (case args of
                    [] \<Rightarrow> p
                  | v # rest \<Rightarrow> parseListOptionsFrom rest (bindExternalDir v p)))
           else if op_Arity opt = RequiredValue \<and> inlineOptionValue arg = None then
             (case args of [] \<Rightarrow> p | v # rest \<Rightarrow> parseListOptionsFrom rest p)
           else parseListOptionsFrom args p))"

definition parseListOptions :: "string list \<Rightarrow> parsedOptions" where
  "parseListOptions args = parseListOptionsFrom args no_options"

section \<open>The flag set, evaluated\<close>

definition formalTable :: "optionBinder gomap" where
  "formalTable =
    [(''color'', bindBool FColor), (''no-color'', bindBool FNoColor),
     (''config'', bindString FConfigPath), (''c'', bindString FConfigPath),
     (''debug'', bindBool FDebug), (''d'', bindBool FDebug),
     (''disable'', bindString FDisableEntries), (''external-dir'', bindString FExternalDirs),
     (''force-dot-resolution'', bindBool FForceDotResolution), (''hocon'', bindBool FHOCON),
     (''json'', bindBool FJSON), (''j'', bindBool FJSON), (''log-level'', bindString FLogLevel),
     (''l'', bindString FLogLevel), (''no-block'', bindBool FNoBlock),
     (''no-cache'', bindBool FNoCache), (''no-external-facts'', bindBool FNoExternalFacts),
     (''no-hocon'', bindBool FNoHOCON), (''no-json'', bindBool FNoJSON),
     (''no-yaml'', bindBool FNoYAML), (''verbose'', bindBool FVerbose),
     (''yaml'', bindBool FYAML), (''y'', bindBool FYAML), (''strict'', bindBool FStrict),
     (''timing'', bindBool FTiming), (''t'', bindBool FTiming),
     (''sequential'', bindBool FSequential), (''http-debug'', bindBool FHTTPDebug)]"

lemma flagSet_eq: "newParsedOptionFlagSet = Inr formalTable"
  by code_simp

text \<open>The names of the query's options, with their arity.\<close>

definition queryOptions :: "(string \<times> ValueArity) list" where
  "queryOptions =
    [(''--color'', NoValue), (''--no-color'', NoValue), (''--config'', RequiredValue),
     (''-c'', RequiredValue), (''--debug'', NoValue), (''-d'', NoValue),
     (''--disable'', RequiredValue), (''--external-dir'', RequiredValue),
     (''--force-dot-resolution'', NoValue), (''--hocon'', NoValue), (''--json'', NoValue),
     (''-j'', NoValue), (''--log-level'', RequiredValue), (''-l'', RequiredValue),
     (''--no-block'', NoValue), (''--no-cache'', NoValue), (''--no-external-facts'', NoValue),
     (''--no-hocon'', NoValue), (''--no-json'', NoValue), (''--no-yaml'', NoValue),
     (''--verbose'', NoValue), (''--yaml'', NoValue), (''-y'', NoValue), (''--strict'', NoValue),
     (''--timing'', NoValue), (''-t'', NoValue), (''--sequential'', NoValue),
     (''--http-debug'', NoValue)]"

lemma queryOptions_eq:
  "map (\<lambda>(k, opt). (k, op_Arity opt)) (filter (\<lambda>(k, opt). \<not> op_TaskFlag opt) optionByName) = queryOptions"
  by (simp add: optionByName_eq option_simps queryOptions_def)

definition flagShaped :: "string \<Rightarrow> bool" where
  "flagShaped k \<longleftrightarrow> length k \<ge> 2 \<and> CHR ''='' \<notin> set k \<and> flagName k \<noteq> [] \<and>
     hd (flagName k) \<noteq> CHR ''-'' \<and> (k = ''--'' @ flagName k \<or> k = ''-'' @ flagName k)"

lemma queryOptions_shaped:
  "list_all (\<lambda>(k, arity). flagShaped k \<and>
     (case mget formalTable (flagName k) of
        Some (bindBool f) \<Rightarrow> arity = NoValue
      | Some (bindString f) \<Rightarrow> arity = RequiredValue
      | None \<Rightarrow> False)) queryOptions"
  by code_simp

section \<open>Names and values of an argument\<close>

text \<open>An accepted argument is a name of the table, alone or followed by a value.\<close>

lemma LookupOption_cases:
  assumes "LookupOption arg = Some opt" "\<not> op_TaskFlag opt"
  obtains (alone) "(arg, op_Arity opt) \<in> set queryOptions" "CHR ''='' \<notin> set arg" "rawOption arg = arg"
  | (inline) k v where "arg = k @ CHR ''='' # v" "CHR ''='' \<notin> set k" "(k, RequiredValue) \<in> set queryOptions"
      "rawOption arg = k" "op_Arity opt = RequiredValue"
proof -
  have q: "(k, op_Arity opt) \<in> set queryOptions" if "mget optionByName k = Some opt" for k
    unfolding queryOptions_eq [symmetric] using map_of_SomeD [OF that] assms(2) by force
  show ?thesis
  proof (cases "cut arg ''=''")
    case None
    then have "mget optionByName arg = Some opt" using assms(1) by (simp add: LookupOption_def)
    moreover have "rawOption arg = arg" using None by (simp add: rawOption_def)
    ultimately show ?thesis using q None alone by (simp add: cut_None)
  next
    case (Some nv)
    obtain k v where nv: "nv = (k, v)" by (cases nv)
    with Some assms(1) have "mget optionByName k = Some opt" "op_Arity opt \<noteq> NoValue"
      by (auto simp: LookupOption_def split: option.splits if_splits)
    moreover have "op_Arity opt = RequiredValue" using calculation(2) by (cases "op_Arity opt") auto
    ultimately show ?thesis using q [of k] cut_parts [of arg "CHR ''=''" k v] Some nv
      by (intro inline [of k v]) (simp_all add: rawOption_def)
  qed
qed

section \<open>The two loops agree\<close>

fun getBool :: "boolField \<Rightarrow> parsedOptions \<Rightarrow> bool" where
  "getBool FColor p = po_Color p"
| "getBool FNoColor p = po_NoColor p"
| "getBool FDebug p = po_Debug p"
| "getBool FForceDotResolution p = po_ForceDotResolution p"
| "getBool FHOCON p = po_HOCON p"
| "getBool FJSON p = po_JSON p"
| "getBool FNoBlock p = po_NoBlock p"
| "getBool FNoCache p = po_NoCache p"
| "getBool FNoExternalFacts p = po_NoExternalFacts p"
| "getBool FNoHOCON p = po_NoHOCON p"
| "getBool FNoJSON p = po_NoJSON p"
| "getBool FNoYAML p = po_NoYAML p"
| "getBool FVerbose p = po_Verbose p"
| "getBool FYAML p = po_YAML p"
| "getBool FStrict p = po_Strict p"
| "getBool FTiming p = po_Timing p"
| "getBool FSequential p = po_Sequential p"
| "getBool FHTTPDebug p = po_HTTPDebug p"

lemma getBool_setBool [simp]: "getBool f (setBool g b p) = (if f = g then b else getBool f p)"
  by (cases f; cases g) simp_all

lemma getBool_setString [simp]: "getBool f (setString g v p) = getBool f p"
  by (cases f; cases g) (simp_all add: bindExternalDir_def bindDisable_def)

lemma po_ExternalDirs_setBool [simp]: "po_ExternalDirs (setBool f b p) = po_ExternalDirs p"
  by (cases f) simp_all

lemma po_ExternalDirs_setString:
  "f \<noteq> FExternalDirs \<Longrightarrow> po_ExternalDirs (setString f v p) = po_ExternalDirs p"
  by (cases f) (simp_all add: bindDisable_def)

text \<open>Every option set in \<open>p\<close> has a name of it among the raw names seen.\<close>

definition sawOptions :: "string list \<Rightarrow> parsedOptions \<Rightarrow> bool" where
  "sawOptions R p \<longleftrightarrow> set R \<subseteq> fst ` set queryOptions \<and>
     (\<forall>f. getBool f p \<longrightarrow> (\<exists>k\<in>set R. mget formalTable (flagName k) = Some (bindBool f))) \<and>
     (po_ExternalDirs p \<noteq> [] \<longrightarrow>
        (\<exists>k\<in>set R. mget formalTable (flagName k) = Some (bindString FExternalDirs)))"

lemma query_key: "(k, arity) \<in> set queryOptions \<Longrightarrow> k \<in> fst ` set queryOptions"
  by (rule image_eqI [of _ _ "(k, arity)"]) simp_all

lemma sawOptions_bool:
  assumes "sawOptions R p" "(k, NoValue) \<in> set queryOptions" "mget formalTable (flagName k) = Some (bindBool f)"
  shows "sawOptions (k # R) (setBool f True p)"
  unfolding sawOptions_def
proof (intro conjI allI impI)
  show "set (k # R) \<subseteq> fst ` set queryOptions"
    using assms(1) query_key [OF assms(2)] unfolding sawOptions_def by simp
  show "\<exists>k'\<in>set (k # R). mget formalTable (flagName k') = Some (bindBool g)"
    if "getBool g (setBool f True p)" for g
  proof (cases "f = g")
    case False
    with that assms(1) show ?thesis unfolding sawOptions_def by simp
  qed (use assms(3) in simp)
  show "\<exists>k'\<in>set (k # R). mget formalTable (flagName k') = Some (bindString FExternalDirs)"
    if "po_ExternalDirs (setBool f True p) \<noteq> []"
    using that assms(1) unfolding sawOptions_def by simp
qed

lemma sawOptions_string:
  assumes "sawOptions R p" "(k, RequiredValue) \<in> set queryOptions"
    "mget formalTable (flagName k) = Some (bindString f)"
  shows "sawOptions (k # R) (setString f v p)"
  unfolding sawOptions_def
proof (intro conjI allI impI)
  show "set (k # R) \<subseteq> fst ` set queryOptions"
    using assms(1) query_key [OF assms(2)] unfolding sawOptions_def by simp
  show "\<exists>k'\<in>set (k # R). mget formalTable (flagName k') = Some (bindBool g)"
    if "getBool g (setString f v p)" for g
    using that assms(1) unfolding sawOptions_def by simp
  show "\<exists>k'\<in>set (k # R). mget formalTable (flagName k') = Some (bindString FExternalDirs)"
    if "po_ExternalDirs (setString f v p) \<noteq> []"
  proof (cases "f = FExternalDirs")
    case False
    with that assms(1) show ?thesis unfolding sawOptions_def by (simp add: po_ExternalDirs_setString)
  qed (use assms(3) in simp)
qed

lemma query_shape:
  assumes "(k, arity) \<in> set queryOptions"
  shows "CHR ''='' \<notin> set k \<and> flagName k \<noteq> [] \<and> hd (flagName k) \<noteq> CHR ''-'' \<and>
     (k = ''--'' @ flagName k \<or> k = ''-'' @ flagName k)"
  using assms queryOptions_shaped by (fastforce simp: list_all_iff flagShaped_def)

lemma query_binder:
  assumes "(k, arity) \<in> set queryOptions"
  shows "(arity = NoValue \<and> (\<exists>f. mget formalTable (flagName k) = Some (bindBool f))) \<or>
     (arity = RequiredValue \<and> (\<exists>f. mget formalTable (flagName k) = Some (bindString f)))"
proof -
  have "case mget formalTable (flagName k) of Some (bindBool f) \<Rightarrow> arity = NoValue
      | Some (bindString f) \<Rightarrow> arity = RequiredValue | None \<Rightarrow> False"
    using assms queryOptions_shaped by (auto simp: list_all_iff)
  then show ?thesis by (simp split: option.splits optionBinder.splits)
qed

lemma parseFlags_flag:
  assumes "pre = ''-'' \<or> pre = ''--''" and "n \<noteq> []" and "hd n \<noteq> CHR ''-''" and "hd n \<noteq> CHR ''=''"
  shows "parseFlags formal ((pre @ n) # args) p =
     (let (name, val) = flagParts n
      in case mget formal name of
           None \<Rightarrow> Inl (ErrText (if name = ''help'' \<or> name = ''h'' then ''flag: help requested''
                             else ''flag provided but not defined: -'' @ name))
         | Some (bindBool f) \<Rightarrow>
             (case val of
                None \<Rightarrow> parseFlags formal args (setBool f True p)
              | Some v \<Rightarrow>
                  (case parse_bool v of
                     None \<Rightarrow> Inl (ErrText (''invalid boolean value '' @ go_quote v @ '' for -'' @ name
                                      @ '': parse error''))
                   | Some b \<Rightarrow> parseFlags formal args (setBool f b p)))
         | Some (bindString f) \<Rightarrow>
             (case val of
                Some v \<Rightarrow> parseFlags formal args (setString f v p)
              | None \<Rightarrow>
                  (case args of
                     [] \<Rightarrow> Inl (ErrText (''flag needs an argument: -'' @ name))
                   | v # rest \<Rightarrow> parseFlags formal rest (setString f v p))))"
proof -
  obtain c cs where n: "n = c # cs" using assms(2) by (cases n) auto
  show ?thesis using assms by (auto simp: n Let_def)
qed

lemma parse_alone:
  assumes "(k, NoValue) \<in> set queryOptions" and "mget formalTable (flagName k) = Some (bindBool f)"
  shows "parseFlags formalTable (k # args) p = parseFlags formalTable args (setBool f True p)"
proof -
  obtain pre where pre: "pre = ''-'' \<or> pre = ''--''" and k: "k = pre @ flagName k"
    using query_shape [OF assms(1)] by metis
  have "CHR ''='' \<notin> set (flagName k)" using query_shape [OF assms(1)] k by (metis Un_iff set_append)
  moreover from this have "cut (flagName k) ''='' = None" by (simp add: cut_None)
  moreover have "hd (flagName k) \<noteq> CHR ''=''" using calculation(1) query_shape [OF assms(1)] hd_in_set by metis
  ultimately show ?thesis
    using parseFlags_flag [OF pre, of "flagName k" formalTable args p] query_shape [OF assms(1)] assms(2) k
    by (simp add: flagParts_def)
qed

lemma parse_separate:
  assumes "(k, RequiredValue) \<in> set queryOptions" and "mget formalTable (flagName k) = Some (bindString f)"
  shows "parseFlags formalTable (k # v # args) p = parseFlags formalTable args (setString f v p)"
proof -
  obtain pre where pre: "pre = ''-'' \<or> pre = ''--''" and k: "k = pre @ flagName k"
    using query_shape [OF assms(1)] by metis
  have "CHR ''='' \<notin> set (flagName k)" using query_shape [OF assms(1)] k by (metis Un_iff set_append)
  moreover from this have "cut (flagName k) ''='' = None" by (simp add: cut_None)
  moreover have "hd (flagName k) \<noteq> CHR ''=''" using calculation(1) query_shape [OF assms(1)] hd_in_set by metis
  ultimately show ?thesis
    using parseFlags_flag [OF pre, of "flagName k" formalTable "v # args" p] query_shape [OF assms(1)] assms(2) k
    by (simp add: flagParts_def)
qed

lemma parse_inline:
  assumes "(k, RequiredValue) \<in> set queryOptions" and "mget formalTable (flagName k) = Some (bindString f)"
  shows "parseFlags formalTable ((k @ CHR ''='' # v) # args) p = parseFlags formalTable args (setString f v p)"
proof -
  let ?n = "flagName k @ CHR ''='' # v"
  obtain pre where pre: "pre = ''-'' \<or> pre = ''--''" and k: "k = pre @ flagName k"
    using query_shape [OF assms(1)] by metis
  have e: "CHR ''='' \<notin> set (flagName k)" using query_shape [OF assms(1)] k by (metis Un_iff set_append)
  then have "cut ?n ''='' = Some (flagName k, v)" by (rule cut_at)
  moreover have "hd (flagName k) \<noteq> CHR ''=''" using e query_shape [OF assms(1)] hd_in_set by metis
  ultimately have "parseFlags formalTable ((pre @ ?n) # args) p = parseFlags formalTable args (setString f v p)"
    using parseFlags_flag [OF pre, of ?n formalTable args p] query_shape [OF assms(1)] assms(2)
    by (simp add: flagParts_def del: parseFlags.simps)
  moreover have "pre @ ?n = k @ CHR ''='' # v" using k by (metis append.assoc)
  ultimately show ?thesis by simp
qed

lemma parseFlags_stop:
  "\<not> has_prefix s ''-'' \<Longrightarrow> parseFlags formal (s # args) p = Inr (p, s # args)"
  by (cases s) auto

declare parseFlags.simps(2) [simp del]

lemma noteOption_raw [simp]: "sc_seenRaw (noteOption arg opt rest st) = rawOption arg # sc_seenRaw st"
  by (simp add: noteOption_def)

lemma scanOptions_raw:
  "scanOptions args st = Inr st' \<Longrightarrow> set (sc_seenRaw st) \<subseteq> set (sc_seenRaw st')"
proof (induction args st rule: scanOptions.induct)
  case (3 arg val args st)
  then show ?case by (fastforce simp: Let_def split: if_splits option.splits)
qed (auto split: if_splits option.splits)

lemma takesSeparate:
  "LookupOption arg = Some opt \<Longrightarrow> OptionTakesSeparateValue arg \<longleftrightarrow> CHR ''='' \<notin> set arg \<and> op_Arity opt = RequiredValue"
  using cut_None [of arg "CHR ''=''"] by (auto simp: OptionTakesSeparateValue_def)

text \<open>One step: an option that the validation notes is set by the parser.\<close>

lemma option_step:
  assumes "LookupOption arg = Some opt" "\<not> op_TaskFlag opt" "sawOptions R p" "\<not> OptionTakesSeparateValue arg"
  obtains q where "sawOptions (rawOption arg # R) q"
    "\<And>args. parseFlags formalTable (arg # args) p = parseFlags formalTable args q"
  using assms(1,2)
proof (cases rule: LookupOption_cases)
  case alone
  then have no: "op_Arity opt = NoValue"
    using assms(4) takesSeparate [OF assms(1)] by (cases "op_Arity opt") simp_all
  with alone obtain f where f: "mget formalTable (flagName arg) = Some (bindBool f)"
    using query_binder [OF alone(1)] by auto
  show ?thesis using that [of "setBool f True p"] sawOptions_bool [OF assms(3) _ f] parse_alone [OF _ f]
      alone no by simp
next
  case (inline k v)
  then obtain f where f: "mget formalTable (flagName k) = Some (bindString f)"
    using query_binder [OF inline(3)] by auto
  show ?thesis using that [of "setString f v p"] sawOptions_string [OF assms(3) inline(3) f]
      parse_inline [OF inline(3) f] inline(1,4) by simp
qed

lemma option_value_step:
  assumes "LookupOption arg = Some opt" "\<not> op_TaskFlag opt" "sawOptions R p" "OptionTakesSeparateValue arg"
  obtains q where "sawOptions (rawOption arg # R) q"
    "\<And>args. parseFlags formalTable (arg # v # args) p = parseFlags formalTable args q"
  using assms(1,2)
proof (cases rule: LookupOption_cases)
  case alone
  have req: "op_Arity opt = RequiredValue" using assms(4) takesSeparate [OF assms(1)] by simp
  with alone obtain f where f: "mget formalTable (flagName arg) = Some (bindString f)"
    using query_binder [OF alone(1)] by auto
  show ?thesis using that [of "setString f v p"] sawOptions_string [OF assms(3) _ f] parse_separate [OF _ f]
      alone req by simp
next
  case (inline k v)
  then show ?thesis using assms(4) takesSeparate [OF assms(1)] by simp
qed

lemma not_task: "\<not> IsTaskFlag arg \<Longrightarrow> LookupOption arg = Some opt \<Longrightarrow> \<not> op_TaskFlag opt"
  by (simp add: IsTaskFlag_def)

lemma LookupOption_known:
  "LookupOption arg = Some opt \<Longrightarrow> \<not> op_TaskFlag opt \<Longrightarrow> rawOption arg \<in> fst ` set queryOptions"
  by (erule (1) LookupOption_cases) force+

lemma scanOptions_known:
  "scanOptions args st = Inr st' \<Longrightarrow> list_all (\<lambda>a. \<not> IsTaskFlag a) args \<Longrightarrow>
     set (sc_seenRaw st) \<subseteq> fst ` set queryOptions \<Longrightarrow> set (sc_seenRaw st') \<subseteq> fst ` set queryOptions"
proof (induction args st rule: scanOptions.induct)
  case (2 arg st)
  then show ?case using LookupOption_known [OF _ not_task] by (auto split: if_splits option.splits)
next
  case (3 arg val args st)
  show ?case
  proof (cases "LookupOption arg")
    case None
    with 3 show ?thesis by (auto split: if_splits)
  next
    case (Some opt)
    have "rawOption arg \<in> fst ` set queryOptions"
      using LookupOption_known [OF Some not_task [OF _ Some]] "3.prems"(2) by simp
    with 3 Some show ?thesis by (auto simp: Let_def split: if_splits)
  qed
qed simp

lemma scan_parse:
  "scanOptions args st = Inr st' \<Longrightarrow> list_all (\<lambda>a. \<not> IsTaskFlag a) args \<Longrightarrow> sawOptions (sc_seenRaw st) p \<Longrightarrow>
     set (sc_seenRaw st') \<subseteq> fst ` set queryOptions \<Longrightarrow>
     \<exists>p' rest. parseFlags formalTable args p = Inr (p', rest) \<and> sawOptions (sc_seenRaw st') p'"
proof (induction args st arbitrary: p rule: scanOptions.induct)
  case (1 st)
  then show ?case by simp
next
  case (2 arg st)
  show ?case
  proof (cases "arg = ''--'' \<or> \<not> has_prefix arg ''-''")
    case True
    with "2.prems" show ?thesis using parseFlags_stop [of arg formalTable "[]" p]
      by (auto simp: parseFlags.simps(2))
  next
    case False
    with "2.prems"(1) obtain opt where opt: "LookupOption arg = Some opt" "\<not> OptionTakesSeparateValue arg"
      and st': "st' = noteOption arg opt [] st" by (auto split: option.splits if_splits)
    obtain q where "sawOptions (rawOption arg # sc_seenRaw st) q"
      "\<And>args. parseFlags formalTable (arg # args) p = parseFlags formalTable args q"
      using option_step [OF opt(1) not_task [OF _ opt(1)] "2.prems"(3) opt(2)] "2.prems"(2) by auto
    then show ?thesis by (simp add: st')
  qed
next
  case (3 arg val args st)
  show ?case
  proof (cases "arg = ''--'' \<or> \<not> has_prefix arg ''-''")
    case True
    have "sawOptions (sc_seenRaw st') p"
      using "3.prems"(3,4) scanOptions_raw [OF "3.prems"(1)] unfolding sawOptions_def by blast
    with True show ?thesis using parseFlags_stop [of arg formalTable "val # args" p]
      by (auto simp: parseFlags.simps(2))
  next
    case False
    with "3.prems"(1) obtain opt where opt: "LookupOption arg = Some opt" by (auto split: option.splits)
    let ?st = "noteOption arg opt (val # args) st"
    have nt: "\<not> op_TaskFlag opt" using not_task [OF _ opt] "3.prems"(2) by simp
    show ?thesis
    proof (cases "OptionTakesSeparateValue arg")
      case True
      have sc: "scanOptions args ?st = Inr st'" using "3.prems"(1) False opt True by simp
      obtain q where q: "sawOptions (rawOption arg # sc_seenRaw st) q"
        "\<And>args. parseFlags formalTable (arg # val # args) p = parseFlags formalTable args q"
        using option_value_step [OF opt nt "3.prems"(3) True] by blast
      show ?thesis using "3.IH"(2) [OF _ _ opt refl True sc _ _ "3.prems"(4), of q] q False "3.prems"(2) by simp
    next
      case no: False
      have sc: "scanOptions (val # args) ?st = Inr st'" using "3.prems"(1) False opt no by simp
      obtain q where q: "sawOptions (rawOption arg # sc_seenRaw st) q"
        "\<And>args. parseFlags formalTable (arg # args) p = parseFlags formalTable args q"
        using option_step [OF opt nt "3.prems"(3) no] by blast
      show ?thesis using "3.IH"(3) [OF _ _ opt refl no sc _ _ "3.prems"(4), of q] q False "3.prems"(2) by simp
    qed
  qed
qed

section \<open>What validation guarantees of a query\<close>

definition namesOf :: "optionBinder \<Rightarrow> string list" where
  "namesOf b = filter (\<lambda>k. mget formalTable (flagName k) = Some b) (map fst queryOptions)"

lemma queryBinders:
  "map (\<lambda>(k, arity). (k, mget formalTable (flagName k))) queryOptions =
    [(''--color'', Some (bindBool FColor)), (''--no-color'', Some (bindBool FNoColor)),
     (''--config'', Some (bindString FConfigPath)), (''-c'', Some (bindString FConfigPath)),
     (''--debug'', Some (bindBool FDebug)), (''-d'', Some (bindBool FDebug)), (''--disable'', Some
     (bindString FDisableEntries)), (''--external-dir'', Some (bindString FExternalDirs)),
     (''--force-dot-resolution'', Some (bindBool FForceDotResolution)), (''--hocon'', Some (bindBool
     FHOCON)), (''--json'', Some (bindBool FJSON)), (''-j'', Some (bindBool FJSON)),
     (''--log-level'', Some (bindString FLogLevel)), (''-l'', Some (bindString FLogLevel)),
     (''--no-block'', Some (bindBool FNoBlock)), (''--no-cache'', Some (bindBool FNoCache)),
     (''--no-external-facts'', Some (bindBool FNoExternalFacts)), (''--no-hocon'', Some (bindBool
     FNoHOCON)), (''--no-json'', Some (bindBool FNoJSON)), (''--no-yaml'', Some (bindBool FNoYAML)),
     (''--verbose'', Some (bindBool FVerbose)), (''--yaml'', Some (bindBool FYAML)), (''-y'', Some
     (bindBool FYAML)), (''--strict'', Some (bindBool FStrict)), (''--timing'', Some (bindBool
     FTiming)), (''-t'', Some (bindBool FTiming)), (''--sequential'', Some (bindBool FSequential)),
     (''--http-debug'', Some (bindBool FHTTPDebug))]"
  by code_simp

lemma namesOf_binders:
  "namesOf b = map fst (filter (\<lambda>(k, x). x = Some b)
     (map (\<lambda>(k, arity). (k, mget formalTable (flagName k))) queryOptions))"
  by (simp add: namesOf_def filter_map o_def case_prod_beta)

lemma namesOf_eq:
  "namesOf (bindBool FJSON) = [''--json'', ''-j'']" "namesOf (bindBool FYAML) = [''--yaml'', ''-y'']"
  "namesOf (bindBool FHOCON) = [''--hocon'']" "namesOf (bindBool FColor) = [''--color'']"
  "namesOf (bindBool FNoColor) = [''--no-color'']" "namesOf (bindBool FNoExternalFacts) = [''--no-external-facts'']"
  "namesOf (bindString FExternalDirs) = [''--external-dir'']"
  unfolding namesOf_binders queryBinders by simp_all

lemma saw_bool: "sawOptions R p \<Longrightarrow> getBool f p \<Longrightarrow> \<exists>k\<in>set (namesOf (bindBool f)). k \<in> set R"
  unfolding sawOptions_def namesOf_def by fastforce

lemma saw_dirs: "sawOptions R p \<Longrightarrow> po_ExternalDirs p \<noteq> [] \<Longrightarrow> ''--external-dir'' \<in> set R"
proof -
  assume "sawOptions R p" "po_ExternalDirs p \<noteq> []"
  then have "\<exists>k\<in>set (namesOf (bindString FExternalDirs)). k \<in> set R"
    unfolding sawOptions_def namesOf_def by fastforce
  then show ?thesis by (simp add: namesOf_eq)
qed

lemma conflictTable:
  "map (\<lambda>(k, opt). (k, op_Conflicts opt)) (filter (\<lambda>(k, opt). op_Conflicts opt \<noteq> []) optionByName) =
     [(''--color'', [''--no-color'']), (''--external-dir'', [''--no-external-facts'']), (''--hocon'', [''--no-hocon'']),
      (''--json'', [''--no-json'', ''-y'', ''--yaml'', ''--hocon'']), (''-j'', [''--no-json'', ''-y'', ''--yaml'', ''--hocon'']),
      (''--no-external-facts'', [''--external-dir'']), (''--yaml'', [''--no-yaml'', ''-j'', ''--hocon'']),
      (''-y'', [''--no-yaml'', ''-j'', ''--hocon''])]"
  by (simp add: optionByName_eq option_simps)

lemma conflicts_of:
  assumes "cut k ''='' = None" "mget (map (\<lambda>(k, opt). (k, op_Conflicts opt))
      (filter (\<lambda>(k, opt). op_Conflicts opt \<noteq> []) optionByName)) k = Some cs"
  shows "optionConflictRuleFor k = \<lparr>oc_option = k, oc_conflicts = cs\<rparr>"
proof -
  have d: "distinct (map fst optionByName)" by (simp add: optionByName_eq)
  obtain opt where "(k, opt) \<in> set optionByName" "cs = op_Conflicts opt"
    using map_of_SomeD [OF assms(2)] by auto
  with d have "mget optionByName k = Some opt" "cs = op_Conflicts opt" by simp_all
  then show ?thesis using assms(1) by (simp add: optionConflictRuleFor_def LookupOption_def)
qed

lemma conflictPairs_eq:
  "conflictPairs = [(''--color'', ''--no-color''), (''--json'', ''--no-json''), (''--json'', ''-y''),
     (''--json'', ''--yaml''), (''--json'', ''--hocon''), (''--yaml'', ''--no-yaml''), (''--yaml'', ''-j''),
     (''--yaml'', ''--hocon''), (''--hocon'', ''--no-hocon''), (''-j'', ''--no-json''), (''-j'', ''--hocon''),
     (''-y'', ''--no-yaml''), (''-y'', ''-j''), (''-y'', ''--hocon''), (''--no-external-facts'', ''--external-dir'')]"
proof -
  note r = conflicts_of [unfolded cut_None conflictTable]
  show ?thesis
    by (simp add: conflictPairs_def optionConflictRules_def r [of "''--color''"] r [of "''--json''"]
        r [of "''--yaml''"] r [of "''--hocon''"] r [of "''--no-external-facts''"])
qed

lemma firstConflict_None: "firstConflict R = None \<longleftrightarrow> list_all (\<lambda>(a, b). a \<notin> set R \<or> b \<notin> set R) conflictPairs"
  by (auto simp: firstConflict_def find_None_iff list_all_iff)

lemma no_conflict:
  assumes "firstConflict R = None" "sawOptions R p"
  shows "\<not> (po_JSON p \<and> po_YAML p)" "\<not> (po_JSON p \<and> po_HOCON p)" "\<not> (po_YAML p \<and> po_HOCON p)"
    "\<not> (po_Color p \<and> po_NoColor p)" "\<not> (po_NoExternalFacts p \<and> po_ExternalDirs p \<noteq> [])"
proof -
  have c: "a \<notin> set R \<or> b \<notin> set R" if "(a, b) \<in> set conflictPairs" for a b
    using assms(1) that firstConflict_None [of R] by (auto simp: list_all_iff)
  have clash: "\<not> (getBool f p \<and> getBool g p)"
    if "\<forall>a\<in>set (namesOf (bindBool f)). \<forall>b\<in>set (namesOf (bindBool g)).
          (a, b) \<in> set conflictPairs \<or> (b, a) \<in> set conflictPairs" for f g
    using saw_bool [OF assms(2), of f] saw_bool [OF assms(2), of g] c that by metis
  show "\<not> (po_JSON p \<and> po_YAML p)" using clash [of FJSON FYAML] by (simp add: namesOf_eq conflictPairs_eq)
  show "\<not> (po_JSON p \<and> po_HOCON p)" using clash [of FJSON FHOCON] by (simp add: namesOf_eq conflictPairs_eq)
  show "\<not> (po_YAML p \<and> po_HOCON p)" using clash [of FYAML FHOCON] by (simp add: namesOf_eq conflictPairs_eq)
  show "\<not> (po_Color p \<and> po_NoColor p)" using clash [of FColor FNoColor] by (simp add: namesOf_eq conflictPairs_eq)
  show "\<not> (po_NoExternalFacts p \<and> po_ExternalDirs p \<noteq> [])"
    using saw_bool [OF assms(2), of FNoExternalFacts] saw_dirs [OF assms(2)]
      c [of "''--no-external-facts''" "''--external-dir''"]
    by (simp add: namesOf_eq conflictPairs_eq) blast
qed

text \<open>C24: Arguments the validation accepts are parsed without an error, unless a task option is among
  them, and the parsed options are consistent: at most one output format, never both colour
  options, and no external directory together with the option that switches external facts
  off.\<close>

theorem validated_options_parse:
  assumes "validateOptions args = None" and "list_all (\<lambda>a. \<not> IsTaskFlag a) args"
  shows "(case parseOptions args of
      Inl e \<Rightarrow> False
    | Inr (p, queries) \<Rightarrow>
        length (filter id [po_JSON p, po_YAML p, po_HOCON p]) \<le> 1 \<and> \<not> (po_Color p \<and> po_NoColor p) \<and>
        (if po_NoExternalFacts p then po_ExternalDirs p = [] else True))"
proof -
  let ?st = "\<lparr>sc_seen = [], sc_seenRaw = [], sc_counts = [], sc_logLevel = []\<rparr>"
  obtain st where st: "scanOptions args ?st = Inr st" "firstConflict (sc_seenRaw st) = None"
    using assms(1) by (auto simp: validateOptions_def split: sum.splits option.splits)
  have "getBool f no_options = False" for f by (cases f) (simp_all add: no_options_def)
  then have "sawOptions (sc_seenRaw ?st) no_options" by (simp add: sawOptions_def no_options_def)
  moreover have "set (sc_seenRaw st) \<subseteq> fst ` set queryOptions"
    using scanOptions_known [OF st(1) assms(2)] by simp
  ultimately obtain p rest
    where p: "parseFlags formalTable args no_options = Inr (p, rest)" "sawOptions (sc_seenRaw st) p"
    using scan_parse [OF st(1) assms(2)] by blast
  show ?thesis using no_conflict [OF st(2) p(2)] p(1)
    by (auto simp: parseOptions_def flagSet_eq)
qed

lemma json_known:
  "LookupOption ''--json'' = Some opt_json" "\<not> IsTaskFlag ''--json''" "\<not> OptionTakesSeparateValue ''--json''"
  "rawOption ''--json'' = ''--json''" "op_Canonical opt_json = ''--json''"
proof -
  have c: "cut ''--json'' ''='' = None" by code_simp
  show l: "LookupOption ''--json'' = Some opt_json" using c by (simp add: LookupOption_def optionByName_eq)
  show "\<not> IsTaskFlag ''--json''" using l by (simp add: IsTaskFlag_def opt_json_def)
  show "\<not> OptionTakesSeparateValue ''--json''" using l c by (simp add: OptionTakesSeparateValue_def opt_json_def)
  show "rawOption ''--json'' = ''--json''" using c by (simp add: rawOption_def)
  show "op_Canonical opt_json = ''--json''" by (simp add: opt_json_def)
qed

theorem validated_options_parse_witness:
  "(case parseOptions [''--json''] of
      Inl e \<Rightarrow> False
    | Inr (p, queries) \<Rightarrow>
        length (filter id [po_JSON p, po_YAML p, po_HOCON p]) \<le> 1 \<and> \<not> (po_Color p \<and> po_NoColor p) \<and>
        (if po_NoExternalFacts p then po_ExternalDirs p = [] else True))"
proof -
  have "validateOptions [''--json''] = None"
    by (simp add: validateOptions_def json_known noteOption_def repeatedOption_def firstConflict_def
        conflictPairs_eq logOptionsConflict_def)
  moreover have "list_all (\<lambda>a. \<not> IsTaskFlag a) [''--json'']" using json_known by simp
  ultimately show ?thesis by (rule validated_options_parse)
qed

text \<open>A task option after an explicit task is accepted by the validation and refused by the parser.\<close>

lemma query_task_flag:
  "validateOptions [''query'', ''--version''] = None"
  "parseOptions [''--version''] = Inl (ErrText ''flag provided but not defined: -version'')"
proof -
  have c: "cut ''--version'' ''='' = None" "cut ''version'' ''='' = None" "IsTask ''query''" by code_simp+
  have l: "LookupOption ''--version'' = Some opt_version" using c by (simp add: LookupOption_def optionByName_eq)
  show "validateOptions [''query'', ''--version''] = None"
    using c l by (simp add: validateOptions_def OptionTakesSeparateValue_def opt_version_def noteOption_def
        repeatedOption_def firstConflict_def conflictPairs_eq logOptionsConflict_def rawOption_def)
  show "parseOptions [''--version''] = Inl (ErrText ''flag provided but not defined: -version'')"
    using c by (simp add: parseOptions_def flagSet_eq parseFlags.simps flagParts_def formalTable_def)
qed

end
