(* ===== verification/Go_Regexp.thy ===== *)
theory Go_Regexp
  imports Go_Library
begin

text \<open>
  Go's \<open>regexp\<close> package, as far as the modelled files use it: the syntax of their patterns as a
  datatype, the leftmost-first match (the one a backtracking search finds first) as the list
  of all matches in order of preference, and \<open>FindSubmatch\<close>, \<open>FindAll\<close> and \<open>ReplaceAll\<close> on top of it.

  A position is the character before it and the text after it. A pattern works on bytes: a
  negated class or a dot takes the bytes of a multi-byte character one by one, which for
  valid UTF-8 leaves the matches of the patterns used here the same. Case is that of ASCII.
\<close>

section \<open>Patterns\<close>

datatype rx =
    Eps
  | Chars "char \<Rightarrow> bool"
  | Cat rx rx
  | Or rx rx
  | Many rx
  | Few rx
  | Grp nat rx
  | TextStart
  | LineStart
  | TextEnd
  | WordBoundary

text \<open>The position of a match in progress: the character before it, the text after it, and the
  groups captured so far, the latest first.\<close>

record mstate =
  ms_prev :: "char option"
  ms_rest :: string
  ms_caps :: "(nat \<times> string) list"

definition step_char :: "char \<Rightarrow> string \<Rightarrow> mstate \<Rightarrow> mstate" where
  "step_char c cs st = st\<lparr>ms_prev := Some c, ms_rest := cs\<rparr>"

definition is_word :: "char \<Rightarrow> bool" where
  "is_word c \<longleftrightarrow> is_alnum c \<or> c = CHR ''_''"

definition at_boundary :: "mstate \<Rightarrow> bool" where
  "at_boundary st \<longleftrightarrow>
     (case ms_prev st of None \<Rightarrow> False | Some c \<Rightarrow> is_word c) \<noteq> (case ms_rest st of [] \<Rightarrow> False | c # _ \<Rightarrow> is_word c)"

definition shorter :: "mstate \<Rightarrow> mstate \<Rightarrow> bool" where
  "shorter st st' \<longleftrightarrow> length (ms_rest st') < length (ms_rest st)"

text \<open>Repetition: an iteration that consumes nothing ends it, so the length of the text bounds the
  number of iterations.\<close>

primrec greedy :: "nat \<Rightarrow> (mstate \<Rightarrow> mstate list) \<Rightarrow> mstate \<Rightarrow> mstate list" where
  "greedy 0 one st = [st]"
| "greedy (Suc n) one st = concat (map (greedy n one) (filter (shorter st) (one st))) @ [st]"

primrec lazy :: "nat \<Rightarrow> (mstate \<Rightarrow> mstate list) \<Rightarrow> mstate \<Rightarrow> mstate list" where
  "lazy 0 one st = [st]"
| "lazy (Suc n) one st = st # concat (map (lazy n one) (filter (shorter st) (one st)))"

fun matches :: "rx \<Rightarrow> mstate \<Rightarrow> mstate list" where
  "matches Eps st = [st]"
| "matches (Chars p) st = (case ms_rest st of [] \<Rightarrow> [] | c # cs \<Rightarrow> if p c then [step_char c cs st] else [])"
| "matches (Cat a b) st = concat (map (matches b) (matches a st))"
| "matches (Or a b) st = matches a st @ matches b st"
| "matches (Many r) st = greedy (length (ms_rest st)) (matches r) st"
| "matches (Few r) st = lazy (length (ms_rest st)) (matches r) st"
| "matches (Grp n r) st =
     map (\<lambda>st'. st'\<lparr>ms_caps := (n, take (length (ms_rest st) - length (ms_rest st')) (ms_rest st)) # ms_caps st'\<rparr>)
       (matches r st)"
| "matches TextStart st = (if ms_prev st = None then [st] else [])"
| "matches LineStart st = (if ms_prev st = None \<or> ms_prev st = Some NL then [st] else [])"
| "matches TextEnd st = (if ms_rest st = [] then [st] else [])"
| "matches WordBoundary st = (if at_boundary st then [st] else [])"

section \<open>Searching\<close>

record rxMatch =
  rm_before :: string
  rm_text :: string
  rm_caps :: "(nat \<times> string) list"
  rm_prev :: "char option"
  rm_after :: string

text \<open>The text of a group; a group that took no part is empty.\<close>

definition grp :: "rxMatch \<Rightarrow> nat \<Rightarrow> string" where
  "grp m n = (if n = 0 then rm_text m else case map_of (rm_caps m) n of Some t \<Rightarrow> t | None \<Rightarrow> [])"

definition match_here :: "rx \<Rightarrow> char option \<Rightarrow> string \<Rightarrow> rxMatch option" where
  "match_here r prev s =
     (case matches r \<lparr>ms_prev = prev, ms_rest = s, ms_caps = []\<rparr> of [] \<Rightarrow> None
      | st # _ \<Rightarrow> Some \<lparr>rm_before = [], rm_text = take (length s - length (ms_rest st)) s, rm_caps = ms_caps st,
                      rm_prev = ms_prev st, rm_after = ms_rest st\<rparr>)"

fun search :: "rx \<Rightarrow> char option \<Rightarrow> string \<Rightarrow> rxMatch option" where
  "search r prev [] = match_here r prev []"
| "search r prev (c # cs) =
     (case match_here r prev (c # cs) of Some m \<Rightarrow> Some m
      | None \<Rightarrow> map_option (\<lambda>m. m\<lparr>rm_before := c # rm_before m\<rparr>) (search r (Some c) cs))"

definition FindSubmatch :: "rx \<Rightarrow> string \<Rightarrow> rxMatch option" where
  "FindSubmatch r s = search r None s"

definition MatchString :: "rx \<Rightarrow> string \<Rightarrow> bool" where
  "MatchString r s \<longleftrightarrow> FindSubmatch r s \<noteq> None"

definition FindString :: "rx \<Rightarrow> string \<Rightarrow> string" where
  "FindString r s = (case FindSubmatch r s of None \<Rightarrow> [] | Some m \<Rightarrow> rm_text m)"

text \<open>All matches, for a pattern that never matches the empty string: each search starts where the
  last match ended.\<close>

primrec find_all :: "nat \<Rightarrow> rx \<Rightarrow> char option \<Rightarrow> string \<Rightarrow> rxMatch list" where
  "find_all 0 r prev s = []"
| "find_all (Suc n) r prev s =
     (case search r prev s of None \<Rightarrow> []
      | Some m \<Rightarrow> if rm_text m = [] then [m] else m # find_all n r (rm_prev m) (rm_after m))"

definition FindAllSubmatch :: "rx \<Rightarrow> string \<Rightarrow> rxMatch list" where
  "FindAllSubmatch r s = find_all (Suc (length s)) r None s"

section \<open>Building patterns\<close>

abbreviation chr :: "char \<Rightarrow> rx" where "chr c \<equiv> Chars (\<lambda>x. x = c)"

definition cats :: "rx list \<Rightarrow> rx" where
  "cats rs = foldr Cat rs Eps"

definition lit :: "string \<Rightarrow> rx" where
  "lit s = cats (map chr s)"

text \<open>A literal under the flag \<open>i\<close>.\<close>

definition lit_i :: "string \<Rightarrow> rx" where
  "lit_i s = cats (map (\<lambda>c. Chars (\<lambda>x. lower_char x = lower_char c)) s)"

definition many1 :: "rx \<Rightarrow> rx" where "many1 r = Cat r (Many r)"
definition few1 :: "rx \<Rightarrow> rx" where "few1 r = Cat r (Few r)"
definition maybe :: "rx \<Rightarrow> rx" where "maybe r = Or r Eps"

definition rx_space :: rx where "rx_space = Chars (\<lambda>c. code_of c \<in> set [9, 10, 12, 13, 32])"
definition rx_nonspace :: rx where "rx_nonspace = Chars (\<lambda>c. code_of c \<notin> set [9, 10, 12, 13, 32])"
definition rx_digit :: rx where "rx_digit = Chars is_digit"
definition rx_any :: rx where "rx_any = Chars (\<lambda>c. c \<noteq> NL)"
definition rx_any_nl :: rx where "rx_any_nl = Chars (\<lambda>c. True)"

definition one_of :: "string \<Rightarrow> rx" where "one_of cs = Chars (\<lambda>c. c \<in> set cs)"
definition none_of :: "string \<Rightarrow> rx" where "none_of cs = Chars (\<lambda>c. c \<notin> set cs)"

section \<open>Lemmas\<close>

text \<open>The length of the text is fuel enough: a repetition finds exactly the states that some number
  of consuming iterations reaches, greedily or lazily.\<close>

definition iteration :: "(mstate \<Rightarrow> mstate list) \<Rightarrow> mstate \<Rightarrow> mstate \<Rightarrow> bool" where
  "iteration one st st' \<longleftrightarrow> st' \<in> set (one st) \<and> shorter st st'"

lemma iteration_less: "iteration one st st' \<Longrightarrow> length (ms_rest st') < length (ms_rest st)"
  by (simp add: iteration_def shorter_def)

lemma set_greedy:
  "length (ms_rest st) \<le> n \<Longrightarrow> set (greedy n one st) = {st'. (iteration one)\<^sup>*\<^sup>* st st'}"
proof (induction n arbitrary: st)
  case 0
  then show ?case by (auto simp: iteration_def shorter_def elim: converse_rtranclpE)
next
  case (Suc n)
  have IH: "set (greedy n one st1) = {st'. (iteration one)\<^sup>*\<^sup>* st1 st'}" if "iteration one st st1" for st1
    using Suc.IH [of st1] Suc.prems iteration_less [OF that] by simp
  have "set (greedy (Suc n) one st) = insert st (\<Union>st1\<in>{st1. iteration one st st1}. set (greedy n one st1))"
    by (auto simp: iteration_def)
  also have "\<dots> = insert st (\<Union>st1\<in>{st1. iteration one st st1}. {st'. (iteration one)\<^sup>*\<^sup>* st1 st'})"
    by (simp add: IH)
  also have "\<dots> = {st'. (iteration one)\<^sup>*\<^sup>* st st'}"
    by (auto intro: converse_rtranclp_into_rtranclp elim: converse_rtranclpE)
  finally show ?case .
qed

lemma set_lazy: "set (lazy n one st) = set (greedy n one st)"
  by (induction n arbitrary: st) auto

text \<open>A repeated class before something that does not start with a character of the class.\<close>

definition skip_to :: "string \<Rightarrow> string \<Rightarrow> mstate \<Rightarrow> mstate" where
  "skip_to w rest st = st\<lparr>ms_prev := (if w = [] then ms_prev st else Some (last w)), ms_rest := rest\<rparr>"

lemma skip_to_sel [simp]:
  "ms_rest (skip_to w rest st) = rest" "ms_caps (skip_to w rest st) = ms_caps st"
  by (simp_all add: skip_to_def)

lemma skip_to_Cons: "skip_to w rest (step_char c cs st) = skip_to (c # w) rest st"
  by (simp add: skip_to_def step_char_def)

lemma skip_to_Nil: "ms_rest st = rest \<Longrightarrow> skip_to [] rest st = st"
  by (simp add: skip_to_def)

lemma greedy_class:
  assumes one: "\<And>st. one st = matches (Chars p) st"
    and f: "\<And>st' c cs. ms_rest st' = c # cs \<Longrightarrow> p c \<Longrightarrow> f st' = []"
  shows "ms_rest st = w @ rest \<Longrightarrow> list_all p w \<Longrightarrow> rest = [] \<or> \<not> p (hd rest) \<Longrightarrow> length w \<le> n \<Longrightarrow>
    concat (map f (greedy n one st)) = f (skip_to w rest st)"
proof (induction w arbitrary: n st)
  case Nil
  then show ?case by (cases n; cases rest) (simp_all add: one skip_to_Nil)
next
  case (Cons c w)
  then obtain m where n: "n = Suc m" by (cases n) auto
  have "concat (map f (greedy m one (step_char c (w @ rest) st))) =
      f (skip_to w rest (step_char c (w @ rest) st))"
    using Cons.prems by (intro Cons.IH) (auto simp: n step_char_def)
  moreover have "f st = []" using Cons.prems f [of st c] by simp
  ultimately show ?case using Cons.prems
    by (simp add: n one [of st] shorter_def step_char_def skip_to_Cons [unfolded step_char_def])
qed

lemma lazy_class:
  assumes one: "\<And>st. one st = matches (Chars p) st"
    and f: "\<And>st' c cs. ms_rest st' = c # cs \<Longrightarrow> q c \<Longrightarrow> f st' = []"
  shows "ms_rest st = w @ rest \<Longrightarrow> list_all p w \<Longrightarrow> list_all q w \<Longrightarrow> length w \<le> n \<Longrightarrow>
    \<exists>more. concat (map f (lazy n one st)) = f (skip_to w rest st) @ more"
proof (induction w arbitrary: n st)
  case Nil
  then show ?case by (cases n) (simp_all add: one skip_to_Nil)
next
  case (Cons c w)
  then obtain m where n: "n = Suc m" by (cases n) auto
  have "\<exists>more. concat (map f (lazy m one (step_char c (w @ rest) st))) =
      f (skip_to w rest (step_char c (w @ rest) st)) @ more"
    using Cons.prems by (intro Cons.IH) (auto simp: n step_char_def)
  moreover have "f st = []" using Cons.prems f [of st c] by simp
  ultimately show ?case using Cons.prems
    by (simp add: n one [of st] shorter_def step_char_def skip_to_Cons [unfolded step_char_def])
qed


text \<open>Sequences of patterns, one element at a time.\<close>

named_theorems rx_step \<open>matching a sequence of patterns element by element\<close>

lemma matches_Cat_fun: "matches (Cat a b) = (\<lambda>st. concat (map (matches b) (matches a st)))"
  by (rule ext) simp

lemma concat_map_concat: "concat (map f (concat xss)) = concat (map (\<lambda>xs. concat (map f xs)) xss)"
  by (induction xss) auto

lemma matches_Cat_Cat: "matches (Cat (Cat a b) c) st = matches (Cat a (Cat b c)) st"
  by (simp add: matches_Cat_fun concat_map_concat comp_def)

lemma matches_Cat_Chars [rx_step]:
  "matches (Cat (Chars p) r) st =
     (case ms_rest st of [] \<Rightarrow> [] | c # cs \<Rightarrow> if p c then matches r (step_char c cs st) else [])"
  by (simp split: list.splits)

lemma matches_Cat_Or [rx_step]: "matches (Cat (Or a b) r) st = matches (Cat a r) st @ matches (Cat b r) st"
  by simp

lemma cats_simps [rx_step]: "cats [] = Eps" "cats (r # rs) = Cat r (cats rs)"
  by (simp_all add: cats_def)

definition capture :: "nat \<Rightarrow> string \<Rightarrow> mstate \<Rightarrow> mstate" where
  "capture n w st = st\<lparr>ms_caps := (n, w) # ms_caps st\<rparr>"

lemma many_class:
  assumes "ms_rest st = w @ rest" "list_all p w" "rest = [] \<or> \<not> p (hd rest)"
    and "\<And>st' c cs. ms_rest st' = c # cs \<Longrightarrow> p c \<Longrightarrow> matches r st' = []"
  shows "matches (Cat (Many (Chars p)) r) st = matches r (skip_to w rest st)"
  using greedy_class [of "matches (Chars p)" p "matches r" st w rest "length (ms_rest st)"] assms by simp

lemma many_group:
  assumes "ms_rest st = w @ rest" "list_all p w" "rest = [] \<or> \<not> p (hd rest)"
    and "\<And>st' c cs. ms_rest st' = c # cs \<Longrightarrow> p c \<Longrightarrow> matches r st' = []"
  shows "matches (Cat (Grp n (Many (Chars p))) r) st = matches r (capture n w (skip_to w rest st))"
proof -
  let ?g = "\<lambda>st'. st'\<lparr>ms_caps := (n, take (length (ms_rest st) - length (ms_rest st')) (ms_rest st)) # ms_caps st'\<rparr>"
  have "concat (map (\<lambda>st'. matches r (?g st')) (greedy (length (ms_rest st)) (matches (Chars p)) st)) =
      matches r (?g (skip_to w rest st))"
    by (rule greedy_class) (use assms in auto)
  with assms(1) show ?thesis by (simp add: comp_def capture_def)
qed

lemma few_group:
  assumes "ms_rest st = w @ rest" "list_all p w" "list_all q w"
    and "\<And>st' c cs. ms_rest st' = c # cs \<Longrightarrow> q c \<Longrightarrow> matches r st' = []"
  shows "\<exists>more. matches (Cat (Grp n (Few (Chars p))) r) st = matches r (capture n w (skip_to w rest st)) @ more"
proof -
  let ?g = "\<lambda>st'. st'\<lparr>ms_caps := (n, take (length (ms_rest st) - length (ms_rest st')) (ms_rest st)) # ms_caps st'\<rparr>"
  have "\<exists>more. concat (map (\<lambda>st'. matches r (?g st')) (lazy (length (ms_rest st)) (matches (Chars p)) st)) =
      matches r (?g (skip_to w rest st)) @ more"
    by (rule lazy_class [where q = q]) (use assms in auto)
  with assms(1) show ?thesis by (simp add: comp_def capture_def)
qed

lemma lit_i_step:
  "ms_rest st = u @ rest \<Longrightarrow> to_lower u = to_lower w \<Longrightarrow> matches (Cat (lit_i w) r) st = matches r (skip_to u rest st)"
proof (induction w arbitrary: u st)
  case Nil
  then show ?case by (simp add: lit_i_def rx_step skip_to_Nil to_lower_def)
next
  case (Cons c w)
  then obtain d v where u: "u = d # v" "lower_char d = lower_char c" "to_lower v = to_lower w"
    by (cases u) (auto simp: to_lower_def)
  have "matches (Cat (lit_i w) r) (step_char d (v @ rest) st) = matches r (skip_to v rest (step_char d (v @ rest) st))"
    using u by (intro Cons.IH) (simp_all add: step_char_def)
  with Cons.prems u show ?case
    by (simp add: lit_i_def rx_step matches_Cat_Cat skip_to_Cons del: matches.simps)
qed


lemma skip_to_skip_to [simp]: "skip_to w rest (skip_to v s st) = skip_to (v @ w) rest st"
  by (simp add: skip_to_def)

lemma skip_to_step [simp]: "skip_to w rest (step_char c s st) = skip_to (c # w) rest st"
  by (simp add: skip_to_Cons)

end
