(* ===== verification/Fact_Tree.thy ===== *)
theory Fact_Tree
  imports Go_Value
begin

text \<open>
  \<open>internal/engine/fact.go\<close>: the canonical fact tree. \<open>collectFacts\<close> inserts each resolved
  fact at the path its dotted name spells, \<open>digValue\<close> reads the tree by a query path, and
  \<open>valueForQuery\<close> reads one fact's own value. A Go function that returns a value and a found
  flag returns an option here; one that mutates the tree returns the new tree.
\<close>

section \<open>Definitions\<close>

text \<open>The first key that prints as the query part wins when no string key equals it.\<close>

definition any_lookup :: "(gkey \<times> gval) list \<Rightarrow> string \<Rightarrow> gval option" where
  "any_lookup m p = (case map_of m (KStr p) of Some v \<Rightarrow> Some v
     | None \<Rightarrow> map_option snd (find (\<lambda>kv. sprint_key (fst kv) = p) m))"

definition index_at :: "string \<Rightarrow> 'a list \<Rightarrow> 'a option" where
  "index_at p xs = (case atoi p of None \<Rightarrow> None
     | Some i \<Rightarrow> if i < 0 \<or> i \<ge> int (length xs) then None else Some (xs ! nat i))"

fun digValue :: "gval \<Rightarrow> string list \<Rightarrow> gval option" where
  "digValue v [] = Some v"
| "digValue v (p # ps) =
     (case v of
        GMap m \<Rightarrow> (case map_of m p of None \<Rightarrow> None | Some next \<Rightarrow> digValue next ps)
      | GAnyMap m \<Rightarrow> (case any_lookup m p of None \<Rightarrow> None | Some next \<Rightarrow> digValue next ps)
      | GList xs \<Rightarrow> (case index_at p xs of None \<Rightarrow> None | Some next \<Rightarrow> digValue next ps)
      | GStrs xs \<Rightarrow> (case index_at p xs of None \<Rightarrow> None
          | Some s \<Rightarrow> if ps \<noteq> [] then None else Some (GStr s))
      | GInts xs \<Rightarrow> (case index_at p xs of None \<Rightarrow> None
          | Some n \<Rightarrow> if ps \<noteq> [] then None else Some (GInt n))
      | _ \<Rightarrow> None)"

definition dig :: "gval \<Rightarrow> string list \<Rightarrow> gval" where
  "dig v ps = (case digValue v ps of None \<Rightarrow> GNil | Some x \<Rightarrow> x)"

fun insert_path :: "gval gomap \<Rightarrow> string list \<Rightarrow> gval \<Rightarrow> gval gomap \<times> bool" where
  "insert_path root [] v = (root, False)"
| "insert_path root [p] v =
     (case map_of root p of
        Some (GMap _) \<Rightarrow> (root, False)
      | _ \<Rightarrow> (mput p v root, True))"
| "insert_path root (p # q # ps) v =
     (case map_of root p of
        Some (GMap next) \<Rightarrow>
          (let (next', ok) = insert_path next (q # ps) v in (mput p (GMap next') root, ok))
      | Some _ \<Rightarrow> (root, False)
      | None \<Rightarrow>
          (let (next', ok) = insert_path [] (q # ps) v in (mput p (GMap next') root, ok)))"

definition fact_path :: "ResolvedFact \<Rightarrow> string list" where
  "fact_path rf = split_on DOT (rf_Name rf)"

text \<open>One iteration of the loop of \<open>collectFacts\<close>; the flag is false on a collision.\<close>

definition collectFact :: "bool \<Rightarrow> gval gomap \<Rightarrow> ResolvedFact \<Rightarrow> gval gomap \<times> bool" where
  "collectFact includeTypedDotted root rf =
     (if rf_Value rf = GNil then (root, True)
      else
        let parts = fact_path rf
        in if length parts > 1 \<and> rf_Type rf \<noteq> [] \<and> \<not> includeTypedDotted then
             (if has_key root (hd parts) then insert_path root parts (rf_Value rf)
              else (mput (rf_Name rf) (rf_Value rf) root, True))
           else insert_path root parts (rf_Value rf))"

fun collectFrom :: "bool \<Rightarrow> gval gomap \<Rightarrow> ResolvedFact list \<Rightarrow> gval gomap \<times> ResolvedFact list" where
  "collectFrom incl root [] = (root, [])"
| "collectFrom incl root (rf # facts) =
     (let (root', ok) = collectFact incl root rf;
          (tree, collisions) = collectFrom incl root' facts
      in (tree, if ok then collisions else rf # collisions))"

definition collectFacts :: "ResolvedFact list \<Rightarrow> bool \<Rightarrow> gval gomap \<times> ResolvedFact list" where
  "collectFacts facts includeTypedDotted = collectFrom includeTypedDotted [] facts"

definition CollectionWithDottedFacts :: "ResolvedFact list \<Rightarrow> bool \<Rightarrow> gval gomap" where
  "CollectionWithDottedFacts facts includeTypedDotted = fst (collectFacts facts includeTypedDotted)"

definition Collection :: "ResolvedFact list \<Rightarrow> gval gomap" where
  "Collection facts = CollectionWithDottedFacts facts False"

definition valueForQuery :: "ResolvedFact \<Rightarrow> gval option" where
  "valueForQuery rf =
     (let query = rf_UserQuery rf
      in if query = [] \<or> query = rf_Name rf then
           (if rf_Value rf = GNil
            then (if rf_Type rf = ''custom'' \<or> rf_Type rf = ''external'' then Some GNil else None)
            else Some (rf_Value rf))
         else if \<not> has_prefix query (rf_Name rf @ [DOT])
         then digValue (rf_Value rf) (split_on DOT query)
         else digValue (rf_Value rf) (split_on DOT (trim_prefix query (rf_Name rf @ [DOT]))))"

definition ValueForQuery :: "ResolvedFact \<Rightarrow> gval" where
  "ValueForQuery rf = (case valueForQuery rf of None \<Rightarrow> GNil | Some v \<Rightarrow> v)"

definition factTypeLabel :: "string \<Rightarrow> string" where
  "factTypeLabel factType = (if factType = [] then ''Fact''
     else to_upper (take 1 factType) @ drop 1 factType)"

definition collisionMessage :: "ResolvedFact \<Rightarrow> string" where
  "collisionMessage rf = factTypeLabel (rf_Type rf) @ '' fact `'' @ rf_Name rf
     @ ''` cannot be added to collection. The format of this fact is incompatible with other facts that belong to `''
     @ hd (split_on DOT (rf_Name rf)) @ ''` group''"

section \<open>Lemmas about insertion\<close>

lemma digValue_GMap [simp]:
  "digValue (GMap m) (p # ps) =
     (case map_of m p of None \<Rightarrow> None | Some next \<Rightarrow> digValue next ps)"
  by simp

text \<open>Where a path of length two or more finds something other than a map, or a path ends at
  a map, the insertion is refused.\<close>

fun insertable :: "gval gomap \<Rightarrow> string list \<Rightarrow> bool" where
  "insertable root [] \<longleftrightarrow> False"
| "insertable root [p] \<longleftrightarrow> (case map_of root p of Some v \<Rightarrow> \<not> is_gmap v | None \<Rightarrow> True)"
| "insertable root (p # q # ps) \<longleftrightarrow>
     (case map_of root p of Some (GMap next) \<Rightarrow> insertable next (q # ps)
      | Some _ \<Rightarrow> False | None \<Rightarrow> True)"

lemma insert_path_empty: "ps \<noteq> [] \<Longrightarrow> snd (insert_path [] ps v)"
  by (induction "[] :: gval gomap" ps v rule: insert_path.induct) (auto split: prod.splits)

lemma insert_path_ok_iff: "snd (insert_path root ps v) \<longleftrightarrow> insertable root ps"
proof (induction root ps v rule: insert_path.induct)
  case (2 root p v)
  then show ?case by (auto simp: is_gmap_def split: option.splits gval.splits)
next
  case (3 root p q ps v)
  then show ?case
    using insert_path_empty [of "q # ps" v]
    by (auto split: option.splits gval.splits prod.splits)
qed simp

lemma insert_path_fail: "\<not> snd (insert_path root ps v) \<Longrightarrow> fst (insert_path root ps v) = root"
proof (induction root ps v rule: insert_path.induct)
  case (2 root p v)
  then show ?case by (auto split: option.splits gval.splits)
next
  case (3 root p q ps v)
  then show ?case
    using insert_path_empty [of "q # ps" v]
    by (auto simp: mput_same split: option.splits gval.splits prod.splits)
qed simp

lemma insert_path_dig:
  "insert_path root ps v = (root', True) \<Longrightarrow> digValue (GMap root') ps = Some v"
proof (induction root ps v arbitrary: root' rule: insert_path.induct)
  case (2 root p v)
  then show ?case by (auto split: option.splits gval.splits)
next
  case (3 root p q ps v)
  from "3.prems" show ?case
    by (auto split: option.splits gval.splits prod.splits dest: "3.IH")
qed simp

text \<open>Paths that fork see the same tree before and after.\<close>

lemma insert_path_other:
  "insert_path root ps v = (root', ok) \<Longrightarrow> \<not> prefix ps qs \<Longrightarrow> \<not> prefix qs ps \<Longrightarrow>
     digValue (GMap root') qs = digValue (GMap root) qs"
proof (induction root ps v arbitrary: root' ok qs rule: insert_path.induct)
  case (2 root p v)
  then show ?case by (cases qs) (auto split: option.splits gval.splits)
next
  case (3 root p q ps v)
  obtain r rs where qs: "qs = r # rs" using "3.prems" by (cases qs) auto
  show ?case
  proof (cases "r = p")
    case False
    with "3.prems" show ?thesis
      by (auto simp: qs split: option.splits gval.splits prod.splits)
  next
    case True
    with "3.prems" have np: "\<not> prefix (q # ps) rs" "\<not> prefix rs (q # ps)"
      by (auto simp: qs)
    show ?thesis
    proof (cases "map_of root p")
      case None
      obtain n ok' where i: "insert_path [] (q # ps) v = (n, ok')" by fastforce
      with "3.prems" None have r': "root' = mput p (GMap n) root" by simp
      have "digValue (GMap n) rs = digValue (GMap []) rs"
        using "3.IH"(1) None i np by auto
      moreover have "rs \<noteq> []" using np by auto
      ultimately show ?thesis using None True by (cases rs) (auto simp: qs r')
    next
      case (Some x)
      show ?thesis
      proof (cases "is_gmap x")
        case False
        with Some "3.prems" have "root' = root"
          by (auto simp: is_gmap_def split: gval.splits)
        then show ?thesis by simp
      next
        case g: True
        then obtain m where x: "x = GMap m" by (rule is_gmapE)
        obtain n ok' where i: "insert_path m (q # ps) v = (n, ok')" by fastforce
        with "3.prems" Some x have r': "root' = mput p (GMap n) root" by simp
        have "digValue (GMap n) rs = digValue (GMap m) rs"
          using "3.IH"(2) Some x i np by auto
        then show ?thesis using Some True x by (simp add: qs r')
      qed
    qed
  qed
qed (simp add: prefix_def)

text \<open>A proper prefix of the inserted path is a map afterwards.\<close>

lemma insert_path_above:
  "insert_path root ps v = (root', True) \<Longrightarrow> strict_prefix qs ps \<Longrightarrow>
     \<exists>m. digValue (GMap root') qs = Some (GMap m)"
proof (induction root ps v arbitrary: root' qs rule: insert_path.induct)
  case (2 root p v)
  then have "qs = []" by (auto simp: strict_prefix_def prefix_Cons)
  then show ?case by simp
next
  case (3 root p q ps v)
  show ?case
  proof (cases qs)
    case Nil
    then show ?thesis by simp
  next
    case (Cons r rs)
    with "3.prems" have r: "r = p" and rs: "strict_prefix rs (q # ps)"
      by (auto simp: strict_prefix_def)
    show ?thesis using "3.prems"(1)
      by (auto simp: Cons r split: option.splits gval.splits prod.splits
          dest: "3.IH"(1) [OF _ _ rs] "3.IH"(2) [OF _ _ _ rs])
  qed
qed simp

lemma insert_path_wf:
  "wfv (GMap root) \<Longrightarrow> wfv v \<Longrightarrow> wfv (GMap (fst (insert_path root ps v)))"
proof (induction root ps v rule: insert_path.induct)
  case (2 root p v)
  then show ?case by (simp add: wfv_map_put del: wfv.simps split: option.splits gval.splits)
next
  case (3 root p q ps v)
  show ?case
  proof (cases "map_of root p")
    case None
    then have "wfv (GMap (fst (insert_path [] (q # ps) v)))" using "3.IH"(1) "3.prems" by simp
    with None "3.prems" show ?thesis
      by (auto simp: wfv_map_put simp del: wfv.simps(1) split: prod.splits)
  next
    case (Some x)
    show ?thesis
    proof (cases x)
      case (GMap m)
      then have "wfv (GMap m)" using Some "3.prems" wfv_map_get by blast
      then have "wfv (GMap (fst (insert_path m (q # ps) v)))"
        using "3.IH"(2) Some GMap "3.prems" by simp
      with Some GMap "3.prems" show ?thesis
        by (auto simp: wfv_map_put simp del: wfv.simps(1) split: prod.splits)
    qed (use Some "3.prems" in auto)
  qed
qed simp

lemma digValue_append:
  "digValue v (a @ b) = (case digValue v a of None \<Rightarrow> None | Some x \<Rightarrow> digValue x b)"
proof (induction v a rule: digValue.induct)
  case (2 v p ps)
  then show ?case
    by (cases b) (auto split: gval.splits option.splits)
qed simp

text \<open>The refusal of \<open>insert\<close>, read off the tree by queries.\<close>

lemma insertable_iff_dig:
  "insertable root ps \<longleftrightarrow> ps \<noteq> [] \<and>
     (\<forall>qs x. strict_prefix qs ps \<longrightarrow> digValue (GMap root) qs = Some x \<longrightarrow> is_gmap x) \<and>
     (\<forall>x. digValue (GMap root) ps = Some x \<longrightarrow> \<not> is_gmap x)"
proof (induction root ps rule: insertable.induct)
  case (2 root p)
  have "strict_prefix qs [p] \<longleftrightarrow> qs = []" for qs by (auto simp: strict_prefix_def prefix_Cons)
  then show ?case by (auto split: option.splits)
next
  case (3 root p q ps)
  have sp: "strict_prefix qs (p # q # ps) \<longleftrightarrow>
      qs = [] \<or> (\<exists>rs. qs = p # rs \<and> strict_prefix rs (q # ps))" for qs
    by (cases qs) (auto simp: strict_prefix_def)
  show ?case
  proof (cases "map_of root p")
    case None
    then show ?thesis by (auto simp: sp)
  next
    case (Some x)
    show ?thesis
    proof (cases "is_gmap x")
      case False
      with Some have "\<not> insertable root (p # q # ps)" by (simp add: is_gmap_def split: gval.splits)
      moreover have "strict_prefix [p] (p # q # ps)" "digValue (GMap root) [p] = Some x"
        using Some by (simp_all add: strict_prefix_def)
      ultimately show ?thesis using False by blast
    next
      case True
      then obtain m where GMap: "x = GMap m" by (rule is_gmapE)
      have "(\<forall>qs y. strict_prefix qs (p # q # ps) \<longrightarrow> digValue (GMap root) qs = Some y \<longrightarrow> is_gmap y)
          \<longleftrightarrow> (\<forall>rs y. strict_prefix rs (q # ps) \<longrightarrow> digValue (GMap m) rs = Some y \<longrightarrow> is_gmap y)"
        (is "?L \<longleftrightarrow> ?R")
      proof
        assume L: ?L
        show ?R
        proof (intro allI impI)
          fix rs y
          assume "strict_prefix rs (q # ps)" "digValue (GMap m) rs = Some y"
          then show "is_gmap y" using L [rule_format, of "p # rs" y] Some GMap by (simp add: sp)
        qed
      next
        assume R: ?R
        show ?L
        proof (intro allI impI)
          fix qs y
          assume "strict_prefix qs (p # q # ps)" and y: "digValue (GMap root) qs = Some y"
          then consider "qs = []" | rs where "qs = p # rs" "strict_prefix rs (q # ps)"
            by (auto simp: sp)
          then show "is_gmap y" using y Some GMap R by cases auto
        qed
      qed
      with Some GMap "3.IH" show ?thesis by simp
    qed
  qed
qed simp

section \<open>Collection of facts at unrelated paths\<close>

definition incomparable :: "string list \<Rightarrow> string list \<Rightarrow> bool" where
  "incomparable ps qs \<longleftrightarrow> \<not> prefix ps qs \<and> \<not> prefix qs ps"

text \<open>Facts whose dotted name is a tree path (not the single key of a flat typed fact).\<close>

definition structured :: "bool \<Rightarrow> ResolvedFact \<Rightarrow> bool" where
  "structured incl rf \<longleftrightarrow> incl \<or> rf_Type rf = [] \<or> length (fact_path rf) \<le> 1"

definition live :: "ResolvedFact list \<Rightarrow> ResolvedFact list" where
  "live facts = filter (\<lambda>rf. rf_Value rf \<noteq> GNil) facts"

text \<open>What a query sees of a tree: whether the node is a map, and any other value.\<close>

definition observe :: "gval gomap \<Rightarrow> string list \<Rightarrow> gval option option" where
  "observe t qs = map_option (\<lambda>v. if is_gmap v then None else Some v) (digValue (GMap t) qs)"

definition describes :: "ResolvedFact set \<Rightarrow> gval gomap \<Rightarrow> bool" where
  "describes F t \<longleftrightarrow>
     (\<forall>qs. (\<forall>rf\<in>F. prefix (fact_path rf) qs \<longrightarrow>
              digValue (GMap t) qs = digValue (rf_Value rf) (drop (length (fact_path rf)) qs)) \<and>
           (\<forall>rf\<in>F. strict_prefix qs (fact_path rf) \<longrightarrow>
              (\<exists>m. digValue (GMap t) qs = Some (GMap m))) \<and>
           (qs \<noteq> [] \<longrightarrow> (\<forall>rf\<in>F. incomparable (fact_path rf) qs) \<longrightarrow>
              digValue (GMap t) qs = None))"

lemma describes_below:
  "describes F t \<Longrightarrow> g \<in> F \<Longrightarrow> prefix (fact_path g) qs \<Longrightarrow>
     digValue (GMap t) qs = digValue (rf_Value g) (drop (length (fact_path g)) qs)"
  unfolding describes_def by blast

lemma describes_above:
  "describes F t \<Longrightarrow> g \<in> F \<Longrightarrow> strict_prefix qs (fact_path g) \<Longrightarrow>
     \<exists>m. digValue (GMap t) qs = Some (GMap m)"
  unfolding describes_def by blast

lemma describes_off:
  "describes F t \<Longrightarrow> qs \<noteq> [] \<Longrightarrow> \<forall>g\<in>F. incomparable (fact_path g) qs \<Longrightarrow>
     digValue (GMap t) qs = None"
  unfolding describes_def by blast

lemma fact_path_not_Nil [simp]: "fact_path rf \<noteq> []"
  by (simp add: fact_path_def)

lemma describes_empty: "describes {} []"
proof -
  have "digValue (GMap []) qs = None" if "qs \<noteq> []" for qs
    using that by (cases qs) auto
  then show ?thesis by (simp add: describes_def)
qed

lemma collectFact_structured:
  "structured incl rf \<Longrightarrow> rf_Value rf \<noteq> GNil \<Longrightarrow>
     collectFact incl root rf = insert_path root (fact_path rf) (rf_Value rf)"
  by (auto simp: structured_def collectFact_def Let_def)

lemma describes_insertable:
  assumes d: "describes F t" and inc: "\<forall>rf\<in>F. incomparable (fact_path rf) ps" and ne: "ps \<noteq> []"
  shows "insertable t ps"
  unfolding insertable_iff_dig
proof (intro conjI allI impI)
  fix qs x
  assume sp: "strict_prefix qs ps" and x: "digValue (GMap t) qs = Some x"
  show "is_gmap x"
  proof (cases "qs = [] \<or> (\<exists>rf\<in>F. strict_prefix qs (fact_path rf))")
    case True
    with x show ?thesis using describes_above [OF d] by fastforce
  next
    case False
    have "incomparable (fact_path rf) qs" if "rf \<in> F" for rf
    proof -
      from that inc have "\<not> prefix (fact_path rf) ps" by (auto simp: incomparable_def)
      with sp have "\<not> prefix (fact_path rf) qs"
        by (meson prefix_order.dual_order.trans prefix_order.less_imp_le)
      moreover from this False that have "\<not> prefix qs (fact_path rf)"
        by (auto simp: strict_prefix_def)
      ultimately show ?thesis by (simp add: incomparable_def)
    qed
    with x False show ?thesis using describes_off [OF d, of qs] by simp
  qed
next
  fix x
  assume "digValue (GMap t) ps = Some x"
  then show "\<not> is_gmap x" using describes_off [OF d ne inc] by simp
qed (rule ne)

lemma describes_insert:
  assumes d: "describes F t" and inc: "\<forall>g\<in>F. incomparable (fact_path g) (fact_path rf)"
    and i: "insert_path t (fact_path rf) (rf_Value rf) = (t', True)"
  shows "describes (insert rf F) t'"
  unfolding describes_def
proof (intro allI conjI ballI impI)
  fix qs g
  assume g: "g \<in> insert rf F" and p: "prefix (fact_path g) qs"
  show "digValue (GMap t') qs = digValue (rf_Value g) (drop (length (fact_path g)) qs)"
  proof (cases "prefix (fact_path rf) qs")
    case True
    with p have "\<not> incomparable (fact_path g) (fact_path rf)"
      by (auto simp: incomparable_def dest: prefix_same_cases)
    with inc g have "g = rf" by auto
    with True show ?thesis
      by (auto simp: prefix_def digValue_append insert_path_dig [OF i])
  next
    case False
    with g p have gF: "g \<in> F" by auto
    with inc p have "\<not> prefix qs (fact_path rf)"
      by (meson incomparable_def prefix_order.trans)
    with False have "digValue (GMap t') qs = digValue (GMap t) qs"
      by (intro insert_path_other [OF i])
    then show ?thesis using describes_below [OF d gF p] by simp
  qed
next
  fix qs g
  assume g: "g \<in> insert rf F" and p: "strict_prefix qs (fact_path g)"
  show "\<exists>m. digValue (GMap t') qs = Some (GMap m)"
  proof (cases "strict_prefix qs (fact_path rf)")
    case True
    then show ?thesis by (rule insert_path_above [OF i])
  next
    case False
    with g p have gF: "g \<in> F" by auto
    with inc have "incomparable (fact_path g) (fact_path rf)" by simp
    with p False have "\<not> prefix (fact_path rf) qs" "\<not> prefix qs (fact_path rf)"
      by (auto simp: incomparable_def strict_prefix_def dest: prefix_order.trans)
    then have "digValue (GMap t') qs = digValue (GMap t) qs"
      by (intro insert_path_other [OF i])
    then show ?thesis using describes_above [OF d gF p] by simp
  qed
next
  fix qs
  assume "qs \<noteq> []" and "\<forall>g\<in>insert rf F. incomparable (fact_path g) qs"
  moreover from this have "digValue (GMap t') qs = digValue (GMap t) qs"
    by (intro insert_path_other [OF i]) (auto simp: incomparable_def)
  ultimately show "digValue (GMap t') qs = None" using describes_off [OF d] by simp
qed

lemma collectFrom_incomparable:
  assumes "describes F t" and "\<forall>rf\<in>set facts. structured incl rf"
    and "\<forall>g\<in>F. \<forall>rf\<in>set (live facts). incomparable (fact_path g) (fact_path rf)"
    and "sorted_wrt (\<lambda>f g. incomparable (fact_path f) (fact_path g)) (live facts)"
  shows "snd (collectFrom incl t facts) = [] \<and>
         describes (F \<union> set (live facts)) (fst (collectFrom incl t facts))"
  using assms
proof (induction facts arbitrary: t F)
  case Nil
  then show ?case by (simp add: live_def)
next
  case (Cons rf facts)
  show ?case
  proof (cases "rf_Value rf = GNil")
    case True
    with Cons.prems have "collectFrom incl t (rf # facts) = collectFrom incl t facts"
      by (simp add: collectFact_def)
    with Cons.IH [OF Cons.prems(1)] Cons.prems True show ?thesis
      by (simp add: live_def)
  next
    case False
    then have l: "live (rf # facts) = rf # live facts" by (simp add: live_def)
    have inc: "\<forall>g\<in>F. incomparable (fact_path g) (fact_path rf)" using Cons.prems(3) l by simp
    obtain t' ok where i: "insert_path t (fact_path rf) (rf_Value rf) = (t', ok)" by fastforce
    then have ok: "ok = True"
      using insert_path_ok_iff describes_insertable [OF Cons.prems(1) inc] by (metis fact_path_not_Nil snd_conv)
    have c: "collectFact incl t rf = (t', True)"
      using Cons.prems(2) False i ok by (simp add: collectFact_structured)
    have "describes (insert rf F) t'"
      using describes_insert [OF Cons.prems(1) inc] i ok by simp
    then have "snd (collectFrom incl t' facts) = [] \<and>
        describes (insert rf F \<union> set (live facts)) (fst (collectFrom incl t' facts))"
      using Cons.prems l by (intro Cons.IH) auto
    with c l show ?thesis by (auto split: prod.splits)
  qed
qed

lemma describes_observe:
  assumes "describes F t" and "describes F t'"
  shows "observe t = observe t'"
proof
  fix qs
  consider (below) rf where "rf \<in> F" "prefix (fact_path rf) qs"
    | (above) rf where "rf \<in> F" "strict_prefix qs (fact_path rf)"
    | (root) "qs = []" | (off) "qs \<noteq> []" "\<forall>rf\<in>F. incomparable (fact_path rf) qs"
    by (auto simp: incomparable_def strict_prefix_def)
  then show "observe t qs = observe t' qs"
  proof cases
    case below
    with assms have "digValue (GMap t) qs = digValue (GMap t') qs" by (simp add: describes_def)
    then show ?thesis by (simp add: observe_def)
  next
    case above
    with assms obtain m m' where
      "digValue (GMap t) qs = Some (GMap m)" "digValue (GMap t') qs = Some (GMap m')"
      unfolding describes_def by meson
    then show ?thesis by (simp add: observe_def)
  next
    case root
    then show ?thesis by (simp add: observe_def)
  next
    case off
    with assms have "digValue (GMap t) qs = None" "digValue (GMap t') qs = None"
      unfolding describes_def by blast+
    then show ?thesis by (simp add: observe_def)
  qed
qed

lemma collectFrom_Cons:
  "fst (collectFrom incl root (rf # facts)) =
     fst (collectFrom incl (fst (collectFact incl root rf)) facts)"
  "snd (collectFrom incl root (rf # facts)) =
     (if snd (collectFact incl root rf) then [] else [rf]) @
     snd (collectFrom incl (fst (collectFact incl root rf)) facts)"
  by (simp_all split: prod.splits)

lemma collectFrom_wf:
  "wfv (GMap root) \<Longrightarrow> \<forall>rf\<in>set facts. wfv (rf_Value rf) \<Longrightarrow>
     wfv (GMap (fst (collectFrom incl root facts)))"
proof (induction facts arbitrary: root)
  case (Cons rf facts)
  then have "wfv (GMap (fst (collectFact incl root rf)))"
    by (simp add: collectFact_def Let_def insert_path_wf wfv_map_put del: wfv.simps(1))
  with Cons show ?case by (simp add: collectFrom_Cons del: wfv.simps(1) collectFrom.simps)
qed simp

lemma incomparable_sym: "incomparable ps qs \<longleftrightarrow> incomparable qs ps"
  by (auto simp: incomparable_def)

text \<open>Facts with distinct, pairwise unrelated paths; the order of the list is irrelevant.\<close>

definition unrelated :: "ResolvedFact list \<Rightarrow> bool" where
  "unrelated facts \<longleftrightarrow> distinct (map fact_path facts) \<and>
     (\<forall>f\<in>set facts. \<forall>g\<in>set facts. fact_path f \<noteq> fact_path g \<longrightarrow>
        incomparable (fact_path f) (fact_path g))"

lemma unrelated_sorted_wrt:
  "unrelated facts \<Longrightarrow> sorted_wrt (\<lambda>f g. incomparable (fact_path f) (fact_path g)) facts"
  unfolding unrelated_def
proof (induction facts)
  case (Cons f facts)
  then have "incomparable (fact_path f) (fact_path g)" if "g \<in> set facts" for g
    using that by (auto simp: image_iff)
  with Cons show ?case by simp
qed simp

lemma collectFacts_unrelated:
  assumes "\<forall>rf\<in>set facts. structured incl rf" and "unrelated (live facts)"
  shows "snd (collectFacts facts incl) = [] \<and>
         describes (set (live facts)) (fst (collectFacts facts incl))"
  using collectFrom_incomparable [OF describes_empty assms(1) _ unrelated_sorted_wrt [OF assms(2)]]
  by (simp add: collectFacts_def)

section \<open>Properties\<close>

text \<open>After an insertion that succeeds, a query for the inserted path finds the inserted
  value, and every query whose path forks from the inserted one sees what it saw before.\<close>

lemma insert_then_dig:
  assumes "insert_path root ps v = (root', True)"
  shows "digValue (GMap root') ps = Some v \<and>
         (\<forall>qs. incomparable ps qs \<longrightarrow> digValue (GMap root') qs = digValue (GMap root) qs)"
  using insert_path_dig [OF assms] insert_path_other [OF assms] by (simp add: incomparable_def)

lemma insert_then_dig_witness:
  "digValue (GMap [(''os'', GMap [(''arch'', GStr ''arm''), (''name'', GStr ''Debian'')])])
     [''os'', ''name''] = Some (GStr ''Debian'')"
  using insert_then_dig [of "[(''os'', GMap [(''arch'', GStr ''arm'')])]" "[''os'', ''name'']"
      "GStr ''Debian''" "[(''os'', GMap [(''arch'', GStr ''arm''), (''name'', GStr ''Debian'')])]"]
  by simp

text \<open>C6: An insertion is refused exactly when a proper prefix of the path ends at something
  that is not a map, or the path itself ends at a map; a refused insertion leaves the tree
  as it was.\<close>

theorem insert_refused_iff:
  "(\<not> snd (insert_path root ps v) \<longleftrightarrow>
      ps = [] \<or>
      list_ex (\<lambda>n. \<exists>x. digValue (GMap root) (take n ps) = Some x \<and> \<not> is_gmap x) [0..<length ps] \<or>
      (\<exists>m. digValue (GMap root) ps = Some (GMap m))) \<and>
   fst (insert_path root ps v) =
     (if snd (insert_path root ps v) then fst (insert_path root ps v) else root)"
proof -
  have sp: "strict_prefix qs ps \<longleftrightarrow> (\<exists>n<length ps. qs = take n ps)" for qs
  proof
    assume "strict_prefix qs ps"
    then show "\<exists>n<length ps. qs = take n ps"
      by (intro exI [of _ "length qs"]) (auto simp: strict_prefix_def prefix_def)
  next
    assume "\<exists>n<length ps. qs = take n ps"
    then show "strict_prefix qs ps"
      by (metis append_take_drop_id drop_eq_Nil linorder_not_le prefixI strict_prefix_def
          append_Nil2 same_append_eq)
  qed
  have "(\<exists>x. digValue (GMap root) ps = Some x \<and> is_gmap x) \<longleftrightarrow>
        (\<exists>m. digValue (GMap root) ps = Some (GMap m))"
    by (auto elim: is_gmapE)
  moreover have "(\<forall>qs x. strict_prefix qs ps \<longrightarrow> digValue (GMap root) qs = Some x \<longrightarrow> is_gmap x) \<longleftrightarrow>
        (\<forall>n<length ps. \<forall>x. digValue (GMap root) (take n ps) = Some x \<longrightarrow> is_gmap x)"
    unfolding sp by blast
  ultimately have "snd (insert_path root ps v) \<longleftrightarrow> ps \<noteq> [] \<and>
      (\<forall>n<length ps. \<forall>x. digValue (GMap root) (take n ps) = Some x \<longrightarrow> is_gmap x) \<and>
      \<not> (\<exists>m. digValue (GMap root) ps = Some (GMap m))"
    unfolding insert_path_ok_iff insertable_iff_dig by blast
  moreover have "list_ex (\<lambda>n. \<exists>x. digValue (GMap root) (take n ps) = Some x \<and> \<not> is_gmap x)
        [0..<length ps] \<longleftrightarrow>
      (\<exists>n<length ps. \<exists>x. digValue (GMap root) (take n ps) = Some x \<and> \<not> is_gmap x)"
    by (auto simp: list_ex_iff)
  ultimately have "\<not> snd (insert_path root ps v) \<longleftrightarrow>
      ps = [] \<or>
      list_ex (\<lambda>n. \<exists>x. digValue (GMap root) (take n ps) = Some x \<and> \<not> is_gmap x) [0..<length ps] \<or>
      (\<exists>m. digValue (GMap root) ps = Some (GMap m))"
    by blast
  then show ?thesis using insert_path_fail [of root ps v] by simp
qed

text \<open>Go maps have distinct keys; so have the association lists that stand for them.\<close>

lemma collectFacts_wellformed:
  assumes "\<forall>rf\<in>set facts. wfv (rf_Value rf)"
  shows "wfv (GMap (fst (collectFacts facts incl)))"
  unfolding collectFacts_def by (rule collectFrom_wf [OF wfv_GMap_Nil assms])

lemma collectFacts_wellformed_witness:
  "wfv (GMap (fst (collectFacts [core_fact ''os.name'' (GStr ''Debian''), core_fact ''os'' GNil] False)))"
  by (rule collectFacts_wellformed) simp

text \<open>C11: When every fact is placed by its path - dotted names of custom and external facts are
  split (\<open>includeTypedDotted\<close>), or there are none, as with core facts - and the paths of the facts
  with a value are pairwise unrelated, no fact collides, and every such fact is read back from
  the tree, at its path and below it. (Without the switch a custom or external \<open>a.b\<close> may be kept flat, under
  the key \<open>a.b\<close>; that case is not covered.)\<close>

theorem collectFacts_complete:
  assumes "\<forall>rf\<in>set facts. structured incl rf" and "unrelated (live facts)" and "rf \<in> set (live facts)"
  shows "snd (collectFacts facts incl) = [] \<and>
         digValue (GMap (fst (collectFacts facts incl))) (fact_path rf @ qs) = digValue (rf_Value rf) qs"
  using collectFacts_unrelated [OF assms(1,2)] describes_below [OF _ assms(3), of _ "fact_path rf @ qs"]
  by auto

theorem collectFacts_complete_witness:
  "digValue (GMap (fst (collectFacts [core_fact ''os.name'' (GStr ''Debian''),
       core_fact ''memory'' (GMap [(''swap'', GInt 1)])] False))) [''memory'', ''swap''] = Some (GInt 1)"
  using collectFacts_complete [of "[core_fact ''os.name'' (GStr ''Debian''),
       core_fact ''memory'' (GMap [(''swap'', GInt 1)])]" False
       "core_fact ''memory'' (GMap [(''swap'', GInt 1)])" "[''swap'']"]
  by (simp add: structured_def live_def unrelated_def incomparable_def fact_path_def)

text \<open>C12: When every fact is placed by its path - dotted names of custom and external facts are split, or
  there are none - the order in which facts with unrelated paths are collected does not show: any
  permutation of them gives a tree that answers every query with the same value, or with a
  map where the other gives a map. (Otherwise it does show; see \<open>flat_order_shows\<close>.)\<close>

theorem collection_order_irrelevant:
  assumes "mset facts = mset facts'" and "\<forall>rf\<in>set facts. structured incl rf"
    and "unrelated (live facts)"
  shows "observe (CollectionWithDottedFacts facts incl) = observe (CollectionWithDottedFacts facts' incl)"
proof -
  have s: "set facts = set facts'" using assms(1) by (metis set_mset_mset)
  have l: "mset (live facts) = mset (live facts')" using assms(1) by (simp add: live_def)
  then have "mset (map fact_path (live facts)) = mset (map fact_path (live facts'))"
    by simp
  then have "distinct (map fact_path (live facts'))"
    using assms(3) unfolding unrelated_def by (metis mset_eq_imp_distinct_iff)
  moreover have sl: "set (live facts) = set (live facts')" using l by (metis set_mset_mset)
  ultimately have "unrelated (live facts')" using assms(3) by (simp add: unrelated_def)
  then have "describes (set (live facts')) (fst (collectFacts facts' incl))"
    using collectFacts_unrelated [of facts' incl] assms(2) s by simp
  moreover have "describes (set (live facts')) (fst (collectFacts facts incl))"
    using collectFacts_unrelated [OF assms(2,3)] sl by simp
  ultimately show ?thesis
    unfolding CollectionWithDottedFacts_def using describes_observe by blast
qed

theorem collection_order_irrelevant_witness:
  "observe (CollectionWithDottedFacts
      [core_fact ''os.name'' (GStr ''Debian''), core_fact ''os.arch'' (GStr ''arm'')] False) =
   observe (CollectionWithDottedFacts
      [core_fact ''os.arch'' (GStr ''arm''), core_fact ''os.name'' (GStr ''Debian'')] False)"
  by (rule collection_order_irrelevant)
    (simp_all add: structured_def live_def unrelated_def incomparable_def fact_path_def)

text \<open>Without the switch, whether a dotted external fact is nested depends on what was collected before.\<close>

lemma flat_order_shows:
  "digValue (GMap (CollectionWithDottedFacts [core_fact ''a.c'' (GInt 1), typed_fact ''a.b'' (GInt 2) ''external''] False)) [''a'', ''b''] =
     Some (GInt 2)"
  "digValue (GMap (CollectionWithDottedFacts [typed_fact ''a.b'' (GInt 2) ''external'', core_fact ''a.c'' (GInt 1)] False)) [''a'', ''b''] =
     None"
  by code_simp+

end
