(* ===== verification/Core_Facts.thy ===== *)
theory Core_Facts
  imports Fact_Tree
begin

text \<open>
  \<open>internal/engine/descriptors.go\<close> and the part of \<open>internal/engine/core.go\<close> that composes
  the core facts: the descriptor table, the scheduling gate (ADR-0015), the ordered union of
  the categories' facts and its memo in the session.

  The probes of the host (networking, os, disks, ...) read files and run commands; what each
  of them assembles is the field \<open>cb_probe\<close> of the build, under the probe's Go name. The
  facts \<open>facterversion\<close>, \<open>is_virtual\<close>, \<open>path\<close> and \<open>virtual\<close> are assembled here.
\<close>

section \<open>Data\<close>

datatype coreFactSchedulingPolicy = coreFactGateable | coreFactAlwaysEager

record virtualization =
  vz_Name :: string
  vz_IsVirtual :: bool
  vz_Unknown :: bool

record coreFactBuild =
  cb_goos :: string
  cb_getenv :: "string \<Rightarrow> string"
  cb_virtualization :: virtualization
  cb_virtualFact :: gval
  cb_isVirtualFact :: gval
  cb_Version :: string
  cb_probe :: "string \<Rightarrow> ResolvedFact list"

record coreFactDescriptor =
  cd_root :: string
  cd_group :: string
  cd_groupOrder :: int
  cd_policy :: coreFactSchedulingPolicy
  cd_assemble :: "coreFactBuild \<Rightarrow> ResolvedFact list"
  cd_emittedRoots :: "string list"

definition descriptor ::
  "string \<Rightarrow> string \<Rightarrow> int \<Rightarrow> coreFactSchedulingPolicy \<Rightarrow> (coreFactBuild \<Rightarrow> ResolvedFact list) \<Rightarrow>
     string list \<Rightarrow> coreFactDescriptor" where
  "descriptor root grp order policy assemble roots =
     \<lparr>cd_root = root, cd_group = grp, cd_groupOrder = order, cd_policy = policy,
      cd_assemble = assemble, cd_emittedRoots = roots\<rparr>"

section \<open>The path fact and the virtualization facts\<close>

definition corePathListSeparator :: "string \<Rightarrow> char" where
  "corePathListSeparator goos = (if goos = ''windows'' then CHR '';'' else CHR '':'')"

definition pathEntriesWithSeparator :: "string \<Rightarrow> char \<Rightarrow> string list" where
  "pathEntriesWithSeparator raw separator = filter (\<lambda>entry. entry \<noteq> []) (split_on separator raw)"

definition currentPathEntries :: "string \<Rightarrow> (string \<Rightarrow> string) \<Rightarrow> string list" where
  "currentPathEntries goos getenv =
     (if goos = ''plan9'' then pathEntriesWithSeparator (getenv ''path'') NUL
      else pathEntriesWithSeparator (getenv ''PATH'') (corePathListSeparator goos))"

definition virtualizationFactValues :: "virtualization \<Rightarrow> gval \<times> gval" where
  "virtualizationFactValues v =
     (if vz_Unknown v then (GNil, GNil) else (GStr (vz_Name v), GBool (vz_IsVirtual v)))"

definition newCoreFactBuild ::
  "string \<Rightarrow> (string \<Rightarrow> string) \<Rightarrow> virtualization \<Rightarrow> string \<Rightarrow> (string \<Rightarrow> ResolvedFact list) \<Rightarrow> coreFactBuild" where
  "newCoreFactBuild goos getenv v version probe =
     (let (virtualFact, isVirtualFact) = virtualizationFactValues v
      in \<lparr>cb_goos = goos, cb_getenv = getenv, cb_virtualization = v, cb_virtualFact = virtualFact,
          cb_isVirtualFact = isVirtualFact, cb_Version = version, cb_probe = probe\<rparr>)"

section \<open>The descriptor table\<close>

definition coreFactDescriptors :: "coreFactDescriptor list" where
  "coreFactDescriptors =
    [descriptor ''facterversion'' [] 0 coreFactAlwaysEager
       (\<lambda>b. [core_fact ''facterversion'' (GStr (cb_Version b))]) [''facterversion''],
     descriptor ''is_virtual'' [] 0 coreFactAlwaysEager
       (\<lambda>b. [core_fact ''is_virtual'' (cb_isVirtualFact b)]) [''is_virtual''],
     descriptor ''path'' ''path'' 5 coreFactAlwaysEager
       (\<lambda>b. [core_fact ''path'' (GStrs (currentPathEntries (cb_goos b) (cb_getenv b)))]) [''path''],
     descriptor ''virtual'' [] 0 coreFactAlwaysEager
       (\<lambda>b. [core_fact ''virtual'' (cb_virtualFact b)]) [''virtual''],
     descriptor ''networking'' ''networking'' 2 coreFactGateable
       (\<lambda>b. cb_probe b ''networkingCoreFacts'') [''networking''],
     descriptor ''processors'' ''processor'' 6 coreFactGateable
       (\<lambda>b. cb_probe b ''processorsCoreFacts'') [''processors''],
     descriptor ''memory'' ''memory'' 1 coreFactGateable
       (\<lambda>b. cb_probe b ''memoryCoreFacts'') [''memory''],
     descriptor ''os'' ''operating system'' 3 coreFactGateable
       (\<lambda>b. cb_probe b ''osCoreFacts'') [''filesystems'', ''kernel'', ''os'', ''system_profiler''],
     descriptor ''dmi'' [] 0 coreFactGateable (\<lambda>b. cb_probe b ''dmiCoreFacts'') [''dmi''],
     descriptor ''disks'' [] 0 coreFactGateable (\<lambda>b. cb_probe b ''disksCoreFacts'')
       [''disks'', ''mountpoints'', ''partitions'', ''zfs'', ''zpool''],
     descriptor ''ssh'' [] 0 coreFactGateable (\<lambda>b. cb_probe b ''sshCoreFacts'') [''ssh''],
     descriptor ''identity'' [] 0 coreFactGateable
       (\<lambda>b. cb_probe b ''identityCoreFacts'') [''identity''],
     descriptor ''system_uptime'' [] 0 coreFactGateable
       (\<lambda>b. cb_probe b ''uptimeCoreFacts'') [''load_averages'', ''system_uptime''],
     descriptor ''selinux'' [] 0 coreFactAlwaysEager (\<lambda>b. cb_probe b ''selinuxCoreFacts'') [''os''],
     descriptor ''fips_enabled'' [] 0 coreFactGateable
       (\<lambda>b. cb_probe b ''fipsCoreFacts'') [''fips_enabled''],
     descriptor ''timezone'' [] 0 coreFactGateable
       (\<lambda>b. cb_probe b ''timezoneCoreFacts'') [''timezone''],
     descriptor ''augeas'' [] 0 coreFactGateable (\<lambda>b. cb_probe b ''augeasCoreFacts'') [''augeas''],
     descriptor ''xen'' [] 0 coreFactGateable (\<lambda>b. cb_probe b ''xenCoreFacts'') [''xen''],
     descriptor ''packages'' ''packages'' 4 coreFactGateable
       (\<lambda>b. cb_probe b ''packagesCoreFacts'') [''packages''],
     descriptor ''hypervisors'' [] 0 coreFactGateable
       (\<lambda>b. cb_probe b ''currentLinuxHypervisorFacts'') [''hypervisors''],
     descriptor ''hypervisors'' [] 0 coreFactGateable
       (\<lambda>b. cb_probe b ''currentWindowsHypervisorFacts'') [''hypervisors''],
     descriptor ''az_metadata'' [] 0 coreFactGateable
       (\<lambda>b. cb_probe b ''azureFacts'') [''az_metadata'', ''cloud''],
     descriptor ''ec2_metadata'' [] 0 coreFactGateable
       (\<lambda>b. cb_probe b ''ec2Facts'') [''cloud'', ''ec2_metadata'', ''ec2_userdata''],
     descriptor ''gce'' [] 0 coreFactGateable
       (\<lambda>b. cb_probe b ''platformGCEFacts'') [''cloud'', ''gce'']]"

definition shouldRun :: "bool gomap \<Rightarrow> coreFactDescriptor \<Rightarrow> bool" where
  "shouldRun disabled d \<longleftrightarrow>
     cd_policy d = coreFactAlwaysEager \<or> list_ex (\<lambda>root. \<not> is_set disabled root) (cd_emittedRoots d)"

fun descriptorGroupOrderIn :: "coreFactDescriptor list \<Rightarrow> string \<Rightarrow> int" where
  "descriptorGroupOrderIn [] name = 0"
| "descriptorGroupOrderIn (d # ds) name =
     (if cd_group d = name then cd_groupOrder d else descriptorGroupOrderIn ds name)"

definition descriptorGroupOrder :: "string \<Rightarrow> int" where
  "descriptorGroupOrder name = descriptorGroupOrderIn coreFactDescriptors name"

record FactGroup =
  fg_Name :: string
  fg_Facts :: "string list"

text \<open>\<open>slices.SortFunc\<close> is not stable, but the group orders are pairwise different.\<close>

definition builtinFactGroupsFromDescriptors :: "FactGroup list" where
  "builtinFactGroupsFromDescriptors =
     sort_key (\<lambda>g. descriptorGroupOrder (fg_Name g))
       (map (\<lambda>d. \<lparr>fg_Name = cd_group d, fg_Facts = [cd_root d]\<rparr>)
          (filter (\<lambda>d. cd_group d \<noteq> []) coreFactDescriptors))"

section \<open>Resolution and its memo\<close>

fun resolveCoreFactDescriptors ::
  "coreFactBuild \<Rightarrow> bool gomap \<Rightarrow> coreFactDescriptor list \<Rightarrow> ResolvedFact list" where
  "resolveCoreFactDescriptors build disabled [] = []"
| "resolveCoreFactDescriptors build disabled (d # ds) =
     (if \<not> shouldRun disabled d then resolveCoreFactDescriptors build disabled ds
      else cd_assemble d build @ resolveCoreFactDescriptors build disabled ds)"

definition buildCoreFacts :: "coreFactBuild \<Rightarrow> bool gomap \<Rightarrow> ResolvedFact list" where
  "buildCoreFacts build disabled = resolveCoreFactDescriptors build disabled coreFactDescriptors"

definition disabledFingerprint :: "bool gomap \<Rightarrow> string" where
  "disabledFingerprint disabled =
     (if disabled = [] then []
      else join '','' (sort (map fst (filter snd disabled))))"

record coreFactsMemo =
  cm_built :: bool
  cm_fingerprint :: string
  cm_facts :: "ResolvedFact list"

definition CoreFacts ::
  "coreFactBuild \<Rightarrow> bool gomap \<Rightarrow> coreFactsMemo \<Rightarrow> ResolvedFact list \<times> coreFactsMemo" where
  "CoreFacts build disabled memo =
     (let fingerprint = disabledFingerprint disabled;
          memo' = (if \<not> cm_built memo \<or> cm_fingerprint memo \<noteq> fingerprint
                   then \<lparr>cm_built = True, cm_fingerprint = fingerprint,
                         cm_facts = buildCoreFacts build disabled\<rparr>
                   else memo)
      in (cm_facts memo', memo'))"

section \<open>The scheduling gate as an interface\<close>

text \<open>
  A scheduler that skips a producer only when every root it can emit is switched off. Whatever
  consumer keeps no fact of a switched-off root cannot tell the gated run from the full one.
\<close>

locale schedule_gate =
  fixes runs :: "'g \<Rightarrow> 'd \<Rightarrow> bool" and emits :: "'d \<Rightarrow> string list" and off :: "'g \<Rightarrow> string \<Rightarrow> bool"
  assumes skipped_off: "\<not> runs g d \<Longrightarrow> r \<in> set (emits d) \<Longrightarrow> off g r"
begin

lemma gate_invisible:
  assumes "\<forall>d\<in>set ds. \<forall>f\<in>set (assemble d). rootof f \<in> set (emits d)"
    and "\<forall>f. keep f \<longrightarrow> \<not> off g (rootof f)"
  shows "filter keep (concat (map assemble (filter (runs g) ds))) =
         filter keep (concat (map assemble ds))"
  using assms(1)
proof (induction ds)
  case (Cons d ds)
  have "filter keep (assemble d) = []" if "\<not> runs g d"
  proof -
    have "\<not> keep f" if "f \<in> set (assemble d)" for f
      using that Cons.prems skipped_off [OF \<open>\<not> runs g d\<close>, of "rootof f"] assms(2) by auto
    then show ?thesis by (simp add: filter_empty_conv)
  qed
  with Cons show ?case by simp
qed simp

end

interpretation core_gate: schedule_gate shouldRun cd_emittedRoots is_set
  by unfold_locales (auto simp: shouldRun_def list_ex_iff)

section \<open>Lemmas\<close>

lemma resolveCoreFactDescriptors_eq:
  "resolveCoreFactDescriptors b disabled ds =
     concat (map (\<lambda>d. cd_assemble d b) (filter (shouldRun disabled) ds))"
  by (induction ds) auto

lemma descriptor_sel [simp]:
  "cd_root (descriptor r g n p a e) = r" "cd_group (descriptor r g n p a e) = g"
  "cd_groupOrder (descriptor r g n p a e) = n" "cd_policy (descriptor r g n p a e) = p"
  "cd_assemble (descriptor r g n p a e) = a" "cd_emittedRoots (descriptor r g n p a e) = e"
  by (simp_all add: descriptor_def)

lemma shouldRun_cong:
  "(\<And>r. r \<in> set (cd_emittedRoots d) \<Longrightarrow> is_set a r = is_set b r) \<Longrightarrow> shouldRun a d = shouldRun b d"
  by (auto simp: shouldRun_def list_ex_iff)

lemma buildCoreFacts_cong:
  assumes "\<And>r. r \<noteq> [] \<Longrightarrow> is_set a r = is_set b r"
  shows "buildCoreFacts build a = buildCoreFacts build b"
proof -
  have "\<forall>d\<in>set coreFactDescriptors. [] \<notin> set (cd_emittedRoots d)"
    by (simp add: coreFactDescriptors_def)
  then have "filter (shouldRun a) coreFactDescriptors = filter (shouldRun b) coreFactDescriptors"
    using assms by (intro filter_cong refl shouldRun_cong) metis
  then show ?thesis by (simp add: buildCoreFacts_def resolveCoreFactDescriptors_eq)
qed

lemma join_comma_inject:
  assumes "\<forall>p\<in>set xs. CHR '','' \<notin> set p" and "\<forall>p\<in>set ys. CHR '','' \<notin> set p"
    and "join '','' xs = join '','' ys"
  shows "set xs - {[]} = set ys - {[]}"
proof -
  have "set (split_on (CHR '','') (join '','' zs)) - {[]} = set zs - {[]}"
    if "\<forall>p\<in>set zs. CHR '','' \<notin> set p" for zs
    using that split_on_join [of zs] by (cases "zs = []") auto
  with assms show ?thesis by metis
qed

definition comma_free :: "bool gomap \<Rightarrow> bool" where
  "comma_free disabled \<longleftrightarrow> list_all (\<lambda>(k, on). on \<longrightarrow> CHR '','' \<notin> set k) disabled"

lemma fingerprint_names:
  "disabledFingerprint disabled = join '','' (sort (map fst (filter snd disabled)))"
  by (simp add: disabledFingerprint_def)

lemma is_set_filter: "wfm m \<Longrightarrow> is_set m k \<longleftrightarrow> k \<in> set (map fst (filter snd m))"
  by (force simp: is_set_def wfm_def)

lemma fingerprint_inject:
  assumes "wfm a" "wfm b" "comma_free a" "comma_free b"
    and "disabledFingerprint a = disabledFingerprint b" and "k \<noteq> []"
  shows "is_set a k = is_set b k"
proof -
  have c: "\<forall>p\<in>set (sort (map fst (filter snd m))). CHR '','' \<notin> set p" if "comma_free m" for m
    using that by (fastforce simp: comma_free_def list_all_iff)
  have "set (map fst (filter snd a)) - {[]} = set (map fst (filter snd b)) - {[]}"
    using join_comma_inject [OF c [OF assms(3)] c [OF assms(4)]] assms(5)
    by (simp add: fingerprint_names)
  then show ?thesis using assms(6) is_set_filter [OF assms(1)] is_set_filter [OF assms(2)] by blast
qed

text \<open>The memo holds the build of some set of names without commas, or nothing.\<close>

definition memo_inv :: "coreFactBuild \<Rightarrow> coreFactsMemo \<Rightarrow> bool" where
  "memo_inv b memo \<longleftrightarrow> (cm_built memo \<longrightarrow> (\<exists>d. wfm d \<and> comma_free d \<and>
     cm_fingerprint memo = disabledFingerprint d \<and> cm_facts memo = buildCoreFacts b d))"

lemma CoreFacts_inv:
  assumes "memo_inv b memo" and "wfm d" and "comma_free d"
  shows "fst (CoreFacts b d memo) = buildCoreFacts b d \<and> memo_inv b (snd (CoreFacts b d memo))"
proof (cases "\<not> cm_built memo \<or> cm_fingerprint memo \<noteq> disabledFingerprint d")
  case True
  then show ?thesis using assms(2,3) by (auto simp: CoreFacts_def Let_def memo_inv_def)
next
  case False
  with assms(1) obtain e where e: "wfm e" "comma_free e"
    "disabledFingerprint d = disabledFingerprint e" "cm_facts memo = buildCoreFacts b e"
    unfolding memo_inv_def by metis
  then have "buildCoreFacts b e = buildCoreFacts b d"
    using fingerprint_inject [OF assms(2) e(1) assms(3) e(2,3)] by (intro buildCoreFacts_cong) simp
  with False e(4) assms(1) show ?thesis by (simp add: CoreFacts_def)
qed

lemma CoreFacts_reread:
  "CoreFacts b d (snd (CoreFacts b d memo)) =
     (fst (CoreFacts b d memo), snd (CoreFacts b d memo))"
  by (auto simp: CoreFacts_def Let_def)

interpretation core_cell: memo_cell "CoreFacts b d" for b d
  by unfold_locales (rule CoreFacts_reread)

fun CoreFacts_runs :: "coreFactBuild \<Rightarrow> bool gomap list \<Rightarrow> coreFactsMemo \<Rightarrow>
    ResolvedFact list list \<times> coreFactsMemo" where
  "CoreFacts_runs b [] memo = ([], memo)"
| "CoreFacts_runs b (d # ds) memo =
     (let (fs, memo') = CoreFacts b d memo; (rest, memo'') = CoreFacts_runs b ds memo'
      in (fs # rest, memo''))"

lemma CoreFacts_runs_inv:
  "memo_inv b memo \<Longrightarrow> \<forall>d\<in>set ds. wfm d \<and> comma_free d \<Longrightarrow>
     fst (CoreFacts_runs b ds memo) = map (buildCoreFacts b) ds"
  by (induction ds arbitrary: memo) (auto simp: case_prod_beta dest: CoreFacts_inv)

section \<open>Properties\<close>

text \<open>C16: Starting from an empty memo, any sequence of core resolutions with different disabled
  sets returns for each set the build gated by that very set, provided no disabled name
  contains a comma: the memo is never stale.\<close>

theorem CoreFacts_memo_correct:
  assumes "\<not> cm_built memo" and "\<forall>d\<in>set ds. wfm d \<and> comma_free d"
  shows "fst (CoreFacts_runs b ds memo) = map (buildCoreFacts b) ds"
  using CoreFacts_runs_inv [OF _ assms(2)] assms(1) by (simp add: memo_inv_def)

theorem CoreFacts_memo_correct_witness:
  "fst (CoreFacts_runs (newCoreFactBuild ''linux'' (\<lambda>_. []) \<lparr>vz_Name = ''physical'', vz_IsVirtual = False, vz_Unknown = False\<rparr>
        ''4.0'' (\<lambda>_. [])) [[], [(''dmi'', True)]] \<lparr>cm_built = False, cm_fingerprint = [], cm_facts = []\<rparr>) =
   map (buildCoreFacts (newCoreFactBuild ''linux'' (\<lambda>_. []) \<lparr>vz_Name = ''physical'', vz_IsVirtual = False, vz_Unknown = False\<rparr>
        ''4.0'' (\<lambda>_. []))) [[], [(''dmi'', True)]]"
  by (rule CoreFacts_memo_correct) (simp_all add: wfm_def comma_free_def)

text \<open>The fingerprint does not identify a disabled set when names contain commas: the set
  with the one name \<open>dmi,ssh\<close> and the set of \<open>dmi\<close> and \<open>ssh\<close> have the same fingerprint, and
  a memo built for the first answers the second with facts that the second gates.\<close>

lemma disabledFingerprint_collides:
  "disabledFingerprint [(''dmi,ssh'', True)] = disabledFingerprint [(''dmi'', True), (''ssh'', True)] \<and>
   (\<exists>b memo. \<not> cm_built memo \<and>
      fst (CoreFacts b [(''dmi'', True), (''ssh'', True)] (snd (CoreFacts b [(''dmi,ssh'', True)] memo)))
        \<noteq> buildCoreFacts b [(''dmi'', True), (''ssh'', True)])"
proof -
  let ?A = "[(''dmi,ssh'', True)]" and ?B = "[(''dmi'', True), (''ssh'', True)]"
  let ?v = "\<lparr>vz_Name = ''physical'', vz_IsVirtual = False, vz_Unknown = False\<rparr>"
  let ?b = "newCoreFactBuild ''linux'' (\<lambda>_. []) ?v ''4.0'' (\<lambda>p. [core_fact p GNil])"
  let ?m = "\<lparr>cm_built = False, cm_fingerprint = [], cm_facts = []\<rparr>"
  have fp: "disabledFingerprint ?A = disabledFingerprint ?B" by code_simp
  have "length (buildCoreFacts ?b ?A) \<noteq> length (buildCoreFacts ?b ?B)" by code_simp
  then have "fst (CoreFacts ?b ?B (snd (CoreFacts ?b ?A ?m))) \<noteq> buildCoreFacts ?b ?B"
    using fp by (auto simp: CoreFacts_def Let_def)
  then show ?thesis using fp by (intro conjI exI [of _ ?b] exI [of _ ?m]) simp_all
qed

text \<open>The built-in fact groups, in the order \<open>--list-block-groups\<close> shows them, with
  one root fact each.\<close>

lemma builtin_groups_listed:
  "map (\<lambda>g. (fg_Name g, fg_Facts g)) builtinFactGroupsFromDescriptors =
     [(''memory'', [''memory'']), (''networking'', [''networking'']), (''operating system'', [''os'']),
      (''packages'', [''packages'']), (''path'', [''path'']), (''processor'', [''processors''])]"
  by code_simp

end
