(* ===== verification/Fact_Groups.thy ===== *)
theory Fact_Groups
  imports Core_Facts Env_Facts
begin

text \<open>
  \<open>internal/engine/groups.go\<close>: fact groups and their time-to-live settings, the expansion of
  disabled entries through the groups, and the filter that removes disabled facts and prunes
  disabled descendants out of structured values. Log records a function writes are returned
  beside its result.
\<close>

section \<open>Groups\<close>

record FactTTL =
  ttl_Fact :: string
  ttl_TTL :: string

record Config =
  cfg_Disabled :: "string list"
  cfg_ExternalDirs :: "string list"
  cfg_Debug :: bool
  cfg_Verbose :: bool
  cfg_LogLevel :: string
  cfg_NoExternalFacts :: bool
  cfg_ForceDotResolution :: bool
  cfg_Sequential :: bool
  cfg_SequentialSet :: bool
  cfg_TTLs :: "FactTTL list"
  cfg_FactGroups :: "FactGroup list"

definition empty_config :: Config where
  "empty_config = \<lparr>cfg_Disabled = [], cfg_ExternalDirs = [], cfg_Debug = False, cfg_Verbose = False,
     cfg_LogLevel = [], cfg_NoExternalFacts = False, cfg_ForceDotResolution = False,
     cfg_Sequential = False, cfg_SequentialSet = False, cfg_TTLs = [], cfg_FactGroups = []\<rparr>"

definition BuiltinFactGroups :: "FactGroup list" where
  "BuiltinFactGroups = builtinFactGroupsFromDescriptors"

definition mergeGroup ::
  "FactGroup list \<times> nat gomap \<Rightarrow> FactGroup \<Rightarrow> FactGroup list \<times> nat gomap" where
  "mergeGroup mi g = (let (merged, indexes) = mi
     in case mget indexes (fg_Name g) of
          Some index \<Rightarrow> (merged[index := g], indexes)
        | None \<Rightarrow> (merged @ [g], mput (fg_Name g) (length merged) indexes))"

definition MergeFactGroups :: "FactGroup list \<Rightarrow> FactGroup list \<Rightarrow> FactGroup list" where
  "MergeFactGroups defaults configured =
     (if configured = [] then defaults
      else let indexes = foldl (\<lambda>m (i, g). mput (fg_Name g) i m) [] (enumerate 0 defaults)
           in fst (foldl mergeGroup (defaults, indexes) configured))"

definition factHierarchyCovers :: "string \<Rightarrow> string \<Rightarrow> bool" where
  "factHierarchyCovers ancestor name \<longleftrightarrow> ancestor = name \<or> has_prefix name (ancestor @ [DOT])"

definition FactGroupName :: "FactGroup list \<Rightarrow> string \<Rightarrow> string option" where
  "FactGroupName groups rf =
     map_option fg_Name (find (\<lambda>g. list_ex (\<lambda>groupFact. groupFact = rf \<or> has_prefix rf (groupFact @ [DOT]))
                                  (fg_Facts g)) groups)"

definition FormatFactGroups :: "FactGroup list \<Rightarrow> string" where
  "FormatFactGroups groups =
     trim_suffix (concat (map (\<lambda>g. fg_Name g @ [NL] @
        concat (map (\<lambda>rf. ''- '' @ rf @ [NL]) (fg_Facts g))) groups)) [NL]"

section \<open>Time to live\<close>

definition rubyTTLUnits :: string where
  "rubyTTLUnits = ''ns, nanos, nanoseconds, us, micros, microseconds, ms, milis, milliseconds, s, seconds, m, minutes, h, hours, d, days''"

definition ttlUnits :: "(string \<times> int \<times> int) list" where
  "ttlUnits =
     map (\<lambda>u. (u, 1, 1000000000)) [''ns'', ''nanos'', ''nanosecond'', ''nanoseconds''] @
     map (\<lambda>u. (u, 1, 1000000)) [''us'', ''micros'', ''microsecond'', ''microseconds''] @
     map (\<lambda>u. (u, 1, 1000)) [''ms'', ''milis'', ''millisecond'', ''milliseconds''] @
     map (\<lambda>u. (u, 1, 1)) [''s'', ''second'', ''seconds''] @
     map (\<lambda>u. (u, 60, 1)) [''m'', ''minute'', ''minutes''] @
     map (\<lambda>u. (u, 3600, 1)) [''h'', ''hour'', ''hours''] @
     map (\<lambda>u. (u, 86400, 1)) [''d'', ''day'', ''days'']"

text \<open>The exact spellings first, then the same spellings under case folding.\<close>

definition ttlUnitScale :: "string \<Rightarrow> (int \<times> int) option" where
  "ttlUnitScale unit =
     (case find (\<lambda>(u, _). u = unit) ttlUnits of Some (_, s) \<Rightarrow> Some s
      | None \<Rightarrow> map_option snd (find (\<lambda>(u, _). equal_fold unit u) ttlUnits))"

definition rubyTTLLogUnit :: "string \<Rightarrow> string" where
  "rubyTTLLogUnit unit = (if length unit > 2 \<and> \<not> has_suffix unit ''s'' then unit @ ''s'' else unit)"

definition ttlNumeral :: "string \<Rightarrow> string" where
  "ttlNumeral value =
     (let sign = (case value of c # _ \<Rightarrow> if c = CHR ''-'' \<or> c = CHR ''+'' then [c] else [] | [] \<Rightarrow> [])
      in sign @ takeWhile is_digit (drop (length sign) value))"

definition ttlSeconds :: "string \<Rightarrow> int option \<times> string list" where
  "ttlSeconds value0 =
     (let value = trim_space value0; numeral = ttlNumeral value
      in if value = [] \<or> numeral = [] \<or> numeral = ''-'' \<or> numeral = ''+'' then (None, [])
         else case parse_int numeral of
           None \<Rightarrow> (None, [])
         | Some n \<Rightarrow>
             (let rest = trim_space (drop (length numeral) value);
                  unit = (if rest = [] then ''ms'' else rest)
              in if rest \<noteq> [] \<and> contains_any rest [CHR '' '', CHR 0x09, NL, CHR 0x0D] then (None, [])
                 else case ttlUnitScale unit of
                   None \<Rightarrow> (None, [''Could not parse time unit '' @ rubyTTLLogUnit unit @ '' (try ''
                                    @ rubyTTLUnits @ '')''])
                 | Some (multiplier, divisor) \<Rightarrow> (Some (go_div (wrap64 (n * multiplier)) divisor), [])))"

definition GroupTTLSeconds :: "FactTTL list \<Rightarrow> string \<Rightarrow> int option \<times> string list" where
  "GroupTTLSeconds ttls rf =
     (case find (\<lambda>t. ttl_Fact t = rf) ttls of None \<Rightarrow> (None, []) | Some t \<Rightarrow> ttlSeconds (ttl_TTL t))"

section \<open>Disabled sets\<close>

definition disableEntry :: "FactGroup list \<Rightarrow> bool gomap \<Rightarrow> string \<Rightarrow> bool gomap" where
  "disableEntry groups disabled entry =
     (let matched = filter (\<lambda>g. fg_Name g = entry) groups
      in if matched = [] then mput entry True disabled
         else foldl (\<lambda>m rf. mput rf True m) disabled (concat (map fg_Facts matched)))"

definition DisabledFactsWithGroups :: "string list \<Rightarrow> FactGroup list \<Rightarrow> bool gomap" where
  "DisabledFactsWithGroups entries configured =
     foldl (disableEntry (MergeFactGroups BuiltinFactGroups configured)) [] entries"

text \<open>A nil environment is the empty list.\<close>

definition DisabledUnion :: "Config \<Rightarrow> string list \<Rightarrow> string list \<Rightarrow> bool gomap" where
  "DisabledUnion config extraDisabled environ =
     DisabledFactsWithGroups
       (cfg_Disabled config @ extraDisabled @ environmentDisabledFacts environ) (cfg_FactGroups config)"

function factHierarchyMatch :: "string \<Rightarrow> (string \<Rightarrow> 'a option) \<Rightarrow> (string \<times> 'a) option" where
  "factHierarchyMatch name lookup =
     (case lookup name of
        Some v \<Rightarrow> Some (name, v)
      | None \<Rightarrow>
          (case last_index DOT name of
             None \<Rightarrow> None
           | Some i \<Rightarrow> factHierarchyMatch (take i name) lookup))"
  by auto
termination
  by (relation "measure (\<lambda>(name, _). length name)") (auto dest: last_index_bound)

declare factHierarchyMatch.simps [simp del]

section \<open>Filtering\<close>

fun pruneDottedValue :: "gval \<Rightarrow> string list \<Rightarrow> gval" where
  "pruneDottedValue v [] = v"
| "pruneDottedValue (GMap m) [p] = GMap (mdel p m)"
| "pruneDottedValue (GMap m) (p # q # ps) =
     (case map_of m p of
        None \<Rightarrow> GMap m
      | Some child \<Rightarrow>
          (let child' = pruneDottedValue child (q # ps); m' = mput p child' m
           in if child' = GMap [] then GMap (mdel p m') else GMap m'))"
| "pruneDottedValue v (p # ps) = v"

definition pruneDescendant :: "string \<Rightarrow> string \<Rightarrow> gval \<Rightarrow> gval" where
  "pruneDescendant name disabledName v =
     (if disabledName = name \<or> \<not> factHierarchyCovers name disabledName then v
      else pruneDottedValue v (split_on DOT (trim_prefix disabledName (name @ [DOT]))))"

text \<open>The loop ranges over the keys of the map, whatever their values.\<close>

definition pruneDisabledDescendants :: "string \<Rightarrow> gval \<Rightarrow> bool gomap \<Rightarrow> gval" where
  "pruneDisabledDescendants name v disabled = fold (pruneDescendant name) (map fst disabled) v"

definition factRoot :: "string \<Rightarrow> string" where
  "factRoot name = takeWhile (\<lambda>c. c \<noteq> DOT) name"

definition nameDisabled :: "bool gomap \<Rightarrow> ResolvedFact \<Rightarrow> bool" where
  "nameDisabled disabled rf \<longleftrightarrow> is_set disabled (rf_Name rf) \<or> is_set disabled (factRoot (rf_Name rf))"

definition FilterDisabledFacts :: "ResolvedFact list \<Rightarrow> bool gomap \<Rightarrow> ResolvedFact list" where
  "FilterDisabledFacts facts disabled =
     (if disabled = [] then facts
      else map (\<lambda>rf. rf\<lparr>rf_Value := pruneDisabledDescendants (rf_Name rf) (rf_Value rf) disabled\<rparr>)
             (filter (\<lambda>rf. \<not> nameDisabled disabled rf) facts))"

section \<open>Lemmas about pruning\<close>

text \<open>Pruning below one key of a map: the child is removed when the function gives nothing.\<close>

definition at_key :: "string \<Rightarrow> (gval \<Rightarrow> gval option) \<Rightarrow> gval gomap \<Rightarrow> gval gomap" where
  "at_key p f m = (case map_of m p of None \<Rightarrow> m
     | Some c \<Rightarrow> (case f c of None \<Rightarrow> mdel p m | Some c' \<Rightarrow> mput p c' m))"

definition pruneChild :: "string list \<Rightarrow> gval \<Rightarrow> gval option" where
  "pruneChild ps c = (if ps = [] then None else
     let c' = pruneDottedValue c ps in if c' = GMap [] then None else Some c')"

lemma mdel_absent: "map_of m p = None \<Longrightarrow> mdel p m = m"
  by (induction m) (auto split: if_splits)

lemma pruneDottedValue_map:
  "pruneDottedValue (GMap m) (p # ps) = GMap (at_key p (pruneChild ps) m)"
  by (cases ps) (auto simp: at_key_def pruneChild_def Let_def mdel_absent split: option.splits)

lemma pruneDottedValue_leaf: "\<not> is_gmap v \<Longrightarrow> pruneDottedValue v ps = v"
  by (cases v; cases ps) auto

lemma at_key_commute: "p \<noteq> q \<Longrightarrow> at_key p f (at_key q g m) = at_key q g (at_key p f m)"
  by (auto simp: at_key_def mdel_mput mdel_commute mput_commute split: option.splits)

lemma at_key_twice: "at_key p f (at_key p g m) = at_key p (\<lambda>c. Option.bind (g c) f) m"
  by (auto simp: at_key_def split: option.splits)

lemma prune_commute:
  "pruneDottedValue (pruneDottedValue v ps) qs = pruneDottedValue (pruneDottedValue v qs) ps"
proof (induction ps arbitrary: v qs)
  case (Cons p ps)
  show ?case
  proof (cases "is_gmap v")
    case False
    then show ?thesis by (simp add: pruneDottedValue_leaf)
  next
    case True
    then obtain m where m: "v = GMap m" by (rule is_gmapE)
    show ?thesis
    proof (cases qs)
      case (Cons q qs')
      show ?thesis
      proof (cases "p = q")
        case False
        then show ?thesis by (simp add: m Cons pruneDottedValue_map at_key_commute)
      next
        case True
        have "Option.bind (pruneChild ps c) (pruneChild qs') = Option.bind (pruneChild qs' c) (pruneChild ps)" for c
          using Cons.IH [of c qs'] pruneDottedValue_map
          by (cases ps; cases qs') (auto simp: pruneChild_def Let_def at_key_def split: if_splits)
        then show ?thesis by (simp add: m Cons True pruneDottedValue_map at_key_twice)
      qed
    qed simp
  qed
qed simp

lemma prune_idem: "pruneDottedValue (pruneDottedValue v ps) ps = pruneDottedValue v ps"
proof (induction ps arbitrary: v)
  case (Cons p ps)
  show ?case
  proof (cases "is_gmap v")
    case False
    then show ?thesis by (simp add: pruneDottedValue_leaf)
  next
    case True
    then obtain m where m: "v = GMap m" by (rule is_gmapE)
    have "Option.bind (pruneChild ps c) (pruneChild ps) = pruneChild ps c" for c
      using Cons.IH [of c] by (auto simp: pruneChild_def Let_def)
    then show ?thesis by (simp add: m pruneDottedValue_map at_key_twice)
  qed
qed simp

interpretation prune_range: map_range "pruneDescendant name" for name
  by unfold_locales (simp add: pruneDescendant_def prune_commute)

text \<open>A path that descends through maps only.\<close>

fun map_has :: "gval \<Rightarrow> string list \<Rightarrow> bool" where
  "map_has v [] \<longleftrightarrow> True"
| "map_has (GMap m) (p # ps) \<longleftrightarrow> (case map_of m p of None \<Rightarrow> False | Some c \<Rightarrow> map_has c ps)"
| "map_has v (p # ps) \<longleftrightarrow> False"

lemma map_has_dig:
  "\<not> map_has v ps \<Longrightarrow> digValue v ps \<noteq> None \<Longrightarrow>
     \<exists>n < length ps. \<exists>c. digValue v (take n ps) = Some c \<and> \<not> is_gmap c"
proof (induction v ps rule: map_has.induct)
  case (2 m p ps)
  then obtain c where c: "map_of m p = Some c" "\<not> map_has c ps" "digValue c ps \<noteq> None"
    by (auto split: option.splits)
  from "2.IH" [OF c] obtain n x where "n < length ps" "digValue c (take n ps) = Some x" "\<not> is_gmap x" by blast
  then show ?case using c(1) by (intro exI [of _ "Suc n"]) simp
qed (auto simp: is_gmap_def intro!: exI [of _ 0])

lemma map_has_prune: "ps \<noteq> [] \<Longrightarrow> \<not> map_has (pruneDottedValue v ps) ps"
proof (induction v ps rule: pruneDottedValue.induct)
  case (3 m p q ps)
  then show ?case by (auto simp: Let_def split: option.splits)
qed auto

lemma map_has_mono: "map_has (pruneDottedValue v qs) ps \<Longrightarrow> map_has v ps"
proof (induction v qs arbitrary: ps rule: pruneDottedValue.induct)
  case (2 m p)
  then show ?case by (cases ps) (auto split: option.splits if_splits)
next
  case (3 m p q qs)
  then show ?case by (cases ps) (auto simp: Let_def split: option.splits if_splits)
qed auto

lemma map_has_fold: "map_has (fold (pruneDescendant name) ds v) ps \<Longrightarrow> map_has v ps"
  by (induction ds arbitrary: v) (auto simp: pruneDescendant_def split: if_splits dest: map_has_mono)

lemma prune_removes:
  assumes "d \<in> set ds" and "d = name @ [DOT] @ rest"
  shows "\<not> map_has (fold (pruneDescendant name) ds v) (split_on DOT rest)"
proof -
  from assms(1) obtain xs ys where ds: "ds = xs @ d # ys" by (auto simp: in_set_conv_decomp)
  have "pruneDescendant name d w = pruneDottedValue w (split_on DOT rest)" for w
    using assms(2) by (simp add: pruneDescendant_def factHierarchyCovers_def trim_prefix_def)
  then have "fold (pruneDescendant name) ds v =
      fold (pruneDescendant name) ys (pruneDottedValue (fold (pruneDescendant name) xs v) (split_on DOT rest))"
    by (simp add: ds)
  then show ?thesis using map_has_fold map_has_prune [OF split_on_not_Nil] by metis
qed

section \<open>Lemmas about names and groups\<close>

lemma factRoot_prefix: "factRoot name = name \<or> has_prefix name (factRoot name @ [DOT])"
proof -
  have n: "name = factRoot name @ dropWhile (\<lambda>c. c \<noteq> DOT) name" by (simp add: factRoot_def)
  show ?thesis
  proof (cases "dropWhile (\<lambda>c. c \<noteq> DOT) name")
    case Nil
    with n show ?thesis by simp
  next
    case (Cons c cs)
    then have "c = DOT" by (metis (mono_tags) hd_dropWhile list.sel(1) list.simps(3))
    with n Cons show ?thesis by (metis append.assoc append_Cons append_Nil prefixI)
  qed
qed

lemma covers_step:
  "factHierarchyCovers a name \<longleftrightarrow> a = name \<or>
     (case last_index DOT name of None \<Rightarrow> False | Some i \<Rightarrow> factHierarchyCovers a (take i name))"
proof (cases "last_index DOT name")
  case None
  then have "DOT \<notin> set name" by (simp add: last_index_None)
  with None show ?thesis by (auto simp: factHierarchyCovers_def prefix_def)
next
  case (Some i)
  define tail where "tail = drop (Suc i) name"
  have n: "name = take i name @ DOT # tail" and t: "DOT \<notin> set tail" and i: "i < length name"
    using last_index_Some [OF Some] last_index_bound [OF Some] by (simp_all add: tail_def)
  have "has_prefix name (a @ [DOT]) \<longleftrightarrow> a = take i name \<or> has_prefix (take i name) (a @ [DOT])"
  proof
    assume "has_prefix name (a @ [DOT])"
    then obtain r where r: "name = a @ DOT # r" by (auto simp: prefix_def)
    consider "length a < i" | "length a = i" | "length a > i" by linarith
    then show "a = take i name \<or> has_prefix (take i name) (a @ [DOT])"
    proof cases
      case 1
      then have "take i name = a @ DOT # take (i - length a - 1) r"
        by (simp add: r take_Cons')
      then show ?thesis by (simp add: prefix_def)
    next
      case 2
      then show ?thesis by (simp add: r)
    next
      case 3
      then have "tail = drop (Suc i) a @ DOT # r" by (simp add: tail_def r)
      with t show ?thesis by simp
    qed
  next
    assume "a = take i name \<or> has_prefix (take i name) (a @ [DOT])"
    then show "has_prefix name (a @ [DOT])"
    proof
      assume "a = take i name"
      then have "name = (a @ [DOT]) @ tail" using n by simp
      then show ?thesis by (rule prefixI)
    next
      assume "has_prefix (take i name) (a @ [DOT])"
      then show ?thesis using take_is_prefix prefix_order.trans by blast
    qed
  qed
  with Some show ?thesis by (auto simp: factHierarchyCovers_def)
qed

lemma disableEntry_set:
  "is_set (disableEntry groups m e) n \<longleftrightarrow> is_set m n \<or>
     (\<exists>g\<in>set groups. fg_Name g = e \<and> n \<in> set (fg_Facts g)) \<or>
     ((\<forall>g\<in>set groups. fg_Name g \<noteq> e) \<and> n = e)"
proof -
  have "is_set (foldl (\<lambda>m rf. mput rf True m) m xs) n \<longleftrightarrow> is_set m n \<or> n \<in> set xs" for xs
    using gm.get_put_all [of "\<lambda>x. x" "\<lambda>_. True" m xs n] find_None_iff [of "\<lambda>x. x = n" "rev xs"]
    by (cases "find (\<lambda>x. x = n) (rev xs)") (auto simp: is_set_def)
  then show ?thesis
    by (auto simp: disableEntry_def Let_def is_set_def filter_empty_conv)
qed

lemma disableEntries_set:
  "is_set (foldl (disableEntry groups) m entries) n \<longleftrightarrow> is_set m n \<or>
     (\<exists>e\<in>set entries. (\<exists>g\<in>set groups. fg_Name g = e \<and> n \<in> set (fg_Facts g)) \<or>
        ((\<forall>g\<in>set groups. fg_Name g \<noteq> e) \<and> n = e))"
  by (induction entries arbitrary: m) (auto simp: disableEntry_set)

text \<open>Invariant of the merge: names are distinct and indexed.\<close>

definition indexed :: "FactGroup list \<Rightarrow> nat gomap \<Rightarrow> bool" where
  "indexed merged indexes \<longleftrightarrow> distinct (map fg_Name merged) \<and>
     (\<forall>n i. mget indexes n = Some i \<longleftrightarrow> i < length merged \<and> fg_Name (merged ! i) = n)"

lemma find_name:
  "distinct (map fg_Name gs) \<Longrightarrow> find (\<lambda>g. fg_Name g = n) gs = Some g \<longleftrightarrow> g \<in> set gs \<and> fg_Name g = n"
  by (induction gs) (auto simp: image_iff)

lemma indexed_append:
  assumes "indexed merged indexes" and new: "fg_Name g \<notin> fg_Name ` set merged"
  shows "indexed (merged @ [g]) (mput (fg_Name g) (length merged) indexes)"
proof -
  have "fg_Name (merged ! i) \<noteq> fg_Name g" if "i < length merged" for i
    using new that by (metis image_eqI nth_mem)
  moreover have "mget indexes n = Some i \<longleftrightarrow> i < length merged \<and> fg_Name (merged ! i) = n" for n i
    using assms(1) by (simp add: indexed_def)
  ultimately have "mget (mput (fg_Name g) (length merged) indexes) n = Some i \<longleftrightarrow>
      i < length (merged @ [g]) \<and> fg_Name ((merged @ [g]) ! i) = n" for n i
    by (cases "i < length merged"; cases "i = length merged") (auto simp: nth_append)
  then show ?thesis using assms by (simp add: indexed_def)
qed

lemma mergeGroup_indexed:
  assumes "indexed merged indexes"
  shows "indexed (fst (mergeGroup (merged, indexes) g)) (snd (mergeGroup (merged, indexes) g)) \<and>
     (\<forall>n. find (\<lambda>h. fg_Name h = n) (fst (mergeGroup (merged, indexes) g)) =
        (if n = fg_Name g then Some g else find (\<lambda>h. fg_Name h = n) merged)) \<and>
     prefix (map fg_Name merged) (map fg_Name (fst (mergeGroup (merged, indexes) g)))"
proof (cases "mget indexes (fg_Name g)")
  case None
  have "fg_Name g \<notin> fg_Name ` set merged"
  proof
    assume "fg_Name g \<in> fg_Name ` set merged"
    then obtain i where "i < length merged" "fg_Name (merged ! i) = fg_Name g"
      by (metis imageE in_set_conv_nth)
    then have "mget indexes (fg_Name g) = Some i" using assms by (simp add: indexed_def)
    with None show False by simp
  qed
  then have f: "find (\<lambda>h. fg_Name h = fg_Name g) merged = None"
    unfolding find_None_iff by (metis image_eqI)
  have "find (\<lambda>h. fg_Name h = n) (merged @ [g]) =
      (if n = fg_Name g then Some g else find (\<lambda>h. fg_Name h = n) merged)" for n
    using f by (auto simp: find_append split: option.split)
  then show ?thesis using None indexed_append [OF assms \<open>fg_Name g \<notin> fg_Name ` set merged\<close>]
    by (simp add: mergeGroup_def)
next
  case (Some i)
  with assms have i: "i < length merged" "fg_Name (merged ! i) = fg_Name g" by (auto simp: indexed_def)
  have names: "map fg_Name (merged[i := g]) = map fg_Name merged"
    using i by (intro nth_equalityI) (auto simp: nth_list_update)
  then have d: "distinct (map fg_Name (merged[i := g]))" using assms by (simp add: indexed_def)
  have "fg_Name (merged[i := g] ! j) = fg_Name (merged ! j)" if "j < length merged" for j
    using i by (cases "j = i") simp_all
  then have "indexed (merged[i := g]) indexes" using assms d by (auto simp: indexed_def)
  moreover have "find (\<lambda>h. fg_Name h = n) (merged[i := g]) =
      (if n = fg_Name g then Some g else find (\<lambda>h. fg_Name h = n) merged)" for n
  proof (cases "n = fg_Name g")
    case True
    then show ?thesis using find_name [OF d] i by (auto simp: set_update_memI)
  next
    case False
    have "x \<in> set (merged[i := g]) \<longleftrightarrow> x \<in> set merged" if "fg_Name x = n" for x
    proof
      assume "x \<in> set (merged[i := g])"
      then show "x \<in> set merged" using set_update_subset_insert that False by fast
    next
      assume "x \<in> set merged"
      then obtain j where "j < length merged" "merged ! j = x" by (auto simp: in_set_conv_nth)
      moreover from this have "j \<noteq> i" using i that False by auto
      ultimately show "x \<in> set (merged[i := g])"
        by (metis length_list_update nth_list_update_neq nth_mem)
    qed
    then have "find (\<lambda>h. fg_Name h = n) (merged[i := g]) = Some x \<longleftrightarrow>
        find (\<lambda>h. fg_Name h = n) merged = Some x" for x
      using find_name [OF d] find_name [of merged n] assms unfolding indexed_def by blast
    with False show ?thesis by (metis option.exhaust)
  qed
  ultimately show ?thesis using Some names by (simp add: mergeGroup_def)
qed

lemma mergeGroups_lookup:
  assumes "indexed merged indexes"
  shows "distinct (map fg_Name (fst (foldl mergeGroup (merged, indexes) gs))) \<and>
     find (\<lambda>h. fg_Name h = n) (fst (foldl mergeGroup (merged, indexes) gs)) =
       (case find (\<lambda>h. fg_Name h = n) (rev gs) of Some g \<Rightarrow> Some g
        | None \<Rightarrow> find (\<lambda>h. fg_Name h = n) merged) \<and>
     prefix (map fg_Name merged) (map fg_Name (fst (foldl mergeGroup (merged, indexes) gs)))"
proof (induction gs rule: rev_induct)
  case Nil
  then show ?case using assms by (simp add: indexed_def)
next
  case (snoc g gs)
  have "indexed (fst (foldl mergeGroup (merged, indexes) gs)) (snd (foldl mergeGroup (merged, indexes) gs))"
  proof (induction gs rule: rev_induct)
    case (snoc x xs)
    then show ?case using mergeGroup_indexed by (metis foldl_Cons foldl_Nil foldl_append prod.collapse)
  qed (simp add: assms)
  from mergeGroup_indexed [OF this, of g] snoc show ?case
    by (auto simp: indexed_def intro: prefix_order.trans)
qed

lemma indexed_enumerate:
  "distinct (map fg_Name gs) \<Longrightarrow> indexed gs (foldl (\<lambda>m (i, g). mput (fg_Name g) i m) [] (enumerate 0 gs))"
proof (induction gs rule: rev_induct)
  case (snoc g gs)
  then show ?case
    using indexed_append [of gs _ g] by (simp add: enumerate_append_eq)
qed (simp add: indexed_def)

lemma FilterDisabledFacts_eq:
  "FilterDisabledFacts facts disabled =
     map (\<lambda>rf. rf\<lparr>rf_Value := fold (pruneDescendant (rf_Name rf)) (map fst disabled) (rf_Value rf)\<rparr>)
       (filter (\<lambda>rf. \<not> nameDisabled disabled rf) facts)"
  by (auto simp: FilterDisabledFacts_def pruneDisabledDescendants_def nameDisabled_def is_set_def
      intro!: map_idI [symmetric])

lemma fold_prune_other:
  "(\<And>d. d \<in> set ds \<Longrightarrow> d = name \<or> \<not> factHierarchyCovers name d) \<Longrightarrow>
     fold (pruneDescendant name) ds v = v"
  by (induction ds arbitrary: v) (auto simp: pruneDescendant_def)

section \<open>Properties\<close>

text \<open>C7: A fact that leaves the filter is disabled neither by its name nor by its root, and a query finds
  a disabled descendant in its value only by a path that meets something other than a map with string
  keys on the way - a list, or the map[any]any that YAML gives, which the filter does not enter. So no
  disabled descendant is left that can be reached through maps with string keys alone.\<close>

theorem FilterDisabledFacts_removes:
  assumes "rf \<in> set (FilterDisabledFacts facts disabled)"
  shows "\<not> is_set disabled (rf_Name rf) \<and> \<not> is_set disabled (factRoot (rf_Name rf)) \<and>
     (\<forall>rest. has_key disabled (rf_Name rf @ [DOT] @ rest) \<longrightarrow> digValue (rf_Value rf) (split_on DOT rest) \<noteq> None \<longrightarrow>
        (\<exists>n < length (split_on DOT rest). \<exists>c. digValue (rf_Value rf) (take n (split_on DOT rest)) = Some c \<and> \<not> is_gmap c))"
proof -
  from assms obtain g where g: "\<not> nameDisabled disabled g"
    "rf = g\<lparr>rf_Value := fold (pruneDescendant (rf_Name g)) (map fst disabled) (rf_Value g)\<rparr>"
    by (auto simp: FilterDisabledFacts_eq)
  have "\<not> map_has (rf_Value rf) (split_on DOT rest)"
    if "has_key disabled (rf_Name rf @ [DOT] @ rest)" for rest
    using prune_removes [of "rf_Name rf @ [DOT] @ rest" "map fst disabled" "rf_Name g" rest] that g(2)
    by (simp add: has_key_iff)
  with g map_has_dig show ?thesis by (auto simp: nameDisabled_def)
qed

theorem FilterDisabledFacts_removes_witness:
  "\<exists>n c. n < 3 \<and> digValue (GMap [(''l'', GList [GMap [(''x'', GInt 1)]])]) (take n [''l'', ''0'', ''x'']) = Some c \<and> \<not> is_gmap c"
proof -
  let ?in = "core_fact ''a'' (GMap [(''l'', GList [GMap [(''x'', GInt 1)]]), (''y'', GInt 2)])"
  let ?rf = "core_fact ''a'' (GMap [(''l'', GList [GMap [(''x'', GInt 1)]])])"
  let ?disabled = "[(''a.y'', True), (''a.l.0.x'', True)]"
  have "FilterDisabledFacts [?in] ?disabled = [?rf]" by code_simp
  then have "?rf \<in> set (FilterDisabledFacts [?in] ?disabled)" by simp
  note removed = this [THEN FilterDisabledFacts_removes, THEN conjunct2, THEN conjunct2, rule_format, of "''l.0.x''"]
  have "split_on DOT ''l.0.x'' = [''l'', ''0'', ''x'']" by code_simp
  moreover have "has_key ?disabled (rf_Name ?rf @ [DOT] @ ''l.0.x'')" by (simp add: has_key_def)
  moreover have "digValue (rf_Value ?rf) [''l'', ''0'', ''x''] \<noteq> None" by code_simp
  ultimately show ?thesis using removed by (auto simp: numeral_eq_Suc)
qed

text \<open>A map with keys of any type is not entered: the disabled descendant is still found.\<close>

lemma disabled_inside_any_map:
  "map (\<lambda>rf. digValue (rf_Value rf) [''x''])
     (FilterDisabledFacts [typed_fact ''f'' (GAnyMap [(KInt 1, GInt 1), (KStr ''x'', GInt 2)]) ''external''] [(''f.x'', True)]) = [Some (GInt 2)]"
  by code_simp

text \<open>A fact that is disabled neither by its name nor by its root, and has no disabled
  descendant, passes the filter with its value unchanged, in its place of the list.\<close>

lemma FilterDisabledFacts_keeps:
  assumes "\<forall>rf\<in>set facts. \<forall>d\<in>fst ` set disabled.
             d = rf_Name rf \<or> \<not> factHierarchyCovers (rf_Name rf) d"
  shows "FilterDisabledFacts facts disabled =
     filter (\<lambda>rf. \<not> is_set disabled (rf_Name rf) \<and> \<not> is_set disabled (factRoot (rf_Name rf))) facts"
proof -
  have "fold (pruneDescendant (rf_Name rf)) (map fst disabled) (rf_Value rf) = rf_Value rf"
    if "rf \<in> set facts" for rf
    using assms that by (intro fold_prune_other) auto
  then have "map (\<lambda>rf. rf\<lparr>rf_Value := fold (pruneDescendant (rf_Name rf)) (map fst disabled) (rf_Value rf)\<rparr>)
      (filter (\<lambda>rf. \<not> nameDisabled disabled rf) facts) = filter (\<lambda>rf. \<not> nameDisabled disabled rf) facts"
    by (intro map_idI) simp
  then show ?thesis by (simp add: FilterDisabledFacts_eq nameDisabled_def)
qed

lemma FilterDisabledFacts_keeps_witness:
  "FilterDisabledFacts [core_fact ''os.selinux.enabled'' (GBool True), core_fact ''dmi'' GNil]
     [(''dmi'', True), (''os.selinux'', True)] = [core_fact ''os.selinux.enabled'' (GBool True)]"
proof -
  let ?fs = "[core_fact ''os.selinux.enabled'' (GBool True), core_fact ''dmi'' GNil]"
  let ?d = "[(''dmi'', True), (''os.selinux'', True)]"
  have "\<forall>rf\<in>set ?fs. \<forall>d\<in>fst ` set ?d. d = rf_Name rf \<or> \<not> factHierarchyCovers (rf_Name rf) d"
    by code_simp
  then have "FilterDisabledFacts ?fs ?d =
      filter (\<lambda>rf. \<not> is_set ?d (rf_Name rf) \<and> \<not> is_set ?d (factRoot (rf_Name rf))) ?fs"
    by (rule FilterDisabledFacts_keeps)
  also have "\<dots> = [core_fact ''os.selinux.enabled'' (GBool True)]" by code_simp
  finally show ?thesis .
qed

text \<open>The order in which Go visits the disabled map does not show in the filtered facts, and
  filtering a second time changes nothing.\<close>

lemma FilterDisabledFacts_stable:
  assumes "wfm disabled" and "mset disabled = mset disabled'"
  shows "FilterDisabledFacts facts disabled = FilterDisabledFacts facts disabled' \<and>
     FilterDisabledFacts (FilterDisabledFacts facts disabled) disabled = FilterDisabledFacts facts disabled"
proof -
  have "mset (map fst disabled) = mset (map fst disabled')" using assms(2) by simp
  then have "fold (pruneDescendant n) (map fst disabled) v = fold (pruneDescendant n) (map fst disabled') v"
    for n v by (rule prune_range.order_free)
  moreover have "is_set disabled = is_set disabled'"
    using wfm_perm_get [OF assms] by (simp add: is_set_def fun_eq_iff)
  moreover have "fold (pruneDescendant n) ds (fold (pruneDescendant n) ds v) = fold (pruneDescendant n) ds v"
    for n ds v by (rule prune_range.again) (simp add: pruneDescendant_def prune_idem)
  ultimately show ?thesis
    by (simp add: FilterDisabledFacts_eq nameDisabled_def filter_map o_def)
qed

lemma FilterDisabledFacts_stable_witness:
  "FilterDisabledFacts [core_fact ''os'' (GMap [(''a'', GMap [(''b'', GInt 1)])])]
      [(''os.a.b'', True), (''os.a.c'', True)] =
   FilterDisabledFacts [core_fact ''os'' (GMap [(''a'', GMap [(''b'', GInt 1)])])]
      [(''os.a.c'', True), (''os.a.b'', True)]"
proof -
  have "wfm [(''os.a.b'', True), (''os.a.c'', True)]" by (simp add: wfm_def)
  then show ?thesis
    using FilterDisabledFacts_stable [of "[(''os.a.b'', True), (''os.a.c'', True)]"
        "[(''os.a.c'', True), (''os.a.b'', True)]"] by simp
qed

text \<open>Gating is invisible: when every category emits facts of its declared roots only,
  skipping the categories whose roots are all disabled and then filtering gives the facts
  that resolving every category and then filtering gives.\<close>

lemma gating_invisible:
  assumes "\<forall>d\<in>set coreFactDescriptors. \<forall>rf\<in>set (cd_assemble d build).
             factRoot (rf_Name rf) \<in> set (cd_emittedRoots d)"
  shows "FilterDisabledFacts (buildCoreFacts build disabled) disabled =
         FilterDisabledFacts (buildCoreFacts build []) disabled"
proof -
  have all: "filter (shouldRun []) coreFactDescriptors = coreFactDescriptors"
    by (simp add: coreFactDescriptors_def shouldRun_def is_set_def)
  have "filter (\<lambda>rf. \<not> nameDisabled disabled rf) (buildCoreFacts build disabled) =
        filter (\<lambda>rf. \<not> nameDisabled disabled rf) (buildCoreFacts build [])"
    unfolding buildCoreFacts_def resolveCoreFactDescriptors_eq all
    by (rule core_gate.gate_invisible [OF assms]) (simp add: nameDisabled_def)
  then show ?thesis by (simp add: FilterDisabledFacts_eq)
qed

lemma gating_invisible_witness:
  "FilterDisabledFacts (buildCoreFacts (newCoreFactBuild ''linux'' (\<lambda>_. ''/bin'')
       \<lparr>vz_Name = ''kvm'', vz_IsVirtual = True, vz_Unknown = False\<rparr> ''4.0''
       (\<lambda>p. if p = ''dmiCoreFacts'' then [core_fact ''dmi.bios'' (GStr ''x'')] else []))
       [(''dmi'', True)]) [(''dmi'', True)] =
   FilterDisabledFacts (buildCoreFacts (newCoreFactBuild ''linux'' (\<lambda>_. ''/bin'')
       \<lparr>vz_Name = ''kvm'', vz_IsVirtual = True, vz_Unknown = False\<rparr> ''4.0''
       (\<lambda>p. if p = ''dmiCoreFacts'' then [core_fact ''dmi.bios'' (GStr ''x'')] else []))
       []) [(''dmi'', True)]"
proof (rule gating_invisible)
  let ?b = "newCoreFactBuild ''linux'' (\<lambda>_. ''/bin'')
       \<lparr>vz_Name = ''kvm'', vz_IsVirtual = True, vz_Unknown = False\<rparr> ''4.0''
       (\<lambda>p. if p = ''dmiCoreFacts'' then [core_fact ''dmi.bios'' (GStr ''x'')] else [])"
  have "list_all (\<lambda>d. list_all (\<lambda>rf. list_ex (\<lambda>r. r = factRoot (rf_Name rf)) (cd_emittedRoots d))
      (cd_assemble d ?b)) coreFactDescriptors" by code_simp
  then show "\<forall>d\<in>set coreFactDescriptors. \<forall>rf\<in>set (cd_assemble d ?b).
      factRoot (rf_Name rf) \<in> set (cd_emittedRoots d)"
    by (auto simp: list_all_iff list_ex_iff)
qed

text \<open>Disabling a name between a fact's root and its full name has no effect on it: with
  \<open>os.selinux\<close> disabled the fact \<open>os.selinux.enabled\<close>, emitted under its own dotted name,
  passes the filter, and the collected tree still holds \<open>os.selinux\<close>.\<close>

lemma disabled_middle_kept:
  "digValue (GMap (Collection (FilterDisabledFacts [core_fact ''os.selinux.enabled'' (GBool True)]
      (DisabledFactsWithGroups [''os.selinux''] [])))) [''os'', ''selinux''] =
   Some (GMap [(''enabled'', GBool True)])"
  by code_simp

text \<open>A name is disabled exactly when an entry names a group that lists it, or names no
  group and is the name itself; the order of the entries does not matter.\<close>

lemma DisabledFactsWithGroups_spec:
  "is_set (DisabledFactsWithGroups entries configured) n \<longleftrightarrow>
     (\<exists>e\<in>set entries. case find (\<lambda>g. fg_Name g = e) (rev configured @ BuiltinFactGroups) of
        Some g \<Rightarrow> n \<in> set (fg_Facts g) | None \<Rightarrow> n = e)"
proof -
  let ?M = "MergeFactGroups BuiltinFactGroups configured"
  have db: "distinct (map fg_Name BuiltinFactGroups)" by code_simp
  have fa: "find P (xs @ ys) = (case find P xs of Some y \<Rightarrow> Some y | None \<Rightarrow> find P ys)"
    for P and xs ys :: "FactGroup list" by (induction xs) auto
  have M: "distinct (map fg_Name ?M) \<and>
      find (\<lambda>g. fg_Name g = e) ?M = find (\<lambda>g. fg_Name g = e) (rev configured @ BuiltinFactGroups)" for e
    using mergeGroups_lookup [OF indexed_enumerate [OF db], of configured e] db
    by (auto simp: MergeFactGroups_def Let_def fa)
  have "(\<exists>g\<in>set ?M. fg_Name g = e \<and> n \<in> set (fg_Facts g)) \<or> ((\<forall>g\<in>set ?M. fg_Name g \<noteq> e) \<and> n = e) \<longleftrightarrow>
      (case find (\<lambda>g. fg_Name g = e) ?M of Some g \<Rightarrow> n \<in> set (fg_Facts g) | None \<Rightarrow> n = e)" for e
  proof (cases "find (\<lambda>g. fg_Name g = e) ?M")
    case None
    then have "\<forall>g\<in>set ?M. fg_Name g \<noteq> e" by (auto simp: find_None_iff)
    with None show ?thesis by auto
  next
    case (Some g)
    then have g: "g \<in> set ?M" "fg_Name g = e" using M find_name by blast+
    moreover have "h = g" if "h \<in> set ?M" "fg_Name h = e" for h
      using M [of e] find_name [of ?M e h] that Some by simp
    ultimately have "(\<exists>g\<in>set ?M. fg_Name g = e \<and> n \<in> set (fg_Facts g)) \<longleftrightarrow> n \<in> set (fg_Facts g)"
      and "\<not> (\<forall>g\<in>set ?M. fg_Name g \<noteq> e)" by blast+
    then show ?thesis by (simp only: Some option.case) simp
  qed
  then show ?thesis using M by (simp add: DisabledFactsWithGroups_def disableEntries_set)
qed

text \<open>The disabled set of a run is the union of the sets of its three sources.\<close>

lemma DisabledUnion_sources:
  "is_set (DisabledUnion config extra environ) n \<longleftrightarrow>
     is_set (DisabledFactsWithGroups (cfg_Disabled config) (cfg_FactGroups config)) n \<or>
     is_set (DisabledFactsWithGroups extra (cfg_FactGroups config)) n \<or>
     is_set (DisabledFactsWithGroups (environmentDisabledFacts environ) (cfg_FactGroups config)) n"
  unfolding DisabledUnion_def DisabledFactsWithGroups_def foldl_append disableEntries_set by auto

text \<open>The hierarchy search returns the entry of the nearest ancestor: the name itself or its
  longest dotted prefix that has one.\<close>

lemma factHierarchyMatch_nearest:
  "(case factHierarchyMatch name lookup of
      None \<Rightarrow> (\<forall>a. factHierarchyCovers a name \<longrightarrow> lookup a = None)
    | Some (a, v) \<Rightarrow> factHierarchyCovers a name \<and> lookup a = Some v \<and>
        (\<forall>b. factHierarchyCovers b name \<and> length a < length b \<longrightarrow> lookup b = None))"
proof (induction name lookup rule: factHierarchyMatch.induct)
  case (1 name lookup)
  have len: "length b \<le> length name" if "factHierarchyCovers b name" for b
    using that by (auto simp: factHierarchyCovers_def prefix_def)
  show ?case
  proof (cases "lookup name")
    case (Some v)
    then show ?thesis using len
      by (fastforce simp: factHierarchyMatch.simps [of name] factHierarchyCovers_def)
  next
    case None
    note ln = this
    show ?thesis
    proof (cases "last_index DOT name")
      case None
      then show ?thesis using ln
        by (simp add: factHierarchyMatch.simps [of name] covers_step [of _ name])
    next
      case (Some i)
      have m: "factHierarchyMatch name lookup = factHierarchyMatch (take i name) lookup"
        using ln Some by (simp add: factHierarchyMatch.simps [of name])
      have c: "factHierarchyCovers b name \<longleftrightarrow> b = name \<or> factHierarchyCovers b (take i name)" for b
        using Some covers_step [of b name] by simp
      show ?thesis using "1.IH" [OF ln Some] ln unfolding m c
        by (auto split: option.splits)
    qed
  qed
qed

lemma factHierarchyMatch_nearest_witness:
  "map_of [(''os'', 1::nat)] ''os.name'' = None"
proof -
  have "factHierarchyMatch ''os.name'' (map_of [(''os'', 1::nat)]) = Some (''os'', 1)" by code_simp
  moreover have "factHierarchyCovers ''os.name'' ''os.name''" by code_simp
  ultimately show ?thesis using factHierarchyMatch_nearest [of "''os.name''" "map_of [(''os'', 1::nat)]"]
    by auto
qed

text \<open>\<open>ttlSeconds\<close> multiplies in 64 bits without a check: a time to live of
  \<open>106751991167301 days\<close> becomes a negative number of seconds, one day less is exact.\<close>

lemma ttlSeconds_overflow:
  "fst (ttlSeconds ''106751991167301 days'') = Some (- 9223372036854745216) \<and>
   fst (ttlSeconds ''106751991167300 days'') = Some 9223372036854720000"
  by code_simp

end
