(* ===== verification/Discovery_Plan.thy ===== *)
theory Discovery_Plan
  imports Fact_Groups Go_Library
begin

text \<open>
  \<open>internal/engine/discovery_plan.go\<close>, \<open>defaults.go\<close> and the default directories of
  \<open>config.go\<close>: from an engine configuration and the process defaults to the plan of one
  discovery. What the plan reads from the process - the environment, the parsed configuration
  file and the current defaults - is the record \<open>planHost\<close>.
\<close>

section \<open>Data\<close>

record DiscoveryDefaults =
  dd_NativeConfigPath :: string
  dd_CompatibleConfigPath :: string
  dd_CachePath :: string
  dd_ExternalFactDirs :: "string list"

definition no_defaults :: DiscoveryDefaults where
  "no_defaults = \<lparr>dd_NativeConfigPath = [], dd_CompatibleConfigPath = [], dd_CachePath = [],
     dd_ExternalFactDirs = []\<rparr>"

datatype externalFactLoaderMode = externalFactLoaderCLI | externalFactLoaderLibrary

text \<open>A registered fact: its name and, when it has a resolver, what the resolver returns.\<close>

record ProgrammaticFact =
  pf_Name :: string
  pf_Resolve :: "(goerror + gval) option"

text \<open>Nil pointers and nil maps that the code distinguishes from empty ones are options.\<close>

record EngineConfig =
  ec_ConfigFile :: string
  ec_ExternalDirs :: "string list"
  ec_UseCache :: bool
  ec_SystemDefaults :: bool
  ec_Facts :: "ProgrammaticFact list"
  ec_Defaults :: "DiscoveryDefaults option"
  ec_CLICompat :: bool
  ec_NoExternalFacts :: bool
  ec_DisabledFacts :: "bool gomap option"
  ec_ExtraDisabled :: "string list"
  ec_ConfigLoaded :: bool
  ec_Config :: Config
  ec_IncludeTypedDotted :: bool

record discoveryPlan =
  pl_externalDirs :: "string list"
  pl_cachePath :: string
  pl_noExternalFacts :: bool
  pl_disabledFacts :: "bool gomap"
  pl_ambientDisabled :: "string gomap"
  pl_useCache :: bool
  pl_cacheTTLs :: "FactTTL list"
  pl_cacheGroups :: "FactGroup list"
  pl_loaderMode :: externalFactLoaderMode
  pl_includeEnv :: bool
  pl_queries :: "string list"
  pl_includeTypedDotted :: bool

record planHost =
  ph_environ :: "string list"
  ph_parseConfig :: "string \<Rightarrow> DiscoveryDefaults \<Rightarrow> Config \<times> goerror option"
  ph_currentDefaults :: DiscoveryDefaults

section \<open>Default directories\<close>

definition DefaultExternalFactDirs :: "bool \<Rightarrow> bool \<Rightarrow> string \<Rightarrow> string \<Rightarrow> string list" where
  "DefaultExternalFactDirs windows root home windowsDataDir =
     (if windows then
        (if windowsDataDir = [] then []
         else [windowsDataDir @ ''/facts/facts.d'', windowsDataDir @ ''/PuppetLabs/facter/facts.d''])
      else if root then
        [''/etc/facts/facts.d'', ''/etc/puppetlabs/facter/facts.d'', ''/etc/facter/facts.d/'',
         ''/opt/puppetlabs/facter/facts.d'']
      else if home = [] then []
      else [home @ ''/.facts/facts.d'', home @ ''/.facter/facts.d'',
            home @ ''/.puppetlabs/opt/facter/facts.d''])"

definition currentDefaultExternalFactDirs ::
  "string \<Rightarrow> int \<Rightarrow> (string \<Rightarrow> string) \<Rightarrow> string list" where
  "currentDefaultExternalFactDirs goos euid getenv =
     DefaultExternalFactDirs (goos = ''windows'') (goos \<noteq> ''windows'' \<and> euid = 0)
       (getenv ''HOME'') (getenv ''ProgramData'')"

definition platformDefaultCachePathFor :: "string \<Rightarrow> string \<Rightarrow> string \<Rightarrow> string" where
  "platformDefaultCachePathFor goos programData appData =
     (if goos = ''windows'' \<and> programData \<noteq> []
      then programData @ ''/PuppetLabs/facts/cache/cached_facts''
      else if goos = ''windows'' \<and> appData \<noteq> []
      then appData @ ''/PuppetLabs/facts/cache/cached_facts''
      else ''/opt/puppetlabs/facts/cache/cached_facts'')"

definition DiscoveryExternalDirs ::
  "Config \<Rightarrow> string list \<Rightarrow> bool \<Rightarrow> bool \<Rightarrow> string list \<Rightarrow> string list" where
  "DiscoveryExternalDirs config explicit noExternalFacts systemDefaults defaults =
     (if noExternalFacts \<or> cfg_NoExternalFacts config then []
      else if explicit \<noteq> [] then explicit
      else if cfg_ExternalDirs config \<noteq> [] then cfg_ExternalDirs config
      else if systemDefaults then defaults else [])"

section \<open>Planning\<close>

definition disabledSourceEnv :: string where "disabledSourceEnv = ''FACTS_DISABLE''"
definition disabledSourceConfig :: string where
  "disabledSourceConfig = ''the configuration file''"

definition dropCovered :: "string gomap \<Rightarrow> string \<Rightarrow> string gomap" where
  "dropCovered ambient name =
     filter (\<lambda>(k, source). \<not> factHierarchyCovers name k) (mdel name ambient)"

definition unionDisabledFacts ::
  "EngineConfig \<Rightarrow> planHost \<Rightarrow> Config \<Rightarrow> bool \<Rightarrow> bool gomap \<times> string gomap" where
  "unionDisabledFacts cfg host config includeEnv =
     (let groups = cfg_FactGroups config;
          environ = (if includeEnv then ph_environ host else []);
          disabled = DisabledUnion config (ec_ExtraDisabled cfg) environ;
          mark = (\<lambda>source m name. mput name source m);
          ambient1 = foldl (mark disabledSourceConfig) []
                       (map fst (DisabledFactsWithGroups (cfg_Disabled config) groups));
          ambient2 = (if includeEnv
                      then foldl (mark disabledSourceEnv) ambient1
                             (map fst (DisabledFactsWithGroups
                                (environmentDisabledFacts (ph_environ host)) groups))
                      else ambient1);
          ambient3 = foldl dropCovered ambient2
                       (map fst (DisabledFactsWithGroups (ec_ExtraDisabled cfg) groups))
      in (disabled, ambient3))"

definition configForDiscovery ::
  "EngineConfig \<Rightarrow> planHost \<Rightarrow> DiscoveryDefaults \<Rightarrow> Config \<times> bool \<times> goerror option" where
  "configForDiscovery cfg host defaults =
     (if ec_ConfigLoaded cfg then (ec_Config cfg, True, None)
      else if ec_ConfigFile cfg = [] \<and> \<not> ec_SystemDefaults cfg then (empty_config, False, None)
      else let (config, err) = ph_parseConfig host (ec_ConfigFile cfg) defaults
           in (config, True, err))"

definition defaultsForDiscovery :: "EngineConfig \<Rightarrow> planHost \<Rightarrow> DiscoveryDefaults" where
  "defaultsForDiscovery cfg host =
     (case ec_Defaults cfg of Some d \<Rightarrow> d
      | None \<Rightarrow> if ec_SystemDefaults cfg \<or> ec_UseCache cfg then ph_currentDefaults host
                else no_defaults)"

definition planDiscoveryWithDefaults ::
  "EngineConfig \<Rightarrow> planHost \<Rightarrow> string list \<Rightarrow> DiscoveryDefaults \<Rightarrow> discoveryPlan \<times> goerror list" where
  "planDiscoveryWithDefaults cfg host queries defaults =
     (let includeEnv = ec_SystemDefaults cfg \<or> ec_CLICompat cfg;
          (config, ok, err) = configForDiscovery cfg host defaults;
          failures = (case err of Some e \<Rightarrow> [e] | None \<Rightarrow> []);
          usable = (ok \<and> err = None);
          noExternal = ec_NoExternalFacts cfg \<or> (usable \<and> cfg_NoExternalFacts config);
          (disabled, ambient) =
            (case ec_DisabledFacts cfg of Some d \<Rightarrow> (d, [])
             | None \<Rightarrow> unionDisabledFacts cfg host config includeEnv);
          systemDefaults = (ec_SystemDefaults cfg \<and> \<not> noExternal);
          defaultDirs = (if systemDefaults \<and> ec_ExternalDirs cfg = [] \<and> cfg_ExternalDirs config = []
                         then dd_ExternalFactDirs defaults else [])
      in (\<lparr>pl_externalDirs = DiscoveryExternalDirs (config\<lparr>cfg_NoExternalFacts := False\<rparr>)
              (ec_ExternalDirs cfg) False systemDefaults defaultDirs,
           pl_cachePath = dd_CachePath defaults,
           pl_noExternalFacts = noExternal,
           pl_disabledFacts = disabled,
           pl_ambientDisabled = ambient,
           pl_useCache = ec_UseCache cfg,
           pl_cacheTTLs = (if usable \<and> ec_UseCache cfg then cfg_TTLs config else []),
           pl_cacheGroups = (if usable then cfg_FactGroups config else []),
           pl_loaderMode = (if ec_CLICompat cfg then externalFactLoaderCLI else externalFactLoaderLibrary),
           pl_includeEnv = includeEnv,
           pl_queries = queries,
           pl_includeTypedDotted = ec_IncludeTypedDotted cfg \<or>
             (usable \<and> ec_CLICompat cfg \<and> cfg_ForceDotResolution config)\<rparr>,
         failures))"

definition planDiscovery ::
  "EngineConfig \<Rightarrow> planHost \<Rightarrow> string list \<Rightarrow> discoveryPlan \<times> goerror list" where
  "planDiscovery cfg host queries =
     planDiscoveryWithDefaults cfg host queries (defaultsForDiscovery cfg host)"

section \<open>The diagnostic for queries of disabled facts\<close>

definition ambientDisableSource :: "string \<Rightarrow> string gomap \<Rightarrow> string option" where
  "ambientDisableSource name ambient = map_option snd (factHierarchyMatch name (mget ambient))"

definition diagnoseAmbientDisabledQueries :: "string list \<Rightarrow> string gomap \<Rightarrow> string list" where
  "diagnoseAmbientDisabledQueries queries ambient =
     List.map_filter (\<lambda>query. map_option
         (\<lambda>source. ''fact '' @ go_quote (to_lower query) @ '' is disabled by '' @ source)
         (ambientDisableSource (to_lower query) ambient)) queries"

section \<open>Lemmas\<close>

lemma mget_filter_key: "mget (filter (\<lambda>(k, s). P k) m) n = (if P n then mget m n else None)"
  by (induction m) auto

lemma dropCovered_get:
  "mget (dropCovered m e) n = (if factHierarchyCovers e n then None else mget m n)"
proof -
  have "factHierarchyCovers e e" by (simp add: factHierarchyCovers_def)
  then show ?thesis by (auto simp: dropCovered_def mget_filter_key)
qed

lemma dropCovered_all_get:
  "mget (foldl dropCovered m es) n = (if \<exists>e\<in>set es. factHierarchyCovers e n then None else mget m n)"
  by (induction es arbitrary: m) (auto simp: dropCovered_get)

lemma mark_get:
  "mget (foldl (\<lambda>m name. mput name source m) m ns) n = (if n \<in> set ns then Some source else mget m n)"
  by (induction ns arbitrary: m) auto

lemma all_true_put: "list_all snd m \<Longrightarrow> list_all snd (mput k True m)"
  by (induction m) auto

lemma disableEntry_all_true: "list_all snd m \<Longrightarrow> list_all snd (disableEntry groups m e)"
proof -
  have "list_all snd m \<Longrightarrow> list_all snd (foldl (\<lambda>m rf. mput rf True m) m xs)" for m xs
    by (induction xs arbitrary: m) (auto simp: all_true_put)
  then show "list_all snd m \<Longrightarrow> list_all snd (disableEntry groups m e)"
    by (simp add: disableEntry_def Let_def all_true_put)
qed

lemma disabled_keys:
  "n \<in> fst ` set (DisabledFactsWithGroups entries groups) \<longleftrightarrow>
     is_set (DisabledFactsWithGroups entries groups) n"
proof -
  have "list_all snd m \<Longrightarrow> list_all snd (foldl (disableEntry gs) m es)" for m gs es
    by (induction es arbitrary: m) (auto simp: disableEntry_all_true)
  then have t: "list_all snd (DisabledFactsWithGroups entries groups)"
    by (simp add: DisabledFactsWithGroups_def)
  show ?thesis
  proof
    assume "n \<in> fst ` set (DisabledFactsWithGroups entries groups)"
    then obtain b where b: "mget (DisabledFactsWithGroups entries groups) n = Some b"
      by (metis map_of_eq_None_iff option.exhaust)
    with t have "b" unfolding list_all_iff by (metis map_of_SomeD snd_conv)
    with b show "is_set (DisabledFactsWithGroups entries groups) n" by (simp add: is_set_def)
  next
    assume "is_set (DisabledFactsWithGroups entries groups) n"
    then show "n \<in> fst ` set (DisabledFactsWithGroups entries groups)"
      by (force simp: is_set_def dest: map_of_SomeD)
  qed
qed

lemma covers_refl [simp]: "factHierarchyCovers n n"
  by (simp add: factHierarchyCovers_def)

lemma unionDisabledFacts_ambient:
  "mget (snd (unionDisabledFacts cfg host config includeEnv)) n =
     (if \<exists>e. is_set (DisabledFactsWithGroups (ec_ExtraDisabled cfg) (cfg_FactGroups config)) e \<and>
             factHierarchyCovers e n then None
      else if includeEnv \<and> is_set (DisabledFactsWithGroups
                (environmentDisabledFacts (ph_environ host)) (cfg_FactGroups config)) n
      then Some disabledSourceEnv
      else if is_set (DisabledFactsWithGroups (cfg_Disabled config) (cfg_FactGroups config)) n
      then Some disabledSourceConfig else None)"
  by (auto simp: unionDisabledFacts_def Let_def dropCovered_all_get mark_get disabled_keys
      simp flip: disabled_keys)

section \<open>Properties\<close>

text \<open>The hermetic default: without system defaults, CLI mode, configuration or cache, the
  plan does not depend on the process at all - not on its environment, its configuration
  files or its default directories - and reads no configuration.\<close>

lemma planDiscovery_hermetic:
  assumes "\<not> ec_SystemDefaults cfg" and "\<not> ec_CLICompat cfg" and "\<not> ec_UseCache cfg"
    and "ec_ConfigFile cfg = []"
  shows "planDiscovery cfg host queries = planDiscovery cfg host' queries \<and>
     snd (planDiscovery cfg host queries) = [] \<and>
     \<not> pl_includeEnv (fst (planDiscovery cfg host queries))"
proof -
  have "defaultsForDiscovery cfg host = defaultsForDiscovery cfg host'"
    using assms by (simp add: defaultsForDiscovery_def)
  moreover have "configForDiscovery cfg h d = (if ec_ConfigLoaded cfg then ec_Config cfg else empty_config,
      ec_ConfigLoaded cfg, None)" for h d
    using assms by (simp add: configForDiscovery_def)
  moreover have "unionDisabledFacts cfg host c False = unionDisabledFacts cfg host' c False" for c
    by (simp add: unionDisabledFacts_def)
  ultimately show ?thesis using assms
    by (auto simp: planDiscovery_def planDiscoveryWithDefaults_def Let_def case_prod_beta
        split: option.split)
qed

lemma planDiscovery_hermetic_witness:
  "pl_disabledFacts (fst (planDiscovery
      \<lparr>ec_ConfigFile = [], ec_ExternalDirs = [], ec_UseCache = False, ec_SystemDefaults = False,
       ec_Facts = [], ec_Defaults = None, ec_CLICompat = False, ec_NoExternalFacts = False,
       ec_DisabledFacts = None, ec_ExtraDisabled = [], ec_ConfigLoaded = False,
       ec_Config = empty_config, ec_IncludeTypedDotted = False\<rparr>
      \<lparr>ph_environ = [''FACTS_DISABLE=os''], ph_parseConfig = (\<lambda>_ _. (empty_config, None)),
       ph_currentDefaults = no_defaults\<rparr> [])) = []"
proof -
  let ?cfg = "\<lparr>ec_ConfigFile = [], ec_ExternalDirs = [], ec_UseCache = False, ec_SystemDefaults = False,
       ec_Facts = [], ec_Defaults = None, ec_CLICompat = False, ec_NoExternalFacts = False,
       ec_DisabledFacts = None, ec_ExtraDisabled = [], ec_ConfigLoaded = False,
       ec_Config = empty_config, ec_IncludeTypedDotted = False\<rparr>"
  let ?h = "\<lambda>env. \<lparr>ph_environ = env, ph_parseConfig = (\<lambda>_ _. (empty_config, None)),
       ph_currentDefaults = no_defaults\<rparr>"
  have "planDiscovery ?cfg (?h [''FACTS_DISABLE=os'']) [] = planDiscovery ?cfg (?h []) []"
    using planDiscovery_hermetic [of ?cfg "?h [''FACTS_DISABLE=os'']" "[]" "?h []"] by simp
  moreover have "pl_disabledFacts (fst (planDiscovery ?cfg (?h []) [])) = []" by code_simp
  ultimately show ?thesis by simp
qed

text \<open>A query is reported as disabled by the environment or by the configuration exactly for
  names those sources disable and the command line does not: a name that a \<open>--disable\<close>
  entry names or covers is never reported, and the environment is named before the
  configuration when both disable it.\<close>

lemma planDiscovery_ambient:
  assumes "ec_DisabledFacts cfg = None" and "ec_ConfigLoaded cfg"
    and "ec_SystemDefaults cfg \<or> ec_CLICompat cfg"
  shows "mget (pl_ambientDisabled (fst (planDiscovery cfg host queries))) n =
     (if \<exists>e. is_set (DisabledFactsWithGroups (ec_ExtraDisabled cfg)
                (cfg_FactGroups (ec_Config cfg))) e \<and> factHierarchyCovers e n then None
      else if is_set (DisabledFactsWithGroups (environmentDisabledFacts (ph_environ host))
                (cfg_FactGroups (ec_Config cfg))) n then Some disabledSourceEnv
      else if is_set (DisabledFactsWithGroups (cfg_Disabled (ec_Config cfg))
                (cfg_FactGroups (ec_Config cfg))) n then Some disabledSourceConfig else None)"
proof -
  have "pl_ambientDisabled (fst (planDiscovery cfg host queries)) =
      snd (unionDisabledFacts cfg host (ec_Config cfg) True)"
    using assms by (auto simp: planDiscovery_def planDiscoveryWithDefaults_def configForDiscovery_def
        Let_def case_prod_beta)
  then show ?thesis by (simp only: unionDisabledFacts_ambient simp_thms)
qed

lemma planDiscovery_ambient_witness:
  "mget (pl_ambientDisabled (fst (planDiscovery
      \<lparr>ec_ConfigFile = [], ec_ExternalDirs = [], ec_UseCache = False, ec_SystemDefaults = True,
       ec_Facts = [], ec_Defaults = None, ec_CLICompat = True, ec_NoExternalFacts = False,
       ec_DisabledFacts = None, ec_ExtraDisabled = [''networking''], ec_ConfigLoaded = True,
       ec_Config = empty_config, ec_IncludeTypedDotted = False\<rparr>
      \<lparr>ph_environ = [''FACTS_DISABLE=os,networking.ip''], ph_parseConfig = (\<lambda>_ _. (empty_config, None)),
       ph_currentDefaults = no_defaults\<rparr> []))) ''networking.ip'' = None"
proof -
  let ?cfg = "\<lparr>ec_ConfigFile = [], ec_ExternalDirs = [], ec_UseCache = False, ec_SystemDefaults = True,
       ec_Facts = [], ec_Defaults = None, ec_CLICompat = True, ec_NoExternalFacts = False,
       ec_DisabledFacts = None, ec_ExtraDisabled = [''networking''], ec_ConfigLoaded = True,
       ec_Config = empty_config, ec_IncludeTypedDotted = False\<rparr>"
  have "is_set (DisabledFactsWithGroups [''networking''] []) ''networking'' \<and>
      factHierarchyCovers ''networking'' ''networking.ip''" by code_simp
  then show ?thesis
    by (subst planDiscovery_ambient) (auto simp: empty_config_def)
qed

end
