(* ===== verification/Config_File.thy ===== *)
theory Config_File
  imports Go_Regexp Discovery_Plan
begin

text \<open>
  \<open>internal/engine/config.go\<close>: the reader of the configuration file. It has no grammar: comments are
  stripped, the sections \<open>cli\<close>, \<open>facts\<close> and \<open>fact-groups\<close> are cut out by counting braces, and each
  setting is found by a regular expression. The scanners of the code walk an index over the
  text; here they walk the character before the index and the text from it on.
\<close>

section \<open>Comments and sections\<close>

definition invalidConfigContent :: "string \<Rightarrow> bool" where
  "invalidConfigContent content \<longleftrightarrow>
     (let trimmed = trim_space content in trimmed \<noteq> [] \<and> \<not> contains_any trimmed '':='')"

text \<open>From the start of a comment to the end of its line, which stays.\<close>

definition skipConfigComment :: "string \<Rightarrow> string" where
  "skipConfigComment s = dropWhile (\<lambda>c. c \<noteq> NL) s"

lemma skipConfigComment_length: "skipConfigComment s = n # rest \<Longrightarrow> length rest < length s"
  using length_dropWhile_le [of "\<lambda>c. c \<noteq> NL" s] by (simp add: skipConfigComment_def)

function stripConfigFrom :: "char option \<Rightarrow> bool \<Rightarrow> string \<Rightarrow> string" where
  "stripConfigFrom quoted escaped [] = []"
| "stripConfigFrom (Some q) escaped (c # cs) =
     c # (if escaped then stripConfigFrom (Some q) False cs
          else if c = BSLASH then stripConfigFrom (Some q) True cs
          else if c = q then stripConfigFrom None False cs
          else stripConfigFrom (Some q) False cs)"
| "stripConfigFrom None escaped (c # cs) =
     (if c = SQUOTE \<or> c = DQUOTE then c # stripConfigFrom (Some c) False cs
      else if c = CHR ''#'' \<or> (c = SLASH \<and> cs \<noteq> [] \<and> hd cs = SLASH) then
        (case skipConfigComment cs of [] \<Rightarrow> [] | n # rest \<Rightarrow> n # stripConfigFrom None escaped rest)
      else c # stripConfigFrom None escaped cs)"
  by pat_completeness auto
termination
  by (relation "measure (\<lambda>(q, e, s). length s)") (auto dest: skipConfigComment_length)

definition stripConfigLineComments :: "string \<Rightarrow> string" where
  "stripConfigLineComments content = stripConfigFrom None False content"

text \<open>Past a string literal after its opening quote; a backslash skips two characters.\<close>

fun skipString :: "char option \<Rightarrow> string \<Rightarrow> char option \<times> string" where
  "skipString prev [] = (prev, [])"
| "skipString prev [c] = (Some c, [])"
| "skipString prev (c # d # cs) =
     (if c = BSLASH then skipString (Some d) cs
      else if c = DQUOTE then (Some c, d # cs)
      else skipString (Some c) (d # cs))"

fun skipLine :: "char option \<Rightarrow> string \<Rightarrow> char option \<times> string" where
  "skipLine prev [] = (prev, [])"
| "skipLine prev (c # cs) = (if c = NL then (prev, c # cs) else skipLine (Some c) cs)"

lemma skipString_length: "length (snd (skipString prev s)) \<le> length s"
  by (induction prev s rule: skipString.induct) auto

lemma skipLine_length: "length (snd (skipLine prev s)) \<le> length s"
  by (induction prev s rule: skipLine.induct) auto

function skipConfigSpaceCommentsAndStrings :: "char option \<times> string \<Rightarrow> char option \<times> string" where
  "skipConfigSpaceCommentsAndStrings (prev, []) = (prev, [])"
| "skipConfigSpaceCommentsAndStrings (prev, c # cs) =
     (if code_of c \<in> set [32, 9, 13, 10] \<or> c = CHR '','' then skipConfigSpaceCommentsAndStrings (Some c, cs)
      else if c = CHR ''#'' then skipConfigSpaceCommentsAndStrings (skipLine (Some c) cs)
      else if c = DQUOTE then skipConfigSpaceCommentsAndStrings (skipString (Some c) cs)
      else (prev, c # cs))"
  by pat_completeness auto
termination
proof (relation "measure (\<lambda>(p, s). length s)", goal_cases)
  case (3 prev c cs)
  show ?case using skipLine_length [of "Some c" cs] by (simp add: case_prod_beta less_Suc_eq_le)
next
  case (4 prev c cs)
  show ?case using skipString_length [of "Some c" cs] by (simp add: case_prod_beta less_Suc_eq_le)
qed auto

definition name_char :: "char \<Rightarrow> bool" where
  "name_char c \<longleftrightarrow> c = CHR ''_'' \<or> c = CHR ''-'' \<or> c = DOT \<or> is_digit c \<or> is_upper c \<or> is_lower c"

definition configNameAt :: "char option \<Rightarrow> string \<Rightarrow> string \<Rightarrow> bool" where
  "configNameAt prev s name \<longleftrightarrow>
     \<not> (case prev of None \<Rightarrow> False | Some p \<Rightarrow> name_char p) \<and>
     length name \<le> length s \<and> equal_fold (take (length name) s) name \<and>
     \<not> (case drop (length name) s of [] \<Rightarrow> False | b # _ \<Rightarrow> name_char b)"

text \<open>The text behind a name: the opening brace of its section, if a colon or an equals sign and a
  brace follow.\<close>

definition sectionBrace :: "string \<Rightarrow> char option \<Rightarrow> string \<Rightarrow> string option" where
  "sectionBrace name prev s =
     (if \<not> configNameAt prev s name then None
      else case skipConfigSpaceCommentsAndStrings (Some (last name), drop (length name) s) of
             (_, []) \<Rightarrow> None
           | (_, c # cs) \<Rightarrow>
               (if c \<noteq> CHR '':'' \<and> c \<noteq> CHR ''='' then None
                else case skipConfigSpaceCommentsAndStrings (Some c, cs) of
                       (_, []) \<Rightarrow> None
                     | (_, d # ds) \<Rightarrow> if d = CHR 0x7B then Some (d # ds) else None))"

lemma skip_length: "length (snd (skipConfigSpaceCommentsAndStrings ps)) \<le> length (snd ps)"
proof (induction ps rule: skipConfigSpaceCommentsAndStrings.induct)
  case (2 prev c cs)
  then show ?case using skipLine_length [of "Some c" cs] skipString_length [of "Some c" cs] by auto
qed simp

lemma skip_rest:
  "skipConfigSpaceCommentsAndStrings (prev, s) = (p, c # cs) \<Longrightarrow> length cs < length s"
  using skip_length [of "(prev, s)"] by simp

function configSectionOpenBrace :: "string \<Rightarrow> nat \<Rightarrow> char option \<Rightarrow> string \<Rightarrow> string option" where
  "configSectionOpenBrace name depth prev s =
     (case skipConfigSpaceCommentsAndStrings (prev, s) of
        (_, []) \<Rightarrow> None
      | (p, c # cs) \<Rightarrow>
          (if c = CHR 0x7B then configSectionOpenBrace name (depth + 1) (Some c) cs
           else if c = CHR 0x7D then configSectionOpenBrace name (depth - 1) (Some c) cs
           else if depth \<noteq> 0 then configSectionOpenBrace name depth (Some c) cs
           else case sectionBrace name p (c # cs) of
                  Some brace \<Rightarrow> Some brace
                | None \<Rightarrow> configSectionOpenBrace name depth (Some c) cs))"
  by pat_completeness auto
termination
  by (relation "measure (\<lambda>(name, depth, prev, s). length s)") (auto dest: skip_rest [OF sym] skip_rest)

declare configSectionOpenBrace.simps [simp del]

text \<open>The body of a section, from its opening brace: to the matching brace, or to the end.\<close>

fun sectionBody :: "nat \<Rightarrow> string \<Rightarrow> string" where
  "sectionBody depth [] = []"
| "sectionBody depth (c # cs) =
     (if c = CHR 0x7B then c # sectionBody (depth + 1) cs
      else if c = CHR 0x7D then (if depth = 1 then [] else c # sectionBody (depth - 1) cs)
      else c # sectionBody depth cs)"

definition configSection :: "string \<Rightarrow> string \<Rightarrow> string" where
  "configSection content name =
     (case configSectionOpenBrace name 0 None content of None \<Rightarrow> [] | Some s \<Rightarrow> sectionBody 1 (drop 1 s))"

section \<open>Patterns\<close>

definition keyBoundary :: rx where
  "keyBoundary = Or TextStart (one_of [CHR 0x09, CHR 0x0A, CHR 0x0C, CHR 0x0D, CHR 0x20, CHR 0x7B, CHR 0x2C])"

definition assign :: "rx list" where
  "assign = [Many rx_space, one_of '':='', Many rx_space]"

definition bracketed :: "nat \<Rightarrow> rx list" where
  "bracketed n = [chr (CHR ''[''), Grp n (Few rx_any_nl), chr (CHR '']'')]"

definition quotedBy :: "char \<Rightarrow> rx \<Rightarrow> rx" where
  "quotedBy q r = cats [chr q, r, chr q]"

definition nameChars :: "string \<Rightarrow> rx" where
  "nameChars extra = many1 (Chars (\<lambda>c. is_alnum c \<or> c \<in> set extra))"

definition blocklistPattern :: rx where
  "blocklistPattern = cats (lit_i ''blocklist'' # assign @ bracketed 1)"

definition disablePattern :: rx where
  "disablePattern = cats (keyBoundary # lit_i ''disable'' # assign @ bracketed 1)"

definition externalDirPattern :: rx where
  "externalDirPattern = cats (keyBoundary # lit_i ''external-dir'' # assign @
     [Grp 1 (Or (cats (bracketed 2)) (Or (quotedBy DQUOTE (Grp 3 (Many (none_of [DQUOTE]))))
       (Or (quotedBy SQUOTE (Grp 4 (Many (none_of [SQUOTE]))))
           (Grp 5 (many1 (none_of [CHR 0x2C, CHR 0x0A, CHR 0x0D, CHR 0x7D]))))))])"

definition boolPattern :: "string \<Rightarrow> rx" where
  "boolPattern key = cats (keyBoundary # lit_i key # assign @ [Grp 1 (Or (lit_i ''true'') (lit_i ''false''))])"

definition logLevelPattern :: rx where
  "logLevelPattern = cats (keyBoundary # lit_i ''log-level'' # assign @
     [Or (quotedBy DQUOTE (Grp 1 (Many (none_of [DQUOTE]))))
       (Or (quotedBy SQUOTE (Grp 2 (Many (none_of [SQUOTE]))))
           (Grp 3 (many1 (Chars (\<lambda>c. is_lower c \<or> is_upper c \<or> c = CHR ''_'')))))])"

definition ttlsPattern :: rx where
  "ttlsPattern = cats (keyBoundary # lit_i ''ttls'' # assign @ bracketed 1)"

definition quotedName :: "nat \<Rightarrow> string \<Rightarrow> rx" where
  "quotedName n extra =
     Or (quotedBy DQUOTE (Grp n (many1 (none_of [DQUOTE]))))
       (Or (quotedBy SQUOTE (Grp (n + 1) (many1 (none_of [SQUOTE])))) (Grp (n + 2) (nameChars extra)))"

definition ttlEntryPattern :: rx where
  "ttlEntryPattern = cats (chr (CHR 0x7B) # Many rx_space # quotedName 1 ''_.-'' # assign @
     [Or (quotedBy DQUOTE (Grp 4 (Many (none_of [DQUOTE]))))
       (Or (quotedBy SQUOTE (Grp 5 (Many (none_of [SQUOTE]))))
           (Grp 6 (few1 (none_of [CHR 0x7D])))),
     Many rx_space, chr (CHR 0x7D)])"

definition factGroupPattern :: rx where
  "factGroupPattern = cats (keyBoundary # quotedName 1 ''_-'' # assign @
     [Grp 4 (Or (cats (bracketed 5)) (Or (quotedBy DQUOTE (Grp 6 (Many (none_of [DQUOTE]))))
       (Or (quotedBy SQUOTE (Grp 7 (Many (none_of [SQUOTE])))) (Grp 8 (nameChars ''_.-'')))))])"

definition configArrayValuePattern :: rx where
  "configArrayValuePattern =
     Or (quotedBy DQUOTE (Grp 1 (Many (none_of [DQUOTE]))))
       (Or (quotedBy SQUOTE (Grp 2 (Many (none_of [SQUOTE]))))
           (Grp 3 (many1 (Chars (\<lambda>c. c \<noteq> CHR 0x2C \<and> c \<noteq> CHR '']'' \<and> code_of c \<notin> set [9, 10, 12, 13, 32])))))"

section \<open>Settings\<close>

fun firstConfigValue :: "string list \<Rightarrow> string" where
  "firstConfigValue [] = []"
| "firstConfigValue (v # vs) = (if v \<noteq> [] then v else firstConfigValue vs)"

definition quotedConfigValues :: "string \<Rightarrow> string list" where
  "quotedConfigValues content =
     map (\<lambda>m. firstConfigValue [grp m 1, grp m 2, grp m 3]) (FindAllSubmatch configArrayValuePattern content)"

text \<open>\<open>None\<close> is the nil of a setting that does not occur. The value is the second group of the
  pattern if it has one and it took part, else the first.\<close>

definition configList :: "string \<Rightarrow> rx \<Rightarrow> string list option" where
  "configList content pattern =
     (case FindAllSubmatch pattern content of [] \<Rightarrow> None
      | ms \<Rightarrow> Some (concat (map (\<lambda>m. quotedConfigValues (if grp m 2 \<noteq> [] then grp m 2 else grp m 1)) ms)))"

definition lowerConfigValues :: "string list option \<Rightarrow> string list option" where
  "lowerConfigValues values = map_option (map to_lower) values"

definition configTTLs :: "string \<Rightarrow> FactTTL list" where
  "configTTLs content =
     concat (map (\<lambda>m. map (\<lambda>e. \<lparr>ttl_Fact = firstConfigValue [grp e 1, grp e 2, grp e 3],
                               ttl_TTL = trim_space (firstConfigValue [grp e 4, grp e 5, grp e 6])\<rparr>)
         (FindAllSubmatch ttlEntryPattern (grp m 1)))
       (FindAllSubmatch ttlsPattern (configSection content ''facts'')))"

definition configFactGroups :: "string \<Rightarrow> FactGroup list" where
  "configFactGroups content =
     map (\<lambda>m. let facts = quotedConfigValues (grp m 5)
              in \<lparr>fg_Name = firstConfigValue [grp m 1, grp m 2, grp m 3],
                  fg_Facts = (if facts = [] then [firstConfigValue [grp m 6, grp m 7, grp m 8]] else facts)\<rparr>)
       (FindAllSubmatch factGroupPattern (configSection content ''fact-groups''))"

definition configBool :: "string \<Rightarrow> rx \<Rightarrow> bool" where
  "configBool content pattern = list_ex (\<lambda>m. equal_fold (grp m 1) ''true'') (FindAllSubmatch pattern content)"

definition configBoolValue :: "string \<Rightarrow> rx \<Rightarrow> bool \<times> bool" where
  "configBoolValue content pattern =
     (let ms = FindAllSubmatch pattern content
      in if ms = [] then (False, False) else (equal_fold (grp (last ms) 1) ''true'', True))"

definition configString :: "string \<Rightarrow> rx \<Rightarrow> string" where
  "configString content pattern =
     (case find (\<lambda>v. v \<noteq> []) (map (\<lambda>m. firstConfigValue [grp m 1, grp m 2, grp m 3]) (FindAllSubmatch pattern content)) of
        None \<Rightarrow> [] | Some v \<Rightarrow> v)"

section \<open>The file\<close>

record configHost =
  cg_exists :: "string \<Rightarrow> bool"
  cg_readFile :: "string \<Rightarrow> string + string"

definition readableDefaultConfigPath :: "configHost \<Rightarrow> DiscoveryDefaults \<Rightarrow> string" where
  "readableDefaultConfigPath h defaults =
     (case find (\<lambda>path. path \<noteq> [] \<and> cg_exists h path) [dd_NativeConfigPath defaults, dd_CompatibleConfigPath defaults] of
        None \<Rightarrow> [] | Some path \<Rightarrow> path)"

definition platformNativeDefaultConfigPathFor :: "string \<Rightarrow> string" where
  "platformNativeDefaultConfigPathFor goos =
     (if goos = ''windows'' then ''C:/ProgramData/facts/facts.conf'' else ''/etc/facts/facts.conf'')"

definition platformDefaultConfigPathFor :: "string \<Rightarrow> string" where
  "platformDefaultConfigPathFor goos =
     (if goos = ''windows'' then ''C:/ProgramData/PuppetLabs/facter/etc/facter.conf''
      else ''/etc/puppetlabs/facter/facter.conf'')"

text \<open>The settings of a text whose comments are gone.\<close>

definition configOf :: "string \<Rightarrow> Config" where
  "configOf content =
     (let cliSection = configSection content ''cli'';
          (sequential, sequentialSet) = configBoolValue content (boolPattern ''sequential'');
          blocklist = lowerConfigValues (configList content blocklistPattern);
          disabled = (case lowerConfigValues (configList content disablePattern) of
                        Some d \<Rightarrow> d | None \<Rightarrow> (case blocklist of Some b \<Rightarrow> b | None \<Rightarrow> []))
      in \<lparr>cfg_Disabled = disabled,
          cfg_ExternalDirs = (case configList content externalDirPattern of Some ds \<Rightarrow> ds | None \<Rightarrow> []),
          cfg_Debug = configBool cliSection (boolPattern ''debug''),
          cfg_Verbose = configBool cliSection (boolPattern ''verbose''),
          cfg_LogLevel = configString cliSection logLevelPattern,
          cfg_NoExternalFacts = configBool content (boolPattern ''no-external-facts''),
          cfg_ForceDotResolution = configBool content (boolPattern ''force-dot-resolution''),
          cfg_Sequential = sequential,
          cfg_SequentialSet = sequentialSet,
          cfg_TTLs = configTTLs content,
          cfg_FactGroups = configFactGroups content\<rparr>)"

definition unreadable :: "string \<Rightarrow> string \<Rightarrow> log" where
  "unreadable path reason = [(LevelWarn, ''Facts failed to read config file '' @ path @ '': '' @ reason)]"

definition readConfigOptionsFile :: "configHost \<Rightarrow> string \<Rightarrow> DiscoveryDefaults \<Rightarrow> Config \<times> log" where
  "readConfigOptionsFile h path0 defaults =
     (let path = (if path0 = [] then readableDefaultConfigPath h defaults else path0)
      in if path = [] then (empty_config, [])
         else case cg_readFile h path of
                Inl reason \<Rightarrow> (empty_config, unreadable path reason)
              | Inr text \<Rightarrow>
                  (let content = stripConfigLineComments text
                   in if invalidConfigContent content then (empty_config, unreadable path ''invalid config'')
                      else (configOf content, [])))"

text \<open>The code also returns an error, which is always nil.\<close>

definition ParseConfig :: "configHost \<Rightarrow> string \<Rightarrow> DiscoveryDefaults \<Rightarrow> Config \<times> log" where
  "ParseConfig h path defaults = readConfigOptionsFile h path defaults"

section \<open>A list of names, written and read\<close>

definition listValue :: "string \<Rightarrow> bool" where
  "listValue n \<longleftrightarrow> n \<noteq> [] \<and> list_all (\<lambda>c. c \<noteq> DQUOTE \<and> c \<noteq> CHR '']'' \<and> c \<noteq> BSLASH) n"

definition quotedList :: "string list \<Rightarrow> string" where
  "quotedList ns = join '', '' (map (\<lambda>n. DQUOTE # n @ [DQUOTE]) ns)"

lemma bracketed_list:
  assumes "CHR '']'' \<notin> set w"
  shows "\<exists>more. matches (cats (bracketed n @ rs)) \<lparr>ms_prev = p, ms_rest = CHR ''['' # w @ CHR '']'' # rest, ms_caps = cs\<rparr> =
     matches (cats rs) \<lparr>ms_prev = Some (CHR '']''), ms_rest = rest, ms_caps = (n, w) # cs\<rparr> @ more"
proof -
  let ?st = "\<lparr>ms_prev = Some (CHR ''[''), ms_rest = w @ CHR '']'' # rest, ms_caps = cs\<rparr>"
  have "\<exists>more. matches (Cat (Grp n (Few (Chars (\<lambda>c. True)))) (Cat (chr (CHR '']'')) (cats rs))) ?st =
     matches (Cat (chr (CHR '']'')) (cats rs)) (capture n w (skip_to w (CHR '']'' # rest) ?st)) @ more"
    by (rule few_group [where q = "\<lambda>c. c \<noteq> CHR '']''"]) (use assms in \<open>auto simp: list_all_iff\<close>)
  then show ?thesis
    by (simp add: bracketed_def rx_any_nl_def rx_step step_char_def capture_def skip_to_def del: matches.simps)
qed

lemma assign_list:
  "matches (cats (assign @ bracketed n)) \<lparr>ms_prev = p, ms_rest = '': ['' @ s, ms_caps = cs\<rparr> =
   matches (cats (bracketed n)) \<lparr>ms_prev = Some (CHR '' ''), ms_rest = CHR ''['' # s, ms_caps = cs\<rparr>"
proof -
  let ?st = "\<lambda>s p. \<lparr>ms_prev = p, ms_rest = s, ms_caps = cs\<rparr>"
  have "matches (Cat (Many rx_space) (cats (bracketed n))) (?st ('' ['' @ s) (Some (CHR '':''))) =
      matches (cats (bracketed n)) (?st (CHR ''['' # s) (Some (CHR '' '')))"
    unfolding rx_space_def
    by (subst many_class [where w = "'' ''" and rest = "CHR ''['' # s"])
      (auto simp: bracketed_def rx_step skip_to_def simp del: matches.simps)
  moreover have "matches (Cat (Many rx_space) (Cat (one_of '':='') (Cat (Many rx_space) (cats (bracketed n)))))
      (?st ('': ['' @ s) p) = matches (Cat (Many rx_space) (cats (bracketed n))) (?st ('' ['' @ s) (Some (CHR '':'')))"
    unfolding rx_space_def
    by (subst many_class [where w = "[]" and rest = "'': ['' @ s"])
      (auto simp: one_of_def rx_step skip_to_def step_char_def simp del: matches.simps)
  ultimately show ?thesis by (simp add: assign_def rx_step del: matches.simps)
qed

lemma match_disable:
  assumes "CHR '']'' \<notin> set w"
  shows "\<exists>more. matches disablePattern \<lparr>ms_prev = None, ms_rest = ''disable: ['' @ w @ '']'' @ rest, ms_caps = []\<rparr> =
     \<lparr>ms_prev = Some (CHR '']''), ms_rest = rest, ms_caps = [(1, w)]\<rparr> # more"
proof -
  let ?st = "\<lambda>s p. \<lparr>ms_prev = p, ms_rest = s, ms_caps = []\<rparr>"
  have "matches (Cat (lit_i ''disable'') (cats (assign @ bracketed 1))) (?st (''disable: ['' @ w @ '']'' @ rest) None) =
      matches (cats (assign @ bracketed 1)) (?st ('': ['' @ w @ '']'' @ rest) (Some (CHR ''e'')))"
    by (subst lit_i_step [where u = "''disable''" and rest = "'': ['' @ w @ '']'' @ rest"])
      (simp_all add: skip_to_def del: matches.simps)
  also have "\<dots> = matches (cats (bracketed 1)) (?st (CHR ''['' # w @ '']'' @ rest) (Some (CHR '' '')))"
    by (rule assign_list)
  finally have "matches (cats (keyBoundary # lit_i ''disable'' # assign @ bracketed 1))
       (?st (''disable: ['' @ w @ '']'' @ rest) None) =
     matches (cats (bracketed 1)) (?st (CHR ''['' # w @ '']'' @ rest) (Some (CHR '' '')))
       @ matches (Cat (one_of [CHR 0x09, CHR 0x0A, CHR 0x0C, CHR 0x0D, CHR 0x20, CHR 0x7B, CHR 0x2C])
           (Cat (lit_i ''disable'') (cats (assign @ bracketed 1)))) (?st (''disable: ['' @ w @ '']'' @ rest) None)"
    by (simp add: keyBoundary_def rx_step del: matches.simps(3)) simp
  with bracketed_list [OF assms, of 1 "[]" "Some (CHR '' '')" rest "[]"] show ?thesis
    by (auto simp: disablePattern_def cats_simps)
qed


lemma match_quoted:
  assumes "DQUOTE \<notin> set w"
  shows "\<exists>more. matches configArrayValuePattern \<lparr>ms_prev = p, ms_rest = DQUOTE # w @ DQUOTE # rest, ms_caps = []\<rparr> =
     \<lparr>ms_prev = Some DQUOTE, ms_rest = rest, ms_caps = [(1, w)]\<rparr> # more"
proof -
  let ?st = "\<lparr>ms_prev = Some DQUOTE, ms_rest = w @ DQUOTE # rest, ms_caps = []\<rparr>"
  have "matches (Cat (Grp 1 (Many (none_of [DQUOTE]))) (Cat (chr DQUOTE) Eps)) ?st =
     matches (Cat (chr DQUOTE) Eps) (capture 1 w (skip_to w (DQUOTE # rest) ?st))"
    unfolding none_of_def
    by (rule many_group) (use assms in \<open>auto simp: list_all_iff rx_step simp del: matches.simps\<close>)
  then have "matches (quotedBy DQUOTE (Grp 1 (Many (none_of [DQUOTE]))))
       \<lparr>ms_prev = p, ms_rest = DQUOTE # w @ DQUOTE # rest, ms_caps = []\<rparr> =
     [\<lparr>ms_prev = Some DQUOTE, ms_rest = rest, ms_caps = [(1, w)]\<rparr>]"
    by (simp add: quotedBy_def rx_step step_char_def capture_def skip_to_def del: matches.simps(3,7))
  then show ?thesis by (simp add: configArrayValuePattern_def del: matches.simps(3,7))
qed

lemma match_separator:
  "c \<in> set '', '' \<Longrightarrow> match_here configArrayValuePattern p (c # s) = None"
  by (auto simp: match_here_def configArrayValuePattern_def quotedBy_def cats_simps many1_def)

lemma find_all_skip:
  assumes "match_here r p (c # s) = None"
  shows "map (\<lambda>m. (grp m 1, grp m 2, grp m 3)) (find_all k r p (c # s)) =
     map (\<lambda>m. (grp m 1, grp m 2, grp m 3)) (find_all k r (Some c) s)"
  by (cases k) (auto simp: assms grp_def split: option.splits)

lemma find_all_quoted:
  "list_all (\<lambda>n. DQUOTE \<notin> set n) ns \<Longrightarrow> length (quotedList ns) < fuel \<Longrightarrow>
     map (\<lambda>m. (grp m 1, grp m 2, grp m 3)) (find_all fuel configArrayValuePattern p (quotedList ns)) =
     map (\<lambda>n. (n, [], [])) ns"
proof (induction ns arbitrary: fuel p)
  case Nil
  then show ?case
    by (cases fuel) (auto simp: quotedList_def match_here_def configArrayValuePattern_def quotedBy_def cats_simps many1_def)
next
  case (Cons n ns)
  then obtain k where k: "fuel = Suc k" by (cases fuel) auto
  let ?rest = "if ns = [] then [] else '', '' @ quotedList ns"
  have q: "quotedList (n # ns) = DQUOTE # n @ DQUOTE # ?rest"
    by (simp add: quotedList_def join_Cons)
  obtain more where "matches configArrayValuePattern \<lparr>ms_prev = p, ms_rest = DQUOTE # n @ DQUOTE # ?rest, ms_caps = []\<rparr> =
     \<lparr>ms_prev = Some DQUOTE, ms_rest = ?rest, ms_caps = [(1, n)]\<rparr> # more"
    using match_quoted [of n p ?rest] Cons.prems by auto
  then have m: "search configArrayValuePattern p (quotedList (n # ns)) =
     Some \<lparr>rm_before = [], rm_text = DQUOTE # n @ [DQUOTE], rm_caps = [(1, n)], rm_prev = Some DQUOTE, rm_after = ?rest\<rparr>"
    by (simp add: q match_here_def)
  have "map (\<lambda>m. (grp m 1, grp m 2, grp m 3)) (find_all k configArrayValuePattern (Some DQUOTE) ?rest) =
     map (\<lambda>n. (n, [], [])) ns"
  proof (cases "ns = []")
    case True
    with Cons.IH [of k "Some DQUOTE"] Cons.prems show ?thesis by (simp add: k quotedList_def)
  next
    case False
    with Cons.IH [of k "Some (CHR '' '')"] Cons.prems show ?thesis
      by (simp add: k q find_all_skip [unfolded One_nat_def] match_separator)
  qed
  then show ?case by (simp add: k m grp_def)
qed


lemma strip_quoted:
  "DQUOTE \<notin> set n \<Longrightarrow> BSLASH \<notin> set n \<Longrightarrow>
     stripConfigFrom (Some DQUOTE) False (n @ DQUOTE # s) = n @ DQUOTE # stripConfigFrom None False s"
  by (induction n) auto

lemma strip_list:
  "list_all (\<lambda>n. DQUOTE \<notin> set n \<and> BSLASH \<notin> set n) ns \<Longrightarrow>
     stripConfigFrom None False (quotedList ns @ s) = quotedList ns @ stripConfigFrom None False s"
proof (induction ns)
  case (Cons n ns)
  then show ?case by (cases ns) (simp_all add: quotedList_def strip_quoted)
qed (simp add: quotedList_def)

lemma trim_space_keeps: "c \<in> set s \<Longrightarrow> \<not> is_space c \<Longrightarrow> c \<in> set (trim_space s)"
proof -
  have d: "c \<in> set (dropWhile is_space t)" if "c \<in> set t" "\<not> is_space c" for t
    using that by (induction t) auto
  assume "c \<in> set s" "\<not> is_space c"
  then show ?thesis unfolding trim_space_def by (simp add: d)
qed

lemma quotedConfigValues_list:
  assumes "list_all (\<lambda>n. n \<noteq> [] \<and> DQUOTE \<notin> set n) ns"
  shows "quotedConfigValues (quotedList ns) = ns"
proof -
  have "quotedConfigValues (quotedList ns) =
      map (\<lambda>(a, b, c). firstConfigValue [a, b, c])
        (map (\<lambda>m. (grp m 1, grp m 2, grp m 3)) (FindAllSubmatch configArrayValuePattern (quotedList ns)))"
    by (simp add: quotedConfigValues_def comp_def)
  also have "\<dots> = map (\<lambda>(a, b, c). firstConfigValue [a, b, c]) (map (\<lambda>n. (n, [], [])) ns)"
    using assms by (subst FindAllSubmatch_def, subst find_all_quoted) (auto simp: list_all_iff)
  also have "\<dots> = ns"
    using assms by (auto simp: list_all_iff intro!: map_idI)
  finally show ?thesis .
qed

lemma bracket_free: "list_all listValue ns \<Longrightarrow> CHR '']'' \<notin> set (quotedList ns)"
proof (induction ns)
  case (Cons n ns)
  then show ?case by (cases ns) (auto simp: quotedList_def listValue_def list_all_iff)
qed (simp add: quotedList_def)

definition disableText :: "string list \<Rightarrow> string" where
  "disableText ns = ''disable: ['' @ quotedList ns @ '']''"

lemma configList_disable:
  assumes "list_all listValue ns"
  shows "configList (disableText ns) disablePattern = Some ns"
proof -
  obtain more where "matches disablePattern \<lparr>ms_prev = None, ms_rest = disableText ns, ms_caps = []\<rparr> =
     \<lparr>ms_prev = Some (CHR '']''), ms_rest = [], ms_caps = [(1, quotedList ns)]\<rparr> # more"
    using match_disable [OF bracket_free [OF assms], of "[]"] by (auto simp: disableText_def)
  then have h: "match_here disablePattern None (disableText ns) = Some \<lparr>rm_before = [], rm_text = disableText ns,
     rm_caps = [(1, quotedList ns)], rm_prev = Some (CHR '']''), rm_after = []\<rparr>" (is "_ = Some ?m")
    by (simp add: match_here_def)
  have ne: "disableText ns \<noteq> []" by (simp add: disableText_def)
  then have "search disablePattern None (disableText ns) = Some ?m"
    using h by (cases "disableText ns") simp_all
  moreover have "find_all n disablePattern p [] = []" for n p
    by (cases n) (simp_all add: match_here_def disablePattern_def keyBoundary_def cats_simps one_of_def lit_i_def split: option.splits)
  ultimately have "FindAllSubmatch disablePattern (disableText ns) = [?m]"
    using ne by (simp add: FindAllSubmatch_def)
  moreover have "quotedConfigValues (quotedList ns) = ns"
    by (rule quotedConfigValues_list) (use assms in \<open>auto simp: list_all_iff listValue_def\<close>)
  ultimately show ?thesis by (simp add: configList_def grp_def)
qed

text \<open>C5: A \<open>disable\<close> list survives the configuration reader. For every list of names without quotes,
  closing brackets or backslashes - with any commas, blanks, hash signs, slashes or newlines
  in them - a file that holds the list written as quoted, comma-separated values is read
  without a diagnostic, and the disabled names are exactly the listed names in lower case, in order.\<close>

theorem ParseConfig_disable:
  assumes "list_all listValue ns" and "path \<noteq> []" and "cg_readFile h path = Inr (disableText ns)"
  shows "cfg_Disabled (fst (ParseConfig h path defaults)) = map to_lower ns \<and>
    snd (ParseConfig h path defaults) = []"
proof -
  have q: "list_all (\<lambda>n. DQUOTE \<notin> set n \<and> BSLASH \<notin> set n) ns"
    using assms(1) by (auto simp: list_all_iff listValue_def)
  have "stripConfigLineComments (disableText ns) = disableText ns"
    by (simp add: stripConfigLineComments_def disableText_def strip_list [OF q])
  moreover have "\<not> invalidConfigContent (disableText ns)"
  proof -
    have "CHR '':'' \<in> set (trim_space (disableText ns))"
      by (rule trim_space_keeps) (simp_all add: disableText_def is_space_def)
    then show ?thesis by (auto simp: invalidConfigContent_def Let_def contains_any_def list_ex_iff)
  qed
  ultimately show ?thesis
    using assms configList_disable [OF assms(1)]
    by (simp add: ParseConfig_def readConfigOptionsFile_def Let_def configOf_def lowerConfigValues_def case_prod_beta)
qed

theorem ParseConfig_disable_witness:
  "cfg_Disabled (fst (ParseConfig \<lparr>cg_exists = (\<lambda>p. True), cg_readFile = (\<lambda>p. Inr (disableText [''OS # x, y'', ''ec2'']))\<rparr>
     ''/etc/facts/facts.conf'' no_defaults)) = [''os # x, y'', ''ec2'']"
proof -
  have "cfg_Disabled (fst (ParseConfig \<lparr>cg_exists = (\<lambda>p. True), cg_readFile = (\<lambda>p. Inr (disableText [''OS # x, y'', ''ec2'']))\<rparr>
     ''/etc/facts/facts.conf'' no_defaults)) = map to_lower [''OS # x, y'', ''ec2'']"
    by (rule conjunct1 [OF ParseConfig_disable]) (simp_all add: listValue_def)
  also have "\<dots> = [''os # x, y'', ''ec2'']" by code_simp
  finally show ?thesis .
qed

lemma skipConfigComment_hd: "skipConfigComment s = n # rest \<Longrightarrow> n = NL"
  by (simp add: skipConfigComment_def dropWhile_eq_Cons_conv)

lemma skipConfigComment_NL: "filter (\<lambda>c. c = NL) (skipConfigComment s) = filter (\<lambda>c. c = NL) s"
  by (induction s) (auto simp: skipConfigComment_def)

lemma strip_slash: "stripConfigFrom None e cs = SLASH # r \<Longrightarrow> cs \<noteq> [] \<and> hd cs = SLASH"
  by (cases cs) (auto split: if_splits list.splits dest: skipConfigComment_hd)

lemma strip_again: "stripConfigFrom q e (stripConfigFrom q e s) = stripConfigFrom q e s"
proof (induction q e s rule: stripConfigFrom.induct)
  case (3 escaped c cs)
  show ?case
  proof (cases "c = CHR ''#'' \<or> (c = SLASH \<and> cs \<noteq> [] \<and> hd cs = SLASH)")
    case True
    then have "c \<noteq> SQUOTE \<and> c \<noteq> DQUOTE" by auto
    with True 3 show ?thesis by (auto split: list.splits dest: skipConfigComment_hd)
  next
    case False
    then have "\<not> (c = SLASH \<and> stripConfigFrom None escaped cs \<noteq> [] \<and> hd (stripConfigFrom None escaped cs) = SLASH)"
      using strip_slash [of escaped cs] by (cases "stripConfigFrom None escaped cs") auto
    with False 3 show ?thesis by auto
  qed
qed auto

lemma strip_NL: "filter (\<lambda>c. c = NL) (stripConfigFrom q e s) = filter (\<lambda>c. c = NL) s"
proof (induction q e s rule: stripConfigFrom.induct)
  case (3 escaped c cs)
  then show ?case using skipConfigComment_NL [of cs] by (auto split: list.splits)
qed auto

text \<open>Stripping comments is safe to repeat and keeps the lines: a second pass changes nothing, and
  every newline of the file survives, so a setting stays on its line.\<close>

lemma stripConfigLineComments_stable:
  "stripConfigLineComments (stripConfigLineComments s) = stripConfigLineComments s \<and>
   filter (\<lambda>c. c = NL) (stripConfigLineComments s) = filter (\<lambda>c. c = NL) s"
  by (simp add: stripConfigLineComments_def strip_again strip_NL)

end
