(* ===== verification/External_Facts.thy ===== *)
theory External_Facts
  imports Go_Library Discovery_Plan
begin

text \<open>
  \<open>internal/engine/external.go\<close>: loading external facts from directories (text, JSON, YAML and
  executable sources) and from the environment. The host interface of the loader is the
  record \<open>extHost\<close>; the decoders of \<open>yaml.v3\<close> and of \<open>encoding/json\<close>, and time formatting,
  are fields of it. Diagnostics are returned beside the results.
\<close>

section \<open>The host\<close>

record fileMode =
  fm_Regular :: bool
  fm_Exec :: bool

record dirEntry =
  de_Name :: string
  de_IsDir :: bool
  de_Info :: "goerror + fileMode"

text \<open>Output, error output, error, and whether the command's own time limit ended it.\<close>

record commandResult =
  cr_stdout :: string
  cr_stderr :: string
  cr_err :: "goerror option"
  cr_timeout :: bool

datatype decoded = Decoded gval | DecodeEOF | DecodeError string

text \<open>\<open>eh_json\<close> decodes one value with numbers kept as text; the flag tells that only white
  space follows it. \<open>eh_yamlMap\<close> decodes into a map with string keys.\<close>

record extHost =
  eh_readDir :: "string \<Rightarrow> goerror + dirEntry list"
  eh_open :: "string \<Rightarrow> goerror + (goerror + string)"
  eh_fileReadable :: "string \<Rightarrow> bool"
  eh_environ :: "string list"
  eh_goos :: string
  eh_runCommand :: "string \<Rightarrow> string list \<Rightarrow> commandResult"
  eh_resolutionRunning :: bool
  eh_ctxErr :: "goerror option"
  eh_json :: "string \<Rightarrow> (gval \<times> bool) option"
  eh_yaml :: "string \<Rightarrow> decoded"
  eh_yamlMap :: "string \<Rightarrow> string + gval gomap"
  eh_parseFloat :: "string \<Rightarrow> string option"
  eh_timeText :: "gtime \<Rightarrow> string"
  eh_yamlTime :: "string \<Rightarrow> string option"

record externalFactLoader =
  ld_mode :: externalFactLoaderMode
  ld_dirs :: "string list"
  ld_blocked :: "bool gomap"
  ld_includeEnv :: bool

abbreviation externalFactMaxBytes :: nat where "externalFactMaxBytes \<equiv> 1048576"

section \<open>Bounded reads and writes\<close>

definition readExternalFactData :: "goerror + string \<Rightarrow> goerror + string" where
  "readExternalFactData r =
     (case r of Inl e \<Rightarrow> Inl e
      | Inr content \<Rightarrow>
          (let data = take (externalFactMaxBytes + 1) content
           in if length data > externalFactMaxBytes then Inl ErrExternalFactTooLarge else Inr data))"

definition readExternalFactFile :: "extHost \<Rightarrow> string \<Rightarrow> goerror + string" where
  "readExternalFactFile h path =
     (case eh_open h path of
        Inl e \<Rightarrow> Inl (ErrJoin ErrExternalFactOpen e)
      | Inr r \<Rightarrow> (case readExternalFactData r of
            Inl e \<Rightarrow> Inl (ErrWrap (''read external fact '' @ path) e)
          | Inr data \<Rightarrow> Inr data))"

record limitedBuffer =
  lb_buf :: string
  lb_limit :: int
  lb_tooLarge :: bool
  lb_cancelled :: bool

definition markTooLarge :: "limitedBuffer \<Rightarrow> limitedBuffer" where
  "markTooLarge b = (if lb_tooLarge b then b else b\<lparr>lb_tooLarge := True, lb_cancelled := True\<rparr>)"

definition limitedWrite :: "limitedBuffer \<Rightarrow> string \<Rightarrow> (int \<times> goerror option) \<times> limitedBuffer" where
  "limitedWrite b p =
     (let remaining = lb_limit b - int (length (lb_buf b))
      in if lb_limit b \<le> 0 then ((0, Some ErrExternalFactTooLarge), markTooLarge b)
         else if remaining \<le> 0 then ((0, Some ErrExternalFactTooLarge), markTooLarge b)
         else if int (length p) \<le> remaining
         then ((int (length p), None), b\<lparr>lb_buf := lb_buf b @ p\<rparr>)
         else ((remaining, Some ErrExternalFactTooLarge),
               markTooLarge (b\<lparr>lb_buf := lb_buf b @ take (nat remaining) p\<rparr>)))"

section \<open>Structured values\<close>

text \<open>A number without fraction or exponent in the 64-bit range is an integer; another number is
  a float (\<open>eh_parseFloat\<close> gives its shortest text) or, out of the float range, its text.\<close>

fun normalizeStructuredValue :: "extHost \<Rightarrow> gval \<Rightarrow> goerror + gval"
and normalizeStructuredList :: "extHost \<Rightarrow> gval list \<Rightarrow> goerror + gval list"
and normalizeStructuredMap ::
  "extHost \<Rightarrow> (string \<times> gval) list \<Rightarrow> goerror + (string \<times> gval) list" where
  "normalizeStructuredValue h (GNumber t) =
     Inr (case parse_int t of
            Some i \<Rightarrow> (if i > 2147483647 \<or> i < - 2147483648 then GInt64 i else GInt i)
          | None \<Rightarrow> (case eh_parseFloat h t of Some f \<Rightarrow> GFloat f | None \<Rightarrow> GStr t))"
| "normalizeStructuredValue h (GStr s) =
     (case validateExternalString s of Some e \<Rightarrow> Inl e | None \<Rightarrow> Inr (GStr s))"
| "normalizeStructuredValue h (GList xs) =
     (case normalizeStructuredList h xs of Inl e \<Rightarrow> Inl e | Inr ys \<Rightarrow> Inr (GList ys))"
| "normalizeStructuredValue h (GMap m) =
     (case normalizeStructuredMap h m of Inl e \<Rightarrow> Inl e | Inr m' \<Rightarrow> Inr (GMap m'))"
| "normalizeStructuredValue h (GTime t) =
     (if t_hour t = 0 \<and> t_minute t = 0 \<and> t_second t = 0 \<and> t_nanos t = 0 then Inr (GTime t)
      else Inr (GStr (eh_timeText h t)))"
| "normalizeStructuredValue h v = Inr v"
| "normalizeStructuredList h [] = Inr []"
| "normalizeStructuredList h (x # xs) =
     (case normalizeStructuredValue h x of
        Inl e \<Rightarrow> Inl e
      | Inr y \<Rightarrow> (case normalizeStructuredList h xs of Inl e \<Rightarrow> Inl e | Inr ys \<Rightarrow> Inr (y # ys)))"
| "normalizeStructuredMap h [] = Inr []"
| "normalizeStructuredMap h ((k, x) # m) =
     (case validateExternalString k of
        Some e \<Rightarrow> Inl e
      | None \<Rightarrow>
          (case normalizeStructuredValue h x of
             Inl e \<Rightarrow> Inl e
           | Inr y \<Rightarrow> (case normalizeStructuredMap h m of Inl e \<Rightarrow> Inl e | Inr m' \<Rightarrow> Inr ((k, y) # m'))))"

definition trimYAMLSymbol :: "string \<Rightarrow> string" where
  "trimYAMLSymbol v = (case v of c # cs \<Rightarrow> (if c = CHR '':'' \<and> cs \<noteq> [] then cs else v) | [] \<Rightarrow> v)"

fun normalizeYAMLSymbolValue :: "gval \<Rightarrow> gval"
and normalizeYAMLSymbolMap :: "(string \<times> gval) list \<Rightarrow> gval gomap \<Rightarrow> gval gomap" where
  "normalizeYAMLSymbolValue (GStr s) = GStr (trimYAMLSymbol s)"
| "normalizeYAMLSymbolValue (GList xs) = GList (map normalizeYAMLSymbolValue xs)"
| "normalizeYAMLSymbolValue (GMap m) = GMap (normalizeYAMLSymbolMap m [])"
| "normalizeYAMLSymbolValue v = v"
| "normalizeYAMLSymbolMap [] acc = acc"
| "normalizeYAMLSymbolMap ((k, v) # m) acc =
     normalizeYAMLSymbolMap m (mput (trimYAMLSymbol k) (normalizeYAMLSymbolValue v) acc)"

text \<open>\<open>eh_yamlTime\<close> is the search through the time layouts: the RFC 3339 text of a time string.\<close>

fun normalizeExecutableYAMLValue :: "(string \<Rightarrow> string option) \<Rightarrow> gval \<Rightarrow> gval" where
  "normalizeExecutableYAMLValue tm (GStr s) = GStr (case tm s of Some t \<Rightarrow> t | None \<Rightarrow> s)"
| "normalizeExecutableYAMLValue tm (GList xs) = GList (map (normalizeExecutableYAMLValue tm) xs)"
| "normalizeExecutableYAMLValue tm (GMap m) =
     GMap (map (\<lambda>kv. (fst kv, normalizeExecutableYAMLValue tm (snd kv))) m)"
| "normalizeExecutableYAMLValue tm v = v"

fun factsFromKeys ::
  "extHost \<Rightarrow> gval gomap \<Rightarrow> string list \<Rightarrow> goerror + ResolvedFact list" where
  "factsFromKeys h vals [] = Inr []"
| "factsFromKeys h vals (key # ks) =
     (let name = to_lower key
      in case validateExternalString name of
           Some e \<Rightarrow> Inl (ErrWrap (''external fact name '' @ go_quote name) e)
         | None \<Rightarrow>
             (case normalizeStructuredValue h (the (mget vals key)) of
                Inl e \<Rightarrow> Inl (ErrWrap (''external fact '' @ name @ '' value'') e)
              | Inr v \<Rightarrow> (case factsFromKeys h vals ks of
                    Inl e \<Rightarrow> Inl e
                  | Inr fs \<Rightarrow> Inr (typed_fact name v ''external'' # fs))))"

definition externalFactsFromMap :: "extHost \<Rightarrow> gval gomap \<Rightarrow> goerror + ResolvedFact list" where
  "externalFactsFromMap h vals = factsFromKeys h vals (sorted_keys vals)"

definition externalYAMLFactsFromMap :: "extHost \<Rightarrow> gval gomap \<Rightarrow> goerror + ResolvedFact list" where
  "externalYAMLFactsFromMap h vals = externalFactsFromMap h (normalizeYAMLSymbolMap vals [])"

definition externalExecutableYAMLFactsFromMap ::
  "extHost \<Rightarrow> gval gomap \<Rightarrow> goerror + ResolvedFact list" where
  "externalExecutableYAMLFactsFromMap h vals =
     externalFactsFromMap h
       (map (\<lambda>kv. (fst kv, normalizeExecutableYAMLValue (eh_yamlTime h) (snd kv)))
          (normalizeYAMLSymbolMap vals []))"

section \<open>Key and value lines\<close>

definition BOM :: string where "BOM = [CHR 0xEF, CHR 0xBB, CHR 0xBF]"

fun keyValueLines :: "string list \<Rightarrow> goerror + ResolvedFact list" where
  "keyValueLines [] = Inr []"
| "keyValueLines (line # ls) =
     (if length line \<ge> externalFactMaxBytes then Inl (ErrText ''bufio.Scanner: token too long'')
      else case cut (strip_cr line) ''='' of
        None \<Rightarrow> keyValueLines ls
      | Some (rawName, val) \<Rightarrow>
          (let name = to_lower (trim_prefix (trim_space rawName) BOM)
           in if val = [] \<or> name = [] then keyValueLines ls
              else if validateExternalString name \<noteq> None
              then Inl (ErrWrap (''external fact name '' @ go_quote name) ErrNullByte)
              else if validateExternalString val \<noteq> None
              then Inl (ErrWrap (''external fact '' @ name @ '' value'') ErrNullByte)
              else (case keyValueLines ls of Inl e \<Rightarrow> Inl e
                    | Inr fs \<Rightarrow> Inr (typed_fact name (GStr val) ''external'' # fs))))"

definition parseKeyValueFacts :: "string \<Rightarrow> goerror + ResolvedFact list" where
  "parseKeyValueFacts data = keyValueLines (scan_lines data)"

section \<open>Sources\<close>

type_synonym 'a logged = "(goerror + 'a) \<times> log"

definition reportEmptyStructuredExternalFact :: "string \<Rightarrow> log" where
  "reportEmptyStructuredExternalFact path =
     [(LevelDebug, ''Structured data fact file '' @ path @ '' was parsed but was either empty or an invalid filetype (valid filetypes are .yaml, .json, and .txt).'')]"

definition reportStructuredExternalFactWithoutKeyValueData :: "string \<Rightarrow> log" where
  "reportStructuredExternalFactWithoutKeyValueData path =
     [(LevelError, ''Structured data fact file '' @ path @ '' was parsed but no key=>value data was returned.'')]"

text \<open>A file that cannot be opened is skipped; any other read error is reported.\<close>

definition orSkip :: "goerror \<Rightarrow> goerror + ResolvedFact list" where
  "orSkip e = (if errors_is e ErrExternalFactOpen then Inr [] else Inl e)"

definition loadExternalTxtFacts :: "extHost \<Rightarrow> string \<Rightarrow> goerror + ResolvedFact list" where
  "loadExternalTxtFacts h path =
     (case readExternalFactFile h path of
        Inl e \<Rightarrow> orSkip e
      | Inr data \<Rightarrow> (case parseKeyValueFacts data of
            Inl e \<Rightarrow> Inl (ErrWrap (''scan external fact '' @ path) e) | Inr fs \<Rightarrow> Inr fs))"

definition structuredFacts ::
  "(gval gomap \<Rightarrow> goerror + ResolvedFact list) \<Rightarrow> string \<Rightarrow> gval \<Rightarrow> ResolvedFact list logged" where
  "structuredFacts toFacts path v =
     (case v of
        GMap [] \<Rightarrow> (Inr [], reportEmptyStructuredExternalFact path)
      | GMap m \<Rightarrow> (toFacts m, [])
      | _ \<Rightarrow> (Inr [], reportStructuredExternalFactWithoutKeyValueData path))"

definition loadExternalJSONFacts :: "extHost \<Rightarrow> string \<Rightarrow> ResolvedFact list logged" where
  "loadExternalJSONFacts h path =
     (case readExternalFactFile h path of
        Inl e \<Rightarrow> (orSkip e, [])
      | Inr data \<Rightarrow> (case eh_json h data of
            None \<Rightarrow> (Inr [], [])
          | Some (v, complete) \<Rightarrow>
              (if \<not> complete then (Inr [], [])
               else structuredFacts (externalFactsFromMap h) path v)))"

definition yamlErrorIsNullByte :: "string \<Rightarrow> bool" where
  "yamlErrorIsNullByte msg \<longleftrightarrow>
     contains (to_lower msg) ''control'' \<or> contains (to_lower msg) ''#x0000''"

definition loadExternalYAMLFacts :: "extHost \<Rightarrow> string \<Rightarrow> ResolvedFact list logged" where
  "loadExternalYAMLFacts h path =
     (case readExternalFactFile h path of
        Inl e \<Rightarrow> (orSkip e, [])
      | Inr data \<Rightarrow> (case eh_yaml h data of
            DecodeEOF \<Rightarrow> (Inr [], [])
          | DecodeError msg \<Rightarrow>
              (if yamlErrorIsNullByte msg
               then (Inl (ErrWrap (''decode external fact '' @ path) ErrNullByte), [])
               else (Inr [], []))
          | Decoded v \<Rightarrow> structuredFacts (externalYAMLFactsFromMap h) path v))"

definition commandFailure :: "extHost \<Rightarrow> string \<Rightarrow> commandResult \<Rightarrow> goerror option" where
  "commandFailure h warningName r =
     (case eh_ctxErr h of
        Some e \<Rightarrow> Some (ErrWrap (''execute external fact '' @ warningName) e)
      | None \<Rightarrow>
          if cr_timeout r then Some (ErrWrap (warningName @ '': context deadline exceeded'') ErrExternalFactExec)
          else (case cr_err r of None \<Rightarrow> None
            | Some e \<Rightarrow>
                if errors_is e ErrExternalFactTooLarge
                then Some (ErrJoin (ErrWrap warningName ErrExternalFactExec) e)
                else Some (ErrWrap warningName ErrExternalFactExec)))"

definition loadExternalCommandFacts ::
  "extHost \<Rightarrow> string \<Rightarrow> string \<Rightarrow> string list \<Rightarrow> ResolvedFact list logged" where
  "loadExternalCommandFacts h name warningName args =
     (let r = eh_runCommand h name args
      in case commandFailure h warningName r of
           Some e \<Rightarrow> (Inl e, [])
         | None \<Rightarrow>
             (let message = trim_space (cr_stderr r);
                  lg = (if message = [] then [] else [(LevelWarn, ''Command '' @ warningName
                          @ '' completed with the following stderr message: '' @ message)]);
                  out = cr_stdout r
              in if out = [] then (Inr [], lg)
                 else (case eh_yamlMap h out of
                     Inr (kv # m) \<Rightarrow> (externalExecutableYAMLFactsFromMap h (kv # m), lg)
                   | decodedOut \<Rightarrow>
                       if (case decodedOut of Inl msg \<Rightarrow> yamlErrorIsNullByte msg | Inr _ \<Rightarrow> False)
                       then (Inl (ErrWrap (''decode executable external fact '' @ warningName) ErrNullByte), lg)
                       else (case parseKeyValueFacts out of
                           Inl e \<Rightarrow> (Inl (ErrWrap (''parse executable external fact '' @ warningName) e), lg)
                         | Inr fs \<Rightarrow> (Inr fs, lg)))))"

definition externalExecutableCommandName :: "string \<Rightarrow> string" where
  "externalExecutableCommandName path =
     (if contains_any path [CHR '' '', CHR 0x09] then go_quote path else path)"

definition loadExternalExecutableFacts :: "extHost \<Rightarrow> string \<Rightarrow> ResolvedFact list logged" where
  "loadExternalExecutableFacts h path =
     loadExternalCommandFacts h (externalExecutableCommandName path) path []"

fun systemRootFromEnv :: "string list \<Rightarrow> string" where
  "systemRootFromEnv [] = []"
| "systemRootFromEnv (entry # env) =
     (case cut entry ''='' of
        Some (name, val) \<Rightarrow> if equal_fold name ''SYSTEMROOT'' then val else systemRootFromEnv env
      | None \<Rightarrow> systemRootFromEnv env)"

definition currentPowerShellPath :: "string \<Rightarrow> (string \<Rightarrow> bool) \<Rightarrow> string" where
  "currentPowerShellPath systemRoot readable =
     (let under = (\<lambda>dir. join [BSLASH]
            [systemRoot, dir, ''WindowsPowershell'', ''v1.0'', ''powershell.exe''])
      in if systemRoot \<noteq> [] \<and> readable (under ''sysnative'') then under ''sysnative''
         else if systemRoot \<noteq> [] \<and> readable (under ''system32'') then under ''system32''
         else ''powershell.exe'')"

definition loadExternalPowerShellFacts :: "extHost \<Rightarrow> string \<Rightarrow> ResolvedFact list logged" where
  "loadExternalPowerShellFacts h path =
     (let powershell = currentPowerShellPath (systemRootFromEnv (eh_environ h)) (eh_fileReadable h)
      in loadExternalCommandFacts h powershell
           ([DQUOTE] @ powershell @ [DQUOTE]
            @ '' -NoProfile -NonInteractive -NoLogo -ExecutionPolicy Bypass -File '' @ [DQUOTE] @ path @ [DQUOTE])
           [''-NoProfile'', ''-NonInteractive'', ''-NoLogo'', ''-ExecutionPolicy'', ''Bypass'', ''-File'', path])"

definition windowsExecutableExternalFactExt :: "string \<Rightarrow> bool" where
  "windowsExecutableExternalFactExt ext \<longleftrightarrow> ext \<in> {''.bat'', ''.cmd'', ''.exe'', ''.com''}"

definition loadExternalFactFile :: "extHost \<Rightarrow> string \<Rightarrow> fileMode \<Rightarrow> ResolvedFact list logged" where
  "loadExternalFactFile h path mode =
     (let ext = to_lower (path_ext path); windows = (eh_goos h = ''windows'');
          executable = (fm_Regular mode \<and> fm_Exec mode \<and> \<not> eh_resolutionRunning h)
      in if ext = ''.txt'' then
           (if \<not> fm_Regular mode then (Inr [], []) else (loadExternalTxtFacts h path, []))
         else if ext = ''.json'' then
           (if \<not> fm_Regular mode then (Inr [], []) else loadExternalJSONFacts h path)
         else if ext = ''.yaml'' \<or> ext = ''.yml'' then
           (if \<not> fm_Regular mode then (Inr [], []) else loadExternalYAMLFacts h path)
         else if ext = ''.rb'' then
           (Inr [], [(LevelWarn, ''Ruby fact files are not supported by the Go port; skipping '' @ path
              @ ''. Rewrite it as an executable external fact (see docs/CUSTOM_FACT_MIGRATION.md).'')])
         else if ext = ''.ps1'' then
           (if windows then loadExternalPowerShellFacts h path
            else if executable then loadExternalExecutableFacts h path else (Inr [], []))
         else if \<not> windows \<and> windowsExecutableExternalFactExt ext then (Inr [], [])
         else if windows \<and> windowsExecutableExternalFactExt ext \<and> fm_Regular mode \<and> \<not> eh_resolutionRunning h
         then loadExternalExecutableFacts h path
         else if executable then loadExternalExecutableFacts h path
         else (Inr [], if fm_Regular mode then reportEmptyStructuredExternalFact path else []))"

section \<open>Directories\<close>

definition ignoredBackupExternalFactFile :: "string \<Rightarrow> bool" where
  "ignoredBackupExternalFactFile name \<longleftrightarrow> to_lower (path_ext name) \<in> {''.bak'', ''.orig''}"

definition ignoredExternalFactFile :: "string \<Rightarrow> bool" where
  "ignoredExternalFactFile name \<longleftrightarrow> has_prefix name ''.'' \<or> ignoredBackupExternalFactFile name"

text \<open>One directory entry: facts, failures, and log. \<open>Inl\<close> aborts the whole load (CLI mode).\<close>

definition loadEntry ::
  "extHost \<Rightarrow> externalFactLoader \<Rightarrow> string \<Rightarrow> dirEntry \<Rightarrow> (ResolvedFact list \<times> goerror list) logged" where
  "loadEntry h l dir entry =
     (let name = de_Name entry; cli = (ld_mode l = externalFactLoaderCLI); path = path_join dir name
      in if is_set (ld_blocked l) name
         then (Inr ([], []), [(LevelDebug, ''External fact file '' @ name @ '' blocked.'')])
         else if de_IsDir entry then (Inr ([], []), [])
         else if ignoredBackupExternalFactFile name
         then (Inr ([], []), [(LevelDebug, ''External fact file '' @ name @ '' ignored: ''
                 @ to_lower (path_ext name) @ '' extension.'')])
         else if ignoredExternalFactFile name then (Inr ([], []), [])
         else (case de_Info entry of
             Inl e \<Rightarrow>
               (let err = ErrWrap (''stat external fact '' @ path) e
                in (if cli then Inl err else Inr ([], [err]), []))
           | Inr mode \<Rightarrow>
               (case loadExternalFactFile h path mode of
                  (Inr fs, lg) \<Rightarrow> (Inr (fs, []), lg)
                | (Inl err, lg) \<Rightarrow>
                    (if \<not> cli then (Inr ([], [err]), lg)
                     else if errors_is err ErrExternalFactExec
                          \<or> (case eh_ctxErr h of Some c \<Rightarrow> errors_is err c | None \<Rightarrow> False)
                     then (Inr ([], []), lg)
                     else (Inl err, lg)))))"

text \<open>The loops over entries and over directories: facts and failures accumulate, an abort stops.\<close>

fun collectSources ::
  "('a \<Rightarrow> (ResolvedFact list \<times> goerror list) logged) \<Rightarrow> 'a list \<Rightarrow>
     (ResolvedFact list \<times> goerror list) logged" where
  "collectSources one [] = (Inr ([], []), [])"
| "collectSources one (x # xs) =
     (case one x of
        (Inl err, lg) \<Rightarrow> (Inl err, lg)
      | (Inr (fs, es), lg) \<Rightarrow>
          (case collectSources one xs of
             (Inl err, lg') \<Rightarrow> (Inl err, lg @ lg')
           | (Inr (fs', es'), lg') \<Rightarrow> (Inr (fs @ fs', es @ es'), lg @ lg')))"

definition loadDir ::
  "extHost \<Rightarrow> externalFactLoader \<Rightarrow> string \<Rightarrow> (ResolvedFact list \<times> goerror list) logged" where
  "loadDir h l dir =
     (case eh_readDir h dir of
        Inl e \<Rightarrow>
          (if errors_is e ErrNotExist then (Inr ([], []), [])
           else let err = ErrWrap (''read external dir '' @ dir) e
                in (if ld_mode l = externalFactLoaderCLI then Inl err else Inr ([], [err]), []))
      | Inr entries \<Rightarrow> collectSources (loadEntry h l dir) (rev (sort_key de_Name entries)))"

definition loadDirFacts ::
  "extHost \<Rightarrow> externalFactLoader \<Rightarrow> (ResolvedFact list \<times> goerror list) logged" where
  "loadDirFacts h l = collectSources (loadDir h l) (ld_dirs l)"

definition loadExternal ::
  "extHost \<Rightarrow> externalFactLoader \<Rightarrow> (ResolvedFact list \<times> goerror option) \<times> log" where
  "loadExternal h l =
     (let cli = (ld_mode l = externalFactLoaderCLI)
      in case loadDirFacts h l of
           (Inl err, lg) \<Rightarrow> (([], Some err), lg)
         | (Inr (fs, es), lg) \<Rightarrow>
             (case (if ld_includeEnv l then loadExternalEnvFacts (eh_environ h) else Inr []) of
                Inl err \<Rightarrow>
                  (if cli then (([], Some err), lg) else ((fs, errors_join (es @ [err])), lg))
              | Inr envFacts \<Rightarrow>
                  ((fs @ envFacts, if cli then None else errors_join es), lg)))"

text \<open>The groups that \<open>--list-block-groups\<close> and \<open>--list-cache-groups\<close> show for external files.\<close>

fun externalGroupsLoop :: "extHost \<Rightarrow> string list \<Rightarrow> goerror + FactGroup list" where
  "externalGroupsLoop h [] = Inr []"
| "externalGroupsLoop h (dir # dirs) =
     (case eh_readDir h dir of
        Inl e \<Rightarrow> (if errors_is e ErrNotExist then externalGroupsLoop h dirs
                  else Inl (ErrWrap (''read external dir '' @ dir) e))
      | Inr entries \<Rightarrow> (case externalGroupsLoop h dirs of Inl e \<Rightarrow> Inl e
          | Inr gs \<Rightarrow> Inr (map (\<lambda>en. \<lparr>fg_Name = de_Name en, fg_Facts = []\<rparr>) entries @ gs)))"

definition ExternalFactGroups :: "extHost \<Rightarrow> string list \<Rightarrow> goerror + FactGroup list" where
  "ExternalFactGroups h dirs =
     (case externalGroupsLoop h dirs of Inl e \<Rightarrow> Inl e | Inr gs \<Rightarrow> Inr (sort_key fg_Name gs))"

section \<open>Lemmas about the bounded buffer\<close>

definition limitedWrites :: "limitedBuffer \<Rightarrow> string list \<Rightarrow> limitedBuffer" where
  "limitedWrites b ps = foldl (\<lambda>b p. snd (limitedWrite b p)) b ps"

definition newBuffer :: "int \<Rightarrow> limitedBuffer" where
  "newBuffer limit = \<lparr>lb_buf = [], lb_limit = limit, lb_tooLarge = False, lb_cancelled = False\<rparr>"

definition buffer_inv :: "limitedBuffer \<Rightarrow> string \<Rightarrow> bool" where
  "buffer_inv b written \<longleftrightarrow> prefix (lb_buf b) written \<and>
     int (length (lb_buf b)) \<le> max 0 (lb_limit b) \<and> lb_cancelled b = lb_tooLarge b \<and>
     (if lb_tooLarge b then int (length (lb_buf b)) = max 0 (lb_limit b) else lb_buf b = written)"

lemma markTooLarge_sel [simp]:
  "lb_buf (markTooLarge b) = lb_buf b" "lb_limit (markTooLarge b) = lb_limit b"
  "lb_tooLarge (markTooLarge b)"
  by (simp_all add: markTooLarge_def)

lemma markTooLarge_cancelled:
  "lb_cancelled b = lb_tooLarge b \<Longrightarrow> lb_cancelled (markTooLarge b)"
  by (auto simp: markTooLarge_def)

lemma limitedWrite_inv:
  assumes "buffer_inv b w" shows "buffer_inv (snd (limitedWrite b p)) (w @ p)"
proof -
  let ?r = "lb_limit b - int (length (lb_buf b))"
  have pre: "prefix (lb_buf b) (w @ p)" using assms by (auto simp: buffer_inv_def prefix_def)
  consider (full) "lb_limit b \<le> 0 \<or> ?r \<le> 0" | (fits) "0 < ?r" "int (length p) \<le> ?r" "0 < lb_limit b"
    | (cut) "0 < ?r" "?r < int (length p)" "0 < lb_limit b" by linarith
  then show ?thesis
  proof cases
    case full
    then have "snd (limitedWrite b p) = markTooLarge b" by (auto simp: limitedWrite_def Let_def)
    then show ?thesis using assms pre full
      by (auto simp: buffer_inv_def markTooLarge_cancelled)
  next
    case fits
    then show ?thesis using assms pre by (auto simp: limitedWrite_def buffer_inv_def)
  next
    case cut
    then have "lb_buf b = w" using assms by (auto simp: buffer_inv_def split: if_splits)
    moreover have "prefix (w @ take (nat ?r) p) (w @ p)" by (simp add: take_is_prefix)
    moreover have "snd (limitedWrite b p) = markTooLarge (b\<lparr>lb_buf := lb_buf b @ take (nat ?r) p\<rparr>)"
      using cut by (simp add: limitedWrite_def Let_def)
    ultimately show ?thesis using cut assms
      by (simp add: buffer_inv_def markTooLarge_cancelled)
  qed
qed

lemma limitedWrites_inv: "buffer_inv b w \<Longrightarrow> buffer_inv (limitedWrites b ps) (w @ concat ps)"
proof (induction ps arbitrary: b w)
  case (Cons p ps)
  then show ?case
    using Cons.IH [OF limitedWrite_inv [OF Cons.prems, of p]] by (simp add: limitedWrites_def)
qed (simp add: limitedWrites_def)

lemma limitedWrites_limit: "lb_limit (limitedWrites b ps) = lb_limit b"
proof (induction ps arbitrary: b)
  case (Cons p ps)
  have "lb_limit (snd (limitedWrite b p)) = lb_limit b" by (simp add: limitedWrite_def Let_def)
  with Cons show ?case by (simp add: limitedWrites_def)
qed (simp add: limitedWrites_def)

section \<open>Lemmas about names and values\<close>

text \<open>No NUL in any string, key or element, at any depth.\<close>

fun no_nul :: "gval \<Rightarrow> bool" where
  "no_nul (GStr s) \<longleftrightarrow> NUL \<notin> set s"
| "no_nul (GNumber s) \<longleftrightarrow> NUL \<notin> set s"
| "no_nul (GList xs) \<longleftrightarrow> list_all no_nul xs"
| "no_nul (GStrs xs) \<longleftrightarrow> list_all (\<lambda>s. NUL \<notin> set s) xs"
| "no_nul (GMap m) \<longleftrightarrow> list_all (\<lambda>kv. NUL \<notin> set (fst kv) \<and> no_nul (snd kv)) m"
| "no_nul (GTypedMap m) \<longleftrightarrow> list_all (\<lambda>kv. NUL \<notin> set (fst kv) \<and> no_nul (snd kv)) m"
| "no_nul (GAnyMap m) \<longleftrightarrow>
     list_all (\<lambda>kv. (case fst kv of KStr s \<Rightarrow> NUL \<notin> set s | _ \<Rightarrow> True) \<and> no_nul (snd kv)) m"
| "no_nul v \<longleftrightarrow> True"

text \<open>A value with every \<open>map[any]any\<close> in it cut out.\<close>

fun without_any :: "gval \<Rightarrow> gval" where
  "without_any (GList xs) = GList (map without_any xs)"
| "without_any (GMap m) = GMap (map (\<lambda>kv. (fst kv, without_any (snd kv))) m)"
| "without_any (GTypedMap m) = GTypedMap (map (\<lambda>kv. (fst kv, without_any (snd kv))) m)"
| "without_any (GAnyMap m) = GNil"
| "without_any v = v"

text \<open>Number tokens and time texts do not contain NUL, and the decoders give no typed slices and maps.\<close>

fun clean_numbers :: "gval \<Rightarrow> bool" where
  "clean_numbers (GNumber t) \<longleftrightarrow> NUL \<notin> set t"
| "clean_numbers (GList xs) \<longleftrightarrow> list_all clean_numbers xs"
| "clean_numbers (GMap m) \<longleftrightarrow> list_all (\<lambda>kv. clean_numbers (snd kv)) m"
| "clean_numbers (GStrs xs) \<longleftrightarrow> False"
| "clean_numbers (GTypedMap m) \<longleftrightarrow> False"
| "clean_numbers v \<longleftrightarrow> True"

lemma normalize_no_nul:
  assumes "\<forall>t. NUL \<notin> set (eh_timeText h t)"
  shows "normalizeStructuredValue h v = Inr w \<Longrightarrow> clean_numbers v \<Longrightarrow> no_nul (without_any w)"
    and "normalizeStructuredList h vs = Inr ws \<Longrightarrow> list_all clean_numbers vs \<Longrightarrow>
           list_all (\<lambda>w. no_nul (without_any w)) ws"
    and "normalizeStructuredMap h m = Inr m' \<Longrightarrow> list_all (\<lambda>kv. clean_numbers (snd kv)) m \<Longrightarrow>
           list_all (\<lambda>kv. NUL \<notin> set (fst kv) \<and> no_nul (without_any (snd kv))) m'"
  using assms
  by (induction v and vs and m arbitrary: w and ws and m'
      rule: normalizeStructuredValue_normalizeStructuredList_normalizeStructuredMap.induct)
    (auto simp: validateExternalString_def list.pred_map o_def split: option.splits sum.splits if_splits)

definition clean_fact :: "ResolvedFact \<Rightarrow> bool" where
  "clean_fact rf \<longleftrightarrow> rf_Type rf = ''external'' \<and> to_lower (rf_Name rf) = rf_Name rf \<and>
     NUL \<notin> set (rf_Name rf) \<and> no_nul (without_any (rf_Value rf))"

lemma clean_typed_fact:
  "to_lower n = n \<Longrightarrow> NUL \<notin> set n \<Longrightarrow> no_nul (without_any v) \<Longrightarrow> clean_fact (typed_fact n v ''external'')"
  by (simp add: clean_fact_def)

abbreviation clean_map :: "gval gomap \<Rightarrow> bool" where
  "clean_map m \<equiv> list_all (\<lambda>kv. clean_numbers (snd kv)) m"

definition clean_host :: "extHost \<Rightarrow> bool" where
  "clean_host h \<longleftrightarrow> (\<forall>t. NUL \<notin> set (eh_timeText h t)) \<and>
     (\<forall>d v b. eh_json h d = Some (v, b) \<longrightarrow> clean_numbers v) \<and>
     (\<forall>d v. eh_yaml h d = Decoded v \<longrightarrow> clean_numbers v) \<and>
     (\<forall>d m. eh_yamlMap h d = Inr m \<longrightarrow> clean_numbers (GMap m))"

lemma mput_all: "list_all P m \<Longrightarrow> P (k, v) \<Longrightarrow> list_all P (mput k v m)"
  by (induction m) auto

lemma list_all_map_imp:
  "list_all P xs \<Longrightarrow> (\<And>x. x \<in> set xs \<Longrightarrow> P x \<Longrightarrow> Q (f x)) \<Longrightarrow> list_all Q (map f xs)"
  by (auto simp: list_all_iff)

lemma symbol_clean_numbers:
  "clean_numbers v \<Longrightarrow> clean_numbers (normalizeYAMLSymbolValue v)"
  "list_all (\<lambda>kv. clean_numbers (snd kv)) m \<Longrightarrow> list_all (\<lambda>kv. clean_numbers (snd kv)) acc \<Longrightarrow>
     list_all (\<lambda>kv. clean_numbers (snd kv)) (normalizeYAMLSymbolMap m acc)"
  by (induction v and m acc rule: normalizeYAMLSymbolValue_normalizeYAMLSymbolMap.induct)
    (simp_all add: mput_all list_all_map_imp)

lemma executable_clean_numbers:
  "clean_numbers v \<Longrightarrow> clean_numbers (normalizeExecutableYAMLValue tm v)"
  by (induction tm v rule: normalizeExecutableYAMLValue.induct) (auto simp: list_all_iff)

lemma factsFromKeys_clean:
  assumes "\<forall>t. NUL \<notin> set (eh_timeText h t)" and "clean_map vals"
  shows "factsFromKeys h vals ks = Inr fs \<Longrightarrow> set ks \<subseteq> fst ` set vals \<Longrightarrow> list_all clean_fact fs"
proof (induction ks arbitrary: fs)
  case (Cons key ks)
  then obtain v where "mget vals key = Some v" by (metis list.set_intros(1) map_of_eq_None_iff not_None_eq subset_eq)
  then have "clean_numbers (the (mget vals key))"
    using assms(2) by (auto simp: list_all_iff dest!: map_of_SomeD)
  with Cons show ?case
    using normalize_no_nul(1) [OF assms(1)]
    by (auto simp: Let_def validateExternalString_def clean_typed_fact
        split: option.splits sum.splits if_splits)
qed simp

lemma externalFactsFromMap_clean:
  "clean_host h \<Longrightarrow> clean_map vals \<Longrightarrow> externalFactsFromMap h vals = Inr fs \<Longrightarrow>
     list_all clean_fact fs"
  using factsFromKeys_clean [of h vals "sorted_keys vals" fs]
  by (simp add: externalFactsFromMap_def clean_host_def)

lemma keyValueLines_clean: "keyValueLines ls = Inr fs \<Longrightarrow> list_all clean_fact fs"
proof (induction ls arbitrary: fs)
  case (Cons l ls)
  then show ?case
    by (auto simp: Let_def validateExternalString_def clean_typed_fact
        split: option.splits sum.splits if_splits prod.splits)
qed simp

lemma parseKeyValueFacts_clean: "parseKeyValueFacts d = Inr fs \<Longrightarrow> list_all clean_fact fs"
  unfolding parseKeyValueFacts_def by (rule keyValueLines_clean)

lemma yaml_clean:
  "clean_host h \<Longrightarrow> clean_map m \<Longrightarrow> externalYAMLFactsFromMap h m = Inr fs \<Longrightarrow>
     list_all clean_fact fs"
  unfolding externalYAMLFactsFromMap_def
  by (rule externalFactsFromMap_clean) (simp_all add: symbol_clean_numbers(2))

lemma executable_clean:
  assumes "clean_host h" and "clean_map m" and "externalExecutableYAMLFactsFromMap h m = Inr fs"
  shows "list_all clean_fact fs"
proof -
  have "clean_map (normalizeYAMLSymbolMap m [])"
    using assms(2) by (simp add: symbol_clean_numbers(2))
  then have "clean_map (map (\<lambda>kv. (fst kv, normalizeExecutableYAMLValue (eh_yamlTime h) (snd kv)))
      (normalizeYAMLSymbolMap m []))"
    by (rule list_all_map_imp) (simp add: executable_clean_numbers)
  then show ?thesis
    using externalFactsFromMap_clean [OF assms(1)] assms(3)
    unfolding externalExecutableYAMLFactsFromMap_def by blast
qed

lemma host_json: "clean_host h \<Longrightarrow> eh_json h d = Some (GMap m, b) \<Longrightarrow> clean_map m"
  unfolding clean_host_def by (metis clean_numbers.simps(3))

lemma host_yaml: "clean_host h \<Longrightarrow> eh_yaml h d = Decoded (GMap m) \<Longrightarrow> clean_map m"
  unfolding clean_host_def by (metis clean_numbers.simps(3))

lemma host_yamlMap: "clean_host h \<Longrightarrow> eh_yamlMap h d = Inr m \<Longrightarrow> clean_map m"
  unfolding clean_host_def by (metis clean_numbers.simps(3))

lemma structuredFacts_clean:
  "fst (structuredFacts toFacts path v) = Inr fs \<Longrightarrow>
     (\<And>m fs. v = GMap m \<Longrightarrow> toFacts m = Inr fs \<Longrightarrow> list_all clean_fact fs) \<Longrightarrow> list_all clean_fact fs"
  by (auto simp: structuredFacts_def split: gval.splits list.splits)

lemma orSkip_clean: "orSkip e = Inr fs \<Longrightarrow> list_all clean_fact fs"
  by (auto simp: orSkip_def split: if_splits)

lemma loadExternalTxtFacts_clean: "loadExternalTxtFacts h path = Inr fs \<Longrightarrow> list_all clean_fact fs"
  by (auto simp: loadExternalTxtFacts_def orSkip_clean dest: parseKeyValueFacts_clean split: sum.splits)

lemma loadExternalJSONFacts_clean:
  "clean_host h \<Longrightarrow> fst (loadExternalJSONFacts h path) = Inr fs \<Longrightarrow> list_all clean_fact fs"
  unfolding loadExternalJSONFacts_def
  by (auto simp: orSkip_clean split: sum.splits option.splits prod.splits if_splits
      elim!: structuredFacts_clean intro: externalFactsFromMap_clean host_json)

lemma loadExternalYAMLFacts_clean:
  "clean_host h \<Longrightarrow> fst (loadExternalYAMLFacts h path) = Inr fs \<Longrightarrow> list_all clean_fact fs"
  unfolding loadExternalYAMLFacts_def
  by (auto simp: orSkip_clean split: sum.splits decoded.splits if_splits
      elim!: structuredFacts_clean intro: yaml_clean host_yaml)

lemma loadExternalCommandFacts_clean:
  assumes "clean_host h" and "fst (loadExternalCommandFacts h name w args) = Inr fs"
  shows "list_all clean_fact fs"
proof (cases "eh_yamlMap h (cr_stdout (eh_runCommand h name args))")
  case (Inl msg)
  with assms show ?thesis
    by (auto simp: loadExternalCommandFacts_def Let_def dest: parseKeyValueFacts_clean
        split: option.splits if_splits sum.splits)
next
  case (Inr m)
  with assms(1) have "clean_map m" by (rule host_yamlMap)
  then have "externalExecutableYAMLFactsFromMap h m = Inr fs \<Longrightarrow> list_all clean_fact fs"
    using executable_clean [OF assms(1)] by blast
  with assms Inr show ?thesis
    by (cases m) (auto simp: loadExternalCommandFacts_def Let_def
        dest: parseKeyValueFacts_clean split: option.splits if_splits sum.splits)
qed

lemma loadExternalFactFile_clean:
  "clean_host h \<Longrightarrow> fst (loadExternalFactFile h path mode) = Inr fs \<Longrightarrow> list_all clean_fact fs"
  unfolding loadExternalFactFile_def Let_def loadExternalExecutableFacts_def loadExternalPowerShellFacts_def
  by (auto dest: loadExternalTxtFacts_clean loadExternalJSONFacts_clean loadExternalYAMLFacts_clean
      loadExternalCommandFacts_clean split: if_splits)

lemma loadEntry_clean:
  assumes "clean_host h" and "fst (loadEntry h l dir en) = Inr (fs, es)"
  shows "list_all clean_fact fs"
proof -
  have "list_all clean_fact gs" if "loadExternalFactFile h p m = (Inr gs, lg)" for p m gs lg
    using loadExternalFactFile_clean [OF assms(1), of p m gs] that by simp
  with assms(2) show ?thesis
    by (auto simp: loadEntry_def Let_def split: if_splits sum.splits prod.splits)
qed

lemma collectSources_all:
  "(\<And>x fs es. x \<in> set xs \<Longrightarrow> fst (one x) = Inr (fs, es) \<Longrightarrow> list_all P fs) \<Longrightarrow>
     fst (collectSources one xs) = Inr (fs, es) \<Longrightarrow> list_all P fs"
proof (induction xs arbitrary: fs es)
  case (Cons x xs)
  from Cons.prems(2) obtain fs1 es1 lg fs2 es2 lg' where
    o: "one x = (Inr (fs1, es1), lg)" and c: "collectSources one xs = (Inr (fs2, es2), lg')"
    and fs: "fs = fs1 @ fs2"
    by (auto split: sum.splits prod.splits)
  have "list_all P fs1" using Cons.prems(1) [of x fs1 es1] o by simp
  moreover have "list_all P fs2"
  proof (rule Cons.IH)
    show "fst (collectSources one xs) = Inr (fs2, es2)" by (simp add: c)
  next
    fix y gs es assume "y \<in> set xs" "fst (one y) = Inr (gs, es)"
    then show "list_all P gs" using Cons.prems(1) [of y gs es] by simp
  qed
  ultimately show ?case by (simp add: fs)
qed simp

lemma loadDir_clean:
  "clean_host h \<Longrightarrow> fst (loadDir h l dir) = Inr (fs, es) \<Longrightarrow> list_all clean_fact fs"
  by (auto simp: loadDir_def Let_def split: sum.splits if_splits
      elim!: collectSources_all [rotated] dest: loadEntry_clean)

lemma loadExternalEnvFacts_clean:
  assumes "loadExternalEnvFacts env = Inr fs" shows "list_all clean_fact fs"
proof -
  have all: "list_all (\<lambda>(n, native, v). NUL \<notin> set v) (fact_assignments env)"
    and fs: "fs = map (\<lambda>n. typed_fact n (GStr (the (winner n (assignments env)))) ''external'')
      (sorted_list_of_set (fst ` set (fact_assignments env)))"
    using loadExternalEnvFacts_eq [of env] assms by simp_all
  have "clean_fact (typed_fact n (GStr (the (winner n (assignments env)))) ''external'')"
    if n: "n \<in> fst ` set (fact_assignments env)" for n
  proof -
    from n obtain native v where a: "(n, native, v) \<in> set (fact_assignments env)" by auto
    then have w: "isRubyWord n" by (auto simp: fact_assignments_def dest: assignments_names)
    have ctl: "n \<noteq> reservedDisableControlName" using a by (auto simp: fact_assignments_def)
    have "winner n (fact_assignments env) \<noteq> None" using a by (auto simp: winner_None)
    then have "winner n (assignments env) \<noteq> None"
      using winner_filter [of "\<lambda>m. m \<noteq> reservedDisableControlName" n] ctl
      by (simp add: fact_assignments_def)
    then obtain u where u: "winner n (assignments env) = Some u" by auto
    then obtain nat where "(n, nat, u) \<in> set (assignments env)" using winner_Some by blast
    with ctl have "(n, nat, u) \<in> set (fact_assignments env)" by (simp add: fact_assignments_def)
    then have "NUL \<notin> set u" using all by (auto simp: list_all_iff)
    moreover have "to_lower n = n" using w by (rule word_lower)
    ultimately show ?thesis using word_no_NUL [OF w] u by (simp add: clean_fact_def)
  qed
  then show ?thesis by (simp add: fs list_all_iff)
qed

text \<open>What the fail-fast mode makes of a source, compared with the mode that carries on.\<close>

definition quiet :: "extHost \<Rightarrow> goerror \<Rightarrow> bool" where
  "quiet h e \<longleftrightarrow> errors_is e ErrExternalFactExec \<or>
     (case eh_ctxErr h of Some c \<Rightarrow> errors_is e c | None \<Rightarrow> False)"

definition fail_fast ::
  "extHost \<Rightarrow> goerror + (ResolvedFact list \<times> goerror list) \<Rightarrow>
     goerror + (ResolvedFact list \<times> goerror list) \<Rightarrow> bool" where
  "fail_fast h cli lib \<longleftrightarrow>
     (\<exists>fs es. lib = Inr (fs, es) \<and>
        (case cli of Inl e \<Rightarrow> e \<in> set es | Inr (gs, errs) \<Rightarrow> gs = fs \<and> errs = [] \<and> list_all (quiet h) es))"

lemma fail_fast_collect:
  "(\<And>x. x \<in> set xs \<Longrightarrow> fail_fast h (fst (one x)) (fst (one' x))) \<Longrightarrow>
     fail_fast h (fst (collectSources one xs)) (fst (collectSources one' xs))"
proof (induction xs)
  case Nil
  then show ?case by (simp add: fail_fast_def)
next
  case (Cons x xs)
  then have ff: "fail_fast h (fst (one x)) (fst (one' x))"
    and ih: "fail_fast h (fst (collectSources one xs)) (fst (collectSources one' xs))" by simp_all
  obtain fs es lg where o': "one' x = (Inr (fs, es), lg)"
    using ff unfolding fail_fast_def by (metis prod.collapse)
  obtain fs2 es2 lg2 where c': "collectSources one' xs = (Inr (fs2, es2), lg2)"
    using ih unfolding fail_fast_def by (metis prod.collapse)
  obtain r lg1 where o: "one x = (r, lg1)" by fastforce
  obtain r2 lg3 where c: "collectSources one xs = (r2, lg3)" by fastforce
  show ?case
    using ff ih by (cases r; cases r2) (auto simp: fail_fast_def o o' c c')
qed

lemma fail_fast_entry:
  "fail_fast h (fst (loadEntry h (l\<lparr>ld_mode := externalFactLoaderCLI\<rparr>) dir en))
     (fst (loadEntry h (l\<lparr>ld_mode := externalFactLoaderLibrary\<rparr>) dir en))"
proof -
  obtain fm where fm: "de_Info en = Inr fm \<or> (\<exists>e. de_Info en = Inl e)" by (cases "de_Info en") auto
  show ?thesis
    by (cases "de_Info en"; cases "fst (loadExternalFactFile h (path_join dir (de_Name en)) (projr (de_Info en)))")
      (auto simp: loadEntry_def Let_def fail_fast_def quiet_def split: prod.splits sum.splits)
qed

lemma fail_fast_dir:
  "fail_fast h (fst (loadDir h (l\<lparr>ld_mode := externalFactLoaderCLI\<rparr>) dir))
     (fst (loadDir h (l\<lparr>ld_mode := externalFactLoaderLibrary\<rparr>) dir))"
proof (cases "eh_readDir h dir")
  case (Inl e)
  then show ?thesis by (simp add: loadDir_def fail_fast_def Let_def)
next
  case (Inr entries)
  then show ?thesis by (simp add: loadDir_def fail_fast_collect fail_fast_entry)
qed

section \<open>Two gaps in the normalization\<close>

text \<open>A mapping with a key that is not a string decodes to a map with keys of any type, which the
  normalization passes through unchecked.\<close>

lemma null_byte_passes_any_map:
  "normalizeStructuredValue h (GMap [(''a'', GAnyMap [(KInt 1, GStr [NUL])])]) =
     Inr (GMap [(''a'', GAnyMap [(KInt 1, GStr [NUL])])])"
  by (simp add: validateExternalString_def)

text \<open>When a symbol key and its plain spelling both occur, the order of the map decides.\<close>

lemma symbol_key_order:
  "normalizeYAMLSymbolMap [('':a'', GInt 1), (''a'', GInt 2)] [] \<noteq>
   normalizeYAMLSymbolMap [(''a'', GInt 2), ('':a'', GInt 1)] []"
  by (simp add: trimYAMLSymbol_def)

section \<open>Properties\<close>

text \<open>C10: Output of an external program is kept up to the limit and never beyond: whatever is
  written in whatever pieces, the buffer holds a prefix of it no longer than the limit, the
  program is cancelled exactly when the buffer is marked too large, a marked buffer is full,
  and without the mark the buffer holds everything.\<close>

theorem limitedWrites_bounded:
  "let b = limitedWrites (newBuffer limit) ps
   in int (length (lb_buf b)) \<le> max 0 limit \<and> prefix (lb_buf b) (concat ps) \<and>
      lb_cancelled b = lb_tooLarge b \<and>
      (if lb_tooLarge b then int (length (lb_buf b)) = max 0 limit else lb_buf b = concat ps)"
proof -
  have "buffer_inv (newBuffer limit) []" by (simp add: buffer_inv_def newBuffer_def)
  then have "buffer_inv (limitedWrites (newBuffer limit) ps) (concat ps)"
    using limitedWrites_inv by fastforce
  moreover have "lb_limit (limitedWrites (newBuffer limit) ps) = limit"
    by (simp add: limitedWrites_limit) (simp add: newBuffer_def)
  ultimately show ?thesis by (auto simp: buffer_inv_def Let_def split: if_splits)
qed

text \<open>C18: Every fact the external loader returns is of type external, has a lower-case name, and
  contains no NUL byte in its name, nor in any string, key or list element of its value outside the maps
  whose keys are not strings: those (a \<open>map[any]any\<close>, which YAML gives) the code does not check, and
  \<open>null_byte_passes_any_map\<close> shows a NUL in one. The decoders are assumed to give number tokens without
  NUL and none but their documented types.\<close>

theorem loadExternal_clean:
  assumes "clean_host h"
  shows "list_all clean_fact (fst (fst (loadExternal h l)))"
proof -
  have "list_all clean_fact fs" if "fst (loadDirFacts h l) = Inr (fs, es)" for fs es
    using that loadDir_clean [OF assms] unfolding loadDirFacts_def
    by (rule collectSources_all [rotated]) blast
  then show ?thesis
    by (auto simp: loadExternal_def Let_def dest: loadExternalEnvFacts_clean
        split: sum.splits prod.splits if_splits)
qed

theorem loadExternal_clean_witness:
  "list_all clean_fact (fst (fst (loadExternal
     \<lparr>eh_readDir = (\<lambda>_. Inr [\<lparr>de_Name = ''site.txt'', de_IsDir = False,
        de_Info = Inr \<lparr>fm_Regular = True, fm_Exec = False\<rparr>\<rparr>]),
      eh_open = (\<lambda>_. Inr (Inr ''Role=web'')), eh_fileReadable = (\<lambda>_. False),
      eh_environ = [''FACTS_ROLE=db''], eh_goos = ''linux'',
      eh_runCommand = (\<lambda>_ _. \<lparr>cr_stdout = [], cr_stderr = [], cr_err = None, cr_timeout = False\<rparr>),
      eh_resolutionRunning = False, eh_ctxErr = None, eh_json = (\<lambda>_. None), eh_yaml = (\<lambda>_. DecodeEOF),
      eh_yamlMap = (\<lambda>_. Inr []), eh_parseFloat = (\<lambda>_. None), eh_timeText = (\<lambda>_. []), eh_yamlTime = (\<lambda>_. None)\<rparr>
     \<lparr>ld_mode = externalFactLoaderLibrary, ld_dirs = [''/etc/facts/facts.d''], ld_blocked = [],
      ld_includeEnv = True\<rparr>)))"
  by (rule loadExternal_clean) (simp add: clean_host_def)

text \<open>C19: The command line's fail-fast loader agrees with the library's: either it reports no
  error and returns exactly the facts the library returns, or it returns no fact and an
  error that is among the failures the library joins.\<close>

theorem loadExternal_fail_fast:
  "(case fst (loadExternal h (l\<lparr>ld_mode := externalFactLoaderCLI\<rparr>)) of
      (fs, None) \<Rightarrow> fs = fst (fst (loadExternal h (l\<lparr>ld_mode := externalFactLoaderLibrary\<rparr>)))
    | (fs, Some e) \<Rightarrow> fs = [] \<and>
        (\<exists>es. snd (fst (loadExternal h (l\<lparr>ld_mode := externalFactLoaderLibrary\<rparr>))) = errors_join es \<and>
              e \<in> set es))"
proof -
  let ?c = "l\<lparr>ld_mode := externalFactLoaderCLI\<rparr>" and ?l = "l\<lparr>ld_mode := externalFactLoaderLibrary\<rparr>"
  have "fail_fast h (fst (loadDirFacts h ?c)) (fst (loadDirFacts h ?l))"
    unfolding loadDirFacts_def
    using fail_fast_collect [of "ld_dirs l" h "loadDir h ?c" "loadDir h ?l"] fail_fast_dir by simp
  then obtain fs es lg where lib: "loadDirFacts h ?l = (Inr (fs, es), lg)"
    and ff: "case fst (loadDirFacts h ?c) of Inl e \<Rightarrow> e \<in> set es
       | Inr (gs, errs) \<Rightarrow> gs = fs \<and> errs = [] \<and> list_all (quiet h) es"
    unfolding fail_fast_def by (metis prod.collapse)
  obtain r lg' where c: "loadDirFacts h ?c = (r, lg')" by fastforce
  define env where "env = (if ld_includeEnv l then loadExternalEnvFacts (eh_environ h) else Inr [])"
  show ?thesis
  proof (cases r)
    case (Inl e)
    with ff c have "e \<in> set es" by simp
    then show ?thesis
      by (cases env) (auto simp: loadExternal_def Let_def lib c Inl env_def [symmetric] split: sum.splits)
  next
    case (Inr x)
    with ff c have x: "x = (fs, [])" by (cases x) simp
    show ?thesis
      by (cases env) (auto simp: loadExternal_def Let_def lib c Inr x env_def [symmetric] split: sum.splits)
  qed
qed

end
