(* ===== verification/Projection.thy ===== *)
theory Projection
  imports Fact_Tree
begin

text \<open>
  \<open>internal/engine/projection.go\<close>: query selection and output projection over one list of
  resolved facts. The projection object is a record; a method that fills the memoized tree
  returns the updated record.

  Building the tree mutates maps that the facts share with it: a fact whose value is a map
  contributes that very map object, so a later insertion below its path also changes the
  value the fact holds. \<open>afterCollection\<close> is the fact list as it reads once the tree is built.
\<close>

section \<open>Definitions\<close>

text \<open>The path under which each fact's value became a node of the tree, if it did: nil values,
  collisions and flat typed facts give \<open>None\<close>. A flat key contains a dot, so no later
  insertion reaches below it.\<close>

fun placements :: "bool \<Rightarrow> gval gomap \<Rightarrow> ResolvedFact list \<Rightarrow> string list option list" where
  "placements incl root [] = []"
| "placements incl root (rf # facts) =
     (let (root', ok) = collectFact incl root rf;
          flat = (\<not> structured incl rf \<and> \<not> has_key root (hd (fact_path rf)))
      in (if rf_Value rf = GNil \<or> \<not> ok \<or> flat then None else Some (fact_path rf))
         # placements incl root' facts)"

definition sharedFact :: "gval gomap \<Rightarrow> ResolvedFact \<Rightarrow> string list option \<Rightarrow> ResolvedFact" where
  "sharedFact tree rf placed =
     (case placed of None \<Rightarrow> rf
      | Some ps \<Rightarrow> (if is_gmap (rf_Value rf) then
           (case digValue (GMap tree) ps of None \<Rightarrow> rf | Some v \<Rightarrow> rf\<lparr>rf_Value := v\<rparr>) else rf))"

definition afterCollection :: "bool \<Rightarrow> ResolvedFact list \<Rightarrow> ResolvedFact list" where
  "afterCollection incl facts =
     map2 (sharedFact (CollectionWithDottedFacts facts incl)) facts (placements incl [] facts)"

record Projection =
  pj_facts :: "ResolvedFact list"
  pj_includeTypedDotted :: bool
  pj_tree :: "gval gomap option"

definition NewProjection :: "ResolvedFact list \<Rightarrow> bool \<Rightarrow> Projection" where
  "NewProjection facts includeTypedDotted =
     \<lparr>pj_facts = facts, pj_includeTypedDotted = includeTypedDotted, pj_tree = None\<rparr>"

definition newProjectionWithTree :: "ResolvedFact list \<Rightarrow> bool \<Rightarrow> gval gomap \<Rightarrow> Projection" where
  "newProjectionWithTree facts includeTypedDotted tree =
     \<lparr>pj_facts = facts, pj_includeTypedDotted = includeTypedDotted, pj_tree = Some tree\<rparr>"

definition projectionCollection :: "Projection \<Rightarrow> gval gomap \<times> Projection" where
  "projectionCollection p =
     (case pj_tree p of Some t \<Rightarrow> (t, p)
      | None \<Rightarrow>
          let t = CollectionWithDottedFacts (pj_facts p) (pj_includeTypedDotted p)
          in (t, p\<lparr>pj_tree := Some t,
                   pj_facts := afterCollection (pj_includeTypedDotted p) (pj_facts p)\<rparr>))"

text \<open>The regular expression of \<open>factMatchesQuery\<close>: \<open>.*\<close> in the name is a wildcard, every
  other character stands for itself, and the whole query has to match.\<close>

fun glob :: "string \<Rightarrow> string \<Rightarrow> bool" where
  "glob [] s \<longleftrightarrow> s = []"
| "glob (p # ps) [] \<longleftrightarrow> (case ps of [] \<Rightarrow> False
      | q # qs \<Rightarrow> p = DOT \<and> q = CHR ''*'' \<and> glob qs [])"
| "glob (p # ps) (c # cs) \<longleftrightarrow>
     (case ps of [] \<Rightarrow> p = c \<and> glob ps cs
      | q # qs \<Rightarrow>
          if p = DOT \<and> q = CHR ''*''
          then glob qs (c # cs) \<or> (c \<noteq> NL \<and> glob (p # ps) cs)
          else p = c \<and> glob ps cs)"

definition factMatchesQuery :: "string \<Rightarrow> string \<Rightarrow> bool" where
  "factMatchesQuery factName query =
     (if contains factName ''.*'' \<and> \<not> contains query ''.'' then glob factName query
      else query = factName \<or> has_prefix query (factName @ [DOT]))"

definition findFactIn :: "ResolvedFact list \<Rightarrow> gval gomap \<Rightarrow> string \<Rightarrow> ResolvedFact" where
  "findFactIn facts collection query0 =
     (let query = to_lower query0
      in case find (\<lambda>rf. factMatchesQuery (rf_Name rf) query) (rev facts) of
           Some rf \<Rightarrow> rf\<lparr>rf_UserQuery := query\<rparr>
         | None \<Rightarrow>
             (case digValue (GMap collection) (split_on DOT query) of
                Some v \<Rightarrow> \<lparr>rf_Name = query, rf_Value = v, rf_UserQuery = query, rf_Type = [], rf_File = []\<rparr>
              | None \<Rightarrow> \<lparr>rf_Name = query, rf_Value = GNil, rf_UserQuery = query, rf_Type = ''nil'', rf_File = []\<rparr>))"

definition selectFacts :: "Projection \<Rightarrow> string list \<Rightarrow> ResolvedFact list \<times> Projection" where
  "selectFacts p queries =
     (if queries = [] then (pj_facts p, p)
      else let (collection, p') = projectionCollection p
           in (map (findFactIn (pj_facts p') collection) queries, p'))"

definition LookupValue :: "Projection \<Rightarrow> string \<Rightarrow> gval option \<times> Projection" where
  "LookupValue p query =
     (let (selected, p') = selectFacts p [query]; rf = hd selected
      in case valueForQuery rf of
           Some v \<Rightarrow> (Some v, p')
         | None \<Rightarrow>
             (if (rf_Type rf = ''custom'' \<or> rf_Type rf = ''external'') \<and> rf_Value rf = GNil
                 \<and> rf_UserQuery rf = rf_Name rf
              then (Some GNil, p') else (None, p')))"

definition MissingQueries :: "Projection \<Rightarrow> string list" where
  "MissingQueries p =
     map rf_UserQuery
       (filter (\<lambda>rf. rf_UserQuery rf \<noteq> [] \<and> ValueForQuery rf = GNil) (pj_facts p))"

definition PresentationNames :: "Projection \<Rightarrow> string list" where
  "PresentationNames p =
     map (\<lambda>rf. if rf_UserQuery rf = [] then rf_Name rf else rf_UserQuery rf) (pj_facts p)"

datatype OutputShape = ShapeFullTree | ShapeSingleQuery | ShapeMultiQuery | ShapeEmpty

fun uniqueQueriesFrom :: "bool gomap \<Rightarrow> ResolvedFact list \<Rightarrow> string list" where
  "uniqueQueriesFrom seen [] = []"
| "uniqueQueriesFrom seen (rf # facts) =
     (if is_set seen (rf_UserQuery rf) then uniqueQueriesFrom seen facts
      else rf_UserQuery rf # uniqueQueriesFrom (mput (rf_UserQuery rf) True seen) facts)"

definition uniqueQueries :: "ResolvedFact list \<Rightarrow> string list" where
  "uniqueQueries facts = uniqueQueriesFrom [] facts"

definition Shape :: "Projection \<Rightarrow> OutputShape" where
  "Shape p =
     (let queries = uniqueQueries (pj_facts p)
      in if length queries = 0 then ShapeEmpty
         else if length queries = 1 \<and> queries ! 0 = [] then ShapeFullTree
         else if length queries = 1 then ShapeSingleQuery
         else ShapeMultiQuery)"

definition FullTree :: "Projection \<Rightarrow> gval gomap \<times> Projection" where
  "FullTree p = projectionCollection p"

text \<open>An out-of-range read panics in Go: \<open>None\<close> where there is no fact.\<close>

definition SingleQueryValue :: "Projection \<Rightarrow> gval option" where
  "SingleQueryValue p = (case pj_facts p of [] \<Rightarrow> None | rf # _ \<Rightarrow> Some (ValueForQuery rf))"

definition factsForQueries :: "ResolvedFact list \<Rightarrow> gval gomap" where
  "factsForQueries facts = foldl (\<lambda>m rf. mput (rf_UserQuery rf) (ValueForQuery rf) m) [] facts"

definition MultiQueryValues :: "Projection \<Rightarrow> gval gomap" where
  "MultiQueryValues p = factsForQueries (pj_facts p)"

section \<open>Lemmas\<close>

lemma find_rev_last:
  "P x \<Longrightarrow> \<forall>y\<in>set post. \<not> P y \<Longrightarrow> find P (rev (pre @ x # post)) = Some x"
proof (induction post rule: rev_induct)
  case (snoc y ys)
  then show ?case by (metis append.assoc append_Cons find.simps(2) in_set_conv_decomp rev_append
      rev_singleton_conv append_Nil list.set_intros(1) rev.simps(2))
qed simp

lemma find_None_rev: "find P (rev xs) = None \<longleftrightarrow> (\<forall>x\<in>set xs. \<not> P x)"
  by (auto simp: find_None_iff)

lemma projectionCollection_memo:
  "projectionCollection (snd (projectionCollection p)) = projectionCollection p"
  by (auto simp: projectionCollection_def Let_def split: option.splits)

interpretation tree_cell: memo_cell projectionCollection
  by unfold_locales (simp add: projectionCollection_memo)

lemma length_placements [simp]: "length (placements incl root facts) = length facts"
  by (induction facts arbitrary: root) (auto simp: Let_def split: prod.splits)

lemma length_afterCollection [simp]: "length (afterCollection incl facts) = length facts"
  by (simp add: afterCollection_def)

lemma sharedFact_fields [simp]:
  "rf_Name (sharedFact t rf pl) = rf_Name rf"
  "rf_UserQuery (sharedFact t rf pl) = rf_UserQuery rf"
  "rf_Type (sharedFact t rf pl) = rf_Type rf"
  "rf_File (sharedFact t rf pl) = rf_File rf"
  by (auto simp: sharedFact_def split: option.splits)

lemma afterCollection_fields:
  "map rf_Name (afterCollection incl facts) = map rf_Name facts"
  "map rf_Type (afterCollection incl facts) = map rf_Type facts"
  by (auto simp: afterCollection_def intro!: nth_equalityI)

lemma sharedFact_not_map: "\<not> is_gmap (rf_Value rf) \<Longrightarrow> sharedFact t rf pl = rf"
  by (simp add: sharedFact_def split: option.splits)

lemma valueForQuery_self:
  "rf_UserQuery rf = rf_Name rf \<Longrightarrow> rf_Value rf \<noteq> GNil \<Longrightarrow>
     valueForQuery rf = Some (rf_Value rf)"
  by (simp add: valueForQuery_def)

text \<open>The last test of \<open>LookupValue\<close> never decides: \<open>valueForQuery\<close> has already found the fact.\<close>

lemma valueForQuery_nil_fact:
  "rf_Type rf = ''custom'' \<or> rf_Type rf = ''external'' \<Longrightarrow> rf_Value rf = GNil \<Longrightarrow>
     rf_UserQuery rf = rf_Name rf \<Longrightarrow> valueForQuery rf = Some GNil"
  by (simp add: valueForQuery_def)

lemma LookupValue_eq:
  "fst (LookupValue p query) =
     valueForQuery (findFactIn (pj_facts (snd (projectionCollection p)))
                     (fst (projectionCollection p)) query)"
proof -
  obtain t q where c: "projectionCollection p = (t, q)" by fastforce
  let ?rf = "findFactIn (pj_facts q) t query"
  have s: "selectFacts p [query] = ([?rf], q)" by (simp add: selectFacts_def c)
  show ?thesis
    using valueForQuery_nil_fact [of ?rf]
    by (cases "valueForQuery ?rf") (auto simp: LookupValue_def Let_def s c)
qed

lemma uniqueQueriesFrom_set:
  "set (uniqueQueriesFrom seen facts) = rf_UserQuery ` set facts - {q. is_set seen q}"
proof (induction facts arbitrary: seen)
  case (Cons rf facts)
  have "is_set (mput (rf_UserQuery rf) True seen) q \<longleftrightarrow> q = rf_UserQuery rf \<or> is_set seen q" for q
    by (simp add: is_set_def)
  then show ?case by (auto simp: Cons.IH)
qed simp

lemma uniqueQueriesFrom_distinct: "distinct (uniqueQueriesFrom seen facts)"
proof (induction facts arbitrary: seen)
  case (Cons rf facts)
  have "is_set (mput (rf_UserQuery rf) True seen) (rf_UserQuery rf)"
    by (simp add: is_set_def)
  then show ?case by (simp add: Cons.IH uniqueQueriesFrom_set)
qed simp

lemma uniqueQueries_set: "set (uniqueQueries facts) = rf_UserQuery ` set facts"
  by (simp add: uniqueQueries_def uniqueQueriesFrom_set is_set_def)

lemma uniqueQueries_distinct: "distinct (uniqueQueries facts)"
  by (simp add: uniqueQueries_def uniqueQueriesFrom_distinct)

lemma factsForQueries_snoc:
  "factsForQueries (facts @ [rf]) = mput (rf_UserQuery rf) (ValueForQuery rf) (factsForQueries facts)"
  by (simp add: factsForQueries_def)

lemma factsForQueries_wf: "wfm (factsForQueries facts)"
  by (induction facts rule: rev_induct) (auto simp: factsForQueries_snoc, simp add: factsForQueries_def)

lemma factsForQueries_keys: "fst ` set (factsForQueries facts) = rf_UserQuery ` set facts"
  by (induction facts rule: rev_induct) (auto simp: factsForQueries_snoc, simp_all add: factsForQueries_def)

lemma placements_incomparable:
  assumes "describes F t" and "\<forall>rf\<in>set facts. structured incl rf"
    and "\<forall>g\<in>F. \<forall>rf\<in>set (live facts). incomparable (fact_path g) (fact_path rf)"
    and "sorted_wrt (\<lambda>f g. incomparable (fact_path f) (fact_path g)) (live facts)"
  shows "placements incl t facts =
           map (\<lambda>rf. if rf_Value rf = GNil then None else Some (fact_path rf)) facts"
  using assms
proof (induction facts arbitrary: t F)
  case (Cons rf facts)
  show ?case
  proof (cases "rf_Value rf = GNil")
    case True
    with Cons.IH [OF Cons.prems(1)] Cons.prems show ?thesis
      by (simp add: collectFact_def live_def)
  next
    case False
    then have l: "live (rf # facts) = rf # live facts" by (simp add: live_def)
    have inc: "\<forall>g\<in>F. incomparable (fact_path g) (fact_path rf)" using Cons.prems(3) l by simp
    obtain t' ok where i: "insert_path t (fact_path rf) (rf_Value rf) = (t', ok)" by fastforce
    then have ok: "ok = True"
      using insert_path_ok_iff describes_insertable [OF Cons.prems(1) inc]
      by (metis fact_path_not_Nil snd_conv)
    have c: "collectFact incl t rf = (t', True)"
      using Cons.prems(2) False i ok by (simp add: collectFact_structured)
    have "describes (insert rf F) t'" using describes_insert [OF Cons.prems(1) inc] i ok by simp
    then have "placements incl t' facts =
        map (\<lambda>rf. if rf_Value rf = GNil then None else Some (fact_path rf)) facts"
      using Cons.prems l by (intro Cons.IH) auto
    with c False Cons.prems(2) show ?thesis by simp
  qed
qed simp

lemma sharedFact_same:
  "digValue (GMap t) (fact_path rf) = Some (rf_Value rf) \<Longrightarrow>
     sharedFact t rf (Some (fact_path rf)) = rf"
  by (simp add: sharedFact_def)

lemma findFactIn_last:
  "facts = pre @ rf # post \<Longrightarrow> factMatchesQuery (rf_Name rf) (to_lower query) \<Longrightarrow>
     \<forall>g\<in>set post. \<not> factMatchesQuery (rf_Name g) (to_lower query) \<Longrightarrow>
     findFactIn facts t query = rf\<lparr>rf_UserQuery := to_lower query\<rparr>"
  using find_rev_last [of "\<lambda>g. factMatchesQuery (rf_Name g) (to_lower query)" rf post pre]
  by (simp add: findFactIn_def Let_def)

lemma valueForQuery_own:
  "t \<noteq> ''custom'' \<Longrightarrow> t \<noteq> ''external'' \<Longrightarrow>
     valueForQuery \<lparr>rf_Name = q, rf_Value = v, rf_UserQuery = q, rf_Type = t, rf_File = f\<rparr> =
       (if v = GNil then None else Some v)"
  by (simp add: valueForQuery_def)

lemma findFactIn_none:
  "\<forall>g\<in>set facts. \<not> factMatchesQuery (rf_Name g) (to_lower query) \<Longrightarrow>
     valueForQuery (findFactIn facts t query) =
       (case digValue (GMap t) (split_on DOT (to_lower query)) of
          Some v \<Rightarrow> (if v = GNil then None else Some v) | None \<Rightarrow> None)"
  using find_None_rev [of "\<lambda>g. factMatchesQuery (rf_Name g) (to_lower query)" facts]
  by (cases "digValue (GMap t) (split_on DOT (to_lower query))")
    (simp_all add: findFactIn_def Let_def valueForQuery_own del: digValue.simps)

lemma findFactIn_query [simp]: "rf_UserQuery (findFactIn facts t query) = to_lower query"
  by (simp add: findFactIn_def Let_def split: option.splits)

lemma selectFacts_queries:
  "queries \<noteq> [] \<Longrightarrow> fst (selectFacts p queries) =
     map (findFactIn (pj_facts (snd (projectionCollection p))) (fst (projectionCollection p))) queries"
  by (simp add: selectFacts_def case_prod_beta)

lemma LookupValue_state: "snd (LookupValue p query) = snd (projectionCollection p)"
  by (simp add: LookupValue_def selectFacts_def Let_def case_prod_beta split: option.splits)

lemma wildcard_glob:
  "glob (DOT # CHR ''*'' # ps) s \<longleftrightarrow> (\<exists>m r. s = m @ r \<and> NL \<notin> set m \<and> glob ps r)"
proof (induction s)
  case (Cons c cs)
  have "glob (DOT # CHR ''*'' # ps) (c # cs) \<longleftrightarrow>
      glob ps (c # cs) \<or> (c \<noteq> NL \<and> glob (DOT # CHR ''*'' # ps) cs)" by simp
  also have "\<dots> \<longleftrightarrow> (\<exists>m r. c # cs = m @ r \<and> NL \<notin> set m \<and> glob ps r)" (is "?L \<longleftrightarrow> ?R")
  proof
    assume ?L
    then show ?R
    proof
      assume "glob ps (c # cs)"
      then show ?R by (intro exI [of _ "[]"] exI [of _ "c # cs"]) simp
    next
      assume "c \<noteq> NL \<and> glob (DOT # CHR ''*'' # ps) cs"
      then obtain m r where "cs = m @ r" "NL \<notin> set m" "glob ps r" "c \<noteq> NL" using Cons.IH by blast
      then show ?R by (intro exI [of _ "c # m"] exI [of _ r]) simp
    qed
  next
    assume ?R
    then obtain m r where "c # cs = m @ r" "NL \<notin> set m" "glob ps r" by blast
    then show ?L using Cons.IH by (cases m) auto
  qed
  finally show ?case .
qed simp

lemma literal_glob:
  "CHR ''*'' \<notin> set a \<Longrightarrow> b = [] \<or> hd b \<noteq> CHR ''*'' \<Longrightarrow>
     glob (a @ b) s \<longleftrightarrow> (\<exists>r. s = a @ r \<and> glob b r)"
proof (induction a arbitrary: s)
  case (Cons p ps)
  show ?case
  proof (cases s)
    case Nil
    with Cons.prems show ?thesis by (cases ps; cases b) auto
  next
    case (Cons c cs)
    from Cons.prems Cons.IH [of cs] Cons show ?thesis by (cases ps; cases b) auto
  qed
qed simp

section \<open>Properties\<close>

text \<open>C9: The last resolved fact that matches a query decides it: whatever earlier facts of the
  list match, the lookup reads the value of the last one.\<close>

theorem LookupValue_last_match:
  assumes "pj_facts (snd (projectionCollection p)) = pre @ rf # post"
    and "factMatchesQuery (rf_Name rf) (to_lower query)"
    and "\<forall>g\<in>set post. \<not> factMatchesQuery (rf_Name g) (to_lower query)"
  shows "fst (LookupValue p query) = valueForQuery (rf\<lparr>rf_UserQuery := to_lower query\<rparr>)"
  unfolding LookupValue_eq using findFactIn_last [OF assms] by simp

theorem LookupValue_last_match_witness:
  "fst (LookupValue (NewProjection [core_fact ''role'' (GStr ''web''),
     typed_fact ''role'' (GStr ''db'') ''external''] False) ''ROLE'') = Some (GStr ''db'')"
proof -
  let ?fs = "[core_fact ''role'' (GStr ''web''), typed_fact ''role'' (GStr ''db'') ''external'']"
  have "pj_facts (snd (projectionCollection (NewProjection ?fs False))) =
      [core_fact ''role'' (GStr ''web'')] @ typed_fact ''role'' (GStr ''db'') ''external'' # []"
    by code_simp
  moreover have "to_lower ''ROLE'' = ''role''" by code_simp
  moreover have "factMatchesQuery ''role'' ''role''" by code_simp
  ultimately show ?thesis
    using LookupValue_last_match [of "NewProjection ?fs False" "[core_fact ''role'' (GStr ''web'')]"
        "typed_fact ''role'' (GStr ''db'') ''external''" "[]" "''ROLE''"]
    by (simp add: valueForQuery_def)
qed

text \<open>A query that no fact name matches falls back to the tree: it is found exactly when the
  tree has a value that is not nil at its path.\<close>

lemma LookupValue_tree_fallback:
  assumes "\<forall>g\<in>set (pj_facts (snd (projectionCollection p))).
             \<not> factMatchesQuery (rf_Name g) (to_lower query)"
  shows "fst (LookupValue p query) =
     (case digValue (GMap (fst (projectionCollection p))) (split_on DOT (to_lower query)) of
        Some v \<Rightarrow> (if v = GNil then None else Some v) | None \<Rightarrow> None)"
  unfolding LookupValue_eq by (rule findFactIn_none [OF assms])

lemma LookupValue_tree_fallback_witness:
  "fst (LookupValue (NewProjection [core_fact ''os.name'' (GStr ''Debian'')] False) ''os'') =
     Some (GMap [(''name'', GStr ''Debian'')])"
proof -
  let ?p = "NewProjection [core_fact ''os.name'' (GStr ''Debian'')] False"
  have "\<forall>g\<in>set (pj_facts (snd (projectionCollection ?p))).
      \<not> factMatchesQuery (rf_Name g) (to_lower ''os'')"
    by code_simp
  then have "fst (LookupValue ?p ''os'') =
    (case digValue (GMap (fst (projectionCollection ?p))) (split_on DOT (to_lower ''os'')) of
        Some v \<Rightarrow> (if v = GNil then None else Some v) | None \<Rightarrow> None)"
    by (rule LookupValue_tree_fallback)
  also have "\<dots> = Some (GMap [(''name'', GStr ''Debian'')])" by code_simp
  finally show ?thesis .
qed

text \<open>Building the tree once is enough: after any lookup every further lookup answers as it
  would have before, and the first read of the tree is the result of every later one.\<close>

lemma LookupValue_stable:
  "fst (LookupValue (snd (LookupValue p query')) query) = fst (LookupValue p query) \<and>
   fst (tree_cell.reads n p) = replicate n (fst (FullTree p))"
  by (simp add: LookupValue_eq LookupValue_state projectionCollection_memo tree_cell.reads_same
      FullTree_def)

text \<open>Strict mode reports exactly the selected queries whose lookup is missing or nil.\<close>

lemma MissingQueries_selected:
  assumes "queries \<noteq> []" and "[] \<notin> set queries"
  shows "MissingQueries (NewProjection (fst (selectFacts p queries)) incl) =
     filter (\<lambda>q. fst (LookupValue p q) = None \<or> fst (LookupValue p q) = Some GNil) (map to_lower queries)"
proof -
  define find_q where "find_q =
    findFactIn (pj_facts (snd (projectionCollection p))) (fst (projectionCollection p))"
  have f: "find_q (to_lower q) = find_q q" for q
    by (simp add: find_q_def findFactIn_def)
  have l: "fst (LookupValue p q) = valueForQuery (find_q q)" for q
    by (simp add: LookupValue_eq find_q_def)
  have v: "ValueForQuery rf = GNil \<longleftrightarrow> valueForQuery rf = None \<or> valueForQuery rf = Some GNil" for rf
    by (simp add: ValueForQuery_def split: option.split)
  have q: "rf_UserQuery (find_q q) = to_lower q" for q by (simp add: find_q_def)
  have s: "fst (selectFacts p queries) = map find_q queries"
    using selectFacts_queries [OF assms(1)] by (simp add: find_q_def)
  have "filter (\<lambda>rf. rf_UserQuery rf \<noteq> [] \<and> ValueForQuery rf = GNil) (map find_q queries) =
      map find_q (filter (\<lambda>q. ValueForQuery (find_q q) = GNil) queries)"
    using assms(2) by (auto simp: filter_map o_def q intro!: arg_cong [of _ _ "map find_q"] filter_cong)
  then show ?thesis
    by (simp add: MissingQueries_def NewProjection_def s filter_map o_def q l f v)
qed

lemma MissingQueries_selected_witness:
  "MissingQueries (NewProjection (fst (selectFacts (NewProjection [core_fact ''os'' (GStr ''x'')] False)
      [''nope'', ''os'']) ) False) = [''nope'']"
proof -
  have "filter (\<lambda>q. fst (LookupValue (NewProjection [core_fact ''os'' (GStr ''x'')] False) q) = None \<or>
        fst (LookupValue (NewProjection [core_fact ''os'' (GStr ''x'')] False) q) = Some GNil)
      (map to_lower [''nope'', ''os'']) = [''nope'']"
    by code_simp
  then show ?thesis
    using MissingQueries_selected [of "[''nope'', ''os'']"
        "NewProjection [core_fact ''os'' (GStr ''x'')] False" False] by simp
qed

text \<open>The output shape is determined by the set of selected queries: none for an empty list,
  the full tree when no fact carries a query, a bare value for exactly one query, and a
  query map otherwise; its keys are exactly the selected queries, each once.\<close>

lemma Shape_characterised:
  "Shape p =
     (if pj_facts p = [] then ShapeEmpty
      else if card (rf_UserQuery ` set (pj_facts p)) > 1 then ShapeMultiQuery
      else if rf_UserQuery (hd (pj_facts p)) = [] then ShapeFullTree else ShapeSingleQuery) \<and>
   distinct (map fst (MultiQueryValues p)) \<and>
   fst ` set (MultiQueryValues p) = set (uniqueQueries (pj_facts p))"
proof -
  let ?U = "uniqueQueries (pj_facts p)"
  have d: "length ?U = card (rf_UserQuery ` set (pj_facts p))"
    by (metis distinct_card uniqueQueries_distinct uniqueQueries_set)
  have e: "length ?U = 0 \<longleftrightarrow> pj_facts p = []"
    using uniqueQueries_set [of "pj_facts p"] by force
  have one: "?U ! 0 = rf_UserQuery (hd (pj_facts p))" if "length ?U = 1"
  proof -
    from that obtain q where "?U = [q]" by (metis One_nat_def length_0_conv length_Suc_conv)
    moreover have "pj_facts p \<noteq> []" using that e by force
    moreover have "rf_UserQuery (hd (pj_facts p)) \<in> set ?U"
      using calculation(2) by (simp add: uniqueQueries_set)
    ultimately show ?thesis by simp
  qed
  have "Shape p = (if length ?U = 0 then ShapeEmpty else if length ?U > 1 then ShapeMultiQuery
      else if rf_UserQuery (hd (pj_facts p)) = [] then ShapeFullTree else ShapeSingleQuery)"
    using one unfolding Shape_def Let_def
    by (cases rule: linorder_cases [of "length ?U" 1]) simp_all
  then show ?thesis
    using e d factsForQueries_wf [of "pj_facts p"]
    by (simp add: MultiQueryValues_def factsForQueries_keys uniqueQueries_set wfm_def)
qed

text \<open>Rendering a set of facts with unrelated paths does not change what the facts hold,
  although the tree shares their maps.\<close>

lemma afterCollection_unrelated:
  assumes "\<forall>rf\<in>set facts. structured incl rf" and "unrelated (live facts)"
  shows "afterCollection incl facts = facts"
proof -
  let ?t = "CollectionWithDottedFacts facts incl"
  have d: "describes (set (live facts)) ?t"
    using collectFacts_unrelated [OF assms] by (simp add: CollectionWithDottedFacts_def)
  have pl: "placements incl [] facts =
      map (\<lambda>rf. if rf_Value rf = GNil then None else Some (fact_path rf)) facts"
    by (rule placements_incomparable [OF describes_empty assms(1) _ unrelated_sorted_wrt [OF assms(2)]]) simp
  have "sharedFact ?t rf (if rf_Value rf = GNil then None else Some (fact_path rf)) = rf"
    if "rf \<in> set facts" for rf
  proof (cases "rf_Value rf = GNil")
    case False
    with that have "rf \<in> set (live facts)" by (simp add: live_def)
    then have "digValue (GMap ?t) (fact_path rf) = Some (rf_Value rf)"
      using describes_below [OF d, of rf "fact_path rf"] by simp
    with False show ?thesis by (simp add: sharedFact_same)
  qed (simp add: sharedFact_def)
  then show ?thesis
    by (simp add: afterCollection_def pl map2_map_map map_idI zip_map2 zip_same_conv_map o_def)
qed

lemma afterCollection_unrelated_witness:
  "afterCollection False [core_fact ''os'' (GMap [(''name'', GStr ''x'')]), core_fact ''kernel'' (GStr ''y'')] =
     [core_fact ''os'' (GMap [(''name'', GStr ''x'')]), core_fact ''kernel'' (GStr ''y'')]"
  by (rule afterCollection_unrelated)
    (simp_all add: structured_def live_def unrelated_def incomparable_def fact_path_def)

text \<open>A fact name with one wildcard matches a query without dots exactly when the query
  starts with the text before it and ends with the text after it.\<close>

lemma factMatchesQuery_wildcard:
  assumes "CHR ''*'' \<notin> set a" and "CHR ''*'' \<notin> set b" and "\<not> contains query ''.''"
    and "contains (a @ ''.*'' @ b) ''.*''"
  shows "factMatchesQuery (a @ ''.*'' @ b) query \<longleftrightarrow> (\<exists>m. query = a @ m @ b \<and> NL \<notin> set m)"
proof -
  have "glob (a @ ''.*'' @ b) query \<longleftrightarrow> (\<exists>m. query = a @ m @ b \<and> NL \<notin> set m)"
    using literal_glob [OF assms(1), of "''.*'' @ b" query] literal_glob [OF assms(2), of "[]"]
      wildcard_glob [of b] by auto
  then show ?thesis using assms(3,4) by (simp add: factMatchesQuery_def)
qed

lemma factMatchesQuery_wildcard_witness:
  "factMatchesQuery ''ip_.*_v4'' ''ip_eth0_v4'' \<longleftrightarrow> (\<exists>m. ''ip_eth0_v4'' = ''ip_'' @ m @ ''_v4'' \<and> NL \<notin> set m)"
proof -
  have "\<not> contains ''ip_eth0_v4'' ''.''" "contains (''ip_'' @ ''.*'' @ ''_v4'') ''.*''" by code_simp+
  then show ?thesis using factMatchesQuery_wildcard [of "''ip_''" "''_v4''" "''ip_eth0_v4''"] by simp
qed

end
