(* ===== verification/Snapshot.thy ===== *)
theory Snapshot
  imports Projection Go_Library
begin

text \<open>
  \<open>internal/engine/snapshot.go\<close>: the immutable result of a discovery and its queries, and the
  normalization and null-byte check of registered fact values. Values are immutable trees
  here, on which the defensive copies of the code are the identity; that a copy over mutable
  references looks like its original and is apart from it is shown in \<open>Deep_Copy\<close>. The reflective cases cover maps with string keys
  (\<open>GTypedMap\<close>), maps with keys of any type and string slices.
\<close>

section \<open>Snapshots\<close>

record Snapshot =
  sn_facts :: "ResolvedFact list"
  sn_tree :: "gval gomap"
  sn_projection :: Projection

text \<open>\<open>collectFacts\<close> shares the maps of the copied facts with the tree, so the facts read as they
  do after the collection.\<close>

definition newSnapshot :: "ResolvedFact list \<Rightarrow> Snapshot \<times> log" where
  "newSnapshot facts =
     (let (tree, collisions) = collectFacts facts False;
          held = afterCollection False facts
      in (\<lparr>sn_facts = held, sn_tree = tree, sn_projection = newProjectionWithTree held False tree\<rparr>,
          map (\<lambda>rf. (LevelError, collisionMessage rf)) collisions))"

definition snapshotValue :: "Snapshot \<Rightarrow> string \<Rightarrow> goerror + gval" where
  "snapshotValue sn query =
     (case fst (LookupValue (sn_projection sn) query) of
        Some v \<Rightarrow> Inr v
      | None \<Rightarrow> Inl (ErrWrap (''fact '' @ go_quote query) ErrFactNotFound))"

definition snapshotTree :: "Snapshot \<Rightarrow> gval gomap" where
  "snapshotTree sn = sn_tree sn"

text \<open>The entries the iterator yields, in order, to a consumer that stops when \<open>yield\<close> is false.\<close>

definition snapshotAll :: "Snapshot \<Rightarrow> (string \<times> gval) list" where
  "snapshotAll sn = map (\<lambda>name. (name, the (mget (sn_tree sn) name))) (sorted_keys (sn_tree sn))"

definition OutputProjection :: "Snapshot \<Rightarrow> bool \<Rightarrow> Projection" where
  "OutputProjection sn includeTypedDotted = NewProjection (sn_facts sn) includeTypedDotted"

section \<open>Registered values\<close>

text \<open>The first argument is \<open>Format(time.RFC3339)\<close>.\<close>

fun normalizeCustomValue :: "(gtime \<Rightarrow> string) \<Rightarrow> gval \<Rightarrow> gval" where
  "normalizeCustomValue rfc (GTime t) = GStr (rfc t)"
| "normalizeCustomValue rfc (GList xs) = GList (map (normalizeCustomValue rfc) xs)"
| "normalizeCustomValue rfc (GMap m) =
     GMap (map (\<lambda>kv. (fst kv, normalizeCustomValue rfc (snd kv))) m)"
| "normalizeCustomValue rfc (GTypedMap m) =
     GMap (map (\<lambda>kv. (fst kv, normalizeCustomValue rfc (snd kv))) m)"
| "normalizeCustomValue rfc v = v"

definition key_has_nul :: "gkey \<Rightarrow> bool" where
  "key_has_nul k \<longleftrightarrow> (case k of KStr s \<Rightarrow> NUL \<in> set s | _ \<Rightarrow> False)"

fun customValueContainsNullByte :: "gval \<Rightarrow> bool" where
  "customValueContainsNullByte (GStr s) \<longleftrightarrow> NUL \<in> set s"
| "customValueContainsNullByte (GList xs) \<longleftrightarrow> list_ex customValueContainsNullByte xs"
| "customValueContainsNullByte (GMap m) \<longleftrightarrow>
     list_ex (\<lambda>kv. NUL \<in> set (fst kv) \<or> customValueContainsNullByte (snd kv)) m"
| "customValueContainsNullByte (GTypedMap m) \<longleftrightarrow>
     list_ex (\<lambda>kv. NUL \<in> set (fst kv) \<or> customValueContainsNullByte (snd kv)) m"
| "customValueContainsNullByte (GAnyMap m) \<longleftrightarrow>
     list_ex (\<lambda>kv. key_has_nul (fst kv) \<or> customValueContainsNullByte (snd kv)) m"
| "customValueContainsNullByte (GStrs xs) \<longleftrightarrow> list_ex (\<lambda>s. NUL \<in> set s) xs"
| "customValueContainsNullByte v \<longleftrightarrow> False"

section \<open>Lemmas\<close>

text \<open>Values that are tree shaped: no time and no typed map outside maps with keys of any type.\<close>

fun tree_shaped :: "gval \<Rightarrow> bool" where
  "tree_shaped (GTime t) \<longleftrightarrow> False"
| "tree_shaped (GTypedMap m) \<longleftrightarrow> False"
| "tree_shaped (GList xs) \<longleftrightarrow> list_all tree_shaped xs"
| "tree_shaped (GMap m) \<longleftrightarrow> list_all (\<lambda>kv. tree_shaped (snd kv)) m"
| "tree_shaped v \<longleftrightarrow> True"

lemma normalizeCustomValue_shaped: "tree_shaped (normalizeCustomValue rfc v)"
  by (induction rfc v rule: normalizeCustomValue.induct) (auto simp: list_all_iff)

lemma normalizeCustomValue_same: "tree_shaped v \<Longrightarrow> normalizeCustomValue rfc v = v"
proof (induction rfc v rule: normalizeCustomValue.induct)
  case (2 rfc xs)
  then show ?case by (auto simp: list_all_iff intro: map_idI)
next
  case (3 rfc m)
  then show ?case by (auto simp: list_all_iff intro: map_idI)
qed auto

lemma normalizeCustomValue_wf: "wfv v \<Longrightarrow> wfv (normalizeCustomValue rfc v)"
  by (induction rfc v rule: normalizeCustomValue.induct) (auto simp: list_all_iff o_def)

lemma newSnapshot_sel:
  "sn_facts (fst (newSnapshot facts)) = afterCollection False facts"
  "sn_tree (fst (newSnapshot facts)) = Collection facts"
  "sn_projection (fst (newSnapshot facts)) =
     newProjectionWithTree (afterCollection False facts) False (Collection facts)"
  by (simp_all add: newSnapshot_def Let_def case_prod_beta Collection_def CollectionWithDottedFacts_def)

lemma snapshotValue_eq:
  "snapshotValue (fst (newSnapshot facts)) query =
     (case valueForQuery (findFactIn (afterCollection False facts) (Collection facts) query) of
        Some v \<Rightarrow> Inr v | None \<Rightarrow> Inl (ErrWrap (''fact '' @ go_quote query) ErrFactNotFound))"
  by (simp add: snapshotValue_def LookupValue_eq newSnapshot_sel newProjectionWithTree_def
      projectionCollection_def)

section \<open>Properties\<close>

text \<open>Normalizing a registered value gives a tree-shaped value - no time and no typed map is
  left in lists and maps - and is idempotent.\<close>

lemma normalizeCustomValue_spec:
  "tree_shaped (normalizeCustomValue rfc v) \<and>
   normalizeCustomValue rfc (normalizeCustomValue rfc v) = normalizeCustomValue rfc v"
  using normalizeCustomValue_shaped normalizeCustomValue_same by metis

text \<open>The top-level entries a snapshot iterates over are exactly the entries of its tree, each
  once and in sorted order, and each is what a query for its name finds in the tree.\<close>

lemma snapshotAll_spec:
  assumes "list_all (\<lambda>rf. wfv (rf_Value rf)) facts"
  shows "map fst (snapshotAll (fst (newSnapshot facts))) =
           sorted_list_of_set (fst ` set (snapshotTree (fst (newSnapshot facts)))) \<and>
         (\<forall>(name, v)\<in>set (snapshotAll (fst (newSnapshot facts))).
            digValue (GMap (snapshotTree (fst (newSnapshot facts)))) [name] = Some v)"
proof -
  let ?t = "fst (collectFacts facts False)"
  have t: "sn_tree (fst (newSnapshot facts)) = ?t"
    by (simp add: newSnapshot_sel Collection_def CollectionWithDottedFacts_def)
  have "wfv (GMap ?t)"
    unfolding collectFacts_def using assms by (intro collectFrom_wf) (simp_all add: list_all_iff)
  then have d: "wfm ?t" by (simp add: wfm_def)
  then have "sorted_keys ?t = sorted_list_of_set (fst ` set ?t)"
    by (metis distinct_sorted_keys set_sorted_keys sorted_list_of_set.idem_if_sorted_distinct
        sorted_sorted_keys)
  moreover have "mget ?t name = Some (the (mget ?t name))" if "name \<in> fst ` set ?t" for name
    using that by (metis map_of_eq_None_iff option.exhaust_sel)
  ultimately show ?thesis
    by (auto simp: snapshotAll_def snapshotTree_def t o_def split: option.splits)
qed

lemma snapshotAll_spec_witness:
  "map fst (snapshotAll (fst (newSnapshot [core_fact ''os.name'' (GStr ''x''), core_fact ''dmi'' (GStr ''y'')]))) =
     sorted_list_of_set (fst ` set (snapshotTree (fst (newSnapshot
       [core_fact ''os.name'' (GStr ''x''), core_fact ''dmi'' (GStr ''y'')]))))"
  using snapshotAll_spec [of "[core_fact ''os.name'' (GStr ''x''), core_fact ''dmi'' (GStr ''y'')]"]
  by simp

end
