(* ===== verification/Cache.thy ===== *)
theory Cache
  imports Snapshot Discovery_Plan
begin

text \<open>
  \<open>internal/engine/cache.go\<close>: the persistent cache of fact groups. The cache directory is the
  state: a map from file names to a modification time and the decoded JSON document (\<open>None\<close>
  when the file is not JSON). What the operating system and the standard library decide - the
  clock, permissions, JSON's view of a value, compiled regular expressions - is the record
  \<open>cacheHost\<close>. The clock is read once per call. Log messages leave out the text of the
  operating system's error.
\<close>

section \<open>State and host\<close>

record cacheFile =
  cf_mtime :: int
  cf_doc :: "gval option"

type_synonym cacheDir = "cacheFile gomap"

text \<open>\<open>ch_json\<close> is what decoding an encoded value gives, \<open>None\<close> when it cannot be encoded;
  \<open>ch_regexp\<close> is the compiled pattern, \<open>None\<close> when it does not compile.\<close>

record cacheHost =
  ch_now :: int
  ch_json :: "gval \<Rightarrow> gval option"
  ch_regexp :: "string \<Rightarrow> (string \<Rightarrow> bool) option"
  ch_mkdirErr :: "goerror option"
  ch_writeErr :: "string \<Rightarrow> goerror option"
  ch_removeErr :: "string \<Rightarrow> goerror option"

record FactCache =
  fc_dir :: string
  fc_groups :: "FactGroup gomap"
  fc_ttls :: "int gomap"

section \<open>Durations\<close>

abbreviation second_ns :: int where "second_ns \<equiv> 1000000000"

definition ttlUnitMultiplier :: "string \<Rightarrow> int option" where
  "ttlUnitMultiplier unit =
     (if unit \<in> {''ns'', ''nanos'', ''nanoseconds''} then Some 1
      else if unit \<in> {''us'', ''micros'', ''microseconds''} then Some 1000
      else if unit \<in> {'''', ''ms'', ''milis'', ''milliseconds''} then Some 1000000
      else if unit \<in> {''s'', ''seconds''} then Some second_ns
      else if unit \<in> {''m'', ''minutes''} then Some (60 * second_ns)
      else if unit \<in> {''h'', ''hours''} then Some (3600 * second_ns)
      else if unit \<in> {''d'', ''days''} then Some (86400 * second_ns)
      else None)"

definition parseTTLDuration :: "string \<Rightarrow> int option" where
  "parseTTLDuration value =
     (let fs = string_fields value
      in if fs = [] \<or> length fs > 2 then None
         else case atoi (fs ! 0) of
           None \<Rightarrow> None
         | Some amount \<Rightarrow>
             (if amount < 0 then None
              else
                let unit0 = (if length fs = 2 then fs ! 1 else []);
                    unit = (if length unit0 > 2 \<and> \<not> has_suffix unit0 ''s'' then unit0 @ ''s'' else unit0)
                in case ttlUnitMultiplier unit of
                     None \<Rightarrow> None
                   | Some multiplier \<Rightarrow>
                       (if multiplier > 0 \<and> amount > go_div max_int64 multiplier then None
                        else let duration = wrap64 (amount * multiplier)
                             in Some (if multiplier < second_ns then duration - duration mod second_ns
                                      else duration))))"

definition NewFactCache :: "string \<Rightarrow> FactTTL list \<Rightarrow> FactGroup list \<Rightarrow> FactCache" where
  "NewFactCache dir ttls groups =
     \<lparr>fc_dir = dir,
      fc_groups = foldl (\<lambda>m g. mput (fg_Name g) g m) [] (BuiltinFactGroups @ groups),
      fc_ttls = foldl (\<lambda>m t. case parseTTLDuration (ttl_TTL t) of Some d \<Rightarrow> mput (ttl_Fact t) d m
                  | None \<Rightarrow> m) [] ttls\<rparr>"

section \<open>Group of a fact\<close>

definition factMatchesPrefix :: "string \<Rightarrow> string \<Rightarrow> bool" where
  "factMatchesPrefix name p \<longleftrightarrow> name = p \<or> has_prefix name (p @ [DOT])"

record bestGroup =
  bg_group :: string
  bg_ttl :: int
  bg_len :: int

definition considerPrefix ::
  "string \<Rightarrow> string \<Rightarrow> int \<Rightarrow> bestGroup \<Rightarrow> string \<Rightarrow> bestGroup" where
  "considerPrefix name configured ttl b p =
     (if factMatchesPrefix name p \<and> int (length p) > bg_len b
      then \<lparr>bg_group = configured, bg_ttl = ttl, bg_len = int (length p)\<rparr> else b)"

definition considerGroup :: "FactCache \<Rightarrow> string \<Rightarrow> bestGroup \<Rightarrow> string \<times> int \<Rightarrow> bestGroup" where
  "considerGroup fc name b ct = (let (configured, ttl) = ct
     in foldl (considerPrefix name configured ttl) b
          (case mget (fc_groups fc) configured of Some g \<Rightarrow> fg_Facts g | None \<Rightarrow> [configured]))"

definition cacheGroupForFact :: "FactCache \<Rightarrow> string \<Rightarrow> (string \<times> int) option" where
  "cacheGroupForFact fc name =
     (let b = foldl (considerGroup fc name) \<lparr>bg_group = [], bg_ttl = 0, bg_len = -1\<rparr> (fc_ttls fc)
      in if bg_len b \<ge> 0 then Some (bg_group b, bg_ttl b) else None)"

definition cacheGroupForResolvedFact :: "FactCache \<Rightarrow> ResolvedFact \<Rightarrow> (string \<times> int) option" where
  "cacheGroupForResolvedFact fc rf =
     (case (if rf_Type rf = ''file'' \<and> rf_File rf \<noteq> []
            then cacheGroupForFact fc (path_base (rf_File rf)) else None) of
        Some gt \<Rightarrow> Some gt | None \<Rightarrow> cacheGroupForFact fc (rf_Name rf))"

section \<open>File names\<close>

definition windowsReservedCacheName :: "string \<Rightarrow> bool" where
  "windowsReservedCacheName name =
     (let upper = to_upper name;
          base = (case cut upper ''.'' of Some (before, _) \<Rightarrow> before | None \<Rightarrow> upper)
      in base \<in> {''CON'', ''PRN'', ''AUX'', ''NUL''} \<or>
         (length base = 4 \<and> CHR ''1'' \<le> base ! 3 \<and> base ! 3 \<le> CHR ''9'' \<and>
          (has_prefix base ''COM'' \<or> has_prefix base ''LPT'')))"

definition safeCacheGroupName :: "string \<Rightarrow> bool" where
  "safeCacheGroupName name \<longleftrightarrow>
     name \<noteq> [] \<and> name \<noteq> ''.'' \<and> name \<noteq> ''..'' \<and> trim_right name ''. '' = name \<and>
     path_clean name = name \<and> \<not> path_isAbs name \<and>
     \<not> contains_any name [SLASH, BSLASH, CHR '':''] \<and> \<not> windowsReservedCacheName name"

definition unsafeName :: "string \<Rightarrow> log" where
  "unsafeName group0 = [(LevelWarn, ''Ignoring unsafe cache group name '' @ go_quote group0)]"

definition cachePath :: "FactCache \<Rightarrow> string \<Rightarrow> string option \<times> log" where
  "cachePath fc group0 =
     (if \<not> safeCacheGroupName group0 then (None, unsafeName group0)
      else (Some (path_join (fc_dir fc) group0), []))"

section \<open>Files\<close>

definition removeFile :: "cacheHost \<Rightarrow> string \<Rightarrow> cacheDir \<Rightarrow> goerror option \<times> cacheDir" where
  "removeFile h path d =
     (case ch_removeErr h path of Some e \<Rightarrow> (Some e, d)
      | None \<Rightarrow> if has_key d path then (None, mdel path d) else (Some ErrNotExist, d))"

definition deleteCacheFile :: "cacheHost \<Rightarrow> string \<Rightarrow> cacheDir \<Rightarrow> cacheDir \<times> log" where
  "deleteCacheFile h path d =
     (case removeFile h path d of
        (Some e, d') \<Rightarrow> (d', [(LevelWarn, ''Could not delete cache'')])
      | (None, d') \<Rightarrow> (d', []))"

definition cacheFresh :: "cacheHost \<Rightarrow> FactCache \<Rightarrow> string \<Rightarrow> int \<Rightarrow> cacheDir \<Rightarrow> bool \<times> cacheDir \<times> log" where
  "cacheFresh h fc group0 ttl d =
     (case cachePath fc group0 of
        (None, lg) \<Rightarrow> (False, d, lg)
      | (Some path, lg) \<Rightarrow>
          (case mget d path of
             None \<Rightarrow> (False, d, lg)
           | Some file \<Rightarrow>
               (if cf_mtime file + ttl > ch_now h then (True, d, lg)
                else (False, snd (removeFile h path d), lg))))"

definition version_key :: string where "version_key = ''cache_format_version''"

definition readCache :: "cacheHost \<Rightarrow> FactCache \<Rightarrow> string \<Rightarrow> cacheDir \<Rightarrow> gval gomap option \<times> cacheDir \<times> log" where
  "readCache h fc group0 d =
     (case cachePath fc group0 of
        (None, lg) \<Rightarrow> (None, d, lg)
      | (Some path, lg) \<Rightarrow>
          (case mget d path of
             None \<Rightarrow> (None, d, lg)
           | Some file \<Rightarrow>
               (let doc = (case cf_doc file of Some (GMap m) \<Rightarrow> Some m | Some GNil \<Rightarrow> Some [] | _ \<Rightarrow> None)
                in case doc of
                     Some m \<Rightarrow>
                       (if mget m version_key \<noteq> Some (GFloat ''1'')
                        then let (d', lg') = deleteCacheFile h path d in (None, d', lg @ lg')
                        else (Some m, d, lg))
                   | None \<Rightarrow> let (d', lg') = deleteCacheFile h path d in (None, d', lg @ lg'))))"

definition cacheContainsFacts :: "string \<Rightarrow> cacheFile \<Rightarrow> gval gomap \<Rightarrow> bool \<times> log" where
  "cacheContainsFacts path file data =
     (case cf_doc file of
        None \<Rightarrow> (False, [(LevelDebug, ''Failed to read cache file '' @ path @ ''.'')])
      | Some GNil \<Rightarrow> (False, [(LevelDebug, ''No keys found in '' @ path @ ''. Detail: cached data is nil'')])
      | Some (GMap m) \<Rightarrow> (list_all (\<lambda>kv. has_key m (fst kv)) data, [])
      | Some _ \<Rightarrow> (False, [(LevelDebug, ''No keys found in '' @ path
              @ ''. Detail: cached data has no object keys'')]))"

definition shouldWriteCache ::
  "cacheHost \<Rightarrow> FactCache \<Rightarrow> string \<Rightarrow> int \<Rightarrow> gval gomap \<Rightarrow> cacheDir \<Rightarrow> bool \<times> cacheDir \<times> log" where
  "shouldWriteCache h fc group0 ttl data d =
     (case cachePath fc group0 of
        (None, lg) \<Rightarrow> (False, d, lg)
      | (Some path, lg) \<Rightarrow>
          (case mget d path of
             None \<Rightarrow> (True, d, lg)
           | Some file \<Rightarrow>
               (if \<not> cf_mtime file + ttl > ch_now h then (True, snd (removeFile h path d), lg)
                else let (all, lg') = cacheContainsFacts path file data in (\<not> all, d, lg @ lg'))))"

section \<open>Reading the cache\<close>

definition cachedExternalFacts :: "ResolvedFact \<Rightarrow> gval gomap \<Rightarrow> ResolvedFact list" where
  "cachedExternalFacts searched data =
     map (\<lambda>name. \<lparr>rf_Name = name, rf_Value = the (mget data name), rf_UserQuery = rf_UserQuery searched,
                  rf_Type = rf_Type searched, rf_File = rf_File searched\<rparr>)
       (filter (\<lambda>name. name \<noteq> version_key) (sorted_keys data))"

definition cacheDataHasKeyMatchingFact :: "cacheHost \<Rightarrow> gval gomap \<Rightarrow> string \<Rightarrow> bool" where
  "cacheDataHasKeyMatchingFact h data name =
     (case ch_regexp h name of
        None \<Rightarrow> list_ex (\<lambda>kv. contains (fst kv) name) data
      | Some matches \<Rightarrow> list_ex (\<lambda>kv. matches (fst kv)) data)"

definition externalFactInCustomGroup :: "ResolvedFact \<Rightarrow> string \<Rightarrow> bool \<times> log" where
  "externalFactInCustomGroup rf group0 =
     (let factName = path_base (rf_File rf); q = [SQUOTE]
      in if rf_Type rf \<noteq> ''file'' \<or> rf_File rf = [] then (False, [])
         else if group0 = factName then (False, [])
         else (True, [(LevelError, ''Cannot cache '' @ q @ factName @ q @ '' fact from '' @ q @ group0 @ q
                 @ '' group. Caching custom group is not supported for external facts.'')]))"

text \<open>The state of the loop of \<open>ResolveFacts\<close>: one freshness test per group and time to live, one
  read per group; the group's entry becomes \<open>None\<close> once its file is deleted.\<close>

record resolveState =
  rs_dir :: cacheDir
  rs_fresh :: "((string \<times> int) \<times> bool) list"
  rs_reads :: "gval gomap option gomap"
  rs_remaining :: "ResolvedFact list"
  rs_cached :: "ResolvedFact list"
  rs_log :: log

definition keep :: "ResolvedFact \<Rightarrow> resolveState \<Rightarrow> resolveState" where
  "keep rf st = st\<lparr>rs_remaining := rs_remaining st @ [rf]\<rparr>"

definition serve :: "ResolvedFact list \<Rightarrow> resolveState \<Rightarrow> resolveState" where
  "serve fs st = st\<lparr>rs_cached := rs_cached st @ fs\<rparr>"

definition freshOnce ::
  "cacheHost \<Rightarrow> FactCache \<Rightarrow> string \<Rightarrow> int \<Rightarrow> resolveState \<Rightarrow> bool \<times> resolveState" where
  "freshOnce h fc group0 ttl st =
     (case map_of (rs_fresh st) (group0, ttl) of
        Some fresh \<Rightarrow> (fresh, st)
      | None \<Rightarrow>
          (let (fresh, d, lg) = cacheFresh h fc group0 ttl (rs_dir st)
           in (fresh, st\<lparr>rs_dir := d, rs_fresh := ((group0, ttl), fresh) # rs_fresh st,
                         rs_log := rs_log st @ lg\<rparr>)))"

definition readOnce ::
  "cacheHost \<Rightarrow> FactCache \<Rightarrow> string \<Rightarrow> resolveState \<Rightarrow> gval gomap option \<times> resolveState" where
  "readOnce h fc group0 st =
     (case mget (rs_reads st) group0 of
        Some r \<Rightarrow> (r, st)
      | None \<Rightarrow>
          (let (r, d, lg) = readCache h fc group0 (rs_dir st)
           in (r, st\<lparr>rs_dir := d, rs_reads := mput group0 r (rs_reads st), rs_log := rs_log st @ lg\<rparr>)))"

definition dropGroup :: "cacheHost \<Rightarrow> FactCache \<Rightarrow> string \<Rightarrow> resolveState \<Rightarrow> resolveState" where
  "dropGroup h fc group0 st =
     (let (path, lg) = cachePath fc group0;
          (d, lg') = (case path of Some p \<Rightarrow> deleteCacheFile h p (rs_dir st) | None \<Rightarrow> (rs_dir st, []))
      in st\<lparr>rs_dir := d, rs_reads := mput group0 None (rs_reads st), rs_log := rs_log st @ lg @ lg'\<rparr>)"

definition resolveCached ::
  "cacheHost \<Rightarrow> FactCache \<Rightarrow> string \<Rightarrow> ResolvedFact \<Rightarrow> resolveState \<Rightarrow> resolveState" where
  "resolveCached h fc group0 rf st =
     (case readOnce h fc group0 st of
        (None, st1) \<Rightarrow> keep rf st1
      | (Some data, st1) \<Rightarrow>
          (if rf_Type rf = ''file'' then serve (cachedExternalFacts rf data) st1
           else if \<not> cacheDataHasKeyMatchingFact h data (rf_Name rf)
           then keep rf (dropGroup h fc group0 st1)
           else case mget data (rf_Name rf) of
                  None \<Rightarrow> keep rf st1
                | Some v \<Rightarrow> serve [rf\<lparr>rf_Value := v\<rparr>] st1))"

definition resolveFact :: "cacheHost \<Rightarrow> FactCache \<Rightarrow> resolveState \<Rightarrow> ResolvedFact \<Rightarrow> resolveState" where
  "resolveFact h fc st rf =
     (case cacheGroupForResolvedFact fc rf of
        None \<Rightarrow> keep rf st
      | Some (group0, ttl) \<Rightarrow>
          (let (fresh, st1) = freshOnce h fc group0 ttl st;
               (custom, lg) = externalFactInCustomGroup rf group0;
               st2 = st1\<lparr>rs_log := rs_log st1 @ lg\<rparr>
           in if custom \<or> \<not> fresh then keep rf st2 else resolveCached h fc group0 rf st2))"

definition startResolve :: "cacheDir \<Rightarrow> resolveState" where
  "startResolve d = \<lparr>rs_dir = d, rs_fresh = [], rs_reads = [], rs_remaining = [], rs_cached = [], rs_log = []\<rparr>"

definition ResolveFacts ::
  "cacheHost \<Rightarrow> FactCache \<Rightarrow> ResolvedFact list \<Rightarrow> cacheDir \<Rightarrow>
     (ResolvedFact list \<times> ResolvedFact list) \<times> cacheDir \<times> log" where
  "ResolveFacts h fc searched d =
     (if fc_dir fc = [] \<or> fc_ttls fc = [] then ((searched, []), d, [])
      else let st = foldl (resolveFact h fc) (startResolve d) searched
           in ((rs_remaining st, rs_cached st), rs_dir st, rs_log st))"

section \<open>Writing the cache\<close>

definition groupFact :: "FactCache \<Rightarrow> gval gomap gomap \<Rightarrow> ResolvedFact \<Rightarrow> gval gomap gomap" where
  "groupFact fc grouped rf =
     (case cacheGroupForResolvedFact fc rf of
        None \<Rightarrow> grouped
      | Some (group0, _) \<Rightarrow>
          (let data = (case mget grouped group0 of Some m \<Rightarrow> m | None \<Rightarrow> [])
           in mput group0 (mput (rf_Name rf) (rf_Value rf) data) grouped))"

fun writeGroups ::
  "cacheHost \<Rightarrow> FactCache \<Rightarrow> gval gomap gomap \<Rightarrow> cacheDir \<Rightarrow> goerror option \<times> cacheDir \<times> log" where
  "writeGroups h fc [] d = (None, d, [])"
| "writeGroups h fc ((group0, data) # rest) d =
     (let ttl = (case mget (fc_ttls fc) group0 of Some t \<Rightarrow> t | None \<Rightarrow> 0);
          (write, d1, lg1) = shouldWriteCache h fc group0 ttl data d;
          (path, lg2) = cachePath fc group0
      in if \<not> write then (let (e, d2, lg) = writeGroups h fc rest d1 in (e, d2, lg1 @ lg))
         else (case ch_json h (GMap (mput version_key (GInt 1) data)) of
             None \<Rightarrow> (Some (ErrText ''json: unsupported value''), d1, lg1)
           | Some doc \<Rightarrow>
               (case path of
                  None \<Rightarrow> (let (e, d2, lg) = writeGroups h fc rest d1 in (e, d2, lg1 @ lg2 @ lg))
                | Some p \<Rightarrow>
                    (case ch_writeErr h p of
                       Some e \<Rightarrow>
                         (if errors_is e ErrPermission
                          then (None, d1, lg1 @ lg2 @ [(LevelWarn, ''Could not write cache'')])
                          else (Some e, d1, lg1 @ lg2))
                     | None \<Rightarrow>
                         (let d2 = mput p \<lparr>cf_mtime = ch_now h, cf_doc = Some doc\<rparr> d1;
                              (e, d3, lg) = writeGroups h fc rest d2
                          in (e, d3, lg1 @ lg2 @ lg))))))"

definition CacheFacts ::
  "cacheHost \<Rightarrow> FactCache \<Rightarrow> ResolvedFact list \<Rightarrow> cacheDir \<Rightarrow> goerror option \<times> cacheDir \<times> log" where
  "CacheFacts h fc facts d =
     (if fc_dir fc = [] \<or> fc_ttls fc = [] then (None, d, [])
      else let grouped = foldl (groupFact fc) [] facts
           in if grouped = [] then (None, d, [])
              else case ch_mkdirErr h of
                Some e \<Rightarrow> (if errors_is e ErrPermission
                          then (None, d, [(LevelWarn, ''Could not write cache'')]) else (Some e, d, []))
              | None \<Rightarrow> writeGroups h fc grouped d)"

section \<open>Lemmas about file names\<close>

definition plain_name :: "string \<Rightarrow> bool" where
  "plain_name name \<longleftrightarrow> name \<noteq> [] \<and> name \<noteq> ''.'' \<and> name \<noteq> ''..'' \<and> SLASH \<notin> set name"

lemma safe_plain: "safeCacheGroupName name \<Longrightarrow> plain_name name"
  by (auto simp: safeCacheGroupName_def plain_name_def contains_any_def list_ex_iff)

lemma clean_parts_snoc:
  "plain_name name \<Longrightarrow> clean_parts rooted out (ps @ [name]) = clean_parts rooted out ps @ [name]"
  by (induction rooted out ps rule: clean_parts.induct) (auto simp: plain_name_def split: list.splits)

lemma path_join_plain:
  assumes "plain_name name" and "dir \<noteq> []"
  shows "path_join dir name =
     (if path_clean dir = [SLASH] then SLASH # name
      else if path_clean dir = ''.'' \<and> \<not> has_prefix dir [SLASH] then name
      else path_clean dir @ SLASH # name)"
proof -
  let ?r = "has_prefix dir [SLASH]"
  let ?ps = "clean_parts ?r [] (split_on SLASH dir)"
  have r: "has_prefix (dir @ SLASH # name) [SLASH] = ?r" using assms(2) by (cases dir) auto
  have "split_on SLASH (dir @ SLASH # name) = split_on SLASH dir @ [name]"
    using assms(1) by (simp add: split_on_append split_on_no_sep plain_name_def)
  then have body: "clean_parts ?r [] (split_on SLASH (dir @ SLASH # name)) = ?ps @ [name]"
    using clean_parts_snoc [OF assms(1)] by simp
  have parts: "p \<noteq> [] \<and> p \<noteq> ''.'' \<and> SLASH \<notin> set p"
    if "p \<in> set (clean_parts rr out qs)" "\<forall>q\<in>set out. q \<noteq> [] \<and> q \<noteq> ''.'' \<and> SLASH \<notin> set q"
      "\<forall>q\<in>set qs. SLASH \<notin> set q" for p rr out qs
    using that by (induction rr out qs rule: clean_parts.induct) (auto split: if_splits list.splits)
  have join_ne: "join [SLASH] qs \<noteq> [] \<and> join [SLASH] qs \<noteq> ''.'' \<and> join [SLASH] qs \<noteq> [SLASH]"
    if "qs \<noteq> []" "\<forall>q\<in>set qs. q \<noteq> [] \<and> q \<noteq> ''.'' \<and> SLASH \<notin> set q" for qs
  proof (cases "tl qs")
    case Nil
    with that show ?thesis by (cases qs) auto
  next
    case (Cons b bs)
    with that obtain a where "qs = a # b # bs" by (cases qs) auto
    with that show ?thesis by (cases a) auto
  qed
  have j: "join [SLASH] (?ps @ [name]) = (if ?ps = [] then name else join [SLASH] ?ps @ SLASH # name)"
    by (simp add: join_append)
  have n: "name \<noteq> []" using assms(1) by (simp add: plain_name_def)
  show ?thesis
  proof (cases "?ps = []")
    case True
    then show ?thesis using n assms(2) r body j
      by (cases ?r) (simp_all add: path_join_def path_clean_def Let_def)
  next
    case False
    then have "join [SLASH] ?ps \<noteq> [] \<and> join [SLASH] ?ps \<noteq> ''.'' \<and> join [SLASH] ?ps \<noteq> [SLASH]"
      using parts [of _ ?r "[]" "split_on SLASH dir"] split_on_parts [of _ SLASH dir]
      by (intro join_ne) auto
    then show ?thesis using n assms(2) r body j False
      by (cases ?r) (simp_all add: path_join_def path_clean_def Let_def)
  qed
qed

section \<open>Lemmas about groups\<close>

definition groupPrefixes :: "FactCache \<Rightarrow> string \<Rightarrow> string list" where
  "groupPrefixes fc configured =
     (case mget (fc_groups fc) configured of Some g \<Rightarrow> fg_Facts g | None \<Rightarrow> [configured])"

text \<open>Candidates: configured group, time to live and matching prefix.\<close>

definition candidates :: "FactCache \<Rightarrow> string \<Rightarrow> (string \<times> int \<times> string) list" where
  "candidates fc name =
     filter (\<lambda>(g, t, p). factMatchesPrefix name p)
       (concat (map (\<lambda>(g, t). map (\<lambda>p. (g, t, p)) (groupPrefixes fc g)) (fc_ttls fc)))"

definition best_of :: "(string \<times> int \<times> string) list \<Rightarrow> bestGroup \<Rightarrow> bool" where
  "best_of cs b \<longleftrightarrow>
     (if cs = [] then bg_len b = -1
      else \<exists>p. (bg_group b, bg_ttl b, p) \<in> set cs \<and> bg_len b = int (length p) \<and>
             (\<forall>(g, t, q)\<in>set cs. length q \<le> length p))"

lemma considerPrefix_best:
  assumes "best_of cs b"
  shows "best_of (cs @ (if factMatchesPrefix name p then [(g, t, p)] else [])) (considerPrefix name g t b p)"
proof (cases "factMatchesPrefix name p \<and> int (length p) > bg_len b")
  case True
  then have "length q \<le> length p" if "(g', t', q) \<in> set cs" for g' t' q
  proof -
    from that have "cs \<noteq> []" by auto
    with assms that have "int (length q) \<le> bg_len b" by (fastforce simp: best_of_def)
    with True show ?thesis by simp
  qed
  then have "\<forall>(g', t', q)\<in>set (cs @ [(g, t, p)]). length q \<le> length p" by auto
  moreover have "considerPrefix name g t b p = \<lparr>bg_group = g, bg_ttl = t, bg_len = int (length p)\<rparr>"
    using True by (simp add: considerPrefix_def)
  ultimately show ?thesis using True by (auto simp: best_of_def)
next
  case False
  then have c: "considerPrefix name g t b p = b" by (auto simp: considerPrefix_def)
  show ?thesis
  proof (cases "factMatchesPrefix name p")
    case True
    with False have le: "int (length p) \<le> bg_len b" by simp
    then have "cs \<noteq> []" using assms by (auto simp: best_of_def)
    with assms obtain q where q: "(bg_group b, bg_ttl b, q) \<in> set cs" "bg_len b = int (length q)"
      "\<forall>(g, t, r)\<in>set cs. length r \<le> length q" by (auto simp: best_of_def)
    with le have "length p \<le> length q" by simp
    with q True c show ?thesis by (auto simp: best_of_def)
  qed (use assms c in simp)
qed

lemma considerPrefixes_best:
  "best_of cs b \<Longrightarrow>
     best_of (cs @ map (\<lambda>p. (g, t, p)) (filter (factMatchesPrefix name) ps))
       (foldl (considerPrefix name g t) b ps)"
proof (induction ps arbitrary: cs b)
  case (Cons p ps)
  from Cons.IH [OF considerPrefix_best [OF Cons.prems, of name p g t]] show ?case by (auto split: if_splits)
qed simp

lemma considerGroups_best:
  "best_of cs b \<Longrightarrow>
     best_of (cs @ filter (\<lambda>(g, t, p). factMatchesPrefix name p)
         (concat (map (\<lambda>(g, t). map (\<lambda>p. (g, t, p)) (groupPrefixes fc g)) gts)))
       (foldl (considerGroup fc name) b gts)"
proof (induction gts arbitrary: cs b)
  case (Cons gt gts)
  obtain g t where gt: "gt = (g, t)" by (cases gt)
  have c: "considerGroup fc name b gt = foldl (considerPrefix name g t) b (groupPrefixes fc g)"
    by (simp add: considerGroup_def gt groupPrefixes_def)
  have f: "filter (\<lambda>(g, t, p). factMatchesPrefix name p) (map (\<lambda>p. (g, t, p)) ps) =
      map (\<lambda>p. (g, t, p)) (filter (factMatchesPrefix name) ps)" for ps
    by (induction ps) auto
  from Cons.IH [OF considerPrefixes_best [OF Cons.prems, of g t name "groupPrefixes fc g"]]
  show ?case by (simp add: c [unfolded gt] gt f)
qed simp

lemma cacheGroupForFact_best:
  "(case cacheGroupForFact fc name of
      None \<Rightarrow> candidates fc name = []
    | Some (g, t) \<Rightarrow> \<exists>p. (g, t, p) \<in> set (candidates fc name) \<and>
        (\<forall>(g', t', q)\<in>set (candidates fc name). length q \<le> length p))"
proof -
  let ?b = "foldl (considerGroup fc name) \<lparr>bg_group = [], bg_ttl = 0, bg_len = -1\<rparr> (fc_ttls fc)"
  have "best_of (candidates fc name) ?b"
    using considerGroups_best [of "[]" "\<lparr>bg_group = [], bg_ttl = 0, bg_len = -1\<rparr>" name fc "fc_ttls fc"]
    by (simp add: best_of_def candidates_def)
  then show ?thesis
    by (cases "candidates fc name = []") (auto simp: cacheGroupForFact_def Let_def best_of_def)
qed

section \<open>Lemmas about reading\<close>

text \<open>A step of the loop keeps the fact, serves its cached value, or serves a file's facts.\<close>

lemma freshOnce_lists:
  "freshOnce h fc g t st = (b, st1) \<Longrightarrow> rs_remaining st1 = rs_remaining st \<and> rs_cached st1 = rs_cached st"
  by (auto simp: freshOnce_def split: option.splits prod.splits)

lemma readOnce_lists:
  "readOnce h fc g st = (r, st1) \<Longrightarrow> rs_remaining st1 = rs_remaining st \<and> rs_cached st1 = rs_cached st"
  by (auto simp: readOnce_def split: option.splits prod.splits)

lemma dropGroup_lists [simp]:
  "rs_remaining (dropGroup h fc g st) = rs_remaining st" "rs_cached (dropGroup h fc g st) = rs_cached st"
  by (simp_all add: dropGroup_def case_prod_beta Let_def)

definition forget :: "ResolvedFact \<Rightarrow> ResolvedFact" where
  "forget rf = rf\<lparr>rf_Value := GNil\<rparr>"

definition is_file :: "ResolvedFact \<Rightarrow> bool" where
  "is_file rf \<longleftrightarrow> rf_Type rf = ''file''"

text \<open>What may be served for a fact: the fact with another value, or the facts of its file.\<close>

definition served_for :: "ResolvedFact \<Rightarrow> ResolvedFact list \<Rightarrow> bool" where
  "served_for rf fs \<longleftrightarrow>
     (if is_file rf
      then list_all (\<lambda>c. is_file c \<and> rf_File c = rf_File rf \<and> rf_UserQuery c = rf_UserQuery rf \<and> rf_Name c \<noteq> version_key) fs
      else map forget fs = [forget rf])"

lemma served_for_simps:
  "\<not> is_file rf \<Longrightarrow> served_for rf [rf\<lparr>rf_Value := v\<rparr>]"
  "is_file rf \<Longrightarrow> served_for rf (cachedExternalFacts rf data)"
  by (auto simp: served_for_def forget_def is_file_def cachedExternalFacts_def list_all_iff)

lemma resolveCached_lists:
  "(rs_remaining (resolveCached h fc g rf st), rs_cached (resolveCached h fc g rf st)) \<in>
     insert (rs_remaining st @ [rf], rs_cached st)
       {(rs_remaining st, rs_cached st @ fs) | fs. served_for rf fs}"
proof -
  obtain r st1 where r: "readOnce h fc g st = (r, st1)" by fastforce
  then show ?thesis using readOnce_lists [OF r] served_for_simps [of rf]
    by (cases r) (auto simp: resolveCached_def keep_def serve_def is_file_def split: option.splits)
qed

lemma resolveFact_lists:
  "(rs_remaining (resolveFact h fc st rf), rs_cached (resolveFact h fc st rf)) \<in>
     insert (rs_remaining st @ [rf], rs_cached st)
       {(rs_remaining st, rs_cached st @ fs) | fs. served_for rf fs}"
proof (cases "cacheGroupForResolvedFact fc rf")
  case None
  then show ?thesis by (simp add: resolveFact_def keep_def)
next
  case (Some gt)
  obtain g t where gt: "gt = (g, t)" by (cases gt)
  obtain b st1 where f: "freshOnce h fc g t st = (b, st1)" by fastforce
  obtain c lg where c: "externalFactInCustomGroup rf g = (c, lg)" by fastforce
  let ?st2 = "st1\<lparr>rs_log := rs_log st1 @ lg\<rparr>"
  have "resolveFact h fc st rf = (if c \<or> \<not> b then keep rf ?st2 else resolveCached h fc g rf ?st2)"
    by (simp add: resolveFact_def Some gt f c Let_def)
  then show ?thesis
    using freshOnce_lists [OF f] resolveCached_lists [of h fc g rf ?st2] by (auto simp: keep_def)
qed

text \<open>A fact of a file that was asked for.\<close>

definition from_file :: "ResolvedFact list \<Rightarrow> ResolvedFact \<Rightarrow> bool" where
  "from_file searched c \<longleftrightarrow>
     list_ex (\<lambda>rf. is_file rf \<and> rf_File c = rf_File rf \<and> rf_UserQuery c = rf_UserQuery rf) searched"

lemma is_file_forget: "is_file (forget c) = is_file c"
  by (simp add: is_file_def forget_def)

lemma served_for_filter:
  assumes "served_for rf fs"
  shows "map forget (filter (\<lambda>c. \<not> is_file c) fs) = map forget (filter (\<lambda>c. \<not> is_file c) [rf])"
    and "c \<in> set fs \<Longrightarrow> is_file c \<Longrightarrow> from_file [rf] c"
proof -
  show "map forget (filter (\<lambda>c. \<not> is_file c) fs) = map forget (filter (\<lambda>c. \<not> is_file c) [rf])"
  proof (cases "is_file rf")
    case True
    then have "filter (\<lambda>c. \<not> is_file c) fs = []" using assms by (simp add: served_for_def list_all_iff filter_empty_conv)
    with True show ?thesis by simp
  next
    case False
    with assms obtain c where c: "fs = [c]" "forget c = forget rf" by (auto simp: served_for_def)
    then have "is_file c = is_file rf" using is_file_forget by metis
    with c False show ?thesis by simp
  qed
  show "c \<in> set fs \<Longrightarrow> is_file c \<Longrightarrow> from_file [rf] c"
  proof (cases "is_file rf")
    case True
    assume "c \<in> set fs"
    then show ?thesis using assms True by (simp add: served_for_def from_file_def list_all_iff)
  next
    case False
    assume c: "c \<in> set fs" "is_file c"
    from assms False obtain x where "fs = [x]" "forget x = forget rf" by (auto simp: served_for_def)
    then have "is_file c = is_file rf" using c(1) is_file_forget by (metis empty_iff insert_iff list.set(1,2))
    with c(2) False show ?thesis by simp
  qed
qed

lemma resolve_fold_partition:
  "mset (map forget (filter (\<lambda>c. \<not> is_file c)
       (rs_remaining (foldl (resolveFact h fc) st fs) @ rs_cached (foldl (resolveFact h fc) st fs)))) =
     mset (map forget (filter (\<lambda>c. \<not> is_file c) (rs_remaining st @ rs_cached st @ fs))) \<and>
   set (rs_remaining (foldl (resolveFact h fc) st fs)) \<subseteq> set (rs_remaining st) \<union> set fs \<and>
   (\<forall>c\<in>set (rs_cached (foldl (resolveFact h fc) st fs)). c \<in> set (rs_cached st) \<or> (is_file c \<longrightarrow> from_file fs c))"
proof (induction fs arbitrary: st)
  case (Cons rf fs)
  let ?st = "resolveFact h fc st rf"
  note IH = Cons.IH [of ?st]
  have wider: "from_file [rf] c \<Longrightarrow> from_file (rf # fs) c" "from_file fs c \<Longrightarrow> from_file (rf # fs) c" for c
    by (auto simp: from_file_def)
  from resolveFact_lists [of h fc st rf] consider
    (kept) "rs_remaining ?st = rs_remaining st @ [rf]" "rs_cached ?st = rs_cached st"
    | (served) gs where "rs_remaining ?st = rs_remaining st" "rs_cached ?st = rs_cached st @ gs" "served_for rf gs"
    by auto
  then show ?case
  proof cases
    case kept
    then show ?thesis using IH wider by auto
  next
    case served
    note gs = served_for_filter [OF served(3)]
    have "from_file (rf # fs) c" if "c \<in> set gs" "is_file c" for c by (rule wider(1) [OF gs(2) [OF that]])
    moreover have "map forget (filter (\<lambda>c. \<not> is_file c) (rs_remaining ?st @ rs_cached ?st @ fs)) =
        map forget (filter (\<lambda>c. \<not> is_file c) (rs_remaining st @ rs_cached st @ rf # fs))"
      using gs(1) served(1,2) by simp
    ultimately show ?thesis using IH served(1,2) wider(2) by auto
  qed
qed simp

section \<open>Lemmas about writing and reading back\<close>

text \<open>A fact's group, when the fact is not a file.\<close>

abbreviation grp :: "FactCache \<Rightarrow> ResolvedFact \<Rightarrow> (string \<times> int) option" where
  "grp fc rf \<equiv> cacheGroupForResolvedFact fc rf"

definition in_group :: "FactCache \<Rightarrow> string \<Rightarrow> ResolvedFact \<Rightarrow> bool" where
  "in_group fc g rf \<longleftrightarrow> map_option fst (grp fc rf) = Some g"

definition look :: "gval gomap gomap \<Rightarrow> string \<Rightarrow> string \<Rightarrow> gval option" where
  "look grouped g n = (case mget grouped g of None \<Rightarrow> None | Some m \<Rightarrow> mget m n)"

lemma find_only:
  "P x \<Longrightarrow> x \<in> set xs \<Longrightarrow> (\<And>y. y \<in> set xs \<Longrightarrow> P y \<Longrightarrow> y = x) \<Longrightarrow> find P xs = Some x"
proof (induction xs)
  case (Cons z zs)
  show ?case
  proof (cases "P z")
    case True
    with Cons.prems(3) [of z] show ?thesis by simp
  next
    case False
    with Cons.prems(1,2) have "x \<in> set zs" by auto
    from Cons.IH [OF Cons.prems(1) this] Cons.prems(3) have "find P zs = Some x" by simp
    with False show ?thesis by simp
  qed
qed simp

lemma look_groupFact:
  "look (groupFact fc grouped rf) g n =
     (if in_group fc g rf \<and> rf_Name rf = n then Some (rf_Value rf) else look grouped g n)"
proof (cases "grp fc rf")
  case None
  then show ?thesis by (simp add: groupFact_def in_group_def)
next
  case (Some gt)
  obtain h t where "gt = (h, t)" by (cases gt)
  with Some show ?thesis
    by (cases "h = g"; cases "mget grouped h")
      (auto simp: groupFact_def look_def in_group_def Let_def)
qed

lemma grouped_look:
  "look (foldl (groupFact fc) [] facts) g n =
     map_option rf_Value (find (\<lambda>rf. in_group fc g rf \<and> rf_Name rf = n) (rev facts))"
  by (induction facts rule: rev_induct) (auto simp: look_groupFact, simp add: look_def)

lemma grouped_wf: "wfm (foldl (groupFact fc) [] facts)"
  by (induction facts rule: rev_induct) (auto simp: groupFact_def Let_def split: option.splits)

lemma grouped_keys:
  "mget (foldl (groupFact fc) [] facts) g \<noteq> None \<longleftrightarrow> (\<exists>rf\<in>set facts. in_group fc g rf)"
proof (induction facts rule: rev_induct)
  case (snoc rf facts)
  then show ?case by (auto simp: groupFact_def Let_def in_group_def split: option.splits)
qed simp

text \<open>A document of some facts: their names and values, and the format version.\<close>

definition document_of :: "ResolvedFact list \<Rightarrow> gval gomap \<Rightarrow> bool" where
  "document_of facts m \<longleftrightarrow>
     list_all (\<lambda>kv. kv = (version_key, GInt 1) \<or> kv \<in> set (map (\<lambda>rf. (rf_Name rf, rf_Value rf)) facts)) m"

lemma document_of_put:
  "document_of facts m \<Longrightarrow> (k, v) = (version_key, GInt 1) \<or> (k, v) \<in> set (map (\<lambda>rf. (rf_Name rf, rf_Value rf)) facts) \<Longrightarrow>
     document_of facts (mput k v m)"
  unfolding document_of_def by (induction m) auto

lemma document_of_more: "document_of facts m \<Longrightarrow> document_of (facts @ more_facts) m"
  by (auto simp: document_of_def list_all_iff)

lemma groupFact_get:
  "mget (groupFact fc grouped rf) g = Some data \<Longrightarrow> mget grouped g = Some data \<or>
     (\<exists>m. (m = [] \<or> mget grouped g = Some m) \<and> data = mput (rf_Name rf) (rf_Value rf) m)"
  by (auto simp: groupFact_def Let_def split: option.splits prod.splits if_splits)

lemma grouped_documents:
  "mget (foldl (groupFact fc) [] facts) g = Some data \<Longrightarrow> document_of facts data"
proof (induction facts arbitrary: data rule: rev_induct)
  case (snoc rf facts)
  from snoc.prems have "mget (groupFact fc (foldl (groupFact fc) [] facts) rf) g = Some data" by simp
  from groupFact_get [OF this] consider (old) "mget (foldl (groupFact fc) [] facts) g = Some data"
    | (new) m where "m = [] \<or> mget (foldl (groupFact fc) [] facts) g = Some m" "data = mput (rf_Name rf) (rf_Value rf) m" by blast
  then show ?case
  proof cases
    case old
    then show ?thesis by (rule document_of_more [OF snoc.IH])
  next
    case new
    from new(1) have "document_of (facts @ [rf]) m"
    proof
      show "m = [] \<Longrightarrow> document_of (facts @ [rf]) m" by (simp add: document_of_def)
      show "mget (foldl (groupFact fc) [] facts) g = Some m \<Longrightarrow> document_of (facts @ [rf]) m"
        by (rule document_of_more [OF snoc.IH])
    qed
    then show ?thesis unfolding new(2) by (rule document_of_put) simp
  qed
qed simp

definition viewm :: "(gval \<Rightarrow> gval) \<Rightarrow> gval gomap \<Rightarrow> gval gomap" where
  "viewm view m = map (\<lambda>(k, v). (k, view v)) m"

lemma viewm_get [simp]: "mget (viewm view m) n = map_option view (mget m n)"
  by (induction m) (auto simp: viewm_def)

text \<open>The file of a group.\<close>

definition groupFile :: "int \<Rightarrow> (gval \<Rightarrow> gval) \<Rightarrow> gval gomap \<Rightarrow> cacheFile" where
  "groupFile now view data =
     \<lparr>cf_mtime = now, cf_doc = Some (GMap (viewm view (mput version_key (GInt 1) data)))\<rparr>"

lemma path_inj:
  "fc_dir fc \<noteq> [] \<Longrightarrow> safeCacheGroupName a \<Longrightarrow> safeCacheGroupName b \<Longrightarrow>
     path_join (fc_dir fc) a = path_join (fc_dir fc) b \<Longrightarrow> a = b"
  using path_join_plain [OF safe_plain] by (auto split: if_splits)

lemma writeGroups_files:
  assumes "fc_dir fc \<noteq> []" and "\<forall>p. ch_writeErr h p = None"
  shows "wfm gs \<Longrightarrow>
     \<forall>(g, data)\<in>set gs. ch_json h (GMap (mput version_key (GInt 1) data)) =
       Some (GMap (viewm view (mput version_key (GInt 1) data))) \<Longrightarrow> \<forall>g\<in>fst ` set gs. safeCacheGroupName g \<and> mget d (path_join (fc_dir fc) g) = None \<Longrightarrow>
     \<exists>d'. writeGroups h fc gs d = (None, d', []) \<and>
       (\<forall>g data. mget gs g = Some data \<longrightarrow>
          mget d' (path_join (fc_dir fc) g) = Some (groupFile (ch_now h) view data)) \<and>
       (\<forall>p. (\<forall>g\<in>fst ` set gs. p \<noteq> path_join (fc_dir fc) g) \<longrightarrow> mget d' p = mget d p)"
proof (induction gs arbitrary: d)
  case (Cons gd gs)
  obtain g data where gd: "gd = (g, data)" by (cases gd)
  let ?p = "path_join (fc_dir fc) g"
  let ?d = "mput ?p (groupFile (ch_now h) view data) d"
  have safe: "safeCacheGroupName g" and abs: "mget d ?p = None" using Cons.prems(3) by (simp_all add: gd)
  have json: "ch_json h (GMap (mput version_key (GInt 1) data)) = Some (GMap (viewm view (mput version_key (GInt 1) data)))"
    using Cons.prems(2) by (simp add: gd)
  have other: "path_join (fc_dir fc) g' \<noteq> ?p" if "g' \<in> fst ` set gs" for g'
  proof
    assume "path_join (fc_dir fc) g' = ?p"
    moreover have "safeCacheGroupName g'" using Cons.prems(3) that by auto
    ultimately have "g' = g" using path_inj [OF assms(1) _ safe] by blast
    with that Cons.prems(1) show False by (simp add: gd wfm_def)
  qed
  have "wfm gs" using Cons.prems(1) by (simp add: wfm_def)
  moreover have "\<forall>g'\<in>fst ` set gs. safeCacheGroupName g' \<and> mget ?d (path_join (fc_dir fc) g') = None"
    using Cons.prems(3) other by auto
  moreover have "\<forall>(g, data)\<in>set gs. ch_json h (GMap (mput version_key (GInt 1) data)) =
       Some (GMap (viewm view (mput version_key (GInt 1) data)))" using Cons.prems(2) by simp
  ultimately obtain d' where d': "writeGroups h fc gs ?d = (None, d', [])"
    "\<forall>g' dt. mget gs g' = Some dt \<longrightarrow>
        mget d' (path_join (fc_dir fc) g') = Some (groupFile (ch_now h) view dt)"
    "\<forall>p. (\<forall>g'\<in>fst ` set gs. p \<noteq> path_join (fc_dir fc) g') \<longrightarrow> mget d' p = mget ?d p"
    using Cons.IH by blast
  have w: "writeGroups h fc (gd # gs) d = (None, d', [])"
    using d'(1) safe abs assms(2) json
    by (simp add: gd shouldWriteCache_def cachePath_def groupFile_def)
  have "mget d' ?p = Some (groupFile (ch_now h) view data)" proof -
    have "\<forall>g'\<in>fst ` set gs. ?p \<noteq> path_join (fc_dir fc) g'" using other by metis
    then have "mget d' ?p = mget ?d ?p" using d'(3) by blast
    then show ?thesis by simp
  qed
  with d' w show ?case by (auto simp: gd)
qed simp

text \<open>The directory holds the group file of every group of \<open>grouped\<close>, fresh at the host's time.\<close>

definition holds_groups ::
  "cacheHost \<Rightarrow> FactCache \<Rightarrow> (gval \<Rightarrow> gval) \<Rightarrow> int \<Rightarrow> gval gomap gomap \<Rightarrow> cacheDir \<Rightarrow> bool" where
  "holds_groups h fc view now grouped d \<longleftrightarrow>
     view (GInt 1) = GFloat ''1'' \<and>
     (\<forall>g data. mget grouped g = Some data \<longrightarrow>
        safeCacheGroupName g \<and> mget d (path_join (fc_dir fc) g) = Some (groupFile now view data))"

definition read_inv ::
  "(gval \<Rightarrow> gval) \<Rightarrow> gval gomap gomap \<Rightarrow> cacheDir \<Rightarrow> ResolvedFact list \<Rightarrow> resolveState \<Rightarrow> bool" where
  "read_inv view grouped d fs st \<longleftrightarrow>
     rs_dir st = d \<and> rs_remaining st = [] \<and> rs_log st = [] \<and>
     rs_cached st = map (\<lambda>rf. rf\<lparr>rf_Value := view (rf_Value rf)\<rparr>) fs \<and>
     (\<forall>gt b. map_of (rs_fresh st) gt = Some b \<longrightarrow> b) \<and>
     (\<forall>g r. mget (rs_reads st) g = Some r \<longrightarrow>
        (\<exists>data. mget grouped g = Some data \<and> r = Some (viewm view (mput version_key (GInt 1) data))))"

lemma read_inv_serve:
  "read_inv view grouped d fs st \<Longrightarrow>
     read_inv view grouped d (fs @ [rf]) (serve [rf\<lparr>rf_Value := view (rf_Value rf)\<rparr>] st)"
  unfolding read_inv_def serve_def by (elim conjE, intro conjI) simp_all

lemma contains_self: "contains s s"
  by (cases s) (simp_all add: contains_def)

lemma resolveFact_reads:
  assumes holds: "holds_groups h fc view now grouped d" and inv: "read_inv view grouped d fs st"
    and g: "grp fc rf = Some (g, t)" and t: "now + t > ch_now h"
    and ty: "rf_Type rf \<noteq> ''file''" and nm: "rf_Name rf \<noteq> version_key"
    and v: "look grouped g (rf_Name rf) = Some (rf_Value rf)"
    and rx: "case ch_regexp h (rf_Name rf) of Some matches \<Rightarrow> matches (rf_Name rf) | None \<Rightarrow> True"
  shows "read_inv view grouped d (fs @ [rf]) (resolveFact h fc st rf)"
proof -
  from v obtain data where data: "mget grouped g = Some data" "mget data (rf_Name rf) = Some (rf_Value rf)"
    by (auto simp: look_def split: option.splits)
  let ?m = "viewm view (mput version_key (GInt 1) data)"
  let ?p = "path_join (fc_dir fc) g"
  have safe: "safeCacheGroupName g" and ffile: "mget d ?p = Some (groupFile now view data)"
    and ver: "view (GInt 1) = GFloat ''1''"
    using holds data(1) by (auto simp: holds_groups_def)
  have dir: "rs_dir st = d" "rs_log st = []" using inv by (simp_all add: read_inv_def)
  have fresh: "freshOnce h fc g t st =
      (True, st\<lparr>rs_fresh := (case map_of (rs_fresh st) (g, t) of Some b \<Rightarrow> rs_fresh st
          | None \<Rightarrow> ((g, t), True) # rs_fresh st)\<rparr>)"
    using inv dir ffile safe t
    by (auto simp: freshOnce_def cacheFresh_def cachePath_def groupFile_def read_inv_def split: option.splits)
  define st1 where "st1 = st\<lparr>rs_fresh := (case map_of (rs_fresh st) (g, t) of Some b \<Rightarrow> rs_fresh st
          | None \<Rightarrow> ((g, t), True) # rs_fresh st)\<rparr>"
  have inv1: "read_inv view grouped d fs st1"
    using inv by (auto simp: read_inv_def st1_def split: option.splits)
  have read: "readOnce h fc g st1 =
      (Some ?m, st1\<lparr>rs_reads := (case mget (rs_reads st1) g of Some r \<Rightarrow> rs_reads st1
          | None \<Rightarrow> mput g (Some ?m) (rs_reads st1))\<rparr>)"
  proof (cases "mget (rs_reads st1) g")
    case None
    with inv1 ffile safe ver show ?thesis
      by (simp add: readOnce_def readCache_def cachePath_def groupFile_def read_inv_def)
  next
    case (Some r)
    moreover have "r = Some ?m"
      using inv1 data(1) Some unfolding read_inv_def by (metis option.inject)
    ultimately show ?thesis by (simp add: readOnce_def)
  qed
  define st2 where "st2 = st1\<lparr>rs_reads := (case mget (rs_reads st1) g of Some r \<Rightarrow> rs_reads st1
          | None \<Rightarrow> mput g (Some ?m) (rs_reads st1))\<rparr>"
  have inv2: "read_inv view grouped d fs st2"
    using inv1 data(1) by (auto simp: read_inv_def st2_def split: option.splits)
  have m: "mget ?m (rf_Name rf) = Some (view (rf_Value rf))" using data(2) nm by simp
  then have key: "rf_Name rf \<in> fst ` set ?m" by (metis map_of_eq_None_iff option.distinct(1))
  have "cacheDataHasKeyMatchingFact h ?m (rf_Name rf)"
  proof (cases "ch_regexp h (rf_Name rf)")
    case None
    from key obtain b where "(rf_Name rf, b) \<in> set ?m" by auto
    then have "\<exists>kv\<in>set ?m. contains (fst kv) (rf_Name rf)"
      using contains_self by (intro bexI [of _ "(rf_Name rf, b)"]) simp_all
    with None show ?thesis by (simp only: cacheDataHasKeyMatchingFact_def list_ex_iff option.case)
  next
    case (Some matches)
    with rx have "matches (rf_Name rf)" by simp
    moreover from key obtain b where "(rf_Name rf, b) \<in> set ?m" by auto
    ultimately have "\<exists>kv\<in>set ?m. matches (fst kv)" by (intro bexI [of _ "(rf_Name rf, b)"]) simp_all
    with Some show ?thesis by (simp only: cacheDataHasKeyMatchingFact_def list_ex_iff option.case)
  qed
  moreover have "resolveFact h fc st rf = serve [rf\<lparr>rf_Value := v\<rparr>] st2"
    if "readOnce h fc g st1 = (Some M, st2)" "mget M (rf_Name rf) = Some v"
      "cacheDataHasKeyMatchingFact h M (rf_Name rf)" for M v
    using that fresh ty
    by (simp add: resolveFact_def g externalFactInCustomGroup_def resolveCached_def flip: st1_def)
  ultimately have "resolveFact h fc st rf = serve [rf\<lparr>rf_Value := view (rf_Value rf)\<rparr>] st2"
    using read m unfolding st2_def by blast
  then show ?thesis using read_inv_serve [OF inv2] by simp
qed

lemma resolveFacts_read_all:
  assumes "holds_groups h fc view now grouped d" and "read_inv view grouped d done st"
    and "\<forall>rf\<in>set fs. \<exists>g t. grp fc rf = Some (g, t) \<and> now + t > ch_now h \<and> rf_Type rf \<noteq> ''file'' \<and>
           rf_Name rf \<noteq> version_key \<and> look grouped g (rf_Name rf) = Some (rf_Value rf) \<and>
           (case ch_regexp h (rf_Name rf) of Some matches \<Rightarrow> matches (rf_Name rf) | None \<Rightarrow> True)"
  shows "read_inv view grouped d (done @ fs) (foldl (resolveFact h fc) st fs)"
  using assms(2,3)
proof (induction fs arbitrary: "done" st)
  case (Cons rf fs)
  then obtain g t where "grp fc rf = Some (g, t)" "now + t > ch_now h" "rf_Type rf \<noteq> ''file''"
    "rf_Name rf \<noteq> version_key" "look grouped g (rf_Name rf) = Some (rf_Value rf)"
    "case ch_regexp h (rf_Name rf) of Some matches \<Rightarrow> matches (rf_Name rf) | None \<Rightarrow> True" by auto
  from resolveFact_reads [OF assms(1) Cons.prems(1) this]
  have "read_inv view grouped d (done @ [rf]) (resolveFact h fc st rf)" .
  from Cons.IH [OF this] Cons.prems(2) show ?case by simp
qed simp

section \<open>Properties\<close>

text \<open>A parsed time to live is a non-negative 64-bit number of nanoseconds: the exact product
  of the number and the unit, cut down to whole seconds for units below a second. Numbers
  that would overflow are rejected.\<close>

lemma parseTTLDuration_bounds:
  assumes "parseTTLDuration value = Some d"
  shows "0 \<le> d \<and> d \<le> max_int64 \<and>
     (\<exists>n unit multiplier. atoi (hd (string_fields value)) = Some n \<and> 0 \<le> n \<and>
        ttlUnitMultiplier unit = Some multiplier \<and> d \<le> n * multiplier \<and>
        (if multiplier < second_ns then n * multiplier - d < second_ns \<and> d mod second_ns = 0
         else d = n * multiplier))"
proof -
  let ?fs = "string_fields value"
  let ?u0 = "if length ?fs = 2 then ?fs ! 1 else []"
  let ?u = "if length ?u0 > 2 \<and> \<not> has_suffix ?u0 ''s'' then ?u0 @ ''s'' else ?u0"
  from assms obtain n multiplier where n: "?fs \<noteq> []" "atoi (?fs ! 0) = Some n" "0 \<le> n"
    and mu: "ttlUnitMultiplier ?u = Some multiplier"
    and le: "\<not> (multiplier > 0 \<and> n > go_div max_int64 multiplier)"
    and d: "d = (if multiplier < second_ns then wrap64 (n * multiplier) - wrap64 (n * multiplier) mod second_ns
        else wrap64 (n * multiplier))"
    by (auto simp: parseTTLDuration_def Let_def split: if_splits option.splits)
  have pos: "0 < multiplier" using mu by (auto simp: ttlUnitMultiplier_def split: if_splits)
  then have "n \<le> max_int64 div multiplier" using le by (simp add: go_div_def)
  then have "n * multiplier \<le> max_int64 div multiplier * multiplier"
    using pos by (intro mult_right_mono) simp_all
  also have "\<dots> \<le> max_int64" using pos by (metis div_mult_mod_eq le_add_same_cancel1 pos_mod_sign)
  finally have hi: "n * multiplier \<le> max_int64" .
  have lo: "0 \<le> n * multiplier" using n(3) pos by simp
  have w: "wrap64 (n * multiplier) = n * multiplier"
    using hi lo by (intro wrap64_id) (simp add: in_int64_def)
  have m: "n * multiplier - (n * multiplier - (n * multiplier) mod second_ns) < second_ns" by simp
  have z: "(n * multiplier - (n * multiplier) mod second_ns) mod second_ns = 0"
    by (simp add: minus_mod_eq_mult_div)
  have le2: "(n * multiplier) mod second_ns \<le> n * multiplier" using lo by (simp add: zmod_le_nonneg_dividend)
  have ge2: "0 \<le> (n * multiplier) mod second_ns" by simp
  have dd: "d = (if multiplier < second_ns then n * multiplier - n * multiplier mod second_ns else n * multiplier)"
    unfolding d w ..
  have h: "hd ?fs = ?fs ! 0" using n(1) by (simp add: hd_conv_nth)
  have "0 \<le> d" using le2 lo by (simp add: dd)
  moreover have "d \<le> max_int64" using hi ge2 unfolding dd by (cases "multiplier < second_ns") simp_all
  moreover have "atoi (hd ?fs) = Some n" using n(2) h by simp
  moreover have "d \<le> n * multiplier" using ge2 by (simp add: dd)
  moreover have "if multiplier < second_ns then n * multiplier - d < second_ns \<and> d mod second_ns = 0
      else d = n * multiplier" using m z by (simp add: dd)
  ultimately show ?thesis using n(3) mu by blast
qed

lemma parseTTLDuration_bounds_witness:
  "(1500000000000::int) \<le> max_int64 \<and> parseTTLDuration ''1500 seconds'' = Some 1500000000000"
proof -
  have "parseTTLDuration ''1500 seconds'' = Some 1500000000000" by code_simp
  then show ?thesis using parseTTLDuration_bounds by blast
qed

text \<open>C22: A cache file never leaves the cache directory: for a safe group name the path of its file
  is the cleaned directory followed by the group name as the one last element.\<close>

theorem cachePath_confined:
  assumes "fc_dir fc \<noteq> []" and "fst (cachePath fc group0) = Some path"
  shows "SLASH \<notin> set group0 \<and> BSLASH \<notin> set group0 \<and> group0 \<noteq> ''..'' \<and>
     path = (if path_clean (fc_dir fc) = [SLASH] then SLASH # group0
        else if path_clean (fc_dir fc) = ''.'' \<and> \<not> has_prefix (fc_dir fc) [SLASH] then group0
        else path_clean (fc_dir fc) @ SLASH # group0)"
proof -
  have s: "safeCacheGroupName group0" and p: "path = path_join (fc_dir fc) group0"
    using assms(2) by (auto simp: cachePath_def split: if_splits)
  have "BSLASH \<notin> set group0"
    using s by (auto simp: safeCacheGroupName_def contains_any_def list_ex_iff)
  then show ?thesis
    using safe_plain [OF s] path_join_plain [OF safe_plain [OF s] assms(1)] p
    by (simp add: plain_name_def)
qed

theorem cachePath_confined_witness:
  "path_join ''/opt/facts/../cache/'' ''operating system'' = ''/opt/cache/operating system''"
proof -
  let ?fc = "\<lparr>fc_dir = ''/opt/facts/../cache/'', fc_groups = [], fc_ttls = []\<rparr>"
  have "fst (cachePath ?fc ''operating system'') = Some (path_join ''/opt/facts/../cache/'' ''operating system'')"
    by code_simp
  then have "path_join ''/opt/facts/../cache/'' ''operating system'' =
     (if path_clean (fc_dir ?fc) = [SLASH] then SLASH # ''operating system''
        else if path_clean (fc_dir ?fc) = ''.'' \<and> \<not> has_prefix (fc_dir ?fc) [SLASH] then ''operating system''
        else path_clean (fc_dir ?fc) @ SLASH # ''operating system'')"
    using cachePath_confined [of ?fc "''operating system''"] by simp
  also have "\<dots> = ''/opt/cache/operating system''" by code_simp
  finally show ?thesis .
qed

text \<open>A fact is cached in the configured group with the longest matching prefix, and in none
  exactly when no prefix matches.\<close>

lemma cacheGroupForFact_longest:
  "(case cacheGroupForFact fc name of
      None \<Rightarrow> candidates fc name = []
    | Some (g, t) \<Rightarrow>
        list_ex (\<lambda>(g', t', p). g' = g \<and> t' = t \<and> list_all (\<lambda>(_, _, q). length q \<le> length p) (candidates fc name))
          (candidates fc name))"
proof (cases "cacheGroupForFact fc name")
  case None
  then show ?thesis using cacheGroupForFact_best [of fc name] by simp
next
  case (Some gt)
  obtain g t where gt: "gt = (g, t)" by (cases gt)
  obtain p where p: "(g, t, p) \<in> set (candidates fc name)"
    and le: "\<forall>(g', t', q)\<in>set (candidates fc name). length q \<le> length p"
    using cacheGroupForFact_best [of fc name] Some gt by auto
  have "list_all (\<lambda>(_, _, q). length q \<le> length p) (candidates fc name)"
    using le by (simp add: list_all_iff)
  with p have "list_ex (\<lambda>(g', t', p). g' = g \<and> t' = t \<and>
      list_all (\<lambda>(_, _, q). length q \<le> length p) (candidates fc name)) (candidates fc name)"
    unfolding list_ex_iff by (intro bexI [of _ "(g, t, p)"]) simp_all
  then show ?thesis using Some gt by simp
qed

text \<open>C21: Reading the cache loses no fact and invents none: apart from external files, the facts still to be
  resolved and those served from the cache are together the facts asked for, except for the values
  of the served ones. What remains to be resolved is unchanged. An external file that is served gives
  the facts its cached group holds, which may be several or none; every served fact of a file carries
  the file and the query of one that was asked for.\<close>

theorem ResolveFacts_partition:
  "(case fst (ResolveFacts h fc searched d) of (remaining, cached) \<Rightarrow>
      mset (map forget (filter (\<lambda>c. \<not> is_file c) (remaining @ cached))) =
        mset (map forget (filter (\<lambda>c. \<not> is_file c) searched)) \<and>
      set remaining \<subseteq> set searched \<and>
      list_all (\<lambda>c. from_file searched c) (filter is_file cached))"
  using resolve_fold_partition [of h fc "startResolve d" searched]
  by (auto simp: ResolveFacts_def startResolve_def Let_def list_all_iff)

text \<open>C20: What is written is served: facts cached into an empty directory are all served, in their
  order and with the values JSON gives back, by any later resolution within their time to
  live, and nothing is left to resolve. The facts have distinct names other than the version key, none is
  of an external file, each has a cache group with a safe name, and each name that compiles as a regular expression
  matches itself, as dotted words do. JSON encodes and decodes the documents of these facts value by
  value, and the version to the number 1; the directory can be written.\<close>

theorem cache_roundtrip:
  assumes dir: "fc_dir fc \<noteq> []" "fc_ttls fc \<noteq> []"
    and wr: "ch_mkdirErr h = None" "\<forall>p. ch_writeErr h p = None"
      "\<forall>m. document_of facts m \<longrightarrow> ch_json h (GMap m) = Some (GMap (viewm view m))" "view (GInt 1) = GFloat ''1''"
    and names: "distinct (map rf_Name facts)"
    and each: "\<forall>rf\<in>set facts. \<exists>g t. cacheGroupForResolvedFact fc rf = Some (g, t) \<and>
        safeCacheGroupName g \<and> ch_now h + t > ch_now h' \<and> rf_Type rf \<noteq> ''file'' \<and> rf_Name rf \<noteq> version_key \<and>
        (case ch_regexp h' (rf_Name rf) of Some matches \<Rightarrow> matches (rf_Name rf) | None \<Rightarrow> True)"
  shows "\<exists>d. CacheFacts h fc facts [] = (None, d, []) \<and>
     ResolveFacts h' fc facts d = (([], map (\<lambda>rf. rf\<lparr>rf_Value := view (rf_Value rf)\<rparr>) facts), d, [])"
proof (cases "facts = []")
  case True
  then show ?thesis using dir
    by (simp add: CacheFacts_def ResolveFacts_def startResolve_def Let_def)
next
  case False
  let ?g = "foldl (groupFact fc) [] facts"
  have safe: "safeCacheGroupName g" if "g \<in> fst ` set ?g" for g
  proof -
    from that have "mget ?g g \<noteq> None" by (simp add: map_of_eq_None_iff)
    then obtain rf where "rf \<in> set facts" "in_group fc g rf" using grouped_keys by blast
    then show ?thesis using each by (fastforce simp: in_group_def)
  qed
  have json: "\<forall>(g, data)\<in>set ?g. ch_json h (GMap (mput version_key (GInt 1) data)) =
       Some (GMap (viewm view (mput version_key (GInt 1) data)))"
  proof (intro ballI case_prodI2)
    fix gd g data assume "gd \<in> set ?g" "gd = (g, data)"
    then have "mget ?g g = Some data" using grouped_wf [of fc facts] by (simp add: wfm_def)
    then have "document_of facts (mput version_key (GInt 1) data)" by (intro document_of_put grouped_documents) auto
    then show "ch_json h (GMap (mput version_key (GInt 1) data)) = Some (GMap (viewm view (mput version_key (GInt 1) data)))"
      using wr(3) by blast
  qed
  obtain d where d: "writeGroups h fc ?g [] = (None, d, [])"
    "\<forall>g data. mget ?g g = Some data \<longrightarrow>
       mget d (path_join (fc_dir fc) g) = Some (groupFile (ch_now h) view data)"
    using writeGroups_files [OF dir(1) wr(2) grouped_wf json, of "[]"] safe by auto
  obtain rf0 where "rf0 \<in> set facts" using False by (meson list.set_sel(1))
  then have "?g \<noteq> []" using each grouped_keys [of fc facts] by (fastforce simp: in_group_def)
  then have c: "CacheFacts h fc facts [] = (None, d, [])"
    using dir wr(1) d(1) by (simp add: CacheFacts_def)
  have holds: "holds_groups h' fc view (ch_now h) ?g d"
    using d(2) safe wr(4) unfolding holds_groups_def
    by (metis image_eqI map_of_SomeD fst_conv)
  have lk: "look ?g g (rf_Name rf) = Some (rf_Value rf)"
    if rf: "rf \<in> set facts" and grf: "grp fc rf = Some (g, t)" for rf g t
  proof -
    have "x = rf" if "x \<in> set facts" "rf_Name x = rf_Name rf" for x
      using that rf names by (metis distinct_map inj_onD)
    moreover have "in_group fc g rf" using grf by (simp add: in_group_def)
    ultimately have "find (\<lambda>x. in_group fc g x \<and> rf_Name x = rf_Name rf) (rev facts) = Some rf"
      by (intro find_only) (use rf in auto)
    then show ?thesis by (simp add: grouped_look)
  qed
  have ok: "\<forall>rf\<in>set facts. \<exists>g t. grp fc rf = Some (g, t) \<and> ch_now h + t > ch_now h' \<and>
      rf_Type rf \<noteq> ''file'' \<and> rf_Name rf \<noteq> version_key \<and> look ?g g (rf_Name rf) = Some (rf_Value rf) \<and>
      (case ch_regexp h' (rf_Name rf) of Some matches \<Rightarrow> matches (rf_Name rf) | None \<Rightarrow> True)"
    using each lk by blast
  have "read_inv view ?g d [] (startResolve d)" by (simp add: read_inv_def startResolve_def)
  from resolveFacts_read_all [OF holds this ok]
  have "read_inv view ?g d facts (foldl (resolveFact h' fc) (startResolve d) facts)" by simp
  then have "ResolveFacts h' fc facts d =
      (([], map (\<lambda>rf. rf\<lparr>rf_Value := view (rf_Value rf)\<rparr>) facts), d, [])"
    using dir by (simp add: ResolveFacts_def read_inv_def Let_def)
  with c show ?thesis by blast
qed

text \<open>A JSON host for the examples: maps are encoded value by value, an integer becomes a float.\<close>

definition exampleView :: "gval \<Rightarrow> gval" where
  "exampleView v = (if v = GInt 1 then GFloat ''1'' else v)"

definition exampleCacheHost :: "int \<Rightarrow> cacheHost" where
  "exampleCacheHost now = \<lparr>ch_now = now,
     ch_json = (\<lambda>v. case v of GMap m \<Rightarrow> Some (GMap (viewm exampleView m)) | _ \<Rightarrow> None),
     ch_regexp = (\<lambda>_. None), ch_mkdirErr = None, ch_writeErr = (\<lambda>_. None), ch_removeErr = (\<lambda>_. None)\<rparr>"

theorem cache_roundtrip_witness:
  "\<exists>d. CacheFacts (exampleCacheHost 100) \<lparr>fc_dir = ''/c'', fc_groups = [(''dmi'', \<lparr>fg_Name = ''dmi'', fg_Facts = [''dmi'']\<rparr>)], fc_ttls = [(''dmi'', 10)]\<rparr>
       [core_fact ''dmi'' (GStr ''x'')] [] = (None, d, []) \<and>
     ResolveFacts (exampleCacheHost 105) \<lparr>fc_dir = ''/c'', fc_groups = [(''dmi'', \<lparr>fg_Name = ''dmi'', fg_Facts = [''dmi'']\<rparr>)], fc_ttls = [(''dmi'', 10)]\<rparr>
       [core_fact ''dmi'' (GStr ''x'')] d =
     (([], map (\<lambda>rf. rf\<lparr>rf_Value := exampleView (rf_Value rf)\<rparr>) [core_fact ''dmi'' (GStr ''x'')]), d, [])"
proof (rule cache_roundtrip)
  have g: "cacheGroupForResolvedFact \<lparr>fc_dir = ''/c'', fc_groups = [(''dmi'', \<lparr>fg_Name = ''dmi'', fg_Facts = [''dmi'']\<rparr>)], fc_ttls = [(''dmi'', 10)]\<rparr>
      (core_fact ''dmi'' (GStr ''x'')) = Some (''dmi'', 10)" by code_simp
  have s: "safeCacheGroupName ''dmi''" by code_simp
  show "\<forall>rf\<in>set [core_fact ''dmi'' (GStr ''x'')]. \<exists>g t. cacheGroupForResolvedFact
       \<lparr>fc_dir = ''/c'', fc_groups = [(''dmi'', \<lparr>fg_Name = ''dmi'', fg_Facts = [''dmi'']\<rparr>)], fc_ttls = [(''dmi'', 10)]\<rparr> rf = Some (g, t) \<and>
        safeCacheGroupName g \<and> ch_now (exampleCacheHost 100) + t > ch_now (exampleCacheHost 105) \<and>
        rf_Type rf \<noteq> ''file'' \<and> rf_Name rf \<noteq> version_key \<and>
        (case ch_regexp (exampleCacheHost 105) (rf_Name rf) of Some matches \<Rightarrow> matches (rf_Name rf) | None \<Rightarrow> True)"
    using g s by (simp add: exampleCacheHost_def version_key_def core_fact_def)
  show "\<forall>m. document_of [core_fact ''dmi'' (GStr ''x'')] m \<longrightarrow>
      ch_json (exampleCacheHost 100) (GMap m) = Some (GMap (viewm exampleView m))"
    by (simp add: exampleCacheHost_def)
  show "exampleView (GInt 1) = GFloat ''1''" by (simp add: exampleView_def)
qed (simp_all add: exampleCacheHost_def)

end
