(* ===== verification/Engine.thy ===== *)
theory Engine
  imports External_Facts Cache
begin

text \<open>
  \<open>internal/engine/engine.go\<close>: construction of an engine and one discovery, composed of the
  plan, the external loader, the registered facts, the core facts, the disabled-fact filter,
  the selection and the cache, in the order of \<open>Engine.Discover\<close>.

  The state is the engine's once-only diagnostics and the cache directory. The process is the
  record \<open>discoveryHost\<close>: its field \<open>dh_ctx\<close> gives the result of the \<open>k\<close>-th test of
  \<open>ctx.Err()\<close> of a discovery, so a cancellation at any of the tests is an instance.
\<close>

section \<open>State and host\<close>

record Engine =
  en_cfg :: EngineConfig
  en_onceSeen :: "bool gomap"

record discoveryHost =
  dh_plan :: planHost
  dh_ext :: extHost
  dh_build :: coreFactBuild
  dh_cache :: cacheHost
  dh_rfc3339 :: "gtime \<Rightarrow> string"
  dh_ctx :: "nat \<Rightarrow> goerror option"

section \<open>Construction\<close>

fun validateFacts :: "int \<Rightarrow> ProgrammaticFact list \<Rightarrow> goerror + ProgrammaticFact list" where
  "validateFacts i [] = Inr []"
| "validateFacts i (pf # pfs) =
     (if pf_Name pf = [] then Inl (ErrText (''fact '' @ itoa i @ '': name is empty''))
      else if NUL \<in> set (pf_Name pf)
      then Inl (ErrText (''fact '' @ go_quote (pf_Name pf) @ '': name contains a null byte''))
      else (case validateFacts (i + 1) pfs of
              Inl e \<Rightarrow> Inl e
            | Inr rest \<Rightarrow> Inr (pf\<lparr>pf_Name := to_lower (pf_Name pf)\<rparr> # rest)))"

definition NewEngine :: "EngineConfig \<Rightarrow> goerror + Engine" where
  "NewEngine cfg =
     (case validateFacts 0 (ec_Facts cfg) of
        Inl e \<Rightarrow> Inl e
      | Inr facts \<Rightarrow> Inr \<lparr>en_cfg = cfg\<lparr>ec_Facts := facts\<rparr>, en_onceSeen = []\<rparr>)"

definition warnOnce :: "Engine \<Rightarrow> string \<Rightarrow> Engine \<times> log" where
  "warnOnce en message =
     (en\<lparr>en_onceSeen := mput message True (en_onceSeen en)\<rparr>,
      if is_set (en_onceSeen en) message then [] else [(LevelWarn, message)])"

section \<open>The stages of a discovery\<close>

definition recursionWarning :: string where
  "recursionWarning = ''Recursion detected while resolving external facts; executable external facts will be skipped''"

definition gatherExternal ::
  "discoveryHost \<Rightarrow> discoveryPlan \<Rightarrow> Engine \<Rightarrow> (ResolvedFact list \<times> goerror option) \<times> Engine \<times> log" where
  "gatherExternal h plan en =
     (if pl_noExternalFacts plan then (([], None), en, [])
      else
        let (en1, lg1) =
              (if pl_externalDirs plan \<noteq> [] \<and> eh_resolutionRunning (dh_ext h)
               then warnOnce en recursionWarning else (en, []));
            (loaded, lg2) = loadExternal (dh_ext h)
              \<lparr>ld_mode = pl_loaderMode plan, ld_dirs = pl_externalDirs plan,
               ld_blocked = pl_disabledFacts plan, ld_includeEnv = pl_includeEnv plan\<rparr>
        in (loaded, en1, lg1 @ lg2))"

text \<open>The loop over the registered facts; \<open>k\<close> counts the tests of the context.\<close>

fun resolveRegistered ::
  "discoveryHost \<Rightarrow> nat \<Rightarrow> ProgrammaticFact list \<Rightarrow> ResolvedFact list \<times> goerror list \<times> log \<times> nat" where
  "resolveRegistered h k [] = ([], [], [], k)"
| "resolveRegistered h k (pf # pfs) =
     (if dh_ctx h k \<noteq> None then ([], [], [], Suc k)
      else case pf_Resolve pf of
        None \<Rightarrow>
          (let (fs, es, lg, k') = resolveRegistered h (Suc k) pfs
           in (typed_fact (pf_Name pf) GNil ''custom'' # fs, es, lg, k'))
      | Some (Inl e) \<Rightarrow>
          (let (fs, es, lg, k') = resolveRegistered h (Suc k) pfs
           in (fs, ErrWrap (''fact '' @ pf_Name pf) e # es, lg, k'))
      | Some (Inr resolved) \<Rightarrow>
          (let value = normalizeCustomValue (dh_rfc3339 h) resolved;
               bad = customValueContainsNullByte value;
               (fs, es, lg, k') = resolveRegistered h (Suc k) pfs
           in (typed_fact (pf_Name pf) (if bad then GNil else value) ''custom'' # fs, es,
               (if bad then [(LevelWarn, ''custom fact value contains a null byte reference'')] else []) @ lg,
               k')))"

definition no_memo :: coreFactsMemo where
  "no_memo = \<lparr>cm_built = False, cm_fingerprint = [], cm_facts = []\<rparr>"

definition selectIfQueried :: "discoveryPlan \<Rightarrow> ResolvedFact list \<Rightarrow> ResolvedFact list" where
  "selectIfQueried plan facts =
     (if pl_queries plan = [] then facts
      else fst (selectFacts (NewProjection facts (pl_includeTypedDotted plan)) (pl_queries plan)))"

definition assembleFacts ::
  "discoveryHost \<Rightarrow> discoveryPlan \<Rightarrow> ResolvedFact list \<Rightarrow> ResolvedFact list \<Rightarrow> ResolvedFact list" where
  "assembleFacts h plan registered externalFacts =
     selectIfQueried plan
       (FilterDisabledFacts
          (fst (CoreFacts (dh_build h) (pl_disabledFacts plan) no_memo) @ registered @ externalFacts)
          (pl_disabledFacts plan))"

definition throughCache ::
  "cacheHost \<Rightarrow> discoveryPlan \<Rightarrow> ResolvedFact list \<Rightarrow> cacheDir \<Rightarrow>
     ResolvedFact list \<times> goerror list \<times> cacheDir \<times> log" where
  "throughCache h plan facts d =
     (let fc = NewFactCache (pl_cachePath plan) (pl_cacheTTLs plan) (pl_cacheGroups plan);
          ((remaining, cached0), d1, lg1) =
            ResolveFacts h fc (FilterDisabledFacts facts (pl_disabledFacts plan)) d;
          cached = FilterDisabledFacts cached0 (pl_disabledFacts plan);
          (err, d2, lg2) = CacheFacts h fc remaining d1
      in (selectIfQueried plan (remaining @ cached),
          (case err of Some e \<Rightarrow> [e] | None \<Rightarrow> []), d2, lg1 @ lg2))"

definition finishDiscovery ::
  "goerror option \<Rightarrow> ResolvedFact list \<Rightarrow> goerror list \<Rightarrow> (Snapshot \<times> goerror option) \<times> log" where
  "finishDiscovery ctxErr facts failures =
     (let (sn, lg) = newSnapshot facts
      in ((sn, errors_join (failures @ (case ctxErr of Some e \<Rightarrow> [e] | None \<Rightarrow> []))), lg))"

section \<open>One discovery\<close>

definition Discover ::
  "discoveryHost \<Rightarrow> string list \<Rightarrow> Engine \<Rightarrow> cacheDir \<Rightarrow>
     (Snapshot \<times> goerror option) \<times> Engine \<times> cacheDir \<times> log" where
  "Discover h queries en d =
     (let (plan, planFailures) = planDiscovery (en_cfg en) (dh_plan h) queries;
          lg0 = map (\<lambda>m. (LevelWarn, m))
                  (diagnoseAmbientDisabledQueries (pl_queries plan) (pl_ambientDisabled plan));
          ((externalFacts, loadErr), en1, lg1) = gatherExternal h plan en
      in case (loadErr, pl_loaderMode plan) of
           (Some e, externalFactLoaderCLI) \<Rightarrow>
             (let (sn, lg) = newSnapshot [] in ((sn, Some e), en1, d, lg0 @ lg1 @ lg))
         | _ \<Rightarrow>
             (let failures1 = planFailures @ (case loadErr of Some e \<Rightarrow> [e] | None \<Rightarrow> [])
              in if dh_ctx h 0 \<noteq> None
                 then (let (r, lg) = finishDiscovery (dh_ctx h 1) externalFacts failures1
                       in (r, en1, d, lg0 @ lg1 @ lg))
                 else
                   let (registered, es, lg2, k) = resolveRegistered h 1 (ec_Facts (en_cfg en1));
                       failures2 = failures1 @ es
                   in if dh_ctx h k \<noteq> None
                      then (let (r, lg) = finishDiscovery (dh_ctx h (k + 1)) (registered @ externalFacts) failures2
                            in (r, en1, d, lg0 @ lg1 @ lg2 @ lg))
                      else
                        let facts = assembleFacts h plan registered externalFacts
                        in if pl_useCache plan \<and> dh_ctx h (k + 1) = None
                           then (let (facts', es', d', lg3) = throughCache (dh_cache h) plan facts d;
                                     (r, lg) = finishDiscovery (dh_ctx h (k + 2)) facts' (failures2 @ es')
                                 in (r, en1, d', lg0 @ lg1 @ lg2 @ lg3 @ lg))
                           else (let (r, lg) = finishDiscovery
                                       (dh_ctx h (if pl_useCache plan then k + 2 else k + 1)) facts failures2
                                 in (r, en1, d, lg0 @ lg1 @ lg2 @ lg))))"

section \<open>Hidden roots\<close>

text \<open>A root is hidden in a list of facts when every fact below it is a nil placeholder of a query. Collection, selection
  and sharing keep a root hidden.\<close>

definition hidden :: "string \<Rightarrow> ResolvedFact \<Rightarrow> bool" where
  "hidden r rf \<longleftrightarrow> (factRoot (rf_Name rf) = r \<longrightarrow> rf_Value rf = GNil \<and> rf_Type rf = ''nil'')"

lemma split_on_hd: "hd (split_on c s) = takeWhile (\<lambda>x. x \<noteq> c) s"
  by (induction c s rule: split_on.induct) (auto split: list.splits)

lemma fact_path_hd: "hd (fact_path rf) = factRoot (rf_Name rf)"
  by (simp add: fact_path_def factRoot_def split_on_hd)

lemma factRoot_no_dot: "DOT \<notin> set (factRoot name)"
  by (auto simp: factRoot_def dest: set_takeWhileD)

lemma factRoot_self: "DOT \<notin> set r \<Longrightarrow> factRoot r = r"
  by (auto simp: factRoot_def intro!: takeWhile_eq_all_conv [THEN iffD2])

lemma insert_path_top: "p \<noteq> r \<Longrightarrow> mget (fst (insert_path root (p # ps) v)) r = mget root r"
  by (cases ps) (auto split: option.splits gval.splits prod.splits)

lemma collectFact_hidden:
  assumes "DOT \<notin> set r" and "hidden r rf" and "mget root r = None"
  shows "mget (fst (collectFact incl root rf)) r = None"
proof (cases "rf_Value rf = GNil")
  case False
  with assms(2) have root: "hd (fact_path rf) \<noteq> r" by (auto simp: hidden_def fact_path_hd)
  obtain p ps where path: "fact_path rf = p # ps" by (cases "fact_path rf") auto
  have "rf_Name rf \<noteq> r" using root assms(1) factRoot_self [of r] by (auto simp: fact_path_hd)
  then show ?thesis using False root assms(3) path insert_path_top [of p r root ps "rf_Value rf"]
    by (auto simp: collectFact_def Let_def)
qed (use assms in \<open>simp add: collectFact_def\<close>)

lemma collectFrom_hidden:
  "DOT \<notin> set r \<Longrightarrow> list_all (hidden r) facts \<Longrightarrow> mget root r = None \<Longrightarrow>
     mget (fst (collectFrom incl root facts)) r = None"
  by (induction facts arbitrary: root) (simp_all add: collectFrom_Cons collectFact_hidden del: collectFrom.simps(2))

lemma Collection_hidden:
  "DOT \<notin> set r \<Longrightarrow> list_all (hidden r) facts \<Longrightarrow> mget (CollectionWithDottedFacts facts incl) r = None"
  by (simp add: CollectionWithDottedFacts_def collectFacts_def collectFrom_hidden)

lemma sharedFact_hidden: "hidden r rf \<Longrightarrow> hidden r (sharedFact t rf placed)"
  by (auto simp: hidden_def sharedFact_def split: option.splits if_splits)

lemma afterCollection_hidden:
  assumes "list_all (hidden r) facts"
  shows "list_all (hidden r) (afterCollection incl facts)"
  using assms
  by (auto simp: afterCollection_def list_all_iff in_set_zip all_set_conv_all_nth intro!: sharedFact_hidden)

lemma findFactIn_hidden:
  assumes "DOT \<notin> set r" and "list_all (hidden r) facts" and "mget t r = None"
  shows "hidden r (findFactIn facts t query)"
proof (cases "find (\<lambda>rf. factMatchesQuery (rf_Name rf) (to_lower query)) (rev facts)")
  case (Some rf)
  then have "rf \<in> set facts" by (metis find_Some_iff nth_mem set_rev)
  with assms(2) have "hidden r rf" by (auto simp: list_all_iff)
  with Some show ?thesis by (simp add: findFactIn_def hidden_def)
next
  case None
  obtain p ps where sp: "split_on DOT (to_lower query) = p # ps"
    by (cases "split_on DOT (to_lower query)") auto
  have "p = factRoot (to_lower query)"
    using split_on_hd [of DOT "to_lower query"] by (simp add: sp factRoot_def)
  with assms(3) have "digValue (GMap t) (split_on DOT (to_lower query)) = None"
    if "factRoot (to_lower query) = r" using that by (simp add: sp)
  then show ?thesis using None
    by (cases "digValue (GMap t) (split_on DOT (to_lower query))")
      (auto simp: findFactIn_def hidden_def Let_def simp del: digValue.simps digValue_GMap)
qed

lemma selectIfQueried_hidden:
  assumes "DOT \<notin> set r" and "list_all (hidden r) facts"
  shows "list_all (hidden r) (selectIfQueried plan facts)"
proof (cases "pl_queries plan = []")
  case False
  then show ?thesis using findFactIn_hidden [OF assms(1) afterCollection_hidden [OF assms(2)]]
      Collection_hidden [OF assms]
    by (auto simp: selectIfQueried_def selectFacts_queries list_all_iff
        projectionCollection_def NewProjection_def Let_def)
qed (use assms in \<open>simp add: selectIfQueried_def\<close>)

lemma FilterDisabledFacts_hidden:
  assumes "is_set disabled r"
  shows "list_all (hidden r) (FilterDisabledFacts facts disabled)"
  using assms by (auto simp: FilterDisabledFacts_eq list_all_iff hidden_def nameDisabled_def)

lemma throughCache_hidden:
  assumes "DOT \<notin> set r" and "is_set (pl_disabledFacts plan) r"
    and "set remaining \<subseteq> set (FilterDisabledFacts facts (pl_disabledFacts plan))"
    and "fst (ResolveFacts h (NewFactCache (pl_cachePath plan) (pl_cacheTTLs plan) (pl_cacheGroups plan))
           (FilterDisabledFacts facts (pl_disabledFacts plan)) d) = (remaining, cached)"
  shows "list_all (hidden r) (fst (throughCache h plan facts d))"
proof -
  have "list_all (hidden r) (remaining @ FilterDisabledFacts cached (pl_disabledFacts plan))"
    using FilterDisabledFacts_hidden [OF assms(2)] assms(3) by (auto simp: list_all_iff)
  from selectIfQueried_hidden [OF assms(1) this, of plan] show ?thesis using assms(4)
    by (simp add: throughCache_def Let_def case_prod_beta)
qed

lemma keep_sub: "rs_remaining (keep rf st) = rs_remaining st @ [rf]" "rs_remaining (serve fs st) = rs_remaining st"
  by (simp_all add: keep_def serve_def)

lemma resolveCached_remaining:
  "set (rs_remaining (resolveCached h fc g rf st)) \<subseteq> insert rf (set (rs_remaining st))"
proof -
  obtain r st1 where r: "readOnce h fc g st = (r, st1)" by fastforce
  then show ?thesis using readOnce_lists [OF r]
    by (cases r) (auto simp: resolveCached_def keep_sub split: option.splits)
qed

lemma resolveFact_remaining:
  "set (rs_remaining (resolveFact h fc st rf)) \<subseteq> insert rf (set (rs_remaining st))"
proof (cases "cacheGroupForResolvedFact fc rf")
  case None
  then show ?thesis by (simp add: resolveFact_def keep_sub)
next
  case (Some gt)
  obtain g t where gt: "gt = (g, t)" by (cases gt)
  obtain b st1 where f: "freshOnce h fc g t st = (b, st1)" by fastforce
  obtain c lg where c: "externalFactInCustomGroup rf g = (c, lg)" by fastforce
  show ?thesis using freshOnce_lists [OF f] resolveCached_remaining [of h fc g rf "st1\<lparr>rs_log := rs_log st1 @ lg\<rparr>"]
    by (auto simp: resolveFact_def Some gt f c Let_def keep_sub)
qed

lemma resolveFacts_remaining:
  "set (rs_remaining (foldl (resolveFact h fc) st fs)) \<subseteq> set (rs_remaining st) \<union> set fs"
  by (induction fs arbitrary: st) (use resolveFact_remaining in fastforce)+

lemma ResolveFacts_remaining:
  "fst (ResolveFacts h fc searched d) = (remaining, cached) \<Longrightarrow> set remaining \<subseteq> set searched"
  using resolveFacts_remaining [of h fc "startResolve d" searched]
  by (auto simp: ResolveFacts_def Let_def startResolve_def split: if_splits)

text \<open>The facts of the snapshot of a discovery that is never cancelled.\<close>

lemma Discover_facts:
  fixes en queries
  assumes "\<And>k. dh_ctx h k = None"
  defines "plan \<equiv> fst (planDiscovery (en_cfg en) (dh_plan h) queries)"
  obtains registered externalFacts facts where
    "fst (fst (Discover h queries en d)) = fst (newSnapshot facts)"
    "facts = [] \<or> facts = assembleFacts h plan registered externalFacts \<or>
     facts = fst (throughCache (dh_cache h) plan (assembleFacts h plan registered externalFacts) d)"
proof -
  obtain pf where plan: "planDiscovery (en_cfg en) (dh_plan h) queries = (plan, pf)"
    unfolding plan_def by (metis prod.collapse)
  obtain ex le en1 lg1 where g: "gatherExternal h plan en = ((ex, le), en1, lg1)"
    by (metis prod.collapse)
  obtain reg es lg2 k where r: "resolveRegistered h 1 (ec_Facts (en_cfg en1)) = (reg, es, lg2, k)"
    by (metis prod.collapse)
  have ns: "fst (fst (finishDiscovery c facts es)) = fst (newSnapshot facts)" for c facts es
    by (simp add: finishDiscovery_def case_prod_beta)
  let ?f = "assembleFacts h plan reg ex"
  have "fst (fst (Discover h queries en d)) = fst (newSnapshot []) \<or>
      fst (fst (Discover h queries en d)) = fst (newSnapshot ?f) \<or>
      fst (fst (Discover h queries en d)) = fst (newSnapshot (fst (throughCache (dh_cache h) plan ?f d)))"
    by (cases le; cases "pl_loaderMode plan"; cases "pl_useCache plan")
      (simp_all add: Discover_def plan g r [unfolded One_nat_def] assms(1) case_prod_beta Let_def ns)
  then show ?thesis using that by blast
qed

lemma Discover_hidden:
  assumes "\<And>k. dh_ctx h k = None" and "DOT \<notin> set r"
    and "is_set (pl_disabledFacts (fst (planDiscovery (en_cfg en) (dh_plan h) queries))) r"
  obtains facts where "fst (fst (Discover h queries en d)) = fst (newSnapshot facts)" "list_all (hidden r) facts"
proof -
  let ?plan = "fst (planDiscovery (en_cfg en) (dh_plan h) queries)"
  obtain registered externalFacts facts where f: "fst (fst (Discover h queries en d)) = fst (newSnapshot facts)"
    and cases: "facts = [] \<or> facts = assembleFacts h ?plan registered externalFacts \<or>
     facts = fst (throughCache (dh_cache h) ?plan (assembleFacts h ?plan registered externalFacts) d)"
    using Discover_facts [where en = en and queries = queries and d = d, OF assms(1)] by blast
  have "list_all (hidden r) (assembleFacts h ?plan registered externalFacts)"
    unfolding assembleFacts_def
    by (intro selectIfQueried_hidden FilterDisabledFacts_hidden assms)
  moreover have "list_all (hidden r) (fst (throughCache (dh_cache h) ?plan fs d))" for fs
    using throughCache_hidden [OF assms(2,3) ResolveFacts_remaining] by (metis prod.collapse)
  ultimately have "list_all (hidden r) facts" using cases by auto
  with f show ?thesis using that by blast
qed

section \<open>What a discovery leaves in the cache\<close>

text \<open>Every step but the last of a write removes files or leaves them alone.\<close>

definition sub_dir :: "cacheDir \<Rightarrow> cacheDir \<Rightarrow> bool" where
  "sub_dir d' d \<longleftrightarrow> (\<forall>p f. mget d' p = Some f \<longrightarrow> mget d p = Some f)"

lemma sub_dir_refl [simp]: "sub_dir d d" by (simp add: sub_dir_def)

lemma sub_dir_trans: "sub_dir a b \<Longrightarrow> sub_dir b c \<Longrightarrow> sub_dir a c" by (simp add: sub_dir_def)

lemma sub_dir_mdel [simp]: "sub_dir (mdel p d) d" by (simp add: sub_dir_def)

lemma sub_dir_remove: "sub_dir (snd (removeFile h p d)) d"
  by (simp add: removeFile_def split: option.splits)

lemma sub_dir_delete: "sub_dir (fst (deleteCacheFile h p d)) d"
proof -
  obtain e d' where r: "removeFile h p d = (e, d')" by fastforce
  then show ?thesis using sub_dir_remove [of h p d] by (cases e) (simp_all add: deleteCacheFile_def)
qed

lemma sub_dir_fresh: "sub_dir (fst (snd (cacheFresh h fc g t d))) d"
  by (simp add: cacheFresh_def sub_dir_remove split: option.splits prod.splits)

lemma sub_dir_read: "sub_dir (fst (snd (readCache h fc g d))) d"
proof -
  obtain p lg where p: "cachePath fc g = (p, lg)" by fastforce
  have del: "sub_dir d' d" if "deleteCacheFile h q d = (d', lg')" for q d' lg'
    using sub_dir_delete [of h q d] that by simp
  show ?thesis by (auto simp: readCache_def p Let_def dest: del split: option.splits prod.splits)
qed

lemma sub_dir_should: "sub_dir (fst (snd (shouldWriteCache h fc g t data d))) d"
  by (simp add: shouldWriteCache_def sub_dir_remove case_prod_beta split: option.splits prod.splits)

lemma sub_dir_freshOnce: "sub_dir (rs_dir (snd (freshOnce h fc g t st))) (rs_dir st)"
  using sub_dir_fresh [of h fc g t "rs_dir st"]
  by (auto simp: freshOnce_def split: option.splits prod.splits)

lemma sub_dir_readOnce: "sub_dir (rs_dir (snd (readOnce h fc g st))) (rs_dir st)"
  using sub_dir_read [of h fc g "rs_dir st"]
  by (auto simp: readOnce_def split: option.splits prod.splits)

lemma sub_dir_dropGroup: "sub_dir (rs_dir (dropGroup h fc g st)) (rs_dir st)"
  using sub_dir_delete [of h _ "rs_dir st"]
  by (auto simp: dropGroup_def case_prod_beta Let_def split: option.splits)

lemma sub_dir_keep [simp]: "rs_dir (keep rf st) = rs_dir st" "rs_dir (serve fs st) = rs_dir st"
  by (simp_all add: keep_def serve_def)

lemma sub_dir_resolveCached: "sub_dir (rs_dir (resolveCached h fc g rf st)) (rs_dir st)"
proof -
  obtain r st1 where r: "readOnce h fc g st = (r, st1)" by fastforce
  have s: "sub_dir (rs_dir st1) (rs_dir st)" using sub_dir_readOnce [of h fc g st] r by simp
  moreover have "sub_dir (rs_dir (dropGroup h fc g st1)) (rs_dir st)"
    by (rule sub_dir_trans [OF sub_dir_dropGroup s])
  ultimately show ?thesis
    by (cases r) (simp_all add: resolveCached_def r split: option.split)
qed

lemma sub_dir_resolveFact: "sub_dir (rs_dir (resolveFact h fc st rf)) (rs_dir st)"
proof (cases "cacheGroupForResolvedFact fc rf")
  case (Some gt)
  obtain g t where gt: "gt = (g, t)" by (cases gt)
  obtain b st1 where f: "freshOnce h fc g t st = (b, st1)" by fastforce
  obtain c lg where c: "externalFactInCustomGroup rf g = (c, lg)" by fastforce
  let ?st2 = "st1\<lparr>rs_log := rs_log st1 @ lg\<rparr>"
  have "sub_dir (rs_dir ?st2) (rs_dir st)" using sub_dir_freshOnce [of h fc g t st] f by simp
  then show ?thesis using sub_dir_trans [OF sub_dir_resolveCached [of h fc g rf ?st2]]
    by (auto simp: resolveFact_def Some gt f c Let_def)
qed (simp add: resolveFact_def)

lemma sub_dir_resolveFacts: "sub_dir (rs_dir (foldl (resolveFact h fc) st fs)) (rs_dir st)"
  by (induction fs arbitrary: st) (use sub_dir_resolveFact sub_dir_trans in fastforce)+

lemma sub_dir_ResolveFacts: "sub_dir (fst (snd (ResolveFacts h fc fs d))) d"
  using sub_dir_resolveFacts [of h fc "startResolve d" fs]
  by (simp add: ResolveFacts_def startResolve_def Let_def)

text \<open>The names of the facts written to a group.\<close>

lemma grouped_names:
  "mget (foldl (groupFact fc) [] facts) g = Some data \<Longrightarrow> fst ` set data \<subseteq> rf_Name ` set facts"
proof (induction facts arbitrary: g data rule: rev_induct)
  case (snoc rf facts)
  let ?G = "foldl (groupFact fc) [] facts"
  have step: "mget (groupFact fc ?G rf) g = Some data" using snoc.prems by simp
  show ?case
  proof (cases "cacheGroupForResolvedFact fc rf")
    case None
    with step have "mget ?G g = Some data" by (simp add: groupFact_def)
    from snoc.IH [OF this] show ?thesis by auto
  next
    case (Some gt)
    obtain g0 t where gt: "gt = (g0, t)" by (cases gt)
    show ?thesis
    proof (cases "g = g0")
      case True
      with step have d: "data = mput (rf_Name rf) (rf_Value rf) (case mget ?G g0 of Some m \<Rightarrow> m | None \<Rightarrow> [])"
        by (simp add: groupFact_def Some gt Let_def)
      show ?thesis
      proof (cases "mget ?G g0")
        case None
        with d show ?thesis by simp
      next
        case (Some m)
        from snoc.IH [OF this] have "fst ` set m \<subseteq> rf_Name ` set facts" .
        with d Some show ?thesis by (auto simp: keys_put)
      qed
    next
      case False
      with step have "mget ?G g = Some data" by (simp add: groupFact_def Some gt Let_def)
      from snoc.IH [OF this] show ?thesis by auto
    qed
  qed
qed simp

definition written :: "cacheHost \<Rightarrow> (string \<Rightarrow> bool) \<Rightarrow> cacheFile \<Rightarrow> bool" where
  "written h P f \<longleftrightarrow> (\<exists>data. cf_doc f = ch_json h (GMap (mput version_key (GInt 1) data)) \<and>
     list_all (\<lambda>kv. P (fst kv)) data)"

lemma writeGroups_written:
  "\<forall>(g, data)\<in>set gs. list_all (\<lambda>kv. P (fst kv)) data \<Longrightarrow>
     mget (fst (snd (writeGroups h fc gs d))) p = Some f \<Longrightarrow> mget d p = Some f \<or> written h P f"
proof (induction gs arbitrary: d)
  case (Cons gd gs)
  obtain g data where gd: "gd = (g, data)" by (cases gd)
  define ttl where "ttl = (case mget (fc_ttls fc) g of Some t \<Rightarrow> t | None \<Rightarrow> 0)"
  obtain w d1 lg1 where sw: "shouldWriteCache h fc g ttl data d = (w, d1, lg1)" by (metis prod.collapse)
  obtain path lg2 where path: "cachePath fc g = (path, lg2)" by fastforce
  have sub: "sub_dir d1 d" using sub_dir_should [of h fc g ttl data d] sw by simp
  have IH: "mget (fst (snd (writeGroups h fc gs e))) p = Some f \<Longrightarrow> mget e p = Some f \<or> written h P f" for e
    using Cons.IH Cons.prems(1) by simp
  have here: "written h P \<lparr>cf_mtime = ch_now h, cf_doc = Some doc\<rparr>"
    if "ch_json h (GMap (mput version_key (GInt 1) data)) = Some doc" for doc
    using that Cons.prems(1) unfolding written_def by (intro exI [of _ data]) (simp add: gd)
  note unf = gd ttl_def [symmetric] sw path case_prod_beta Let_def
  consider (skip) "\<not> w" | (json) "w" "ch_json h (GMap (mput version_key (GInt 1) data)) = None"
    | (unsafe) doc where "w" "ch_json h (GMap (mput version_key (GInt 1) data)) = Some doc" "path = None"
    | (failed) doc q e where "w" "ch_json h (GMap (mput version_key (GInt 1) data)) = Some doc" "path = Some q"
        "ch_writeErr h q = Some e"
    | (ok) doc q where "w" "ch_json h (GMap (mput version_key (GInt 1) data)) = Some doc" "path = Some q"
        "ch_writeErr h q = None"
    by (cases w; cases path; cases "ch_json h (GMap (mput version_key (GInt 1) data))") fastforce+
  then show ?case
  proof cases
    case skip
    then show ?thesis using IH [of d1] sub Cons.prems(2) by (auto simp: unf sub_dir_def)
  next
    case json
    then show ?thesis using sub Cons.prems(2) by (auto simp: unf sub_dir_def)
  next
    case unsafe
    then show ?thesis using IH [of d1] sub Cons.prems(2) by (auto simp: unf sub_dir_def)
  next
    case failed
    then show ?thesis using sub Cons.prems(2) by (auto simp: unf sub_dir_def split: if_splits)
  next
    case ok
    then show ?thesis
      using IH [of "mput q \<lparr>cf_mtime = ch_now h, cf_doc = Some doc\<rparr> d1"] sub Cons.prems(2) here
      by (auto simp: unf sub_dir_def split: if_splits)
  qed
qed simp

lemma CacheFacts_written:
  assumes "list_all (\<lambda>rf. P (rf_Name rf)) facts"
    and "mget (fst (snd (CacheFacts h fc facts d))) p = Some f"
  shows "mget d p = Some f \<or> written h P f"
proof -
  let ?G = "foldl (groupFact fc) [] facts"
  have "list_all (\<lambda>kv. P (fst kv)) data" if "(g, data) \<in> set ?G" for g data
  proof -
    have "mget ?G g = Some data" using that grouped_wf [of fc facts] by (simp add: wfm_def)
    from grouped_names [OF this] assms(1) show ?thesis by (fastforce simp: list_all_iff)
  qed
  then have all: "\<forall>(g, data)\<in>set ?G. list_all (\<lambda>kv. P (fst kv)) data" by blast
  show ?thesis
    using assms(2) writeGroups_written [OF all]
    by (auto simp: CacheFacts_def Let_def split: if_splits option.splits)
qed

lemma throughCache_written:
  assumes "mget (fst (snd (snd (throughCache h plan facts d)))) p = Some f"
  shows "mget d p = Some f \<or> written h
    (\<lambda>n. \<not> is_set (pl_disabledFacts plan) n \<and> \<not> is_set (pl_disabledFacts plan) (factRoot n)) f"
proof -
  let ?fc = "NewFactCache (pl_cachePath plan) (pl_cacheTTLs plan) (pl_cacheGroups plan)"
  let ?fs = "FilterDisabledFacts facts (pl_disabledFacts plan)"
  let ?P = "\<lambda>n. \<not> is_set (pl_disabledFacts plan) n \<and> \<not> is_set (pl_disabledFacts plan) (factRoot n)"
  obtain remaining cached d1 lg1 where r: "ResolveFacts h ?fc ?fs d = ((remaining, cached), d1, lg1)"
    by (metis prod.collapse)
  have "set remaining \<subseteq> set ?fs" using ResolveFacts_remaining [of h ?fc ?fs d] r by simp
  then have "list_all (\<lambda>rf. ?P (rf_Name rf)) remaining"
    by (auto simp: list_all_iff FilterDisabledFacts_eq nameDisabled_def)
  moreover have "mget (fst (snd (CacheFacts h ?fc remaining d1))) p = Some f"
    using assms by (simp add: throughCache_def r Let_def case_prod_beta)
  ultimately have "mget d1 p = Some f \<or> written h ?P f" by (rule CacheFacts_written)
  moreover have "sub_dir d1 d" using sub_dir_ResolveFacts [of h ?fc ?fs d] r by simp
  ultimately show ?thesis by (auto simp: sub_dir_def)
qed

lemma Discover_dir:
  "fst (snd (snd (Discover h queries en d))) = d \<or>
   (\<exists>facts. fst (snd (snd (Discover h queries en d))) =
      fst (snd (snd (throughCache (dh_cache h) (fst (planDiscovery (en_cfg en) (dh_plan h) queries)) facts d))))"
proof -
  obtain plan pf where plan: "planDiscovery (en_cfg en) (dh_plan h) queries = (plan, pf)" by fastforce
  obtain ex le en1 lg1 where g: "gatherExternal h plan en = ((ex, le), en1, lg1)"
    by (metis prod.collapse)
  show ?thesis
    by (cases le; cases "pl_loaderMode plan"; cases "pl_useCache plan")
      (auto simp: Discover_def plan g case_prod_beta Let_def)
qed

section \<open>Properties\<close>

text \<open>C1: A disabled root is absent from the result of a discovery that is not cancelled, whatever the
  core probes, the registered facts, the external facts and the cache contribute: the
  snapshot's tree has no such key, and the only facts under it are the nil placeholders of
  queries that found nothing.\<close>

theorem Discover_hides_disabled:
  assumes "\<And>k. dh_ctx h k = None" and "DOT \<notin> set r"
    and "is_set (pl_disabledFacts (fst (planDiscovery (en_cfg en) (dh_plan h) queries))) r"
  shows "mget (snapshotTree (fst (fst (Discover h queries en d)))) r = None \<and>
     list_all (\<lambda>rf. if factRoot (rf_Name rf) = r then rf_Value rf = GNil \<and> rf_Type rf = ''nil'' else True)
       (sn_facts (fst (fst (Discover h queries en d))))"
proof -
  obtain facts where f: "fst (fst (Discover h queries en d)) = fst (newSnapshot facts)"
    and hid: "list_all (hidden r) facts"
    using Discover_hidden [where en = en and queries = queries and d = d, OF assms] by blast
  from afterCollection_hidden [OF hid, of False] Collection_hidden [OF assms(2) hid, of False]
  show ?thesis
    by (auto simp: f snapshotTree_def newSnapshot_sel Collection_def hidden_def list_all_iff)
qed

text \<open>A process for the examples: every probe returns one fact, the context never ends.\<close>

definition exampleHost :: "string list \<Rightarrow> discoveryHost" where
  "exampleHost env = \<lparr>
     dh_plan = \<lparr>ph_environ = env, ph_parseConfig = (\<lambda>_ _. (empty_config, None)), ph_currentDefaults = no_defaults\<rparr>,
     dh_ext = \<lparr>eh_readDir = (\<lambda>_. Inl ErrNotExist), eh_open = (\<lambda>_. Inl ErrNotExist), eh_fileReadable = (\<lambda>_. False),
       eh_environ = env, eh_goos = ''linux'',
       eh_runCommand = (\<lambda>_ _. \<lparr>cr_stdout = [], cr_stderr = [], cr_err = None, cr_timeout = False\<rparr>),
       eh_resolutionRunning = False, eh_ctxErr = None, eh_json = (\<lambda>_. None), eh_yaml = (\<lambda>_. DecodeEOF),
       eh_yamlMap = (\<lambda>_. Inr []), eh_parseFloat = (\<lambda>_. None), eh_timeText = (\<lambda>_. []), eh_yamlTime = (\<lambda>_. None)\<rparr>,
     dh_build = newCoreFactBuild ''linux'' (\<lambda>_. ''/bin'')
       \<lparr>vz_Name = ''kvm'', vz_IsVirtual = True, vz_Unknown = False\<rparr> ''4.0''
       (\<lambda>p. if p = ''dmiCoreFacts'' then [core_fact ''dmi'' (GStr ''x'')] else []),
     dh_cache = exampleCacheHost 100, dh_rfc3339 = (\<lambda>_. []), dh_ctx = (\<lambda>_. None)\<rparr>"

definition exampleEngine :: "bool gomap option \<Rightarrow> bool \<Rightarrow> Engine" where
  "exampleEngine disabled cli = \<lparr>en_cfg =
     \<lparr>ec_ConfigFile = [], ec_ExternalDirs = [''/etc/facts/facts.d''], ec_UseCache = False, ec_SystemDefaults = False,
       ec_Facts = [\<lparr>pf_Name = ''dmi.bios'', pf_Resolve = Some (Inr (GStr ''y''))\<rparr>], ec_Defaults = None,
       ec_CLICompat = cli, ec_NoExternalFacts = False, ec_DisabledFacts = disabled, ec_ExtraDisabled = [],
       ec_ConfigLoaded = False, ec_Config = empty_config, ec_IncludeTypedDotted = False\<rparr>,
     en_onceSeen = []\<rparr>"

theorem Discover_hides_disabled_witness:
  "mget (snapshotTree (fst (fst (Discover (exampleHost []) [''dmi''] (exampleEngine (Some [(''dmi'', True)]) False) [])))) ''dmi'' = None"
proof -
  have "is_set (pl_disabledFacts (fst (planDiscovery (en_cfg (exampleEngine (Some [(''dmi'', True)]) False))
      (dh_plan (exampleHost [])) [''dmi'']))) ''dmi''" by code_simp
  moreover have "dh_ctx (exampleHost []) k = None" for k by (simp add: exampleHost_def)
  moreover have "DOT \<notin> set ''dmi''" by code_simp
  ultimately show ?thesis
    using Discover_hides_disabled [of "exampleHost []" "''dmi''" "exampleEngine (Some [(''dmi'', True)]) False"
        "[''dmi'']" "[]"] by blast
qed

text \<open>C2: Nothing disabled is persisted: a cache file after a discovery was there before, unchanged, or
  is the encoding of facts that the discovery's disabled set names neither by their name nor
  by their root - also when the discovery is cancelled or fails on the way.\<close>

theorem Discover_persists_enabled:
  "(case mget (fst (snd (snd (Discover h queries en d)))) p of
      None \<Rightarrow> True
    | Some f \<Rightarrow> mget d p = Some f \<or>
        written (dh_cache h) (\<lambda>n. let disabled = pl_disabledFacts (fst (planDiscovery (en_cfg en) (dh_plan h) queries))
           in \<not> is_set disabled n \<and> \<not> is_set disabled (factRoot n)) f)"
proof (cases "mget (fst (snd (snd (Discover h queries en d)))) p")
  case (Some f)
  then have "mget d p = Some f \<or> (\<exists>facts. mget (fst (snd (snd (throughCache (dh_cache h)
      (fst (planDiscovery (en_cfg en) (dh_plan h) queries)) facts d)))) p = Some f)"
    using Discover_dir [of h queries en d] by metis
  with Some show ?thesis using throughCache_written by (simp add: Let_def) blast
qed simp

text \<open>An engine accepts a configuration exactly when every registered fact has a name without a
  null byte; the engine's facts are the configuration's in their order with lower-case
  names, and the rest of the configuration is unchanged.\<close>

lemma NewEngine_spec:
  "(case NewEngine cfg of
      Inl e \<Rightarrow> list_ex (\<lambda>pf. pf_Name pf = [] \<or> NUL \<in> set (pf_Name pf)) (ec_Facts cfg)
    | Inr en \<Rightarrow> list_all (\<lambda>pf. pf_Name pf \<noteq> [] \<and> NUL \<notin> set (pf_Name pf)) (ec_Facts cfg) \<and>
        en_cfg en = cfg\<lparr>ec_Facts := map (\<lambda>pf. pf\<lparr>pf_Name := to_lower (pf_Name pf)\<rparr>) (ec_Facts cfg)\<rparr> \<and>
        en_onceSeen en = [])"
proof -
  have "case validateFacts i pfs of
      Inl e \<Rightarrow> list_ex (\<lambda>pf. pf_Name pf = [] \<or> NUL \<in> set (pf_Name pf)) pfs
    | Inr r \<Rightarrow> list_all (\<lambda>pf. pf_Name pf \<noteq> [] \<and> NUL \<notin> set (pf_Name pf)) pfs \<and>
        r = map (\<lambda>pf. pf\<lparr>pf_Name := to_lower (pf_Name pf)\<rparr>) pfs" for i pfs
    by (induction i pfs rule: validateFacts.induct) (auto split: sum.splits)
  from this [where i = 0 and pfs = "ec_Facts cfg"] show ?thesis
    by (auto simp: NewEngine_def split: sum.splits)
qed

text \<open>In the command line's mode a failing external loader aborts the discovery: the snapshot is
  empty, the error is the loader's alone, and the cache is untouched.\<close>

lemma Discover_cli_abort:
  assumes "ec_CLICompat (en_cfg en)"
    and "snd (fst (gatherExternal h (fst (planDiscovery (en_cfg en) (dh_plan h) queries)) en)) = Some e"
  shows "sn_facts (fst (fst (Discover h queries en d))) = [] \<and>
     snapshotTree (fst (fst (Discover h queries en d))) = [] \<and>
     snd (fst (Discover h queries en d)) = Some e \<and> fst (snd (snd (Discover h queries en d))) = d"
proof -
  let ?plan = "fst (planDiscovery (en_cfg en) (dh_plan h) queries)"
  have "pl_loaderMode ?plan = externalFactLoaderCLI"
    using assms(1) by (simp add: planDiscovery_def planDiscoveryWithDefaults_def Let_def case_prod_beta)
  then show ?thesis using assms(2)
    by (simp add: Discover_def case_prod_beta Let_def snapshotTree_def newSnapshot_def
        collectFacts_def afterCollection_def)
qed

lemma Discover_cli_abort_witness:
  "snd (fst (Discover (exampleHost [''FACTS_ROLE='' @ [NUL]]) [] (exampleEngine None True) [])) = Some (ErrWrap ''external fact role value'' ErrNullByte)"
proof -
  have "snd (fst (gatherExternal (exampleHost [''FACTS_ROLE='' @ [NUL]])
      (fst (planDiscovery (en_cfg (exampleEngine None True)) (dh_plan (exampleHost [''FACTS_ROLE='' @ [NUL]])) []))
      (exampleEngine None True))) = Some (ErrWrap ''external fact role value'' ErrNullByte)" by code_simp
  moreover have "ec_CLICompat (en_cfg (exampleEngine None True))" by (simp add: exampleEngine_def)
  ultimately show ?thesis using Discover_cli_abort by blast
qed

end
