(* ===== verification/Formatter.thy ===== *)
theory Formatter
  imports Projection Go_Library
begin

text \<open>
  \<open>internal/engine/formatter.go\<close>: the JSON, YAML, HOCON and legacy presentations of a projection,
  down to the strings they print, with the parts of \<open>encoding/json\<close>, \<open>fmt\<close> and \<open>strconv\<close>
  they use. The code's regular expressions are written out as functions on lines. What needs
  the calendar or the rounding of a float is a field of \<open>formatHost\<close>.

  The keys of a map are visited in sorted order: the recursion runs over the entries and the
  results are sorted by key, which is the same for a map with distinct keys. A \<open>json.Number\<close>
  comes from the decoder and is a valid number, or empty. \<open>encoding/json\<close> replaces the bytes that are
  not UTF-8 by U+FFFD and escapes U+2028 and U+2029. In \<open>go_quote\<close> bytes above 0x7F are taken to be
  parts of printable characters.
\<close>

record formatHost =
  fh_floatParses :: "string \<Rightarrow> bool"
  fh_timeJSON :: "gtime \<Rightarrow> string option"
  fh_jsonError :: "gval \<Rightarrow> goerror"
  fh_timeText :: "gtime \<Rightarrow> string"

definition in_key_order :: "(string \<times> 'a) list \<Rightarrow> (string \<times> 'a) list" where
  "in_key_order xs = sort_key fst xs"

definition repeat_string :: "string \<Rightarrow> nat \<Rightarrow> string" where
  "repeat_string s n = concat (replicate n s)"

definition bool_text :: "bool \<Rightarrow> string" where
  "bool_text b = (if b then ''true'' else ''false'')"

section \<open>JSON text\<close>

definition json_char :: "bool \<Rightarrow> char \<Rightarrow> string" where
  "json_char html c =
     (if c = DQUOTE then [BSLASH, DQUOTE] else if c = BSLASH then [BSLASH, BSLASH]
      else if code_of c = 8 then [BSLASH, CHR ''b''] else if code_of c = 12 then [BSLASH, CHR ''f'']
      else if code_of c = 10 then [BSLASH, CHR ''n''] else if code_of c = 13 then [BSLASH, CHR ''r'']
      else if code_of c = 9 then [BSLASH, CHR ''t'']
      else if code_of c < 32 \<or> (html \<and> c \<in> set ''<>&'')
      then BSLASH # ''u00'' @ [hex_digit (code_of c div 16), hex_digit (code_of c mod 16)]
      else [c])"

text \<open>\<open>encoding/json\<close> works character by character: a byte that begins no UTF-8 character becomes
  \<open>\ufffd\<close>, and the line separators U+2028 and U+2029 are escaped. The counter is the number of
  bytes of the current character that are still to be copied.\<close>

fun json_text :: "bool \<Rightarrow> nat \<Rightarrow> string \<Rightarrow> string" where
  "json_text html k [] = []"
| "json_text html (Suc k) (c # s) = c # json_text html k s"
| "json_text html 0 (c # s) =
     (if code_of c < 0x80 then json_char html c @ json_text html 0 s
      else if utf8_size (c # s) = 0 then BSLASH # ''ufffd'' @ json_text html 0 s
      else if take 3 (c # s) = [CHR 0xE2, CHR 0x80, CHR 0xA8] then BSLASH # ''u2028'' @ json_text html 0 (drop 2 s)
      else if take 3 (c # s) = [CHR 0xE2, CHR 0x80, CHR 0xA9] then BSLASH # ''u2029'' @ json_text html 0 (drop 2 s)
      else c # json_text html (utf8_size (c # s) - 1) s)"

definition json_string :: "bool \<Rightarrow> string \<Rightarrow> string" where
  "json_string html s = DQUOTE # json_text html 0 s @ [DQUOTE]"

text \<open>A float with an exponent below -6 or from 21 on is printed with an exponent; the exponent of
  the \<open>e-09\<close> form loses its leading zero.\<close>

definition json_float :: "string \<Rightarrow> string option" where
  "json_float t =
     (let neg = prefix ''-'' t; u = (if neg then drop 1 t else t); sign = (if neg then ''-'' else [])
      in if \<not> list_all (\<lambda>c. is_digit c \<or> c = DOT) u then None
         else
           (let (ip, fp) = (case cut u [DOT] of None \<Rightarrow> (u, []) | Some (a, b) \<Rightarrow> (a, b));
                ds = ip @ fp;
                lead = length (takeWhile (\<lambda>c. c = CHR ''0'') ds);
                sig = trim_right (drop lead ds) ''0'';
                e = int (length ip) - int lead - 1
            in if sig = [] \<or> (- 7 < e \<and> e < 21) then Some t
               else Some (sign @ take 1 sig @ (if length sig > 1 then DOT # drop 1 sig else []) @
                      (if e < 0 then ''e-'' @ itoa (- e) else ''e+'' @ itoa e))))"

definition json_block :: "char \<Rightarrow> char \<Rightarrow> nat \<Rightarrow> string list \<Rightarrow> string" where
  "json_block op cl depth items =
     (if items = [] then [op, cl]
      else op # NL # repeat_string ''  '' (depth + 1) @
        join ('','' @ NL # repeat_string ''  '' (depth + 1)) items @
        NL # repeat_string ''  '' depth @ [cl])"

fun all_some :: "'a option list \<Rightarrow> 'a list option" where
  "all_some [] = Some []"
| "all_some (None # xs) = None"
| "all_some (Some x # xs) = map_option (\<lambda>ys. x # ys) (all_some xs)"

text \<open>Encoding with an indent of two spaces; \<open>None\<close> is an unsupported value.\<close>

fun json_indent :: "formatHost \<Rightarrow> bool \<Rightarrow> nat \<Rightarrow> gval \<Rightarrow> string option" where
  "json_indent h html d GNil = Some ''null''"
| "json_indent h html d (GBool b) = Some (bool_text b)"
| "json_indent h html d (GInt n) = Some (itoa n)"
| "json_indent h html d (GInt64 n) = Some (itoa n)"
| "json_indent h html d (GFloat t) = json_float t"
| "json_indent h html d (GStr s) = Some (json_string html s)"
| "json_indent h html d (GTime t) = map_option (json_string html) (fh_timeJSON h t)"
| "json_indent h html d (GNumber s) = Some (if s = [] then ''0'' else s)"
| "json_indent h html d (GList xs) =
     map_option (json_block (CHR ''['') (CHR '']'') d) (all_some (map (json_indent h html (d + 1)) xs))"
| "json_indent h html d (GStrs xs) =
     Some (json_block (CHR ''['') (CHR '']'') d (map (json_string html) xs))"
| "json_indent h html d (GInts xs) = Some (json_block (CHR ''['') (CHR '']'') d (map itoa xs))"
| "json_indent h html d (GMap m) =
     map_option (json_block (CHR ''{'') (CHR ''}'') d)
       (all_some (map (\<lambda>kv. map_option (\<lambda>s. json_string html (fst kv) @ '': '' @ s) (snd kv))
         (in_key_order (map (\<lambda>kv. (fst kv, json_indent h html (d + 1) (snd kv))) m))))"
| "json_indent h html d (GTypedMap m) =
     map_option (json_block (CHR ''{'') (CHR ''}'') d)
       (all_some (map (\<lambda>kv. map_option (\<lambda>s. json_string html (fst kv) @ '': '' @ s) (snd kv))
         (in_key_order (map (\<lambda>kv. (fst kv, json_indent h html (d + 1) (snd kv))) m))))"
| "json_indent h html d (GAnyMap m) = None"

section \<open>The \<open>fmt.Sprint\<close> text\<close>

fun go_sprint :: "formatHost \<Rightarrow> gval \<Rightarrow> string" where
  "go_sprint h GNil = ''<nil>''"
| "go_sprint h (GBool b) = bool_text b"
| "go_sprint h (GInt n) = itoa n"
| "go_sprint h (GInt64 n) = itoa n"
| "go_sprint h (GFloat t) = float_g t"
| "go_sprint h (GStr s) = s"
| "go_sprint h (GTime t) = fh_timeText h t"
| "go_sprint h (GNumber s) = s"
| "go_sprint h (GList xs) = ''['' @ join '' '' (map (go_sprint h) xs) @ '']''"
| "go_sprint h (GStrs xs) = ''['' @ join '' '' xs @ '']''"
| "go_sprint h (GInts xs) = ''['' @ join '' '' (map itoa xs) @ '']''"
| "go_sprint h (GMap m) = ''map['' @ join '' '' (map (\<lambda>kv. fst kv @ '':'' @ snd kv)
     (in_key_order (map (\<lambda>kv. (fst kv, go_sprint h (snd kv))) m))) @ '']''"
| "go_sprint h (GTypedMap m) = ''map['' @ join '' '' (map (\<lambda>kv. fst kv @ '':'' @ snd kv)
     (in_key_order (map (\<lambda>kv. (fst kv, go_sprint h (snd kv))) m))) @ '']''"
| "go_sprint h (GAnyMap m) = ''map['' @ join '' '' (map (\<lambda>kv. fst kv @ '':'' @ snd kv)
     (map (\<lambda>kv. (sprint_key (fst kv), go_sprint h (snd kv))) m)) @ '']''"

section \<open>Plain strings and keys\<close>

definition isPlainOutputKey :: "string \<Rightarrow> bool \<Rightarrow> bool" where
  "isPlainOutputKey s allowDot \<longleftrightarrow>
     s \<noteq> [] \<and> list_all (\<lambda>c. is_alnum c \<or> c = CHR ''_'' \<or> c = CHR ''-'' \<or> (allowDot \<and> c = DOT)) s"

definition isPlainYAMLKey :: "formatHost \<Rightarrow> string \<Rightarrow> bool" where
  "isPlainYAMLKey h s \<longleftrightarrow>
     to_lower s \<notin> set [''true'', ''false'', ''null'', ''~'', ''yes'', ''no'', ''on'', ''off''] \<and> \<not> fh_floatParses h s"

definition quoteOutputString :: "string \<Rightarrow> string" where
  "quoteOutputString s = json_string True s"

definition yamlKey :: "formatHost \<Rightarrow> string \<Rightarrow> string" where
  "yamlKey h s = (if isPlainOutputKey s True \<and> isPlainYAMLKey h s then s else quoteOutputString s)"

definition hoconKey :: "string \<Rightarrow> string" where
  "hoconKey s = (if isPlainOutputKey s False then s else quoteOutputString s)"

definition isPlainHOCONString :: "string \<Rightarrow> bool" where
  "isPlainHOCONString s \<longleftrightarrow> s \<noteq> [] \<and> CHR ''_'' \<notin> set s \<and> list_all (\<lambda>c. is_alnum c \<or> c = CHR ''-'' \<or> c = DOT) s"

text \<open>\<open>strconv.ParseInt(s, 0, 64)\<close> succeeds; the callers have removed underscores.\<close>

definition digit_below :: "int \<Rightarrow> char \<Rightarrow> bool" where
  "digit_below base c \<longleftrightarrow>
     (if is_digit c then digit_val c < base
      else let l = lower_char c in is_lower l \<and> int (code_of l) - 87 < base)"

definition digit_value :: "char \<Rightarrow> int" where
  "digit_value c = (if is_digit c then digit_val c else int (code_of (lower_char c)) - 87)"

definition base_split :: "string \<Rightarrow> int \<times> string" where
  "base_split s =
     (if hd s \<noteq> CHR ''0'' then (10, s)
      else if length s \<ge> 3 \<and> lower_char (s ! 1) = CHR ''b'' then (2, drop 2 s)
      else if length s \<ge> 3 \<and> lower_char (s ! 1) = CHR ''o'' then (8, drop 2 s)
      else if length s \<ge> 3 \<and> lower_char (s ! 1) = CHR ''x'' then (16, drop 2 s)
      else (8, drop 1 s))"

definition parse_int_auto_ok :: "string \<Rightarrow> bool" where
  "parse_int_auto_ok s0 \<longleftrightarrow>
     s0 \<noteq> [] \<and>
     (let neg = (hd s0 = CHR ''-''); s = (if neg \<or> hd s0 = CHR ''+'' then drop 1 s0 else s0)
      in s \<noteq> [] \<and>
         (let (base, ds) = base_split s; n = foldl (\<lambda>v c. v * base + digit_value c) 0 ds
          in list_all (digit_below base) ds \<and> (if neg then n \<le> 2 ^ 63 else n < 2 ^ 63)))"

definition yamlDateShaped :: "string \<Rightarrow> bool" where
  "yamlDateShaped s =
     (let parts = split_on (CHR ''-'') s
      in length parts = 3 \<and> length (parts ! 0) = 4 \<and> length (parts ! 1) \<in> {1, 2} \<and> length (parts ! 2) \<in> {1, 2} \<and>
         list_all (list_all is_digit) parts)"

definition yamlResolverRetypes :: "string \<Rightarrow> bool" where
  "yamlResolverRetypes s =
     (let digits = trim_prefix (replace_all s ''_'' []) ''-''
      in if digits \<noteq> [] \<and> (parse_int_auto_ok digits \<or> list_all is_digit digits) then True else yamlDateShaped s)"

definition needsQuotedYAMLString :: "string \<Rightarrow> bool" where
  "needsQuotedYAMLString s \<longleftrightarrow>
     contains_any s ''yYnN:'' \<or>
     list_ex (contains s) [''True'', ''TRUE'', ''False'', ''FALSE'', ''On'', ''ON'', ''Off'', ''OFF'', ''off'']"

definition isPlainYAMLString :: "string \<Rightarrow> bool" where
  "isPlainYAMLString s \<longleftrightarrow>
     s \<noteq> [] \<and> \<not> needsQuotedYAMLString s \<and>
     list_all (\<lambda>c. is_alnum c \<or> c = CHR ''_'' \<or> c = CHR ''-'' \<or> c = CHR '' '' \<or> c = SLASH) s \<and>
     \<not> yamlResolverRetypes s"

section \<open>YAML\<close>

definition yamlString :: "string \<Rightarrow> string" where
  "yamlString s =
     (if s = ''true'' \<or> s = ''false'' then SQUOTE # s @ [SQUOTE]
      else if isPlainYAMLString s then s else go_quote s)"

fun yamlScalar :: "formatHost \<Rightarrow> gval \<Rightarrow> string" where
  "yamlScalar h GNil = go_quote []"
| "yamlScalar h (GStr s) = yamlString s"
| "yamlScalar h (GInt n) = itoa n"
| "yamlScalar h (GFloat t) = t"
| "yamlScalar h (GBool b) = bool_text b"
| "yamlScalar h (GMap m) = ''{'' @ join '', '' (map (\<lambda>kv. yamlKey h (fst kv) @ '': '' @ snd kv)
     (in_key_order (map (\<lambda>kv. (fst kv, yamlScalar h (snd kv))) m))) @ ''}''"
| "yamlScalar h (GList xs) = ''['' @ join '', '' (map (yamlScalar h) xs) @ '']''"
| "yamlScalar h (GStrs xs) = ''['' @ join '', '' (map yamlString xs) @ '']''"
| "yamlScalar h (GInts xs) = ''['' @ join '', '' (map itoa xs) @ '']''"
| "yamlScalar h v = go_sprint h v"

definition yamlInlineMapContents :: "formatHost \<Rightarrow> gval gomap \<Rightarrow> string" where
  "yamlInlineMapContents h m = join '', '' (map (\<lambda>kv. yamlKey h (fst kv) @ '': '' @ snd kv)
     (in_key_order (map (\<lambda>kv. (fst kv, yamlScalar h (snd kv))) m)))"

definition yamlSequenceMap :: "formatHost \<Rightarrow> gval gomap \<Rightarrow> string" where
  "yamlSequenceMap h m =
     (if length m = 1 then yamlInlineMapContents h m else ''{'' @ yamlInlineMapContents h m @ ''}'')"

definition yamlSequenceLines :: "formatHost \<Rightarrow> gval list \<Rightarrow> nat \<Rightarrow> string list" where
  "yamlSequenceLines h xs depth =
     map (\<lambda>v. repeat_string ''  '' depth @ ''- '' @
            (case v of GMap m \<Rightarrow> yamlSequenceMap h m | _ \<Rightarrow> yamlScalar h v)) xs"

text \<open>The lines of one map entry, given those of its value as a map one level deeper.\<close>

definition yamlEntry :: "formatHost \<Rightarrow> nat \<Rightarrow> string \<Rightarrow> gval \<Rightarrow> string list \<Rightarrow> string list" where
  "yamlEntry h depth key v nested =
     (let indent = repeat_string ''  '' depth
      in case v of
           GMap c \<Rightarrow> (indent @ yamlKey h key @ '':'') # nested
         | GList xs \<Rightarrow> (indent @ yamlKey h key @ '':'') # yamlSequenceLines h xs depth
         | _ \<Rightarrow> [indent @ yamlKey h key @ '': '' @ yamlScalar h v])"

fun yamlLines :: "formatHost \<Rightarrow> gval \<Rightarrow> nat \<Rightarrow> string list" where
  "yamlLines h (GMap m) depth =
     concat (map snd (in_key_order
       (map (\<lambda>kv. (fst kv, yamlEntry h depth (fst kv) (snd kv) (yamlLines h (snd kv) (depth + 1)))) m)))"
| "yamlLines h (GList xs) depth = yamlSequenceLines h xs depth"
| "yamlLines h v depth = [repeat_string ''  '' depth @ yamlScalar h v]"

section \<open>HOCON\<close>

text \<open>\<open>hoconScalar\<close> and the lines of a map without the optional enclosing braces.\<close>

definition hoconString :: "string \<Rightarrow> string" where
  "hoconString s = (if isPlainHOCONString s then s else go_quote s)"

definition bracedLines :: "string list \<Rightarrow> string" where
  "bracedLines ls = join [NL] (''{'' # ls @ [''}''])"

fun hoconScalar :: "formatHost \<Rightarrow> gval \<Rightarrow> string"
  and hoconLines :: "formatHost \<Rightarrow> gval \<Rightarrow> nat \<Rightarrow> string list" where
  "hoconScalar h GNil = []"
| "hoconScalar h (GStr s) = hoconString s"
| "hoconScalar h (GInt n) = itoa n"
| "hoconScalar h (GFloat t) = t"
| "hoconScalar h (GBool b) = bool_text b"
| "hoconScalar h (GMap m) = bracedLines (hoconLines h (GMap m) 1)"
| "hoconScalar h (GList xs) = ''['' @ join '','' (map (\<lambda>v. case v of GStr s \<Rightarrow> go_quote s | _ \<Rightarrow> hoconScalar h v) xs) @ '']''"
| "hoconScalar h (GStrs xs) = ''['' @ join '','' (map go_quote xs) @ '']''"
| "hoconScalar h (GInts xs) = ''['' @ join '','' (map itoa xs) @ '']''"
| "hoconScalar h (GInt64 n) = go_sprint h (GInt64 n)"
| "hoconScalar h (GTime t) = go_sprint h (GTime t)"
| "hoconScalar h (GNumber s) = go_sprint h (GNumber s)"
| "hoconScalar h (GTypedMap m) = go_sprint h (GTypedMap m)"
| "hoconScalar h (GAnyMap m) = go_sprint h (GAnyMap m)"
| "hoconLines h (GMap m) depth =
     concat (map snd (in_key_order (map (\<lambda>kv. (fst kv,
       (let indent = repeat_string ''    '' depth
        in case snd kv of
             GMap c \<Rightarrow> [indent @ hoconKey (fst kv) @ ''={''] @ hoconLines h (GMap c) (depth + 1) @ [indent @ ''}'']
           | _ \<Rightarrow> [indent @ hoconKey (fst kv) @ ''='' @ hoconScalar h (snd kv)]))) m)))"
| "hoconLines h v depth = []"

section \<open>Projections\<close>

definition presented :: "Projection \<Rightarrow> gval gomap" where
  "presented p = (if Shape p = ShapeFullTree then fst (FullTree p) else MultiQueryValues p)"

definition FormatJSON :: "formatHost \<Rightarrow> Projection \<Rightarrow> goerror + string" where
  "FormatJSON h p =
     (case json_indent h True 0 (GMap (presented p)) of
        None \<Rightarrow> Inl (ErrWrap ''format json: '' (fh_jsonError h (GMap (presented p))))
      | Some out \<Rightarrow> Inr out)"

definition FormatYAML :: "formatHost \<Rightarrow> Projection \<Rightarrow> string" where
  "FormatYAML h p =
     (let out = join [NL] (yamlLines h (GMap (presented p)) 0) in if out = [] then [] else out @ [NL])"

definition singleValue :: "Projection \<Rightarrow> gval" where
  "singleValue p = (case SingleQueryValue p of None \<Rightarrow> GNil | Some v \<Rightarrow> v)"

definition FormatHOCON :: "formatHost \<Rightarrow> Projection \<Rightarrow> string" where
  "FormatHOCON h p =
     (case Shape p of
        ShapeEmpty \<Rightarrow> []
      | ShapeFullTree \<Rightarrow> join [NL] (hoconLines h (GMap (fst (FullTree p))) 0) @ [NL]
      | ShapeSingleQuery \<Rightarrow> hoconScalar h (singleValue p)
      | ShapeMultiQuery \<Rightarrow>
          join [NL] (map (\<lambda>kv. go_quote (fst kv) @ ''='' @ hoconScalar h (snd kv))
            (in_key_order (MultiQueryValues p))) @ [NL])"

section \<open>Legacy text\<close>

text \<open>The regular expressions. \<open>lineSpace\<close> is the class \<open>\s\<close> of Go, \<open>isLegacySpace\<close> that of
  Ruby. A dot does not match a newline, so the key and string patterns work line by line;
  \<open>last_sub\<close> is the last occurrence, which a greedy \<open>.*\<close> finds.\<close>

definition lineSpace :: "char \<Rightarrow> bool" where
  "lineSpace c \<longleftrightarrow> code_of c \<in> set [9, 10, 12, 13, 32]"

definition isLegacySpace :: "char \<Rightarrow> bool" where
  "isLegacySpace c \<longleftrightarrow> code_of c \<in> set [9, 10, 11, 12, 13, 32]"

fun keyDelimiters :: "string \<Rightarrow> string" where
  "keyDelimiters (a # b # c # s) =
     (if a = DQUOTE \<and> b = CHR '':'' \<and> lineSpace c then DQUOTE # '' => '' @ keyDelimiters s
      else a # keyDelimiters (b # c # s))"
| "keyDelimiters s = s"

fun last_sub :: "string \<Rightarrow> string \<Rightarrow> nat option" where
  "last_sub p [] = (if p = [] then Some 0 else None)"
| "last_sub p (c # cs) =
     (case last_sub p cs of Some i \<Rightarrow> Some (Suc i) | None \<Rightarrow> if prefix p (c # cs) then Some 0 else None)"

text \<open>The match of \<open>"(.*)" =>\<close> on a line: the text before it, the group, the text after it.\<close>

definition quotedKey :: "string \<Rightarrow> (string \<times> string \<times> string) option" where
  "quotedKey line =
     (case (index_sub [DQUOTE] line, last_sub (DQUOTE # '' =>'') line) of
        (Some i, Some j) \<Rightarrow> (if i < j then Some (take i line, take (j - i - 1) (drop (i + 1) line), drop (j + 4) line)
                            else None)
      | _ \<Rightarrow> None)"

definition ESC :: string where "ESC = [CHR 0x1B, CHR ''['']"

definition legacyKeyPalette :: "string list" where
  "legacyKeyPalette = map (\<lambda>n. ESC @ n @ ''m'') [''36'', ''33'', ''32'', ''35'', ''34'']"

definition legacyKeyColorReset :: string where "legacyKeyColorReset = ESC @ ''0m''"

definition legacyIndentWidth :: "string \<Rightarrow> nat" where
  "legacyIndentWidth line = length (takeWhile (\<lambda>c. c = CHR '' '') line)"

definition keyColor :: "int \<Rightarrow> string \<Rightarrow> string" where
  "keyColor shift line =
     (let depth = max 0 (int (legacyIndentWidth line div 2) + shift)
      in legacyKeyPalette ! (nat depth mod length legacyKeyPalette))"

definition rewriteLegacyKeys :: "string \<Rightarrow> bool \<Rightarrow> int \<Rightarrow> string" where
  "rewriteLegacyKeys pretty colorize shift =
     join [NL] (map (\<lambda>line.
       case quotedKey line of None \<Rightarrow> line
       | Some (before, key, after) \<Rightarrow>
           (if colorize then before @ keyColor shift line @ key @ legacyKeyColorReset @ '' =>'' @ after
            else before @ key @ '' =>'' @ after)) (split_on NL pretty))"

definition hashToFacterFormat :: "formatHost \<Rightarrow> gval \<Rightarrow> bool \<Rightarrow> int \<Rightarrow> string" where
  "hashToFacterFormat h v colorize shift =
     (case json_indent h False 0 v of
        None \<Rightarrow> go_sprint h v
      | Some text \<Rightarrow>
          replace_all (rewriteLegacyKeys (keyDelimiters text) colorize shift) [BSLASH, BSLASH] [BSLASH])"

definition dropEmptyLines :: "string list \<Rightarrow> string list" where
  "dropEmptyLines lines = filter (\<lambda>l. l \<noteq> []) (butlast lines) @ [last lines]"

definition dedent :: "string \<Rightarrow> string" where
  "dedent line0 =
     (let line = (if length line0 \<ge> 2 \<and> isLegacySpace (line0 ! 0) \<and> isLegacySpace (line0 ! 1)
                  then drop 2 line0 else line0)
      in if prefix ''},'' line then CHR ''}'' # drop 2 line else line)"

definition removeEnclosingAccolades :: "string \<Rightarrow> string" where
  "removeEnclosingAccolades pretty =
     (if length pretty < 2 then []
      else join [NL] (map dedent (dropEmptyLines (split_on NL (butlast (drop 1 pretty))))))"

fun stripFrom :: "char option \<Rightarrow> string \<Rightarrow> string" where
  "stripFrom prev [] = []"
| "stripFrom prev (c # cs) =
     (if c = CHR '','' \<and> cs = [] then []
      else if c = DQUOTE \<and> prev \<noteq> Some BSLASH then stripFrom (Some c) cs
      else c # stripFrom (Some c) cs)"

definition stripCommaAndUnescapedQuotes :: "string \<Rightarrow> string" where
  "stripCommaAndUnescapedQuotes line = replace_all (stripFrom None line) [BSLASH, DQUOTE] [DQUOTE]"

definition removeCommaAndQuotation :: "string \<Rightarrow> string" where
  "removeCommaAndQuotation pretty =
     join [NL] (map (\<lambda>line. if line \<noteq> [] \<and> isLegacySpace (hd line) then line else stripCommaAndUnescapedQuotes line)
       (rev (dropWhile (\<lambda>l. l = []) (rev (split_on NL pretty)))))"

definition handleNewlines :: "string \<Rightarrow> string" where
  "handleNewlines pretty = replace_all pretty [BSLASH, CHR ''n''] [NL]"

definition legacyCollectionText :: "formatHost \<Rightarrow> gval gomap \<Rightarrow> bool \<Rightarrow> string" where
  "legacyCollectionText h m colorize =
     handleNewlines (removeCommaAndQuotation (removeEnclosingAccolades (hashToFacterFormat h (GMap m) colorize (- 1))))"

text \<open>\<open>^"(.*)"\<close> and \<open>^(\S*) => "(.*)"\<close> on a line.\<close>

definition unquoteLine :: "string \<Rightarrow> string" where
  "unquoteLine line =
     (case line of [] \<Rightarrow> []
      | c # cs \<Rightarrow> if c \<noteq> DQUOTE then line
                else (case last_index DQUOTE cs of None \<Rightarrow> line | Some j \<Rightarrow> take j cs @ drop (j + 1) cs))"

definition unquoteTopLevel :: "string \<Rightarrow> string" where
  "unquoteTopLevel line =
     (let word = takeWhile (\<lambda>c. \<not> lineSpace c) line; rest = drop (length word) line
      in if prefix ('' => '' @ [DQUOTE]) rest then word @ '' => '' @ unquoteLine (drop 4 rest) else line)"

definition legacySingleQueryText :: "formatHost \<Rightarrow> gval \<Rightarrow> bool \<Rightarrow> string" where
  "legacySingleQueryText h v colorize =
     (case v of GStr s \<Rightarrow> s | GNil \<Rightarrow> []
      | _ \<Rightarrow> join [NL] (map unquoteLine (split_on NL (hashToFacterFormat h v colorize 0))))"

definition FormatLegacyColored :: "formatHost \<Rightarrow> Projection \<Rightarrow> bool \<Rightarrow> string" where
  "FormatLegacyColored h p colorize =
     (case Shape p of
        ShapeEmpty \<Rightarrow> []
      | ShapeFullTree \<Rightarrow> legacyCollectionText h (fst (FullTree p)) colorize
      | ShapeSingleQuery \<Rightarrow> legacySingleQueryText h (singleValue p) colorize
      | ShapeMultiQuery \<Rightarrow>
          join [NL] (map unquoteTopLevel (split_on NL (legacyCollectionText h
            (map (\<lambda>(k, v). (k, if v = GNil then GStr [] else v)) (MultiQueryValues p)) colorize))))"

definition FormatLegacy :: "formatHost \<Rightarrow> Projection \<Rightarrow> string" where
  "FormatLegacy h p = FormatLegacyColored h p False"

record FormatOptions =
  fo_JSON :: bool
  fo_YAML :: bool
  fo_HOCON :: bool
  fo_Colorize :: bool

definition BuildFormatter :: "formatHost \<Rightarrow> FormatOptions \<Rightarrow> Projection \<Rightarrow> goerror + string" where
  "BuildFormatter h opts p =
     (if fo_JSON opts then FormatJSON h p
      else if fo_YAML opts then Inr (FormatYAML h p)
      else if fo_HOCON opts then Inr (FormatHOCON h p)
      else Inr (FormatLegacyColored h p (fo_Colorize opts)))"

section \<open>Lemmas\<close>

text \<open>A reader of JSON string literals, after the opening quote: the text and the rest.\<close>

definition hex_value :: "char \<Rightarrow> nat" where
  "hex_value c = (if is_digit c then code_of c - 48 else code_of c - 87)"

definition json_escape :: "char \<Rightarrow> char" where
  "json_escape e = (if e = CHR ''b'' then CHR 0x08 else if e = CHR ''f'' then CHR 0x0C
     else if e = CHR ''n'' then NL else if e = CHR ''r'' then CHR 0x0D
     else if e = CHR ''t'' then CHR 0x09 else e)"

fun json_read :: "string \<Rightarrow> (string \<times> string) option" where
  "json_read [] = None"
| "json_read (c # cs) =
     (if c = DQUOTE then Some ([], cs)
      else if c \<noteq> BSLASH then map_option (apfst (Cons c)) (json_read cs)
      else (case cs of [] \<Rightarrow> None
            | e # ds \<Rightarrow>
                if e \<noteq> CHR ''u'' then map_option (apfst (Cons (json_escape e))) (json_read ds)
                else (case ds of
                        z1 # z2 # x # y # rest \<Rightarrow>
                          map_option (apfst (Cons (char_of (16 * hex_value x + hex_value y)))) (json_read rest)
                      | _ \<Rightarrow> None)))"

lemma hex_value_digit: "n < 16 \<Longrightarrow> hex_value (hex_digit n) = n"
  by (auto simp: hex_value_def hex_digit_def is_digit_def of_char_of)

lemma char_eqI: "code_of c = code_of d \<Longrightarrow> c = (d :: char)"
  by simp

lemma json_read_char: "json_read (json_char html c @ rest) = map_option (apfst (Cons c)) (json_read rest)"
proof (cases "c \<in> set [DQUOTE, BSLASH, CHR 0x08, CHR 0x0C, NL, CHR 0x0D, CHR 0x09]")
  case True
  then show ?thesis by (elim set_ConsD [THEN disjE]) (auto simp: json_char_def json_escape_def)
next
  case False
  have codes: "code_of c \<noteq> 8" "code_of c \<noteq> 12" "code_of c \<noteq> 10" "code_of c \<noteq> 13" "code_of c \<noteq> 9"
    using False by (auto intro!: char_eqI)
  have bound: "code_of c < 256" by simp
  have "char_of (16 * (code_of c div 16) + code_of c mod 16) = c"
    by simp
  moreover have "code_of c div 16 < 16" using bound by (intro less_mult_imp_div_less) simp
  ultimately show ?thesis using False codes by (auto simp: json_char_def hex_value_digit)
qed

lemma json_read_text:
  "list_all (\<lambda>c. code_of c < 0x80) s \<Longrightarrow> json_read (json_text html 0 s @ DQUOTE # rest) = Some (s, rest)"
  by (induction s) (simp_all add: json_read_char)

lemma set_in_key_order [simp]: "set (in_key_order xs) = set xs"
  by (simp add: in_key_order_def)

lemma NL_join: "NL \<in> set (join sep xs) \<longleftrightarrow> (\<exists>x\<in>set xs. NL \<in> set x) \<or> (NL \<in> set sep \<and> length xs > 1)"
  by (induction sep xs rule: join.induct) auto

text \<open>Texts that fit on a line.\<close>

definition one_line :: "string \<Rightarrow> bool" where
  "one_line s \<longleftrightarrow> NL \<notin> set s"

named_theorems line_text \<open>texts without a newline\<close>

lemma one_line_basic [line_text]:
  "one_line []" "one_line (c # s) \<longleftrightarrow> c \<noteq> NL \<and> one_line s" "one_line (s @ t) \<longleftrightarrow> one_line s \<and> one_line t"
  by (auto simp: one_line_def)

lemma digits_one_line: "list_all is_digit s \<Longrightarrow> one_line s"
  by (auto simp: one_line_def list_all_iff is_digit_def)

lemma one_line_itoa [line_text]: "one_line (itoa n)"
  by (simp add: itoa_def line_text digits_one_line itoa_nat_digits)

lemma one_line_join [line_text]:
  "one_line sep \<Longrightarrow> one_line (join sep xs) \<longleftrightarrow> list_all one_line xs"
  by (induction sep xs rule: join.induct) (auto simp: line_text)

lemma one_line_map [line_text]: "list_all one_line (map f xs) \<longleftrightarrow> (\<forall>x\<in>set xs. one_line (f x))"
  by (simp add: list_all_iff)

lemma one_line_repeat [line_text]: "one_line s \<Longrightarrow> one_line (repeat_string s n)"
  by (induction n) (auto simp: repeat_string_def line_text)

lemma one_line_bool [line_text]: "one_line (bool_text b)"
  by (simp add: bool_text_def line_text)

lemma one_line_concat: "(\<And>x. x \<in> set xs \<Longrightarrow> one_line (f x)) \<Longrightarrow> one_line (concat (map f xs))"
  by (auto simp: one_line_def)

lemma hex_digit_not_NL: "n < 16 \<Longrightarrow> hex_digit n \<noteq> NL"
proof -
  assume "n < 16"
  then have "code_of (hex_digit n) \<noteq> 10" by (simp add: hex_digit_def of_char_of)
  then show "hex_digit n \<noteq> NL" by auto
qed

lemma hex_digits_not_NL: "hex_digit (code_of c div 16) \<noteq> NL" "hex_digit (code_of c mod 16) \<noteq> NL"
proof -
  have "code_of c div 16 < 16" by (intro less_mult_imp_div_less) simp
  then show "hex_digit (code_of c div 16) \<noteq> NL" by (rule hex_digit_not_NL)
  show "hex_digit (code_of c mod 16) \<noteq> NL" by (rule hex_digit_not_NL) simp
qed

lemma one_line_quote [line_text]: "one_line (go_quote s)"
  by (auto simp: go_quote_def line_text quote_char_def hex_digits_not_NL intro!: one_line_concat)

lemma one_line_char: "one_line (json_char html c)"
  by (auto simp: json_char_def line_text hex_digits_not_NL)

text \<open>The bytes that are copied are not ASCII.\<close>

lemma one_line_text: "\<forall>i<k. i < length s \<longrightarrow> s ! i \<noteq> NL \<Longrightarrow> one_line (json_text html k s)"
proof (induction html k s rule: json_text.induct)
  case (2 html k c s)
  have "c \<noteq> NL" using 2(2) by (metis length_Cons nth_Cons_0 zero_less_Suc)
  moreover have "\<forall>i<k. i < length s \<longrightarrow> s ! i \<noteq> NL"
    using 2(2) by (metis Suc_less_eq length_Cons nth_Cons_Suc)
  ultimately show ?case using 2(1) by (simp add: line_text)
next
  case (3 html c s)
  have "s ! i \<noteq> NL" if "i < utf8_size (c # s) - 1" for i
  proof -
    have "Suc i < utf8_size (c # s)" using that by linarith
    then show ?thesis using utf8_size_rest [of "Suc i" "c # s"] by auto
  qed
  then show ?case using 3 by (auto simp: line_text one_line_char)
qed (simp add: line_text)

lemma one_line_json [line_text]: "one_line (json_string html s)"
  by (simp add: json_string_def line_text one_line_text)

lemma one_line_key [line_text]: "one_line (yamlKey h s)"
proof -
  have "one_line s" if "isPlainOutputKey s True"
    using that by (auto simp: isPlainOutputKey_def list_all_iff one_line_def is_alnum_def is_lower_def is_upper_def is_digit_def)
  then show ?thesis by (simp add: yamlKey_def quoteOutputString_def line_text)
qed

lemma one_line_yamlString [line_text]: "one_line (yamlString s)"
proof -
  have "one_line s" if "isPlainYAMLString s"
    using that by (auto simp: isPlainYAMLString_def list_all_iff one_line_def is_alnum_def is_lower_def is_upper_def is_digit_def)
  moreover have "one_line s" if "s = ''true'' \<or> s = ''false''"
    using that by (auto simp: line_text)
  ultimately show ?thesis by (auto simp: yamlString_def line_text)
qed


text \<open>The values that the decoders and resolvers produce: no \<open>fmt.Sprint\<close> of a foreign type.\<close>

fun decodedValue :: "gval \<Rightarrow> bool" where
  "decodedValue (GFloat t) \<longleftrightarrow> one_line t"
| "decodedValue (GNumber t) \<longleftrightarrow> one_line t"
| "decodedValue (GTime t) \<longleftrightarrow> False"
| "decodedValue (GList xs) \<longleftrightarrow> list_all decodedValue xs"
| "decodedValue (GMap m) \<longleftrightarrow> list_all (\<lambda>kv. decodedValue (snd kv)) m"
| "decodedValue (GTypedMap m) \<longleftrightarrow> False"
| "decodedValue (GAnyMap m) \<longleftrightarrow> False"
| "decodedValue v \<longleftrightarrow> True"

lemma one_line_scalar [line_text]: "decodedValue v \<Longrightarrow> one_line (yamlScalar h v)"
  by (induction h v rule: yamlScalar.induct) (auto simp: line_text list_all_iff)

lemma one_line_contents [line_text]:
  "list_all (\<lambda>kv. decodedValue (snd kv)) m \<Longrightarrow> one_line (yamlInlineMapContents h m)"
  by (auto simp: yamlInlineMapContents_def line_text list_all_iff)

lemma one_line_sequence:
  "list_all decodedValue xs \<Longrightarrow> list_all one_line (yamlSequenceLines h xs depth)"
  by (auto simp: yamlSequenceLines_def yamlSequenceMap_def line_text list_all_iff split: gval.splits)


lemma one_line_entry:
  "decodedValue v \<Longrightarrow> list_all one_line nested \<Longrightarrow> list_all one_line (yamlEntry h depth k v nested)"
  by (auto simp: yamlEntry_def Let_def line_text one_line_sequence split: gval.splits)

lemma one_line_lines:
  "decodedValue v \<Longrightarrow> list_all one_line (yamlLines h v depth)"
proof (induction h v depth rule: yamlLines.induct)
  case (1 h m depth)
  have "list_all one_line (yamlEntry h depth (fst kv) (snd kv) (yamlLines h (snd kv) (depth + 1)))"
    if "kv \<in> set m" for kv
    using that 1 by (intro one_line_entry) (auto simp: list_all_iff)
  then show ?case by (auto simp: list_all_iff)
qed (auto simp: line_text one_line_sequence)

lemma join_empty: "join [c] xs = [] \<Longrightarrow> x \<in> set xs \<Longrightarrow> x = []"
  by (induction "[c]" xs rule: join.induct) auto

lemma entry_text: "\<exists>l\<in>set (yamlEntry h depth k v nested). l \<noteq> []"
  by (auto simp: yamlEntry_def Let_def split: gval.splits)

lemma lines_text: "m \<noteq> [] \<Longrightarrow> \<exists>l\<in>set (yamlLines h (GMap m) depth). l \<noteq> []"
  using entry_text by (cases m) fastforce+

text \<open>C25: YAML output cannot be broken open by a value: for a non-empty projection of nil, booleans,
  numbers whose text holds no newline, strings, lists and string-keyed maps (not of times,
  \<open>map[any]any\<close> and maps of another type, which are printed by \<open>fmt.Sprint\<close>), every line the code puts
  together (keys, scalars, inline maps and sequences, at every depth) is free of newlines,
  whatever bytes the keys and strings hold, so splitting the printed document at its newlines gives
  back exactly the lines of \<open>yamlLines\<close> and the final empty one.\<close>

theorem FormatYAML_lines:
  assumes "decodedValue (GMap (presented p))" and "presented p \<noteq> []"
  shows "split_on NL (FormatYAML h p) = yamlLines h (GMap (presented p)) 0 @ [[]]"
proof -
  let ?ls = "yamlLines h (GMap (presented p)) 0"
  obtain l where l: "l \<in> set ?ls" "l \<noteq> []" using lines_text [OF assms(2)] by blast
  then have "join [NL] ?ls \<noteq> []" using join_empty by blast
  moreover have "split_on NL (join [NL] ?ls) = ?ls"
    using l one_line_lines [OF assms(1)] by (intro split_on_join) (auto simp: list_all_iff one_line_def simp del: yamlLines.simps)
  ultimately show ?thesis
    by (simp add: FormatYAML_def Let_def split_on_append [of NL "join [NL] ?ls" "[]"] del: yamlLines.simps)
qed

definition exampleFormat :: formatHost where
  "exampleFormat = \<lparr>fh_floatParses = (\<lambda>s. False), fh_timeJSON = (\<lambda>t. None),
     fh_jsonError = (\<lambda>v. ErrText []), fh_timeText = (\<lambda>t. [])\<rparr>"

definition exampleTree :: Projection where
  "exampleTree = newProjectionWithTree [core_fact ''os'' GNil] False
     [(''os'', GMap [(''name'', GStr (''a'' @ NL # ''b: c''))]), (''roles'', GList [GInt 1])]"

lemma presented_example:
  "presented exampleTree = [(''os'', GMap [(''name'', GStr (''a'' @ NL # ''b: c''))]), (''roles'', GList [GInt 1])]"
  by (simp add: presented_def exampleTree_def newProjectionWithTree_def Shape_def uniqueQueries_def FullTree_def
      projectionCollection_def)

theorem FormatYAML_lines_witness:
  "map length (split_on NL (FormatYAML exampleFormat exampleTree)) = [3, 17, 6, 3, 0]"
proof -
  have "split_on NL (FormatYAML exampleFormat exampleTree) =
      yamlLines exampleFormat (GMap (presented exampleTree)) 0 @ [[]]"
    by (rule FormatYAML_lines) (simp_all add: presented_example)
  also have "map length \<dots> = [3, 17, 6, 3, 0]"
    unfolding presented_example by code_simp
  finally show ?thesis .
qed

text \<open>An ASCII string survives JSON: a reader of JSON string literals, placed after the opening
  quote, reads back exactly the bytes that were encoded and stops exactly at the closing quote.
  A string that is not UTF-8 does not: each wrong byte comes back as U+FFFD.\<close>

lemma json_string_ascii:
  "list_all (\<lambda>c. code_of c < 0x80) s \<Longrightarrow> json_read (drop 1 (quoteOutputString s) @ rest) = Some (s, rest)"
  by (simp add: quoteOutputString_def json_string_def json_read_text)

lemma json_string_coerces:
  "quoteOutputString [CHR 0xFF] = DQUOTE # BSLASH # ''ufffd'' @ [DQUOTE] \<and>
   quoteOutputString [CHR 0xC3, CHR 0xA9] = [DQUOTE, CHR 0xC3, CHR 0xA9, DQUOTE] \<and>
   quoteOutputString [CHR 0xE2, CHR 0x80, CHR 0xA8] = DQUOTE # BSLASH # ''u2028'' @ [DQUOTE]"
  by code_simp

text \<open>A string of letters that begins with a dash and a space is printed without quotes, and so is
  one with spaces around it: the reader of the document sees a sequence, or loses the spaces.\<close>

lemma plain_dash: "yamlScalar h (GStr ''- web'') = ''- web'' \<and> yamlScalar h (GStr '' web '') = '' web ''"
proof -
  have "isPlainYAMLString ''- web''" "isPlainYAMLString '' web ''" by code_simp+
  then show ?thesis by (simp add: yamlString_def)
qed

end
