(* ===== verification/App.thy ===== *)
theory App
  imports App_Options Config_File Engine Formatter
begin

text \<open>
  \<open>internal/app/app.go\<close>, \<open>internal/app/loghandler.go\<close> and \<open>cmd/facts/main.go\<close>: one run of the command, from
  the arguments to the texts on the two output streams, the cache directory and the exit
  status. It composes the argument preparation and validation, the option parser, the
  configuration reader, the discovery and the formatter.

  Writes to the streams succeed. The clock enters as the text of the resolution time.
\<close>

section \<open>Diagnostics\<close>

record stderrLogHandler =
  lh_color :: bool
  lh_debug :: bool
  lh_verbose :: bool

definition coloredLine :: "string \<Rightarrow> string \<Rightarrow> string \<Rightarrow> bool \<Rightarrow> string" where
  "coloredLine code label message color =
     (if color then ESC @ code @ ''m'' @ label @ '' Facts - '' @ message @ ESC @ ''0m'' @ [NL]
      else label @ '' Facts - '' @ message @ [NL])"

definition writeDebug :: "string \<Rightarrow> bool \<Rightarrow> string" where
  "writeDebug message color = coloredLine ''36'' ''DEBUG'' message color"

definition writeInfo :: "string \<Rightarrow> bool \<Rightarrow> string" where
  "writeInfo message color = coloredLine ''32'' ''INFO'' message color"

definition writeError :: "string \<Rightarrow> bool \<Rightarrow> string" where
  "writeError message color = coloredLine ''31'' ''ERROR'' message color"

definition writeWarn :: "string \<Rightarrow> bool \<Rightarrow> string" where
  "writeWarn message color = coloredLine ''33'' ''WARN'' message color"

fun handlerEnabled :: "stderrLogHandler \<Rightarrow> level \<Rightarrow> bool" where
  "handlerEnabled h LevelError = False"
| "handlerEnabled h LevelWarn = True"
| "handlerEnabled h LevelInfo = lh_verbose h"
| "handlerEnabled h LevelDebug = lh_debug h"

fun handleRecord :: "stderrLogHandler \<Rightarrow> level \<times> string \<Rightarrow> string" where
  "handleRecord h (LevelError, message) = []"
| "handleRecord h (LevelWarn, message) = writeWarn message (lh_color h)"
| "handleRecord h (LevelInfo, message) = writeInfo message (lh_color h)"
| "handleRecord h (LevelDebug, message) = writeDebug message (lh_color h)"

text \<open>What a logger on the handler prints: a record reaches \<open>Handle\<close> only if its level is enabled.\<close>

definition rendered :: "stderrLogHandler \<Rightarrow> log \<Rightarrow> string" where
  "rendered h lg = concat (map (handleRecord h) (filter (\<lambda>r. handlerEnabled h (fst r)) lg))"

section \<open>Small decisions\<close>

record writer =
  wr_isFile :: bool
  wr_statOk :: bool
  wr_charDevice :: bool

definition resolveColor :: "bool \<Rightarrow> bool \<Rightarrow> writer \<Rightarrow> bool" where
  "resolveColor force disable w =
     (if disable then False else if force then True
      else if \<not> wr_isFile w then False else if \<not> wr_statOk w then False else wr_charDevice w)"

definition resolvedLogOptionsConflict :: "bool \<Rightarrow> bool \<Rightarrow> string \<Rightarrow> bool" where
  "resolvedLogOptionsConflict debug verbose logLevel =
     (if debug \<and> verbose then True
      else if logLevel = [] \<or> equal_fold logLevel ''log_level'' then False
      else if debug \<and> (equal_fold logLevel ''debug'' \<or> equal_fold logLevel ''trace'') then False
      else if verbose \<and> equal_fold logLevel ''info'' then False
      else (debug \<or> verbose) \<and> logLevel \<noteq> [])"

definition canUseVersionQueryFastPath ::
  "string list \<Rightarrow> string list \<Rightarrow> bool gomap \<Rightarrow> bool \<Rightarrow> bool \<Rightarrow> bool" where
  "canUseVersionQueryFastPath queries externalDirs disabledFacts noExternalFacts timing =
     (if length queries \<noteq> 1 \<or> queries ! 0 \<noteq> ''facterversion'' \<or> timing \<or> is_set disabledFacts ''facterversion''
      then False
      else if \<not> noExternalFacts \<and> length externalDirs > 0 then False
      else True)"

definition firstNonEmpty :: "string list \<Rightarrow> string" where
  "firstNonEmpty vals = (case find (\<lambda>v. v \<noteq> []) vals of Some v \<Rightarrow> v | None \<Rightarrow> [])"

definition hasNonEmpty :: "string list \<Rightarrow> bool" where
  "hasNonEmpty vals = list_ex (\<lambda>v. v \<noteq> []) vals"

definition logLevelEnablesDebug :: "string \<Rightarrow> bool" where
  "logLevelEnablesDebug lvl \<longleftrightarrow> to_lower lvl \<in> set [''debug'', ''trace'']"

section \<open>Help\<close>

definition text_lines :: "string list \<Rightarrow> string" where
  "text_lines ls = concat (map (\<lambda>l. l @ [NL]) ls)"

definition helpText :: string where
  "helpText = text_lines
    [''Usage'',
     ''====='',
     [],
     ''facts [options] [query] [query] [...]'',
     [],
     ''Options'',
     ''======='']
    @ text_lines (map (\<lambda>opt. od_Help (op_Documentation opt)) DocumentedOptions)"

definition manText :: string where
  "manText = text_lines
    [''facts - collect and display facts about the current system'',
     ''=========================================================='',
     [],
     ''SYNOPSIS'',
     ''--------'',
     ''facts [options] [query] [query] [...]'',
     [],
     ''DESCRIPTION'',
     ''-----------'',
     ''facts is a command-line tool that gathers basic facts about nodes (systems) such as hardware details, network settings, OS type and version, and more. These facts are made available as variables in your Puppet manifests and can be used to inform conditional expressions in Puppet.'',
     [],
     ''If no queries are given, then all facts will be returned.'',
     [],
     ''Many command line options can also be set via the HOCON config file. This file can also be used to block or cache certain fact groups.'',
     [],
     ''OPTIONS'',
     ''-------'']
    @ text_lines (map (\<lambda>opt. od_Man (op_Documentation opt)) DocumentedOptions)
    @ text_lines
    [[],
     [],
     ''FILES'',
     ''-----'',
     ''/etc/facts/facts.conf'',
     [],
     ''The facts-native config file, consulted first.'',
     [],
     ''/etc/puppetlabs/facter/facter.conf'',
     [],
     ''The facter-compatible config file, read when no facts-native config file exists. Both are parsed with identical semantics.'',
     [],
     ''EXAMPLES'',
     ''--------'',
     ''Display all facts:'',
     [],
     ''    facts'',
     [],
     ''Display a single structured fact:'',
     [],
     ''    facts processors'',
     [],
     ''Format facts as JSON:'',
     [],
     ''    facts --json os.name os.release.major processors.isa'']"

section \<open>Runs\<close>

text \<open>The process: the files and the environment are those of the discovery.\<close>

record appHost =
  ah_config :: configHost
  ah_discovery :: discoveryHost
  ah_format :: formatHost
  ah_stdout :: writer
  ah_stderr :: writer
  ah_flagUsage :: "goerror \<Rightarrow> string"
  ah_seconds :: string
  ah_errorText :: "goerror \<Rightarrow> string"

text \<open>A run adds to both streams, may change the cache directory and ends with an error or without.\<close>

record outcome =
  ou_stdout :: string
  ou_stderr :: string
  ou_err :: "cliError option"
  ou_dir :: cacheDir

definition ends :: "string \<Rightarrow> string \<Rightarrow> cliError option \<Rightarrow> cacheDir \<Rightarrow> outcome" where
  "ends out err e d = \<lparr>ou_stdout = out, ou_stderr = err, ou_err = e, ou_dir = d\<rparr>"

definition optionError :: "string \<Rightarrow> cliError \<Rightarrow> cacheDir \<Rightarrow> outcome" where
  "optionError err e d = ends helpText err (Some e) d"

definition printed :: "string \<Rightarrow> string" where
  "printed out = (if suffix [NL] out then out else out @ [NL])"

definition writeVersionQuery :: "appHost \<Rightarrow> bool \<Rightarrow> bool \<Rightarrow> bool \<Rightarrow> goerror + string" where
  "writeVersionQuery h json yaml hocon =
     (case BuildFormatter (ah_format h) \<lparr>fo_JSON = json, fo_YAML = yaml, fo_HOCON = hocon, fo_Colorize = False\<rparr>
             (NewProjection [(core_fact ''facterversion'' (GStr (cb_Version (dh_build (ah_discovery h)))))
                               \<lparr>rf_UserQuery := ''facterversion''\<rparr>] False) of
        Inl e \<Rightarrow> Inl e | Inr out \<Rightarrow> Inr (printed out))"

definition factGroups :: "appHost \<Rightarrow> string list \<Rightarrow> DiscoveryDefaults \<Rightarrow> goerror + FactGroup list" where
  "factGroups h args defaults =
     (let options = parseListOptions args;
          config = (fst (ParseConfig (ah_config h) (po_ConfigPath options) defaults))\<lparr>cfg_NoExternalFacts := False\<rparr>;
          groups = MergeFactGroups BuiltinFactGroups (cfg_FactGroups config);
          configured = DiscoveryExternalDirs config (po_ExternalDirs options) False False [];
          defaultDirs = (if configured = [] then dd_ExternalFactDirs defaults else []);
          externalDirs = DiscoveryExternalDirs config (po_ExternalDirs options) False True defaultDirs
      in case ExternalFactGroups (dh_ext (ah_discovery h)) externalDirs of
           Inl e \<Rightarrow> Inl e | Inr external \<Rightarrow> Inr (MergeFactGroups groups external))"

text \<open>What a run resolves from its options and the configuration before it discovers anything.\<close>

record settings =
  st_options :: parsedOptions
  st_config :: Config
  st_conflictDirs :: "string list"
  st_externalDirs :: "string list"
  st_disabledFacts :: "bool gomap option"
  st_fastDisabled :: "bool gomap"
  st_mergeDotted :: bool
  st_logLevel :: string

definition resolveSettings :: "appHost \<Rightarrow> parsedOptions \<Rightarrow> Config \<Rightarrow> DiscoveryDefaults \<Rightarrow> settings" where
  "resolveSettings h options0 config defaults =
     (let conflictDirs = DiscoveryExternalDirs (config\<lparr>cfg_NoExternalFacts := False\<rparr>) (po_ExternalDirs options0) False False [];
          options = options0\<lparr>po_NoExternalFacts := po_NoExternalFacts options0 \<or> cfg_NoExternalFacts config,
                             po_Debug := po_Debug options0 \<or> cfg_Debug config,
                             po_Verbose := po_Verbose options0 \<or> cfg_Verbose config\<rparr>;
          defaultDirs = (if \<not> po_NoExternalFacts options \<and> length conflictDirs = 0
                         then dd_ExternalFactDirs defaults else [])
      in \<lparr>st_options = options, st_config = config, st_conflictDirs = conflictDirs,
          st_externalDirs = DiscoveryExternalDirs config (po_ExternalDirs options) (po_NoExternalFacts options) True defaultDirs,
          st_disabledFacts = (if po_NoBlock options then Some [] else None),
          st_fastDisabled = (if po_NoBlock options then []
             else DisabledUnion config (po_DisableEntries options) (ph_environ (dh_plan (ah_discovery h)))),
          st_mergeDotted = cfg_ForceDotResolution config \<or> po_ForceDotResolution options,
          st_logLevel = firstNonEmpty [po_LogLevel options, cfg_LogLevel config]\<rparr>)"

definition handlerFor :: "settings \<Rightarrow> bool \<Rightarrow> stderrLogHandler" where
  "handlerFor st color =
     \<lparr>lh_color = color,
      lh_debug = po_Debug (st_options st) \<or> logLevelEnablesDebug (st_logLevel st),
      lh_verbose = po_Verbose (st_options st) \<or> equal_fold (st_logLevel st) ''info''\<rparr>"

definition announce :: "settings \<Rightarrow> string list \<Rightarrow> bool \<Rightarrow> string" where
  "announce st args color =
     (let lh = handlerFor st color
      in if lh_debug lh then writeDebug ''resolving facts'' color
         else if lh_verbose lh
         then writeInfo (''executed with command line: '' @ join '' '' args) color @ writeInfo ''resolving facts'' color
         else [])"

definition engineConfigFor :: "settings \<Rightarrow> DiscoveryDefaults \<Rightarrow> EngineConfig" where
  "engineConfigFor st defaults =
     (let options = st_options st
      in \<lparr>ec_ConfigFile = po_ConfigPath options, ec_ExternalDirs = po_ExternalDirs options,
          ec_UseCache = \<not> po_NoCache options, ec_SystemDefaults = True, ec_Facts = [],
          ec_Defaults = Some defaults, ec_CLICompat = True, ec_NoExternalFacts = po_NoExternalFacts options,
          ec_DisabledFacts = st_disabledFacts st, ec_ExtraDisabled = po_DisableEntries options,
          ec_ConfigLoaded = True, ec_Config = st_config st, ec_IncludeTypedDotted = st_mergeDotted st\<rparr>)"

text \<open>From the snapshot to the output: the format, the timing lines, and the missing queries.\<close>

definition timingLines :: "appHost \<Rightarrow> Projection \<Rightarrow> string" where
  "timingLines h p =
     concat (map (\<lambda>name. ''fact '' @ [SQUOTE] @ name @ [SQUOTE] @ '', took: ('' @ ah_seconds h @ '') seconds'' @ [NL])
       (PresentationNames p))"

definition missingLines :: "Projection \<Rightarrow> bool \<Rightarrow> string" where
  "missingLines p color =
     concat (map (\<lambda>name. writeError (''fact '' @ go_quote name @ '' does not exist.'') color) (MissingQueries p))"

definition presentRun ::
  "appHost \<Rightarrow> settings \<Rightarrow> Snapshot \<Rightarrow> bool \<Rightarrow> bool \<Rightarrow> string \<Rightarrow> cacheDir \<Rightarrow> outcome" where
  "presentRun h st sn colorOutput colorDiagnostics err d =
     (let options = st_options st; p = OutputProjection sn (st_mergeDotted st)
      in case BuildFormatter (ah_format h)
                \<lparr>fo_JSON = po_JSON options, fo_YAML = po_YAML options, fo_HOCON = po_HOCON options,
                 fo_Colorize = colorOutput\<rparr> p of
           Inl e \<Rightarrow> ends [] err (Some (PlainError e)) d
         | Inr out \<Rightarrow>
             (let stdout = (if po_Timing options then timingLines h p else []) @ (if out = [] then [] else printed out)
              in if po_Strict options \<and> MissingQueries p \<noteq> []
                 then ends stdout (err @ missingLines p colorDiagnostics) (Some (ExitStatus 1)) d
                 else ends stdout err None d))"

definition runQuery :: "appHost \<Rightarrow> string list \<Rightarrow> DiscoveryDefaults \<Rightarrow> cacheDir \<Rightarrow> outcome" where
  "runQuery h args defaults d =
     (case parseOptions args of
        Inl e \<Rightarrow> ends [] (ah_flagUsage h e) (Some (PlainError e)) d
      | Inr (options0, queries) \<Rightarrow>
          (let colorOutput = resolveColor (po_Color options0) (po_NoColor options0) (ah_stdout h);
               colorDiagnostics = resolveColor (po_Color options0) (po_NoColor options0) (ah_stderr h);
               (config, lg0) = ParseConfig (ah_config h) (po_ConfigPath options0) defaults;
               err0 = rendered \<lparr>lh_color = colorDiagnostics, lh_debug = False, lh_verbose = False\<rparr> lg0;
               st = resolveSettings h options0 config defaults;
               options = st_options st
           in if po_NoExternalFacts options \<and> hasNonEmpty (st_conflictDirs st)
              then optionError err0 (PlainError (ErrText
                     ''--no-external-facts and --external-dir options conflict: please specify only one'')) d
              else if st_logLevel st \<noteq> [] \<and> \<not> SupportedLogLevel (st_logLevel st)
              then optionError err0 (PlainError (ErrText (''unsupported log level '' @ st_logLevel st))) d
              else if resolvedLogOptionsConflict (po_Debug options) (po_Verbose options) (st_logLevel st)
              then optionError err0 (PlainError (ErrText
                     ''debug, verbose, and log-level options conflict: please specify only one.'')) d
              else
                let err1 = err0 @ announce st args colorDiagnostics
                in if canUseVersionQueryFastPath queries (st_externalDirs st) (st_fastDisabled st)
                        (po_NoExternalFacts options) (po_Timing options)
                   then (case writeVersionQuery h (po_JSON options) (po_YAML options) (po_HOCON options) of
                           Inl e \<Rightarrow> ends [] err1 (Some (PlainError e)) d
                         | Inr out \<Rightarrow> ends out err1 None d)
                   else case NewEngine (engineConfigFor st defaults) of
                          Inl e \<Rightarrow> ends [] err1 (Some (PlainError e)) d
                        | Inr en \<Rightarrow>
                            (let ((sn, failure), en', d', lg) = Discover (ah_discovery h) queries en d;
                                 err2 = err1 @ rendered (handlerFor st colorDiagnostics) lg
                             in case failure of
                                  Some e \<Rightarrow> ends [] err2 (Some (PlainError e)) d'
                                | None \<Rightarrow> presentRun h st sn colorOutput colorDiagnostics err2 d')))"

definition runWithDefaults :: "appHost \<Rightarrow> string list \<Rightarrow> DiscoveryDefaults \<Rightarrow> cacheDir \<Rightarrow> outcome" where
  "runWithDefaults h args0 defaults d =
     (let args1 = PrepareArguments args0
      in case ValidateOptions args1 of
           Some e \<Rightarrow> optionError [] e d
         | None \<Rightarrow>
             (let args = (if args1 = [] then [''query''] else args1); word = hd args
              in if word \<in> set [''help'', ''-h'', ''--help''] then ends helpText [] None d
                 else if word \<in> set [''man'', ''--man''] then ends manText [] None d
                 else if word \<in> set [''version'', ''--version'', ''-v'']
                 then ends (cb_Version (dh_build (ah_discovery h)) @ [NL]) [] None d
                 else if word \<in> set [''list_block_groups'', ''--list-block-groups'', ''list_cache_groups'', ''--list-cache-groups'']
                 then (case factGroups h (tl args) defaults of
                         Inl e \<Rightarrow> ends [] [] (Some (PlainError e)) d
                       | Inr groups \<Rightarrow> ends (FormatFactGroups groups @ [NL]) [] None d)
                 else if word = ''query'' then runQuery h (tl args) defaults d
                 else ends [] [] (Some (PlainError (ErrText (''unknown command '' @ go_quote word)))) d))"

definition Run :: "appHost \<Rightarrow> string list \<Rightarrow> cacheDir \<Rightarrow> outcome" where
  "Run h args d = runWithDefaults h args (ph_currentDefaults (dh_plan (ah_discovery h))) d"

text \<open>\<open>runMain\<close>: the exit code, and the text of the error on the error stream.\<close>

definition runMain :: "appHost \<Rightarrow> string list \<Rightarrow> cacheDir \<Rightarrow> int \<times> outcome" where
  "runMain h args d =
     (let o1 = Run h args d
      in case ou_err o1 of
           None \<Rightarrow> (0, o1)
         | Some (ExitStatus n) \<Rightarrow> (n, o1)
         | Some (OptionError e) \<Rightarrow>
             (1, o1\<lparr>ou_stderr := ou_stderr o1 @ ''ERROR Facts::OptionsValidator - '' @ ah_errorText h e @ [NL]\<rparr>)
         | Some (PlainError e) \<Rightarrow> (1, o1\<lparr>ou_stderr := ou_stderr o1 @ ah_errorText h e @ [NL]\<rparr>))"


section \<open>Properties\<close>

text \<open>C3: The fast path of a version query is taken exactly when the query is \<open>facterversion\<close> alone, timing is
  off, and the plan of the discovery it replaces neither disables the fact nor reads an external
  directory: for all options, configurations and environments the settings it is decided on are those
  of the plan. (What the plan takes from environment facts and from the cache is not looked at;
  \<open>fast_path_ignores_environment\<close> shows that the answers then differ.)\<close>

theorem fast_path_plan:
  "(let st = resolveSettings h options config defaults;
        plan = fst (planDiscovery (engineConfigFor st defaults) (dh_plan (ah_discovery h)) queries)
    in canUseVersionQueryFastPath queries (st_externalDirs st) (st_fastDisabled st)
         (po_NoExternalFacts (st_options st)) (po_Timing (st_options st)) \<longleftrightarrow>
       queries = [''facterversion''] \<and> \<not> po_Timing (st_options st) \<and>
       \<not> is_set (pl_disabledFacts plan) ''facterversion'' \<and> (pl_noExternalFacts plan \<or> pl_externalDirs plan = []))"
proof -
  define st where "st = resolveSettings h options config defaults"
  define plan where "plan = fst (planDiscovery (engineConfigFor st defaults) (dh_plan (ah_discovery h)) queries)"
  have same: "pl_disabledFacts plan = st_fastDisabled st" "pl_noExternalFacts plan = po_NoExternalFacts (st_options st)"
    "pl_noExternalFacts plan \<or> pl_externalDirs plan = st_externalDirs st"
    unfolding plan_def st_def
    by (simp_all add: resolveSettings_def engineConfigFor_def planDiscovery_def planDiscoveryWithDefaults_def
        configForDiscovery_def unionDisabledFacts_def DiscoveryExternalDirs_def defaultsForDiscovery_def Let_def)
  have one: "length queries = 1 \<and> queries ! 0 = q \<longleftrightarrow> queries = [q]" for q
    by (cases queries) auto
  have "canUseVersionQueryFastPath queries (st_externalDirs st) (st_fastDisabled st) (po_NoExternalFacts (st_options st)) t \<longleftrightarrow>
      queries = [''facterversion''] \<and> \<not> t \<and> \<not> is_set (pl_disabledFacts plan) ''facterversion'' \<and>
      (pl_noExternalFacts plan \<or> pl_externalDirs plan = [])" for t
    using same one [of "''facterversion''"] unfolding canUseVersionQueryFastPath_def by (metis length_greater_0_conv)
  then show ?thesis by (simp add: Let_def st_def plan_def)
qed

lemma Discover_no_cache:
  assumes "\<not> ec_UseCache (en_cfg en)"
  shows "fst (snd (snd (Discover h queries en d))) = d"
proof -
  obtain plan pf where plan: "planDiscovery (en_cfg en) (dh_plan h) queries = (plan, pf)" by fastforce
  then have u: "\<not> pl_useCache plan"
    using assms by (auto simp: planDiscovery_def planDiscoveryWithDefaults_def Let_def case_prod_beta)
  obtain ex le en1 lg1 where g: "gatherExternal h plan en = ((ex, le), en1, lg1)"
    by (metis prod.collapse)
  show ?thesis
    by (cases le; cases "pl_loaderMode plan") (auto simp: Discover_def plan g u case_prod_beta Let_def)
qed

lemma ends_sel [simp]:
  "ou_stdout (ends out err e d) = out" "ou_stderr (ends out err e d) = err"
  "ou_err (ends out err e d) = e" "ou_dir (ends out err e d) = d"
  by (simp_all add: ends_def)

lemma presentRun_dir: "ou_dir (presentRun h st sn c1 c2 err d) = d"
  by (simp add: presentRun_def Let_def split: sum.splits)

lemma presentRun_status: "ou_err (presentRun h st sn c1 c2 err d) = Some (ExitStatus n) \<Longrightarrow> n = 1"
  by (auto simp: presentRun_def Let_def split: sum.splits if_splits)

lemma runQuery_dir:
  assumes "parseOptions args = Inr (options, queries)" "po_NoCache options"
  shows "ou_dir (runQuery h args defaults d) = d"
proof -
  have "fst (snd (snd (Discover (ah_discovery h) queries en d))) = d"
    if "NewEngine (engineConfigFor (resolveSettings h options config defaults) defaults) = Inr en" for en config
    using that assms(2)
    by (intro Discover_no_cache) (auto simp: NewEngine_def engineConfigFor_def resolveSettings_def Let_def)
  then show ?thesis
    by (auto simp: runQuery_def assms(1) Let_def optionError_def presentRun_dir case_prod_beta split: sum.splits option.splits)
qed

lemma runQuery_error_dir: "parseOptions args = Inl e \<Longrightarrow> ou_dir (runQuery h args defaults d) = d"
  by (simp add: runQuery_def)

lemma runQuery_status: "ou_err (runQuery h args defaults d) = Some (ExitStatus n) \<Longrightarrow> n = 1"
  by (auto simp: runQuery_def Let_def optionError_def case_prod_beta dest: presentRun_status
      split: sum.splits option.splits if_splits)

lemma Run_dir:
  "ou_dir (Run h args d) = d \<or>
   (hd (PrepareArguments args) = ''query'' \<and>
    (\<exists>options queries. parseOptions (tl (PrepareArguments args)) = Inr (options, queries) \<and> \<not> po_NoCache options))"
proof (cases "ValidateOptions (PrepareArguments args)")
  case None
  have q: "ou_dir (runQuery h as defaults d) = d \<or>
      (\<exists>options queries. parseOptions as = Inr (options, queries) \<and> \<not> po_NoCache options)" for as defaults
    by (cases "parseOptions as") (auto simp: runQuery_error_dir dest: runQuery_dir)
  have "PrepareArguments args \<noteq> []" by (rule PrepareArguments_not_Nil)
  with None q show ?thesis
    by (auto simp: Run_def runWithDefaults_def Let_def split: sum.splits)
qed (simp add: Run_def runWithDefaults_def Let_def optionError_def)

text \<open>C4: The command is careful with the cache: unless it runs a query whose options parse and leave the
  cache on, a run - of any task, with any arguments, valid or not - leaves the cache directory
  exactly as it was. And its exit code is always 0 or 1, and 0 exactly when the run ends without an error.\<close>

theorem runMain_contract:
  "(if hd (PrepareArguments args) = ''query'' \<and>
       (case parseOptions (tl (PrepareArguments args)) of Inl e \<Rightarrow> False | Inr (options, queries) \<Rightarrow> \<not> po_NoCache options)
    then True else ou_dir (snd (runMain h args d)) = d) \<and>
   fst (runMain h args d) \<in> {0, 1} \<and>
   (fst (runMain h args d) = 0 \<longleftrightarrow> ou_err (Run h args d) = None)"
proof -
  have s: "ou_err (Run h args d) = Some (ExitStatus n) \<Longrightarrow> n = 1" for n
    by (auto simp: Run_def runWithDefaults_def optionError_def ValidateOptions_def Let_def dest: runQuery_status
        split: sum.splits option.splits if_splits)
  have "ou_dir (snd (runMain h args d)) = ou_dir (Run h args d)"
    by (auto simp: runMain_def Let_def split: option.splits cliError.splits)
  moreover have "fst (runMain h args d) \<in> {0, 1} \<and> (fst (runMain h args d) = 0 \<longleftrightarrow> ou_err (Run h args d) = None)"
    using s by (auto simp: runMain_def Let_def split: option.splits cliError.splits)
  ultimately show ?thesis using Run_dir [of h args d] by auto
qed

text \<open>Strict mode reports and never hides: with and without it a run prints the same output and
  leaves the same cache; it ends in exit status 1 exactly when the output could be formatted
  and some query found nothing, and then the error stream names every such query.\<close>

lemma presentRun_strict:
  "(let strict = presentRun h (st\<lparr>st_options := (st_options st)\<lparr>po_Strict := True\<rparr>\<rparr>) sn c1 c2 err d;
        lax = presentRun h (st\<lparr>st_options := (st_options st)\<lparr>po_Strict := False\<rparr>\<rparr>) sn c1 c2 err d;
        p = OutputProjection sn (st_mergeDotted st)
    in ou_stdout strict = ou_stdout lax \<and> ou_dir strict = ou_dir lax \<and>
       (ou_err strict = Some (ExitStatus 1) \<longleftrightarrow> ou_err lax = None \<and> MissingQueries p \<noteq> []) \<and>
       (if ou_err strict = Some (ExitStatus 1) then ou_stderr strict = ou_stderr lax @ missingLines p c2
        else ou_stderr strict = ou_stderr lax \<and> ou_err strict = ou_err lax))"
  by (auto simp: presentRun_def Let_def missingLines_def split: sum.splits)


text \<open>The fast path looks at the external directories but not at the environment: a discovery takes
  the version from an environment fact, the fast path prints the built-in one.\<close>

lemma fast_path_ignores_environment:
  "canUseVersionQueryFastPath [''facterversion''] [] [] False False \<and>
   snapshotValue (fst (fst (Discover (exampleHost [''FACTS_FACTERVERSION=9'']) [''facterversion'']
     (exampleEngine (Some []) True) []))) ''facterversion'' = Inr (GStr ''9'')"
  by code_simp

end
