(* ===== verification/Go_Float.thy ===== *)
theory Go_Float
  imports Go_Library
begin

text \<open>
  The \<open>float64\<close> arithmetic behind the sizes and percentages the resolvers print, on integers: a
  double is an integer or a quotient of an integer by a power of two, every operation rounds
  to 53 significant bits, to even on a tie, and \<open>strconv.FormatFloat(x, 'f', 2, 64)\<close> rounds the
  exact value of its argument the same way. Only non-negative values occur.
\<close>

section \<open>Rounding\<close>

fun bitlen :: "nat \<Rightarrow> nat" where
  "bitlen n = (if n = 0 then 0 else Suc (bitlen (n div 2)))"

declare bitlen.simps [simp del]

text \<open>The nearest integer to a quotient, the even one on a tie.\<close>

definition round_even :: "nat \<Rightarrow> nat \<Rightarrow> nat" where
  "round_even a b =
     (let q = a div b; r = a mod b in if 2 * r < b \<or> (2 * r = b \<and> even q) then q else q + 1)"

text \<open>The double nearest to an integer.\<close>

definition fl_int :: "nat \<Rightarrow> nat" where
  "fl_int n = (let s = bitlen n - 53 in round_even n (2 ^ s) * 2 ^ s)"

text \<open>The double nearest to a quotient, as numerator and denominator: the shift brings the quotient
  to 53 bits.\<close>

definition scaled :: "nat \<Rightarrow> nat \<Rightarrow> int \<Rightarrow> nat \<times> nat" where
  "scaled a b k = (if k \<ge> 0 then (a * 2 ^ nat k, b) else (a, b * 2 ^ nat (- k)))"

definition fl_quot :: "nat \<Rightarrow> nat \<Rightarrow> nat \<times> nat" where
  "fl_quot a b =
     (if a = 0 then (0, 1)
      else let k0 = 53 + int (bitlen b) - int (bitlen a);
               k = (if snd (scaled a b k0) * 2 ^ 53 \<le> fst (scaled a b k0) then k0 - 1 else k0);
               r = round_even (fst (scaled a b k)) (snd (scaled a b k))
           in if k \<ge> 0 then (r, 2 ^ nat k) else (r * 2 ^ nat (- k), 1))"

text \<open>The product of a double and a number, and a double as an \<open>int\<close>: the fraction is dropped, and a
  value out of range becomes the least \<open>int\<close>, as the 64-bit x86 conversion has it.\<close>

definition fl_times :: "nat \<times> nat \<Rightarrow> nat \<Rightarrow> nat \<times> nat" where
  "fl_times x n = fl_quot (fst x * n) (snd x)"

definition fl_over :: "nat \<times> nat \<Rightarrow> nat \<Rightarrow> nat \<times> nat" where
  "fl_over x n = fl_quot (fst x) (snd x * n)"

definition fl_trunc :: "nat \<times> nat \<Rightarrow> int" where
  "fl_trunc x = (let n = int (fst x div snd x) in if n > max_int64 then min_int64 else n)"

section \<open>Text\<close>

text \<open>\<open>strconv.ParseFloat(s, 64)\<close> of a decimal: the sign and the exact value. A value that rounds to
  infinity is an error. The special values, hexadecimal numbers and digit separators that
  the function also reads are errors here; no probe prints them.\<close>

definition parse_exponent :: "string \<Rightarrow> int option" where
  "parse_exponent s =
     (case s of [] \<Rightarrow> Some 0
      | c # cs \<Rightarrow>
          if c \<noteq> CHR ''e'' \<and> c \<noteq> CHR ''E'' then None
          else let (neg, ds) = (case cs of [] \<Rightarrow> (False, [])
                  | d # ds \<Rightarrow> if d = CHR ''-'' then (True, ds) else if d = CHR ''+'' then (False, ds) else (False, cs))
               in if ds = [] \<or> \<not> list_all is_digit ds then None
                  else Some (if neg then - dec_val ds else dec_val ds))"

definition parse_float :: "string \<Rightarrow> (bool \<times> nat \<times> nat) option" where
  "parse_float s =
     (let (neg, t) = (case s of [] \<Rightarrow> (False, [])
             | c # cs \<Rightarrow> if c = CHR ''-'' then (True, cs) else if c = CHR ''+'' then (False, cs) else (False, s));
          ip = takeWhile is_digit t; r1 = dropWhile is_digit t;
          (fp, r2) = (case r1 of [] \<Rightarrow> ([], [])
             | c # cs \<Rightarrow> if c = DOT then (takeWhile is_digit cs, dropWhile is_digit cs) else ([], r1))
      in if ip @ fp = [] then None
         else case parse_exponent r2 of None \<Rightarrow> None
              | Some e \<Rightarrow>
                  let n = nat (dec_val (ip @ fp)); k = e - int (length fp);
                      (a, b) = (if k \<ge> 0 then (n * 10 ^ nat k, 1) else (n, 10 ^ nat (- k)))
                  in if a \<ge> (2 ^ 1024 - 2 ^ 970) * b then None else Some (neg, a, b))"

text \<open>\<open>strconv.FormatFloat(x, 'f', -1, 64)\<close>: the fewest decimal places that read back as the same
  double. (Go also rounds the digits before the point of a double above \<open>10 ^ 15\<close>; none is printed
  here.)\<close>

definition decimal_places :: "nat \<Rightarrow> nat \<Rightarrow> string" where
  "decimal_places p n =
     (if p = 0 then itoa (int n)
      else let ds = itoa (int (n mod 10 ^ p))
           in itoa (int (n div 10 ^ p)) @ DOT # replicate (p - length ds) (CHR ''0'') @ ds)"

definition same_double :: "nat \<times> nat \<Rightarrow> nat \<times> nat \<Rightarrow> bool" where
  "same_double x y \<longleftrightarrow> fst x * snd y = fst y * snd x"

definition format_shortest :: "nat \<times> nat \<Rightarrow> string" where
  "format_shortest x =
     (case find (\<lambda>p. same_double (fl_quot (round_even (fst x * 10 ^ p) (snd x)) (10 ^ p)) x) [0..<330] of
        Some p \<Rightarrow> decimal_places p (round_even (fst x * 10 ^ p) (snd x))
      | None \<Rightarrow> itoa (int (fst x div snd x)))"

definition two_decimals :: "nat \<Rightarrow> string" where
  "two_decimals h =
     itoa (int (h div 100)) @ [DOT, char_of (48 + h mod 100 div 10), char_of (48 + h mod 10)]"

definition format_fixed2 :: "nat \<times> nat \<Rightarrow> string" where
  "format_fixed2 q = two_decimals (round_even (fst q * 100) (snd q))"

section \<open>Lemmas\<close>

lemma bitlen_0 [simp]: "bitlen 0 = 0"
  by (subst bitlen.simps) simp

lemma bitlen_upper: "n < 2 ^ bitlen n"
proof (induction n rule: bitlen.induct)
  case (1 n)
  show ?case
  proof (cases "n = 0")
    case False
    with 1 have "n div 2 < 2 ^ bitlen (n div 2)" by simp
    then show ?thesis using False by (subst bitlen.simps) simp
  qed (simp add: bitlen.simps)
qed

lemma bitlen_lower: "n > 0 \<Longrightarrow> 2 ^ (bitlen n - 1) \<le> n"
proof (induction n rule: bitlen.induct)
  case (1 n)
  show ?case
  proof (cases "n div 2 = 0")
    case True
    with 1 show ?thesis by (subst bitlen.simps) (simp add: bitlen.simps)
  next
    case False
    with 1 have "2 ^ (bitlen (n div 2) - 1) \<le> n div 2" by simp
    moreover have "bitlen (n div 2) \<ge> 1" using False by (subst bitlen.simps) simp
    ultimately have "2 ^ bitlen (n div 2) \<le> n"
      using power_minus_mult [of "bitlen (n div 2)" "2 :: nat"] by simp
    then show ?thesis using 1 by (subst bitlen.simps) simp
  qed
qed

lemma round_even_ge: "b > 0 \<Longrightarrow> m * b \<le> a \<Longrightarrow> m \<le> round_even a b"
  using less_eq_div_iff_mult_less_eq [of b m a] by (simp add: round_even_def Let_def)

lemma round_even_le: "b > 0 \<Longrightarrow> a \<le> m * b \<Longrightarrow> round_even a b \<le> m"
proof (cases "a mod b = 0")
  case False
  assume b: "b > 0" "a \<le> m * b"
  then have "a \<noteq> m * b" using False by auto
  with b have "a div b < m" by (simp add: div_less_iff_less_mult)
  then show ?thesis by (simp add: round_even_def Let_def)
qed (auto simp: round_even_def Let_def div_le_mono dest: div_le_mono [of a "m * b" b])

text \<open>Rounding does not cross a value of 53 bits.\<close>

lemma fl_int_ge:
  assumes "k < 2 ^ 53" "k * 2 ^ j \<le> n"
  shows "k * 2 ^ j \<le> fl_int n"
proof (cases "bitlen n - 53 \<le> j")
  case True
  then obtain i where "j = bitlen n - 53 + i" by (metis le_add_diff_inverse)
  then have c: "k * 2 ^ j = (k * 2 ^ i) * 2 ^ (bitlen n - 53)" by (simp add: power_add mult_ac)
  with assms(2) have "k * 2 ^ i \<le> round_even n (2 ^ (bitlen n - 53))" by (intro round_even_ge) simp_all
  then show ?thesis unfolding c fl_int_def Let_def by (rule mult_right_mono) simp
next
  case False
  then have n: "n > 0" and s: "bitlen n - 53 \<ge> Suc j" by (cases "n = 0"; simp)+
  have "k * 2 ^ j \<le> 2 ^ 53 * 2 ^ j" using assms(1) by simp
  also have "\<dots> \<le> 2 ^ 52 * 2 ^ (bitlen n - 53)"
    using power_increasing [OF s, of "2 :: nat"] by simp
  also have "\<dots> \<le> round_even n (2 ^ (bitlen n - 53)) * 2 ^ (bitlen n - 53)"
  proof (intro mult_right_mono round_even_ge)
    have "52 + (bitlen n - 53) = bitlen n - 1" using s by simp
    then show "2 ^ 52 * 2 ^ (bitlen n - 53) \<le> n" using bitlen_lower [OF n] by (metis power_add)
  qed simp_all
  finally show ?thesis by (simp add: fl_int_def Let_def)
qed

lemma fl_int_le:
  assumes "k < 2 ^ 53" "n \<le> k * 2 ^ j"
  shows "fl_int n \<le> k * 2 ^ j"
proof (cases "bitlen n - 53 \<le> j")
  case True
  then obtain i where "j = bitlen n - 53 + i" by (metis le_add_diff_inverse)
  then have c: "k * 2 ^ j = (k * 2 ^ i) * 2 ^ (bitlen n - 53)" by (simp add: power_add mult_ac)
  with assms(2) have "round_even n (2 ^ (bitlen n - 53)) \<le> k * 2 ^ i" by (intro round_even_le) simp_all
  then show ?thesis unfolding c fl_int_def Let_def by (rule mult_right_mono) simp
next
  case False
  then have n: "n > 0" and s: "bitlen n - 53 \<ge> Suc j" by (cases "n = 0"; simp)+
  have "k * 2 ^ j < 2 ^ 53 * 2 ^ j" using assms(1) by simp
  also have "\<dots> \<le> 2 ^ 52 * 2 ^ (bitlen n - 53)"
    using power_increasing [OF s, of "2 :: nat"] by simp
  also have "\<dots> \<le> n"
  proof -
    have "52 + (bitlen n - 53) = bitlen n - 1" using s by simp
    then show ?thesis using bitlen_lower [OF n] by (metis power_add)
  qed
  finally show ?thesis using assms(2) by simp
qed

lemma fl_int_small: "n < 2 ^ 53 \<Longrightarrow> fl_int n = n"
  using fl_int_ge [of n 0 n] fl_int_le [of n n 0] by simp


text \<open>The same for a quotient: it does not cross a fraction \<open>m / 2 ^ j\<close> of 53 bits.\<close>

lemma scaled_ge:
  assumes "0 < a" "k = 53 + int (bitlen b) - int (bitlen a)"
  shows "snd (scaled a b k) * 2 ^ 52 \<le> fst (scaled a b k)"
proof -
  have a: "2 ^ (bitlen a - 1) \<le> a" and b: "b \<le> 2 ^ bitlen b" and p: "0 < bitlen a"
    using bitlen_lower [OF assms(1)] bitlen_upper [of b] assms(1) by (auto simp: bitlen.simps [of a])
  show ?thesis
  proof (cases "k \<ge> 0")
    case True
    then have e: "bitlen b + 52 = bitlen a - 1 + nat k" using p assms(2) by simp
    have "b * 2 ^ 52 \<le> 2 ^ bitlen b * 2 ^ 52" using b by (rule mult_le_mono1)
    also have "\<dots> = 2 ^ (bitlen a - 1) * 2 ^ nat k" by (simp only: e flip: power_add)
    also have "\<dots> \<le> a * 2 ^ nat k" using a by (rule mult_le_mono1)
    finally show ?thesis using True by (simp only: scaled_def if_True fst_conv snd_conv)
  next
    case False
    then have e: "bitlen b + nat (- k) + 52 = bitlen a - 1" using p assms(2) by simp
    have "b * 2 ^ nat (- k) * 2 ^ 52 \<le> 2 ^ bitlen b * 2 ^ nat (- k) * 2 ^ 52" using b by (intro mult_le_mono1)
    also have "\<dots> = 2 ^ (bitlen a - 1)" by (simp only: e flip: power_add)
    also note a
    finally show ?thesis using False by (simp only: scaled_def if_False fst_conv snd_conv)
  qed
qed

lemma scaled_pred:
  assumes "snd (scaled a b k) * 2 ^ 53 \<le> fst (scaled a b k)"
  shows "snd (scaled a b (k - 1)) * 2 ^ 52 \<le> fst (scaled a b (k - 1))"
proof (cases "k \<ge> 1")
  case True
  then have "nat k = Suc (nat (k - 1))" by simp
  with assms True show ?thesis by (simp add: scaled_def)
next
  case False
  then have "nat (- (k - 1)) = Suc (nat (- k))" by simp
  with assms False show ?thesis by (cases "k = 0") (simp_all add: scaled_def)
qed

lemma fl_quotE:
  assumes "0 < a" "0 < b"
  obtains k where "fl_quot a b =
      (let r = round_even (fst (scaled a b k)) (snd (scaled a b k)) in if k \<ge> 0 then (r, 2 ^ nat k) else (r * 2 ^ nat (- k), 1))"
    "snd (scaled a b k) * 2 ^ 52 \<le> fst (scaled a b k)"
  using assms scaled_ge [OF assms(1) refl, of b] scaled_pred [of a b "53 + int (bitlen b) - int (bitlen a)"]
  by (auto simp: fl_quot_def Let_def split: if_splits)

lemma fl_quot_pos: "0 < snd (fl_quot a b)"
  by (simp add: fl_quot_def Let_def)

lemma round_even_52: "0 < b \<Longrightarrow> b * 2 ^ 52 \<le> a \<Longrightarrow> 2 ^ 52 \<le> round_even a b"
  by (rule round_even_ge) (simp_all only: mult.commute)

lemma pow53: "m < 2 ^ 53 \<Longrightarrow> Suc i \<le> n \<Longrightarrow> m * 2 ^ i \<le> (2 ^ 52 * 2 ^ n :: nat)"
proof -
  assume m: "m < 2 ^ 53" and i: "Suc i \<le> n"
  have "m * 2 ^ i \<le> 2 ^ 53 * 2 ^ i" using m by (intro mult_le_mono1) simp
  also have "\<dots> = 2 ^ 52 * 2 ^ Suc i" by simp
  also have "\<dots> \<le> 2 ^ 52 * 2 ^ n" using i by (intro mult_le_mono2 power_increasing) simp_all
  finally show ?thesis .
qed

lemma fl_quot_ge:
  assumes m: "m < 2 ^ 53" and b: "0 < b" and le: "m * b \<le> a * 2 ^ j"
  shows "m * snd (fl_quot a b) \<le> fst (fl_quot a b) * 2 ^ j"
proof (cases "a = 0")
  case True
  with b le show ?thesis by (simp add: fl_quot_def)
next
  case False
  then obtain k where q: "fl_quot a b =
      (let r = round_even (fst (scaled a b k)) (snd (scaled a b k)) in if k \<ge> 0 then (r, 2 ^ nat k) else (r * 2 ^ nat (- k), 1))"
    and s: "snd (scaled a b k) * 2 ^ 52 \<le> fst (scaled a b k)" using b fl_quotE by blast
  show ?thesis
  proof (cases "k \<ge> 0")
    case True
    let ?r = "round_even (a * 2 ^ nat k) b"
    have "m * 2 ^ nat k \<le> ?r * 2 ^ j"
    proof (cases "j \<le> nat k")
      case j: True
      have "m * 2 ^ (nat k - j) * b \<le> a * 2 ^ j * 2 ^ (nat k - j)"
        using mult_le_mono1 [OF le, of "2 ^ (nat k - j)"] by (simp only: ac_simps)
      also have "\<dots> = a * 2 ^ nat k" using j by (simp only: mult.assoc le_add_diff_inverse flip: power_add)
      finally have "m * 2 ^ (nat k - j) \<le> ?r" by (rule round_even_ge [OF b])
      then have "m * 2 ^ (nat k - j) * 2 ^ j \<le> ?r * 2 ^ j" by (rule mult_le_mono1)
      then show ?thesis using j by (simp only: mult.assoc le_add_diff_inverse2 flip: power_add)
    next
      case j: False
      then have "m * 2 ^ nat k \<le> 2 ^ 52 * 2 ^ j" using m by (intro pow53) simp_all
      also have "\<dots> \<le> ?r * 2 ^ j" using s b True by (intro mult_le_mono1 round_even_52) (simp_all only: scaled_def if_True fst_conv snd_conv)
      finally show ?thesis .
    qed
    then show ?thesis using True by (simp only: q scaled_def if_True Let_def fst_conv snd_conv)
  next
    case False
    let ?r = "round_even a (b * 2 ^ nat (- k))"
    have r: "2 ^ 52 \<le> ?r" using s b False by (intro round_even_52) (simp_all only: scaled_def if_False fst_conv snd_conv, simp)
    have "m * 2 ^ 0 \<le> 2 ^ 52 * 2 ^ nat (- k)" using m False by (intro pow53) simp_all
    also have "\<dots> \<le> ?r * 2 ^ nat (- k)" using r by (rule mult_le_mono1)
    also have "\<dots> \<le> ?r * 2 ^ nat (- k) * 2 ^ j" by simp
    finally show ?thesis using False by (simp only: q scaled_def if_False Let_def fst_conv snd_conv power_0)
  qed
qed

lemma fl_quot_le:
  assumes m: "m < 2 ^ 53" and b: "0 < b" and le: "a * 2 ^ j \<le> m * b"
  shows "fst (fl_quot a b) * 2 ^ j \<le> m * snd (fl_quot a b)"
proof (cases "a = 0")
  case False
  then obtain k where q: "fl_quot a b =
      (let r = round_even (fst (scaled a b k)) (snd (scaled a b k)) in if k \<ge> 0 then (r, 2 ^ nat k) else (r * 2 ^ nat (- k), 1))"
    and s: "snd (scaled a b k) * 2 ^ 52 \<le> fst (scaled a b k)" using b fl_quotE by blast
  have small: "\<not> 2 ^ 53 * b \<le> a * 2 ^ j"
  proof
    assume "2 ^ 53 * b \<le> a * 2 ^ j"
    from this le have "2 ^ 53 * b \<le> m * b" by (rule le_trans)
    with b have "2 ^ 53 \<le> m" by simp
    with m show False by simp
  qed
  show ?thesis
  proof (cases "k \<ge> 0")
    case True
    let ?r = "round_even (a * 2 ^ nat k) b"
    have s': "b * 2 ^ 52 \<le> a * 2 ^ nat k" using s True by (simp only: scaled_def if_True fst_conv snd_conv)
    have j: "j \<le> nat k"
    proof (rule ccontr)
      assume "\<not> j \<le> nat k"
      then have "Suc (nat k) \<le> j" by simp
      then have "(2 :: nat) ^ Suc (nat k) \<le> 2 ^ j" by (rule power_increasing) simp
      then have "a * 2 ^ Suc (nat k) \<le> a * 2 ^ j" by (rule mult_le_mono2)
      moreover have "2 ^ 53 * b \<le> a * 2 ^ Suc (nat k)" using s' by simp
      ultimately show False using small by (metis le_trans)
    qed
    have "a * 2 ^ nat k = a * 2 ^ j * 2 ^ (nat k - j)" using j by (simp only: mult.assoc le_add_diff_inverse flip: power_add)
    also have "\<dots> \<le> m * 2 ^ (nat k - j) * b"
      using mult_le_mono1 [OF le, of "2 ^ (nat k - j)"] by (simp only: ac_simps)
    finally have "?r \<le> m * 2 ^ (nat k - j)" by (rule round_even_le [OF b])
    then have "?r * 2 ^ j \<le> m * 2 ^ (nat k - j) * 2 ^ j" by (rule mult_le_mono1)
    then have "?r * 2 ^ j \<le> m * 2 ^ nat k" using j by (simp only: mult.assoc le_add_diff_inverse2 flip: power_add)
    then show ?thesis using True by (simp only: q scaled_def if_True Let_def fst_conv snd_conv)
  next
    case False
    then have "Suc 0 \<le> nat (- k)" by simp
    then have "(2 :: nat) ^ Suc 0 \<le> 2 ^ nat (- k)" by (rule power_increasing) simp
    then have "b * 2 ^ Suc 0 * 2 ^ 52 \<le> b * 2 ^ nat (- k) * 2 ^ 52" by (intro mult_le_mono1 mult_le_mono2)
    also have "\<dots> \<le> a" using s False by (simp only: scaled_def if_False fst_conv snd_conv)
    also have "\<dots> \<le> a * 2 ^ j" by simp
    finally have "b * 2 ^ 53 \<le> a * 2 ^ j" by simp
    with small show ?thesis by (metis mult.commute)
  qed
qed (simp add: fl_quot_def)

lemma fl_quot_percent:
  assumes "0 < b" "a \<le> m * b" "m < 2 ^ 53"
  shows "fst (fl_quot a b) \<le> m * snd (fl_quot a b)"
  using fl_quot_le [of m b a 0] assms by simp

text \<open>The error of a rounding.\<close>

lemma round_even_lt: "0 < b \<Longrightarrow> 2 * a < (2 * m + 1) * b \<Longrightarrow> round_even a b \<le> (m :: nat)"
proof -
  assume b: "0 < b" and a: "2 * a < (2 * m + 1) * b"
  have d: "a = a div b * b + a mod b" by simp
  show ?thesis
  proof (cases "a div b < m")
    case False
    have "a div b * b \<le> a" by simp
    then have "2 * (a div b * b) < (2 * m + 1) * b" using a by linarith
    then have "2 * (a div b) < 2 * m + 1" using b by (metis mult.assoc mult_less_cancel2)
    with False have q: "a div b = m" by simp
    with a d have "2 * (m * b + a mod b) < (2 * m + 1) * b" by metis
    then have "2 * (a mod b) < b" by (simp add: algebra_simps)
    with q show ?thesis by (simp add: round_even_def)
  qed (simp add: round_even_def Let_def)
qed

lemma round_even_error: "0 < b \<Longrightarrow> round_even a b * b \<le> a + b \<and> a \<le> round_even a b * b + b"
proof -
  assume b: "0 < b"
  have d: "a = a div b * b + a mod b" by simp
  have "a mod b < b" using b by simp
  then show ?thesis using d unfolding round_even_def Let_def add_mult_distrib
    by (cases "2 * (a mod b) < b \<or> (2 * (a mod b) = b \<and> even (a div b))") (simp_all only: if_True if_False add_mult_distrib mult_1, linarith+)
qed

lemma fl_int_error: "fl_int n * 2 ^ 52 \<le> n * (2 ^ 52 + 1) \<and> n * (2 ^ 52 - 1) \<le> fl_int n * 2 ^ 52"
proof (cases "bitlen n - 53 = 0")
  case True
  then have "fl_int n = n" by (simp add: fl_int_def round_even_def)
  then show ?thesis by simp
next
  case False
  then have n: "0 < n" by (cases n) auto
  let ?s = "bitlen n - 53"
  have "52 + ?s = bitlen n - 1" using False by simp
  then have s: "2 ^ ?s * 2 ^ 52 \<le> n" using bitlen_lower [OF n] by (metis power_add mult.commute)
  have "fl_int n \<le> n + 2 ^ ?s" "n \<le> fl_int n + 2 ^ ?s"
    using round_even_error [of "2 ^ ?s" n] by (simp_all add: fl_int_def Let_def)
  from mult_le_mono1 [OF this(1), of "2 ^ 52"] mult_le_mono1 [OF this(2), of "2 ^ 52"] s
  have "fl_int n * 2 ^ 52 \<le> n * 2 ^ 52 + n" "n * 2 ^ 52 \<le> fl_int n * 2 ^ 52 + n"
    unfolding add_mult_distrib by linarith+
  then show ?thesis by (simp add: algebra_simps)
qed

end
