(* ===== verification/Host_Session.thy ===== *)
theory Host_Session
  imports Go_Float Core_Facts
begin

text \<open>
  \<open>internal/engine/session.go\<close>, \<open>wmi.go\<close> and the helpers of \<open>core.go\<close>: the host a resolution run reads,
  how its commands are found and started, and how sizes, percentages and records are
  derived. \<open>hostOS\<close> is the interface of the code with its answers as functions: the host
  answers the same throughout a run, so the memoized probes of a session are the probes.
\<close>

section \<open>The host\<close>

record fileInfo =
  fi_isDir :: bool
  fi_isRegular :: bool
  fi_isSymlink :: bool
  fi_exec :: bool

record mountStat =
  ms_SizeBytes :: int
  ms_AvailableBytes :: int
  ms_UsedBytes :: int

text \<open>A directory entry is its name and whether it is a directory.\<close>

text \<open>What the resolvers ask Go's run-time system for, outside the interface: the architecture, the number of
  processors, a command on the caller's PATH, the wall clock in nanoseconds and its zone, the
  process's users and groups, and the digests of \<open>crypto/sha1\<close> and \<open>crypto/sha256\<close> in hexadecimal.\<close>

record goRuntime =
  rt_GOARCH :: string
  rt_NumCPU :: int
  rt_lookPath :: "string \<Rightarrow> bool"
  rt_now :: int
  rt_zone :: string
  rt_euid :: int
  rt_uid :: int
  rt_gid :: int
  rt_user :: "(string \<times> string \<times> string) option"
  rt_group :: "string \<Rightarrow> string option"
  rt_sha1 :: "string \<Rightarrow> string"
  rt_sha256 :: "string \<Rightarrow> string"

record hostOS =
  ho_goos :: string
  ho_run :: "string \<Rightarrow> string list \<Rightarrow> string"
  ho_readFile :: "string \<Rightarrow> goerror + string"
  ho_readDir :: "string \<Rightarrow> goerror + (string \<times> bool) list"
  ho_stat :: "string \<Rightarrow> goerror + fileInfo"
  ho_lstat :: "string \<Rightarrow> goerror + fileInfo"
  ho_glob :: "string \<Rightarrow> goerror + string list"
  ho_statMountpoint :: "string \<Rightarrow> mountStat option"
  ho_environ :: "string list"
  ho_runtime :: goRuntime

definition envValue :: "string list \<Rightarrow> string \<Rightarrow> string \<Rightarrow> string" where
  "envValue env goos name =
     (if name = [] then []
      else case find (\<lambda>e. case cut e ''='' of None \<Rightarrow> False
                        | Some (key, _) \<Rightarrow> key = name \<or> (goos = ''windows'' \<and> equal_fold key name)) env of
             None \<Rightarrow> []
           | Some e \<Rightarrow> (case cut e ''='' of None \<Rightarrow> [] | Some (_, v) \<Rightarrow> v))"

section \<open>Commands\<close>

text \<open>\<open>coreWindowsRoot\<close> of \<open>session_nonwindows.go\<close>. A Windows build asks the system for the directory; the model
  takes the answer to be this one, which the code falls back to.\<close>

definition coreWindowsRoot :: string where "coreWindowsRoot = ''C:'' @ [BSLASH] @ ''Windows''"

definition trustedDirs :: "string \<Rightarrow> string list" where
  "trustedDirs goos =
     (if goos = ''windows''
      then [coreWindowsRoot @ [BSLASH] @ ''System32'', coreWindowsRoot,
            coreWindowsRoot @ [BSLASH] @ ''System32'' @ [BSLASH] @ ''Wbem'',
            coreWindowsRoot @ [BSLASH] @ ''System32'' @ [BSLASH] @ ''WindowsPowerShell'' @ [BSLASH] @ ''v1.0'']
      else [''/usr/sbin'', ''/usr/bin'', ''/sbin'', ''/bin''])"

definition coreCommandSearchPath :: "string \<Rightarrow> string list \<Rightarrow> string" where
  "coreCommandSearchPath goos env = join [corePathListSeparator goos] (trustedDirs goos)"

definition coreWindowsManagedEnv :: "string \<Rightarrow> bool" where
  "coreWindowsManagedEnv name \<longleftrightarrow> to_lower name \<in> set [''path'', ''systemroot'', ''windir'']"

definition coreCommandEnv :: "string list \<Rightarrow> string \<Rightarrow> string list" where
  "coreCommandEnv env goos =
     (if goos \<noteq> ''windows'' then [''PATH='' @ coreCommandSearchPath goos env]
      else filter (\<lambda>e. case cut e ''='' of Some (name, _) \<Rightarrow> \<not> coreWindowsManagedEnv name | None \<Rightarrow> True) env @
           [''SystemRoot='' @ coreWindowsRoot, ''WINDIR='' @ coreWindowsRoot,
            ''Path='' @ coreCommandSearchPath goos env])"

definition commandHasPathSeparator :: "string \<Rightarrow> string \<Rightarrow> bool" where
  "commandHasPathSeparator name goos \<longleftrightarrow>
     (if contains_any name [SLASH, BSLASH] then True else goos = ''windows'' \<and> contains name '':'')"

definition filePathExt :: "string \<Rightarrow> string" where
  "filePathExt path =
     (let elem = rev (takeWhile (\<lambda>c. c \<noteq> SLASH \<and> c \<noteq> BSLASH) (rev path))
      in case last_index DOT elem of None \<Rightarrow> [] | Some i \<Rightarrow> drop i elem)"

definition coreCommandCandidates :: "string \<Rightarrow> string \<Rightarrow> string list" where
  "coreCommandCandidates path goos =
     (if goos \<noteq> ''windows'' \<or> filePathExt path \<noteq> [] then [path]
      else [path @ ''.exe'', path @ ''.com'', path @ ''.bat'', path @ ''.cmd''])"

definition coreCommandFileExecutable :: "hostOS \<Rightarrow> string \<Rightarrow> string \<Rightarrow> bool" where
  "coreCommandFileExecutable h path goos =
     (case ho_stat h path of Inl e \<Rightarrow> False
      | Inr info \<Rightarrow> if \<not> fi_isRegular info then False else goos = ''windows'' \<or> fi_exec info)"

text \<open>\<open>filepath.Join\<close> of a clean directory and a name, by the rules of the running system.\<close>

definition joinFor :: "string \<Rightarrow> string \<Rightarrow> string \<Rightarrow> string" where
  "joinFor goos dir name = (if goos = ''windows'' then dir @ BSLASH # name else path_join dir name)"

definition coreCommandExecutable :: "hostOS \<Rightarrow> string \<Rightarrow> string \<Rightarrow> string option" where
  "coreCommandExecutable h name goos =
     (if commandHasPathSeparator name goos then Some name
      else find (\<lambda>c. coreCommandFileExecutable h c goos)
             (concat (map (\<lambda>dir. coreCommandCandidates (joinFor goos dir name) goos)
               (filter (\<lambda>dir. dir \<noteq> [])
                 (split_on (corePathListSeparator goos) (coreCommandSearchPath goos (ho_environ h)))))))"

text \<open>Starting a command: the executable, its arguments and its environment go to the operating
  system, which gives the output, or nothing when the command fails or times out.\<close>

definition hostRun ::
  "hostOS \<Rightarrow> (string \<Rightarrow> string list \<Rightarrow> string list \<Rightarrow> string option) \<Rightarrow> string \<Rightarrow> string list \<Rightarrow> string" where
  "hostRun h exec name args =
     (case coreCommandExecutable h name (ho_goos h) of None \<Rightarrow> []
      | Some cmd \<Rightarrow> (case exec cmd args (coreCommandEnv (ho_environ h) (ho_goos h)) of None \<Rightarrow> [] | Some out \<Rightarrow> out))"

section \<open>Files\<close>

definition readText :: "string \<Rightarrow> (string \<Rightarrow> goerror + string) \<Rightarrow> string" where
  "readText path readFile = (case readFile path of Inl e \<Rightarrow> [] | Inr s \<Rightarrow> s)"

definition readOptionalText :: "string \<Rightarrow> (string \<Rightarrow> goerror + string) \<Rightarrow> gval" where
  "readOptionalText path readFile = (case readFile path of Inl e \<Rightarrow> GNil | Inr s \<Rightarrow> GStr (trim_space s))"

definition readFileString :: "string \<Rightarrow> (string \<Rightarrow> goerror + string) \<Rightarrow> string" where
  "readFileString path readFile = (case readFile path of Inl e \<Rightarrow> [] | Inr s \<Rightarrow> s)"

definition fileExists :: "hostOS \<Rightarrow> string \<Rightarrow> bool" where
  "fileExists h path = (case ho_stat h path of Inl e \<Rightarrow> False | Inr info \<Rightarrow> True)"

definition dirExists :: "hostOS \<Rightarrow> string \<Rightarrow> bool" where
  "dirExists h path = (case ho_stat h path of Inl e \<Rightarrow> False | Inr info \<Rightarrow> fi_isDir info)"

definition firstNonEmptyValue :: "string list \<Rightarrow> string" where
  "firstNonEmptyValue values = (case find (\<lambda>v. v \<noteq> []) values of None \<Rightarrow> [] | Some v \<Rightarrow> v)"

definition isSymlink :: "string \<Rightarrow> (string \<Rightarrow> goerror + fileInfo) \<Rightarrow> bool" where
  "isSymlink path lstat = (case lstat path of Inl e \<Rightarrow> False | Inr info \<Rightarrow> fi_isSymlink info)"

definition readSysfsString :: "string \<Rightarrow> string \<Rightarrow> string \<Rightarrow> (string \<Rightarrow> goerror + string) \<Rightarrow> string" where
  "readSysfsString root device name readFile =
     (case readFile (path_join (path_join root device) name) of Inl e \<Rightarrow> [] | Inr s \<Rightarrow> trim_space s)"

text \<open>\<open>strings.ToValidUTF8\<close>: a run of invalid bytes becomes one replacement. The counter copies the
  rest of a valid character; the flag is set inside an invalid run.\<close>

fun toValidUTF8 :: "nat \<Rightarrow> bool \<Rightarrow> string \<Rightarrow> string" where
  "toValidUTF8 k bad [] = []"
| "toValidUTF8 (Suc k) bad (c # cs) = c # toValidUTF8 k False cs"
| "toValidUTF8 0 bad (c # cs) =
     (case utf8_size (c # cs) of
        Suc k \<Rightarrow> c # toValidUTF8 k False cs
      | 0 \<Rightarrow> (if bad then [] else [CHR 0xEF, CHR 0xBF, CHR 0xBD]) @ toValidUTF8 0 True cs)"

definition readDMIString :: "string \<Rightarrow> string \<Rightarrow> (string \<Rightarrow> goerror + string) \<Rightarrow> string" where
  "readDMIString root name readFile =
     (case readFile (path_join root name) of Inl e \<Rightarrow> [] | Inr s \<Rightarrow> trim_space (toValidUTF8 0 False s))"

section \<open>Reading the output of commands\<close>

text \<open>The value of \<open>strconv.Atoi\<close> where its error is ignored: a number out of range gives the nearest
  \<open>int\<close>, other text 0.\<close>

definition atoi_value :: "string \<Rightarrow> int" where
  "atoi_value s =
     (let (neg, ds) = (case s of [] \<Rightarrow> (False, [])
            | c # cs \<Rightarrow> if c = CHR ''-'' then (True, cs) else if c = CHR ''+'' then (False, cs) else (False, s))
      in if ds = [] \<or> \<not> list_all is_digit ds then 0
         else max min_int64 (min max_int64 (if neg then - dec_val ds else dec_val ds)))"

text \<open>The text before a separator, all of it without one.\<close>

definition before_cut :: "string \<Rightarrow> string \<Rightarrow> string" where
  "before_cut s sep = (case cut s sep of None \<Rightarrow> s | Some (a, _) \<Rightarrow> a)"

definition sget :: "string gomap \<Rightarrow> string \<Rightarrow> string" where
  "sget m k = (case mget m k of Some v \<Rightarrow> v | None \<Rightarrow> [])"

definition iget :: "int gomap \<Rightarrow> string \<Rightarrow> int" where
  "iget m k = (case mget m k of Some v \<Rightarrow> v | None \<Rightarrow> 0)"

section \<open>Sizes\<close>

definition positiveInt :: "string \<Rightarrow> int" where
  "positiveInt s = (case atoi (trim_space s) of None \<Rightarrow> 0 | Some n \<Rightarrow> if n \<le> 0 then 0 else n)"

text \<open>The largest power of 1024 up to a number, by its exponent.\<close>

function power1024 :: "nat \<Rightarrow> nat" where
  "power1024 n = (if n < 1024 then 0 else Suc (power1024 (n div 1024)))"
  by auto
termination by (relation "measure id") auto

declare power1024.simps [simp del]

text \<open>The hundredths and the unit of a size: 100 times the size over the unit, rounded half away
  from zero; 1024.00 of a unit is one of the next. The code takes the floor of
  \<open>log2(number) / 10\<close> for the exponent, which within one rounding of a power of 1024 may be the
  next one; both choices give the same hundredths and unit after this normalization.\<close>

definition humanParts :: "nat \<Rightarrow> nat \<times> nat" where
  "humanParts n =
     (let number = fl_int n; e = power1024 number; unit = 1024 ^ e; r = (2 * fl_int (100 * number) + unit) div (2 * unit)
      in if r = 102400 then (100, Suc e) else (r, e))"

definition unitPrefixes :: "string list" where
  "unitPrefixes = [''KiB'', ''MiB'', ''GiB'', ''TiB'', ''PiB'', ''EiB'']"

text \<open>\<open>bytesToHumanReadable\<close> of an \<open>int\<close>.\<close>

definition bytesToHumanReadable :: "int \<Rightarrow> gval" where
  "bytesToHumanReadable value =
     (if value < 0 then GStr []
      else if value < 1024 then GStr (itoa value @ '' bytes'')
      else let (r, e) = humanParts (nat value)
           in if e < 1 \<or> e > length unitPrefixes then GStr (itoa value @ '' bytes'')
              else GStr (two_decimals r @ '' '' @ unitPrefixes ! (e - 1)))"

definition percentText :: "int \<Rightarrow> int \<Rightarrow> string" where
  "percentText used capacity =
     format_fixed2 (fl_quot (fl_int (100 * fl_int (nat used))) (fl_int (nat capacity))) @ ''%''"

definition memoryCapacity :: "int \<Rightarrow> int \<Rightarrow> string" where
  "memoryCapacity used capacity = (if capacity \<le> 0 \<or> used \<le> 0 then ''0.00%'' else percentText used capacity)"

definition filesystemCapacity :: "int \<Rightarrow> int \<Rightarrow> string" where
  "filesystemCapacity used available =
     (if available \<le> 0 then ''100%'' else if used \<le> 0 then ''0%''
      else percentText used (wrap64 (used + available)))"

section \<open>WMI\<close>

definition wmicAliasClasses :: "string gomap" where
  "wmicAliasClasses =
     [(''os'', ''Win32_OperatingSystem''), (''cpu'', ''Win32_Processor''), (''bios'', ''Win32_BIOS''),
      (''computersystem'', ''Win32_ComputerSystem''), (''computersystemproduct'', ''Win32_ComputerSystemProduct'')]"

definition squoted :: "string \<Rightarrow> string" where
  "squoted s = SQUOTE # s @ [SQUOTE]"

definition windowsCIMScript :: "string \<Rightarrow> string \<Rightarrow> string" where
  "windowsCIMScript class props =
     ''$ErrorActionPreference='' @ squoted ''SilentlyContinue'' @ '';'' @
     ''foreach ($o in @(Get-CimInstance -ClassName '' @ class @ '')) {'' @
     '' foreach ($p in @('' @ join '','' (map (\<lambda>p. squoted (trim_space p)) (split_on (CHR '','') props)) @ '')) {'' @
     '' $v = $o.$p;'' @
     '' if ($v -is [datetime]) { $v = [System.Management.ManagementDateTimeConverter]::ToDmtfDateTime($v) }'' @
     '' elseif ($v -is [array]) { $v = '' @ squoted ''{'' @ '' + (($v | ForEach-Object { '' @ squoted [DQUOTE] @ '' + $_ + '' @
     squoted [DQUOTE] @ '' }) -join '' @ squoted '','' @ '') + '' @ squoted ''}'' @ '' };'' @
     '' Write-Output ($p + '' @ squoted ''='' @ '' + $v) };'' @
     '' Write-Output '' @ squoted [] @ '' }''"

definition windowsWMIOutput :: "(string \<Rightarrow> string list \<Rightarrow> string) \<Rightarrow> string \<Rightarrow> string \<Rightarrow> string" where
  "windowsWMIOutput run alias props =
     (let out = run ''wmic'' [alias, ''get'', props, ''/value'']
      in if contains out ''='' then out
         else case mget wmicAliasClasses alias of
                None \<Rightarrow> []
              | Some class \<Rightarrow>
                  run ''powershell'' [''-NoProfile'', ''-NonInteractive'', ''-Command'', windowsCIMScript class props])"

definition parseWindowsWMIValues :: "string \<Rightarrow> string gomap" where
  "parseWindowsWMIValues input =
     foldl (\<lambda>m line. case cut (trim_space line) ''='' of None \<Rightarrow> m | Some (k, v) \<Rightarrow> mput k (trim_space v) m)
       [] (split_on NL input)"

text \<open>Records end at a blank line, or where a second \<open>Name\<close> begins one.\<close>

fun wmiRecordLines :: "string gomap \<Rightarrow> string list \<Rightarrow> string gomap list" where
  "wmiRecordLines current [] = (if current = [] then [] else [current])"
| "wmiRecordLines current (line0 # lines) =
     (let line = trim_space line0
      in if line = [] then (if current \<noteq> [] then current # wmiRecordLines [] lines else wmiRecordLines current lines)
         else case cut line ''='' of
                None \<Rightarrow> wmiRecordLines current lines
              | Some (k0, v) \<Rightarrow>
                  (let k = trim_space k0
                   in if k = ''Name'' \<and> current \<noteq> [] \<and> sget current ''Name'' \<noteq> []
                      then current # wmiRecordLines (mput k (trim_space v) []) lines
                      else wmiRecordLines (mput k (trim_space v) current) lines))"

definition parseWindowsWMIRecords :: "string \<Rightarrow> string gomap list" where
  "parseWindowsWMIRecords input = wmiRecordLines [] (split_on NL (replace_all input [CHR 0x0D, NL] [NL]))"

section \<open>Lemmas\<close>

lemma power1024_0: "n < 1024 \<Longrightarrow> power1024 n = 0"
  by (subst power1024.simps) simp

lemma power1024_Suc: "1024 \<le> n \<Longrightarrow> power1024 n = Suc (power1024 (n div 1024))"
  by (subst power1024.simps) simp

lemma power1024_bounds: "0 < n \<Longrightarrow> 1024 ^ power1024 n \<le> n \<and> n < 1024 ^ Suc (power1024 n)"
proof (induction n rule: power1024.induct)
  case (1 n)
  show ?case
  proof (cases "n < 1024")
    case True
    with 1 show ?thesis by (simp add: power1024_0)
  next
    case False
    with 1 have "1024 ^ power1024 (n div 1024) \<le> n div 1024" "n div 1024 < 1024 ^ Suc (power1024 (n div 1024))" by auto
    with False show ?thesis
      by (simp add: power1024_Suc div_less_iff_less_mult mult.commute)
  qed
qed

lemma pow1024: "1024 ^ e = (2 :: nat) ^ (10 * e)"
  by (simp add: power_mult)

lemma rounded_hundredths:
  assumes "0 < u" "a * u \<le> x" "x \<le> b * u"
  shows "a \<le> (2 * x + u) div (2 * u) \<and> (2 * x + u) div (2 * u) \<le> (b :: nat)"
proof
  have "a * (2 * u) \<le> 2 * x + u" using assms(2) by simp
  then show "a \<le> (2 * x + u) div (2 * u)" using assms(1) by (simp add: less_eq_div_iff_mult_less_eq)
  have "2 * x + u < Suc b * (2 * u)" using assms(1,3) by simp
  then have "(2 * x + u) div (2 * u) < Suc b" using assms(1) by (subst div_less_iff_less_mult) simp_all
  then show "(2 * x + u) div (2 * u) \<le> b" by simp
qed

lemma find_SomeD: "find P xs = Some x \<Longrightarrow> x \<in> set xs \<and> P x"
  by (auto simp: find_Some_iff in_set_conv_nth)

lemma set_split_join_trusted:
  "set (filter (\<lambda>d. d \<noteq> []) (split_on (corePathListSeparator goos) (coreCommandSearchPath goos env))) = set (trustedDirs goos)"
  by (simp add: coreCommandSearchPath_def corePathListSeparator_def trustedDirs_def coreWindowsRoot_def)

lemma percentText_le_100:
  assumes "0 \<le> used" "used \<le> capacity" "0 < capacity"
  shows "\<exists>h \<le> 10000. percentText used capacity = two_decimals h @ ''%''"
proof -
  let ?u = "nat used" and ?c = "nat capacity"
  let ?X = "fl_int ?u" and ?T = "fl_int ?c"
  let ?F = "fl_int (100 * ?X)"
  have uc: "?u \<le> ?c" using assms by simp
  have X: "?X * 2 ^ 52 \<le> ?u * (2 ^ 52 + 1)" using fl_int_error by blast
  have F: "?F * 2 ^ 52 \<le> 100 * ?X * (2 ^ 52 + 1)" using fl_int_error by blast
  have T: "?c * (2 ^ 52 - 1) \<le> ?T * 2 ^ 52" using fl_int_error by blast
  have Tpos: "0 < ?T" using T assms(3) by (cases "?T = 0") auto
  have "?F * 1024 \<le> 102401 * ?T" using X F T uc by simp
  then have "fst (fl_quot ?F ?T) * 2 ^ 10 \<le> 102401 * snd (fl_quot ?F ?T)"
    using Tpos by (intro fl_quot_le) (simp_all add: mult.commute)
  then have "2 * (fst (fl_quot ?F ?T) * 100) < (2 * 10000 + 1) * snd (fl_quot ?F ?T)"
    using fl_quot_pos [of ?F ?T] by simp
  then have "round_even (fst (fl_quot ?F ?T) * 100) (snd (fl_quot ?F ?T)) \<le> 10000"
    by (intro round_even_lt fl_quot_pos)
  then show ?thesis by (auto simp: percentText_def format_fixed2_def)
qed

section \<open>Properties\<close>

text \<open>A size from 1 KiB up is printed with one to four digits before the point: the rounded
  value lies between 1.00 and 1023.99 of its unit, whatever the rounding of the doubles
  on the way does.\<close>

lemma humanParts_normal:
  "case humanParts n of (r, e) \<Rightarrow> if n < 1024 then True else 100 \<le> r \<and> r < 102400 \<and> 1 \<le> e"
proof (cases "n < 1024")
  case False
  define number where "number = fl_int n"
  define e where "e = power1024 number"
  have n: "1024 \<le> number" using fl_int_ge [of 1 10 n] False by (simp add: number_def)
  then have e: "1024 ^ e \<le> number" "number < 1024 ^ Suc e" "1 \<le> e"
    using power1024_bounds [of number] by (auto simp: e_def power1024_Suc)
  have "100 * 2 ^ (10 * e) \<le> fl_int (100 * number)"
    using e(1) by (intro fl_int_ge) (simp_all add: pow1024)
  moreover have "fl_int (100 * number) \<le> 100 * 2 ^ (10 * Suc e)"
    using e(2) by (intro fl_int_le) (simp_all add: pow1024 power_add)
  ultimately have "100 \<le> (2 * fl_int (100 * number) + 1024 ^ e) div (2 * 1024 ^ e) \<and>
      (2 * fl_int (100 * number) + 1024 ^ e) div (2 * 1024 ^ e) \<le> 102400"
    by (intro rounded_hundredths) (simp_all add: pow1024 power_add)
  with e(3) show ?thesis
    by (auto simp: humanParts_def Let_def number_def [symmetric] e_def [symmetric] simp del: mult_Suc_right)
qed (auto split: prod.split)

text \<open>C26: A probe command runs either the file its name spells out, or an executable regular file
  of one of the trusted directories of the platform, never one found through the caller's
  PATH; it gets the arguments unchanged and the managed environment.\<close>

theorem hostRun_trusted:
  "if hostRun h exec name args = [] then True
   else \<exists>cmd. exec cmd args (coreCommandEnv (ho_environ h) (ho_goos h)) = Some (hostRun h exec name args) \<and>
     (if commandHasPathSeparator name (ho_goos h) then cmd = name
      else coreCommandFileExecutable h cmd (ho_goos h) \<and>
        (\<exists>dir \<in> set (trustedDirs (ho_goos h)). cmd \<in> set (coreCommandCandidates (joinFor (ho_goos h) dir name) (ho_goos h))))"
proof (cases "coreCommandExecutable h name (ho_goos h)")
  case (Some cmd)
  let ?goos = "ho_goos h"
  have "if commandHasPathSeparator name ?goos then cmd = name
      else coreCommandFileExecutable h cmd ?goos \<and>
        (\<exists>dir \<in> set (trustedDirs ?goos). cmd \<in> set (coreCommandCandidates (joinFor ?goos dir name) ?goos))"
    using Some set_split_join_trusted [of ?goos "ho_environ h"]
    by (auto simp: coreCommandExecutable_def dest!: find_SomeD split: if_splits)
  moreover have "exec cmd args (coreCommandEnv (ho_environ h) ?goos) = Some (hostRun h exec name args)"
    if "hostRun h exec name args \<noteq> []"
    using that Some by (simp add: hostRun_def split: option.splits)
  ultimately show ?thesis by (cases "hostRun h exec name args = []") (simp, simp only: if_False, blast)
qed (simp add: hostRun_def)

text \<open>C27: The environment of a probe command: on Unix it is the trusted PATH alone, the same for every
  caller; on Windows the entries for Path, SystemRoot and WINDIR are the trusted ones,
  whatever the caller's environment holds, in any case of their letters.\<close>

theorem coreCommandEnv_managed:
  "if goos = ''windows''
   then filter (\<lambda>e. case cut e ''='' of Some (k, _) \<Rightarrow> coreWindowsManagedEnv k | None \<Rightarrow> False) (coreCommandEnv env goos) =
     [''SystemRoot='' @ coreWindowsRoot, ''WINDIR='' @ coreWindowsRoot, ''Path='' @ coreCommandSearchPath goos []]
   else coreCommandEnv env goos = [''PATH=/usr/sbin:/usr/bin:/sbin:/bin'']"
proof (cases "goos = ''windows''")
  case True
  have "filter (\<lambda>e. case cut e ''='' of Some (k, _) \<Rightarrow> coreWindowsManagedEnv k | None \<Rightarrow> False)
      (filter (\<lambda>e. case cut e ''='' of Some (k, _) \<Rightarrow> \<not> coreWindowsManagedEnv k | None \<Rightarrow> True) env) = []"
    by (auto simp: filter_empty_conv split: option.splits)
  moreover have "cut (''SystemRoot='' @ coreWindowsRoot) ''='' = Some (''SystemRoot'', coreWindowsRoot)"
    "cut (''WINDIR='' @ coreWindowsRoot) ''='' = Some (''WINDIR'', coreWindowsRoot)"
    "cut (''Path='' @ coreCommandSearchPath goos env) ''='' = Some (''Path'', coreCommandSearchPath goos env)"
    by (simp_all add: cut_def)
  moreover have "coreWindowsManagedEnv ''SystemRoot''" "coreWindowsManagedEnv ''WINDIR''" "coreWindowsManagedEnv ''Path''"
    by code_simp+
  ultimately show ?thesis using True by (simp add: coreCommandEnv_def coreCommandSearchPath_def)
qed (simp add: coreCommandEnv_def coreCommandSearchPath_def corePathListSeparator_def trustedDirs_def)

end
