(* ===== verification/Memory.thy ===== *)
theory Memory
  imports Host_Session
begin

text \<open>
  \<open>internal/engine/memory.go\<close> and the swap values of \<open>core.go\<close>: memory and swap of every platform from the
  output of its commands, and the memory facts. A nil map of values is the empty one; the
  products and sums of the code wrap at 64 bits. Diagnostics are left out.
\<close>

section \<open>Windows\<close>

record windowsMemory =
  wm_TotalBytes :: int
  wm_AvailableBytes :: int
  wm_UsedBytes :: int
  wm_Capacity :: string

definition no_windowsMemory :: windowsMemory where
  "no_windowsMemory = \<lparr>wm_TotalBytes = 0, wm_AvailableBytes = 0, wm_UsedBytes = 0, wm_Capacity = []\<rparr>"

definition parseWindowsMemory :: "string \<Rightarrow> windowsMemory" where
  "parseWindowsMemory input =
     (if trim_space input = [] then no_windowsMemory
      else let values = parseWindowsWMIValues input
           in case atoi (sget values ''TotalVisibleMemorySize'') of
                None \<Rightarrow> no_windowsMemory
              | Some totalKB \<Rightarrow>
                  if totalKB \<le> 0 then no_windowsMemory
                  else (case atoi (sget values ''FreePhysicalMemory'') of
                          None \<Rightarrow> no_windowsMemory
                        | Some availableKB \<Rightarrow>
                            if availableKB \<le> 0 then no_windowsMemory
                            else let totalBytes = wrap64 (totalKB * 1024);
                                     availableBytes = wrap64 (availableKB * 1024);
                                     usedBytes = max 0 (wrap64 (totalBytes - availableBytes))
                                 in \<lparr>wm_TotalBytes = totalBytes, wm_AvailableBytes = availableBytes,
                                     wm_UsedBytes = usedBytes, wm_Capacity = memoryCapacity usedBytes totalBytes\<rparr>))"

definition probeWindowsMemory :: "hostOS \<Rightarrow> windowsMemory" where
  "probeWindowsMemory h =
     (if ho_goos h \<noteq> ''windows'' then no_windowsMemory
      else parseWindowsMemory (windowsWMIOutput (ho_run h) ''os'' ''FreePhysicalMemory,TotalVisibleMemorySize''))"

section \<open>Values\<close>

definition memoryValues :: "int \<Rightarrow> int \<Rightarrow> int \<Rightarrow> gval gomap" where
  "memoryValues available used total_bytes =
     [(''available_bytes'', GInt available), (''capacity'', GStr (memoryCapacity used total_bytes)),
      (''total_bytes'', GInt total_bytes), (''used_bytes'', GInt used)]"

record bsdMemoryInfo =
  bm_System :: "gval gomap"
  bm_Swap :: "gval gomap"

definition no_bsdMemory :: bsdMemoryInfo where
  "no_bsdMemory = \<lparr>bm_System = [], bm_Swap = []\<rparr>"

definition freeBSDMemoryValue :: "gval gomap \<Rightarrow> string \<Rightarrow> int" where
  "freeBSDMemoryValue values key = (case mget values key of Some (GInt n) \<Rightarrow> n | _ \<Rightarrow> 0)"

section \<open>FreeBSD and DragonFly\<close>

definition freeBSDSysctlInt :: "hostOS \<Rightarrow> string \<Rightarrow> int" where
  "freeBSDSysctlInt h name =
     (case atoi (trim_space (ho_run h ''sysctl'' [''-n'', name])) of None \<Rightarrow> 0 | Some n \<Rightarrow> n)"

fun bsdSysctlInt :: "hostOS \<Rightarrow> string list \<Rightarrow> int" where
  "bsdSysctlInt h [] = 0"
| "bsdSysctlInt h (name # names) =
     (case atoi (trim_space (ho_run h ''sysctl'' [''-n'', name])) of
        Some n \<Rightarrow> if n > 0 then n else bsdSysctlInt h names
      | None \<Rightarrow> bsdSysctlInt h names)"

definition parseFreeBSDSystemMemory :: "int gomap \<Rightarrow> gval gomap" where
  "parseFreeBSDSystemMemory values =
     (let pagesize = iget values ''vm.stats.vm.v_page_size''; pageCount = iget values ''vm.stats.vm.v_page_count''
      in if pagesize \<le> 0 \<or> pageCount \<le> 0 then []
         else let total_bytes = wrap64 (pageCount * pagesize);
                  used = wrap64 (wrap64 (iget values ''vm.stats.vm.v_active_count'' + iget values ''vm.stats.vm.v_wire_count'') * pagesize)
              in memoryValues (max 0 (wrap64 (total_bytes - used))) used total_bytes)"

record swapSum =
  ss_total :: int
  ss_used :: int
  ss_available :: int
  ss_encrypted :: bool
  ss_found :: bool

definition addSwapLine :: "swapSum \<Rightarrow> string \<Rightarrow> swapSum" where
  "addSwapLine st line =
     (let fields = string_fields line
      in if length fields < 4 \<or> fields ! 0 = ''Device'' then st
         else case (atoi (fields ! 1), atoi (fields ! 2), atoi (fields ! 3)) of
                (Some lineTotal, Some lineUsed, Some lineAvailable) \<Rightarrow>
                  \<lparr>ss_total = wrap64 (ss_total st + wrap64 (lineTotal * 1024)),
                   ss_used = wrap64 (ss_used st + wrap64 (lineUsed * 1024)),
                   ss_available = wrap64 (ss_available st + wrap64 (lineAvailable * 1024)),
                   ss_encrypted = (ss_encrypted st \<and> has_suffix (fields ! 0) ''.eli''), ss_found = True\<rparr>
              | _ \<Rightarrow> st)"

definition parseFreeBSDSwapMemory :: "string \<Rightarrow> gval gomap" where
  "parseFreeBSDSwapMemory input =
     (if input = [] then []
      else let st = foldl addSwapLine \<lparr>ss_total = 0, ss_used = 0, ss_available = 0, ss_encrypted = True, ss_found = False\<rparr>
                      (split_on NL input)
           in if \<not> ss_found st then []
              else [(''available_bytes'', GInt (ss_available st)),
                    (''capacity'', GStr (if ss_used st = 0 then ''0%'' else memoryCapacity (ss_used st) (ss_total st))),
                    (''encrypted'', GBool (ss_encrypted st)), (''total_bytes'', GInt (ss_total st)),
                    (''used_bytes'', GInt (ss_used st))])"

definition parseFreeBSDMemory :: "int gomap \<Rightarrow> string \<Rightarrow> bsdMemoryInfo" where
  "parseFreeBSDMemory sysctlValues swapinfoOutput =
     \<lparr>bm_System = parseFreeBSDSystemMemory sysctlValues, bm_Swap = parseFreeBSDSwapMemory swapinfoOutput\<rparr>"

definition probeFreeBSDMemoryInfo :: "hostOS \<Rightarrow> bsdMemoryInfo" where
  "probeFreeBSDMemoryInfo h =
     (if ho_goos h \<noteq> ''freebsd'' then no_bsdMemory
      else parseFreeBSDMemory
             (map (\<lambda>name. (name, freeBSDSysctlInt h name))
                [''vm.stats.vm.v_page_size'', ''vm.stats.vm.v_page_count'', ''vm.stats.vm.v_active_count'',
                 ''vm.stats.vm.v_wire_count''])
             (ho_run h ''swapinfo'' [''-k'']))"

section \<open>NetBSD, OpenBSD and DragonFly\<close>

definition parseBSDSystemMemory :: "int gomap \<Rightarrow> gval gomap" where
  "parseBSDSystemMemory values =
     (let total_bytes = iget values ''hw.physmem''
      in case (mget values ''vmstat.bytes_per_page'', mget values ''vmstat.pages_active'', mget values ''vmstat.pages_wired'') of
           (Some pagesize, Some active, Some wired) \<Rightarrow>
             if total_bytes \<le> 0 \<or> pagesize \<le> 0 \<or> active < 0 \<or> wired < 0 then []
             else let used = wrap64 (wrap64 (active + wired) * pagesize)
                  in memoryValues (max 0 (wrap64 (total_bytes - used))) used total_bytes
         | _ \<Rightarrow> [])"

definition addVMStatLine :: "int gomap \<Rightarrow> string \<Rightarrow> int gomap" where
  "addVMStatLine values line =
     (let fields = string_fields line
      in if length fields < 3 then values
         else case atoi (fields ! 0) of
                None \<Rightarrow> values
              | Some value \<Rightarrow>
                  if length fields \<ge> 4 \<and> fields ! 1 = ''bytes'' \<and> fields ! 2 = ''per'' \<and> fields ! 3 = ''page''
                  then mput ''vmstat.bytes_per_page'' value values
                  else if fields ! 1 \<noteq> ''pages'' then values
                  else if fields ! 2 = ''active'' then mput ''vmstat.pages_active'' value values
                  else if fields ! 2 = ''wired'' then mput ''vmstat.pages_wired'' value values
                  else values)"

definition parseBSDVMStatCounters :: "string \<Rightarrow> int gomap" where
  "parseBSDVMStatCounters input = foldl addVMStatLine [] (split_on NL input)"

definition parseBSDSwapMemory :: "string \<Rightarrow> gval gomap" where
  "parseBSDSwapMemory input =
     (let fields = string_fields input
      in if length fields < 7 \<or> fields ! 0 \<noteq> ''total:'' then []
         else case (atoi (fields ! 1), atoi (fields ! 4), atoi (fields ! 6)) of
                (Some total_kb, Some used, Some available) \<Rightarrow>
                  memoryValues (wrap64 (available * 1024)) (wrap64 (used * 1024)) (wrap64 (total_kb * 1024))
              | _ \<Rightarrow> [])"

definition parseBSDMemory :: "int gomap \<Rightarrow> string \<Rightarrow> bsdMemoryInfo" where
  "parseBSDMemory sysctlValues swapOutput =
     \<lparr>bm_System = parseBSDSystemMemory sysctlValues, bm_Swap = parseBSDSwapMemory swapOutput\<rparr>"

definition parseDragonFlyMemory :: "int gomap \<Rightarrow> string \<Rightarrow> bsdMemoryInfo" where
  "parseDragonFlyMemory sysctlValues swapOutput =
     \<lparr>bm_System = parseBSDSystemMemory sysctlValues, bm_Swap = parseFreeBSDSwapMemory swapOutput\<rparr>"

section \<open>illumos\<close>

definition parseIllumosKToken :: "string \<Rightarrow> int" where
  "parseIllumosKToken value = (case atoi (trim_suffix value ''k'') of None \<Rightarrow> 0 | Some n \<Rightarrow> n)"

text \<open>The number before the last \<open>used\<close> and the last \<open>available\<close> that have a word before them.\<close>

fun illumosSwapWords :: "string option \<Rightarrow> int \<times> int \<Rightarrow> string list \<Rightarrow> int \<times> int" where
  "illumosSwapWords prev (usedKB, availableKB) [] = (usedKB, availableKB)"
| "illumosSwapWords prev (usedKB, availableKB) (field # rest) =
     illumosSwapWords (Some field)
       (case prev of None \<Rightarrow> (usedKB, availableKB)
        | Some p \<Rightarrow> if field = ''used'' then (parseIllumosKToken p, availableKB)
                  else if field = ''available'' then (usedKB, parseIllumosKToken p)
                  else (usedKB, availableKB)) rest"

definition parseIllumosSwapMemory :: "string \<Rightarrow> gval gomap" where
  "parseIllumosSwapMemory input =
     (let (usedKB, availableKB) = illumosSwapWords None (0, 0) (string_fields (replace_all input '','' []))
      in if usedKB = 0 \<and> availableKB = 0 then []
         else let used = wrap64 (usedKB * 1024); available = wrap64 (availableKB * 1024)
              in memoryValues available used (wrap64 (used + available)))"

definition addKstatLine :: "int gomap \<Rightarrow> string \<Rightarrow> int gomap" where
  "addKstatLine values line =
     (let fields = string_fields line
      in if length fields < 2 then values
         else let key = (case last_index (CHR '':'') (fields ! 0) of None \<Rightarrow> fields ! 0 | Some i \<Rightarrow> drop (Suc i) (fields ! 0))
              in case atoi (fields ! 1) of None \<Rightarrow> values | Some value \<Rightarrow> mput key value values)"

definition parseIllumosKstatInts :: "string \<Rightarrow> int gomap" where
  "parseIllumosKstatInts input = foldl addKstatLine [] (split_on NL input)"

definition parseIllumosMemory :: "string \<Rightarrow> string \<Rightarrow> string \<Rightarrow> bsdMemoryInfo" where
  "parseIllumosMemory kstatOutput pagesizeOutput swapOutput =
     (let pagesize = positiveInt pagesizeOutput; pages = parseIllumosKstatInts kstatOutput
      in \<lparr>bm_System =
            (case (mget pages ''physmem'', mget pages ''freemem'') of
               (Some physmem, Some freemem) \<Rightarrow>
                 if pagesize > 0 \<and> physmem > 0 \<and> freemem \<ge> 0
                 then let total_bytes = wrap64 (physmem * pagesize); available = wrap64 (freemem * pagesize)
                      in memoryValues available (max 0 (wrap64 (total_bytes - available))) total_bytes
                 else []
             | _ \<Rightarrow> []),
          bm_Swap = parseIllumosSwapMemory swapOutput\<rparr>)"

definition probeBSDMemoryInfo :: "hostOS \<Rightarrow> bsdMemoryInfo" where
  "probeBSDMemoryInfo h =
     (let goos = ho_goos h; withCounters = (\<lambda>physmem. foldl (\<lambda>m (k, v). mput k v m) [(''hw.physmem'', physmem)]
                (parseBSDVMStatCounters (ho_run h ''vmstat'' [''-s''])))
      in if goos = ''netbsd'' \<or> goos = ''openbsd'' then
           parseBSDMemory (withCounters (bsdSysctlInt h [''hw.physmem64'', ''hw.physmem''])) (ho_run h ''swapctl'' [''-sk''])
         else if goos = ''dragonfly'' then
           parseDragonFlyMemory (withCounters (bsdSysctlInt h [''hw.physmem''])) (ho_run h ''swapinfo'' [''-k''])
         else if goos = ''illumos'' then
           parseIllumosMemory (ho_run h ''kstat'' [''-p'', ''unix:0:system_pages:physmem'', ''unix:0:system_pages:freemem''])
             (ho_run h ''pagesize'' []) (ho_run h ''swap'' [''-s''])
         else no_bsdMemory)"

section \<open>Linux\<close>

definition probeLinuxMeminfo :: "hostOS \<Rightarrow> string" where
  "probeLinuxMeminfo h = (case ho_readFile h ''/proc/meminfo'' of Inl e \<Rightarrow> [] | Inr s \<Rightarrow> s)"

text \<open>The first line with the key decides.\<close>

definition parseLinuxMeminfoValue :: "string \<Rightarrow> string \<Rightarrow> int" where
  "parseLinuxMeminfoValue input key =
     (case find (\<lambda>line. has_prefix line (key @ '':'')) (split_on NL input) of
        None \<Rightarrow> 0
      | Some line \<Rightarrow>
          (case parse_int (before_cut (before_cut (trim_left (drop (length key + 1) line) [CHR '' '', CHR 0x09]) '' '') [CHR 0x09]) of
             None \<Rightarrow> 0
           | Some kib \<Rightarrow> wrap64 (kib * 1024)))"

definition parseLinuxMeminfoBytes :: "string \<Rightarrow> string \<Rightarrow> int" where
  "parseLinuxMeminfoBytes input key =
     (if key = ''MemAvailable'' then
        (if parseLinuxMeminfoValue input key \<noteq> 0 then parseLinuxMeminfoValue input key
         else wrap64 (parseLinuxMeminfoValue input ''MemFree'' + parseLinuxMeminfoValue input ''Buffers'' +
                parseLinuxMeminfoValue input ''Cached''))
      else parseLinuxMeminfoValue input key)"

section \<open>macOS\<close>

record darwinSwapUsage =
  du_TotalBytes :: int
  du_UsedBytes :: int
  du_AvailableBytes :: int
  du_Encrypted :: bool

definition addVMStatPages :: "int \<times> int \<Rightarrow> string \<Rightarrow> int \<times> int" where
  "addVMStatPages st line =
     (case cut_prefix line ''Mach Virtual Memory Statistics: (page size of '' of
        Some value \<Rightarrow> (atoi_value (trim_space (before_cut value '' bytes)'')), snd st)
      | None \<Rightarrow>
          (case cut_prefix (trim_space line) ''Pages free:'' of
             Some value \<Rightarrow> (fst st, atoi_value (trim_left (trim_right (trim_space value) ''.'') ''.''))
           | None \<Rightarrow> st))"

definition parseDarwinVMStatAvailableBytes :: "string \<Rightarrow> int" where
  "parseDarwinVMStatAvailableBytes input =
     (let (pageSize, freePages) = foldl addVMStatPages (0, 0) (split_on NL input) in wrap64 (pageSize * freePages))"

text \<open>\<open>2048.00M\<close> and the like; without a unit, the number alone.\<close>

definition float_to_int :: "bool \<times> nat \<times> nat \<Rightarrow> nat \<Rightarrow> int" where
  "float_to_int x factor =
     (let (neg, a, b) = x; q = fl_quot a b; n = fl_trunc (fst q * factor, snd q) in if neg \<and> n \<noteq> min_int64 then - n else n)"

definition parseDarwinMemoryAmountBytes :: "string \<Rightarrow> int" where
  "parseDarwinMemoryAmountBytes input =
     (if input = [] then 0
      else case parse_float (butlast input) of
             None \<Rightarrow> 0
           | Some value \<Rightarrow>
               (if last input = CHR ''K'' then float_to_int value 1024
                else if last input = CHR ''M'' then float_to_int value (1024 * 1024)
                else if last input = CHR ''G'' then float_to_int value (1024 * 1024 * 1024)
                else case parse_float input of None \<Rightarrow> 0 | Some parsed \<Rightarrow> float_to_int parsed 1))"

fun darwinSwapWords :: "darwinSwapUsage \<Rightarrow> string list \<Rightarrow> darwinSwapUsage" where
  "darwinSwapWords usage (a # b # c # rest) =
     darwinSwapWords
       (if b \<noteq> ''='' then usage
        else let bytes = parseDarwinMemoryAmountBytes c
             in if a = ''total'' then usage\<lparr>du_TotalBytes := bytes\<rparr>
                else if a = ''used'' then usage\<lparr>du_UsedBytes := bytes\<rparr>
                else if a = ''free'' then usage\<lparr>du_AvailableBytes := bytes\<rparr> else usage)
       (b # c # rest)"
| "darwinSwapWords usage ws = usage"

definition no_darwinSwap :: darwinSwapUsage where
  "no_darwinSwap = \<lparr>du_TotalBytes = 0, du_UsedBytes = 0, du_AvailableBytes = 0, du_Encrypted = False\<rparr>"

definition parseDarwinSwapUsage :: "string \<Rightarrow> darwinSwapUsage" where
  "parseDarwinSwapUsage input =
     darwinSwapWords (no_darwinSwap\<lparr>du_Encrypted := contains input ''(encrypted)''\<rparr>) (string_fields input)"

definition probeDarwinSwapUsage :: "hostOS \<Rightarrow> darwinSwapUsage" where
  "probeDarwinSwapUsage h =
     (if ho_goos h \<noteq> ''darwin'' then no_darwinSwap
      else parseDarwinSwapUsage (ho_run h ''sysctl'' [''-n'', ''vm.swapusage'']))"

section \<open>Plan 9\<close>

fun plan9MemoryLines :: "string list \<Rightarrow> int" where
  "plan9MemoryLines [] = 0"
| "plan9MemoryLines (line # lines) =
     (let fields = string_fields line
      in if length fields \<noteq> 2 \<or> fields ! 1 \<noteq> ''memory'' then plan9MemoryLines lines
         else case atoi (fields ! 0) of
                Some n \<Rightarrow> if n > 0 then n else plan9MemoryLines lines
              | None \<Rightarrow> plan9MemoryLines lines)"

definition parsePlan9SwapMemoryTotal :: "string \<Rightarrow> int" where
  "parsePlan9SwapMemoryTotal input = plan9MemoryLines (split_on NL input)"

definition plan9MemoryCoreFacts :: "int \<Rightarrow> ResolvedFact list" where
  "plan9MemoryCoreFacts totalBytes =
     (if totalBytes \<le> 0 then []
      else [core_fact ''memory.system.total'' (bytesToHumanReadable totalBytes),
            core_fact ''memory.system.total_bytes'' (GInt totalBytes)])"

section \<open>The probes\<close>

definition bsd_like :: "string \<Rightarrow> bool" where
  "bsd_like goos \<longleftrightarrow> goos \<in> set [''netbsd'', ''openbsd'', ''dragonfly'', ''illumos'']"

definition probeTotalPhysicalMemoryBytes :: "hostOS \<Rightarrow> int" where
  "probeTotalPhysicalMemoryBytes h =
     (let goos = ho_goos h
      in if goos = ''darwin'' then
           (case parse_int (trim_space (ho_run h ''sysctl'' [''-n'', ''hw.memsize''])) of None \<Rightarrow> 0 | Some n \<Rightarrow> n)
         else if goos = ''freebsd'' then freeBSDMemoryValue (bm_System (probeFreeBSDMemoryInfo h)) ''total_bytes''
         else if bsd_like goos then freeBSDMemoryValue (bm_System (probeBSDMemoryInfo h)) ''total_bytes''
         else if goos = ''linux'' then parseLinuxMeminfoBytes (probeLinuxMeminfo h) ''MemTotal''
         else if goos = ''windows'' then wm_TotalBytes (probeWindowsMemory h)
         else if goos = ''plan9'' then parsePlan9SwapMemoryTotal (readText ''/dev/swap'' (ho_readFile h))
         else 0)"

definition probeAvailablePhysicalMemoryBytes :: "hostOS \<Rightarrow> int" where
  "probeAvailablePhysicalMemoryBytes h =
     (let goos = ho_goos h
      in if goos = ''darwin'' then
           (let out = ho_run h ''vm_stat'' [] in if out = [] then 0 else parseDarwinVMStatAvailableBytes out)
         else if goos = ''freebsd'' then freeBSDMemoryValue (bm_System (probeFreeBSDMemoryInfo h)) ''available_bytes''
         else if bsd_like goos then freeBSDMemoryValue (bm_System (probeBSDMemoryInfo h)) ''available_bytes''
         else if goos = ''linux'' then parseLinuxMeminfoBytes (probeLinuxMeminfo h) ''MemAvailable''
         else if goos = ''windows'' then wm_AvailableBytes (probeWindowsMemory h)
         else 0)"

definition probeTotalSwapMemoryBytes :: "hostOS \<Rightarrow> int" where
  "probeTotalSwapMemoryBytes h =
     (let goos = ho_goos h
      in if goos = ''darwin'' then du_TotalBytes (probeDarwinSwapUsage h)
         else if goos = ''freebsd'' then freeBSDMemoryValue (bm_Swap (probeFreeBSDMemoryInfo h)) ''total_bytes''
         else if bsd_like goos then freeBSDMemoryValue (bm_Swap (probeBSDMemoryInfo h)) ''total_bytes''
         else if goos = ''linux'' then parseLinuxMeminfoBytes (probeLinuxMeminfo h) ''SwapTotal''
         else 0)"

definition probeAvailableSwapMemoryBytes :: "hostOS \<Rightarrow> int" where
  "probeAvailableSwapMemoryBytes h =
     (let goos = ho_goos h
      in if goos = ''darwin'' then du_AvailableBytes (probeDarwinSwapUsage h)
         else if goos = ''freebsd'' then freeBSDMemoryValue (bm_Swap (probeFreeBSDMemoryInfo h)) ''available_bytes''
         else if bsd_like goos then freeBSDMemoryValue (bm_Swap (probeBSDMemoryInfo h)) ''available_bytes''
         else if goos = ''linux'' then parseLinuxMeminfoBytes (probeLinuxMeminfo h) ''SwapFree''
         else 0)"

definition probeSwapEncrypted :: "hostOS \<Rightarrow> bool" where
  "probeSwapEncrypted h =
     (if ho_goos h = ''darwin'' then du_Encrypted (probeDarwinSwapUsage h)
      else if ho_goos h = ''freebsd''
      then (case mget (bm_Swap (probeFreeBSDMemoryInfo h)) ''encrypted'' of Some (GBool b) \<Rightarrow> b | _ \<Rightarrow> False)
      else False)"

section \<open>The memory facts\<close>

record memorySwapFactValues =
  sv_available :: gval
  sv_availableBytes :: gval
  sv_capacity :: gval
  sv_total :: gval
  sv_totalBytes :: gval
  sv_used :: gval
  sv_usedBytes :: gval

definition memorySwapValues :: "int \<Rightarrow> int \<Rightarrow> memorySwapFactValues" where
  "memorySwapValues totalBytes availableBytes =
     (if totalBytes \<le> 0
      then \<lparr>sv_available = GNil, sv_availableBytes = GNil, sv_capacity = GNil, sv_total = GNil, sv_totalBytes = GNil,
            sv_used = GNil, sv_usedBytes = GNil\<rparr>
      else let usedBytes = max 0 (wrap64 (totalBytes - availableBytes))
           in \<lparr>sv_available = bytesToHumanReadable availableBytes, sv_availableBytes = GInt availableBytes,
               sv_capacity = GStr (memoryCapacity usedBytes totalBytes),
               sv_total = bytesToHumanReadable totalBytes, sv_totalBytes = GInt totalBytes,
               sv_used = bytesToHumanReadable usedBytes, sv_usedBytes = GInt usedBytes\<rparr>)"

definition memoryCoreFacts :: "hostOS \<Rightarrow> ResolvedFact list" where
  "memoryCoreFacts h =
     (let memoryTotalBytes = probeTotalPhysicalMemoryBytes h
      in if ho_goos h = ''plan9'' then plan9MemoryCoreFacts memoryTotalBytes
         else let memoryAvailableBytes = probeAvailablePhysicalMemoryBytes h;
                  memoryUsedBytes = max 0 (wrap64 (memoryTotalBytes - memoryAvailableBytes));
                  swapMemory = memorySwapValues (probeTotalSwapMemoryBytes h) (probeAvailableSwapMemoryBytes h);
                  swapEncrypted = (if sv_totalBytes swapMemory \<noteq> GNil then GBool (probeSwapEncrypted h) else GNil)
              in [core_fact ''memory.system.available'' (bytesToHumanReadable memoryAvailableBytes),
                  core_fact ''memory.system.available_bytes'' (GInt memoryAvailableBytes),
                  core_fact ''memory.system.capacity'' (GStr (memoryCapacity memoryUsedBytes memoryTotalBytes)),
                  core_fact ''memory.system.total'' (bytesToHumanReadable memoryTotalBytes),
                  core_fact ''memory.system.total_bytes'' (GInt memoryTotalBytes),
                  core_fact ''memory.system.used'' (bytesToHumanReadable memoryUsedBytes),
                  core_fact ''memory.system.used_bytes'' (GInt memoryUsedBytes),
                  core_fact ''memory.swap.available'' (sv_available swapMemory),
                  core_fact ''memory.swap.available_bytes'' (sv_availableBytes swapMemory),
                  core_fact ''memory.swap.capacity'' (sv_capacity swapMemory),
                  core_fact ''memory.swap.encrypted'' swapEncrypted,
                  core_fact ''memory.swap.total'' (sv_total swapMemory),
                  core_fact ''memory.swap.total_bytes'' (sv_totalBytes swapMemory),
                  core_fact ''memory.swap.used'' (sv_used swapMemory),
                  core_fact ''memory.swap.used_bytes'' (sv_usedBytes swapMemory)])"

lemma char_of_48: "char_of (48 :: nat) = CHR ''0''"
  by code_simp

section \<open>Properties\<close>

text \<open>The capacity of memory or swap, computed from a total and what is available of it, is a
  percentage between 0.00% and 100.00%, whatever the three roundings of its double
  arithmetic do.\<close>

lemma memoryCapacity_at_most_100:
  assumes "0 \<le> available" "in_int64 available" "in_int64 total_bytes"
  shows "\<exists>h \<le> 10000. memoryCapacity (max 0 (wrap64 (total_bytes - available))) total_bytes = two_decimals h @ ''%''"
proof (cases "total_bytes \<le> 0 \<or> max 0 (wrap64 (total_bytes - available)) \<le> 0")
  case True
  then have "memoryCapacity (max 0 (wrap64 (total_bytes - available))) total_bytes = two_decimals 0 @ ''%''"
    by (auto simp: memoryCapacity_def two_decimals_def itoa_def itoa_nat.simps char_of_48)
  then show ?thesis by blast
next
  case False
  have "wrap64 (total_bytes - available) \<le> total_bytes"
    using assms False by (subst wrap64_id) (auto simp: in_int64_def)
  then show ?thesis
    using percentText_le_100 [of "wrap64 (total_bytes - available)" total_bytes] False by (auto simp: memoryCapacity_def max_def)
qed

lemma memoryCapacity_at_most_100_witness:
  "\<exists>h \<le> 10000. memoryCapacity (max 0 (wrap64 (8192 - 1024))) 8192 = two_decimals h @ ''%''"
  by (rule memoryCapacity_at_most_100) (simp_all add: in_int64_def)

text \<open>Without swap the whole \<open>memory.swap\<close> subtree is nil, encryption included; with swap, the byte
  counts are numbers and what is used and what is available make up the total.\<close>

lemma memorySwapValues_split:
  "case memorySwapValues totalBytes availableBytes of v \<Rightarrow>
     if totalBytes \<le> 0 then list_all (\<lambda>f. f v = GNil) [sv_available, sv_availableBytes, sv_capacity, sv_total, sv_totalBytes, sv_used, sv_usedBytes]
     else if 0 \<le> availableBytes \<and> availableBytes \<le> totalBytes \<and> totalBytes \<le> max_int64
     then \<exists>used. sv_usedBytes v = GInt used \<and> sv_availableBytes v = GInt availableBytes \<and>
            sv_totalBytes v = GInt (used + availableBytes) \<and> 0 \<le> used
     else sv_totalBytes v = GInt totalBytes"
  by (auto simp: memorySwapValues_def Let_def wrap64_id in_int64_def)

end
