(* ===== verification/Os_Release.thy ===== *)
theory Os_Release
  imports Host_Session Go_Regexp Platform_Profile
begin

text \<open>
  The release half of \<open>internal/engine/os.go\<close>, with \<open>factsutil.go\<close>: the version maps, the files that name a
  Linux distribution and its release, and the kernel and Windows versions. A version map that
  the code leaves nil is the empty map; none it builds is empty.
\<close>

section \<open>Version maps\<close>

definition majorVersion :: "string \<Rightarrow> string" where
  "majorVersion version = before_cut version ''.''"

definition releaseMap :: "string \<Rightarrow> gval gomap" where
  "releaseMap full =
     (if full = [] then []
      else [(''full'', GStr full), (''major'', GStr (majorVersion full))] @
           (case cut full ''.'' of None \<Rightarrow> [] | Some (_, minor) \<Rightarrow> [(''minor'', GStr minor)]))"

definition releaseStringMap :: "string \<Rightarrow> gval gomap" where
  "releaseStringMap full =
     (if full = [] then []
      else let parts = split_on DOT full
           in [(''full'', GStr full), (''major'', GStr (hd parts))] @
              (if length parts > 1 then [(''minor'', GStr (parts ! 1))] else []))"

definition releaseHashFromString :: "string \<Rightarrow> bool \<Rightarrow> gval gomap" where
  "releaseHashFromString version includePatch =
     (if version = [] then []
      else let parts = split_on DOT version
           in [(''full'', GStr version), (''major'', GStr (hd parts))] @
              (if length parts > 1 \<and> parts ! 1 \<noteq> [] then [(''minor'', GStr (parts ! 1))] else []) @
              (if includePatch \<and> length parts > 2 \<and> parts ! 2 \<noteq> [] then [(''patch'', GStr (parts ! 2))] else []))"

definition debianReleaseMap :: "string \<Rightarrow> gval gomap" where
  "debianReleaseMap full0 =
     (let full = (if contains full0 ''.'' then full0 else full0 @ ''.0''); release = releaseMap full
      in case mget release ''minor'' of
           Some (GStr (c # d # m)) \<Rightarrow>
             if c = CHR ''0'' \<and> CHR ''1'' \<le> d \<and> d \<le> CHR ''9'' then mput ''minor'' (GStr (d # m)) release else release
         | _ \<Rightarrow> release)"

definition ubuntuReleaseMap :: "string \<Rightarrow> gval gomap" where
  "ubuntuReleaseMap full = (if full = [] then [] else [(''full'', GStr full), (''major'', GStr full)])"

definition slesReleaseMap :: "string \<Rightarrow> gval gomap" where
  "slesReleaseMap full =
     (let release = releaseMap full
      in if release \<noteq> [] \<and> mget release ''minor'' = None then mput ''minor'' GNil release else release)"

definition linuxDistroReleaseMap :: "string \<Rightarrow> string \<Rightarrow> gval gomap" where
  "linuxDistroReleaseMap ident full =
     (if equal_fold ident ''ubuntu'' then ubuntuReleaseMap full
      else if equal_fold ident ''sles'' then slesReleaseMap full
      else if equal_fold ident ''debian'' then debianReleaseMap full
      else releaseMap full)"

definition linuxOSReleaseMap :: "string \<Rightarrow> string \<Rightarrow> gval gomap" where
  "linuxOSReleaseMap ident full =
     (if full = [] then []
      else if equal_fold ident ''debian'' then debianReleaseMap full
      else if to_lower ident \<in> set [''mariner'', ''azurelinux'', ''linuxmint'', ''gentoo'', ''mageia'', ''nixos'', ''rocky'', ''almalinux'']
      then releaseHashFromString full False
      else [(''full'', GStr full), (''major'', GStr full)])"

section \<open>Values of os-release\<close>

definition hex_value_of :: "char \<Rightarrow> nat option" where
  "hex_value_of c =
     (if is_digit c then Some (code_of c - 48)
      else if 97 \<le> code_of c \<and> code_of c \<le> 102 then Some (code_of c - 87)
      else if 65 \<le> code_of c \<and> code_of c \<le> 70 then Some (code_of c - 55) else None)"

fun hex_prefix :: "nat \<Rightarrow> nat \<Rightarrow> string \<Rightarrow> (nat \<times> string) option" where
  "hex_prefix 0 acc s = Some (acc, s)"
| "hex_prefix (Suc k) acc [] = None"
| "hex_prefix (Suc k) acc (c # cs) =
     (case hex_value_of c of None \<Rightarrow> None | Some v \<Rightarrow> hex_prefix k (16 * acc + v) cs)"

definition utf8_encode :: "nat \<Rightarrow> string" where
  "utf8_encode n =
     (if n < 0x80 then [char_of n]
      else if n < 0x800 then [char_of (0xC0 + n div 64), char_of (0x80 + n mod 64)]
      else if n < 0x10000 then [char_of (0xE0 + n div 4096), char_of (0x80 + n div 64 mod 64), char_of (0x80 + n mod 64)]
      else [char_of (0xF0 + n div 262144), char_of (0x80 + n div 4096 mod 64), char_of (0x80 + n div 64 mod 64),
            char_of (0x80 + n mod 64)])"

definition valid_rune :: "nat \<Rightarrow> bool" where
  "valid_rune n \<longleftrightarrow> n < 0xD800 \<or> (0xE000 \<le> n \<and> n < 0x110000)"

definition is_octal :: "char \<Rightarrow> bool" where
  "is_octal c \<longleftrightarrow> 48 \<le> code_of c \<and> code_of c \<le> 55"

text \<open>What follows a backslash between double quotes: the bytes it stands for and the rest.\<close>

definition unquote_escape :: "string \<Rightarrow> (string \<times> string) option" where
  "unquote_escape s =
     (case s of [] \<Rightarrow> None
      | c # cs \<Rightarrow>
          if c = CHR ''a'' then Some ([char_of (7 :: nat)], cs) else if c = CHR ''b'' then Some ([char_of (8 :: nat)], cs)
          else if c = CHR ''f'' then Some ([char_of (12 :: nat)], cs) else if c = CHR ''n'' then Some ([NL], cs)
          else if c = CHR ''r'' then Some ([char_of (13 :: nat)], cs) else if c = CHR ''t'' then Some ([char_of (9 :: nat)], cs)
          else if c = CHR ''v'' then Some ([char_of (11 :: nat)], cs)
          else if c = CHR ''x'' then map_option (\<lambda>(v, r). ([char_of v], r)) (hex_prefix 2 0 cs)
          else if c = CHR ''u'' \<or> c = CHR ''U'' then
            (case hex_prefix (if c = CHR ''u'' then 4 else 8) 0 cs of None \<Rightarrow> None
             | Some (v, r) \<Rightarrow> if valid_rune v then Some (utf8_encode v, r) else None)
          else if is_octal c then
            (case cs of d # e # r \<Rightarrow>
               if is_octal d \<and> is_octal e
               then let v = 64 * (code_of c - 48) + 8 * (code_of d - 48) + (code_of e - 48)
                    in if v > 255 then None else Some ([char_of v], r)
               else None
             | _ \<Rightarrow> None)
          else if c = BSLASH \<or> c = DQUOTE then Some ([c], cs) else None)"

fun unquote_chars :: "nat \<Rightarrow> string \<Rightarrow> string option" where
  "unquote_chars n [] = Some []"
| "unquote_chars 0 (c # cs) = None"
| "unquote_chars (Suc n) (c # cs) =
     (if c = DQUOTE \<or> c = NL then None
      else if c \<noteq> BSLASH then map_option (Cons c) (unquote_chars n cs)
      else case unquote_escape cs of None \<Rightarrow> None
           | Some (out, rest) \<Rightarrow> map_option (append out) (unquote_chars n rest))"

text \<open>\<open>strconv.Unquote\<close> of a text between double quotes: each step takes a character, so the length is
  fuel enough.\<close>

definition unquote_double :: "string \<Rightarrow> string option" where
  "unquote_double s = (let body = butlast (tl s) in unquote_chars (length body) body)"

definition trim_both :: "string \<Rightarrow> string \<Rightarrow> string" where
  "trim_both s cs = trim_right (trim_left s cs) cs"

definition parseOSReleaseValue :: "string \<Rightarrow> string" where
  "parseOSReleaseValue value0 =
     (let value = trim_space value0
      in if length value < 2 then value
         else if hd value \<noteq> DQUOTE \<or> last value \<noteq> DQUOTE then trim_both value [SQUOTE]
         else case unquote_double value of None \<Rightarrow> trim_both value [DQUOTE] | Some s \<Rightarrow> s)"

text \<open>The assignments of the file, in order.\<close>

definition osReleaseAssignments :: "string \<Rightarrow> (string \<times> string) list" where
  "osReleaseAssignments input =
     concat (map (\<lambda>line. case cut line ''='' of None \<Rightarrow> [] | Some (key, value) \<Rightarrow> [(key, parseOSReleaseValue value)])
       (split_on NL input))"

definition last_value :: "(string \<times> string) list \<Rightarrow> string \<Rightarrow> string" where
  "last_value kvs key = foldl (\<lambda>v (k, x). if k = key then x else v) [] kvs"

definition linuxOSReleaseID :: "string \<Rightarrow> string" where
  "linuxOSReleaseID input =
     (case find (\<lambda>kv. fst kv = ''ID'') (osReleaseAssignments input) of None \<Rightarrow> [] | Some kv \<Rightarrow> snd kv)"

definition parseLinuxOSRelease :: "string \<Rightarrow> gval gomap" where
  "parseLinuxOSRelease input =
     (let kvs = osReleaseAssignments input; ident = last_value kvs ''ID''; versionID = last_value kvs ''VERSION_ID''
      in if versionID = [] then [] else linuxOSReleaseMap ident versionID)"

section \<open>Patterns\<close>

definition rx_version :: rx where "rx_version = many1 (Chars (\<lambda>c. is_digit c \<or> c = DOT))"
definition digits1 :: rx where "digits1 = many1 rx_digit"
definition digit_version :: rx where "digit_version = Cat rx_digit (Many (Chars (\<lambda>c. is_digit c \<or> c = DOT)))"
definition dot_digits :: rx where "dot_digits = Cat (chr DOT) digits1"

definition linuxKernelVersionPattern :: rx where
  "linuxKernelVersionPattern = cats [TextStart, digits1, maybe (Cat dot_digits (maybe dot_digits))]"
definition bsdKernelVersionPattern :: rx where
  "bsdKernelVersionPattern = cats [TextStart, digits1, maybe dot_digits]"
definition kernelReleaseLeadingNumeric :: rx where
  "kernelReleaseLeadingNumeric = cats [TextStart, digits1, Many dot_digits]"
definition mageiaReleasePattern :: rx where
  "mageiaReleasePattern = cats [lit ''Mageia release '', Grp 1 rx_version]"
definition openWrtReleasePattern :: rx where
  "openWrtReleasePattern = cats [TextStart, Grp 1 (cats [digits1, dot_digits, Many rx_any])]"
definition gentooReleasePattern :: rx where
  "gentooReleasePattern = cats [lit ''release '', Grp 1 digit_version]"
definition slackwareReleasePattern :: rx where
  "slackwareReleasePattern = cats [lit ''Slackware '', Grp 1 rx_version]"
definition amazonReleasePattern :: rx where
  "amazonReleasePattern = cats [Or (lit ''release '') (lit ''Amazon Linux ''), Grp 1 digit_version]"
definition photonReleasePattern :: rx where
  "photonReleasePattern =
     cats [lit ''DISTRIB_RELEASE='', chr DQUOTE, Grp 1 digits1, chr DOT, Grp 2 digits1]"
definition marinerReleasePattern :: rx where
  "marinerReleasePattern = cats [lit ''CBL-Mariner '', Grp 1 rx_version]"
definition azureLinuxReleasePattern :: rx where
  "azureLinuxReleasePattern = cats [lit ''AZURELINUX_BUILD_NUMBER='', Grp 1 rx_version]"
definition linuxMintReleasePattern :: rx where
  "linuxMintReleasePattern = cats [LineStart, lit ''RELEASE='', Grp 1 digits1]"
definition firstLineReleasePattern :: rx where
  "firstLineReleasePattern = cats [lit ''release'', many1 rx_space, Grp 1 rx_version]"
definition linuxDistroVersionWordsRE :: rx where
  "linuxDistroVersionWordsRE =
     (let word = many1 (Chars (\<lambda>c. is_upper c \<or> is_lower c)) in cats [word, rx_space, word])"
definition linuxI386ArchitectureRE :: rx where
  "linuxI386ArchitectureRE =
     cats [TextStart, Or (cats [chr (CHR ''i''), one_of ''3456'', lit ''86'']) (lit ''pentium''), TextEnd]"

definition capture_group :: "rx \<Rightarrow> string \<Rightarrow> nat \<Rightarrow> string option" where
  "capture_group r s n = map_option (\<lambda>m. grp m n) (FindSubmatch r s)"

section \<open>The release files\<close>

definition fileRelease :: "(string \<Rightarrow> goerror + string) \<Rightarrow> string \<Rightarrow> (string \<Rightarrow> gval gomap) \<Rightarrow> gval gomap" where
  "fileRelease readFile path f = (case readFile path of Inl e \<Rightarrow> [] | Inr data \<Rightarrow> f data)"

definition matchedRelease ::
  "(string \<Rightarrow> goerror + string) \<Rightarrow> string \<Rightarrow> rx \<Rightarrow> (string \<Rightarrow> gval gomap) \<Rightarrow> gval gomap" where
  "matchedRelease readFile path r f =
     fileRelease readFile path (\<lambda>data. case capture_group r (trim_space data) 1 of None \<Rightarrow> [] | Some v \<Rightarrow> f v)"

definition releaseFromFirstLine :: "string \<Rightarrow> string" where
  "releaseFromFirstLine input =
     (let line = trim_space (hd (split_on NL input))
      in if contains line ''Rawhide'' then ''Rawhide''
         else case capture_group amazonReleasePattern line 1 of Some v \<Rightarrow> v
              | None \<Rightarrow> (case capture_group firstLineReleasePattern line 1 of Some v \<Rightarrow> v | None \<Rightarrow> []))"

definition amazonOSReleaseRPMVersion :: "(string \<Rightarrow> string list \<Rightarrow> string) \<Rightarrow> string" where
  "amazonOSReleaseRPMVersion run =
     (let lines = split_on NL (trim_space (run ''rpm''
            [''-q'', ''--qf'', ''%{NAME}'' @ [NL] @ ''%{VERSION}'' @ [NL] @ ''%{RELEASE}'' @ [NL] @ ''%{VENDOR}'', ''-f'',
             ''/etc/os-release'']))
      in if length lines < 2 \<or> trim_space (hd lines) \<noteq> ''system-release'' then [] else trim_space (lines ! 1))"

definition specificLinuxOSRelease ::
  "string \<Rightarrow> (string \<Rightarrow> goerror + string) \<Rightarrow> (string \<Rightarrow> string list \<Rightarrow> string) \<Rightarrow> gval gomap" where
  "specificLinuxOSRelease ident readFile run =
     (let name = to_lower ident; plain = (\<lambda>v. releaseHashFromString v False)
      in if name = ''mageia'' then matchedRelease readFile ''/etc/mageia-release'' mageiaReleasePattern releaseMap
         else if name = ''openwrt'' then matchedRelease readFile ''/etc/openwrt_version'' openWrtReleasePattern releaseMap
         else if name = ''gentoo'' then matchedRelease readFile ''/etc/gentoo-release'' gentooReleasePattern releaseMap
         else if name = ''alpine'' then fileRelease readFile ''/etc/alpine-release'' (\<lambda>data. releaseStringMap (trim_space data))
         else if name = ''slackware'' then matchedRelease readFile ''/etc/slackware-version'' slackwareReleasePattern releaseMap
         else if name = ''amzn'' \<or> name = ''amazon'' then
           matchedRelease readFile ''/etc/system-release'' amazonReleasePattern
             (\<lambda>v. let version = amazonOSReleaseRPMVersion run
                  in if v = ''2023'' \<and> version \<noteq> [] then plain version else plain v)
         else if name = ''photon'' then
           fileRelease readFile ''/etc/lsb-release''
             (\<lambda>data. case FindSubmatch photonReleasePattern (trim_space data) of None \<Rightarrow> []
                | Some m \<Rightarrow> plain (grp m 1 @ ''.'' @ grp m 2))
         else if name = ''mariner'' then matchedRelease readFile ''/etc/mariner-release'' marinerReleasePattern plain
         else if name = ''azurelinux'' then matchedRelease readFile ''/etc/azurelinux-release'' azureLinuxReleasePattern plain
         else if name = ''linuxmint'' then
           fileRelease readFile ''/etc/linuxmint/info''
             (\<lambda>data. case capture_group linuxMintReleasePattern data 1 of None \<Rightarrow> [] | Some v \<Rightarrow> plain v)
         else if name = ''devuan'' then fileRelease readFile ''/etc/devuan_version'' (\<lambda>data. plain (trim_space data))
         else if name = ''meego'' then fileRelease readFile ''/etc/meego-release'' (\<lambda>data. plain (trim_space data))
         else if name = ''ovs'' then fileRelease readFile ''/etc/ovs-release'' (\<lambda>data. plain (releaseFromFirstLine data))
         else if name = ''eos'' then
           fileRelease readFile ''/etc/Eos-release''
             (\<lambda>data. case cut (trim_space data) '' '' of None \<Rightarrow> [] | Some (_, version) \<Rightarrow> plain (trim_space version))
         else if name = ''oel'' \<or> name = ''ol'' then
           matchedRelease readFile (if equal_fold ident ''ol'' then ''/etc/oracle-release'' else ''/etc/enterprise-release'')
             firstLineReleasePattern plain
         else if name = ''debian'' then fileRelease readFile ''/etc/debian_version'' (\<lambda>data. releaseMap (trim_space data))
         else [])"

end
