(* ===== verification/Os_Facts.thy ===== *)
theory Os_Facts
  imports Os_Release
begin

text \<open>
  The facts half of \<open>internal/engine/os.go\<close>: the Linux distribution, the kernel, the Windows release and
  product, the macOS reports, file systems, and the facts of the os category.
\<close>

section \<open>Architecture and kernel\<close>

definition windowsHardwareFromGoArch :: "string \<Rightarrow> string" where
  "windowsHardwareFromGoArch goarch =
     (if goarch = ''amd64'' then ''x86_64'' else if goarch = ''386'' then ''i686''
      else if goarch = ''arm'' \<or> goarch = ''arm64'' then ''arm'' else goarch)"

definition windowsArchitectureFromHardware :: "string \<Rightarrow> string" where
  "windowsArchitectureFromHardware hardware =
     (if has_prefix hardware ''i'' \<and> has_suffix hardware ''86'' then ''x86''
      else if hardware = ''x86_64'' then ''x64'' else hardware)"

definition architectureName :: "hostOS \<Rightarrow> string \<Rightarrow> string" where
  "architectureName h machine =
     (if machine = [] then rt_GOARCH (ho_runtime h)
      else if ho_goos h = ''windows'' then windowsArchitectureFromHardware machine
      else if ho_goos h = ''linux'' \<and> MatchString linuxI386ArchitectureRE machine then ''i386''
      else machine)"

definition plan9CleanString :: "string \<Rightarrow> string" where
  "plan9CleanString input = trim_space (replace_all input [NUL] [])"

definition plan9EnvValue :: "string \<Rightarrow> (string \<Rightarrow> goerror + string) \<Rightarrow> string" where
  "plan9EnvValue path readFile = (case readFile path of Inl e \<Rightarrow> [] | Inr data \<Rightarrow> plan9CleanString data)"

definition plan9Architecture :: "(string \<Rightarrow> goerror + string) \<Rightarrow> string \<Rightarrow> string" where
  "plan9Architecture readFile fallback =
     (let architecture = plan9EnvValue ''/env/objtype'' readFile in if architecture \<noteq> [] then architecture else fallback)"

definition probeHardwareModel :: "hostOS \<Rightarrow> string" where
  "probeHardwareModel h =
     (let goarch = rt_GOARCH (ho_runtime h)
      in if ho_goos h = ''windows'' then windowsHardwareFromGoArch goarch
         else if ho_goos h = ''plan9'' then plan9Architecture (ho_readFile h) goarch
         else let out = ho_run h ''uname'' [''-m''] in if out = [] then goarch else trim_space out)"

definition probeArchitectureName :: "hostOS \<Rightarrow> string" where
  "probeArchitectureName h = architectureName h (probeHardwareModel h)"

definition probeKernelRelease :: "hostOS \<Rightarrow> string" where
  "probeKernelRelease h = (if ho_goos h = ''plan9'' then [] else trim_space (ho_run h ''uname'' [''-r'']))"

definition kernelVersionFact :: "string \<Rightarrow> string \<Rightarrow> string" where
  "kernelVersionFact goos kernelRelease =
     (let linux = FindString linuxKernelVersionPattern kernelRelease; bsd = FindString bsdKernelVersionPattern kernelRelease
      in if goos = ''linux'' \<and> linux \<noteq> [] then linux
         else if goos \<in> set [''freebsd'', ''openbsd'', ''netbsd'', ''dragonfly''] \<and> bsd \<noteq> [] then bsd
         else if goos = ''darwin'' then kernelRelease
         else majorVersion kernelRelease)"

text \<open>The numeric components; the last one only where there are three.\<close>

definition kernelReleaseComponents :: "string \<Rightarrow> string \<times> string \<times> string option" where
  "kernelReleaseComponents kernelRelease =
     (let numeric = FindString kernelReleaseLeadingNumeric kernelRelease
      in if numeric = [] then ([], [], None)
         else let parts = split_on DOT numeric
              in (hd parts, if length parts > 1 then parts ! 1 else [], if length parts > 2 then Some (parts ! 2) else None))"

definition kernelFacts :: "string \<Rightarrow> string \<Rightarrow> string \<Rightarrow> ResolvedFact list" where
  "kernelFacts name release version =
     (let (major, minor, patch) = kernelReleaseComponents release
      in [core_fact ''kernel.name'' (GStr name), core_fact ''kernel.release.full'' (GStr release),
          core_fact ''kernel.version.full'' (GStr version)] @
         (if major \<noteq> [] then [core_fact ''kernel.release.major'' (GStr major)] else []) @
         (if minor \<noteq> [] then [core_fact ''kernel.release.minor'' (GStr minor)] else []) @
         (case patch of None \<Rightarrow> [] | Some p \<Rightarrow> [core_fact ''kernel.release.patch'' (GStr p)]))"

section \<open>Windows\<close>

record windowsOSVersionInfo =
  wv_Description :: string
  wv_ProductType :: string
  wv_Version :: string
  wv_MajorMinor :: string

text \<open>The text before the second dot.\<close>

definition majorMinorOf :: "string \<Rightarrow> string" where
  "majorMinorOf version =
     (case cut version ''.'' of None \<Rightarrow> version
      | Some (a, rest) \<Rightarrow> (case cut rest ''.'' of None \<Rightarrow> version | Some (b, _) \<Rightarrow> a @ ''.'' @ b))"

definition parseWindowsOSVersionInfo :: "string \<Rightarrow> windowsOSVersionInfo" where
  "parseWindowsOSVersionInfo input =
     (let values = parseWindowsWMIValues input; version = sget values ''Version''
      in \<lparr>wv_Description = sget values ''OtherTypeDescription'', wv_ProductType = sget values ''ProductType'',
          wv_Version = version, wv_MajorMinor = majorMinorOf version\<rparr>)"

definition currentWindowsKernel :: "string \<Rightarrow> (string \<times> string \<times> string) option" where
  "currentWindowsKernel input =
     (let info = parseWindowsOSVersionInfo input
      in if wv_Version info = [] then None else Some (''windows'', wv_Version info, wv_Version info))"

definition windows10Release :: "bool \<Rightarrow> string \<Rightarrow> string" where
  "windows10Release consumer kernelVersion =
     (let parts = split_on DOT (trim_space kernelVersion);
          build = atoi_value (if length parts = 1 then [] else last parts)
      in if consumer then (if build \<ge> 22000 then ''11'' else ''10'')
         else if build \<ge> 26100 then ''2025'' else if build \<ge> 20348 then ''2022''
         else if build \<ge> 17623 then ''2019'' else ''2016'')"

definition windows6Release :: "string \<Rightarrow> bool \<Rightarrow> string" where
  "windows6Release version consumer =
     (if consumer
      then (if version = ''6.3'' then ''8.1'' else if version = ''6.2'' then ''8'' else if version = ''6.1'' then ''7''
            else if version = ''6.0'' then ''Vista'' else [])
      else (if version = ''6.3'' then ''2012 R2'' else if version = ''6.2'' then ''2012''
            else if version = ''6.1'' then ''2008 R2'' else if version = ''6.0'' then ''2008'' else []))"

definition windowsRelease :: "string \<Rightarrow> bool \<Rightarrow> string \<Rightarrow> string \<Rightarrow> string" where
  "windowsRelease version consumer description kernelVersion =
     (if version = [] then []
      else if contains version ''10.0'' then windows10Release consumer kernelVersion
      else if windows6Release version consumer \<noteq> [] then windows6Release version consumer
      else if contains version ''5.2''
      then (if consumer then ''XP'' else if description = ''R2'' then ''2003 R2'' else ''2003'')
      else version)"

definition currentWindowsOSRelease :: "string \<Rightarrow> gval gomap" where
  "currentWindowsOSRelease input =
     (let info = parseWindowsOSVersionInfo input
      in if wv_Version info = [] then []
         else let release = windowsRelease (wv_MajorMinor info) (wv_ProductType info = ''1'') (wv_Description info) (wv_Version info)
              in if release = [] then [] else [(''full'', GStr release), (''major'', GStr release)])"

definition probeWindowsOSVersionInput :: "hostOS \<Rightarrow> string" where
  "probeWindowsOSVersionInput h =
     (if ho_goos h \<noteq> ''windows'' then []
      else windowsWMIOutput (ho_run h) ''os'' ''OtherTypeDescription,ProductType,Version'')"

definition currentWindowsSystem32 :: "string \<Rightarrow> string \<Rightarrow> bool \<times> bool \<Rightarrow> string" where
  "currentWindowsSystem32 goos systemRoot isWOW64 =
     (if goos \<noteq> ''windows'' \<or> systemRoot = [] then []
      else let (wow64, ok) = isWOW64
           in if \<not> ok then [] else if wow64 then systemRoot @ BSLASH # ''sysnative'' else systemRoot @ BSLASH # ''system32'')"

definition windowsSystem32Facts :: "string \<Rightarrow> ResolvedFact list" where
  "windowsSystem32Facts path = (if path = [] then [] else [core_fact ''os.windows.system32'' (GStr path)])"

record windowsProductRelease =
  wp_EditionID :: string
  wp_InstallationType :: string
  wp_ProductName :: string
  wp_ReleaseID :: string
  wp_DisplayVersion :: string

definition addRegSZ :: "string gomap \<Rightarrow> string \<Rightarrow> string gomap" where
  "addRegSZ values line =
     (let ws = string_fields (trim_space line)
      in if length ws < 3 \<or> ws ! 1 \<noteq> ''REG_SZ'' then values else mput (hd ws) (join '' '' (drop 2 ws)) values)"

definition parseWindowsProductRelease :: "string \<Rightarrow> windowsProductRelease" where
  "parseWindowsProductRelease input =
     (let values = foldl addRegSZ [] (split_on NL input); display = sget values ''DisplayVersion''
      in \<lparr>wp_EditionID = sget values ''EditionID'', wp_InstallationType = sget values ''InstallationType'',
          wp_ProductName = sget values ''ProductName'',
          wp_ReleaseID = (if display \<noteq> [] then display else sget values ''ReleaseId''), wp_DisplayVersion = display\<rparr>)"

definition currentWindowsProductRelease :: "string \<Rightarrow> (string \<Rightarrow> string list \<Rightarrow> string) \<Rightarrow> windowsProductRelease" where
  "currentWindowsProductRelease goos run =
     (if goos \<noteq> ''windows''
      then \<lparr>wp_EditionID = [], wp_InstallationType = [], wp_ProductName = [], wp_ReleaseID = [], wp_DisplayVersion = []\<rparr>
      else parseWindowsProductRelease
             (run ''reg'' [''query'', ''HKLM'' @ BSLASH # ''SOFTWARE'' @ BSLASH # ''Microsoft'' @ BSLASH # ''Windows NT'' @ BSLASH # ''CurrentVersion'']))"

text \<open>A table of facts without its empty values.\<close>

definition stringFacts :: "(string \<times> string) list \<Rightarrow> ResolvedFact list" where
  "stringFacts table = map (\<lambda>(name, v). core_fact name (GStr v)) (filter (\<lambda>(name, v). v \<noteq> []) table)"

definition windowsProductReleaseFacts :: "windowsProductRelease \<Rightarrow> ResolvedFact list" where
  "windowsProductReleaseFacts release =
     stringFacts [(''os.windows.edition_id'', wp_EditionID release), (''os.windows.installation_type'', wp_InstallationType release),
       (''os.windows.product_name'', wp_ProductName release), (''os.windows.release_id'', wp_ReleaseID release),
       (''os.windows.display_version'', wp_DisplayVersion release)]"

section \<open>FreeBSD, the other BSDs and illumos\<close>

record freeBSDVersions =
  fv_InstalledKernel :: string
  fv_RunningKernel :: string
  fv_InstalledUserland :: string

definition parseFreeBSDVersions :: "string \<Rightarrow> string \<Rightarrow> freeBSDVersions" where
  "parseFreeBSDVersions installedKernelOutput runningAndUserlandOutput =
     (let lines = split_on NL (trim_space runningAndUserlandOutput)
      in \<lparr>fv_InstalledKernel = trim_space installedKernelOutput, fv_RunningKernel = trim_space (hd lines),
          fv_InstalledUserland = (if length lines > 1 then trim_space (lines ! 1) else [])\<rparr>)"

definition after_cut :: "string \<Rightarrow> string \<Rightarrow> string" where
  "after_cut s sep = (case cut s sep of None \<Rightarrow> [] | Some (_, b) \<Rightarrow> b)"

definition parseFreeBSDOSRelease :: "string \<Rightarrow> gval gomap" where
  "parseFreeBSDOSRelease installedUserland0 =
     (let installedUserland = trim_space installedUserland0;
          version = before_cut installedUserland ''-''; branch = after_cut installedUserland ''-'';
          major = before_cut version ''.''; minor = after_cut version ''.''
      in [(''full'', GStr installedUserland), (''major'', GStr major), (''branch'', GStr branch)] @
         (if minor \<noteq> [] then [(''minor'', GStr minor)] else []) @
         (case cut branch ''-p'' of None \<Rightarrow> [] | Some (_, patchlevel) \<Rightarrow> [(''patchlevel'', GStr patchlevel)]))"

definition parseOpenBSDOSRelease :: "string \<Rightarrow> gval gomap" where
  "parseOpenBSDOSRelease output =
     (let full = trim_space output
      in if full = [] then []
         else [(''full'', GStr full), (''major'', GStr (before_cut full ''.''))] @
              (if after_cut full ''.'' \<noteq> [] then [(''minor'', GStr (after_cut full ''.''))] else []))"

definition parseDarwinOSRelease :: "string \<Rightarrow> gval gomap" where
  "parseDarwinOSRelease output =
     (let full = trim_space output; minor = before_cut (after_cut full ''.'') ''.''
      in if full = [] then []
         else [(''full'', GStr full), (''major'', GStr (before_cut full ''.''))] @
              (if minor \<noteq> [] then [(''minor'', GStr minor)] else []))"

definition illumosReleaseWord :: "string \<Rightarrow> bool" where
  "illumosReleaseWord field =
     (case cut_prefix field ''r'' of None \<Rightarrow> False | Some major \<Rightarrow> major \<noteq> [] \<and> atoi major \<noteq> None)"

text \<open>The name is the first word; the first word of the form \<open>r<number>\<close> is the release and ends the
  search.\<close>

fun illumosReleaseLines :: "string \<Rightarrow> string list \<Rightarrow> string \<times> gval gomap" where
  "illumosReleaseLines name [] = (name, [])"
| "illumosReleaseLines name (line # lines) =
     (let ws = string_fields line; name' = (if name = [] \<and> ws \<noteq> [] then hd ws else name)
      in case find illumosReleaseWord ws of
           Some field \<Rightarrow> (name', [(''full'', GStr field), (''major'', GStr (drop 1 field))])
         | None \<Rightarrow> illumosReleaseLines name' lines)"

definition parseIllumosRelease :: "string \<Rightarrow> string \<times> gval gomap" where
  "parseIllumosRelease input = illumosReleaseLines [] (split_on NL input)"

section \<open>The Linux distribution\<close>

definition containsOSID :: "string \<Rightarrow> string \<Rightarrow> bool" where
  "containsOSID value ident = (if length ident \<le> 3 then value = ident else contains value ident)"

definition families :: "(string \<times> string list) list" where
  "families =
     [(''RedHat'', [''redhat'', ''rhel'', ''fedora'', ''centos'', ''scientific'', ''ascendos'', ''cloudlinux'', ''psbm'', ''oraclelinux'', ''ol'',
        ''ovs'', ''oel'', ''amazon'', ''amzn'', ''meego'', ''rocky'', ''almalinux'', ''xenserver'', ''xcp-ng'', ''virtuozzo'', ''photon'',
        ''mariner'', ''azurelinux'']),
      (''Suse'', [''sled'', ''sles'', ''opensuse'', ''suse'']),
      (''Debian'', [''debian'', ''ubuntu'', ''kde'', ''huaweios'', ''linuxmint'', ''devuan'']),
      (''Gentoo'', [''gentoo'']),
      (''Archlinux'', [''arch'', ''archlinux'', ''manjaro'']),
      (''Mandrake'', [''mandrake'', ''mandriva'', ''mageia''])]"

definition discoverFamily :: "string \<Rightarrow> string" where
  "discoverFamily ident =
     (case find (\<lambda>(family, idents). list_ex (containsOSID (to_lower ident)) idents) families of
        Some (family, _) \<Rightarrow> family | None \<Rightarrow> ident)"

definition usesRedHatReleaseDistro :: "string \<Rightarrow> bool" where
  "usesRedHatReleaseDistro ident \<longleftrightarrow>
     (if to_lower ident \<in> set [''ol'', ''oel'', ''oraclelinux'', ''amzn'', ''amazon''] then False
      else discoverFamily ident = ''RedHat'')"

record linuxDistro =
  ld_Name :: string
  ld_ID :: string
  ld_Description :: string
  ld_Codename :: string
  ld_Specification :: string
  ld_Release :: "gval gomap"
  ld_ReleaseKnown :: bool
  ld_LSBID :: string
  ld_LSBDescription :: string
  ld_LSBCodename :: string

definition no_distro :: linuxDistro where
  "no_distro = \<lparr>ld_Name = [], ld_ID = [], ld_Description = [], ld_Codename = [], ld_Specification = [], ld_Release = [],
     ld_ReleaseKnown = False, ld_LSBID = [], ld_LSBDescription = [], ld_LSBCodename = []\<rparr>"

definition linuxDistroHasData :: "linuxDistro \<Rightarrow> bool" where
  "linuxDistroHasData d \<longleftrightarrow>
     ld_ID d \<noteq> [] \<or> ld_Description d \<noteq> [] \<or> ld_Codename d \<noteq> [] \<or> ld_Specification d \<noteq> [] \<or> ld_Release d \<noteq> [] \<or> ld_ReleaseKnown d"

definition addSuseLine :: "linuxDistro \<Rightarrow> string \<Rightarrow> linuxDistro" where
  "addSuseLine d line0 =
     (let line = trim_space line0
      in if line = [] then d
         else case cut line ''='' of
                Some (key, value) \<Rightarrow>
                  if equal_fold (trim_space key) ''VERSION''
                  then d\<lparr>ld_Release := releaseMap (trim_space value), ld_ReleaseKnown := releaseMap (trim_space value) \<noteq> []\<rparr>
                  else d
              | None \<Rightarrow>
                  if ld_Name d = [] \<and> string_fields line \<noteq> []
                  then d\<lparr>ld_Name := hd (string_fields line), ld_ID := to_lower (hd (string_fields line))\<rparr>
                  else d)"

definition parseSuseRelease :: "string \<Rightarrow> linuxDistro" where
  "parseSuseRelease input = foldl addSuseLine no_distro (split_on NL input)"

definition currentSuseRelease :: "(string \<Rightarrow> goerror + string) \<Rightarrow> linuxDistro" where
  "currentSuseRelease readFile =
     (case readFile ''/etc/SuSE-release'' of Inl e \<Rightarrow> no_distro | Inr data \<Rightarrow> parseSuseRelease data)"

fun index_of :: "char \<Rightarrow> string \<Rightarrow> nat option" where
  "index_of c [] = None"
| "index_of c (x # xs) = (if x = c then Some 0 else map_option Suc (index_of c xs))"

text \<open>What stands between the first opening and the last closing parenthesis.\<close>

definition redHatReleaseCodename :: "string \<Rightarrow> string" where
  "redHatReleaseCodename description =
     (case (index_of (CHR ''('') description, last_index (CHR '')'') description) of
        (Some start, Some end_pos) \<Rightarrow>
          if end_pos \<le> start + 1 then [] else take (end_pos - (start + 1)) (drop (start + 1) description)
      | _ \<Rightarrow> [])"

definition parseAmazonSystemRelease :: "string \<Rightarrow> linuxDistro" where
  "parseAmazonSystemRelease input =
     (let description = trim_space input; codename = redHatReleaseCodename description
      in if description = [] then no_distro
         else no_distro\<lparr>ld_ID := (if contains description ''Amazon Linux AMI'' then ''AmazonAMI'' else ''Amazon''),
                ld_Description := description, ld_Codename := (if codename = [] then ''n/a'' else codename)\<rparr>)"

definition currentAmazonSystemRelease :: "(string \<Rightarrow> goerror + string) \<Rightarrow> linuxDistro" where
  "currentAmazonSystemRelease readFile =
     (case readFile ''/etc/system-release'' of Inl e \<Rightarrow> no_distro | Inr data \<Rightarrow> parseAmazonSystemRelease data)"

definition redHatReleaseWords :: "string \<Rightarrow> string list" where
  "redHatReleaseWords p = filter (\<lambda>w. \<not> equal_fold w ''linux'') (string_fields p)"

definition redHatReleaseName :: "string \<Rightarrow> string" where
  "redHatReleaseName p = join [] (take 2 (redHatReleaseWords p))"

definition redHatDistributorID :: "string \<Rightarrow> string" where
  "redHatDistributorID p = join [] (redHatReleaseWords p)"

definition parseRedHatRelease :: "string \<Rightarrow> linuxDistro" where
  "parseRedHatRelease input =
     (let description = trim_space input
      in if description = [] then no_distro
         else case cut description ''release'' of
                None \<Rightarrow> no_distro\<lparr>ld_Description := description\<rparr>
              | Some (before, rest) \<Rightarrow>
                  (let p = trim_space before; ws = string_fields (trim_space (before_cut rest ''release''));
                       version = (if ws = [] then [] else hd ws)
                   in no_distro\<lparr>ld_Name := redHatReleaseName p, ld_ID := redHatDistributorID p, ld_Description := description,
                        ld_Codename := redHatReleaseCodename description, ld_Release := releaseHashFromString version False,
                        ld_ReleaseKnown := version \<noteq> []\<rparr>))"

definition currentRedHatRelease :: "(string \<Rightarrow> goerror + string) \<Rightarrow> linuxDistro" where
  "currentRedHatRelease readFile =
     (case readFile ''/etc/redhat-release'' of Inl e \<Rightarrow> no_distro | Inr data \<Rightarrow> parseRedHatRelease data)"

definition mergeRedHatDistro :: "linuxDistro \<Rightarrow> linuxDistro \<Rightarrow> linuxDistro" where
  "mergeRedHatDistro d redHat =
     d\<lparr>ld_Name := (if ld_Name d = [] then ld_Name redHat else ld_Name d),
       ld_ID := (if ld_ID redHat \<noteq> [] then ld_ID redHat else ld_ID d),
       ld_Description := (if ld_Description redHat \<noteq> [] then ld_Description redHat else ld_Description d),
       ld_Codename := (if ld_Codename redHat \<noteq> [] then ld_Codename redHat else ld_Codename d),
       ld_Release := (if ld_Release redHat \<noteq> [] then ld_Release redHat else ld_Release d),
       ld_ReleaseKnown := (if ld_Release redHat \<noteq> [] then ld_ReleaseKnown redHat else ld_ReleaseKnown d)\<rparr>"

definition mergeRHELLSBLegacyDistro :: "linuxDistro \<Rightarrow> linuxDistro \<Rightarrow> linuxDistro" where
  "mergeRHELLSBLegacyDistro d lsb =
     d\<lparr>ld_LSBID := ld_ID lsb, ld_LSBDescription := ld_Description lsb, ld_LSBCodename := ld_Codename lsb\<rparr>"

definition addLSBLine :: "string gomap \<Rightarrow> string \<Rightarrow> string gomap" where
  "addLSBLine values line =
     (case cut (replace_all line [CHR 0x09] []) '':'' of None \<Rightarrow> values
      | Some (key, value) \<Rightarrow> mput (to_lower (replace_all (trim_space key) '' '' ''_'')) (trim_space value) values)"

definition parseLSBRelease :: "string \<Rightarrow> linuxDistro" where
  "parseLSBRelease input =
     (let values = foldl addLSBLine [] (split_on NL input)
      in no_distro\<lparr>ld_Name := sget values ''distributor_id'', ld_ID := sget values ''distributor_id'',
           ld_Description := sget values ''description'', ld_Codename := sget values ''codename'',
           ld_Specification := sget values ''lsb_version'',
           ld_Release := linuxDistroReleaseMap (sget values ''distributor_id'') (sget values ''release''),
           ld_ReleaseKnown := trim_space (sget values ''release'') \<noteq> []\<rparr>)"

definition linuxDistroCodenameFromVersion :: "string \<Rightarrow> string" where
  "linuxDistroCodenameFromVersion version0 =
     (let version = trim_space version0;
          words = FindString linuxDistroVersionWordsRE version;
          byWords = (if words = [] then [] else to_lower (hd (string_fields words)))
      in if version = [] then []
         else if has_suffix version '')''
         then (case last_index (CHR ''('') version of Some start \<Rightarrow> trim_space (butlast (drop (start + 1) version)) | None \<Rightarrow> byWords)
         else byWords)"

definition startsWithFold :: "string \<Rightarrow> string \<Rightarrow> bool" where
  "startsWithFold s p \<longleftrightarrow> length p \<le> length s \<and> equal_fold (take (length p) s) p"

definition endsWithFold :: "string \<Rightarrow> string \<Rightarrow> bool" where
  "endsWithFold s p \<longleftrightarrow> length p \<le> length s \<and> equal_fold (drop (length s - length p) s) p"

definition capitalizeASCII :: "string \<Rightarrow> string" where
  "capitalizeASCII s = (case to_lower s of [] \<Rightarrow> [] | c # cs \<Rightarrow> upper_char c # cs)"

definition linuxDistroName :: "string \<Rightarrow> string" where
  "linuxDistroName name =
     (let words = string_fields name
      in if equal_fold name ''Ubuntu Linux'' then ''Ubuntu''
         else if startsWithFold name ''sles'' then ''SLES''
         else if startsWithFold name ''oracle'' then join [] (take 2 words)
         else if endsWithFold name ''azure linux'' \<and> length words \<ge> 3 then join [] (take 2 (drop 1 words))
         else if endsWithFold name ''mariner'' \<and> words \<noteq> [] then last words
         else if startsWithFold name ''arch'' \<or> startsWithFold name ''manjaro'' then capitalizeASCII (join [] (take 2 words))
         else if startsWithFold name ''virtuozzo'' then (if words = [] then name else hd words @ ''Linux'')
         else if words = [] then name else hd words)"

definition linuxDistroID :: "string \<Rightarrow> string" where
  "linuxDistroID ident =
     (if equal_fold ident ''sles_sap'' then ''sles'' else if equal_fold ident ''opensuse-leap'' then ''opensuse'' else ident)"

definition slesDistroID :: "string \<Rightarrow> string \<Rightarrow> string" where
  "slesDistroID ident release =
     (if \<not> equal_fold ident ''sles'' then ident else if majorVersion release = ''12'' then ''SUSE LINUX'' else ''SUSE'')"

text \<open>The last assignment of a key wins; \<open>UBUNTU_CODENAME\<close> counts while no codename is known.\<close>

definition addCodename :: "string \<Rightarrow> string \<times> string \<Rightarrow> string" where
  "addCodename codename kv =
     (if fst kv = ''VERSION_CODENAME'' then snd kv
      else if fst kv = ''UBUNTU_CODENAME'' \<and> codename = [] then snd kv else codename)"

definition parseLinuxDistroOSRelease :: "string \<Rightarrow> linuxDistro" where
  "parseLinuxDistroOSRelease input =
     (let kvs = osReleaseAssignments input;
          named = (if list_ex (\<lambda>kv. fst kv = ''NAME'') kvs then linuxDistroName (last_value kvs ''NAME'') else []);
          ident = linuxDistroID (last_value kvs ''ID'');
          release = last_value kvs ''VERSION_ID'';
          code0 = foldl addCodename [] kvs;
          code1 = (if code0 = [] then linuxDistroCodenameFromVersion (last_value kvs ''VERSION'') else code0);
          codename = (if equal_fold ident ''sles'' \<and> code1 = [] then ''n/a'' else code1);
          devuan = equal_fold ident ''devuan''
      in no_distro\<lparr>ld_Name := named, ld_ID := slesDistroID ident release, ld_Description := last_value kvs ''PRETTY_NAME'',
           ld_Codename := codename,
           ld_Release := (if devuan then [] else linuxDistroReleaseMap ident release),
           ld_ReleaseKnown := (devuan \<or> list_ex (\<lambda>kv. fst kv = ''VERSION_ID'') kvs)\<rparr>)"

definition currentLinuxDistro :: "hostOS \<Rightarrow> linuxDistro" where
  "currentLinuxDistro h =
     (if ho_goos h \<noteq> ''linux'' then no_distro
      else let out = ho_run h ''lsb_release'' [''-a''];
               lsbDistro = (if rt_lookPath (ho_runtime h) ''lsb_release'' \<and> out \<noteq> [] then parseLSBRelease out else no_distro)
           in case ho_readFile h ''/etc/os-release'' of
                Inl e \<Rightarrow> if linuxDistroHasData lsbDistro then lsbDistro else currentSuseRelease (ho_readFile h)
              | Inr data \<Rightarrow>
                  (let distro = parseLinuxDistroOSRelease data; redHat = currentRedHatRelease (ho_readFile h)
                   in if \<not> usesRedHatReleaseDistro (ld_ID distro) \<and> linuxDistroHasData lsbDistro then lsbDistro
                      else let d1 = (if usesRedHatReleaseDistro (ld_ID distro)
                               then (let merged = (if ld_ID redHat \<noteq> [] \<or> ld_Description redHat \<noteq> [] \<or> ld_Codename redHat \<noteq> [] \<or>
                                                     ld_Release redHat \<noteq> [] then mergeRedHatDistro distro redHat else distro)
                                     in if linuxDistroHasData lsbDistro then mergeRHELLSBLegacyDistro merged lsbDistro else merged)
                               else distro);
                             version = amazonOSReleaseRPMVersion (ho_run h);
                             d2 = (if equal_fold (ld_ID d1) ''amzn'' \<and> mget (ld_Release d1) ''full'' = Some (GStr ''2023'') \<and> version \<noteq> []
                               then d1\<lparr>ld_Release := releaseHashFromString version True\<rparr> else d1);
                             systemRelease = currentAmazonSystemRelease (ho_readFile h)
                         in if equal_fold (ld_ID d2) ''amzn'' \<and> ld_Description systemRelease \<noteq> []
                            then d2\<lparr>ld_ID := ld_ID systemRelease, ld_Description := ld_Description systemRelease,
                                   ld_Codename := ld_Codename systemRelease\<rparr>
                            else d2))"

definition linuxDistroFacts :: "linuxDistro \<Rightarrow> ResolvedFact list" where
  "linuxDistroFacts d =
     (if \<not> linuxDistroHasData d then []
      else stringFacts [(''os.distro.id'', ld_ID d), (''os.distro.description'', ld_Description d), (''os.distro.codename'', ld_Codename d),
             (''os.distro.specification'', ld_Specification d)] @
           (if ld_Release d \<noteq> [] then [core_fact ''os.distro.release'' (GMap (ld_Release d))]
            else if ld_ReleaseKnown d then [core_fact ''os.distro.release'' GNil] else []))"

section \<open>macOS\<close>

record macOSInfo =
  mi_ProductName :: string
  mi_ProductVersion :: string
  mi_ProductVersionExtra :: string
  mi_BuildVersion :: string

definition addColonLine :: "string gomap \<Rightarrow> string \<Rightarrow> string gomap" where
  "addColonLine values line =
     (case cut line '':'' of None \<Rightarrow> values | Some (key, value) \<Rightarrow> mput (trim_space key) (trim_space value) values)"

definition parseSwVers :: "string \<Rightarrow> macOSInfo" where
  "parseSwVers input =
     (let values = foldl addColonLine [] (split_on NL input)
      in \<lparr>mi_ProductName = sget values ''ProductName'', mi_ProductVersion = sget values ''ProductVersion'',
          mi_ProductVersionExtra = sget values ''ProductVersionExtra'', mi_BuildVersion = sget values ''BuildVersion''\<rparr>)"

definition probeMacOSInfo :: "hostOS \<Rightarrow> macOSInfo" where
  "probeMacOSInfo h =
     (if ho_goos h \<noteq> ''darwin''
      then \<lparr>mi_ProductName = [], mi_ProductVersion = [], mi_ProductVersionExtra = [], mi_BuildVersion = []\<rparr>
      else parseSwVers (ho_run h ''sw_vers'' []))"

definition probeMacOSModel :: "hostOS \<Rightarrow> string" where
  "probeMacOSModel h = (if ho_goos h \<noteq> ''darwin'' then [] else trim_space (ho_run h ''sysctl'' [''-n'', ''hw.model'']))"

definition cutMacOSSystemProfilerLine :: "string \<Rightarrow> (string \<times> string) option" where
  "cutMacOSSystemProfilerLine line =
     (case cut line '': '' of None \<Rightarrow> None | Some (key, value) \<Rightarrow> Some (trim_space key, trim_space value))"

record macOSSystemProfilerHardware =
  mh_ModelName :: string
  mh_ModelIdentifier :: string
  mh_ProcessorName :: string
  mh_ProcessorSpeed :: string
  mh_NumberOfProcessors :: string
  mh_TotalCores :: string
  mh_L2CachePerCore :: string
  mh_L3Cache :: string
  mh_Memory :: string
  mh_BootROMVersion :: string
  mh_SMCVersion :: string
  mh_SerialNumber :: string
  mh_HardwareUUID :: string
  mh_SubsystemVendorID :: string

text \<open>The reports list each key once; where a field has two keys, the later line wins, so the lines are
  read under the first name of the field.\<close>

definition addProfilerLine :: "(string \<times> string) list \<Rightarrow> string gomap \<Rightarrow> string \<Rightarrow> string gomap" where
  "addProfilerLine aliases values line =
     (case cutMacOSSystemProfilerLine line of None \<Rightarrow> values
      | Some (key, value) \<Rightarrow> mput (case map_of aliases key of Some k \<Rightarrow> k | None \<Rightarrow> key) value values)"

definition parseMacOSSystemProfilerHardware :: "string \<Rightarrow> macOSSystemProfilerHardware" where
  "parseMacOSSystemProfilerHardware input =
     (let v = sget (foldl (addProfilerLine [(''System Firmware Version'', ''Boot ROM Version'')]) [] (split_on NL input))
      in \<lparr>mh_ModelName = v ''Model Name'', mh_ModelIdentifier = v ''Model Identifier'', mh_ProcessorName = v ''Processor Name'',
          mh_ProcessorSpeed = v ''Processor Speed'', mh_NumberOfProcessors = v ''Number of Processors'',
          mh_TotalCores = v ''Total Number of Cores'', mh_L2CachePerCore = v ''L2 Cache (per Core)'', mh_L3Cache = v ''L3 Cache'',
          mh_Memory = v ''Memory'', mh_BootROMVersion = v ''Boot ROM Version'', mh_SMCVersion = v ''SMC Version (system)'',
          mh_SerialNumber = v ''Serial Number (system)'', mh_HardwareUUID = v ''Hardware UUID'',
          mh_SubsystemVendorID = v ''Subsystem Vendor ID''\<rparr>)"

record macOSSystemProfilerSoftware =
  mw_SystemVersion :: string
  mw_KernelVersion :: string
  mw_BootVolume :: string
  mw_BootMode :: string
  mw_ComputerName :: string
  mw_UserName :: string
  mw_SecureVirtualMemory :: string
  mw_TimeSinceBoot :: string

definition parseMacOSSystemProfilerSoftware :: "string \<Rightarrow> macOSSystemProfilerSoftware" where
  "parseMacOSSystemProfilerSoftware input =
     (let v = sget (foldl (addProfilerLine []) [] (split_on NL input))
      in \<lparr>mw_SystemVersion = v ''System Version'', mw_KernelVersion = v ''Kernel Version'', mw_BootVolume = v ''Boot Volume'',
          mw_BootMode = v ''Boot Mode'', mw_ComputerName = v ''Computer Name'', mw_UserName = v ''User Name'',
          mw_SecureVirtualMemory = v ''Secure Virtual Memory'', mw_TimeSinceBoot = v ''Time since boot''\<rparr>)"

record macOSSystemProfilerEthernet =
  me_Type :: string
  me_Bus :: string
  me_VendorID :: string
  me_DeviceID :: string
  me_SubsystemVendorID :: string
  me_SubsystemID :: string
  me_RevisionID :: string
  me_BSDName :: string
  me_KextName :: string
  me_Location :: string
  me_Version :: string

definition parseMacOSSystemProfilerEthernet :: "string \<Rightarrow> macOSSystemProfilerEthernet" where
  "parseMacOSSystemProfilerEthernet input =
     (let v = sget (foldl (addProfilerLine []) [] (split_on NL input))
      in \<lparr>me_Type = v ''Type'', me_Bus = v ''Bus'', me_VendorID = v ''Vendor ID'', me_DeviceID = v ''Device ID'',
          me_SubsystemVendorID = v ''Subsystem Vendor ID'', me_SubsystemID = v ''Subsystem ID'', me_RevisionID = v ''Revision ID'',
          me_BSDName = v ''BSD name'', me_KextName = v ''Kext name'', me_Location = v ''Location'', me_Version = v ''Version''\<rparr>)"

text \<open>Off macOS, and where the command gives nothing, every field is empty: the parse of no text.\<close>

definition probeMacOSSystemProfilerHardware :: "hostOS \<Rightarrow> macOSSystemProfilerHardware" where
  "probeMacOSSystemProfilerHardware h =
     parseMacOSSystemProfilerHardware
       (if ho_goos h \<noteq> ''darwin'' then [] else ho_run h ''system_profiler'' [''SPHardwareDataType''])"

definition probeMacOSSystemProfilerSoftware :: "hostOS \<Rightarrow> macOSSystemProfilerSoftware" where
  "probeMacOSSystemProfilerSoftware h =
     parseMacOSSystemProfilerSoftware
       (if ho_goos h \<noteq> ''darwin'' then [] else ho_run h ''system_profiler'' [''SPSoftwareDataType''])"

definition probeMacOSSystemProfilerEthernet :: "hostOS \<Rightarrow> macOSSystemProfilerEthernet" where
  "probeMacOSSystemProfilerEthernet h =
     parseMacOSSystemProfilerEthernet
       (if ho_goos h \<noteq> ''darwin'' then [] else ho_run h ''system_profiler'' [''SPEthernetDataType''])"

definition macOSSystemProfilerFacts :: "macOSSystemProfilerHardware \<Rightarrow> ResolvedFact list" where
  "macOSSystemProfilerFacts hw =
     stringFacts [(''system_profiler.model_name'', mh_ModelName hw), (''system_profiler.model_identifier'', mh_ModelIdentifier hw),
       (''system_profiler.processor_name'', mh_ProcessorName hw), (''system_profiler.processor_speed'', mh_ProcessorSpeed hw),
       (''system_profiler.processors'', mh_NumberOfProcessors hw), (''system_profiler.cores'', mh_TotalCores hw),
       (''system_profiler.l2_cache_per_core'', mh_L2CachePerCore hw), (''system_profiler.l3_cache'', mh_L3Cache hw),
       (''system_profiler.memory'', mh_Memory hw), (''system_profiler.boot_rom_version'', mh_BootROMVersion hw),
       (''system_profiler.smc_version'', mh_SMCVersion hw), (''system_profiler.serial_number'', mh_SerialNumber hw),
       (''system_profiler.hardware_uuid'', mh_HardwareUUID hw), (''system_profiler.subsystem_vendor_id'', mh_SubsystemVendorID hw)]"

definition macOSSystemProfilerSoftwareFacts :: "macOSSystemProfilerSoftware \<Rightarrow> ResolvedFact list" where
  "macOSSystemProfilerSoftwareFacts sw =
     stringFacts [(''system_profiler.system_version'', mw_SystemVersion sw), (''system_profiler.kernel_version'', mw_KernelVersion sw),
       (''system_profiler.boot_volume'', mw_BootVolume sw), (''system_profiler.boot_mode'', mw_BootMode sw),
       (''system_profiler.computer_name'', mw_ComputerName sw), (''system_profiler.username'', mw_UserName sw),
       (''system_profiler.secure_virtual_memory'', mw_SecureVirtualMemory sw), (''system_profiler.uptime'', mw_TimeSinceBoot sw)]"

definition macOSSystemProfilerEthernetFacts :: "macOSSystemProfilerEthernet \<Rightarrow> ResolvedFact list" where
  "macOSSystemProfilerEthernetFacts e =
     stringFacts [(''system_profiler.type'', me_Type e), (''system_profiler.bus'', me_Bus e), (''system_profiler.vendor_id'', me_VendorID e),
       (''system_profiler.device_id'', me_DeviceID e), (''system_profiler.subsystem_vendor_id'', me_SubsystemVendorID e),
       (''system_profiler.subsystem_id'', me_SubsystemID e), (''system_profiler.revision_id'', me_RevisionID e),
       (''system_profiler.bsd_name'', me_BSDName e), (''system_profiler.kext_name'', me_KextName e),
       (''system_profiler.location'', me_Location e), (''system_profiler.version'', me_Version e)]"

definition partOrDefault :: "string list \<Rightarrow> nat \<Rightarrow> string \<Rightarrow> string" where
  "partOrDefault parts index fallback = (if index \<ge> length parts \<or> parts ! index = [] then fallback else parts ! index)"

definition macOSVersion :: "string \<Rightarrow> string \<Rightarrow> gval gomap" where
  "macOSVersion productVersion extra =
     (let parts = split_on DOT productVersion
      in (''full'', GStr productVersion) #
         (if hd parts = ''10''
          then [(''major'', GStr (if length parts > 1 then ''10.'' @ parts ! 1 else ''10'')), (''minor'', GStr (last parts))]
          else [(''major'', GStr (partOrDefault parts 0 [])), (''minor'', GStr (partOrDefault parts 1 ''0'')),
                (''patch'', GStr (partOrDefault parts 2 ''0''))] @
               (if extra \<noteq> [] \<and> hd parts \<noteq> ''11'' \<and> hd parts \<noteq> ''12'' then [(''extra'', GStr extra)] else [])))"

definition macOSVersionFacts :: "string \<Rightarrow> string \<Rightarrow> ResolvedFact list" where
  "macOSVersionFacts productVersion extra =
     (if productVersion = [] then [] else [core_fact ''os.macosx.version'' (GMap (macOSVersion productVersion extra))])"

definition macOSStringFact :: "string \<Rightarrow> string \<Rightarrow> ResolvedFact list" where
  "macOSStringFact coreName value = (if value = [] then [] else [core_fact coreName (GStr value)])"

section \<open>File systems\<close>

definition parseLinuxFilesystems :: "string \<Rightarrow> string list" where
  "parseLinuxFilesystems input =
     sort (concat (map (\<lambda>line. let ws = string_fields line in if length ws \<noteq> 1 \<or> hd ws = ''fuseblk'' then [] else ws)
       (split_on NL input)))"

definition darwinMountType :: "string \<Rightarrow> string" where
  "darwinMountType line =
     (let value = after_cut line ''(''
      in case index_of (CHR '','') value of Some i \<Rightarrow> take i value
         | None \<Rightarrow> (case index_of (CHR '')'') value of Some i \<Rightarrow> take i value | None \<Rightarrow> []))"

definition parseDarwinFilesystems :: "string \<Rightarrow> string list" where
  "parseDarwinFilesystems input = sort (remdups (filter (\<lambda>t. t \<noteq> []) (map darwinMountType (split_on NL input))))"

definition currentFilesystems :: "hostOS \<Rightarrow> string list" where
  "currentFilesystems h =
     (let goos = ho_goos h
      in if (case Lookup goos of Some p \<Rightarrow> \<not> cp_Filesystems (pp_Capabilities p) | None \<Rightarrow> False) then []
         else if goos = ''darwin'' then parseDarwinFilesystems (ho_run h ''mount'' [])
         else if goos = ''linux'' then (case ho_readFile h ''/proc/filesystems'' of Inl e \<Rightarrow> [] | Inr data \<Rightarrow> parseLinuxFilesystems data)
         else [])"

definition filesystemsFacts :: "string list \<Rightarrow> ResolvedFact list" where
  "filesystemsFacts value = (if value = [] then [] else [core_fact ''filesystems'' (GStrs value)])"

section \<open>The os category\<close>

text \<open>\<open>nil\<close> or a version map. (The BSD and macOS parsers return their nil map inside the interface, here the empty map.)\<close>

definition map_or_nil :: "gval gomap \<Rightarrow> gval" where
  "map_or_nil m = (if m = [] then GNil else GMap m)"

definition currentOSRelease :: "hostOS \<Rightarrow> gval" where
  "currentOSRelease h =
     (let goos = ho_goos h; kernel = GStr (probeKernelRelease h); uname = ho_run h ''uname'' [''-r'']
      in case Lookup goos of
           None \<Rightarrow> GNil
         | Some p \<Rightarrow>
             if \<not> cp_OSRelease (pp_Capabilities p) then GNil
             else if goos = ''linux'' then
               (case ho_readFile h ''/etc/os-release'' of
                  Inl e \<Rightarrow> kernel
                | Inr data \<Rightarrow>
                    (let specific = specificLinuxOSRelease (linuxOSReleaseID data) (ho_readFile h) (ho_run h)
                     in if specific \<noteq> [] then GMap specific else map_or_nil (parseLinuxOSRelease data)))
             else if goos = ''freebsd'' then
               (let versions = parseFreeBSDVersions (ho_run h ''/bin/freebsd-version'' [''-k'']) (ho_run h ''/bin/freebsd-version'' [''-ru''])
                in if fv_InstalledUserland versions \<noteq> [] then GMap (parseFreeBSDOSRelease (fv_InstalledUserland versions)) else kernel)
             else if goos \<in> set [''openbsd'', ''netbsd'', ''dragonfly''] then GMap (parseOpenBSDOSRelease uname)
             else if goos = ''illumos'' then
               (let release = snd (parseIllumosRelease (readFileString ''/etc/release'' (ho_readFile h)))
                in if release \<noteq> [] then GMap release else kernel)
             else if goos = ''plan9'' then GNil
             else if goos = ''darwin'' then GMap (parseDarwinOSRelease uname)
             else if goos = ''windows'' then
               map_or_nil (currentWindowsOSRelease (windowsWMIOutput (ho_run h) ''os'' ''OtherTypeDescription,ProductType,Version''))
             else kernel)"

definition probeOSRelease :: "hostOS \<Rightarrow> gval" where
  "probeOSRelease h =
     (if ho_goos h = ''windows'' then map_or_nil (currentWindowsOSRelease (probeWindowsOSVersionInput h))
      else currentOSRelease h)"

definition profileName :: "(IdentityPolicy \<Rightarrow> string) \<Rightarrow> string \<Rightarrow> string" where
  "profileName f goos = (case Lookup goos of Some p \<Rightarrow> if f (pp_Identity p) \<noteq> [] then f (pp_Identity p) else goos | None \<Rightarrow> goos)"

definition osFamily :: "string \<Rightarrow> linuxDistro \<Rightarrow> string" where
  "osFamily goos distro =
     (if goos = ''linux'' then (if ld_ID distro \<noteq> [] then discoverFamily (ld_ID distro) else ''Linux'')
      else profileName ip_OSFamily goos)"

definition osName :: "string \<Rightarrow> linuxDistro \<Rightarrow> string" where
  "osName goos distro =
     (if goos = ''linux''
      then (if ld_Name distro \<noteq> [] then ld_Name distro else if ld_ID distro = ''linuxmint'' then ''Linuxmint''
            else if ld_ID distro \<noteq> [] then ld_ID distro else ''Linux'')
      else if goos = ''illumos'' \<and> ld_Name distro \<noteq> [] then ld_Name distro
      else profileName ip_OSName goos)"

definition kernelName :: "string \<Rightarrow> string" where
  "kernelName goos = profileName ip_KernelName goos"

definition osCoreFacts :: "hostOS \<Rightarrow> ResolvedFact list" where
  "osCoreFacts h =
     (let goos = ho_goos h;
          distro = (if goos = ''illumos''
            then (currentLinuxDistro h)\<lparr>ld_Name := fst (parseIllumosRelease (readFileString ''/etc/release'' (ho_readFile h)))\<rparr>
            else currentLinuxDistro h);
          architecture = core_fact ''os.architecture'' (GStr (probeArchitectureName h));
          family = core_fact ''os.family'' (GStr (osFamily goos distro));
          hardware = core_fact ''os.hardware'' (GStr (probeHardwareModel h));
          name = core_fact ''os.name'' (GStr (osName goos distro))
      in if goos = ''plan9''
         then [architecture, family, hardware, name, core_fact ''kernel.name'' (GStr (kernelName goos))]
         else let (kname, krelease, kversion) =
                    (case (if goos = ''windows'' then currentWindowsKernel (probeWindowsOSVersionInput h) else None) of
                       Some k \<Rightarrow> k
                     | None \<Rightarrow> (kernelName goos, probeKernelRelease h, kernelVersionFact goos (probeKernelRelease h)));
                  mac = probeMacOSInfo h;
                  getenv = envValue (ho_environ h) goos
              in [architecture, family, hardware, name, core_fact ''os.release'' (probeOSRelease h)] @
                 kernelFacts kname krelease kversion @
                 filesystemsFacts (currentFilesystems h) @
                 linuxDistroFacts distro @
                 macOSVersionFacts (mi_ProductVersion mac) (mi_ProductVersionExtra mac) @
                 macOSStringFact ''os.macosx.product'' (mi_ProductName mac) @
                 macOSStringFact ''os.macosx.build'' (mi_BuildVersion mac) @
                 macOSSystemProfilerFacts (probeMacOSSystemProfilerHardware h) @
                 macOSSystemProfilerSoftwareFacts (probeMacOSSystemProfilerSoftware h) @
                 macOSSystemProfilerEthernetFacts (probeMacOSSystemProfilerEthernet h) @
                 windowsSystem32Facts (currentWindowsSystem32 goos (getenv ''SystemRoot'') (getenv ''PROCESSOR_ARCHITEW6432'' \<noteq> [], True)) @
                 windowsProductReleaseFacts (currentWindowsProductRelease goos (ho_run h)))"

section \<open>Lemmas\<close>

text \<open>Dot-separated numbers at the front of a text: the pattern of kernel releases matches them all.\<close>

definition numeric_parts :: "string list \<Rightarrow> bool" where
  "numeric_parts parts \<longleftrightarrow> parts \<noteq> [] \<and> list_all (\<lambda>p. p \<noteq> [] \<and> list_all is_digit p) parts"

definition numeric_end :: "string \<Rightarrow> bool" where
  "numeric_end rest \<longleftrightarrow> (case rest of [] \<Rightarrow> True | [c] \<Rightarrow> \<not> is_digit c | c # d # _ \<Rightarrow> \<not> is_digit c \<and> \<not> (c = DOT \<and> is_digit d))"

lemma not_digit_DOT [simp]: "\<not> is_digit DOT"
  by (simp add: is_digit_def)

lemma hd_matches_Many_class:
  assumes "ms_rest st = w @ rest" "list_all p w" "rest = [] \<or> \<not> p (hd rest)"
  shows "\<exists>ms1. matches (Many (Chars p)) st = skip_to w rest st # ms1"
  using assms
proof (induction w arbitrary: st)
  case Nil
  then show ?case by (cases rest) (auto simp: skip_to_Nil)
next
  case (Cons c w)
  let ?st = "step_char c (w @ rest) st"
  have "\<exists>ms1. matches (Many (Chars p)) ?st = skip_to w rest ?st # ms1"
    using Cons.prems by (intro Cons.IH) (simp_all add: step_char_def)
  moreover have "greedy (length (ms_rest st)) (matches (Chars p)) st =
      concat (map (greedy (length (w @ rest)) (matches (Chars p))) [?st]) @ [st]"
    using Cons.prems by (simp add: shorter_def step_char_def)
  ultimately show ?case by (auto simp: step_char_def skip_to_Cons [unfolded step_char_def])
qed


lemma greedy_not_Nil [simp]: "greedy n one st \<noteq> []"
  by (cases n) auto

lemma hd_greedy_step:
  "one st = st1 # ms1 \<Longrightarrow> shorter st st1 \<Longrightarrow> hd (greedy (Suc n) one st) = hd (greedy n one st1)"
  by (simp add: hd_append)

lemma hd_greedy_stop: "one st = [] \<Longrightarrow> hd (greedy n one st) = st"
  by (cases n) auto

lemma hd_matches_Cat:
  "matches a st = x # ms1 \<Longrightarrow> matches b x = y # ms2 \<Longrightarrow> \<exists>mm. matches (Cat a b) st = y # mm"
  by simp

lemma matches_digits1:
  assumes "ms_rest st = p @ s" "p \<noteq> []" "list_all is_digit p" "s = [] \<or> \<not> is_digit (hd s)"
  shows "\<exists>ms1. matches digits1 st = skip_to p s st # ms1"
proof -
  obtain c q where p: "p = c # q" using assms(2) by (cases p) auto
  have "matches rx_digit st = [step_char c (q @ s) st]" using assms by (simp add: p rx_digit_def)
  moreover have "\<exists>ms1. matches (Many rx_digit) (step_char c (q @ s) st) = skip_to q s (step_char c (q @ s) st) # ms1"
    unfolding rx_digit_def using assms p by (intro hd_matches_Many_class) (simp_all add: step_char_def)
  ultimately show ?thesis unfolding digits1_def many1_def p by (auto simp: skip_to_Cons)
qed

lemma matches_dot_digits:
  assumes "ms_rest st = DOT # p @ s" "p \<noteq> []" "list_all is_digit p" "s = [] \<or> \<not> is_digit (hd s)"
  shows "\<exists>ms1. matches dot_digits st = skip_to (DOT # p) s st # ms1"
proof -
  have "\<exists>ms1. matches digits1 (step_char DOT (p @ s) st) = skip_to p s (step_char DOT (p @ s) st) # ms1"
    using assms by (intro matches_digits1) (simp_all add: step_char_def)
  with assms(1) show ?thesis by (auto simp: dot_digits_def skip_to_Cons)
qed

lemma matches_dot_digits_end: "numeric_end (ms_rest st) \<Longrightarrow> matches dot_digits st = []"
  by (auto simp: dot_digits_def digits1_def many1_def rx_digit_def numeric_end_def step_char_def split: list.splits)

lemma numeric_end_hd: "numeric_end rest \<Longrightarrow> rest = [] \<or> \<not> is_digit (hd rest)"
  by (auto simp: numeric_end_def split: list.splits)

abbreviation dotted :: "string list \<Rightarrow> string" where
  "dotted parts \<equiv> concat (map (\<lambda>p. DOT # p) parts)"

lemma dotted_hd: "numeric_end rest \<Longrightarrow> dotted parts @ rest = [] \<or> \<not> is_digit (hd (dotted parts @ rest))"
  using numeric_end_hd by (cases parts) auto

lemma hd_greedy_dots:
  assumes "numeric_end rest"
  shows "ms_rest st = dotted parts @ rest \<Longrightarrow> list_all (\<lambda>p. p \<noteq> [] \<and> list_all is_digit p) parts \<Longrightarrow>
    length (dotted parts) \<le> n \<Longrightarrow> hd (greedy n (matches dot_digits) st) = skip_to (dotted parts) rest st"
proof (induction parts arbitrary: n st)
  case Nil
  with assms show ?case by (simp add: hd_greedy_stop matches_dot_digits_end skip_to_Nil)
next
  case (Cons p parts)
  then obtain m where n: "n = Suc m" by (cases n) auto
  obtain ms1 where one: "matches dot_digits st = skip_to (DOT # p) (dotted parts @ rest) st # ms1"
    using Cons.prems dotted_hd [OF assms, of parts] matches_dot_digits [of st p "dotted parts @ rest"] by auto
  moreover have "shorter st (skip_to (DOT # p) (dotted parts @ rest) st)" using Cons.prems by (simp add: shorter_def)
  ultimately have "hd (greedy n (matches dot_digits) st) =
      hd (greedy m (matches dot_digits) (skip_to (DOT # p) (dotted parts @ rest) st))" unfolding n by (rule hd_greedy_step)
  also have "\<dots> = skip_to (dotted parts) rest (skip_to (DOT # p) (dotted parts @ rest) st)"
    using Cons.prems n by (intro Cons.IH) simp_all
  finally show ?case by simp
qed

lemma FindString_kernelRelease:
  assumes "p \<noteq> []" "list_all is_digit p" "list_all (\<lambda>p. p \<noteq> [] \<and> list_all is_digit p) parts" "numeric_end rest"
  shows "FindString kernelReleaseLeadingNumeric (p @ dotted parts @ rest) = p @ dotted parts"
proof -
  let ?s = "p @ dotted parts @ rest"
  let ?st = "\<lparr>ms_prev = None, ms_rest = ?s, ms_caps = []\<rparr>"
  let ?st1 = "skip_to p (dotted parts @ rest) ?st"
  obtain ms1 where one: "matches digits1 ?st = ?st1 # ms1"
    using matches_digits1 [of ?st p "dotted parts @ rest"] assms dotted_hd by auto
  have "hd (matches (Many dot_digits) ?st1) = skip_to (dotted parts) rest ?st1"
    unfolding matches.simps using assms by (intro hd_greedy_dots) simp_all
  then obtain ms2 where "matches (Many dot_digits) ?st1 = skip_to (dotted parts) rest ?st1 # ms2"
    by (cases "matches (Many dot_digits) ?st1") auto
  with one have "\<exists>m. matches kernelReleaseLeadingNumeric ?st = skip_to (dotted parts) rest ?st1 # m"
    by (simp add: kernelReleaseLeadingNumeric_def cats_simps)
  then obtain m where "matches kernelReleaseLeadingNumeric ?st = skip_to (dotted parts) rest ?st1 # m" by blast
  moreover obtain c q where "p = c # q" using assms(1) by (cases p) auto
  ultimately show ?thesis by (simp add: FindString_def FindSubmatch_def match_here_def)
qed

lemma split_on_dotted:
  "p \<noteq> [] \<Longrightarrow> list_all is_digit p \<Longrightarrow> list_all (\<lambda>p. p \<noteq> [] \<and> list_all is_digit p) parts \<Longrightarrow>
    split_on DOT (p @ dotted parts) = p # parts"
proof (induction parts arbitrary: p)
  case Nil
  then have "DOT \<notin> set p" by (auto simp: list_all_iff)
  then show ?case by (simp add: split_on_no_sep)
next
  case (Cons q parts)
  then have "DOT \<notin> set p" by (auto simp: list_all_iff)
  with Cons show ?case by (simp add: split_on_append_sep)
qed

lemma discoverFamily_families:
  "list_all (\<lambda>(family, idents). discoverFamily family = family) families"
  by code_simp

lemma find_Some_set: "find P xs = Some x \<Longrightarrow> x \<in> set xs"
  by (auto simp: find_Some_iff in_set_conv_nth)

section \<open>Properties\<close>

text \<open>The kernel release splits into its leading numbers: whatever follows them, such as a build
  suffix or a patch level, the first number is the major component, the second the minor one,
  and the patch component exists exactly when there is a third.\<close>

lemma kernelReleaseComponents_numbers:
  assumes "major \<noteq> [] \<and> list_all is_digit major" "list_all (\<lambda>p. p \<noteq> [] \<and> list_all is_digit p) parts" "numeric_end rest"
  shows "kernelReleaseComponents (major @ dotted parts @ rest) =
    (major, case parts of [] \<Rightarrow> [] | minor # _ \<Rightarrow> minor, case parts of _ # patch # _ \<Rightarrow> Some patch | _ \<Rightarrow> None)"
proof -
  have "FindString kernelReleaseLeadingNumeric (major @ dotted parts @ rest) = major @ dotted parts"
    using assms by (intro FindString_kernelRelease) simp_all
  moreover have "split_on DOT (major @ dotted parts) = major # parts" using assms by (intro split_on_dotted) simp_all
  ultimately show ?thesis using assms(1)
    by (auto simp: kernelReleaseComponents_def Let_def split: list.splits)
qed

lemma kernelReleaseComponents_numbers_witness:
  "kernelReleaseComponents ''12.1-RELEASE-p3'' = (''12'', ''1'', None)"
  using kernelReleaseComponents_numbers [of "''12''" "[''1'']" "''-RELEASE-p3''"]
  by (simp add: numeric_end_def is_digit_def)

text \<open>The family of a family is itself: naming the family of an operating system again, as facts derived
  from \<open>os.family\<close> do, never changes it.\<close>

lemma discoverFamily_stable: "discoverFamily (discoverFamily ident) = discoverFamily ident"
proof (cases "find (\<lambda>(family, idents). list_ex (containsOSID (to_lower ident)) idents) families")
  case None
  then show ?thesis by (simp add: discoverFamily_def)
next
  case (Some x)
  then have "x \<in> set families" by (rule find_Some_set)
  with discoverFamily_families Some show ?thesis
    by (cases x) (auto simp: list_all_iff discoverFamily_def [of ident])
qed

text \<open>The distribution of a Debian testing or unstable system, whose \<open>os-release\<close> has no \<open>VERSION_ID\<close>,
  still gets a release: full .0, an empty major and minor 0. The guard against an
  empty version that the os release has is missing on this path.\<close>

lemma linuxDistro_debian_without_version:
  "if list_ex (\<lambda>kv. fst kv = ''VERSION_ID'') (osReleaseAssignments input) then True
   else if last_value (osReleaseAssignments input) ''ID'' = ''debian''
   then core_fact ''os.distro.release'' (GMap [(''full'', GStr ''.0''), (''major'', GStr []), (''minor'', GStr ''0'')])
          \<in> set (linuxDistroFacts (parseLinuxDistroOSRelease input)) \<and> parseLinuxOSRelease input = []
   else True"
proof -
  let ?kvs = "osReleaseAssignments input"
  have none: "last_value kvs k = []" if "\<not> list_ex (\<lambda>kv. fst kv = k) kvs" for kvs :: "(string \<times> string) list" and k
    using that by (induction kvs) (auto simp: last_value_def)
  have d: "linuxDistroID ''debian'' = ''debian''" "equal_fold ''debian'' ''devuan'' = False"
    "linuxDistroReleaseMap ''debian'' [] = [(''full'', GStr ''.0''), (''major'', GStr []), (''minor'', GStr ''0'')]"
    by code_simp+
  show ?thesis
    using none [of "''VERSION_ID''" ?kvs] d
    by (auto simp: parseLinuxDistroOSRelease_def parseLinuxOSRelease_def linuxDistroFacts_def linuxDistroHasData_def Let_def)
qed

end
