(* ===== verification/Virtual.thy ===== *)
theory Virtual
  imports Os_Facts
begin

text \<open>
  \<open>internal/engine/virtual.go\<close> and \<open>xen.go\<close>: the signals gathered on each platform, their classification as
  physical or as a hypervisor or container, the hypervisor facts, and the Xen domains.
\<close>

section \<open>Signals\<close>

record dmiDecodeHypervisorInfo =
  dd_VirtualBoxVersion :: string
  dd_VirtualBoxRevision :: string
  dd_VMwareVersion :: string

record linuxVirtualizationInput =
  lv_CGroup :: string
  lv_DockerEnv :: bool
  lv_ContainerEnv :: bool
  lv_ProcVZ :: bool
  lv_LVEList :: bool
  lv_ProcVZEntries :: nat
  lv_ProcStatus :: string
  lv_ContainerRuntime :: string
  lv_KernelVersion :: string
  lv_MachineID :: string
  lv_DMIBIOSVendor :: string
  lv_DMIProductName :: string
  lv_DMISysVendor :: string
  lv_DMIDecodeInfo :: dmiDecodeHypervisorInfo
  lv_VirtWhatOutput :: string
  lv_VMwareCommand :: string
  lv_LspciOutput :: string

record dmiVirtualizationInput =
  dv_Manufacturer :: string
  dv_ProductName :: string
  dv_BIOSVendor :: string
  dv_PCIOutput :: string

record windowsVirtualizationInput =
  wi_Manufacturer :: string
  wi_Model :: string
  wi_OEMStrings :: "string list"
  wi_BIOSManufacturer :: string
  wi_NetKVM :: bool
  wi_WMIResult :: bool

definition physical :: virtualization where
  "physical = \<lparr>vz_Name = ''physical'', vz_IsVirtual = False, vz_Unknown = False\<rparr>"

definition unknownVirtualization :: virtualization where
  "unknownVirtualization = \<lparr>vz_Name = [], vz_IsVirtual = False, vz_Unknown = True\<rparr>"

definition virtual :: "string \<Rightarrow> virtualization" where
  "virtual name = \<lparr>vz_Name = name, vz_IsVirtual = True, vz_Unknown = False\<rparr>"

section \<open>Tables\<close>

definition dmiDecodeVMwareVersions :: "(int \<times> string) list" where
  "dmiDecodeVMwareVersions =
     [(0xe8480, ''ESXi 2.5''), (0xe7c70, ''ESXi 3.0''), (0xe66c0, ''ESXi 3.5''), (0xe7910, ''ESXi 3.5''), (0xea550, ''ESXi 4.0''),
      (0xea6c0, ''ESXi 4.0''), (0xea2e0, ''ESXi 4.1''), (0xe72c0, ''ESXi 5.0''), (0xea0c0, ''ESXi 5.1''), (0xea050, ''ESXi 5.5''),
      (0xe99e0, ''ESXi 6.0''), (0xe9a40, ''ESXi 6.0''), (0xea580, ''ESXi 6.5''), (0xea520, ''ESXi 6.7''), (0xea490, ''ESXi 6.7''),
      (0xea5e0, ''Fusion 8.5'')]"

definition dmiProductHypervisors :: "(string \<times> string) list" where
  "dmiProductHypervisors =
     [(''VMware'', ''vmware''), (''VirtualBox'', ''virtualbox''), (''Parallels'', ''parallels''), (''KVM'', ''kvm''),
      (''Virtual Machine'', ''hyperv''), (''RHEV Hypervisor'', ''rhev''), (''oVirt Node'', ''ovirt''), (''HVM domU'', ''xenhvm''),
      (''Bochs'', ''bochs''), (''OpenBSD'', ''vmm''), (''BHYVE'', ''bhyve'')]"

definition openBSDProductHypervisors :: "string gomap" where
  "openBSDProductHypervisors =
     [(''VMM'', ''vmm''), (''vServer'', ''vserver''), (''oracle'', ''virtualbox''), (''xen'', ''xenu''), (''none'', [])]"

definition dmiProductHypervisor :: "string \<Rightarrow> string" where
  "dmiProductHypervisor productName =
     (case find (\<lambda>(substring, name). contains (to_lower productName) (to_lower substring)) dmiProductHypervisors of
        Some (_, name) \<Rightarrow> name | None \<Rightarrow> [])"

definition lspciLine :: "string \<Rightarrow> string" where
  "lspciLine line =
     (let lower = to_lower line
      in if contains line ''VirtualBox'' then ''virtualbox''
         else if contains line ''XenSource'' then ''xenhvm''
         else if contains line ''Microsoft Corporation Hyper-V'' then ''hyperv''
         else if contains line ''Class 8007: Google, Inc'' then ''gce''
         else if contains line ''VMware'' \<or> contains line ''VMWare'' then ''vmware''
         else if contains line ''1ab8:'' \<or> contains lower ''parallels'' then ''parallels''
         else if contains lower ''virtio'' then ''kvm''
         else [])"

definition lspciHypervisor :: "string \<Rightarrow> string" where
  "lspciHypervisor output = firstNonEmptyValue (map lspciLine (split_on NL output))"

section \<open>Hosts described by DMI\<close>

definition detectDMIHostVirtualization :: "dmiVirtualizationInput \<Rightarrow> virtualization" where
  "detectDMIHostVirtualization input =
     (let bios = to_lower (dv_BIOSVendor input);
          biosIndicatesKVM = (contains bios ''qemu'' \<or> contains bios ''seabios'');
          name = dmiProductHypervisor (dv_ProductName input);
          pci = lspciHypervisor (dv_PCIOutput input)
      in if contains (to_lower (dv_Manufacturer input)) ''qemu'' \<or> contains (to_lower (dv_ProductName input)) ''qemu'' then virtual ''kvm''
         else if name = ''hyperv'' \<and> biosIndicatesKVM then virtual ''kvm''
         else if name \<noteq> [] then virtual name
         else if biosIndicatesKVM then virtual ''kvm''
         else if pci \<noteq> [] then virtual pci
         else if contains (to_lower (dv_PCIOutput input)) ''virtio'' then virtual ''kvm''
         else physical)"

definition parseColonValues :: "string \<Rightarrow> string gomap" where
  "parseColonValues output =
     foldl (\<lambda>values line. case cut (trim_space line) '':'' of
              Some (key, value) \<Rightarrow> if key = [] then values else mput key (trim_space value) values
            | None \<Rightarrow> values) [] (split_on NL output)"

definition currentNetBSDVirtualizationInput :: "(string \<Rightarrow> string list \<Rightarrow> string) \<Rightarrow> dmiVirtualizationInput" where
  "currentNetBSDVirtualizationInput run =
     \<lparr>dv_Manufacturer = trim_space (run ''/sbin/sysctl'' [''-n'', ''machdep.dmi.system-vendor'']),
      dv_ProductName = trim_space (run ''/sbin/sysctl'' [''-n'', ''machdep.dmi.system-product'']),
      dv_BIOSVendor = [], dv_PCIOutput = []\<rparr>"

definition currentDragonFlyVirtualizationInput :: "(string \<Rightarrow> string list \<Rightarrow> string) \<Rightarrow> dmiVirtualizationInput" where
  "currentDragonFlyVirtualizationInput run =
     (let system = parseColonValues (run ''/usr/local/sbin/dmidecode'' [''-t'', ''system'']);
          bios = parseColonValues (run ''/usr/local/sbin/dmidecode'' [''-t'', ''bios''])
      in \<lparr>dv_Manufacturer = trim_space (firstNonEmptyValue [run ''kenv'' [''smbios.system.maker''], sget system ''Manufacturer'']),
          dv_ProductName = trim_space (firstNonEmptyValue [run ''kenv'' [''smbios.system.product''], sget system ''Product Name'']),
          dv_BIOSVendor = trim_space (firstNonEmptyValue [run ''kenv'' [''smbios.bios.vendor''], sget bios ''Vendor'']),
          dv_PCIOutput = run ''pciconf'' [''-lv'']\<rparr>)"

definition currentIllumosVirtualizationInput :: "(string \<Rightarrow> string list \<Rightarrow> string) \<Rightarrow> dmiVirtualizationInput" where
  "currentIllumosVirtualizationInput run =
     (let system = parseColonValues (run ''/usr/sbin/smbios'' [''-t'', ''SMB_TYPE_SYSTEM'']);
          bios = parseColonValues (run ''/usr/sbin/smbios'' [''-t'', ''SMB_TYPE_BIOS''])
      in \<lparr>dv_Manufacturer = sget system ''Manufacturer'', dv_ProductName = sget system ''Product'', dv_BIOSVendor = sget bios ''Vendor'',
          dv_PCIOutput = run ''/usr/sbin/prtconf'' [''-pv'']\<rparr>)"

section \<open>macOS, FreeBSD, OpenBSD\<close>

definition detectMacOSVirtualization :: "macOSSystemProfilerHardware \<Rightarrow> virtualization" where
  "detectMacOSVirtualization hardware =
     (if has_prefix (mh_ModelIdentifier hardware) ''VMware'' then virtual ''vmware''
      else if has_prefix (mh_BootROMVersion hardware) ''VirtualBox'' then virtual ''virtualbox''
      else if has_prefix (mh_SubsystemVendorID hardware) ''0x1ab8'' then virtual ''parallels''
      else physical)"

text \<open>Jailed, and the guest kind.\<close>

definition currentFreeBSDVirtualizationInput :: "(string \<Rightarrow> string list \<Rightarrow> string) \<Rightarrow> bool \<times> string" where
  "currentFreeBSDVirtualizationInput run =
     (trim_space (run ''sysctl'' [''-n'', ''security.jail.jailed'']) = ''1'', trim_space (run ''sysctl'' [''-n'', ''kern.vm_guest'']))"

definition detectFreeBSDVirtualization :: "bool \<times> string \<Rightarrow> virtualization" where
  "detectFreeBSDVirtualization input =
     (let (jailed, guest) = input
      in if jailed then virtual ''jail''
         else if guest = [] \<or> guest = ''none'' then physical
         else if guest = ''xen'' then virtual ''xenu'' else virtual guest)"

text \<open>Product name and vendor.\<close>

definition currentOpenBSDVirtualizationInput :: "(string \<Rightarrow> string list \<Rightarrow> string) \<Rightarrow> string \<times> string" where
  "currentOpenBSDVirtualizationInput run =
     (trim_space (run ''sysctl'' [''-n'', ''hw.product'']), trim_space (run ''sysctl'' [''-n'', ''hw.vendor'']))"

definition detectOpenBSDVirtualization :: "string \<times> string \<Rightarrow> virtualization" where
  "detectOpenBSDVirtualization input =
     (let (productName, vendor) = input
      in case mget openBSDProductHypervisors productName of
           Some name \<Rightarrow> if name \<noteq> [] then virtual name else physical
         | None \<Rightarrow>
             (let v = detectDMIHostVirtualization \<lparr>dv_Manufacturer = vendor, dv_ProductName = productName, dv_BIOSVendor = [], dv_PCIOutput = []\<rparr>
              in if vz_IsVirtual v then v else physical))"

section \<open>Windows\<close>

definition parseWindowsNetKVM :: "string \<Rightarrow> bool" where
  "parseWindowsNetKVM output \<longleftrightarrow> list_ex (\<lambda>line. equal_fold (trim_space line) ''netkvm'') (split_on NL output)"

definition parseWindowsOEMStrings :: "string gomap list \<Rightarrow> string list" where
  "parseWindowsOEMStrings records = filter (\<lambda>v. v \<noteq> []) (map (\<lambda>r. trim_space (sget r ''OEMStringArray'')) records)"

definition currentWindowsVirtualizationInput ::
  "string \<Rightarrow> (string \<Rightarrow> string list \<Rightarrow> string) \<Rightarrow> windowsVirtualizationInput" where
  "currentWindowsVirtualizationInput goos run =
     (if goos \<noteq> ''windows''
      then \<lparr>wi_Manufacturer = [], wi_Model = [], wi_OEMStrings = [], wi_BIOSManufacturer = [], wi_NetKVM = False, wi_WMIResult = False\<rparr>
      else let records = parseWindowsWMIRecords (windowsWMIOutput run ''computersystem'' ''Manufacturer,Model,OEMStringArray'');
               bios = parseWindowsWMIValues (windowsWMIOutput run ''bios'' ''Manufacturer'');
               netkvm = parseWindowsNetKVM (run ''reg''
                 [''query'', ''HKLM'' @ BSLASH # ''SYSTEM'' @ BSLASH # ''CurrentControlSet'' @ BSLASH # ''Services''])
           in case records of
                [] \<Rightarrow> \<lparr>wi_Manufacturer = [], wi_Model = [], wi_OEMStrings = [], wi_BIOSManufacturer = sget bios ''Manufacturer'',
                       wi_NetKVM = netkvm, wi_WMIResult = False\<rparr>
              | r # _ \<Rightarrow> \<lparr>wi_Manufacturer = sget r ''Manufacturer'', wi_Model = sget r ''Model'', wi_OEMStrings = parseWindowsOEMStrings records,
                       wi_BIOSManufacturer = sget bios ''Manufacturer'', wi_NetKVM = netkvm, wi_WMIResult = True\<rparr>)"

definition detectWindowsVirtualization :: "windowsVirtualizationInput \<Rightarrow> virtualization" where
  "detectWindowsVirtualization input =
     (if \<not> wi_WMIResult input \<and> wi_Manufacturer input = [] \<and> wi_Model input = [] \<and> wi_OEMStrings input = [] \<and>
         wi_BIOSManufacturer input = [] \<and> \<not> wi_NetKVM input
      then unknownVirtualization
      else let model = trim_space (wi_Model input); manufacturer = trim_space (wi_Manufacturer input);
               bios = trim_space (wi_BIOSManufacturer input);
               modelLower = to_lower model; manufacturerLower = to_lower manufacturer
           in if contains model ''VirtualBox'' then virtual ''virtualbox''
              else if contains model ''VMware'' then virtual ''vmware''
              else if contains model ''KVM'' then virtual ''kvm''
              else if contains model ''OpenStack'' then virtual ''openstack''
              else if contains model ''AHV'' then virtual ''ahv''
              else if model = ''Virtual Machine'' \<and> contains manufacturer ''Microsoft'' then virtual ''hyperv''
              else if contains manufacturer ''Xen'' then virtual ''xen''
              else if contains manufacturer ''Amazon EC2'' then virtual ''kvm''
              else if contains manufacturerLower ''qemu'' \<or> contains modelLower ''qemu'' \<or> contains modelLower ''standard pc (i440fx'' \<or>
                      contains (to_lower bios) ''seabios'' then virtual ''kvm''
              else if wi_NetKVM input \<and> contains bios ''Google'' then virtual ''gce''
              else if wi_NetKVM input then virtual ''kvm''
              else physical)"

definition windowsVirtualBoxInfo :: "string list \<Rightarrow> gval gomap" where
  "windowsVirtualBoxInfo oemStrings =
     foldl (\<lambda>info value.
        let info1 = (case cut_prefix value ''vboxVer_'' of Some version \<Rightarrow> mput ''version'' (GStr version) info | None \<Rightarrow> info)
        in case cut_prefix value ''vboxRev_'' of Some revision \<Rightarrow> mput ''revision'' (GStr revision) info1 | None \<Rightarrow> info1)
       [(''version'', GStr []), (''revision'', GStr [])] oemStrings"

definition windowsXenContext :: "string \<Rightarrow> string" where
  "windowsXenContext model = (if contains model ''HVM'' then ''hvm'' else ''pv'')"

definition windowsHypervisorFacts :: "windowsVirtualizationInput \<Rightarrow> ResolvedFact list" where
  "windowsHypervisorFacts input =
     (let name = vz_Name (detectWindowsVirtualization input)
      in if name = ''virtualbox'' then [core_fact ''hypervisors.virtualbox'' (GMap (windowsVirtualBoxInfo (wi_OEMStrings input)))]
         else if name = ''vmware'' then [core_fact ''hypervisors.vmware'' (GMap [])]
         else if name = ''openstack'' then [core_fact ''hypervisors.kvm'' (GMap [(''openstack'', GBool True)])]
         else if name = ''gce'' then [core_fact ''hypervisors.kvm'' (GMap [(''google'', GBool True)])]
         else if name = ''kvm'' then [core_fact ''hypervisors.kvm'' (GMap [])]
         else if name = ''hyperv'' then [core_fact ''hypervisors.hyperv'' (GMap [])]
         else if name = ''xen'' then [core_fact ''hypervisors.xen'' (GMap [(''context'', GStr (windowsXenContext (wi_Model input)))])]
         else [])"

definition currentWindowsHypervisorFacts :: "hostOS \<Rightarrow> ResolvedFact list" where
  "currentWindowsHypervisorFacts h =
     (if ho_goos h \<noteq> ''windows'' then [] else windowsHypervisorFacts (currentWindowsVirtualizationInput (ho_goos h) (ho_run h)))"

section \<open>Linux\<close>

definition containerRuntimeFromEnviron :: "string \<Rightarrow> string" where
  "containerRuntimeFromEnviron environ =
     (case find (\<lambda>e. has_prefix e ''container='') (split_on NUL environ) of None \<Rightarrow> [] | Some e \<Rightarrow> drop 10 e)"

definition vmwarePattern :: rx where
  "vmwarePattern = cats [lit ''Address:'', rx_space, Grp 1 (cats [lit ''0x'', Many (Chars is_alnum)])]"

definition firstRegexpCapture :: "rx \<Rightarrow> string \<Rightarrow> string" where
  "firstRegexpCapture pat input = (case FindSubmatch pat input of None \<Rightarrow> [] | Some m \<Rightarrow> grp m 1)"

text \<open>\<open>strconv.ParseInt(address, 0, 64)\<close> of \<open>0x\<close> and hexadecimal digits.\<close>

definition parse_hex_address :: "string \<Rightarrow> int option" where
  "parse_hex_address address =
     (let ds = drop 2 address
      in if ds = [] then None
         else case hex_prefix (length ds) 0 ds of None \<Rightarrow> None
              | Some (v, _) \<Rightarrow> if int v > max_int64 then None else Some (int v))"

definition parseDMIDecodeHypervisorInfo :: "string \<Rightarrow> dmiDecodeHypervisorInfo" where
  "parseDMIDecodeHypervisorInfo output =
     (let address = firstRegexpCapture vmwarePattern output
      in \<lparr>dd_VirtualBoxVersion = firstRegexpCapture (cats [lit ''vboxVer_'', Grp 1 (many1 rx_nonspace)]) output,
          dd_VirtualBoxRevision = firstRegexpCapture (cats [lit ''vboxRev_'', Grp 1 (many1 rx_nonspace)]) output,
          dd_VMwareVersion =
            (if address = [] then []
             else case parse_hex_address address of None \<Rightarrow> []
                  | Some value \<Rightarrow> (case map_of dmiDecodeVMwareVersions value of Some v \<Rightarrow> v | None \<Rightarrow> []))\<rparr>)"

definition procVZEntryCount :: "hostOS \<Rightarrow> string \<Rightarrow> nat" where
  "procVZEntryCount h path = (case ho_readDir h path of Inl e \<Rightarrow> 0 | Inr entries \<Rightarrow> length entries + 2)"

definition currentLinuxVirtualizationInput :: "hostOS \<Rightarrow> linuxVirtualizationInput" where
  "currentLinuxVirtualizationInput h =
     (let readFile = ho_readFile h; run = ho_run h; dmi = (\<lambda>name. readDMIString ''/sys/class/dmi/id'' name readFile)
      in \<lparr>lv_CGroup = readText ''/proc/1/cgroup'' readFile, lv_DockerEnv = fileExists h ''/.dockerenv'',
          lv_ContainerEnv = fileExists h ''/run/.containerenv'', lv_ProcVZ = dirExists h ''/proc/vz'',
          lv_LVEList = fileExists h ''/proc/lve/list'', lv_ProcVZEntries = procVZEntryCount h ''/proc/vz'',
          lv_ProcStatus = readText ''/proc/self/status'' readFile,
          lv_ContainerRuntime = containerRuntimeFromEnviron (readText ''/proc/1/environ'' readFile),
          lv_KernelVersion = probeKernelRelease h, lv_MachineID = trim_space (readText ''/etc/machine-id'' readFile),
          lv_DMIBIOSVendor = dmi ''bios_vendor'', lv_DMIProductName = dmi ''product_name'', lv_DMISysVendor = dmi ''sys_vendor'',
          lv_DMIDecodeInfo = parseDMIDecodeHypervisorInfo (run ''dmidecode'' []), lv_VirtWhatOutput = run ''virt-what'' [],
          lv_VMwareCommand = run ''vmware'' [''-v''], lv_LspciOutput = run ''lspci'' []\<rparr>)"

fun openVZEnvLine :: "string list \<Rightarrow> int option" where
  "openVZEnvLine [] = None"
| "openVZEnvLine (line # lines) =
     (let ws = string_fields line
      in if length ws \<noteq> 2 \<or> hd ws \<noteq> ''envID:'' then openVZEnvLine lines else atoi (ws ! 1))"

definition openVZEnvID :: "linuxVirtualizationInput \<Rightarrow> int option" where
  "openVZEnvID input =
     (if \<not> lv_ProcVZ input \<or> lv_LVEList input \<or> lv_ProcVZEntries input \<le> 2 then None
      else openVZEnvLine (split_on NL (lv_ProcStatus input)))"

definition openVZVirtualization :: "linuxVirtualizationInput \<Rightarrow> string" where
  "openVZVirtualization input =
     (case openVZEnvID input of None \<Rightarrow> [] | Some ident \<Rightarrow> if ident = 0 then ''openvzhn'' else ''openvzve'')"

definition vserverVirtualization :: "string \<Rightarrow> string" where
  "vserverVirtualization procStatus =
     (case find (\<lambda>ws. length ws = 2 \<and> (hd ws = ''s_context:'' \<or> hd ws = ''VxID:'')) (map string_fields (split_on NL procStatus)) of
        None \<Rightarrow> [] | Some ws \<Rightarrow> if ws ! 1 = ''0'' then ''vserver_host'' else ''vserver'')"

definition virtWhatVirtualization :: "string \<Rightarrow> string \<Rightarrow> string" where
  "virtWhatVirtualization output procStatus =
     (let words = (case find (\<lambda>w. w \<noteq> ''redhat'') (string_fields output) of
                     None \<Rightarrow> []
                   | Some w \<Rightarrow> if w = ''linux_vserver'' then vserverVirtualization procStatus else w)
      in if has_prefix output (''xen'' @ [NL])
         then (if contains output ''xen-domu'' then ''xenu'' else if contains output ''xen-hvm'' then ''xenhvm''
               else if contains output ''xen-dom0'' then ''xen0'' else words)
         else words)"

definition parseVMwareCommand :: "string \<Rightarrow> string" where
  "parseVMwareCommand output =
     (case string_fields output of [a, b] \<Rightarrow> to_lower a @ ''_'' @ to_lower b | _ \<Rightarrow> [])"

definition detectLinuxVirtualization :: "linuxVirtualizationInput \<Rightarrow> virtualization" where
  "detectLinuxVirtualization input =
     (let cgroup = to_lower (lv_CGroup input); runtime = lv_ContainerRuntime input;
          virtWhat = virtWhatVirtualization (lv_VirtWhatOutput input) (lv_ProcStatus input);
          dmi = detectDMIHostVirtualization \<lparr>dv_Manufacturer = lv_DMISysVendor input, dv_ProductName = lv_DMIProductName input,
                  dv_BIOSVendor = lv_DMIBIOSVendor input, dv_PCIOutput = lv_LspciOutput input\<rparr>
      in if lv_DockerEnv input then virtual ''docker''
         else if lv_ContainerEnv input then virtual ''podman''
         else if openVZVirtualization input \<noteq> [] then virtual (openVZVirtualization input)
         else if contains cgroup ''kubepods'' then virtual ''kubernetes''
         else if contains cgroup ''docker'' \<or> contains cgroup ''containerd'' then virtual ''docker''
         else if contains cgroup ''/lxc'' then virtual ''lxc''
         else if runtime = ''systemd-nspawn'' then virtual ''systemd_nspawn''
         else if runtime = ''lxc'' \<and> contains (lv_KernelVersion input) ''BrandZ virtual linux'' then virtual ''illumos-lx''
         else if runtime = ''lxc'' \<or> runtime = ''lxc-virtwhat'' then virtual runtime
         else if contains (lv_DMIBIOSVendor input) ''Google'' then virtual ''gce''
         else if virtWhat \<noteq> [] then virtual virtWhat
         else if vz_IsVirtual dmi then dmi
         else if parseVMwareCommand (lv_VMwareCommand input) \<noteq> [] then virtual (parseVMwareCommand (lv_VMwareCommand input))
         else if lspciHypervisor (lv_LspciOutput input) \<noteq> [] then virtual (lspciHypervisor (lv_LspciOutput input))
         else physical)"

definition lastCGroupPathSegment :: "string \<Rightarrow> string" where
  "lastCGroupPathSegment cgroup =
     (case find (\<lambda>line. trim_space line \<noteq> [] \<and> cut (trim_space line) '':/'' \<noteq> None) (split_on NL cgroup) of
        None \<Rightarrow> []
      | Some line \<Rightarrow> last (split_on SLASH (trim_both (after_cut (trim_space line) '':/'') [SLASH])))"

definition xenHypervisorInfo :: "string \<Rightarrow> gval gomap" where
  "xenHypervisorInfo vm =
     [(''context'', GStr (if vm = ''xenhvm'' then ''hvm'' else ''pv'')), (''privileged'', GBool (vm = ''xen0''))]"

definition stringEntries :: "(string \<times> string) list \<Rightarrow> gval gomap" where
  "stringEntries table = map (\<lambda>(k, v). (k, GStr v)) (filter (\<lambda>(k, v). v \<noteq> []) table)"

definition linuxHypervisorFacts :: "linuxVirtualizationInput \<Rightarrow> ResolvedFact list" where
  "linuxHypervisorFacts input =
     (let cgroup = to_lower (lv_CGroup input); runtime = lv_ContainerRuntime input; info = lv_DMIDecodeInfo input;
          virtWhat = virtWhatVirtualization (lv_VirtWhatOutput input) (lv_ProcStatus input);
          lspci = lspciHypervisor (lv_LspciOutput input);
          segment = GStr (lastCGroupPathSegment (lv_CGroup input))
      in case openVZEnvID input of
           Some ident \<Rightarrow> [core_fact ''hypervisors.openvz'' (GMap [(''id'', GInt ident), (''host'', GBool (ident = 0))])]
         | None \<Rightarrow>
             if lv_DockerEnv input \<or> lv_ContainerEnv input
             then [core_fact ''hypervisors.docker'' (GMap []), core_fact ''hypervisors.lxc'' GNil, core_fact ''hypervisors.systemd_nspawn'' GNil]
             else if runtime = ''systemd-nspawn''
             then [core_fact ''hypervisors.systemd_nspawn'' (GMap (stringEntries [(''id'', lv_MachineID input)]))]
             else if runtime = ''lxc'' \<or> runtime = ''lxc-virtwhat''
             then [core_fact (''hypervisors.'' @ runtime) (GMap []), core_fact ''hypervisors.docker'' GNil]
             else if contains cgroup ''/lxc''
             then [core_fact ''hypervisors.lxc'' (GMap [(''name'', segment)]), core_fact ''hypervisors.docker'' GNil]
             else if contains cgroup ''docker'' \<or> contains cgroup ''containerd'' \<or> contains cgroup ''kubepods''
             then [core_fact ''hypervisors.docker'' (GMap [(''id'', segment)])]
             else if lv_DMIProductName input = ''VirtualBox'' \<or> contains virtWhat ''virtualbox''
             then [core_fact ''hypervisors.virtualbox''
                     (GMap (stringEntries [(''version'', dd_VirtualBoxVersion info), (''revision'', dd_VirtualBoxRevision info)]))]
             else if lv_DMIProductName input = ''VMware'' \<or> lv_DMISysVendor input = ''VMware, Inc.'' \<or> virtWhat = ''vmware''
             then [core_fact ''hypervisors.vmware'' (GMap (stringEntries [(''version'', dd_VMwareVersion info)]))]
             else if contains (lv_DMISysVendor input) ''Microsoft'' \<or> lv_DMIProductName input = ''Virtual Machine''
             then [core_fact ''hypervisors.hyperv'' (GMap [])]
             else if contains virtWhat ''xen'' then [core_fact ''hypervisors.xen'' (GMap (xenHypervisorInfo virtWhat))]
             else if virtWhat = ''kvm'' then [core_fact ''hypervisors.kvm'' (GMap [])]
             else if lspci = ''virtualbox'' then [core_fact ''hypervisors.virtualbox'' (GMap [])]
             else if lspci = ''vmware'' then [core_fact ''hypervisors.vmware'' (GMap [])]
             else if lspci = ''kvm'' then [core_fact ''hypervisors.kvm'' (GMap [])]
             else if lspci = ''xenhvm'' then [core_fact ''hypervisors.xen'' (GMap [])]
             else [core_fact ''hypervisors.openvz'' GNil, core_fact ''hypervisors.docker'' GNil, core_fact ''hypervisors.lxc'' GNil,
                   core_fact ''hypervisors.systemd_nspawn'' GNil])"

definition currentLinuxHypervisorFacts :: "hostOS \<Rightarrow> ResolvedFact list" where
  "currentLinuxHypervisorFacts h =
     (if ho_goos h \<noteq> ''linux'' then [] else linuxHypervisorFacts (currentLinuxVirtualizationInput h))"

section \<open>The virtualization of the host\<close>

definition detectVirtualization :: "hostOS \<Rightarrow> virtualization" where
  "detectVirtualization h =
     (let goos = ho_goos h; run = ho_run h
      in if goos = ''linux'' then detectLinuxVirtualization (currentLinuxVirtualizationInput h)
         else if goos = ''darwin'' then detectMacOSVirtualization (probeMacOSSystemProfilerHardware h)
         else if goos = ''freebsd'' then detectFreeBSDVirtualization (currentFreeBSDVirtualizationInput run)
         else if goos = ''openbsd'' then detectOpenBSDVirtualization (currentOpenBSDVirtualizationInput run)
         else if goos = ''netbsd'' then detectDMIHostVirtualization (currentNetBSDVirtualizationInput run)
         else if goos = ''dragonfly'' then detectDMIHostVirtualization (currentDragonFlyVirtualizationInput run)
         else if goos = ''illumos'' then detectDMIHostVirtualization (currentIllumosVirtualizationInput run)
         else if goos = ''windows'' then detectWindowsVirtualization (currentWindowsVirtualizationInput goos run)
         else if goos = ''plan9'' then unknownVirtualization
         else physical)"

section \<open>Xen\<close>

definition detectXenVMFromSignals :: "bool \<Rightarrow> bool \<Rightarrow> bool \<Rightarrow> bool \<Rightarrow> string" where
  "detectXenVMFromSignals evtchn procXen xvda1 xvda1Symlink =
     (if evtchn then ''xen0'' else if procXen \<or> (xvda1 \<and> \<not> xvda1Symlink) then ''xenu'' else [])"

definition detectXenVM :: "hostOS \<Rightarrow> string" where
  "detectXenVM h =
     (if ho_goos h \<noteq> ''linux'' then []
      else if contains (readFileString ''/proc/xen/capabilities'' (ho_readFile h)) ''control_d'' then ''xen0''
      else detectXenVMFromSignals (fileExists h ''/dev/xen/evtchn'') (dirExists h ''/proc/xen'') (fileExists h ''/dev/xvda1'')
             (isSymlink ''/dev/xvda1'' (ho_lstat h)))"

definition selectXenCommand :: "(string \<Rightarrow> bool) \<Rightarrow> string" where
  "selectXenCommand exists =
     (let commands = [''/usr/sbin/xl'', ''/usr/sbin/xm'']; toolstack = ''/usr/lib/xen-common/bin/xen-toolstack''
      in if length (filter exists commands) > 1 \<and> exists toolstack then toolstack
         else case find exists commands of Some c \<Rightarrow> c | None \<Rightarrow> [])"

definition parseXenDomains :: "string \<Rightarrow> string list" where
  "parseXenDomains out =
     map hd (filter (\<lambda>ws. ws \<noteq> [] \<and> hd ws \<noteq> ''Name'' \<and> hd ws \<noteq> ''Domain-0'') (map string_fields (split_on NL out)))"

text \<open>No command, or no output, gives a nil list; \<open>xenFacts\<close> makes it the empty one.\<close>

definition detectXenDomains :: "hostOS \<Rightarrow> string list" where
  "detectXenDomains h =
     (let bin = selectXenCommand (fileExists h)
      in if bin = [] then [] else let out = ho_run h bin [''list''] in if out = [] then [] else parseXenDomains out)"

definition xenFacts :: "string \<Rightarrow> string list \<Rightarrow> ResolvedFact list" where
  "xenFacts vm domains =
     (if vm \<noteq> ''xen0'' then [core_fact ''xen'' GNil] else [core_fact ''xen'' (GMap [(''domains'', GStrs domains)])])"

definition xenCoreFacts :: "hostOS \<Rightarrow> ResolvedFact list" where
  "xenCoreFacts h =
     (let vm = detectXenVM h in xenFacts vm (if vm = ''xen0'' then detectXenDomains h else []))"

section \<open>Lemmas\<close>

text \<open>The shapes of a result: nothing known, physical, or virtual under a name.\<close>

definition shaped :: "virtualization \<Rightarrow> bool" where
  "shaped v \<longleftrightarrow> v = unknownVirtualization \<or> v = physical \<or> (\<exists>name. name \<noteq> [] \<and> v = virtual name)"

named_theorems shaped_intro \<open>results that have a shape\<close>

lemma shaped_simps [simp, shaped_intro]:
  "shaped unknownVirtualization" "shaped physical" "name \<noteq> [] \<Longrightarrow> shaped (virtual name)"
  by (auto simp: shaped_def)

lemma shaped_DMIHost [shaped_intro]: "shaped (detectDMIHostVirtualization input)"
  by (simp add: detectDMIHostVirtualization_def Let_def)

lemma shaped_MacOS [shaped_intro]: "shaped (detectMacOSVirtualization hw)"
  by (simp add: detectMacOSVirtualization_def)

lemma shaped_FreeBSD [shaped_intro]: "shaped (detectFreeBSDVirtualization input)"
  by (simp add: detectFreeBSDVirtualization_def split: prod.split)

lemma shaped_OpenBSD [shaped_intro]: "shaped (detectOpenBSDVirtualization input)"
  by (simp add: detectOpenBSDVirtualization_def shaped_DMIHost Let_def split: prod.split option.split)

lemma shaped_Windows [shaped_intro]: "shaped (detectWindowsVirtualization input)"
  by (simp add: detectWindowsVirtualization_def Let_def)

lemma shaped_Linux [shaped_intro]: "shaped (detectLinuxVirtualization input)"
  by (auto simp: detectLinuxVirtualization_def shaped_DMIHost Let_def)

lemma shaped_detect [shaped_intro]: "shaped (detectVirtualization h)"
  by (simp add: detectVirtualization_def shaped_intro Let_def)

section \<open>Properties\<close>

text \<open>C28: The facts \<open>virtual\<close> and \<open>is_virtual\<close> agree on every host and for every output of its probes: both are
  nil, or the name is physical and the flag false, or the name is not empty and the flag true.\<close>

theorem virtual_facts_agree:
  "case virtualizationFactValues (detectVirtualization h) of (name, flag) \<Rightarrow>
     (name = GNil \<and> flag = GNil) \<or> (name = GStr ''physical'' \<and> flag = GBool False) \<or>
     (\<exists>s. s \<noteq> [] \<and> name = GStr s \<and> flag = GBool True)"
  using shaped_detect [of h]
  by (auto simp: shaped_def virtualizationFactValues_def physical_def unknownVirtualization_def virtual_def)

text \<open>On Linux a container is reported before anything its host shows: with \<open>/.dockerenv\<close> the name is
  docker and the structured fact is \<open>hypervisors.docker\<close>, unless the OpenVZ signals are there as
  well, which the name leaves aside and the structured fact takes first.\<close>

lemma docker_first:
  "case currentLinuxVirtualizationInput h of input \<Rightarrow>
     if \<not> fileExists h ''/.dockerenv'' then True
     else detectLinuxVirtualization input = virtual ''docker'' \<and>
       (case openVZEnvID input of
          None \<Rightarrow> mget (map (\<lambda>f. (rf_Name f, rf_Value f)) (linuxHypervisorFacts input)) ''hypervisors.docker'' = Some (GMap [])
        | Some ident \<Rightarrow> map rf_Name (linuxHypervisorFacts input) = [''hypervisors.openvz''])"
proof -
  have "lv_DockerEnv (currentLinuxVirtualizationInput h) = fileExists h ''/.dockerenv''"
    by (simp add: currentLinuxVirtualizationInput_def Let_def)
  then show ?thesis by (auto simp: detectLinuxVirtualization_def linuxHypervisorFacts_def Let_def split: option.splits)
qed

end
