(* ===== verification/Uptime.thy ===== *)
theory Uptime
  imports Virtual
begin

text \<open>
  \<open>internal/engine/uptime.go\<close> and the uptime functions of \<open>plan9.go\<close>: the uptime of every platform as a
  duration in nanoseconds, its text, and the load averages. A duration is an \<open>int64\<close>: its
  products wrap, the difference of two times saturates. Diagnostics are left out.
\<close>

section \<open>Durations\<close>

record uptimeInfo =
  up_Duration :: int
  up_Known :: bool

definition no_uptime :: uptimeInfo where
  "no_uptime = \<lparr>up_Duration = 0, up_Known = False\<rparr>"

definition known_seconds :: "int \<Rightarrow> uptimeInfo" where
  "known_seconds seconds = \<lparr>up_Duration = wrap64 (seconds * 1000000000), up_Known = True\<rparr>"

text \<open>\<open>Hours\<close>, \<open>Minutes\<close> and \<open>Seconds\<close> of a duration, cut to an integer: the whole units plus the double
  of the fraction, added as doubles.\<close>

definition in_units :: "nat \<Rightarrow> int \<Rightarrow> int" where
  "in_units unit d =
     (let n = nat \<bar>d\<bar>; (a, b) = fl_quot (n mod unit) unit in sgn d * fl_trunc (fl_quot (n div unit * b + a) b))"

definition hours_of :: "int \<Rightarrow> int" where "hours_of = in_units 3600000000000"
definition minutes_of :: "int \<Rightarrow> int" where "minutes_of = in_units 60000000000"
definition seconds_of :: "int \<Rightarrow> int" where "seconds_of = in_units 1000000000"

definition go_mod :: "int \<Rightarrow> int \<Rightarrow> int" where "go_mod a b = a - go_div a b * b"

definition pad2 :: "int \<Rightarrow> string" where
  "pad2 n = (let t = itoa n in if length t < 2 then CHR ''0'' # t else t)"

definition uptimeString :: "uptimeInfo \<Rightarrow> string" where
  "uptimeString uptime =
     (if \<not> up_Known uptime then ''unknown''
      else let totalHours = hours_of (up_Duration uptime); days = go_div totalHours 24
           in if days = 0 then itoa totalHours @ '':'' @ pad2 (go_mod (minutes_of (up_Duration uptime)) 60) @ '' hours''
              else if days = 1 then ''1 day'' else itoa days @ '' days'')"

section \<open>Texts\<close>

definition clock_parts :: "string list \<Rightarrow> int list option" where
  "clock_parts parts = (if list_all (\<lambda>p. atoi p \<noteq> None) parts then Some (map (\<lambda>p. the (atoi p)) parts) else None)"

text \<open>\<open>[[dd-]hh:]mm:ss\<close> of \<open>ps\<close>, or seconds alone.\<close>

definition parseDockerElapsedTimeSeconds :: "string \<Rightarrow> int" where
  "parseDockerElapsedTimeSeconds input0 =
     (let input = trim_space input0
      in if input = [] then 0
         else case (case cut input ''-'' of None \<Rightarrow> Some (0, input)
                    | Some (before, after) \<Rightarrow> map_option (\<lambda>days. (days, after)) (atoi before)) of
                None \<Rightarrow> 0
              | Some (days, rest) \<Rightarrow>
                  (case clock_parts (split_on (CHR '':'') rest) of
                     Some [s] \<Rightarrow> wrap64 (days * 86400 + s)
                   | Some [m, s] \<Rightarrow> wrap64 (days * 86400 + m * 60 + s)
                   | Some [h, m, s] \<Rightarrow> wrap64 (days * 86400 + h * 3600 + m * 60 + s)
                   | _ \<Rightarrow> 0))"

definition parseUptimeHoursMinutes :: "string \<Rightarrow> (int \<times> int) option" where
  "parseUptimeHoursMinutes input =
     (case cut input '':'' of None \<Rightarrow> None
      | Some (hours, minutes) \<Rightarrow>
          (case (atoi hours, atoi minutes) of (Some h, Some m) \<Rightarrow> Some (h, m) | _ \<Rightarrow> None))"

definition unit_seconds :: "string \<Rightarrow> int option" where
  "unit_seconds w =
     (if w \<in> set [''day'', ''days''] then Some 86400
      else if w \<in> set [''hr'', ''hrs'', ''hr(s)'', ''hour'', ''hours'', ''hour(s)''] then Some 3600
      else if w \<in> set [''min'', ''mins'', ''min(s)'', ''minute'', ''minutes'', ''minute(s)''] then Some 60
      else None)"

text \<open>The words after \<open>up\<close>: a clock, hours and minutes, or a number and its unit add to the sum; the
  users and the load end it.\<close>

fun uptimeWords :: "int \<Rightarrow> string list \<Rightarrow> int" where
  "uptimeWords seconds [] = seconds"
| "uptimeWords seconds (field # rest) =
     (if field \<in> set [''user'', ''users'', ''load'', ''loadavg''] then seconds
      else if length (filter (\<lambda>c. c = CHR '':'') field) = 2 \<and> parseDockerElapsedTimeSeconds field > 0
      then uptimeWords (wrap64 (seconds + parseDockerElapsedTimeSeconds field)) rest
      else case parseUptimeHoursMinutes field of
             Some (hours, minutes) \<Rightarrow> uptimeWords (wrap64 (seconds + (hours * 3600 + minutes * 60))) rest
           | None \<Rightarrow>
               (case rest of [] \<Rightarrow> seconds
                | w # rest' \<Rightarrow>
                    (case atoi field of None \<Rightarrow> uptimeWords seconds rest
                     | Some value \<Rightarrow>
                         (case unit_seconds w of
                            Some n \<Rightarrow> uptimeWords (wrap64 (seconds + value * n)) rest'
                          | None \<Rightarrow> if w \<in> set [''user'', ''users''] then seconds else uptimeWords seconds rest))))"

definition parseUptimeCommandSeconds :: "string \<Rightarrow> int" where
  "parseUptimeCommandSeconds input =
     (case cut input '' up '' of None \<Rightarrow> 0
      | Some (_, duration) \<Rightarrow> uptimeWords 0 (string_fields (replace_all duration '','' '' '')))"

section \<open>Windows times\<close>

text \<open>Days from the first of January of the year 1 in the proleptic Gregorian calendar.\<close>

definition leap :: "int \<Rightarrow> bool" where
  "leap y \<longleftrightarrow> y mod 4 = 0 \<and> (y mod 100 \<noteq> 0 \<or> y mod 400 = 0)"

definition month_days :: "int \<Rightarrow> int \<Rightarrow> int" where
  "month_days y m = (if m = 2 then (if leap y then 29 else 28) else if m \<in> set [4, 6, 9, 11] then 30 else 31)"

definition days_before :: "int \<Rightarrow> int \<Rightarrow> int \<Rightarrow> int" where
  "days_before y m d =
     365 * (y - 1) + (y - 1) div 4 - (y - 1) div 100 + (y - 1) div 400 + sum_list (map (month_days y) [1 .. m - 1]) + (d - 1)"

definition number_at :: "string \<Rightarrow> nat \<Rightarrow> nat \<Rightarrow> int" where
  "number_at s i n = dec_val (take n (drop i s))"

text \<open>\<open>time.Parse("20060102150405-0700", s)\<close>, as seconds: fourteen digits, a sign and four digits, each
  number within its range.\<close>

definition parse_wmi_layout :: "string \<Rightarrow> int option" where
  "parse_wmi_layout s =
     (let y = number_at s 0 4; mo = number_at s 4 2; d = number_at s 6 2; hh = number_at s 8 2; mi = number_at s 10 2;
          ss = number_at s 12 2; zh = number_at s 15 2; zm = number_at s 17 2; sign = s ! 14
      in if length s = 19 \<and> list_all is_digit (take 14 s) \<and> list_all is_digit (drop 15 s) \<and> sign \<in> set ''+-'' \<and>
            1 \<le> mo \<and> mo \<le> 12 \<and> 1 \<le> d \<and> d \<le> month_days y mo \<and> hh < 24 \<and> mi < 60 \<and> ss < 60 \<and> zh \<le> 24 \<and> zm \<le> 60
         then Some (days_before y mo d * 86400 + hh * 3600 + mi * 60 + ss -
                (if sign = CHR ''-'' then -1 else 1) * (zh * 3600 + zm * 60))
         else None)"

definition windowsWMIOffset :: "string \<Rightarrow> string option" where
  "windowsWMIOffset offset =
     (if length offset \<ge> 5 then Some (take 5 offset)
      else if length offset \<noteq> 4 then None
      else case atoi (drop 1 offset) of None \<Rightarrow> None
           | Some minutes \<Rightarrow> Some (take 1 offset @ pad2 (go_div minutes 60) @ pad2 (go_mod minutes 60)))"

definition parseWindowsWMITime :: "string \<Rightarrow> int option" where
  "parseWindowsWMITime value0 =
     (let value = trim_space value0; date = take 14 value; offset0 = drop 14 value
      in if length value < 14 then None
         else case (if has_prefix offset0 ''.''
                    then (let signed = dropWhile (\<lambda>c. c \<notin> set ''+-'') offset0 in if signed = [] then None else Some signed)
                    else Some offset0) of
                None \<Rightarrow> None
              | Some offset1 \<Rightarrow>
                  (case windowsWMIOffset offset1 of None \<Rightarrow> None | Some offset \<Rightarrow> parse_wmi_layout (date @ offset)))"

text \<open>The difference of two times: a duration cannot exceed its type.\<close>

definition saturate64 :: "int \<Rightarrow> int" where
  "saturate64 n = max min_int64 (min max_int64 n)"

definition currentWindowsUptime :: "hostOS \<Rightarrow> uptimeInfo" where
  "currentWindowsUptime h =
     (if ho_goos h \<noteq> ''windows'' then no_uptime
      else let values = parseWindowsWMIValues (windowsWMIOutput (ho_run h) ''os'' ''LocalDateTime,LastBootUpTime'')
           in case (parseWindowsWMITime (sget values ''LocalDateTime''), parseWindowsWMITime (sget values ''LastBootUpTime'')) of
                (Some local, Some boot) \<Rightarrow>
                  (let uptime = saturate64 ((local - boot) * 1000000000)
                   in if uptime \<le> 0 then no_uptime else \<lparr>up_Duration = uptime, up_Known = True\<rparr>)
              | _ \<Rightarrow> no_uptime)"

section \<open>The uptime of the host\<close>

text \<open>The double of the first number times a second; a negative one counts as none.\<close>

definition uptimeFromProc :: "(string \<Rightarrow> goerror + string) \<Rightarrow> int" where
  "uptimeFromProc readFile =
     (case readFile ''/proc/uptime'' of Inl e \<Rightarrow> 0
      | Inr data \<Rightarrow>
          (case string_fields data of [] \<Rightarrow> 0
           | w # _ \<Rightarrow>
               (case parse_float w of None \<Rightarrow> 0
                | Some (neg, a, b) \<Rightarrow>
                    (let n = fl_trunc (fl_times (fl_quot a b) 1000000000) in if neg \<and> n \<noteq> min_int64 then - n else n))))"

definition uptimeFromKernelBoottime :: "string \<Rightarrow> int \<Rightarrow> int" where
  "uptimeFromKernelBoottime input now =
     (case cut input ''sec = '' of None \<Rightarrow> 0
      | Some (_, rest) \<Rightarrow>
          (case cut rest '','' of None \<Rightarrow> 0
           | Some (number, _) \<Rightarrow>
               (case parse_int number of None \<Rightarrow> 0 | Some boot \<Rightarrow> saturate64 (now - boot * 1000000000))))"

definition currentPosixUptime :: "hostOS \<Rightarrow> int \<Rightarrow> uptimeInfo" where
  "currentPosixUptime h now =
     (let proc = uptimeFromProc (ho_readFile h);
          boot = uptimeFromKernelBoottime (ho_run h ''sysctl'' [''-n'', ''kern.boottime'']) now;
          seconds = parseUptimeCommandSeconds (ho_run h ''uptime'' [])
      in if proc > 0 then \<lparr>up_Duration = proc, up_Known = True\<rparr>
         else if boot > 0 then \<lparr>up_Duration = boot, up_Known = True\<rparr>
         else if seconds > 0 then known_seconds seconds
         else no_uptime)"

definition linuxContainerUptimeUsesPID1 :: "string \<Rightarrow> bool" where
  "linuxContainerUptimeUsesPID1 name \<longleftrightarrow> name = ''docker'' \<or> name = ''kubernetes''"

definition currentLinuxUptimeInfo :: "hostOS \<Rightarrow> int \<Rightarrow> bool \<Rightarrow> uptimeInfo" where
  "currentLinuxUptimeInfo h now docker =
     (let seconds = parseDockerElapsedTimeSeconds (ho_run h ''ps'' [''-o'', ''etime='', ''-p'', ''1''])
      in if docker \<and> seconds > 0 then known_seconds seconds else currentPosixUptime h now)"

definition currentPlan9Uptime :: "(string \<Rightarrow> string list \<Rightarrow> string) \<Rightarrow> uptimeInfo" where
  "currentPlan9Uptime run =
     (let seconds = parseUptimeCommandSeconds (run ''uptime'' []) in if seconds \<le> 0 then no_uptime else known_seconds seconds)"

definition currentUptimeInfo :: "hostOS \<Rightarrow> int \<Rightarrow> uptimeInfo" where
  "currentUptimeInfo h now =
     (if ho_goos h = ''windows'' then currentWindowsUptime h
      else if ho_goos h = ''plan9'' then currentPlan9Uptime (ho_run h)
      else if ho_goos h = ''linux'' then
        currentLinuxUptimeInfo h now
          (linuxContainerUptimeUsesPID1 (vz_Name (detectLinuxVirtualization (currentLinuxVirtualizationInput h))))
      else currentPosixUptime h now)"

section \<open>Load averages\<close>

definition emptyLoadAverages :: gval where
  "emptyLoadAverages = GMap [(''1m'', GNil), (''5m'', GNil), (''15m'', GNil)]"

definition float_value :: "bool \<times> nat \<times> nat \<Rightarrow> gval" where
  "float_value x = (let (neg, a, b) = x in GFloat ((if neg then ''-'' else []) @ format_shortest (fl_quot a b)))"

definition parseLoadAverages :: "string \<Rightarrow> gval" where
  "parseLoadAverages input =
     (case string_fields (trim_both input (''{} '' @ [CHR 0x09, CHR 0x0D, NL])) of
        a # b # c # _ \<Rightarrow>
          (case (parse_float a, parse_float b, parse_float c) of
             (Some x, Some y, Some z) \<Rightarrow> GMap [(''1m'', float_value x), (''5m'', float_value y), (''15m'', float_value z)]
           | _ \<Rightarrow> emptyLoadAverages)
      | _ \<Rightarrow> emptyLoadAverages)"

definition parseIllumosLoadAverages :: "string \<Rightarrow> gval" where
  "parseIllumosLoadAverages input =
     (case cut input ''load average:'' of None \<Rightarrow> emptyLoadAverages
      | Some (_, after) \<Rightarrow> parseLoadAverages (replace_all after '','' '' ''))"

definition currentLoadAverages :: "hostOS \<Rightarrow> gval" where
  "currentLoadAverages h =
     (let goos = ho_goos h
      in if goos \<in> set [''darwin'', ''freebsd'', ''netbsd'', ''openbsd'', ''dragonfly''] then
           (let out = ho_run h ''sysctl'' [''-n'', ''vm.loadavg''] in if out = [] then emptyLoadAverages else parseLoadAverages out)
         else if goos = ''illumos'' then
           (let out = ho_run h ''uptime'' [] in if out = [] then emptyLoadAverages else parseIllumosLoadAverages out)
         else if goos = ''linux'' then
           (case ho_readFile h ''/proc/loadavg'' of Inl e \<Rightarrow> emptyLoadAverages | Inr data \<Rightarrow> parseLoadAverages data)
         else if goos = ''plan9'' then GMap []
         else emptyLoadAverages)"

section \<open>The facts\<close>

definition uptimeNumbers :: "uptimeInfo \<Rightarrow> ResolvedFact list" where
  "uptimeNumbers uptime =
     [core_fact ''system_uptime.days'' (GInt64 (go_div (hours_of (up_Duration uptime)) 24)),
      core_fact ''system_uptime.hours'' (GInt64 (hours_of (up_Duration uptime))),
      core_fact ''system_uptime.seconds'' (GInt64 (seconds_of (up_Duration uptime)))]"

definition uptimeFacts :: "uptimeInfo \<Rightarrow> gval \<Rightarrow> ResolvedFact list" where
  "uptimeFacts uptime loadAverages =
     [core_fact ''load_averages'' loadAverages] @
     (if up_Known uptime then uptimeNumbers uptime else []) @
     [core_fact ''system_uptime.uptime'' (GStr (uptimeString uptime))]"

definition plan9UptimeCoreFacts :: "uptimeInfo \<Rightarrow> ResolvedFact list" where
  "plan9UptimeCoreFacts uptime =
     (if \<not> up_Known uptime then []
      else uptimeNumbers uptime @ [core_fact ''system_uptime.uptime'' (GStr (uptimeString uptime))])"

definition uptimeCoreFacts :: "hostOS \<Rightarrow> ResolvedFact list" where
  "uptimeCoreFacts h =
     (let uptime = currentUptimeInfo h (rt_now (ho_runtime h))
      in if ho_goos h = ''plan9'' then plan9UptimeCoreFacts uptime else uptimeFacts uptime (currentLoadAverages h))"

section \<open>Lemmas\<close>

lemma in_units_exact:
  assumes "0 < unit" "n mod unit * 4096 \<le> 4095 * unit" "n div unit < 2 ^ 40"
  shows "in_units unit (int n) = int (n div unit)"
proof -
  let ?q = "n div unit"
  obtain a b where f: "fl_quot (n mod unit) unit = (a, b)" by (cases "fl_quot (n mod unit) unit")
  have b: "0 < b" using fl_quot_pos [of "n mod unit" unit] f by simp
  have a: "a * 2 ^ 12 \<le> 4095 * b" using fl_quot_le [of 4095 unit "n mod unit" 12] assms(1,2) f by simp
  obtain A B where g: "fl_quot (?q * b + a) b = (A, B)" by (cases "fl_quot (?q * b + a) b")
  have B: "0 < B" using fl_quot_pos [of "?q * b + a" b] g by simp
  have "(?q * b + a) * 2 ^ 12 \<le> (?q * 4096 + 4095) * b" using a by (simp add: algebra_simps)
  moreover have "?q * 4096 + 4095 < 2 ^ 53" using assms(3) by simp
  ultimately have "A * 2 ^ 12 \<le> (?q * 4096 + 4095) * B"
    using fl_quot_le [of "?q * 4096 + 4095" b "?q * b + a" 12] b g by simp
  then have "A * 4096 < (?q + 1) * B * 4096" using B by (simp add: algebra_simps)
  then have up: "A < (?q + 1) * B" by simp
  have "?q * B \<le> A" using fl_quot_ge [of ?q b "?q * b + a" 0] b g assms(3) by simp
  with up B have "A div B = ?q" by (intro div_nat_eqI) (simp_all add: mult.commute)
  moreover have "int ?q \<le> max_int64" using assms(3) by simp
  ultimately show ?thesis using assms(1) by (cases "n = 0") (simp_all add: in_units_def f g fl_trunc_def)
qed

lemma whole_seconds_unit:
  assumes "k \<in> {1, 60, 3600}" "s < 2 ^ 34"
  shows "in_units (k * 1000000000) (int s * 1000000000) = int (s div k)"
proof -
  have "s mod k * 4096 \<le> 4095 * k"
  proof -
    have "0 < k" using assms(1) by auto
    then have "s mod k < k" by (rule mod_less_divisor)
    then have "s mod k * 4096 \<le> (k - 1) * 4096" by simp
    also have "\<dots> \<le> 4095 * k" using assms(1) by (elim insertE) simp_all
    finally show ?thesis .
  qed
  then have "(s * 1000000000) mod (k * 1000000000) * 4096 \<le> 4095 * (k * 1000000000)" by simp
  moreover have "s div k < 2 ^ 40" by (rule le_less_trans [OF div_le_dividend less_trans [OF assms(2)]]) simp
  then have "(s * 1000000000) div (k * 1000000000) < 2 ^ 40" by simp
  ultimately have "in_units (k * 1000000000) (int (s * 1000000000)) = int ((s * 1000000000) div (k * 1000000000))"
    using assms(1) by (intro in_units_exact) auto
  then show ?thesis by simp
qed

section \<open>Properties\<close>

text \<open>C29: For an uptime of whole seconds, as the \<open>uptime\<close> and \<open>ps\<close> commands give it, the facts are exact: the
  seconds come back, hours and days are their integer quotients, although the code goes
  through the doubles of the duration's \<open>Hours\<close> and \<open>Seconds\<close>.\<close>

theorem uptimeNumbers_exact:
  assumes "0 \<le> s" "s \<le> 9223372036"
  shows "uptimeNumbers (known_seconds s) =
    [core_fact ''system_uptime.days'' (GInt64 (s div 86400)), core_fact ''system_uptime.hours'' (GInt64 (s div 3600)),
     core_fact ''system_uptime.seconds'' (GInt64 s)]"
proof -
  obtain n where s: "s = int n" using assms(1) nonneg_int_cases by blast
  have n: "n < 2 ^ 34" using assms(2) by (simp add: s)
  have w: "wrap64 (int n * 1000000000) = int n * 1000000000" using assms(2) by (intro wrap64_id) (simp add: in_int64_def s)
  have "hours_of (int n * 1000000000) = int (n div 3600)" "seconds_of (int n * 1000000000) = int n"
    using whole_seconds_unit [of 3600 n] whole_seconds_unit [of 1 n] n by (simp_all add: hours_of_def seconds_of_def)
  moreover have "go_div (int (n div 3600)) 24 = int n div 86400"
    by (simp add: go_div_def sgn_if zdiv_int div_mult2_eq [symmetric] flip: zdiv_zmult2_eq)
  ultimately show ?thesis by (simp add: uptimeNumbers_def known_seconds_def s w zdiv_int)
qed

theorem uptimeNumbers_exact_witness:
  "uptimeNumbers (known_seconds 360060) =
    [core_fact ''system_uptime.days'' (GInt64 4), core_fact ''system_uptime.hours'' (GInt64 100),
     core_fact ''system_uptime.seconds'' (GInt64 360060)]"
  using uptimeNumbers_exact [of 360060] by simp

lemma pad2_digits:
  assumes "0 \<le> n" "n < 100"
  shows "pad2 n \<noteq> []" "list_all is_digit (pad2 n)" "dec_val (pad2 n) = n"
proof -
  have "dec_val (CHR ''0'' # ds) = dec_val ds" for ds by (simp add: dec_val_def digit_val_def)
  moreover have "is_digit (CHR ''0'')" by (simp add: is_digit_def)
  ultimately show "pad2 n \<noteq> []" "list_all is_digit (pad2 n)" "dec_val (pad2 n) = n"
    using assms by (simp_all add: pad2_def itoa_def Let_def)
qed

lemma atoi_pad2: "0 \<le> n \<Longrightarrow> n < 100 \<Longrightarrow> atoi (pad2 n) = Some n"
  using parse_int_digits [of "pad2 n"] by (simp add: pad2_digits in_int64_def)

lemma digits_no_char: "list_all is_digit s \<Longrightarrow> \<not> is_digit c \<Longrightarrow> c \<notin> set s"
  by (auto simp: list_all_iff)

lemma digits_not_space: "list_all is_digit s \<Longrightarrow> s \<noteq> [] \<Longrightarrow> \<not> is_space (hd s) \<and> \<not> is_space (last s)"
proof -
  assume d: "list_all is_digit s" "s \<noteq> []"
  have "\<not> is_space c" if "is_digit c" for c using that by (auto simp: is_digit_def is_space_def)
  with d show ?thesis by (simp add: list_all_iff)
qed

text \<open>The elapsed time that \<open>ps\<close> prints for process 1, days, hours, minutes and seconds, reads back as the
  number of seconds.\<close>

lemma parseDockerElapsedTimeSeconds_roundtrip:
  assumes "0 \<le> d" "d \<le> 100000000" "0 \<le> h" "h < 24" "0 \<le> m" "m < 60" "0 \<le> s" "s < 60"
  shows "parseDockerElapsedTimeSeconds (itoa d @ ''-'' @ pad2 h @ '':'' @ pad2 m @ '':'' @ pad2 s) = d * 86400 + h * 3600 + m * 60 + s"
proof -
  have dg: "itoa d = itoa_nat (nat d)" using assms(1) by (simp add: itoa_def)
  let ?clock = "pad2 h @ CHR '':'' # pad2 m @ CHR '':'' # pad2 s"
  have nd: "\<not> is_digit (CHR '':'')" "\<not> is_digit (CHR ''-'')" by (simp_all add: is_digit_def)
  have p: "pad2 x \<noteq> []" "list_all is_digit (pad2 x)" "CHR '':'' \<notin> set (pad2 x)" if "x \<in> {h, m, s}" for x
    using that assms pad2_digits [of x] digits_no_char [of "pad2 x" "CHR '':''"] nd by auto
  have "split_on (CHR '':'') ?clock = [pad2 h, pad2 m, pad2 s]" using p by (simp add: split_on_append_sep split_on_no_sep)
  moreover have "cut (itoa d @ CHR ''-'' # ?clock) ''-'' = Some (itoa d, ?clock)"
    using digits_no_char [of "itoa_nat (nat d)" "CHR ''-''"] nd by (intro cut_at) (simp add: dg)
  moreover have "trim_space (itoa d @ CHR ''-'' # ?clock) = itoa d @ CHR ''-'' # ?clock"
    using digits_not_space [of "itoa_nat (nat d)"] digits_not_space [of "pad2 s"] p [of s] by (intro trim_space_id) (simp add: dg)
  moreover have "wrap64 (d * 86400 + h * 3600 + m * 60 + s) = d * 86400 + h * 3600 + m * 60 + s"
    using assms by (intro wrap64_id) (simp add: in_int64_def)
  ultimately show ?thesis
    using assms by (simp add: parseDockerElapsedTimeSeconds_def parse_int_itoa in_int64_def clock_parts_def atoi_pad2)
qed

lemma parseDockerElapsedTimeSeconds_roundtrip_witness:
  "parseDockerElapsedTimeSeconds (itoa 2 @ ''-'' @ pad2 3 @ '':'' @ pad2 4 @ '':'' @ pad2 5) = 183845"
  using parseDockerElapsedTimeSeconds_roundtrip [of 2 3 4 5] by simp

end
