(* ===== verification/Processors.thy ===== *)
theory Processors
  imports Uptime
begin

text \<open>
  \<open>internal/engine/processors.go\<close> and the processor functions of \<open>plan9.go\<close>: counts, topology, models, speed
  and instruction-set levels from each platform's reports. Sums wrap at 64 bits where the code's
  do. Diagnostics are left out.
\<close>

section \<open>Data\<close>

record processorInfo =
  pi_ISA :: string
  pi_SpeedHz :: int
  pi_Models :: "string list"
  pi_LogicalCount :: int
  pi_PhysicalCount :: int
  pi_CoresPerSocket :: int
  pi_ThreadsPerCore :: int

definition no_processors :: processorInfo where
  "no_processors = \<lparr>pi_ISA = [], pi_SpeedHz = 0, pi_Models = [], pi_LogicalCount = 0, pi_PhysicalCount = 0,
     pi_CoresPerSocket = 0, pi_ThreadsPerCore = 0\<rparr>"

section \<open>Windows\<close>

definition windowsProcessorISA :: "string \<Rightarrow> string" where
  "windowsProcessorISA architecture =
     (case map_of [(''0'', ''x86''), (''1'', ''MIPS''), (''2'', ''Alpha''), (''3'', ''PowerPC''), (''5'', ''ARM''), (''6'', ''Itanium''),
                   (''9'', ''x64'')] (trim_space architecture) of
        Some isa \<Rightarrow> isa | None \<Rightarrow> [])"

definition positive_atoi :: "string \<Rightarrow> int" where
  "positive_atoi s = (case atoi s of Some n \<Rightarrow> if n > 0 then n else 0 | None \<Rightarrow> 0)"

definition wrapped_sum :: "int list \<Rightarrow> int" where
  "wrapped_sum xs = foldl (\<lambda>a x. wrap64 (a + x)) 0 xs"

definition parseWindowsProcessors :: "string \<Rightarrow> processorInfo" where
  "parseWindowsProcessors input =
     (let records = parseWindowsWMIRecords input; count = int (length records);
          logicalTotal = wrapped_sum (map (\<lambda>r. positive_atoi (sget r ''NumberOfLogicalProcessors'')) records);
          coreTotal = wrapped_sum (map (\<lambda>r. positive_atoi (sget r ''NumberOfCores'')) records);
          logical = (if logicalTotal > 0 then logicalTotal else count);
          cores = (if coreTotal > 0 then max 1 (go_div coreTotal count) else 0)
      in if records = [] then no_processors
         else \<lparr>pi_ISA = firstNonEmptyValue (map (\<lambda>r. windowsProcessorISA (sget r ''Architecture'')) records), pi_SpeedHz = 0,
               pi_Models = map (\<lambda>r. sget r ''Name'') records, pi_LogicalCount = logical, pi_PhysicalCount = count,
               pi_CoresPerSocket = cores,
               pi_ThreadsPerCore = (if cores > 0 then max 1 (go_div logical (wrap64 (count * cores))) else 0)\<rparr>)"

definition currentWindowsProcessors :: "string \<Rightarrow> (string \<Rightarrow> string list \<Rightarrow> string) \<Rightarrow> processorInfo" where
  "currentWindowsProcessors goos run =
     (if goos \<noteq> ''windows'' then no_processors
      else parseWindowsProcessors (windowsWMIOutput run ''cpu'' ''Name,Architecture,NumberOfLogicalProcessors,NumberOfCores''))"

section \<open>macOS and the BSDs\<close>

definition model_copies :: "int \<Rightarrow> string \<Rightarrow> string list" where
  "model_copies n model = (if n > 0 \<and> model \<noteq> [] then replicate (nat n) model else [])"

definition parseDarwinProcessors :: "string \<Rightarrow> processorInfo" where
  "parseDarwinProcessors input =
     (let v = sget (foldl addColonLine [] (split_on NL input));
          logical = positiveInt (v ''hw.logicalcpu_max''); cores = positiveInt (v ''machdep.cpu.core_count'');
          threads = positiveInt (v ''machdep.cpu.thread_count'')
      in \<lparr>pi_ISA = [], pi_SpeedHz = positiveInt (v ''hw.cpufrequency_max''),
          pi_Models = model_copies logical (trim_space (v ''machdep.cpu.brand_string'')), pi_LogicalCount = logical,
          pi_PhysicalCount = positiveInt (v ''hw.physicalcpu_max''), pi_CoresPerSocket = cores,
          pi_ThreadsPerCore = (if cores > 0 \<and> threads > 0 then max 1 (go_div threads cores) else 0)\<rparr>)"

definition parseFreeBSDProcessors :: "string \<Rightarrow> string \<Rightarrow> string \<Rightarrow> processorInfo" where
  "parseFreeBSDProcessors countOutput modelOutput speedOutput =
     (let logical = positiveInt countOutput
      in \<lparr>pi_ISA = [], pi_SpeedHz = wrap64 (positiveInt speedOutput * 1000000),
          pi_Models = model_copies logical (trim_space modelOutput), pi_LogicalCount = logical, pi_PhysicalCount = 0,
          pi_CoresPerSocket = logical, pi_ThreadsPerCore = (if logical > 0 then 1 else 0)\<rparr>)"

section \<open>illumos\<close>

definition lastField :: "string \<Rightarrow> string" where
  "lastField s = (let ws = string_fields s in if ws = [] then [] else last ws)"

text \<open>The number before a word in the line that introduces a processor.\<close>

definition countBefore :: "string \<Rightarrow> string \<Rightarrow> int" where
  "countBefore line w =
     (case cut_prefix line ''The physical processor has '' of None \<Rightarrow> 0
      | Some after \<Rightarrow> (case cut after w of None \<Rightarrow> 0 | Some (before, _) \<Rightarrow> positiveInt (lastField before)))"

definition illumosVirtualProcessorCount :: "string \<Rightarrow> int" where
  "illumosVirtualProcessorCount line = countBefore line '' virtual processor''"

definition illumosCoreCount :: "string \<Rightarrow> int" where
  "illumosCoreCount line = countBefore line '' core''"

definition illumosClockMHz :: "string \<Rightarrow> int" where
  "illumosClockMHz line =
     (case cut line '' clock '' of None \<Rightarrow> 0 | Some (_, after) \<Rightarrow> positiveInt (before_cut after '' MHz''))"

record illumosState =
  is_info :: processorInfo
  is_wantModel :: bool
  is_coreTotal :: int
  is_nextModelCount :: int

definition illumosLine :: "illumosState \<Rightarrow> string \<Rightarrow> illumosState" where
  "illumosLine st line0 =
     (let line = trim_space line0; info = is_info st; count = illumosVirtualProcessorCount line; clock = illumosClockMHz line
      in if line = [] then st
         else if has_prefix line ''The physical processor has ''
         then st\<lparr>is_info := info\<lparr>pi_PhysicalCount := wrap64 (pi_PhysicalCount info + 1),
                     pi_LogicalCount := wrap64 (pi_LogicalCount info + count)\<rparr>,
                 is_nextModelCount := (if count > 0 then count else 1),
                 is_coreTotal := wrap64 (is_coreTotal st + illumosCoreCount line)\<rparr>
         else if clock > 0
         then st\<lparr>is_info := info\<lparr>pi_SpeedHz := wrap64 (clock * 1000000),
                     pi_ISA := (if pi_ISA info = [] then hd (string_fields line) else pi_ISA info)\<rparr>,
                 is_wantModel := True\<rparr>
         else if is_wantModel st
         then st\<lparr>is_info := info\<lparr>pi_Models := pi_Models info @ replicate (nat (is_nextModelCount st)) line\<rparr>,
                 is_nextModelCount := 1, is_wantModel := False\<rparr>
         else st)"

definition parseIllumosProcessors :: "string \<Rightarrow> processorInfo" where
  "parseIllumosProcessors input =
     (let st = foldl illumosLine \<lparr>is_info = no_processors, is_wantModel = False, is_coreTotal = 0, is_nextModelCount = 1\<rparr>
                 (split_on NL input);
          info0 = is_info st;
          logical = (if pi_LogicalCount info0 = 0 \<and> pi_Models info0 \<noteq> [] then int (length (pi_Models info0)) else pi_LogicalCount info0);
          sockets = (if pi_PhysicalCount info0 = 0 \<and> logical > 0 then 1 else pi_PhysicalCount info0);
          info = info0\<lparr>pi_LogicalCount := logical, pi_PhysicalCount := sockets\<rparr>;
          cores = max 1 (go_div (is_coreTotal st) sockets)
      in if logical > 0 \<and> sockets > 0
         then (if is_coreTotal st > 0
               then info\<lparr>pi_CoresPerSocket := cores, pi_ThreadsPerCore := max 1 (go_div logical (wrap64 (sockets * cores)))\<rparr>
               else info\<lparr>pi_CoresPerSocket := max 1 (go_div logical sockets), pi_ThreadsPerCore := 1\<rparr>)
         else info)"

section \<open>Plan 9\<close>

definition plan9ProcessorISA :: "(string \<Rightarrow> goerror + string) \<Rightarrow> string \<Rightarrow> string" where
  "plan9ProcessorISA readFile fallback =
     firstNonEmptyValue [plan9EnvValue ''/env/cputype'' readFile, plan9EnvValue ''/env/objtype'' readFile, fallback]"

definition parsePlan9SysstatProcessorCount :: "string \<Rightarrow> int" where
  "parsePlan9SysstatProcessorCount input = int (length (filter (\<lambda>line. trim_space line \<noteq> []) (split_on NL input)))"

text \<open>The words up to the last number.\<close>

definition archctlModel :: "string list \<Rightarrow> string" where
  "archctlModel ws =
     (let upto = rev (dropWhile (\<lambda>w. atoi w = None) (rev ws)) in join '' '' (if upto = [] then ws else upto))"

definition parsePlan9ArchctlCPUModel :: "string \<Rightarrow> string" where
  "parsePlan9ArchctlCPUModel input =
     (case find (\<lambda>line. has_prefix line ''cpu '') (map trim_space (split_on NL input)) of
        None \<Rightarrow> [] | Some line \<Rightarrow> archctlModel (string_fields (drop 4 line)))"

definition parsePlan9ProcessorModels :: "string \<Rightarrow> string \<Rightarrow> int \<Rightarrow> string list" where
  "parsePlan9ProcessorModels cputype archctl n =
     (let model = firstNonEmptyValue [plan9CleanString cputype, parsePlan9ArchctlCPUModel archctl]
      in if model = [] then [] else replicate (nat (if n \<le> 0 then 1 else n)) model)"

definition currentPlan9ProcessorInfo :: "(string \<Rightarrow> goerror + string) \<Rightarrow> processorInfo" where
  "currentPlan9ProcessorInfo readFile =
     (let count = parsePlan9SysstatProcessorCount (readText ''/dev/sysstat'' readFile)
      in no_processors\<lparr>pi_LogicalCount := count,
           pi_Models := parsePlan9ProcessorModels (readText ''/dev/cputype'' readFile) (readText ''/dev/archctl'' readFile) count\<rparr>)"

definition plan9ProcessorsCoreFacts :: "processorInfo \<Rightarrow> string \<Rightarrow> ResolvedFact list" where
  "plan9ProcessorsCoreFacts info isa =
     (if pi_LogicalCount info > 0 then [core_fact ''processors.count'' (GInt (pi_LogicalCount info))] else []) @
     (if isa \<noteq> [] then [core_fact ''processors.isa'' (GStr isa)] else []) @
     (if pi_Models info \<noteq> [] then [core_fact ''processors.models'' (GStrs (pi_Models info))] else [])"

section \<open>Linux\<close>

record topologyState =
  ts_cores :: int
  ts_siblings :: int
  ts_threads :: int

text \<open>The first line after which cores and threads, or cores and siblings, are known ends the search.\<close>

fun linuxTopology :: "topologyState \<Rightarrow> string list \<Rightarrow> int \<times> int" where
  "linuxTopology st [] = (0, 0)"
| "linuxTopology st (line # lines) =
     (case cut line '':'' of None \<Rightarrow> linuxTopology st lines
      | Some (key0, value) \<Rightarrow>
          (let key = trim_space key0; n = atoi_value (trim_space value);
               st' = (if key = ''cpu cores'' \<or> key = squoted ''Cores(s) per socket'' \<or> key = ''Core(s) per socket'' \<or> key = ''Cores(s) per socket''
                      then st\<lparr>ts_cores := n\<rparr>
                      else if key = ''siblings'' then st\<lparr>ts_siblings := n\<rparr>
                      else if key = squoted ''Thread(s) per core'' \<or> key = ''Thread(s) per core'' then st\<lparr>ts_threads := n\<rparr>
                      else st)
           in if ts_cores st' > 0 \<and> ts_threads st' > 0 then (ts_cores st', ts_threads st')
              else if ts_cores st' > 0 \<and> ts_siblings st' > 0 then (ts_cores st', max 1 (go_div (ts_siblings st') (ts_cores st')))
              else linuxTopology st' lines))"

definition parseLinuxProcessorTopology :: "string \<Rightarrow> int \<times> int" where
  "parseLinuxProcessorTopology input = linuxTopology \<lparr>ts_cores = 0, ts_siblings = 0, ts_threads = 0\<rparr> (split_on NL input)"

text \<open>The values of a key of \<open>/proc/cpuinfo\<close>.\<close>

definition cpuinfoValues :: "string list \<Rightarrow> string \<Rightarrow> string list" where
  "cpuinfoValues wanted input =
     concat (map (\<lambda>line. case cut line '':'' of None \<Rightarrow> []
        | Some (key, value) \<Rightarrow> if trim_space key \<in> set wanted then [trim_space value] else []) (split_on NL input))"

definition linuxCPUEntryName :: "string \<Rightarrow> bool" where
  "linuxCPUEntryName name \<longleftrightarrow>
     (if \<not> has_prefix name ''cpu'' \<or> length name = 3 then False else list_all is_digit (drop 3 name))"

definition linuxProcessorPhysicalCount :: "string \<Rightarrow> hostOS \<Rightarrow> int" where
  "linuxProcessorPhysicalCount cpuinfo h =
     (let ids = filter (\<lambda>v. v \<noteq> []) (cpuinfoValues [''physical id''] cpuinfo)
      in if ids \<noteq> [] then int (length (remdups ids))
         else case ho_readDir h ''/sys/devices/system/cpu'' of Inl e \<Rightarrow> 0
              | Inr entries \<Rightarrow>
                  int (length (remdups (filter (\<lambda>v. v \<noteq> []) (concat (map (\<lambda>(name, _).
                    if \<not> linuxCPUEntryName name then []
                    else case ho_readFile h (''/sys/devices/system/cpu/'' @ name @ ''/topology/physical_package_id'') of
                           Inl e \<Rightarrow> [] | Inr data \<Rightarrow> [trim_space data]) entries))))))"

definition parseLinuxProcessorModels :: "string \<Rightarrow> string list" where
  "parseLinuxProcessorModels input = filter (\<lambda>v. v \<noteq> []) (cpuinfoValues [''model name'', ''cpu''] input)"

definition containsAll :: "string list \<Rightarrow> string list \<Rightarrow> bool" where
  "containsAll haystack needles \<longleftrightarrow> list_all (\<lambda>n. n \<in> set haystack) needles"

definition sortedProcessorExtensions :: "string list \<Rightarrow> string list" where
  "sortedProcessorExtensions extensions = sort (remdups (filter (\<lambda>e. e \<noteq> []) extensions))"

definition x86_levels :: "(string list \<times> string) list" where
  "x86_levels =
     [([''cmov'', ''cx8'', ''fpu'', ''fxsr'', ''lm'', ''mmx'', ''syscall'', ''sse2''], ''x86_64-v1''),
      ([''cx16'', ''lahf_lm'', ''popcnt'', ''sse4_1'', ''sse4_2'', ''ssse3''], ''x86_64-v2''),
      ([''abm'', ''avx'', ''avx2'', ''bmi1'', ''bmi2'', ''f16c'', ''fma'', ''movbe'', ''xsave''], ''x86_64-v3''),
      ([''avx512f'', ''avx512bw'', ''avx512cd'', ''avx512dq'', ''avx512vl''], ''x86_64-v4'')]"

definition parseLinuxProcessorExtensions :: "string \<Rightarrow> string \<Rightarrow> string list" where
  "parseLinuxProcessorExtensions input architecture =
     (if architecture \<noteq> ''x86_64'' then sortedProcessorExtensions [architecture]
      else sortedProcessorExtensions (architecture # concat (map (\<lambda>flags.
             map snd (filter (\<lambda>(needles, level). containsAll (string_fields flags) needles) x86_levels))
             (cpuinfoValues [''flags''] input))))"

section \<open>Speed\<close>

text \<open>A positive double in hertz, divided by 1000 while it is at least 1000 and a larger unit is left.\<close>

fun scaleHertz :: "nat \<times> nat \<Rightarrow> string list \<Rightarrow> string" where
  "scaleHertz value [] = []"
| "scaleHertz value [u] = format_fixed2 value @ '' '' @ u"
| "scaleHertz value (u # w # us) =
     (if fst value \<ge> 1000 * snd value then scaleHertz (fl_over value 1000) (w # us) else format_fixed2 value @ '' '' @ u)"

definition hertzUnits :: "string list" where
  "hertzUnits = [''Hz'', ''kHz'', ''MHz'', ''GHz'', ''THz'']"

definition hertzToHumanReadable :: "int \<Rightarrow> string" where
  "hertzToHumanReadable hz = (if hz \<le> 0 then [] else scaleHertz (fl_int (nat hz), 1) hertzUnits)"

definition parseLinuxProcessorSpeed :: "string \<Rightarrow> string" where
  "parseLinuxProcessorSpeed input =
     (case cpuinfoValues [''cpu MHz''] input of [] \<Rightarrow> []
      | v # _ \<Rightarrow>
          (case parse_float v of None \<Rightarrow> []
           | Some (neg, a, b) \<Rightarrow> if neg \<or> a = 0 then [] else hertzToHumanReadable (fl_trunc (fl_times (fl_quot a b) 1000000))))"

definition processorSpeedFacts :: "string \<Rightarrow> ResolvedFact list" where
  "processorSpeedFacts speed = (if speed = [] then [] else [core_fact ''processors.speed'' (GStr speed)])"

section \<open>The probes and the facts\<close>

definition currentProcessorInfo :: "string \<Rightarrow> (string \<Rightarrow> string list \<Rightarrow> string) \<Rightarrow> processorInfo" where
  "currentProcessorInfo goos run =
     (let sysctl = (\<lambda>name. run ''sysctl'' [''-n'', name])
      in if goos = ''darwin'' then
           parseDarwinProcessors (run ''sysctl'' [''hw.logicalcpu_max'', ''hw.physicalcpu_max'', ''machdep.cpu.brand_string'',
             ''hw.cpufrequency_max'', ''machdep.cpu.core_count'', ''machdep.cpu.thread_count''])
         else if goos = ''freebsd'' \<or> goos = ''dragonfly'' then
           parseFreeBSDProcessors (sysctl ''hw.ncpu'') (sysctl ''hw.model'') (sysctl ''hw.clockrate'')
         else if goos = ''netbsd'' \<or> goos = ''openbsd'' then
           parseFreeBSDProcessors (sysctl ''hw.ncpu'') (sysctl ''hw.model'') (sysctl ''hw.cpuspeed'')
         else if goos = ''illumos'' then parseIllumosProcessors (run ''psrinfo'' [''-pv''])
         else if goos = ''windows'' then currentWindowsProcessors goos run
         else no_processors)"

definition probePlatformProcessorInfo :: "hostOS \<Rightarrow> processorInfo" where
  "probePlatformProcessorInfo h =
     (if ho_goos h = ''plan9'' then currentPlan9ProcessorInfo (ho_readFile h) else currentProcessorInfo (ho_goos h) (ho_run h))"

definition currentProcessorISA :: "hostOS \<Rightarrow> string \<Rightarrow> string" where
  "currentProcessorISA h fallback =
     (if ho_goos h = ''windows'' then firstNonEmptyValue [pi_ISA (probePlatformProcessorInfo h), fallback]
      else if ho_goos h = ''plan9'' then plan9ProcessorISA (ho_readFile h) fallback
      else let processor = trim_space (ho_run h ''uname'' [''-p''])
           in if processor = [] \<or> processor = ''unknown'' then fallback else processor)"

definition cpuinfo_text :: "hostOS \<Rightarrow> string" where
  "cpuinfo_text h = readText ''/proc/cpuinfo'' (ho_readFile h)"

definition probeProcessorSpeed :: "hostOS \<Rightarrow> string" where
  "probeProcessorSpeed h =
     (if ho_goos h \<in> set [''darwin'', ''freebsd'', ''dragonfly'', ''netbsd'', ''openbsd'', ''illumos'']
      then hertzToHumanReadable (pi_SpeedHz (probePlatformProcessorInfo h))
      else if ho_goos h = ''linux'' then parseLinuxProcessorSpeed (cpuinfo_text h)
      else [])"

definition reported_platforms :: "string list" where
  "reported_platforms = [''darwin'', ''freebsd'', ''netbsd'', ''openbsd'', ''dragonfly'', ''illumos'', ''windows'']"

definition probeProcessorModels :: "hostOS \<Rightarrow> string list" where
  "probeProcessorModels h =
     (let models = (if ho_goos h = ''linux'' then parseLinuxProcessorModels (cpuinfo_text h)
                    else if ho_goos h \<in> set (''plan9'' # reported_platforms) then pi_Models (probePlatformProcessorInfo h) else [])
      in if models \<noteq> [] then models else [architectureName h (probeHardwareModel h)])"

definition probeProcessorTopology :: "hostOS \<Rightarrow> int \<times> int" where
  "probeProcessorTopology h =
     (let logical = (if rt_NumCPU (ho_runtime h) \<le> 0 then 1 else rt_NumCPU (ho_runtime h)); info = probePlatformProcessorInfo h;
          (cores, threads) = (if ho_goos h = ''linux'' then parseLinuxProcessorTopology (cpuinfo_text h)
            else if ho_goos h \<in> set reported_platforms then (pi_CoresPerSocket info, pi_ThreadsPerCore info) else (0, 0))
      in if cores > 0 \<and> threads > 0 then (cores, threads) else (logical, 1))"

definition probeProcessorExtensions :: "hostOS \<Rightarrow> string list" where
  "probeProcessorExtensions h =
     (let architecture = architectureName h (probeHardwareModel h)
      in if ho_goos h \<noteq> ''linux'' then sortedProcessorExtensions [architecture]
         else case ho_readFile h ''/proc/cpuinfo'' of
                Inl e \<Rightarrow> sortedProcessorExtensions [architecture]
              | Inr data \<Rightarrow> parseLinuxProcessorExtensions data architecture)"

definition processorsCoreFacts :: "hostOS \<Rightarrow> ResolvedFact list" where
  "processorsCoreFacts h =
     (let goos = ho_goos h; architecture = architectureName h (probeHardwareModel h); isa = currentProcessorISA h architecture
      in if goos = ''plan9'' then plan9ProcessorsCoreFacts (probePlatformProcessorInfo h) isa
         else let info0 = (if goos \<in> set reported_platforms then probePlatformProcessorInfo h else no_processors);
                  info = (if goos = ''linux'' then info0\<lparr>pi_PhysicalCount := linuxProcessorPhysicalCount (cpuinfo_text h) h\<rparr> else info0);
                  count = (if pi_LogicalCount info > 0 then pi_LogicalCount info else rt_NumCPU (ho_runtime h));
                  sockets = (if pi_PhysicalCount info > 0 then pi_PhysicalCount info else count);
                  (cores, threads) = probeProcessorTopology h
              in [core_fact ''processors.count'' (GInt count), core_fact ''processors.cores'' (GInt cores),
                  core_fact ''processors.extensions'' (GStrs (probeProcessorExtensions h)), core_fact ''processors.isa'' (GStr isa),
                  core_fact ''processors.models'' (GStrs (probeProcessorModels h)),
                  core_fact ''processors.physicalcount'' (GInt sockets), core_fact ''processors.threads'' (GInt threads)] @
                 processorSpeedFacts (probeProcessorSpeed h))"

section \<open>Properties\<close>

text \<open>Whatever the reports say, a core has at least one thread and a socket at least one core: a report that
  gives no positive numbers is replaced by the processor count of the run-time system.\<close>

lemma probeProcessorTopology_positive:
  "case probeProcessorTopology h of (cores, threads) \<Rightarrow> 1 \<le> cores \<and> 1 \<le> threads"
  by (auto simp: probeProcessorTopology_def Let_def split: prod.split)

lemma sortedProcessorExtensions_spec:
  "sorted (sortedProcessorExtensions es)" "distinct (sortedProcessorExtensions es)"
  "set (sortedProcessorExtensions es) = set es - {[]}"
  by (auto simp: sortedProcessorExtensions_def)

lemma set_levels:
  "set (concat (map (\<lambda>flags. map snd (filter (\<lambda>(needles, level). containsAll (string_fields flags) needles) ls)) fs)) =
    {level. \<exists>needles. (needles, level) \<in> set ls \<and> (\<exists>flags \<in> set fs. set needles \<subseteq> set (string_fields flags))}"
  by (auto simp: containsAll_def list_all_iff subset_iff image_iff) (metis case_prodI fst_conv snd_conv)+

text \<open>The extensions are a sorted list without repetition, whose elements are the architecture and, on
  an x86-64 Linux only, the levels all of whose flags some processor lists.\<close>

lemma probeProcessorExtensions_spec:
  "case (probeProcessorExtensions h, architectureName h (probeHardwareModel h)) of (es, arch) \<Rightarrow>
     sorted es \<and> distinct es \<and>
     set es = ({arch} \<union>
       (if ho_goos h = ''linux'' \<and> arch = ''x86_64''
        then {level. \<exists>needles. (needles, level) \<in> set x86_levels \<and>
               (\<exists>flags \<in> set (cpuinfoValues [''flags''] (cpuinfo_text h)). set needles \<subseteq> set (string_fields flags))}
        else {})) - {[]}"
proof (cases "ho_readFile h ''/proc/cpuinfo''")
  case (Inl e)
  have "cpuinfoValues [''flags''] [] = []" by (simp add: cpuinfoValues_def cut_def)
  then show ?thesis
    by (simp add: Inl probeProcessorExtensions_def sortedProcessorExtensions_spec cpuinfo_text_def readText_def Let_def)
next
  case (Inr data)
  then show ?thesis
    by (simp only: probeProcessorExtensions_def parseLinuxProcessorExtensions_def cpuinfo_text_def readText_def Let_def)
      (simp add: sortedProcessorExtensions_spec set_levels del: set_concat set_map set_filter)
qed

end
