(* ===== verification/Host_Facts.thy ===== *)
theory Host_Facts
  imports Processors
begin

text \<open>
  The smaller resolvers of \<open>internal/engine\<close>: \<open>dmi.go\<close>, \<open>identity.go\<close>, \<open>ssh.go\<close>, \<open>selinux.go\<close>, \<open>augeas.go\<close>, \<open>fips.go\<close>,
  \<open>timezone.go\<close> and \<open>proc.go\<close>. Diagnostics are left out.
\<close>

section \<open>DMI\<close>

text \<open>The entries of a map whose values are not empty.\<close>

definition mapFromValues :: "string gomap \<Rightarrow> (string \<times> string) list \<Rightarrow> gval gomap" where
  "mapFromValues source names = stringEntries (map (\<lambda>(key, name). (key, trim_space (sget source name))) names)"

definition chassisTypes :: "string list" where
  "chassisTypes =
     [''Other'', ''Unknown'', ''Desktop'', ''Low Profile Desktop'', ''Pizza Box'', ''Mini Tower'', ''Tower'', ''Portable'', ''Laptop'', ''Notebook'',
      ''Hand Held'', ''Docking Station'', ''All in One'', ''Sub Notebook'', ''Space-Saving'', ''Lunch Box'', ''Main System Chassis'',
      ''Expansion Chassis'', ''SubChassis'', ''Bus Expansion Chassis'', ''Peripheral Chassis'', ''Storage Chassis'', ''Rack Mount Chassis'',
      ''Sealed-Case PC'', ''Multi-system'', ''CompactPCI'', ''AdvancedTCA'', ''Blade'', ''Blade Enclosure'', ''Tablet'', ''Convertible'',
      ''Detachable'', ''IoT Gateway'', ''Embedded PC'', ''Mini PC'', ''Stick PC'']"

definition dmiChassisTypeName :: "string \<Rightarrow> string" where
  "dmiChassisTypeName value =
     (case atoi value of None \<Rightarrow> value
      | Some n \<Rightarrow> if n < 1 \<or> n > int (length chassisTypes) then value else chassisTypes ! nat (n - 1))"

definition mapFromDMI :: "string \<Rightarrow> (string \<times> string) list \<Rightarrow> (string \<Rightarrow> goerror + string) \<Rightarrow> gval gomap" where
  "mapFromDMI root names readFile =
     stringEntries (map (\<lambda>(key, filename). let value = readDMIString root filename readFile
        in (key, if value \<noteq> [] \<and> filename = ''chassis_type'' then dmiChassisTypeName value else value)) names)"

definition map_section :: "string \<Rightarrow> gval gomap \<Rightarrow> gval gomap" where
  "map_section name m = (if m = [] then [] else [(name, GMap m)])"

definition dmiFact :: "string \<Rightarrow> (string \<Rightarrow> goerror + string) \<Rightarrow> gval gomap" where
  "dmiFact root readFile =
     map_section ''bios'' (mapFromDMI root [(''vendor'', ''bios_vendor''), (''version'', ''bios_version''), (''release_date'', ''bios_date'')] readFile) @
     map_section ''board'' (mapFromDMI root [(''manufacturer'', ''board_vendor''), (''product'', ''board_name''),
       (''serial_number'', ''board_serial''), (''asset_tag'', ''board_asset_tag'')] readFile) @
     map_section ''chassis'' (mapFromDMI root [(''type'', ''chassis_type''), (''asset_tag'', ''chassis_asset_tag'')] readFile) @
     map_section ''product'' (mapFromDMI root [(''name'', ''product_name''), (''version'', ''product_version''),
       (''serial_number'', ''product_serial''), (''uuid'', ''product_uuid'')] readFile) @
     stringEntries [(''manufacturer'', readDMIString root ''sys_vendor'' readFile)]"

definition dmiFacts :: "gval gomap \<Rightarrow> ResolvedFact list" where
  "dmiFacts dmi = (if dmi = [] then [] else [core_fact ''dmi'' (GMap dmi)])"

definition dmiBIOSVendor :: "gval gomap \<Rightarrow> string" where
  "dmiBIOSVendor dmi =
     (case mget dmi ''bios'' of Some (GMap bios) \<Rightarrow> (case mget bios ''vendor'' of Some (GStr vendor) \<Rightarrow> vendor | _ \<Rightarrow> []) | _ \<Rightarrow> [])"

definition freeBSDDMIKeys :: "string list" where
  "freeBSDDMIKeys = [''smbios.bios.reldate'', ''smbios.bios.vendor'', ''smbios.bios.version'', ''smbios.system.maker'',
     ''smbios.system.product'', ''smbios.system.serial'', ''smbios.system.uuid'']"

definition openBSDDMIKeys :: "string list" where
  "openBSDDMIKeys = [''hw.vendor'', ''hw.product'', ''hw.version'', ''hw.serialno'', ''hw.uuid'']"

definition netBSDDMIKeys :: "string list" where
  "netBSDDMIKeys = [''machdep.dmi.system-vendor'', ''machdep.dmi.system-product'', ''machdep.dmi.system-version'',
     ''machdep.dmi.system-serial'', ''machdep.dmi.system-uuid'']"

text \<open>The map that the platform resolvers put together.\<close>

definition dmiSections :: "gval gomap \<Rightarrow> gval gomap \<Rightarrow> gval gomap \<Rightarrow> string \<Rightarrow> gval gomap" where
  "dmiSections bios chassis product manufacturer =
     map_section ''bios'' bios @ map_section ''chassis'' chassis @ map_section ''product'' product @
     stringEntries [(''manufacturer'', trim_space manufacturer)]"

definition freeBSDDMIFacts :: "string gomap \<Rightarrow> ResolvedFact list" where
  "freeBSDDMIFacts values =
     dmiFacts (dmiSections
       (mapFromValues values [(''vendor'', ''smbios.bios.vendor''), (''version'', ''smbios.bios.version''), (''release_date'', ''smbios.bios.reldate'')])
       [] (mapFromValues values [(''name'', ''smbios.system.product''), (''serial_number'', ''smbios.system.serial''), (''uuid'', ''smbios.system.uuid'')])
       (sget values ''smbios.system.maker''))"

definition openBSDDMIFacts :: "string gomap \<Rightarrow> ResolvedFact list" where
  "openBSDDMIFacts values =
     dmiFacts (dmiSections (mapFromValues values [(''vendor'', ''hw.vendor''), (''version'', ''hw.version'')])
       [] (mapFromValues values [(''name'', ''hw.product''), (''serial_number'', ''hw.serialno''), (''uuid'', ''hw.uuid''), (''version'', ''hw.version'')])
       (sget values ''hw.vendor''))"

definition netBSDDMIFacts :: "string gomap \<Rightarrow> ResolvedFact list" where
  "netBSDDMIFacts values =
     dmiFacts (dmiSections
       (mapFromValues values [(''vendor'', ''machdep.dmi.system-vendor''), (''version'', ''machdep.dmi.system-version'')])
       [] (mapFromValues values [(''name'', ''machdep.dmi.system-product''), (''serial_number'', ''machdep.dmi.system-serial''),
         (''uuid'', ''machdep.dmi.system-uuid''), (''version'', ''machdep.dmi.system-version'')])
       (sget values ''machdep.dmi.system-vendor''))"

definition dragonFlyDMIDecodeFacts :: "string \<Rightarrow> string \<Rightarrow> string \<Rightarrow> ResolvedFact list" where
  "dragonFlyDMIDecodeFacts biosOutput systemOutput chassisOutput =
     (let systemValues = parseColonValues systemOutput
      in dmiFacts (dmiSections
           (mapFromValues (parseColonValues biosOutput) [(''vendor'', ''Vendor''), (''version'', ''Version''), (''release_date'', ''Release Date'')])
           (mapFromValues (parseColonValues chassisOutput) [(''asset_tag'', ''Asset Tag''), (''type'', ''Type'')])
           (mapFromValues systemValues [(''name'', ''Product Name''), (''serial_number'', ''Serial Number''), (''uuid'', ''UUID'')])
           (sget systemValues ''Manufacturer'')))"

definition illumosDMIFacts :: "string \<Rightarrow> string \<Rightarrow> string \<Rightarrow> ResolvedFact list" where
  "illumosDMIFacts biosOutput systemOutput chassisOutput =
     (let systemValues = parseColonValues systemOutput; chassisValues = parseColonValues chassisOutput;
          chassis0 = mapFromValues chassisValues [(''asset_tag'', ''Asset Tag''), (''type'', ''Chassis Type'')];
          chassis = (if mget chassis0 ''type'' = None
                     then chassis0 @ stringEntries [(''type'', trim_space (sget chassisValues ''Type''))] else chassis0)
      in dmiFacts (dmiSections
           (mapFromValues (parseColonValues biosOutput) [(''vendor'', ''Vendor''), (''version'', ''Version String''), (''release_date'', ''Release Date'')])
           chassis
           (mapFromValues systemValues [(''name'', ''Product''), (''serial_number'', ''Serial Number''), (''uuid'', ''UUID'')])
           (sget systemValues ''Manufacturer'')))"

definition currentFreeBSDDMIFacts :: "hostOS \<Rightarrow> ResolvedFact list" where
  "currentFreeBSDDMIFacts h =
     (if ho_goos h \<noteq> ''freebsd'' then [] else freeBSDDMIFacts (map (\<lambda>key. (key, ho_run h ''/bin/kenv'' [key])) freeBSDDMIKeys))"

definition currentDragonFlyDMIFacts :: "hostOS \<Rightarrow> ResolvedFact list" where
  "currentDragonFlyDMIFacts h =
     (if ho_goos h \<noteq> ''dragonfly'' then []
      else let facts = freeBSDDMIFacts (map (\<lambda>key. (key, ho_run h ''kenv'' [key])) freeBSDDMIKeys);
               decode = (\<lambda>t. ho_run h ''/usr/local/sbin/dmidecode'' [''-t'', t])
           in if facts \<noteq> [] then facts else dragonFlyDMIDecodeFacts (decode ''bios'') (decode ''system'') (decode ''chassis''))"

definition currentOpenBSDDMIFacts :: "hostOS \<Rightarrow> ResolvedFact list" where
  "currentOpenBSDDMIFacts h =
     (if ho_goos h \<noteq> ''openbsd'' then []
      else openBSDDMIFacts (map (\<lambda>key. (key, ho_run h ''/sbin/sysctl'' [''-n'', key])) openBSDDMIKeys))"

definition currentNetBSDDMIFacts :: "hostOS \<Rightarrow> ResolvedFact list" where
  "currentNetBSDDMIFacts h =
     (if ho_goos h \<noteq> ''netbsd'' then []
      else netBSDDMIFacts (map (\<lambda>key. (key, ho_run h ''/sbin/sysctl'' [''-n'', key])) netBSDDMIKeys))"

definition currentIllumosDMIFacts :: "hostOS \<Rightarrow> ResolvedFact list" where
  "currentIllumosDMIFacts h =
     (if ho_goos h \<noteq> ''illumos'' then []
      else let smbios = (\<lambda>t. ho_run h ''/usr/sbin/smbios'' [''-t'', t])
           in illumosDMIFacts (smbios ''SMB_TYPE_BIOS'') (smbios ''SMB_TYPE_SYSTEM'') (smbios ''SMB_TYPE_CHASSIS''))"

record windowsDMI =
  wd_Manufacturer :: string
  wd_SerialNumber :: string
  wd_ProductName :: string
  wd_ProductUUID :: string

definition currentWindowsDMI :: "hostOS \<Rightarrow> windowsDMI" where
  "currentWindowsDMI h =
     (if ho_goos h \<noteq> ''windows'' then \<lparr>wd_Manufacturer = [], wd_SerialNumber = [], wd_ProductName = [], wd_ProductUUID = []\<rparr>
      else let bios = parseWindowsWMIValues (windowsWMIOutput (ho_run h) ''bios'' ''Manufacturer,SerialNumber'');
               product = parseWindowsWMIValues (windowsWMIOutput (ho_run h) ''computersystemproduct'' ''Name,UUID'')
           in \<lparr>wd_Manufacturer = sget bios ''Manufacturer'', wd_SerialNumber = sget bios ''SerialNumber'',
               wd_ProductName = sget product ''Name'', wd_ProductUUID = sget product ''UUID''\<rparr>)"

definition windowsDMIFacts :: "windowsDMI \<Rightarrow> ResolvedFact list" where
  "windowsDMIFacts dmi =
     stringFacts [(''dmi.manufacturer'', wd_Manufacturer dmi), (''dmi.product.name'', wd_ProductName dmi),
       (''dmi.product.serial_number'', wd_SerialNumber dmi), (''dmi.product.uuid'', wd_ProductUUID dmi)]"

definition macOSDMIFacts :: "string \<Rightarrow> ResolvedFact list" where
  "macOSDMIFacts model = (if model = [] then [] else [core_fact ''dmi.product.name'' (GStr model)])"

definition dmiCoreFacts :: "hostOS \<Rightarrow> ResolvedFact list" where
  "dmiCoreFacts h =
     dmiFacts (dmiFact ''/sys/class/dmi/id'' (ho_readFile h)) @ macOSDMIFacts (probeMacOSModel h) @
     windowsDMIFacts (currentWindowsDMI h) @ currentFreeBSDDMIFacts h @ currentDragonFlyDMIFacts h @
     currentOpenBSDDMIFacts h @ currentNetBSDDMIFacts h @ currentIllumosDMIFacts h"

section \<open>Identity\<close>

record identityInfo =
  id_User :: string
  id_UID :: string
  id_GID :: string
  id_Group :: string
  id_Privileged :: "bool option"

definition parseWindowsAdministratorGroups :: "string \<Rightarrow> bool option" where
  "parseWindowsAdministratorGroups output =
     (if trim_space output = [] then None
      else case find (\<lambda>lower. contains lower (BSLASH # ''administrators'') \<or> contains lower ''s-1-5-32-544'')
                  (map to_lower (split_on NL output)) of
             Some lower \<Rightarrow> Some (contains lower ''enabled'' \<and> \<not> contains lower ''deny only'')
           | None \<Rightarrow> Some False)"

definition currentWindowsIdentityInfo :: "hostOS \<Rightarrow> identityInfo" where
  "currentWindowsIdentityInfo h =
     (let user = trim_space (ho_run h ''whoami'' [])
      in \<lparr>id_User = user, id_UID = [], id_GID = [], id_Group = [],
          id_Privileged = (if user = [] then None else parseWindowsAdministratorGroups (ho_run h ''whoami'' [''/groups'']))\<rparr>)"

definition numericIdentityValue :: "string \<Rightarrow> gval" where
  "numericIdentityValue value = (case atoi value of None \<Rightarrow> GStr value | Some n \<Rightarrow> GInt n)"

definition identityFactFromInfo :: "string \<Rightarrow> identityInfo \<Rightarrow> gval gomap" where
  "identityFactFromInfo goos info =
     (case id_Privileged info of None \<Rightarrow> [] | Some b \<Rightarrow> [(''privileged'', GBool b)]) @
     stringEntries [(''user'', id_User info)] @
     (if goos = ''windows'' then []
      else (if id_UID info \<noteq> [] then [(''uid'', numericIdentityValue (id_UID info))] else []) @
           (if id_GID info \<noteq> [] then [(''gid'', numericIdentityValue (id_GID info))] else []) @
           stringEntries [(''group'', id_Group info)])"

definition identityFact :: "hostOS \<Rightarrow> gval gomap" where
  "identityFact h =
     (let rt = ho_runtime h; privileged = Some (rt_euid rt = 0)
      in identityFactFromInfo (ho_goos h)
           (if ho_goos h = ''windows'' then currentWindowsIdentityInfo h
            else case rt_user rt of
                   None \<Rightarrow> \<lparr>id_User = [], id_UID = itoa (rt_uid rt), id_GID = itoa (rt_gid rt), id_Group = [], id_Privileged = privileged\<rparr>
                 | Some (uid, gid, username) \<Rightarrow>
                     \<lparr>id_User = username, id_UID = uid, id_GID = gid,
                      id_Group = (case rt_group rt gid of None \<Rightarrow> [] | Some g \<Rightarrow> g), id_Privileged = privileged\<rparr>))"

definition identityCoreFacts :: "hostOS \<Rightarrow> ResolvedFact list" where
  "identityCoreFacts h = (if ho_goos h = ''plan9'' then [] else [core_fact ''identity'' (GMap (identityFact h))])"

section \<open>SSH host keys\<close>

record sshHostKey =
  sk_Name :: string
  sk_Type :: string
  sk_Key :: string
  sk_SHA1 :: string
  sk_SHA256 :: string

text \<open>\<open>base64.StdEncoding\<close>: groups of four digits, the last one padded.\<close>

definition base64_value :: "char \<Rightarrow> nat option" where
  "base64_value c =
     (if is_upper c then Some (code_of c - 65) else if is_lower c then Some (code_of c - 71) else if is_digit c then Some (code_of c + 4)
      else if c = CHR ''+'' then Some 62 else if c = CHR ''/'' then Some 63 else None)"

definition base64_group :: "char \<Rightarrow> char \<Rightarrow> char \<Rightarrow> char \<Rightarrow> string option" where
  "base64_group a b c d =
     (case (base64_value a, base64_value b, base64_value c, base64_value d) of
        (Some w, Some x, Some y, Some z) \<Rightarrow>
          Some [char_of (w * 4 + x div 16), char_of (x mod 16 * 16 + y div 4), char_of (y mod 4 * 64 + z)]
      | _ \<Rightarrow> None)"

fun base64_decode :: "string \<Rightarrow> string option" where
  "base64_decode [] = Some []"
| "base64_decode [a, b, c, d] =
     (if c = CHR ''='' \<and> d = CHR ''='' then map_option (take 1) (base64_group a b (CHR ''A'') (CHR ''A''))
      else if d = CHR ''='' then map_option (take 2) (base64_group a b c (CHR ''A''))
      else base64_group a b c d)"
| "base64_decode (a # b # c # d # rest) =
     (case (base64_group a b c d, base64_decode rest) of (Some x, Some y) \<Rightarrow> Some (x @ y) | _ \<Rightarrow> None)"
| "base64_decode s = None"

definition sshKeyName :: "string \<Rightarrow> (string \<times> int) option" where
  "sshKeyName keyType =
     (if keyType = ''ssh-rsa'' then Some (''rsa'', 1) else if keyType = ''ssh-dss'' then Some (''dsa'', 2)
      else if keyType \<in> set [''ecdsa-sha2-nistp256'', ''ecdsa-sha2-nistp384'', ''ecdsa-sha2-nistp521''] then Some (''ecdsa'', 3)
      else if keyType = ''ssh-ed25519'' then Some (''ed25519'', 4) else None)"

definition parseSSHHostPublicKey :: "goRuntime \<Rightarrow> string \<Rightarrow> sshHostKey option" where
  "parseSSHHostPublicKey rt line =
     (case string_fields line of
        keyType # key # _ \<Rightarrow>
          (case (sshKeyName keyType, base64_decode key) of
             (Some (name, algorithm), Some decoded) \<Rightarrow>
               Some \<lparr>sk_Name = name, sk_Type = keyType, sk_Key = key,
                     sk_SHA1 = ''SSHFP '' @ itoa algorithm @ '' 1 '' @ rt_sha1 rt decoded,
                     sk_SHA256 = ''SSHFP '' @ itoa algorithm @ '' 2 '' @ rt_sha256 rt decoded\<rparr>
           | _ \<Rightarrow> None)
      | _ \<Rightarrow> None)"

definition sshJoin :: "string \<Rightarrow> string \<Rightarrow> string \<Rightarrow> string" where
  "sshJoin goos dir name = (if goos = ''windows'' then trim_right dir [BSLASH, SLASH] @ BSLASH # name else path_join dir name)"

definition sshHostKeyFiles :: "string list" where
  "sshHostKeyFiles = [''ssh_host_rsa_key.pub'', ''ssh_host_dsa_key.pub'', ''ssh_host_ecdsa_key.pub'', ''ssh_host_ed25519_key.pub'']"

text \<open>Five directories of four files hold at most the twenty keys the code allows.\<close>

definition discoverSSHHostKeysForPlatform ::
  "goRuntime \<Rightarrow> string \<Rightarrow> string \<Rightarrow> (string \<Rightarrow> goerror + string) \<Rightarrow> sshHostKey list" where
  "discoverSSHHostKeysForPlatform rt goos programData readFile =
     (let paths = (if goos \<noteq> ''windows'' then [''/etc/ssh'', ''/usr/local/etc/ssh'', ''/etc'', ''/usr/local/etc'', ''/etc/opt/ssh'']
                   else if programData = [] then [] else [sshJoin goos programData ''ssh''])
      in take 20 (concat (map (\<lambda>dir. concat (map (\<lambda>file.
           case readFile (sshJoin goos dir file) of Inl e \<Rightarrow> []
           | Inr data \<Rightarrow> (case parseSSHHostPublicKey rt data of None \<Rightarrow> [] | Some key \<Rightarrow> [key])) sshHostKeyFiles)) paths)))"

definition sshKeyValue :: "sshHostKey \<Rightarrow> gval" where
  "sshKeyValue key =
     GMap [(''fingerprints'', GMap [(''sha1'', GStr (sk_SHA1 key)), (''sha256'', GStr (sk_SHA256 key))]),
           (''key'', GStr (sk_Key key)), (''type'', GStr (sk_Type key))]"

definition addSSHKey :: "gval gomap \<Rightarrow> sshHostKey \<Rightarrow> gval gomap" where
  "addSSHKey m key = (if has_key m (sk_Name key) then m else m @ [(sk_Name key, sshKeyValue key)])"

definition sshFactsForPlatform :: "string \<Rightarrow> sshHostKey list \<Rightarrow> ResolvedFact list" where
  "sshFactsForPlatform goos keys =
     (if keys = [] then [core_fact ''ssh'' (if goos = ''openbsd'' then GMap [] else GNil)]
      else [core_fact ''ssh'' (GMap (foldl addSSHKey [] keys))])"

definition identityPrivileged :: "gval gomap \<Rightarrow> bool" where
  "identityPrivileged identity = (case mget identity ''privileged'' of Some (GBool b) \<Rightarrow> b | _ \<Rightarrow> False)"

definition sshFactsForPlatformWithPrivilege :: "string \<Rightarrow> bool \<Rightarrow> sshHostKey list \<Rightarrow> ResolvedFact list" where
  "sshFactsForPlatformWithPrivilege goos privileged discovered =
     (if goos = ''windows'' \<and> \<not> privileged then [core_fact ''ssh'' GNil] else sshFactsForPlatform goos discovered)"

definition sshCoreFacts :: "hostOS \<Rightarrow> ResolvedFact list" where
  "sshCoreFacts h =
     sshFactsForPlatformWithPrivilege (ho_goos h) (identityPrivileged (identityFact h))
       (discoverSSHHostKeysForPlatform (ho_runtime h) (ho_goos h) (envValue (ho_environ h) (ho_goos h) ''programdata'') (ho_readFile h))"

section \<open>SELinux\<close>

definition selinuxMountpoint :: "string \<Rightarrow> (string \<Rightarrow> goerror + string) \<Rightarrow> string" where
  "selinuxMountpoint path readFile =
     (case find (\<lambda>ws. length ws \<ge> 3 \<and> ws ! 2 = ''selinuxfs'') (map string_fields (split_on NL (readText path readFile))) of
        None \<Rightarrow> [] | Some ws \<Rightarrow> ws ! 1)"

definition last_assigned :: "string \<Rightarrow> string list \<Rightarrow> string" where
  "last_assigned key lines = foldl (\<lambda>v line. case cut_prefix line key of Some x \<Rightarrow> trim_space x | None \<Rightarrow> v) [] lines"

text \<open>Mode and policy.\<close>

definition readSELinuxConfig :: "string \<Rightarrow> (string \<Rightarrow> goerror + string) \<Rightarrow> (string \<times> string) option" where
  "readSELinuxConfig path readFile =
     (case readFile path of Inl e \<Rightarrow> None
      | Inr data \<Rightarrow> if data = [] then None
                  else Some (last_assigned ''SELINUX='' (split_on NL data), last_assigned ''SELINUXTYPE='' (split_on NL data)))"

definition readSELinuxEnforce :: "string \<Rightarrow> (string \<Rightarrow> goerror + string) \<Rightarrow> bool option" where
  "readSELinuxEnforce path readFile =
     (case readFile path of Inl e \<Rightarrow> None
      | Inr data \<Rightarrow> if trim_space data = ''1'' then Some True else if trim_space data = ''0'' then Some False else None)"

definition selinuxFacts :: "string \<Rightarrow> string \<Rightarrow> (string \<Rightarrow> goerror + string) \<Rightarrow> ResolvedFact list" where
  "selinuxFacts mountsPath configPath readFile =
     (let mountpoint = selinuxMountpoint mountsPath readFile;
          enforce = readSELinuxEnforce (path_join mountpoint ''enforce'') readFile;
          (configMode, configPolicy) = (case readSELinuxConfig configPath readFile of None \<Rightarrow> ([], []) | Some c \<Rightarrow> c)
      in if mountpoint = [] then [core_fact ''os.selinux.enabled'' (GBool False)]
         else stringFacts [(''os.selinux.config_mode'', configMode), (''os.selinux.config_policy'', configPolicy)] @
              (case enforce of None \<Rightarrow> []
               | Some b \<Rightarrow> [core_fact ''os.selinux.current_mode'' (GStr (if b then ''enforcing'' else ''permissive''))]) @
              [core_fact ''os.selinux.enabled'' (GBool True)] @
              (case enforce of None \<Rightarrow> [] | Some b \<Rightarrow> [core_fact ''os.selinux.enforced'' (GBool b)]) @
              [core_fact ''os.selinux.policy_version'' (readOptionalText (path_join mountpoint ''policyvers'') readFile)])"

definition selinuxFactsForPlatform :: "string \<Rightarrow> string \<Rightarrow> string \<Rightarrow> (string \<Rightarrow> goerror + string) \<Rightarrow> ResolvedFact list" where
  "selinuxFactsForPlatform goos mountsPath configPath readFile =
     (if goos \<noteq> ''linux'' then [] else selinuxFacts mountsPath configPath readFile)"

definition selinuxCoreFacts :: "hostOS \<Rightarrow> ResolvedFact list" where
  "selinuxCoreFacts h = selinuxFactsForPlatform (ho_goos h) ''/proc/self/mounts'' ''/etc/selinux/config'' (ho_readFile h)"

section \<open>Augeas, FIPS, the time zone and the environment of a process\<close>

definition augeasVersionPattern :: rx where
  "augeasVersionPattern = cats [WordBoundary, Grp 1 (cats [digits1, dot_digits, maybe dot_digits]), WordBoundary]"

definition parseAugeasVersion :: "string \<Rightarrow> string" where
  "parseAugeasVersion out = FindString augeasVersionPattern out"

definition currentAugeasVersion :: "hostOS \<Rightarrow> string" where
  "currentAugeasVersion h =
     parseAugeasVersion (ho_run h (if fileExists h ''/opt/puppetlabs/puppet/bin/augparse'' then ''/opt/puppetlabs/puppet/bin/augparse''
                                   else ''augparse'') [''--version''])"

definition augeasVersionFacts :: "string \<Rightarrow> ResolvedFact list" where
  "augeasVersionFacts version = (if version = [] then [] else [core_fact ''augeas.version'' (GStr version)])"

definition augeasCoreFacts :: "hostOS \<Rightarrow> ResolvedFact list" where
  "augeasCoreFacts h = augeasVersionFacts (currentAugeasVersion h)"

definition fipsEnabled :: "string \<Rightarrow> (string \<Rightarrow> goerror + string) \<Rightarrow> bool" where
  "fipsEnabled path readFile = (case readFile path of Inl e \<Rightarrow> False | Inr data \<Rightarrow> trim_space data = ''1'')"

text \<open>\<open>strconv.ParseInt(s, 16, 64)\<close>: an optional sign and hexadecimal digits within range.\<close>

definition parse_hex :: "string \<Rightarrow> int option" where
  "parse_hex s =
     (let (neg, ds) = (case s of [] \<Rightarrow> (False, [])
            | c # cs \<Rightarrow> if c = CHR ''-'' then (True, cs) else if c = CHR ''+'' then (False, cs) else (False, s))
      in if ds = [] then None
         else case hex_prefix (length ds) 0 ds of None \<Rightarrow> None
              | Some (v, _) \<Rightarrow> let n = (if neg then - int v else int v) in if in_int64 n then Some n else None)"

definition parseWindowsFIPSEnabled :: "string \<Rightarrow> bool" where
  "parseWindowsFIPSEnabled input =
     (case find (\<lambda>ws. length ws \<ge> 3 \<and> ws ! 0 = ''Enabled'' \<and> ws ! 1 = ''REG_DWORD'') (map string_fields (split_on NL input)) of
        None \<Rightarrow> False
      | Some ws \<Rightarrow> (case parse_hex (trim_prefix (ws ! 2) ''0x'') of None \<Rightarrow> False | Some v \<Rightarrow> v \<noteq> 0))"

definition currentFIPSEnabled :: "hostOS \<Rightarrow> string \<Rightarrow> bool" where
  "currentFIPSEnabled h linuxPath =
     (if ho_goos h = ''windows''
      then parseWindowsFIPSEnabled (ho_run h ''reg'' [''query'', join [BSLASH] [''HKLM'', ''System'', ''CurrentControlSet'', ''Control'', ''Lsa'',
             ''FipsAlgorithmPolicy''], ''/v'', ''Enabled''])
      else fipsEnabled linuxPath (ho_readFile h))"

definition fipsEnabledFacts :: "hostOS \<Rightarrow> string \<Rightarrow> ResolvedFact list" where
  "fipsEnabledFacts h linuxPath =
     (if ho_goos h \<noteq> ''linux'' \<and> ho_goos h \<noteq> ''windows'' then []
      else [core_fact ''fips_enabled'' (GBool (currentFIPSEnabled h linuxPath))])"

definition fipsCoreFacts :: "hostOS \<Rightarrow> ResolvedFact list" where
  "fipsCoreFacts h = fipsEnabledFacts h ''/proc/sys/crypto/fips_enabled''"

definition valid_utf8 :: "string \<Rightarrow> bool" where
  "valid_utf8 s \<longleftrightarrow> toValidUTF8 0 False s = s"

definition firstNumber :: "string \<Rightarrow> string" where
  "firstNumber input =
     (case find (\<lambda>w. atoi w \<noteq> None) (map (\<lambda>w. trim_right w '':.'') (string_fields input)) of None \<Rightarrow> [] | Some w \<Rightarrow> w)"

definition parseWindowsACPRegistry :: "string \<Rightarrow> string" where
  "parseWindowsACPRegistry input =
     (case find (\<lambda>ws. length ws \<ge> 3 \<and> hd ws = ''ACP'') (map string_fields (split_on NL input)) of None \<Rightarrow> [] | Some ws \<Rightarrow> last ws)"

definition currentWindowsAPICodepage :: "hostOS \<Rightarrow> string" where
  "currentWindowsAPICodepage h = (if ho_goos h \<noteq> ''windows'' then [] else firstNumber (ho_run h ''cmd'' [''/c'', ''chcp'']))"

definition currentWindowsRegistryCodepage :: "hostOS \<Rightarrow> string" where
  "currentWindowsRegistryCodepage h =
     (if ho_goos h \<noteq> ''windows'' then []
      else parseWindowsACPRegistry (ho_run h ''reg'' [''query'', join [BSLASH] [''HKLM'', ''SYSTEM'', ''CurrentControlSet'', ''Control'', ''Nls'',
             ''CodePage''], ''/v'', ''ACP'']))"

text \<open>The tables of the three code pages are those of \<open>golang.org/x/text\<close>: a parameter that decodes a
  text in a code page named by its number.\<close>

type_synonym charmaps = "string \<Rightarrow> string \<Rightarrow> string option"

definition windowsCodepageDecoder :: "charmaps \<Rightarrow> string \<Rightarrow> (string \<Rightarrow> string option) option" where
  "windowsCodepageDecoder charmap codepage =
     (let number = trim_space (trim_prefix (to_upper codepage) ''CP'')
      in if number \<in> set [''437'', ''850'', ''1252''] then Some (charmap number) else None)"

definition decodeWindowsCodepage :: "charmaps \<Rightarrow> string \<Rightarrow> string \<Rightarrow> string option" where
  "decodeWindowsCodepage charmap value codepage =
     (case windowsCodepageDecoder charmap codepage of None \<Rightarrow> None | Some decode \<Rightarrow> decode value)"

definition currentWindowsTimezone :: "charmaps \<Rightarrow> string \<Rightarrow> string \<Rightarrow> string \<Rightarrow> string \<Rightarrow> string" where
  "currentWindowsTimezone charmap goos zone apiCodepage registryCodepage =
     (if goos \<noteq> ''windows'' \<or> zone = [] then []
      else if valid_utf8 zone then zone
      else case decodeWindowsCodepage charmap zone (if apiCodepage = [] then registryCodepage else apiCodepage) of
             None \<Rightarrow> zone | Some decoded \<Rightarrow> decoded)"

definition currentTimezoneForZone :: "charmaps \<Rightarrow> hostOS \<Rightarrow> string \<Rightarrow> string" where
  "currentTimezoneForZone charmap h zone =
     (if ho_goos h \<noteq> ''windows'' then zone
      else firstNonEmptyValue [currentWindowsTimezone charmap (ho_goos h) zone (currentWindowsAPICodepage h) (currentWindowsRegistryCodepage h), zone])"

definition timezoneCoreFacts :: "charmaps \<Rightarrow> hostOS \<Rightarrow> ResolvedFact list" where
  "timezoneCoreFacts charmap h = [core_fact ''timezone'' (GStr (currentTimezoneForZone charmap h (rt_zone (ho_runtime h))))]"

text \<open>The value of a field in the environment of a process, given the lines of its file.\<close>

definition linuxProcGetenvForPID :: "int \<Rightarrow> string \<Rightarrow> (string \<Rightarrow> string list) \<Rightarrow> string option" where
  "linuxProcGetenvForPID pid field readLines =
     (case find (\<lambda>p. has_prefix p (field @ ''='')) (concat (map (split_on NUL) (readLines (''/proc/'' @ itoa pid @ ''/environ'')))) of
        None \<Rightarrow> None | Some p \<Rightarrow> Some (drop (length field + 1) p))"

section \<open>Properties\<close>

lemma mget_append: "mget (a @ b) k = (case mget a k of Some v \<Rightarrow> Some v | None \<Rightarrow> mget b k)"
  by (simp add: map_add_def)

lemma sshKeys_foldl:
  "mget (foldl addSSHKey m0 keys) n =
    (case mget m0 n of Some v \<Rightarrow> Some v | None \<Rightarrow> map_option sshKeyValue (find (\<lambda>k. sk_Name k = n) keys))"
proof (induction keys arbitrary: m0)
  case (Cons key keys)
  have "mget (addSSHKey m0 key) n =
      (case mget m0 n of Some v \<Rightarrow> Some v | None \<Rightarrow> if sk_Name key = n then Some (sshKeyValue key) else None)"
    by (auto simp: addSSHKey_def has_key_def mget_append simp del: map_of_append split: option.split)
  then show ?case by (simp add: Cons.IH split: option.split)
qed (simp split: option.split)

text \<open>The ssh fact has one entry per kind of key, and it is that of the first directory, in the order of
  the search, that holds a readable key of the kind.\<close>

lemma sshFacts_first_key:
  "case sshFactsForPlatform goos keys of
     [f] \<Rightarrow> rf_Name f = ''ssh'' \<and>
       (case rf_Value f of
          GMap m \<Rightarrow> mget m n = map_option sshKeyValue (find (\<lambda>k. sk_Name k = n) keys)
        | v \<Rightarrow> v = GNil \<and> keys = [])
   | _ \<Rightarrow> False"
  using sshKeys_foldl [of "[]" keys n] by (auto simp: sshFactsForPlatform_def)

text \<open>The SELinux facts are consistent: off Linux there are none; without the file system the only one
  says disabled; with it the current mode is given exactly when the enforcement is known, and
  says enforcing exactly when that is on.\<close>

lemma selinuxCoreFacts_consistent:
  "case map (\<lambda>f. (rf_Name f, rf_Value f)) (selinuxCoreFacts h) of facts \<Rightarrow>
     if ho_goos h \<noteq> ''linux'' then facts = []
     else if selinuxMountpoint ''/proc/self/mounts'' (ho_readFile h) = [] then facts = [(''os.selinux.enabled'', GBool False)]
     else mget facts ''os.selinux.enabled'' = Some (GBool True) \<and>
       mget facts ''os.selinux.current_mode'' =
         (case mget facts ''os.selinux.enforced'' of
            Some v \<Rightarrow> Some (GStr (if v = GBool True then ''enforcing'' else ''permissive'')) | None \<Rightarrow> None)"
proof (cases "ho_goos h = ''linux'' \<and> selinuxMountpoint ''/proc/self/mounts'' (ho_readFile h) \<noteq> []")
  case True
  obtain mode policy where c: "(case readSELinuxConfig ''/etc/selinux/config'' (ho_readFile h) of None \<Rightarrow> ([], []) | Some c \<Rightarrow> c) = (mode, policy)"
    by (metis surj_pair)
  have strings: "mget (map (\<lambda>f. (rf_Name f, rf_Value f)) (stringFacts table)) k = None" if "k \<notin> fst ` set table" for table k
    using that by (induction table) (auto simp: stringFacts_def)
  show ?thesis using True
    by (cases "readSELinuxEnforce (path_join (selinuxMountpoint ''/proc/self/mounts'' (ho_readFile h)) ''enforce'') (ho_readFile h)")
      (simp_all add: selinuxCoreFacts_def selinuxFactsForPlatform_def selinuxFacts_def c mget_append strings Let_def del: map_of_append)
qed (auto simp: selinuxCoreFacts_def selinuxFactsForPlatform_def selinuxFacts_def Let_def split: prod.split)

end
