(* ===== verification/Net_Address.thy ===== *)
theory Net_Address
  imports Host_Facts "HOL-Library.Word"
begin

unbundle bit_operations_syntax

text \<open>
  The addresses of Go's package \<open>net\<close> as \<open>internal/engine/networking.go\<close> uses them: \<open>ParseIP\<close> and \<open>String\<close>, the
  IPv4 form, masks, and the classes of addresses, with the functions of the code that choose
  between addresses. An address is its bytes, 4 or 16 of them; \<open>nil\<close> is the empty list.
\<close>

type_synonym ip = "8 word list"

definition v4InV6Prefix :: ip where
  "v4InV6Prefix = replicate 10 0 @ [0xFF, 0xFF]"

definition To4 :: "ip \<Rightarrow> ip" where
  "To4 a = (if length a = 4 then a else if length a = 16 \<and> take 12 a = v4InV6Prefix then drop 12 a else [])"

definition To16 :: "ip \<Rightarrow> ip" where
  "To16 a = (if length a = 4 then v4InV6Prefix @ a else if length a = 16 then a else [])"

section \<open>Reading an address\<close>

text \<open>One of the four decimal fields: up to 255, without a leading zero.\<close>

definition octet :: "string \<Rightarrow> 8 word option" where
  "octet s =
     (if s = [] \<or> \<not> list_all is_digit s \<or> (length s > 1 \<and> hd s = CHR ''0'') \<or> dec_val s > 255 then None
      else Some (word_of_int (dec_val s)))"

definition parseIPv4 :: "string \<Rightarrow> ip" where
  "parseIPv4 s =
     (case map octet (split_on DOT s) of [Some a, Some b, Some c, Some d] \<Rightarrow> [a, b, c, d] | _ \<Rightarrow> [])"

definition hex_run :: "string \<Rightarrow> string" where
  "hex_run s = takeWhile (\<lambda>c. hex_value_of c \<noteq> None) s"

definition hex_val :: "string \<Rightarrow> nat" where
  "hex_val s = foldl (\<lambda>acc c. 16 * acc + (case hex_value_of c of Some v \<Rightarrow> v | None \<Rightarrow> 0)) 0 s"

definition group_bytes :: "nat \<Rightarrow> ip" where
  "group_bytes n = [word_of_nat (n div 256), word_of_nat n]"

text \<open>The groups of an IPv6 address: what is left of the sixteen bytes counts the groups still to come,
  the bytes read so far end the list, and the place of \<open>::\<close> is the number of bytes before it. The
  result is the bytes, that place and the text that is left.\<close>

fun v6groups :: "nat \<Rightarrow> ip \<Rightarrow> nat option \<Rightarrow> string \<Rightarrow> (ip \<times> nat option \<times> string) option" where
  "v6groups 0 bytes ellipsis s = Some (bytes, ellipsis, s)"
| "v6groups (Suc k) bytes ellipsis s =
     (let ds = hex_run s; rest = drop (length ds) s
      in if ds = [] \<or> length ds > 4 then None
         else if rest \<noteq> [] \<and> hd rest = DOT
         then (if (ellipsis = None \<and> length bytes \<noteq> 12) \<or> length bytes + 4 > 16 then None
               else case parseIPv4 s of [] \<Rightarrow> None | v4 \<Rightarrow> Some (bytes @ v4, ellipsis, []))
         else let bytes' = bytes @ group_bytes (hex_val ds)
              in if rest = [] then Some (bytes', ellipsis, [])
                 else if hd rest \<noteq> CHR '':'' \<or> length rest = 1 then None
                 else if rest ! 1 = CHR '':''
                 then (if ellipsis \<noteq> None then None
                       else if drop 2 rest = [] then Some (bytes', Some (length bytes'), [])
                       else v6groups k bytes' (Some (length bytes')) (drop 2 rest))
                 else v6groups k bytes' ellipsis (drop 1 rest))"

definition expand_ellipsis :: "ip \<times> nat option \<times> string \<Rightarrow> ip" where
  "expand_ellipsis = (\<lambda>(bytes, ellipsis, rest).
     if rest \<noteq> [] then []
     else if length bytes < 16
     then (case ellipsis of None \<Rightarrow> [] | Some e \<Rightarrow> take e bytes @ replicate (16 - length bytes) 0 @ drop e bytes)
     else if ellipsis = None then bytes else [])"

definition parseIPv6 :: "string \<Rightarrow> ip" where
  "parseIPv6 s =
     (if has_prefix s ''::''
      then (if drop 2 s = [] then replicate 16 0
            else case v6groups 8 [] (Some 0) (drop 2 s) of None \<Rightarrow> [] | Some r \<Rightarrow> expand_ellipsis r)
      else case v6groups 8 [] None s of None \<Rightarrow> [] | Some r \<Rightarrow> expand_ellipsis r)"

text \<open>\<open>net.ParseIP\<close>: the first of the characters dot, colon and percent decides; a zone is refused.\<close>

definition ParseIP :: "string \<Rightarrow> ip" where
  "ParseIP s =
     (case find (\<lambda>c. c \<in> {DOT, CHR '':'', CHR ''%''}) s of
        None \<Rightarrow> []
      | Some c \<Rightarrow>
          if c = DOT then To16 (parseIPv4 s)
          else if c = CHR '':'' \<and> CHR ''%'' \<notin> set s then parseIPv6 s
          else [])"

section \<open>Printing an address\<close>

definition dotted :: "ip \<Rightarrow> string" where
  "dotted a = join ''.'' (map (\<lambda>b. itoa_nat (unat b)) a)"

fun hex_text :: "nat \<Rightarrow> string" where
  "hex_text n = (if n < 16 then [hex_digit n] else hex_text (n div 16) @ [hex_digit (n mod 16)])"

declare hex_text.simps [simp del]

fun groups_of :: "ip \<Rightarrow> nat list" where
  "groups_of (a # b # r) = (256 * unat a + unat b) # groups_of r"
| "groups_of r = []"

text \<open>The longest run of zero groups, of at least two, the first of its length: its first group and the
  one after its last.\<close>

definition zero_run :: "nat list \<Rightarrow> nat \<times> nat" where
  "zero_run gs =
     foldl (\<lambda>(z, e) i. let l = length (takeWhile (\<lambda>g. g = 0) (drop i gs))
                        in if l \<ge> 2 \<and> l > e - z then (i, i + l) else (z, e)) (255, 255) [0 ..< length gs]"

definition v6text :: "nat list \<Rightarrow> string" where
  "v6text gs =
     (let (z, e) = zero_run gs
      in if z \<ge> length gs then join '':'' (map hex_text gs)
         else join '':'' (map hex_text (take z gs)) @ ''::'' @ join '':'' (map hex_text (drop e gs)))"

definition byte_hex :: "8 word \<Rightarrow> string" where
  "byte_hex b = [hex_digit (unat b div 16), hex_digit (unat b mod 16)]"

definition ip_String :: "ip \<Rightarrow> string" where
  "ip_String a =
     (if a = [] then ''<nil>''
      else if length a \<noteq> 4 \<and> length a \<noteq> 16 then ''?'' @ concat (map byte_hex a)
      else if To4 a \<noteq> [] then dotted (To4 a)
      else v6text (groups_of a))"

section \<open>Masks and classes\<close>

text \<open>\<open>net.CIDRMask\<close>, of a prefix that is in range.\<close>

definition CIDRMask :: "nat \<Rightarrow> nat \<Rightarrow> ip" where
  "CIDRMask ones bits =
     map (\<lambda>i. let n = ones - 8 * i in if n \<ge> 8 then 0xFF else NOT (drop_bit n 0xFF)) [0 ..< bits div 8]"

definition ip_Mask :: "ip \<Rightarrow> ip \<Rightarrow> ip" where
  "ip_Mask a m =
     (let m' = (if length m = 16 \<and> length a = 4 \<and> list_all (\<lambda>b. b = 0xFF) (take 12 m) then drop 12 m else m);
          a' = (if length m' = 4 \<and> length a = 16 \<and> take 12 a = v4InV6Prefix then drop 12 a else a)
      in if length a' \<noteq> length m' then [] else map2 (AND) a' m')"

definition IsLoopback :: "ip \<Rightarrow> bool" where
  "IsLoopback a \<longleftrightarrow> (if To4 a \<noteq> [] then To4 a ! 0 = 127 else a = replicate 15 0 @ [1])"

definition IsLinkLocalUnicast :: "ip \<Rightarrow> bool" where
  "IsLinkLocalUnicast a \<longleftrightarrow>
     (if To4 a \<noteq> [] then To4 a ! 0 = 169 \<and> To4 a ! 1 = 254
      else length a = 16 \<and> a ! 0 = 0xFE \<and> a ! 1 AND 0xC0 = 0x80)"

definition IsLinkLocalMulticast :: "ip \<Rightarrow> bool" where
  "IsLinkLocalMulticast a \<longleftrightarrow>
     (if To4 a \<noteq> [] then To4 a ! 0 = 224 \<and> To4 a ! 1 = 0 \<and> To4 a ! 2 = 0
      else length a = 16 \<and> a ! 0 = 0xFF \<and> a ! 1 AND 0x0F = 0x02)"

definition IsUnspecified :: "ip \<Rightarrow> bool" where
  "IsUnspecified a \<longleftrightarrow> To16 a = v4InV6Prefix @ replicate 4 0 \<or> To16 a = replicate 16 0"

definition isIPv4CompatibleIPv6 :: "ip \<Rightarrow> bool" where
  "isIPv4CompatibleIPv6 a0 =
     (let a = To16 a0
      in if a = [] \<or> To4 a \<noteq> [] \<or> IsUnspecified a \<or> IsLoopback a then False else list_all (\<lambda>b. b = 0) (take 12 a))"

definition isIPv6SiteLocal :: "ip \<Rightarrow> bool" where
  "isIPv6SiteLocal a0 = (let a = To16 a0 in if a = [] then False else a ! 0 = 0xFE \<and> a ! 1 AND 0xC0 = 0xC0)"

definition ipv6Scope :: "ip \<Rightarrow> string" where
  "ipv6Scope a =
     (let prefix = (if isIPv4CompatibleIPv6 a then ''compat,'' else [])
      in if IsLoopback a then prefix @ ''host''
         else if IsLinkLocalUnicast a \<or> IsLinkLocalMulticast a then prefix @ ''link''
         else if isIPv6SiteLocal a then prefix @ ''site''
         else prefix @ ''global'')"

section \<open>Choosing an address\<close>

definition ipv6RankGlobal :: int where "ipv6RankGlobal = 0"
definition ipv6RankUniqueLocal :: int where "ipv6RankUniqueLocal = 1"
definition ipv6RankLinkLocal :: int where "ipv6RankLinkLocal = 2"

definition ipv6SelectionRank :: "ip \<Rightarrow> int option" where
  "ipv6SelectionRank a0 =
     (if a0 = [] \<or> To4 a0 \<noteq> [] \<or> IsLoopback a0 \<or> IsUnspecified a0 then None
      else let a = To16 a0
           in if a = [] then None
              else if IsLinkLocalUnicast a then Some ipv6RankLinkLocal
              else if a ! 0 AND 0xFE = 0xFC then Some ipv6RankUniqueLocal
              else Some ipv6RankGlobal)"

definition ignoredIPAddress :: "string \<Rightarrow> bool" where
  "ignoredIPAddress address =
     (if address = [] then True
      else let a = ParseIP address
           in if a = [] \<or> IsLoopback a \<or> IsLinkLocalUnicast a then True
              else if To4 a \<noteq> [] then To4 a ! 0 = 169 \<and> To4 a ! 1 = 254
              else length a = 16 \<and> a ! 0 AND 0xFE = 0xFC)"

text \<open>An address as the operating system gives it: with a mask, without, or of another kind.\<close>

datatype netAddr = NIPNet ip ip | NIPAddr ip | NOther

definition ipFromAddr :: "netAddr \<Rightarrow> ip option" where
  "ipFromAddr addr = (case addr of NIPNet a m \<Rightarrow> Some a | NIPAddr a \<Rightarrow> Some a | NOther \<Rightarrow> None)"

definition parseInterfaceAddr :: "netAddr \<Rightarrow> (ip \<times> ip option) option" where
  "parseInterfaceAddr addr =
     (case addr of NIPNet a m \<Rightarrow> Some (a, Some m) | NIPAddr a \<Rightarrow> Some (a, None) | NOther \<Rightarrow> None)"

definition primaryIPv4 :: "goerror + netAddr list \<Rightarrow> string" where
  "primaryIPv4 addrs0 =
     (case addrs0 of Inl e \<Rightarrow> []
      | Inr addrs \<Rightarrow>
          (case find (\<lambda>addr. case ipFromAddr addr of None \<Rightarrow> False | Some a \<Rightarrow> \<not> IsLoopback a \<and> To4 a \<noteq> []) addrs of
             None \<Rightarrow> []
           | Some addr \<Rightarrow> (case ipFromAddr addr of None \<Rightarrow> [] | Some a \<Rightarrow> ip_String (To4 a))))"

text \<open>The scan keeps the best address and its rank; a global address ends it.\<close>

fun bestIPv6 :: "string \<Rightarrow> int \<Rightarrow> netAddr list \<Rightarrow> string" where
  "bestIPv6 best bestRank [] = best"
| "bestIPv6 best bestRank (addr # addrs) =
     (case ipFromAddr addr of None \<Rightarrow> bestIPv6 best bestRank addrs
      | Some a \<Rightarrow>
          (case ipv6SelectionRank a of None \<Rightarrow> bestIPv6 best bestRank addrs
           | Some rank \<Rightarrow>
               if rank \<ge> ipv6RankLinkLocal then bestIPv6 best bestRank addrs
               else let (best', bestRank') = (if best = [] \<or> rank < bestRank then (ip_String a, rank) else (best, bestRank))
                    in if bestRank' = ipv6RankGlobal then best' else bestIPv6 best' bestRank' addrs))"

definition primaryIPv6FromAddrs :: "netAddr list \<Rightarrow> string" where
  "primaryIPv6FromAddrs addrs = bestIPv6 [] 0 addrs"

definition primaryIPv6 :: "goerror + netAddr list \<Rightarrow> string" where
  "primaryIPv6 addrs = (case addrs of Inl e \<Rightarrow> [] | Inr as \<Rightarrow> primaryIPv6FromAddrs as)"

section \<open>Lemmas\<close>

lemma byte_split: "word_of_nat (unat b) = (b :: 8 word)" "unat (b :: 8 word) < 256"
  using unsigned_less [of b, where ?'a = nat] by simp_all

lemma group_bytes_split [simp]: "group_bytes (256 * unat a + unat b) = [a, b]"
proof -
  have "(256 * unat a + unat b) div 256 = unat a" using byte_split(2) [of b] by simp
  moreover have "word_of_nat (256 * unat a + unat b) = (word_of_nat (256 * unat a) + word_of_nat (unat b) :: 8 word)"
    by (simp only: of_nat_add)
  moreover have "word_of_nat (256 * unat a) = (0 :: 8 word)"
  proof -
    have "(256 :: 8 word) = 0" by code_simp
    then show ?thesis by (simp only: of_nat_mult of_nat_numeral) simp
  qed
  ultimately show ?thesis by (simp add: group_bytes_def)
qed

lemma groups_of_bytes: "even (length a) \<Longrightarrow> concat (map group_bytes (groups_of a)) = a"
  by (induction a rule: groups_of.induct) auto

lemma groups_of_bound: "g \<in> set (groups_of a) \<Longrightarrow> g < 65536"
proof (induction a rule: groups_of.induct)
  case (1 a b r)
  then show ?case using byte_split(2) [of a] byte_split(2) [of b] by auto
qed auto

lemma length_groups_of [simp]: "length (groups_of a) = length a div 2"
  by (induction a rule: groups_of.induct) auto

lemma length_group_bytes [simp]: "length (concat (map group_bytes gs)) = 2 * length gs"
  by (induction gs) (auto simp: group_bytes_def)

lemma group_bytes_zeros: "concat (map group_bytes (replicate n 0)) = replicate (2 * n) 0"
  by (induction n) (auto simp: group_bytes_def)

subsection \<open>Hexadecimal text\<close>

lemma hex_value_of_digit [simp]: "n < 16 \<Longrightarrow> hex_value_of (hex_digit n) = Some n"
  by (auto simp: hex_value_of_def hex_digit_def is_digit_def of_char_of)

lemma hex_text_not_Nil [simp]: "hex_text n \<noteq> []"
  by (subst hex_text.simps) simp

lemma hex_text_hex: "c \<in> set (hex_text n) \<Longrightarrow> hex_value_of c \<noteq> None"
proof (induction n rule: hex_text.induct)
  case (1 n)
  then show ?case by (subst (asm) (2) hex_text.simps) (auto split: if_splits)
qed

lemma hex_val_text [simp]: "hex_val (hex_text n) = n"
proof (induction n rule: hex_text.induct)
  case (1 n)
  then show ?case by (subst hex_text.simps) (auto simp: hex_val_def)
qed

lemma hex_text_length: "n < 16 ^ k \<Longrightarrow> 0 < k \<Longrightarrow> length (hex_text n) \<le> k"
proof (induction k arbitrary: n)
  case (Suc k)
  show ?case
  proof (cases "n < 16")
    case True
    then show ?thesis by (subst hex_text.simps) simp
  next
    case False
    with Suc.prems have "n div 16 < 16 ^ k" "0 < k" by (auto intro!: gr0I)
    with Suc.IH have "length (hex_text (n div 16)) \<le> k" by simp
    with False show ?thesis by (subst hex_text.simps) simp
  qed
qed simp

lemma hex_run_text:
  assumes "rest = [] \<or> hex_value_of (hd rest) = None"
  shows "hex_run (hex_text n @ rest) = hex_text n"
proof -
  have "takeWhile (\<lambda>c. hex_value_of c \<noteq> None) (hex_text n @ rest) =
      hex_text n @ takeWhile (\<lambda>c. hex_value_of c \<noteq> None) rest"
    using hex_text_hex by (intro takeWhile_append2) blast
  moreover have "takeWhile (\<lambda>c. hex_value_of c \<noteq> None) rest = []"
    using assms by (cases rest) auto
  ultimately show ?thesis by (simp add: hex_run_def)
qed

lemma colon_no_hex [simp]: "hex_value_of (CHR '':'') = None" "hex_value_of DOT = None" "hex_value_of (CHR ''%'') = None"
  by (simp_all add: hex_value_of_def is_digit_def)

lemma hd_hex_text [simp]: "hd (hex_text n) \<noteq> CHR '':''"
  using hex_text_hex [of "hd (hex_text n)" n] by auto

subsection \<open>Reading what was printed\<close>

abbreviation colons :: "nat list \<Rightarrow> string" where "colons gs \<equiv> join '':'' (map hex_text gs)"

lemma colons_Cons2: "colons (x # y # ys) = hex_text x @ CHR '':'' # colons (y # ys)"
  by simp

lemma hd_colons: "gs \<noteq> [] \<Longrightarrow> colons gs \<noteq> [] \<and> hd (colons gs) \<noteq> CHR '':''"
proof (cases gs rule: remdups_adj.cases)
  case (3 x y ys)
  then show ?thesis by (simp only: colons_Cons2) simp
qed simp_all

lemma v6groups_step:
  assumes "g < 65536" "rest = [] \<or> hd rest = CHR '':''"
  shows "v6groups (Suc k) bytes e (hex_text g @ rest) =
    (if rest = [] then Some (bytes @ group_bytes g, e, [])
     else if length rest = 1 then None
     else if rest ! 1 = CHR '':''
     then (if e \<noteq> None then None
           else if drop 2 rest = [] then Some (bytes @ group_bytes g, Some (length (bytes @ group_bytes g)), [])
           else v6groups k (bytes @ group_bytes g) (Some (length (bytes @ group_bytes g))) (drop 2 rest))
     else v6groups k (bytes @ group_bytes g) e (drop 1 rest))"
proof -
  have run: "hex_run (hex_text g @ rest) = hex_text g" by (rule hex_run_text) (use assms in auto)
  have len: "length (hex_text g) \<le> 4" by (rule hex_text_length) (use assms in auto)
  have dot: "rest \<noteq> [] \<Longrightarrow> hd rest \<noteq> DOT" using assms by auto
  have drop: "drop (length (hex_text g)) (hex_text g @ rest) = rest" by simp
  have colon: "rest \<noteq> [] \<Longrightarrow> hd rest = CHR '':''" using assms by auto
  show ?thesis
    unfolding v6groups.simps Let_def run drop hex_val_text using len dot
    by (cases "rest = []") (simp_all add: colon not_less del: v6groups.simps One_nat_def)
qed

lemma v6groups_list:
  "gs \<noteq> [] \<Longrightarrow> \<forall>g \<in> set gs. g < 65536 \<Longrightarrow> length gs \<le> k \<Longrightarrow>
     v6groups k bytes e (colons gs) = Some (bytes @ concat (map group_bytes gs), e, [])"
proof (induction gs arbitrary: k bytes)
  case (Cons x xs)
  then obtain k' where k: "k = Suc k'" by (cases k) auto
  show ?case
  proof (cases xs)
    case Nil
    with Cons k v6groups_step [of x "[]" k' bytes e] show ?thesis by simp
  next
    case (Cons y ys)
    let ?r = "CHR '':'' # colons xs"
    have h: "colons xs \<noteq> []" "hd (colons xs) \<noteq> CHR '':''" using hd_colons [of xs] Cons by auto
    have "v6groups k bytes e (colons (x # xs)) = v6groups (Suc k') bytes e (hex_text x @ ?r)"
      by (simp add: k Cons)
    also have "\<dots> = v6groups k' (bytes @ group_bytes x) e (colons xs)"
      using Cons.prems h by (subst v6groups_step) (auto simp: hd_conv_nth)
    also have "\<dots> = Some ((bytes @ group_bytes x) @ concat (map group_bytes xs), e, [])"
      using Cons.prems k Cons by (intro Cons.IH) auto
    finally show ?thesis by simp
  qed
qed simp

lemma v6groups_ellipsis:
  assumes "\<forall>g \<in> set ts. g < 65536"
  shows "gs \<noteq> [] \<Longrightarrow> \<forall>g \<in> set gs. g < 65536 \<Longrightarrow> length gs + length ts \<le> k \<Longrightarrow>
     v6groups k bytes None (colons gs @ ''::'' @ colons ts) =
       Some (bytes @ concat (map group_bytes gs) @ concat (map group_bytes ts), Some (length bytes + 2 * length gs), [])"
proof (induction gs arbitrary: k bytes)
  case (Cons x xs)
  then obtain k' where k: "k = Suc k'" by (cases k) auto
  have two: "length (group_bytes x) = 2" by (simp add: group_bytes_def)
  show ?case
  proof (cases xs)
    case Nil
    show ?thesis
    proof (cases "ts = []")
      case True
      with Nil Cons.prems k two show ?thesis by (simp add: v6groups_step del: v6groups.simps)
    next
      case False
      with hd_colons [of ts] have "colons ts \<noteq> []" by simp
      with Nil False Cons.prems k two show ?thesis
        by (simp add: v6groups_step v6groups_list [OF False assms] del: v6groups.simps)
    qed
  next
    case (Cons y ys)
    let ?r = "CHR '':'' # colons xs @ ''::'' @ colons ts"
    have h: "colons xs \<noteq> []" "hd (colons xs) \<noteq> CHR '':''" using hd_colons [of xs] Cons by auto
    then have h2: "(colons xs @ ''::'' @ colons ts) ! 0 \<noteq> CHR '':''" by (simp add: nth_append hd_conv_nth)
    have "v6groups k bytes None (colons (x # xs) @ ''::'' @ colons ts) = v6groups (Suc k') bytes None (hex_text x @ ?r)"
      by (simp add: k Cons)
    also have "\<dots> = v6groups k' (bytes @ group_bytes x) None (colons xs @ ''::'' @ colons ts)"
      using Cons.prems h h2 by (subst v6groups_step) auto
    also have "\<dots> = Some ((bytes @ group_bytes x) @ concat (map group_bytes xs) @ concat (map group_bytes ts),
        Some (length (bytes @ group_bytes x) + 2 * length xs), [])"
      using Cons.prems k Cons by (intro Cons.IH) auto
    finally show ?thesis using two by simp
  qed
qed simp

lemma zero_run_shape:
  assumes "zero_run gs = (z, e)" "length gs < 255"
  shows "z \<ge> length gs \<or> (z + 2 \<le> e \<and> e \<le> length gs \<and> gs = take z gs @ replicate (e - z) 0 @ drop e gs)"
proof -
  let ?P = "\<lambda>(z, e). z \<ge> length gs \<or> (z + 2 \<le> e \<and> e \<le> length gs \<and> gs = take z gs @ replicate (e - z) 0 @ drop e gs)"
  have step: "?P (i, i + length (takeWhile (\<lambda>g. g = 0) (drop i gs)))"
    if "length (takeWhile (\<lambda>g. g = 0) (drop i gs)) \<ge> 2" for i
  proof -
    let ?t = "takeWhile (\<lambda>g. g = 0) (drop i gs)"
    have "?t = replicate (length ?t) 0"
      by (rule replicate_eqI) (auto dest: set_takeWhileD)
    moreover have "drop (i + length ?t) gs = dropWhile (\<lambda>g. g = 0) (drop i gs)"
      by (metis add.commute drop_drop dropWhile_eq_drop)
    ultimately have "gs = take i gs @ replicate (length ?t) 0 @ drop (i + length ?t) gs"
      by (metis append_take_drop_id takeWhile_dropWhile_id)
    moreover have "length ?t \<le> length gs - i" using length_takeWhile_le [of _ "drop i gs"] by simp
    ultimately show ?thesis using that by auto
  qed
  have "?P (foldl (\<lambda>(z, e) i. let l = length (takeWhile (\<lambda>g. g = 0) (drop i gs))
                        in if l \<ge> 2 \<and> l > e - z then (i, i + l) else (z, e)) acc is)" if "?P acc" for acc "is"
    using that
  proof (induction "is" arbitrary: acc)
    case (Cons i "is")
    obtain z e where acc: "acc = (z, e)" by (cases acc)
    show ?case
      unfolding foldl.simps by (rule Cons.IH) (use Cons.prems step [of i] in \<open>auto simp: acc Let_def\<close>)
  qed simp
  from this [of "(255, 255)" "[0 ..< length gs]"] show ?thesis
    using assms by (simp add: zero_run_def)
qed

lemma colons_chars: "c \<in> set (colons gs) \<Longrightarrow> c = CHR '':'' \<or> hex_value_of c \<noteq> None"
proof (induction gs rule: remdups_adj.induct)
  case (3 x y ys)
  then show ?case using hex_text_hex by auto
qed (use hex_text_hex in auto)

lemma v6text_chars: "c \<in> set (v6text gs) \<Longrightarrow> c = CHR '':'' \<or> hex_value_of c \<noteq> None"
  using colons_chars by (auto simp: v6text_def Let_def split: prod.splits if_splits)

lemma colon_in_text: "length gs = 8 \<Longrightarrow> CHR '':'' \<in> set (v6text gs)"
  by (cases "zero_run gs"; cases gs rule: remdups_adj.cases) (auto simp: v6text_def)

lemma ParseIP_v6text: "length gs = 8 \<Longrightarrow> ParseIP (v6text gs) = parseIPv6 (v6text gs)"
proof -
  assume l: "length gs = 8"
  have no: "DOT \<notin> set (v6text gs)" "CHR ''%'' \<notin> set (v6text gs)" using v6text_chars by fastforce+
  obtain c where c: "find (\<lambda>c. c \<in> {DOT, CHR '':'', CHR ''%''}) (v6text gs) = Some c"
    using colon_in_text [OF l] by (cases "find (\<lambda>c. c \<in> {DOT, CHR '':'', CHR ''%''}) (v6text gs)") (auto simp: find_None_iff)
  then have "c \<in> set (v6text gs)" "c \<in> {DOT, CHR '':'', CHR ''%''}" by (auto simp: find_Some_iff in_set_conv_nth)
  with no have "c = CHR '':''" by auto
  with c no show ?thesis by (simp add: ParseIP_def)
qed

lemma parseIPv6_v6text:
  assumes "length gs = 8" "\<forall>g \<in> set gs. g < 65536"
  shows "parseIPv6 (v6text gs) = concat (map group_bytes gs)"
proof -
  obtain z e where ze: "zero_run gs = (z, e)" by (cases "zero_run gs")
  consider "z \<ge> 8" | "z + 2 \<le> e" "e \<le> 8" "gs = take z gs @ replicate (e - z) 0 @ drop e gs" "z < 8"
    using zero_run_shape [OF ze] assms by fastforce
  then show ?thesis
  proof cases
    case 1
    have "gs \<noteq> []" using assms by auto
    with 1 ze assms show ?thesis
      using hd_colons [of gs] v6groups_list [of gs 8 "[]" None]
      by (auto simp: v6text_def parseIPv6_def expand_ellipsis_def prefix_def)
  next
    case 2
    let ?a = "take z gs" let ?b = "drop e gs"
    have a: "\<forall>g \<in> set ?a. g < 65536" and b: "\<forall>g \<in> set ?b. g < 65536"
      using assms by (auto dest: in_set_takeD in_set_dropD)
    have la: "length ?a = z" and lb: "length ?b = 8 - e" using 2 assms by auto
    have bytes: "concat (map group_bytes gs) =
        concat (map group_bytes ?a) @ replicate (2 * (e - z)) 0 @ concat (map group_bytes ?b)"
      by (subst 2(3)) (simp add: group_bytes_zeros del: map_replicate)
    have t: "v6text gs = colons ?a @ ''::'' @ colons ?b" using ze 2 assms by (simp add: v6text_def)
    have sum: "z + (8 - e) \<le> 8" "16 - (2 * z + 2 * (8 - e)) = 2 * (e - z)" using 2 by auto
    show ?thesis
    proof (cases "z = 0")
      case True
      show ?thesis
      proof (cases "e = 8")
        case True
        with \<open>z = 0\<close> assms bytes show ?thesis by (simp add: t parseIPv6_def)
      next
        case False
        with 2 have ne: "?b \<noteq> []" using assms by auto
        then have "v6groups 8 [] (Some 0) (colons ?b) = Some (concat (map group_bytes ?b), Some 0, [])"
          using v6groups_list [OF ne b, of 8 "[]" "Some 0"] lb by simp
        with True ne hd_colons [OF ne] bytes lb 2(1,2,4) sum show ?thesis
          by (simp add: t parseIPv6_def expand_ellipsis_def)
      qed
    next
      case False
      with 2 have ne: "?a \<noteq> []" using assms by auto
      have "\<not> has_prefix (v6text gs) ''::''"
        using hd_colons [OF ne] by (auto simp: t prefix_def append_eq_Cons_conv)
      moreover have "v6groups 8 [] None (v6text gs) =
          Some (concat (map group_bytes ?a) @ concat (map group_bytes ?b), Some (2 * z), [])"
        using v6groups_ellipsis [OF b ne a, of 8 "[]"] la lb sum by (simp add: t)
      moreover have "expand_ellipsis (p @ q, Some (2 * z), []) = p @ replicate (2 * (e - z)) 0 @ q"
        if "length p = 2 * z" "length q = 2 * (8 - e)" for p q
      proof -
        have "2 * z + 2 * (8 - e) < 16" using 2(1,2) by linarith
        with that sum show ?thesis by (simp add: expand_ellipsis_def)
      qed
      ultimately show ?thesis using la lb by (simp add: parseIPv6_def bytes)
    qed
  qed
qed

subsection \<open>Dotted addresses\<close>

lemma itoa_nat_no_zero: "0 < n \<Longrightarrow> hd (itoa_nat n) \<noteq> CHR ''0''"
proof (induction n rule: itoa_nat.induct)
  case (1 n)
  show ?case
  proof (cases "n < 10")
    case True
    have "char_of (48 + n) \<noteq> CHR ''0''"
    proof
      assume "char_of (48 + n) = CHR ''0''"
      then have "code_of (char_of (48 + n)) = code_of (CHR ''0'')" by (simp only:)
      with True 1 show False by (simp add: of_char_of)
    qed
    with True show ?thesis by (subst itoa_nat.simps) simp
  next
    case False
    with 1 show ?thesis by (subst itoa_nat.simps) (simp add: hd_append2)
  qed
qed

lemma octet_itoa: "octet (itoa_nat (unat b)) = Some b"
proof -
  have "hd (itoa_nat (unat b)) \<noteq> CHR ''0''" if "1 < length (itoa_nat (unat b))"
  proof (rule itoa_nat_no_zero)
    show "0 < unat b" using that by (cases "unat b = 0") (simp_all add: itoa_nat.simps)
  qed
  moreover have "(word_of_int (int (unat b)) :: 8 word) = b" by simp
  ultimately show ?thesis using byte_split(2) [of b] by (auto simp: octet_def simp del: of_nat_unat)
qed

lemma no_dot_itoa [simp]: "DOT \<notin> set (itoa_nat n)"
proof -
  have "list_all is_digit (itoa_nat n)" by simp
  then show ?thesis by (auto simp: list_all_iff is_digit_def)
qed

lemma ParseIP_dotted: "length a = 4 \<Longrightarrow> ParseIP (dotted a) = To16 a"
proof -
  assume l: "length a = 4"
  then obtain p q r s where a: "a = [p, q, r, s]" by (auto simp: length_Suc_conv eval_nat_numeral)
  have parts: "split_on DOT (dotted a) = map (\<lambda>b. itoa_nat (unat b)) a"
    unfolding dotted_def by (rule split_on_join) (use a in auto)
  have v4: "parseIPv4 (dotted a) = a" by (simp add: parseIPv4_def parts) (simp add: a octet_itoa)
  have digits: "list_all is_digit (itoa_nat (unat p))" by simp
  have special: "find (\<lambda>c. c \<in> {DOT, CHR '':'', CHR ''%''}) (ds @ DOT # rest) = Some DOT"
    if "list_all is_digit ds" for ds rest
    using that by (induction ds) (auto simp: is_digit_def)
  have "find (\<lambda>c. c \<in> {DOT, CHR '':'', CHR ''%''}) (dotted a) = Some DOT"
    using special [OF digits] by (simp add: dotted_def a)
  with v4 show ?thesis by (simp add: ParseIP_def)
qed

text \<open>An address survives being printed and read back, as the code does with every address of an
  interface, of a route and of a lease: an IPv4 address in its dotted form, any other of sixteen
  bytes with its longest run of zero groups written as a double colon.\<close>

lemma ParseIP_roundtrip:
  assumes "length a = 4 \<or> length a = 16"
  shows "ParseIP (ip_String a) = To16 a"
proof (cases "To4 a = []")
  case True
  with assms have l: "length a = 16" by (auto simp: To4_def)
  then have "concat (map group_bytes (groups_of a)) = a" by (intro groups_of_bytes) simp
  with l True groups_of_bound show ?thesis
    by (auto simp: ip_String_def ParseIP_v6text parseIPv6_v6text To16_def)
next
  case False
  with assms have "length (To4 a) = 4" "To16 (To4 a) = To16 a"
    by (auto simp: To4_def To16_def split: if_splits) (metis append_take_drop_id)
  with False assms show ?thesis by (auto simp: ip_String_def ParseIP_dotted)
qed

lemma ParseIP_roundtrip_witness:
  "ParseIP (ip_String [0xFE, 0x80, 0, 0, 0, 0, 0, 0, 0, 0, 0, 0, 0, 0, 0, 0x1F]) =
     To16 [0xFE, 0x80, 0, 0, 0, 0, 0, 0, 0, 0, 0, 0, 0, 0, 0, 0x1F]"
  by (rule ParseIP_roundtrip) simp

end
