(* ===== verification/Net_Leases.thy ===== *)
theory Net_Leases
  imports Net_Address
begin

text \<open>
  The lease files of \<open>internal/engine/networking.go\<close>: the scanner of \<open>dhclient\<close> leases, with its comments, quoted
  strings and unfinished blocks, and the search for the DHCP server of an interface. The
  scanner walks an index over the file, as the code does; the loop that collects the lease
  blocks is a partial function, and that it ends on every file is a theorem.
\<close>

section \<open>Skipping\<close>

definition isDHClientSpace :: "char \<Rightarrow> bool" where
  "isDHClientSpace b \<longleftrightarrow> b \<in> {CHR '' '', CHR 0x09, NL, CHR 0x0D}"

definition isDHClientWordByte :: "char \<Rightarrow> bool" where
  "isDHClientWordByte b \<longleftrightarrow> b \<in> {CHR ''_'', CHR ''-'', DOT} \<or> is_alnum b"

definition line_end :: "char \<Rightarrow> bool" where
  "line_end b \<longleftrightarrow> b = NL \<or> b = CHR 0x0D"

definition skipDHClientComment :: "string \<Rightarrow> nat \<Rightarrow> nat" where
  "skipDHClientComment content i = i + length (takeWhile (\<lambda>c. c \<noteq> NL) (drop i content))"

lemma skipDHClientComment_more: "i < length content \<Longrightarrow> content ! i = CHR ''#'' \<Longrightarrow> i < skipDHClientComment content i"
  by (simp add: skipDHClientComment_def flip: Cons_nth_drop_Suc)

function skipDHClientSpaceAndComments :: "string \<Rightarrow> nat \<Rightarrow> nat" where
  "skipDHClientSpaceAndComments content i =
     (if i \<ge> length content then i
      else if isDHClientSpace (content ! i) then skipDHClientSpaceAndComments content (i + 1)
      else if content ! i = CHR ''#'' then skipDHClientSpaceAndComments content (skipDHClientComment content i)
      else i)"
  by pat_completeness auto
termination
  by (relation "measure (\<lambda>(content, i). length content - i)") 
     (use skipDHClientComment_more in \<open>auto simp: not_le intro!: diff_less_mono2\<close>)

function skipQuoted :: "string \<Rightarrow> nat \<Rightarrow> nat" where
  "skipQuoted content i =
     (if i \<ge> length content then i
      else if line_end (content ! i) then i
      else if content ! i = BSLASH
      then (if i + 1 < length content \<and> line_end (content ! (i + 1)) then i + 1 else skipQuoted content (i + 2))
      else if content ! i = DQUOTE then i + 1
      else skipQuoted content (i + 1))"
  by pat_completeness auto
termination by (relation "measure (\<lambda>(content, i). length content - i)") auto

definition skipDHClientQuotedString :: "string \<Rightarrow> nat \<Rightarrow> nat" where
  "skipDHClientQuotedString content i = skipQuoted content (i + 1)"

definition dhclientKeywordAt :: "string \<Rightarrow> nat \<Rightarrow> string \<Rightarrow> bool" where
  "dhclientKeywordAt content i keyword \<longleftrightarrow>
     (if i > 0 \<and> isDHClientWordByte (content ! (i - 1)) then False
      else if \<not> has_prefix (drop i content) keyword then False
      else let end' = i + length keyword in end' = length content \<or> \<not> isDHClientWordByte (content ! end'))"

definition slice :: "string \<Rightarrow> nat \<Rightarrow> nat \<Rightarrow> string" where
  "slice s i j = take (j - i) (drop i s)"

declare skipDHClientSpaceAndComments.simps [simp del] skipQuoted.simps [simp del]

lemma skipQuoted_ge: "i \<le> skipQuoted content i"
proof (induction content i rule: skipQuoted.induct)
  case (1 content i)
  then show ?case by (subst skipQuoted.simps) (auto simp: intro: le_trans)
qed

lemma skipDHClientQuotedString_more: "i < skipDHClientQuotedString content i"
  using skipQuoted_ge [of "i + 1" content] by (simp add: skipDHClientQuotedString_def)

lemma skipDHClientSpaceAndComments_ge: "i \<le> skipDHClientSpaceAndComments content i"
proof (induction content i rule: skipDHClientSpaceAndComments.induct)
  case (1 content i)
  then show ?case
    using skipDHClientComment_more [of i content]
    by (subst skipDHClientSpaceAndComments.simps) (auto intro: le_trans dest: less_imp_le)
qed

section \<open>Lease blocks\<close>

definition dhclientLeaseBlockStart :: "string \<Rightarrow> nat \<Rightarrow> bool" where
  "dhclientLeaseBlockStart content i \<longleftrightarrow>
     (if \<not> dhclientKeywordAt content i ''lease'' then False
      else let open = skipDHClientSpaceAndComments content (i + length ''lease'')
           in open < length content \<and> content ! open = CHR ''{'')"

text \<open>The end of the block that opens at \<open>open\<close>, or where another begins before it ends. The code's -1 for
  no end is \<open>None\<close>.\<close>

function blockEnd :: "string \<Rightarrow> nat \<Rightarrow> int \<Rightarrow> nat \<Rightarrow> nat option \<times> nat" where
  "blockEnd content open depth i =
     (if i \<ge> length content then (None, length content)
      else if content ! i = CHR ''#'' then blockEnd content open depth (skipDHClientComment content i)
      else if content ! i = DQUOTE then blockEnd content open depth (skipDHClientQuotedString content i)
      else if content ! i = CHR ''{'' then blockEnd content open (depth + 1) (i + 1)
      else if content ! i = CHR ''}'' then
        (if depth - 1 = 0 then (Some (i + 1), i + 1) else blockEnd content open (depth - 1) (i + 1))
      else if depth = 1 \<and> i \<noteq> open \<and> dhclientLeaseBlockStart content i then (None, i)
      else blockEnd content open depth (i + 1))"
  by pat_completeness auto
termination
  by (relation "measure (\<lambda>(content, open, depth, i). length content - i)")
     (use skipDHClientQuotedString_more skipDHClientComment_more in \<open>auto simp: not_le intro!: diff_less_mono2\<close>)

declare blockEnd.simps [simp del]

definition dhclientBlockEnd :: "string \<Rightarrow> nat \<Rightarrow> nat option \<times> nat" where
  "dhclientBlockEnd content open = blockEnd content open 0 open"

partial_function (option) leaseBlocks :: "string \<Rightarrow> string list \<Rightarrow> nat \<Rightarrow> string list option" where
  "leaseBlocks content blocks i =
     (if i \<ge> length content then Some blocks
      else if content ! i = CHR ''#'' then leaseBlocks content blocks (skipDHClientComment content i)
      else if content ! i = DQUOTE then leaseBlocks content blocks (skipDHClientQuotedString content i)
      else if \<not> dhclientKeywordAt content i ''lease'' then leaseBlocks content blocks (i + 1)
      else let open = skipDHClientSpaceAndComments content (i + length ''lease'')
           in if open \<ge> length content \<or> content ! open \<noteq> CHR ''{'' then leaseBlocks content blocks (i + 1)
              else case dhclientBlockEnd content open of
                     (None, next') \<Rightarrow> leaseBlocks content blocks (if next' \<le> i then i + 1 else next')
                   | (Some end', _) \<Rightarrow> leaseBlocks content (blocks @ [slice content i end']) end')"

declare leaseBlocks.simps [code]

definition linuxDHClientLeaseBlocks :: "string \<Rightarrow> string list" where
  "linuxDHClientLeaseBlocks content = (case leaseBlocks content [] 0 of Some blocks \<Rightarrow> blocks | None \<Rightarrow> [])"

lemma blockEnd_more: "blockEnd content start depth i = (Some e, n) \<Longrightarrow> i < e"
proof (induction content start depth i rule: blockEnd.induct)
  case (1 content start depth i)
  note step = 1(6) [unfolded blockEnd.simps [of content start depth i]]
  show ?case
    using step 1(1-5) skipDHClientComment_more [of i content] skipDHClientQuotedString_more [of i content]
    by (simp split: if_splits)
qed

text \<open>C31: The search for lease blocks always ends, whatever the file holds: comments and strings that run to
  the end, blocks that are never closed and blocks that another lease interrupts all move
  the scan forward.\<close>

theorem leaseBlocks_terminates: "leaseBlocks content blocks i \<noteq> None"
proof (induction "length content - i" arbitrary: blocks i rule: less_induct)
  case less
  show ?case
  proof (cases "i < length content")
    case True
    then have IH: "i < j \<Longrightarrow> leaseBlocks content bs j \<noteq> None" for bs j
      by (intro less) simp
    let ?open = "skipDHClientSpaceAndComments content (i + length ''lease'')"
    have ge: "i \<le> ?open" using skipDHClientSpaceAndComments_ge [of "i + length ''lease''" content] by simp
    obtain e n where e: "dhclientBlockEnd content ?open = (e, n)" by (cases "dhclientBlockEnd content ?open")
    have "i < e'" if "e = Some e'" for e'
      using e that ge blockEnd_more [of content ?open 0 ?open e' n] by (simp add: dhclientBlockEnd_def)
    with True e IH skipDHClientComment_more [of i content] skipDHClientQuotedString_more [of i content] show ?thesis
      by (subst leaseBlocks.simps) (simp add: Let_def not_le split: option.split)
  qed (subst leaseBlocks.simps, simp)
qed

section \<open>Interface names\<close>

text \<open>The value of a quoted string and the index after it. The text up to an escape is copied when the first
  escape is met; at a later one only the escaped byte is.\<close>

function quotedFrom :: "string \<Rightarrow> nat \<Rightarrow> bool \<Rightarrow> string \<Rightarrow> nat \<Rightarrow> (string \<times> nat) option" where
  "quotedFrom content start escaped out i =
     (if i \<ge> length content then None
      else if line_end (content ! i) then None
      else if content ! i = BSLASH then
        (if i + 1 < length content \<and> line_end (content ! (i + 1)) then None
         else quotedFrom content (i + 2) True
                ((if escaped then out else out @ slice content start i) @
                 (if i + 1 < length content then [content ! (i + 1)] else [])) (i + 2))
      else if content ! i = DQUOTE then
        Some (if escaped then out @ slice content start i else slice content start i, i + 1)
      else quotedFrom content start escaped out (i + 1))"
  by pat_completeness auto
termination by (relation "measure (\<lambda>(content, start, escaped, out, i). length content - i)") auto

declare quotedFrom.simps [simp del]

definition dhclientQuotedStringValue :: "string \<Rightarrow> nat \<Rightarrow> (string \<times> nat) option" where
  "dhclientQuotedStringValue content i =
     (if i = length content \<or> content ! i \<noteq> DQUOTE then None else quotedFrom content (i + 1) False [] (i + 1))"

lemma quotedFrom_more: "quotedFrom content start escaped out i = Some (v, n) \<Longrightarrow> i < n"
proof (induction content start escaped out i rule: quotedFrom.induct)
  case (1 content start escaped out i)
  note step = 1(3) [unfolded quotedFrom.simps [of content start escaped out i]]
  show ?case using step 1(1,2) by (simp split: if_splits)
qed

lemma quotedValue_more:
  "dhclientQuotedStringValue content (skipDHClientSpaceAndComments content j) = Some (v, n) \<Longrightarrow> j < n"
  using skipDHClientSpaceAndComments_ge [of j content]
    quotedFrom_more [of content "skipDHClientSpaceAndComments content j + 1" False "[]"
      "skipDHClientSpaceAndComments content j + 1" v n]
  by (auto simp: dhclientQuotedStringValue_def split: if_splits)

function interfaceNames :: "string \<Rightarrow> string list \<Rightarrow> nat \<Rightarrow> string list" where
  "interfaceNames content names i =
     (if i \<ge> length content then names
      else if content ! i = CHR ''#'' then interfaceNames content names (skipDHClientComment content i)
      else if content ! i = DQUOTE then interfaceNames content names (skipDHClientQuotedString content i)
      else if \<not> dhclientKeywordAt content i ''interface'' then interfaceNames content names (i + 1)
      else case dhclientQuotedStringValue content (skipDHClientSpaceAndComments content (i + length ''interface'')) of
             Some (value, next') \<Rightarrow> interfaceNames content (names @ [value]) next'
           | None \<Rightarrow> interfaceNames content names (i + 1))"
  by pat_completeness auto
termination
  by (relation "measure (\<lambda>(content, names, i). length content - i)")
     (use skipDHClientQuotedString_more skipDHClientComment_more in
       \<open>auto simp: not_le intro!: diff_less_mono2 dest!: quotedValue_more\<close>)

declare interfaceNames.simps [simp del]

definition dhclientInterfaceNames :: "string \<Rightarrow> string list" where
  "dhclientInterfaceNames content = interfaceNames content [] 0"

definition dhclientContentHasInterface :: "string \<Rightarrow> bool" where
  "dhclientContentHasInterface content \<longleftrightarrow> dhclientInterfaceNames content \<noteq> []"

definition dhclientContentMatchesInterface :: "string \<Rightarrow> string \<Rightarrow> bool" where
  "dhclientContentMatchesInterface content interfaceName \<longleftrightarrow>
     list_ex (\<lambda>name. name = interfaceName) (dhclientInterfaceNames content)"

section \<open>The server of a lease\<close>

text \<open>The last server identifier of the file that is an IPv4 address.\<close>

lemma serverStart_more:
  "i < skipDHClientSpaceAndComments content
         (skipDHClientSpaceAndComments content (i + length ''option'') + length ''dhcp-server-identifier'') + n"
  using skipDHClientSpaceAndComments_ge [of "i + length ''option''" content]
    skipDHClientSpaceAndComments_ge
      [of "skipDHClientSpaceAndComments content (i + length ''option'') + length ''dhcp-server-identifier''" content]
  by simp

function lastServer :: "string \<Rightarrow> string \<Rightarrow> nat \<Rightarrow> string" where
  "lastServer content server i =
     (if i \<ge> length content then server
      else if content ! i = CHR ''#'' then lastServer content server (skipDHClientComment content i)
      else if content ! i = DQUOTE then lastServer content server (skipDHClientQuotedString content i)
      else if \<not> dhclientKeywordAt content i ''option'' then lastServer content server (i + 1)
      else let v = skipDHClientSpaceAndComments content (i + length ''option'')
           in if \<not> dhclientKeywordAt content v ''dhcp-server-identifier'' then lastServer content server (i + 1)
              else let valueStart = skipDHClientSpaceAndComments content (v + length ''dhcp-server-identifier'');
                       value = takeWhile (\<lambda>c. \<not> isDHClientSpace c \<and> c \<noteq> CHR '';'') (drop valueStart content);
                       a = To4 (ParseIP value)
                   in lastServer content (if a \<noteq> [] then ip_String a else server) (valueStart + length value))"
  by pat_completeness auto
termination
  by (relation "measure (\<lambda>(content, server, i). length content - i)")
     (use skipDHClientQuotedString_more skipDHClientComment_more serverStart_more in
       \<open>auto simp: not_le intro!: diff_less_mono2\<close>)

declare lastServer.simps [simp del]

definition linuxDHClientDHCPServer :: "string \<Rightarrow> string" where
  "linuxDHClientDHCPServer content = lastServer content [] 0"

text \<open>What a lease file says of an interface: the server, whether the interface is meant, and whether the
  file names any.\<close>

definition linuxDHClientDHCPServerForInterfaceState :: "string \<Rightarrow> string \<Rightarrow> string \<times> bool \<times> bool" where
  "linuxDHClientDHCPServerForInterfaceState content interfaceName =
     (if \<not> dhclientContentHasInterface content then ([], False, False)
      else let blocks = linuxDHClientLeaseBlocks content;
               named = filter dhclientContentHasInterface blocks;
               matching = filter (\<lambda>b. dhclientContentMatchesInterface b interfaceName) named
           in if blocks = [] then
                (if dhclientContentMatchesInterface content interfaceName
                 then (linuxDHClientDHCPServer content, True, True) else ([], False, True))
              else if matching \<noteq> [] then (linuxDHClientDHCPServer (last matching), True, True)
              else if named \<noteq> [] then ([], dhclientContentMatchesInterface content interfaceName, True)
              else if dhclientContentMatchesInterface content interfaceName
              then (linuxDHClientDHCPServer content, True, True)
              else ([], False, True))"

definition linuxSystemdDHCPServerPattern :: rx where
  "linuxSystemdDHCPServerPattern = cats [LineStart, lit ''SERVER_ADDRESS='', Grp 1 (many1 rx_nonspace)]"

definition linuxDHCPCDServerPattern :: rx where
  "linuxDHCPCDServerPattern =
     cats [LineStart, lit ''dhcp_server_identifier='', chr SQUOTE, Grp 1 (many1 (none_of [SQUOTE])), chr SQUOTE]"

definition openBSDDHCPServerPattern :: rx where
  "openBSDDHCPServerPattern = cats [rx_space, lit ''dhcp server '', Grp 1 (many1 rx_nonspace)]"

definition first_capture :: "rx \<Rightarrow> string \<Rightarrow> string" where
  "first_capture r s = (case capture_group r s 1 of None \<Rightarrow> [] | Some v \<Rightarrow> v)"

definition linuxSystemdDHCPServer :: "string \<Rightarrow> string" where
  "linuxSystemdDHCPServer content = first_capture linuxSystemdDHCPServerPattern content"

definition linuxDHCPCDDHCPServer :: "string \<Rightarrow> string" where
  "linuxDHCPCDDHCPServer content = first_capture linuxDHCPCDServerPattern content"

definition openBSDDHCPServer :: "string \<Rightarrow> string" where
  "openBSDDHCPServer output = first_capture openBSDDHCPServerPattern output"

definition leaseFilenameMatchesInterface :: "string \<Rightarrow> string \<Rightarrow> bool" where
  "leaseFilenameMatchesInterface name interfaceName \<longleftrightarrow>
     has_suffix name (''-'' @ interfaceName @ ''.lease'') \<or> has_suffix name (''.'' @ interfaceName @ ''.lease'') \<or>
     has_suffix name (''.'' @ interfaceName @ ''.leases'')"

text \<open>One entry of a lease directory: the server it decides on, or nothing when the search goes on.\<close>

definition leaseEntryServer :: "string \<Rightarrow> string \<Rightarrow> hostOS \<Rightarrow> string \<times> bool \<Rightarrow> string option" where
  "leaseEntryServer dir interfaceName h entry =
     (let name = fst entry
      in if snd entry \<or> \<not> contains name ''lease'' then None
         else let content = readText (path_join dir name) (ho_readFile h)
              in case linuxDHClientDHCPServerForInterfaceState content interfaceName of
                   (server, matched, explicit) \<Rightarrow>
                     if explicit then (if matched then Some server else None)
                     else if \<not> leaseFilenameMatchesInterface name interfaceName then None
                     else if linuxDHClientDHCPServer content \<noteq> [] then Some (linuxDHClientDHCPServer content)
                     else if linuxSystemdDHCPServer content \<noteq> [] then Some (linuxSystemdDHCPServer content)
                     else None)"

fun first_some :: "'b option list \<Rightarrow> 'b option" where
  "first_some [] = None"
| "first_some (None # xs) = first_some xs"
| "first_some (Some x # xs) = Some x"

definition linuxDHCPServerFromLeaseDir :: "string \<Rightarrow> string \<Rightarrow> hostOS \<Rightarrow> string" where
  "linuxDHCPServerFromLeaseDir dir interfaceName h =
     (case ho_readDir h dir of Inl e \<Rightarrow> []
      | Inr entries \<Rightarrow>
          (case first_some (map (leaseEntryServer dir interfaceName h) entries) of None \<Rightarrow> [] | Some server \<Rightarrow> server))"

definition leaseDirs :: "string list" where
  "leaseDirs = [''/var/lib/dhclient'', ''/var/lib/dhcp'', ''/var/lib/dhcp3'', ''/var/lib/NetworkManager'', ''/var/db'']"

definition linuxDHCPServer :: "hostOS \<Rightarrow> string \<Rightarrow> int \<Rightarrow> string" where
  "linuxDHCPServer h interfaceName interfaceIndex =
     firstNonEmptyValue
       ((if interfaceIndex > 0
         then [linuxSystemdDHCPServer
                 (readText (path_join ''/run/systemd/netif/leases'' (itoa interfaceIndex)) (ho_readFile h))]
         else []) @
        map (\<lambda>dir. linuxDHCPServerFromLeaseDir dir interfaceName h) leaseDirs @
        [linuxDHCPCDDHCPServer (ho_run h ''dhcpcd'' [''-U'', interfaceName])])"

definition plain :: "char \<Rightarrow> bool" where
  "plain c \<longleftrightarrow> \<not> line_end c \<and> c \<noteq> BSLASH \<and> c \<noteq> DQUOTE"

lemma quotedFrom_plain:
  "list_all plain w \<Longrightarrow>
     quotedFrom (l @ w @ rest) start e out (length l) = quotedFrom (l @ w @ rest) start e out (length l + length w)"
proof (induction w arbitrary: l)
  case (Cons c w)
  from Cons.IH [of "l @ [c]"] Cons.prems show ?case
    by (subst quotedFrom.simps) (auto simp: plain_def nth_append)
qed simp

lemma quotedFrom_close:
  "quotedFrom (l @ DQUOTE # rest) start e out (length l) =
     Some (if e then out @ slice (l @ DQUOTE # rest) start (length l) else slice (l @ DQUOTE # rest) start (length l),
       length l + 1)"
  by (subst quotedFrom.simps) (simp add: nth_append line_end_def)

lemma quotedFrom_escape:
  assumes "\<not> line_end x"
  shows "quotedFrom (l @ BSLASH # x # rest) start e out (length l) =
    quotedFrom (l @ BSLASH # x # rest) (length l + 2) True
      ((if e then out else out @ slice (l @ BSLASH # x # rest) start (length l)) @ [x]) (length l + 2)"
  using assms by (subst quotedFrom.simps) (auto simp: nth_append line_end_def)

lemma slice_at: "slice (l @ w @ rest) (length l) (length l + length w) = w"
  by (simp add: slice_def)

text \<open>A name without an escape is read as it stands.\<close>

lemma dhclientQuotedStringValue_plain:
  assumes "list_all plain w"
  shows "dhclientQuotedStringValue (l @ DQUOTE # w @ DQUOTE # rest) (length l) = Some (w, length l + length w + 2)"
  using quotedFrom_plain [OF assms, of "l @ [DQUOTE]" "DQUOTE # rest" "length l + 1" False "[]"]
    quotedFrom_close [of "l @ DQUOTE # w" rest "length l + 1" False "[]"] slice_at [of "l @ [DQUOTE]" w "DQUOTE # rest"]
  by (simp add: dhclientQuotedStringValue_def nth_append)

text \<open>A quoted name with two escapes loses the text between them: the scanner copies the text before the
  first escape and the text after the last one, but at a second escape it moves its start mark
  past text it has not copied.\<close>

lemma dhclientQuotedStringValue_two_escapes:
  assumes "list_all plain a" "list_all plain b" "list_all plain c" "\<not> line_end x" "\<not> line_end y"
  shows "map_option fst (dhclientQuotedStringValue
           (l @ DQUOTE # a @ BSLASH # x # b @ BSLASH # y # c @ DQUOTE # rest) (length l)) = Some (a @ x # y # c)"
proof -
  let ?s = "l @ DQUOTE # a @ BSLASH # x # b @ BSLASH # y # c @ DQUOTE # rest"
  let ?p = "l @ DQUOTE # a" let ?q = "l @ DQUOTE # a @ BSLASH # x # b" let ?r = "?q @ [BSLASH, y]"
  have "dhclientQuotedStringValue ?s (length l) = quotedFrom ?s (length l + 1) False [] (length l + 1)"
    by (simp add: dhclientQuotedStringValue_def nth_append)
  also have "\<dots> = quotedFrom ?s (length l + 1) False [] (length ?p)"
    using quotedFrom_plain [OF assms(1), of "l @ [DQUOTE]" "BSLASH # x # b @ BSLASH # y # c @ DQUOTE # rest"] by simp
  also have "\<dots> = quotedFrom ?s (length ?p + 2) True (a @ [x]) (length ?p + 2)"
    using quotedFrom_escape [OF assms(4), of ?p "b @ BSLASH # y # c @ DQUOTE # rest" "length l + 1" False "[]"]
      slice_at [of "l @ [DQUOTE]" a "BSLASH # x # b @ BSLASH # y # c @ DQUOTE # rest"] by simp
  also have "\<dots> = quotedFrom ?s (length ?p + 2) True (a @ [x]) (length ?q)"
    using quotedFrom_plain [OF assms(2), of "?p @ [BSLASH, x]" "BSLASH # y # c @ DQUOTE # rest"] by (simp add: add.assoc)
  also have "\<dots> = quotedFrom ?s (length ?r) True (a @ [x, y]) (length ?r)"
    using quotedFrom_escape [OF assms(5), of ?q "c @ DQUOTE # rest" "length ?p + 2" True "a @ [x]"] by simp
  also have "\<dots> = quotedFrom ?s (length ?r) True (a @ [x, y]) (length (?r @ c))"
    using quotedFrom_plain [OF assms(3), of ?r "DQUOTE # rest"] by (simp add: add.assoc)
  also have "map_option fst \<dots> = Some (a @ x # y # c)"
    using quotedFrom_close [of "?r @ c" rest "length ?r" True "a @ [x, y]"] slice_at [of ?r c "DQUOTE # rest"] by (simp add: add.assoc)
  finally show ?thesis .
qed

lemma dhclientQuotedStringValue_two_escapes_witness:
  "map_option fst (dhclientQuotedStringValue
     ([] @ DQUOTE # ''et'' @ BSLASH # CHR ''h'' # ''lost'' @ BSLASH # CHR ''e'' # ''r0'' @ DQUOTE # []) (length ([] :: string))) =
   Some (''et'' @ CHR ''h'' # CHR ''e'' # ''r0'')"
  by (rule dhclientQuotedStringValue_two_escapes) (simp_all add: plain_def line_end_def)

end
