(* ===== verification/Net_Interfaces.thy ===== *)
theory Net_Interfaces
  imports Net_Leases
begin

text \<open>
  The interface maps of \<open>internal/engine/networking.go\<close> and \<open>plan9.go\<close>: the bindings of addresses, the
  snapshot of the operating system, the reports that add to it on each platform, and the
  choice of the primary interface and of its addresses. An interface map is a map from names
  to values; the code updates the maps inside it in place, the model returns them updated.
\<close>

section \<open>Maps of interfaces\<close>

text \<open>The string of a type assertion whose failure gives the empty string.\<close>

definition as_string :: "gval option \<Rightarrow> string" where
  "as_string v = (case v of Some (GStr s) \<Rightarrow> s | _ \<Rightarrow> [])"

definition not_nil :: "gval option \<Rightarrow> bool" where
  "not_nil v \<longleftrightarrow> (case v of None \<Rightarrow> False | Some GNil \<Rightarrow> False | Some _ \<Rightarrow> True)"

text \<open>A range over an interface map whose body changes the interface at hand.\<close>

definition eachInterface :: "(string \<Rightarrow> gval gomap \<Rightarrow> gval gomap) \<Rightarrow> gval gomap \<Rightarrow> gval gomap" where
  "eachInterface f interfaces =
     map (\<lambda>(name, raw). (name, case raw of GMap iface \<Rightarrow> GMap (f name iface) | _ \<Rightarrow> raw)) interfaces"

definition withInterface :: "string \<Rightarrow> (gval gomap \<Rightarrow> gval gomap) \<Rightarrow> gval gomap \<Rightarrow> gval gomap" where
  "withInterface name f interfaces =
     (case mget interfaces name of Some (GMap iface) \<Rightarrow> mput name (GMap (f iface)) interfaces | _ \<Rightarrow> interfaces)"

definition put_nonempty :: "string \<Rightarrow> string \<Rightarrow> gval gomap \<Rightarrow> gval gomap" where
  "put_nonempty key s m = (if s \<noteq> [] then mput key (GStr s) m else m)"

text \<open>The bindings of an interface that are maps.\<close>

definition bindingsOf :: "gval gomap \<Rightarrow> string \<Rightarrow> gval gomap list" where
  "bindingsOf iface key =
     (case mget iface key of
        Some (GList bs) \<Rightarrow> concat (map (\<lambda>b. case b of GMap bm \<Rightarrow> [bm] | _ \<Rightarrow> []) bs)
      | _ \<Rightarrow> [])"

definition hasAddress :: "string \<Rightarrow> gval gomap \<Rightarrow> bool" where
  "hasAddress address binding \<longleftrightarrow> mget binding ''address'' = Some (GStr address)"

text \<open>The bindings of all interfaces, each with the name of its interface, in the order of the map.\<close>

definition allBindings :: "gval gomap \<Rightarrow> string \<Rightarrow> (string \<times> gval gomap) list" where
  "allBindings interfaces key =
     concat (map (\<lambda>(name, raw). case raw of GMap iface \<Rightarrow> map (\<lambda>b. (name, b)) (bindingsOf iface key) | _ \<Rightarrow> []) interfaces)"

definition primaryInterface :: "gval gomap \<Rightarrow> string \<Rightarrow> string" where
  "primaryInterface interfaces primaryIP =
     (if primaryIP = [] then []
      else case find (\<lambda>(name, b). hasAddress primaryIP b) (allBindings interfaces ''bindings'') of
             None \<Rightarrow> [] | Some (name, _) \<Rightarrow> name)"

definition bindingFor :: "string \<Rightarrow> gval gomap \<Rightarrow> string \<Rightarrow> gval gomap" where
  "bindingFor key interfaces primaryIP =
     (if primaryIP = [] then []
      else case find (\<lambda>(name, b). hasAddress primaryIP b) (allBindings interfaces key) of
             None \<Rightarrow> [] | Some (_, binding) \<Rightarrow> binding)"

definition primaryIPv4Binding :: "gval gomap \<Rightarrow> string \<Rightarrow> gval gomap" where
  "primaryIPv4Binding = bindingFor ''bindings''"

definition primaryIPv6Binding :: "gval gomap \<Rightarrow> string \<Rightarrow> gval gomap" where
  "primaryIPv6Binding = bindingFor ''bindings6''"

definition primaryIPv6Scope :: "gval gomap \<Rightarrow> string \<Rightarrow> string" where
  "primaryIPv6Scope interfaces primaryIP =
     (if primaryIP = [] then []
      else let scope = as_string (mget (primaryIPv6Binding interfaces primaryIP) ''scope6'')
           in if scope \<noteq> [] then scope else ''global'')"

definition primaryInterfaceFact :: "gval gomap \<Rightarrow> string \<Rightarrow> string \<Rightarrow> gval" where
  "primaryInterfaceFact interfaces name key =
     (if name = [] then GNil
      else case mget interfaces name of
             Some (GMap iface) \<Rightarrow> (case mget iface key of None \<Rightarrow> GNil | Some v \<Rightarrow> v)
           | _ \<Rightarrow> GNil)"

definition networkingDHCPFact :: "gval gomap \<Rightarrow> string \<Rightarrow> string" where
  "networkingDHCPFact interfaces primaryIP =
     as_string (Some (primaryInterfaceFact interfaces (primaryInterface interfaces primaryIP) ''dhcp''))"

definition networkingDHCPValue :: "string \<Rightarrow> gval gomap \<Rightarrow> string \<Rightarrow> gval" where
  "networkingDHCPValue goos interfaces primaryIP =
     (let dhcp = networkingDHCPFact interfaces primaryIP
      in if (goos = ''netbsd'' \<or> goos = ''plan9'') \<and> dhcp = [] then GNil else GStr dhcp)"

definition optionalNetworkingString :: "string \<Rightarrow> gval" where
  "optionalNetworkingString v = (if v = [] then GNil else GStr v)"

section \<open>Bindings\<close>

definition networkAddress :: "ip \<Rightarrow> ip \<Rightarrow> string" where
  "networkAddress a m = ip_String (ip_Mask a m)"

definition netmaskString :: "ip \<Rightarrow> string" where
  "netmaskString m = (if length m = 4 then ip_String m else if length m \<noteq> 16 then [] else ip_String m)"

definition interfaceBinding :: "ip \<Rightarrow> ip option \<Rightarrow> gval gomap" where
  "interfaceBinding a net =
     (let binding = [(''address'', GStr (ip_String a))] @ (if To4 a = [] then [(''scope6'', GStr (ipv6Scope a))] else [])
      in case net of None \<Rightarrow> binding
         | Some m \<Rightarrow> put_nonempty ''network'' (networkAddress a m) (put_nonempty ''netmask'' (netmaskString m) binding))"

definition appendInterfaceBinding :: "gval gomap \<Rightarrow> string \<Rightarrow> gval gomap \<Rightarrow> gval gomap" where
  "appendInterfaceBinding iface key binding =
     mput key (GList ((case mget iface key of Some (GList bs) \<Rightarrow> bs | _ \<Rightarrow> []) @ [GMap binding])) iface"

text \<open>A fallback binding of an address that is there fills the fields that are missing in the last binding of
  that address; any other is added at the end.\<close>

definition fillMissing :: "gval gomap \<Rightarrow> gval gomap \<Rightarrow> gval gomap" where
  "fillMissing existing bm =
     foldl (\<lambda>m (key, fact). if not_nil (mget m key) then m else mput key fact m) existing bm"

fun update_first :: "('a \<Rightarrow> bool) \<Rightarrow> ('a \<Rightarrow> 'a) \<Rightarrow> 'a list \<Rightarrow> 'a list" where
  "update_first p f [] = []"
| "update_first p f (x # xs) = (if p x then f x # xs else x # update_first p f xs)"

definition update_last :: "('a \<Rightarrow> bool) \<Rightarrow> ('a \<Rightarrow> 'a) \<Rightarrow> 'a list \<Rightarrow> 'a list" where
  "update_last p f xs = rev (update_first p f (rev xs))"

definition bindingAt :: "string \<Rightarrow> gval \<Rightarrow> bool" where
  "bindingAt address b \<longleftrightarrow> (case b of GMap bm \<Rightarrow> hasAddress address bm | _ \<Rightarrow> False)"

definition mergeBinding :: "gval list \<times> gval list \<Rightarrow> gval \<Rightarrow> gval list \<times> gval list" where
  "mergeBinding st binding =
     (case (st, binding) of
        ((merged, added), GMap bm) \<Rightarrow>
          (let address = as_string (mget bm ''address'')
           in if address \<noteq> [] \<and> list_ex (bindingAt address) merged
              then (update_last (bindingAt address)
                      (\<lambda>b. case b of GMap existing \<Rightarrow> GMap (fillMissing existing bm) | _ \<Rightarrow> b) merged, added)
              else (merged, added @ [GMap bm]))
      | _ \<Rightarrow> st)"

definition mergeInterfaceBindings :: "gval option \<Rightarrow> gval \<Rightarrow> gval list option" where
  "mergeInterfaceBindings val fallback =
     (case (val, fallback) of
        (Some (GList bindings), GList fallbackBindings) \<Rightarrow>
          (let (merged, added) = foldl mergeBinding (bindings, []) fallbackBindings in Some (merged @ added))
      | _ \<Rightarrow> None)"

definition mergeInterfaceFact :: "gval gomap \<Rightarrow> string \<times> gval \<Rightarrow> gval gomap" where
  "mergeInterfaceFact iface kv =
     (let (key, fact) = kv
      in case (if key = ''bindings'' \<or> key = ''bindings6'' then mergeInterfaceBindings (mget iface key) fact else None) of
           Some bindings \<Rightarrow> mput key (GList bindings) iface
         | None \<Rightarrow> if not_nil (mget iface key) then iface else mput key fact iface)"

definition mergeMissingInterfaceFacts :: "gval gomap \<Rightarrow> gval gomap \<Rightarrow> gval gomap" where
  "mergeMissingInterfaceFacts values fallback =
     foldl (\<lambda>vs (name, raw).
         case raw of
           GMap fallbackInterface \<Rightarrow>
             (case mget vs name of
                Some (GMap iface) \<Rightarrow> mput name (GMap (foldl mergeInterfaceFact iface fallbackInterface)) vs
              | _ \<Rightarrow> mput name raw vs)
         | _ \<Rightarrow> vs) values fallback"

section \<open>The snapshot of the operating system\<close>

record netInterface =
  nf_Index :: int
  nf_MTU :: int
  nf_Name :: string
  nf_HardwareAddr :: "8 word list"
  nf_Up :: bool
  nf_Loopback :: bool

type_synonym networkInterfaceSnapshot = "netInterface \<times> netAddr list"

text \<open>What packages \<open>net\<close> and \<open>os\<close> answer: the interfaces, the addresses of each, all addresses, the node name
  and the names of an address.\<close>

record hostNet =
  hn_Interfaces :: "goerror + (netInterface \<times> (goerror + netAddr list)) list"
  hn_InterfaceAddrs :: "goerror + netAddr list"
  hn_Hostname :: "goerror + string"
  hn_LookupAddr :: "string \<Rightarrow> goerror + string list"

definition currentNetworkInterfaceSnapshots :: "hostNet \<Rightarrow> goerror + networkInterfaceSnapshot list" where
  "currentNetworkInterfaceSnapshots net =
     (case hn_Interfaces net of Inl e \<Rightarrow> Inl e
      | Inr interfaces \<Rightarrow>
          Inr (concat (map (\<lambda>(iface, addrs). case addrs of Inl e \<Rightarrow> [] | Inr as \<Rightarrow> [(iface, as)]) interfaces)))"

definition networkInterfaceIsUsable :: "netInterface \<Rightarrow> bool" where
  "networkInterfaceIsUsable iface = nf_Up iface"

definition networkInterfaceIsUsableForGOOS :: "string \<Rightarrow> netInterface \<Rightarrow> bool" where
  "networkInterfaceIsUsableForGOOS goos iface =
     (if goos \<noteq> ''windows'' then True else networkInterfaceIsUsable iface \<and> \<not> nf_Loopback iface)"

definition networkInterfaceName :: "string \<Rightarrow> string \<Rightarrow> string" where
  "networkInterfaceName goos name = (if goos = ''windows'' then toValidUTF8 0 False name else name)"

definition formatInterfaceMAC :: "string \<Rightarrow> 8 word list \<Rightarrow> string" where
  "formatInterfaceMAC goos hw =
     (let mac = join '':'' (map byte_hex hw) in if goos = ''windows'' then to_upper mac else mac)"

definition snapshotInterface :: "string \<Rightarrow> networkInterfaceSnapshot \<Rightarrow> gval gomap" where
  "snapshotInterface goos snapshot =
     (let (iface, addrs) = snapshot;
          parsed = concat (map (\<lambda>addr. case parseInterfaceAddr addr of None \<Rightarrow> [] | Some p \<Rightarrow> [p]) addrs);
          bindings = map (\<lambda>(a, net). GMap (interfaceBinding a net)) (filter (\<lambda>(a, net). To4 a \<noteq> []) parsed);
          bindings6 = map (\<lambda>(a, net). GMap (interfaceBinding a net)) (filter (\<lambda>(a, net). To4 a = []) parsed);
          mac = formatInterfaceMAC goos (nf_HardwareAddr iface)
      in (if nf_MTU iface > 0 then [(''mtu'', GInt (nf_MTU iface))] else []) @
         (if mac \<noteq> [] then [(''mac'', GStr mac)] else []) @
         (if bindings \<noteq> [] then [(''bindings'', GList bindings)] else []) @
         (if bindings6 \<noteq> [] then [(''bindings6'', GList bindings6)] else []))"

definition networkingInterfacesFromSnapshots :: "networkInterfaceSnapshot list \<Rightarrow> string \<Rightarrow> gval gomap" where
  "networkingInterfacesFromSnapshots snapshots goos =
     foldl (\<lambda>values snapshot. mput (networkInterfaceName goos (nf_Name (fst snapshot))) (GMap (snapshotInterface goos snapshot)) values)
       [] (filter (\<lambda>snapshot. networkInterfaceIsUsableForGOOS goos (fst snapshot)) snapshots)"

section \<open>Reports of ifconfig\<close>

definition fieldAfter :: "string list \<Rightarrow> string \<Rightarrow> string" where
  "fieldAfter ws key =
     (case find (\<lambda>(a, b). a = key) (zip ws (tl ws)) of None \<Rightarrow> [] | Some (_, v) \<Rightarrow> v)"

definition ifconfigMTU :: "string \<Rightarrow> int" where
  "ifconfigMTU s =
     (let ws = string_fields s
      in case find (\<lambda>(a, b). a = ''mtu'' \<and> (case atoi b of Some n \<Rightarrow> n > 0 | None \<Rightarrow> False)) (zip ws (tl ws)) of
           None \<Rightarrow> 0 | Some (_, b) \<Rightarrow> the (atoi b))"

text \<open>\<open>strconv.ParseUint\<close> with base 0: a prefix gives the base, and underscores may separate digits.\<close>

definition uint_digits :: "nat \<Rightarrow> string \<Rightarrow> nat option" where
  "uint_digits base ds =
     foldl (\<lambda>acc c. case (acc, hex_value_of c) of (Some n, Some v) \<Rightarrow> if v < base then Some (n * base + v) else None | _ \<Rightarrow> None)
       (Some 0) ds"

definition parse_uint0 :: "nat \<Rightarrow> string \<Rightarrow> nat option" where
  "parse_uint0 bits s =
     (let named = length s \<ge> 3 \<and> hd s = CHR ''0'' \<and> lower_char (s ! 1) \<in> set ''box'';
          base = (if named then (if lower_char (s ! 1) = CHR ''b'' then 2 else if lower_char (s ! 1) = CHR ''o'' then 8 else 16)
                  else if s \<noteq> [] \<and> hd s = CHR ''0'' then 8 else 10);
          ds = (if named then drop 2 s else if s \<noteq> [] \<and> hd s = CHR ''0'' then tl s else s);
          separated = (if named then CHR ''0'' # ds else s)
      in if s = [] then None
         else if CHR ''_'' \<in> set s \<and> (hd separated = CHR ''_'' \<or> last separated = CHR ''_'' \<or> contains separated ''__'') then None
         else case uint_digits base (filter (\<lambda>c. c \<noteq> CHR ''_'') ds) of None \<Rightarrow> None
              | Some n \<Rightarrow> if n < 2 ^ bits then Some n else None)"

definition dragonFlyIPv4Mask :: "string \<Rightarrow> ip" where
  "dragonFlyIPv4Mask s =
     (if s = [] then []
      else case parse_uint0 32 s of
             Some raw \<Rightarrow> map word_of_nat [raw div 2 ^ 24, raw div 2 ^ 16, raw div 2 ^ 8, raw]
           | None \<Rightarrow> To4 (ParseIP s))"

definition dragonFlyIPv4Binding :: "string list \<Rightarrow> gval gomap option" where
  "dragonFlyIPv4Binding ws =
     (let a = To4 (ParseIP (ws ! 1)); m = dragonFlyIPv4Mask (fieldAfter ws ''netmask'')
      in if a = [] then None
         else if m = [] then Some (interfaceBinding a None)
         else Some (interfaceBinding a (Some m)))"

definition dragonFlyIPv6Binding :: "string list \<Rightarrow> gval gomap option" where
  "dragonFlyIPv6Binding ws =
     (let a = ParseIP (before_cut (ws ! 1) ''%'')
      in if a = [] \<or> To4 a \<noteq> [] then None
         else case atoi (fieldAfter ws ''prefixlen'') of
                Some n \<Rightarrow> if n < 0 \<or> n > 128 then Some (interfaceBinding a None)
                          else Some (interfaceBinding a (Some (CIDRMask (nat n) 128)))
              | None \<Rightarrow> Some (interfaceBinding a None))"

text \<open>A line that is not indented starts an interface, or leaves none current.\<close>

definition ifconfigLine :: "gval gomap \<times> string option \<Rightarrow> string \<Rightarrow> gval gomap \<times> string option" where
  "ifconfigLine st line =
     (let (interfaces, current) = st
      in if trim_space line = [] then st
         else if hd line \<noteq> CHR '' '' \<and> hd line \<noteq> CHR 0x09
         then (case cut line '':'' of
                 None \<Rightarrow> (interfaces, None)
               | Some (name, rest) \<Rightarrow>
                   if name = [] then (interfaces, None)
                   else (mput name (GMap (if ifconfigMTU rest > 0 then [(''mtu'', GInt (ifconfigMTU rest))] else [])) interfaces,
                         Some name))
         else case current of None \<Rightarrow> st
              | Some name \<Rightarrow>
                  (let ws = string_fields (trim_space line)
                   in if length ws < 2 then st
                      else (withInterface name (\<lambda>iface.
                              if hd ws = ''ether'' then mput ''mac'' (GStr (ws ! 1)) iface
                              else if hd ws = ''inet''
                              then (case dragonFlyIPv4Binding ws of None \<Rightarrow> iface
                                    | Some b \<Rightarrow> appendInterfaceBinding iface ''bindings'' b)
                              else if hd ws = ''inet6''
                              then (case dragonFlyIPv6Binding ws of None \<Rightarrow> iface
                                    | Some b \<Rightarrow> appendInterfaceBinding iface ''bindings6'' b)
                              else iface) interfaces, current)))"

definition dragonFlyInterfacesFromIfconfig :: "string \<Rightarrow> gval gomap" where
  "dragonFlyInterfacesFromIfconfig output = fst (foldl ifconfigLine ([], None) (split_on NL output))"

definition bsdInterfaceStatus :: "string \<Rightarrow> string" where
  "bsdInterfaceStatus output =
     (case find (\<lambda>line. has_prefix (trim_space line) ''status:'') (split_on NL output) of None \<Rightarrow> []
      | Some line \<Rightarrow> to_lower (trim_space (trim_prefix (trim_space line) ''status:'')))"

definition bsdMediaSpeed :: "string \<Rightarrow> int" where
  "bsdMediaSpeed field =
     (case cut (to_lower field) ''base'' of None \<Rightarrow> 0
      | Some (number, _) \<Rightarrow>
          (let giga = has_suffix number ''g''
           in case parse_float (if giga then trim_suffix number ''g'' else number) of None \<Rightarrow> 0
              | Some (neg, a, b) \<Rightarrow>
                  if neg \<or> a = 0 then 0
                  else fl_trunc (if giga then fl_times (fl_quot a b) 1000 else fl_quot a b)))"

definition bsdMediaSpeedAndDuplex :: "string \<Rightarrow> int \<times> string" where
  "bsdMediaSpeedAndDuplex media0 =
     (let media = map (\<lambda>c. if c \<in> set ''()<>'' then CHR '' '' else c) (to_lower media0);
          duplex = (if contains media ''full-duplex'' then ''full'' else if contains media ''half-duplex'' then ''half'' else [])
      in case find (\<lambda>field. bsdMediaSpeed field > 0) (string_fields media) of
           None \<Rightarrow> (0, duplex) | Some field \<Rightarrow> (bsdMediaSpeed field, duplex))"

definition freeBSDInterfaceMedia :: "string \<Rightarrow> int \<times> string" where
  "freeBSDInterfaceMedia output =
     (case find (\<lambda>line. has_prefix (trim_space line) ''media:'') (split_on NL output) of None \<Rightarrow> (0, [])
      | Some line \<Rightarrow> bsdMediaSpeedAndDuplex (trim_prefix (trim_space line) ''media:''))"

section \<open>Adding to the interfaces\<close>

definition darwinDHCPServerPattern :: rx where
  "darwinDHCPServerPattern =
     cats [TextStart, many1 (Chars (\<lambda>c. is_digit c \<or> c = DOT \<or> (97 \<le> code_of c \<and> code_of c \<le> 102) \<or> c = CHR '':'' \<or>
       code_of c \<in> set [9, 10, 12, 13, 32])), TextEnd]"

definition darwinDHCPServer :: "string \<Rightarrow> string" where
  "darwinDHCPServer output0 =
     (let output = trim_space output0
      in if output = [] \<or> \<not> MatchString darwinDHCPServerPattern output then [] else output)"

definition addDarwinDHCPServers :: "(string \<Rightarrow> string list \<Rightarrow> string) \<Rightarrow> gval gomap \<Rightarrow> gval gomap" where
  "addDarwinDHCPServers run = eachInterface (\<lambda>name iface.
     put_nonempty ''dhcp'' (darwinDHCPServer (run ''ipconfig'' [''getoption'', name, ''server_identifier''])) iface)"

definition windowsIPConfigAdapterName :: "string \<Rightarrow> string" where
  "windowsIPConfigAdapterName header0 =
     (let header = trim_suffix (trim_space header0) '':''
      in case cut header '' adapter '' of
           Some (before, after) \<Rightarrow> if before \<noteq> [] \<and> after \<noteq> [] then after else [] | None \<Rightarrow> [])"

record windowsIPConfigAdapter =
  wa_DHCPServer :: string
  wa_DNSSuffix :: string

definition no_adapter :: windowsIPConfigAdapter where
  "no_adapter = \<lparr>wa_DHCPServer = [], wa_DNSSuffix = []\<rparr>"

definition adapterAt :: "windowsIPConfigAdapter gomap \<Rightarrow> string \<Rightarrow> windowsIPConfigAdapter" where
  "adapterAt adapters name = (case mget adapters name of None \<Rightarrow> no_adapter | Some a \<Rightarrow> a)"

definition ipconfigLine ::
  "windowsIPConfigAdapter gomap \<times> string \<Rightarrow> string \<Rightarrow> windowsIPConfigAdapter gomap \<times> string" where
  "ipconfigLine st line0 =
     (let (adapters, adapter) = st; line = trim_space (trim_right line0 [CHR 0x0D])
      in if has_suffix line '':'' \<and> \<not> contains line '' . '' then (adapters, windowsIPConfigAdapterName line)
         else if adapter = [] then st
         else case cut line '':'' of None \<Rightarrow> st
              | Some (key, v) \<Rightarrow>
                  (let current = adapterAt adapters adapter;
                       current' = (if contains key ''DHCP Server'' then current\<lparr>wa_DHCPServer := trim_space v\<rparr>
                                   else if contains key ''Connection-specific DNS Suffix'' then current\<lparr>wa_DNSSuffix := trim_space v\<rparr>
                                   else current)
                   in (if current' \<noteq> no_adapter then mput adapter current' adapters else adapters, adapter)))"

definition windowsIPConfigAdapters :: "string \<Rightarrow> windowsIPConfigAdapter gomap" where
  "windowsIPConfigAdapters output = fst (foldl ipconfigLine ([], []) (split_on NL output))"

definition addWindowsDHCPServers :: "(string \<Rightarrow> string list \<Rightarrow> string) \<Rightarrow> gval gomap \<Rightarrow> gval gomap" where
  "addWindowsDHCPServers run =
     (let info = windowsIPConfigAdapters (run ''ipconfig'' [''/all''])
      in eachInterface (\<lambda>name iface.
           put_nonempty ''dns_suffix'' (wa_DNSSuffix (adapterAt info name))
             (put_nonempty ''dhcp'' (wa_DHCPServer (adapterAt info name)) iface)))"

definition addOpenBSDDHCPServers :: "(string \<Rightarrow> string list \<Rightarrow> string) \<Rightarrow> gval gomap \<Rightarrow> gval gomap" where
  "addOpenBSDDHCPServers run = eachInterface (\<lambda>name iface.
     put_nonempty ''dhcp'' (openBSDDHCPServer (run ''dhcpleasectl'' [''-l'', name])) iface)"

definition illumosDHCPServer :: "string \<Rightarrow> string" where
  "illumosDHCPServer output = (let server = trim_space output in if ParseIP server = [] then [] else server)"

definition addIllumosDHCPServers :: "(string \<Rightarrow> string list \<Rightarrow> string) \<Rightarrow> gval gomap \<Rightarrow> gval gomap" where
  "addIllumosDHCPServers run = eachInterface (\<lambda>name iface.
     put_nonempty ''dhcp'' (illumosDHCPServer (run ''dhcpinfo'' [''-i'', name, ''ServerID''])) iface)"

definition addBSDInterfaceOperationalStates :: "(string \<Rightarrow> string list \<Rightarrow> string) \<Rightarrow> gval gomap \<Rightarrow> gval gomap" where
  "addBSDInterfaceOperationalStates run = eachInterface (\<lambda>name iface.
     put_nonempty ''operational_state'' (bsdInterfaceStatus (run ''ifconfig'' [name])) iface)"

definition addFreeBSDInterfaceMedia :: "(string \<Rightarrow> string list \<Rightarrow> string) \<Rightarrow> gval gomap \<Rightarrow> gval gomap" where
  "addFreeBSDInterfaceMedia run = eachInterface (\<lambda>name iface.
     let (speed, duplex) = freeBSDInterfaceMedia (run ''ifconfig'' [''-m'', name])
     in put_nonempty ''duplex'' duplex (if speed > 0 then mput ''speed'' (GInt speed) iface else iface))"

definition addFreeBSDDHCPServers :: "(string \<Rightarrow> goerror + string) \<Rightarrow> gval gomap \<Rightarrow> gval gomap" where
  "addFreeBSDDHCPServers readFile = eachInterface (\<lambda>name iface.
     put_nonempty ''dhcp'' (linuxDHClientDHCPServer (readText (''/var/db/dhclient.leases.'' @ name) readFile)) iface)"

section \<open>The first binding of an interface\<close>

definition firstInterfaceBinding :: "gval gomap \<Rightarrow> string \<Rightarrow> gval gomap" where
  "firstInterfaceBinding iface key = (case bindingsOf iface key of [] \<Rightarrow> [] | b # _ \<Rightarrow> b)"

definition preferredIPv6InterfaceBinding :: "gval gomap \<Rightarrow> gval gomap option" where
  "preferredIPv6InterfaceBinding iface =
     find (\<lambda>b. as_string (mget b ''scope6'') \<noteq> ''link'') (bindingsOf iface ''bindings6'')"

definition expandFirstInterfaceBinding :: "string \<Rightarrow> (string \<times> string) list \<Rightarrow> gval gomap \<Rightarrow> gval gomap" where
  "expandFirstInterfaceBinding bindingKey factKeys iface =
     (let binding = (case (if bindingKey = ''bindings6'' then preferredIPv6InterfaceBinding iface else None) of
                       Some preferred \<Rightarrow> preferred | None \<Rightarrow> firstInterfaceBinding iface bindingKey)
      in foldl (\<lambda>m (bindingFact, ifaceFact).
             if not_nil (mget binding bindingFact) \<and> mget binding bindingFact \<noteq> Some (GStr [])
             then mput ifaceFact (the (mget binding bindingFact)) m else m) iface factKeys)"

definition expandInterfaceBindings :: "gval gomap \<Rightarrow> gval gomap" where
  "expandInterfaceBindings = eachInterface (\<lambda>name iface.
     expandFirstInterfaceBinding ''bindings6''
       [(''address'', ''ip6''), (''netmask'', ''netmask6''), (''network'', ''network6''), (''scope6'', ''scope6'')]
       (expandFirstInterfaceBinding ''bindings''
         [(''address'', ''ip''), (''netmask'', ''netmask''), (''network'', ''network'')] iface))"

section \<open>Linux\<close>

record routeSourceBinding =
  rs_Interface :: string
  rs_IP :: string

definition routeLine :: "string list \<Rightarrow> routeSourceBinding" where
  "routeLine ws =
     foldl (\<lambda>r (a, b). if a = ''dev'' then r\<lparr>rs_Interface := b\<rparr> else if a = ''src'' then r\<lparr>rs_IP := b\<rparr> else r)
       \<lparr>rs_Interface = [], rs_IP = []\<rparr> (zip ws (tl ws))"

definition linuxRouteSourceBindings :: "string \<Rightarrow> routeSourceBinding list" where
  "linuxRouteSourceBindings content =
     foldl (\<lambda>bindings line.
         let ws = string_fields line; r = routeLine ws
         in if ''linkdown'' \<in> set ws \<or> rs_Interface r = [] \<or> rs_IP r = [] \<or> r \<in> set bindings then bindings
            else bindings @ [r]) [] (split_on NL content)"

definition addRouteSourceBinding :: "string \<Rightarrow> gval gomap \<Rightarrow> routeSourceBinding \<Rightarrow> gval gomap" where
  "addRouteSourceBinding bindingKey interfaces route =
     withInterface (rs_Interface route) (\<lambda>iface.
       let binding = GMap [(''address'', GStr (rs_IP route))]
       in case mget iface bindingKey of
            Some (GList bindings) \<Rightarrow>
              if list_ex (bindingAt (rs_IP route)) bindings then iface
              else mput bindingKey (GList (bindings @ [binding])) iface
          | _ \<Rightarrow> mput bindingKey (GList [binding]) iface) interfaces"

definition addRouteSourceBindings :: "string \<Rightarrow> routeSourceBinding list \<Rightarrow> gval gomap \<Rightarrow> gval gomap" where
  "addRouteSourceBindings bindingKey routes interfaces = foldl (addRouteSourceBinding bindingKey) interfaces routes"

definition addLinuxRouteSourceBindings :: "hostOS \<Rightarrow> gval gomap \<Rightarrow> gval gomap" where
  "addLinuxRouteSourceBindings h interfaces =
     (if interfaces = [] then interfaces
      else let out4 = ho_run h ''ip'' [''route'', ''show'']; out6 = ho_run h ''ip'' [''-6'', ''route'', ''show''];
               step4 = (if out4 \<noteq> [] then addRouteSourceBindings ''bindings'' (linuxRouteSourceBindings out4) interfaces else interfaces)
           in if out6 \<noteq> [] then addRouteSourceBindings ''bindings6'' (linuxRouteSourceBindings out6) step4 else step4)"

definition linuxIfInet6IP :: "string \<Rightarrow> string" where
  "linuxIfInet6IP hexIP =
     (if length hexIP \<noteq> 32 then []
      else let a = ParseIP (join '':'' (map (\<lambda>i. slice hexIP (4 * i) (4 * i + 4)) [0 ..< 8]))
           in if a = [] then [] else ip_String a)"

definition linuxIfInet6FlagNames :: "nat \<Rightarrow> string list" where
  "linuxIfInet6FlagNames flags =
     concat (map (\<lambda>(n, name). if bit flags n then [name] else [])
       [(0, ''temporary''), (1, ''noad''), (2, ''optimistic''), (3, ''dadfailed''), (4, ''homeaddress''),
        (5, ''deprecated''), (6, ''tentative''), (7, ''permanent'')])"

definition inet6Line :: "string list gomap gomap \<Rightarrow> string \<Rightarrow> string list gomap gomap" where
  "inet6Line m line =
     (let ws = string_fields line
      in if length ws < 6 then m
         else let a = linuxIfInet6IP (hd ws)
              in if a = [] \<or> ws ! 4 = [] then m
                 else case uint_digits 16 (ws ! 4) of None \<Rightarrow> m
                      | Some n \<Rightarrow>
                          if n \<ge> 256 \<or> linuxIfInet6FlagNames n = [] then m
                          else mput (ws ! 5) (mput a (linuxIfInet6FlagNames n) (case mget m (ws ! 5) of None \<Rightarrow> [] | Some fs \<Rightarrow> fs)) m)"

definition parseLinuxIfInet6Flags :: "string \<Rightarrow> string list gomap gomap" where
  "parseLinuxIfInet6Flags content = foldl inet6Line [] (split_on NL content)"

definition addBindingFlags :: "string list gomap \<Rightarrow> gval \<Rightarrow> gval" where
  "addBindingFlags flags b =
     (case b of
        GMap bm \<Rightarrow>
          (let address = as_string (mget bm ''address'')
           in case mget flags address of
                Some fs \<Rightarrow> if address \<noteq> [] \<and> fs \<noteq> [] then GMap (mput ''flags'' (GStrs fs) bm) else b
              | None \<Rightarrow> b)
      | _ \<Rightarrow> b)"

definition addLinuxIfInet6Flags :: "string list gomap gomap \<Rightarrow> gval gomap \<Rightarrow> gval gomap" where
  "addLinuxIfInet6Flags flags interfaces =
     foldl (\<lambda>m (name, fs). withInterface name (\<lambda>iface.
         case mget iface ''bindings6'' of
           Some (GList bindings) \<Rightarrow> mput ''bindings6'' (GList (map (addBindingFlags fs) bindings)) iface
         | _ \<Rightarrow> iface) m) interfaces flags"

definition addLinuxInterfaceMetadata :: "hostOS \<Rightarrow> gval gomap \<Rightarrow> gval gomap" where
  "addLinuxInterfaceMetadata h = eachInterface (\<lambda>name iface.
     let root = path_join ''/sys/class/net'' name;
         attr = (\<lambda>n. trim_space (readText (path_join root n) (ho_readFile h)));
         step1 = put_nonempty ''operational_state'' (attr ''operstate'') iface;
         step2 = mput ''physical'' (GBool (case ho_stat h (path_join root ''device'') of Inl e \<Rightarrow> False | Inr i \<Rightarrow> True)) step1;
         step3 = (case atoi (attr ''speed'') of None \<Rightarrow> step2 | Some speed \<Rightarrow> mput ''speed'' (GInt speed) step2)
     in put_nonempty ''duplex'' (attr ''duplex'') step3)"

definition bondingLine :: "string gomap \<times> string \<Rightarrow> string \<Rightarrow> string gomap \<times> string" where
  "bondingLine st line0 =
     (let (macs, slave) = st; line = trim_space line0
      in case cut_prefix line ''Slave Interface:'' of
           Some v \<Rightarrow> (macs, trim_space v)
         | None \<Rightarrow>
             (case cut_prefix line ''Permanent HW addr:'' of
                Some v \<Rightarrow> if slave \<noteq> [] \<and> trim_space v \<noteq> [] then (mput slave (trim_space v) macs, slave) else st
              | None \<Rightarrow> st))"

definition parseLinuxBondingSlaveMACs :: "string \<Rightarrow> string gomap" where
  "parseLinuxBondingSlaveMACs content = fst (foldl bondingLine ([], []) (split_on NL content))"

definition addLinuxBondingSlaveMACs :: "hostOS \<Rightarrow> gval gomap \<Rightarrow> gval gomap" where
  "addLinuxBondingSlaveMACs h interfaces =
     (case ho_readDir h ''/proc/net/bonding'' of Inl e \<Rightarrow> interfaces
      | Inr entries \<Rightarrow>
          foldl (\<lambda>m (name, isDir).
              if isDir then m
              else foldl (\<lambda>m (slave, mac). withInterface slave (mput ''mac'' (GStr mac)) m) m
                     (parseLinuxBondingSlaveMACs (readText (path_join ''/proc/net/bonding'' name) (ho_readFile h))))
            interfaces entries)"

definition addLinuxDHCPServersFromSnapshots ::
  "hostOS \<Rightarrow> networkInterfaceSnapshot list \<Rightarrow> gval gomap \<Rightarrow> gval gomap" where
  "addLinuxDHCPServersFromSnapshots h snapshots values =
     foldl (\<lambda>m snapshot. withInterface (nf_Name (fst snapshot))
         (put_nonempty ''dhcp'' (linuxDHCPServer h (nf_Name (fst snapshot)) (nf_Index (fst snapshot)))) m) values snapshots"

text \<open>The code's nil map, when the operating system gives no interfaces, is \<open>None\<close>.\<close>

definition networkingInterfacesForPlatform :: "hostOS \<Rightarrow> string \<Rightarrow> hostNet \<Rightarrow> gval gomap option" where
  "networkingInterfacesForPlatform h goos net =
     (case currentNetworkInterfaceSnapshots net of Inl e \<Rightarrow> None
      | Inr snapshots \<Rightarrow>
          (let values = networkingInterfacesFromSnapshots snapshots goos
           in if goos = ''dragonfly''
              then Some (mergeMissingInterfaceFacts values (dragonFlyInterfacesFromIfconfig (ho_run h ''ifconfig'' [])))
              else if goos = ''linux''
              then Some (addLinuxInterfaceMetadata h (addLinuxBondingSlaveMACs h
                     (addLinuxIfInet6Flags (parseLinuxIfInet6Flags (readText ''/proc/net/if_inet6'' (ho_readFile h)))
                       (addLinuxRouteSourceBindings h (addLinuxDHCPServersFromSnapshots h snapshots values)))))
              else Some values))"

definition networkingInterfaces :: "hostOS \<Rightarrow> hostNet \<Rightarrow> gval gomap option" where
  "networkingInterfaces h net = networkingInterfacesForPlatform h (ho_goos h) net"

end
