(* ===== verification/Networking.thy ===== *)
theory Networking
  imports Net_Interfaces
begin

text \<open>
  The networking facts of \<open>internal/engine/networking.go\<close> and \<open>plan9.go\<close>: the primary interface and address, the
  host name and its domain, and the facts \<open>networking.*\<close>. Debug messages are left out.
\<close>

section \<open>The primary interface\<close>

definition hasNonIgnoredBinding :: "gval gomap \<Rightarrow> string \<Rightarrow> bool" where
  "hasNonIgnoredBinding iface key \<longleftrightarrow>
     list_ex (\<lambda>b. \<not> ignoredIPAddress (as_string (mget b ''address''))) (bindingsOf iface key)"

definition firstNonIgnoredInterface :: "gval gomap \<Rightarrow> string" where
  "firstNonIgnoredInterface interfaces =
     (case find (\<lambda>name. case mget interfaces name of
             Some (GMap iface) \<Rightarrow> hasNonIgnoredBinding iface ''bindings'' \<or> hasNonIgnoredBinding iface ''bindings6''
           | _ \<Rightarrow> False) (sorted_keys interfaces) of
        None \<Rightarrow> [] | Some name \<Rightarrow> name)"

definition windowsPrimaryInterface :: "gval gomap \<Rightarrow> string" where
  "windowsPrimaryInterface interfaces = firstNonIgnoredInterface interfaces"

definition primaryInterfaceFromRoute :: "string \<Rightarrow> string" where
  "primaryInterfaceFromRoute output =
     (case find (\<lambda>line. case cut (trim_space line) '':'' of Some (key, _) \<Rightarrow> key = ''interface'' | None \<Rightarrow> False)
        (split_on NL output) of
        None \<Rightarrow> [] | Some line \<Rightarrow> trim_space (after_cut (trim_space line) '':''))"

definition linuxPrimaryInterfaceFromProcRoute :: "string \<Rightarrow> string" where
  "linuxPrimaryInterfaceFromProcRoute content =
     (case find (\<lambda>ws. length ws > 7 \<and> ws ! 1 = ''00000000'' \<and> ws ! 7 = ''00000000'' \<and> hd ws \<noteq> ''*'')
        (map string_fields (tl (split_on NL content))) of
        None \<Rightarrow> [] | Some ws \<Rightarrow> hd ws)"

definition linuxPrimaryInterfaceFromIPRoute :: "string \<Rightarrow> string" where
  "linuxPrimaryInterfaceFromIPRoute output =
     (case find (\<lambda>line. has_prefix (trim_space line) ''default'' \<and> length (string_fields (trim_space line)) > 4)
        (split_on NL output) of
        None \<Rightarrow> [] | Some line \<Rightarrow> string_fields (trim_space line) ! 4)"

definition linuxPrimaryInterface :: "string \<Rightarrow> gval gomap \<Rightarrow> (string \<Rightarrow> string list \<Rightarrow> string) \<Rightarrow> string" where
  "linuxPrimaryInterface procRoute interfaces run =
     firstNonEmptyValue
       [linuxPrimaryInterfaceFromProcRoute procRoute,
        linuxPrimaryInterfaceFromIPRoute (run ''ip'' [''route'', ''show'', ''default'']),
        firstNonIgnoredInterface interfaces]"

text \<open>The best binding of the primary interface: the rank only goes down, the first of a rank stays.\<close>

definition betterIPv6 :: "string \<times> int \<Rightarrow> gval gomap \<Rightarrow> string \<times> int" where
  "betterIPv6 st binding =
     (let (best, bestRank) = st; address = as_string (mget binding ''address'')
      in case ipv6SelectionRank (ParseIP address) of None \<Rightarrow> st
         | Some rank \<Rightarrow> if best = [] \<or> rank < bestRank then (address, rank) else st)"

definition primaryIPv6Address :: "gval gomap \<Rightarrow> string \<Rightarrow> string" where
  "primaryIPv6Address interfaces primaryInterfaceName =
     (if primaryInterfaceName = [] then []
      else case mget interfaces primaryInterfaceName of
             Some (GMap iface) \<Rightarrow> fst (foldl betterIPv6 ([], 0) (bindingsOf iface ''bindings6''))
           | _ \<Rightarrow> [])"

section \<open>Plan 9\<close>

definition plan9IPv4Prefix :: "int \<Rightarrow> int" where
  "plan9IPv4Prefix n = (if n \<ge> 96 then n - 96 else n)"

definition ipifcLine :: "gval gomap \<times> string \<Rightarrow> string \<Rightarrow> gval gomap \<times> string" where
  "ipifcLine st line =
     (let (interfaces, name) = st; ws = string_fields line
      in if length ws \<ge> 2 \<and> hd ws = ''device''
         then let deviceName = path_base (ws ! 1)
              in if deviceName = ''.'' \<or> deviceName = [SLASH] then (interfaces, [])
                 else (if has_key interfaces deviceName then interfaces else mput deviceName (GMap []) interfaces, deviceName)
         else if name = [] \<or> length ws < 2 then st
         else let a = To4 (ParseIP (hd ws))
              in if a = [] then st
                 else case atoi (trim_prefix (ws ! 1) [SLASH]) of None \<Rightarrow> st
                      | Some n0 \<Rightarrow>
                          (let n = plan9IPv4Prefix n0
                           in if n < 0 \<or> n > 32 then st
                              else (withInterface name (\<lambda>iface. appendInterfaceBinding iface ''bindings''
                                      (interfaceBinding a (Some (CIDRMask (nat n) 32)))) interfaces, name)))"

definition parsePlan9IPIFCStatus :: "string \<Rightarrow> gval gomap" where
  "parsePlan9IPIFCStatus input = fst (foldl ipifcLine ([], []) (split_on NL input))"

fun pairs_of :: "string \<Rightarrow> string list" where
  "pairs_of (a # b # r) = [a, b] # pairs_of r"
| "pairs_of _ = []"

definition parsePlan9MACAddress :: "string \<Rightarrow> string" where
  "parsePlan9MACAddress input =
     (let v = replace_all (replace_all (to_lower (plan9CleanString input)) ''-'' []) '':'' []
      in if length v \<noteq> 12 \<or> \<not> list_all (\<lambda>part. uint_digits 16 part \<noteq> None) (pairs_of v) then []
         else join '':'' (pairs_of v))"

text \<open>The source of the default route: that of a host route at once, else the first.\<close>

definition routeSources :: "string \<Rightarrow> (string \<times> bool) list" where
  "routeSources input =
     concat (map (\<lambda>line. let ws = string_fields line
         in if length ws < 8 \<or> hd ws \<noteq> ''0.0.0.0'' then []
            else let a = To4 (ParseIP (ws ! 6))
                 in if a = [] \<or> a = replicate 4 0 then [] else [(ws ! 6, ws ! 7 = SLASH # ''128'')]) (split_on NL input))"

definition parsePlan9PrimaryRouteIP :: "string \<Rightarrow> string" where
  "parsePlan9PrimaryRouteIP input =
     (case find snd (routeSources input) of Some (source, _) \<Rightarrow> source
      | None \<Rightarrow> (case routeSources input of [] \<Rightarrow> [] | (source, _) # _ \<Rightarrow> source))"

definition currentPlan9Interfaces :: "hostOS \<Rightarrow> gval gomap" where
  "currentPlan9Interfaces h =
     (case ho_glob h (SLASH # ''net/ipifc/*/status'') of Inl e \<Rightarrow> []
      | Inr paths \<Rightarrow>
          eachInterface (\<lambda>name. put_nonempty ''mac''
              (parsePlan9MACAddress (readText (SLASH # ''net'' @ SLASH # name @ SLASH # ''addr'') (ho_readFile h))))
            (foldl (\<lambda>m p. mergeMissingInterfaceFacts m (parsePlan9IPIFCStatus (readText p (ho_readFile h)))) [] paths))"

definition plan9PrimaryInterface :: "string \<Rightarrow> gval gomap \<Rightarrow> string" where
  "plan9PrimaryInterface iproute interfaces =
     firstNonEmptyValue
       [primaryInterface interfaces (parsePlan9PrimaryRouteIP iproute), firstNonIgnoredInterface interfaces]"

section \<open>Every platform\<close>

definition routePrimary :: "hostOS \<Rightarrow> string" where
  "routePrimary h = primaryInterfaceFromRoute (ho_run h ''route'' [''-n'', ''get'', ''default''])"

definition currentNetworkingData :: "hostOS \<Rightarrow> string \<Rightarrow> gval gomap \<Rightarrow> string \<times> gval gomap" where
  "currentNetworkingData h goos interfaces =
     (let run = ho_run h
      in if goos = ''darwin'' then (routePrimary h, expandInterfaceBindings (addDarwinDHCPServers run interfaces))
         else if goos = ''freebsd''
         then (routePrimary h, expandInterfaceBindings (addFreeBSDDHCPServers (ho_readFile h)
                 (addFreeBSDInterfaceMedia run (addBSDInterfaceOperationalStates run interfaces))))
         else if goos = ''netbsd'' then (routePrimary h, expandInterfaceBindings (addBSDInterfaceOperationalStates run interfaces))
         else if goos = ''dragonfly''
         then (routePrimary h, expandInterfaceBindings (addFreeBSDDHCPServers (ho_readFile h)
                 (addBSDInterfaceOperationalStates run interfaces)))
         else if goos = ''illumos'' then (routePrimary h, expandInterfaceBindings (addIllumosDHCPServers run interfaces))
         else if goos = ''openbsd''
         then (routePrimary h, expandInterfaceBindings (addBSDInterfaceOperationalStates run (addOpenBSDDHCPServers run interfaces)))
         else if goos = ''windows''
         then let vs = expandInterfaceBindings (eachInterface
                     (\<lambda>name iface. if has_key iface ''dhcp'' then iface else mput ''dhcp'' GNil iface)
                     (addWindowsDHCPServers run interfaces))
              in (windowsPrimaryInterface vs, vs)
         else if goos = ''linux''
         then let vs = expandInterfaceBindings interfaces
              in (linuxPrimaryInterface (readText ''/proc/net/route'' (ho_readFile h)) vs run, vs)
         else if goos = ''plan9''
         then let vs = expandInterfaceBindings interfaces
              in (plan9PrimaryInterface (readText ''/net/iproute'' (ho_readFile h)) vs, vs)
         else ([], interfaces))"

section \<open>Host names\<close>

definition hostNameFromLookup :: "goerror + string \<Rightarrow> string \<times> gval" where
  "hostNameFromLookup lookup = (case lookup of Inl e \<Rightarrow> ([], GNil) | Inr hostname \<Rightarrow> (hostname, GStr hostname))"

definition linuxHostnameUsable :: "string \<Rightarrow> bool" where
  "linuxHostnameUsable hostname \<longleftrightarrow> hostname \<noteq> [] \<and> \<not> contains hostname ''0.0.0.0''"

definition linuxHostNameFromLookups :: "goerror + string \<Rightarrow> string \<Rightarrow> string \<times> gval" where
  "linuxHostNameFromLookups lookup fallback =
     (let (hostname, v) = hostNameFromLookup lookup
      in if linuxHostnameUsable hostname then (hostname, v)
         else if \<not> linuxHostnameUsable (trim_space fallback) then ([], GNil)
         else (trim_space fallback, GStr (trim_space fallback)))"

definition readLinuxKernelHostname :: "(string \<Rightarrow> goerror + string) \<Rightarrow> string" where
  "readLinuxKernelHostname readFile =
     (case readFile ''/proc/sys/kernel/hostname'' of Inl e \<Rightarrow> [] | Inr data \<Rightarrow> trim_space data)"

definition hostNameForPlatform :: "string \<Rightarrow> goerror + string \<Rightarrow> string \<Rightarrow> string \<times> gval" where
  "hostNameForPlatform goos lookup linuxFallback =
     (if goos = ''linux'' then linuxHostNameFromLookups lookup linuxFallback else hostNameFromLookup lookup)"

definition hostName :: "hostOS \<Rightarrow> hostNet \<Rightarrow> string \<times> gval" where
  "hostName h net = hostNameForPlatform (ho_goos h) (hn_Hostname net) (readLinuxKernelHostname (ho_readFile h))"

definition fqdnWithLookup :: "string \<Rightarrow> (string \<Rightarrow> goerror + string list) \<Rightarrow> string" where
  "fqdnWithLookup hostname lookup =
     (if hostname = [] \<or> contains hostname ''.'' then hostname
      else case lookup hostname of Inl e \<Rightarrow> hostname
           | Inr [] \<Rightarrow> hostname
           | Inr (a # _) \<Rightarrow> trim_suffix a ''.'')"

definition hostnameFromNodeName :: "string \<Rightarrow> string" where
  "hostnameFromNodeName nodeName = before_cut nodeName ''.''"

definition domainFromResolvConf :: "string \<Rightarrow> string" where
  "domainFromResolvConf content =
     (let keyed = (\<lambda>key. concat (map (\<lambda>line. let ws = string_fields line
                in if length ws \<ge> 2 \<and> hd ws = key \<and> \<not> has_prefix (ws ! 1) ''.'' then [ws ! 1] else []) (split_on NL content)))
      in case keyed ''domain'' of d # _ \<Rightarrow> d | [] \<Rightarrow> (case keyed ''search'' of d # _ \<Rightarrow> d | [] \<Rightarrow> []))"

definition domainFromFQDN :: "string \<Rightarrow> string \<Rightarrow> string" where
  "domainFromFQDN hostname fqdn =
     (if fqdn = [] then []
      else if contains hostname ''.'' then after_cut hostname ''.''
      else case cut_prefix fqdn (hostname @ ''.'') of
             Some domain \<Rightarrow> domain
           | None \<Rightarrow> after_cut fqdn ''.'')"

definition linuxFQDNAndDomain :: "string \<Rightarrow> string \<Rightarrow> string \<Rightarrow> string \<times> string" where
  "linuxFQDNAndDomain hostname resolvedFQDN resolvConf =
     (let domain = domainFromFQDN hostname resolvedFQDN
      in if hostname = [] \<or> domain \<noteq> [] then (resolvedFQDN, domain)
         else let domain' = domainFromResolvConf resolvConf
              in if domain' = [] then (resolvedFQDN, []) else (hostname @ ''.'' @ domain', domain'))"

definition currentResolvConfFQDNAndDomain ::
  "string \<Rightarrow> string \<Rightarrow> string \<Rightarrow> (string \<Rightarrow> goerror + string) \<Rightarrow> string \<times> string" where
  "currentResolvConfFQDNAndDomain hostname resolvedFQDN resolvConfPath readFile =
     (case readFile resolvConfPath of Inl e \<Rightarrow> linuxFQDNAndDomain hostname resolvedFQDN []
      | Inr content \<Rightarrow> linuxFQDNAndDomain hostname resolvedFQDN content)"

definition currentHostnameFQDNAndDomain ::
  "string \<Rightarrow> string \<Rightarrow> string \<Rightarrow> string \<Rightarrow> (string \<Rightarrow> goerror + string) \<Rightarrow> string \<times> string" where
  "currentHostnameFQDNAndDomain goos hostname resolvedFQDN resolvConfPath readFile =
     (if goos = ''linux'' \<or> goos = ''darwin''
      then currentResolvConfFQDNAndDomain hostname resolvedFQDN resolvConfPath readFile
      else (resolvedFQDN, domainFromFQDN hostname resolvedFQDN))"

definition currentHostnameFacts ::
  "string \<Rightarrow> string \<Rightarrow> string \<Rightarrow> string \<Rightarrow> (string \<Rightarrow> goerror + string) \<Rightarrow> string \<times> string \<times> string" where
  "currentHostnameFacts goos nodeName resolvedFQDN resolvConfPath readFile =
     (let hostname = hostnameFromNodeName nodeName
      in (hostname, currentHostnameFQDNAndDomain goos hostname resolvedFQDN resolvConfPath readFile))"

definition hostnameFactValues :: "gval \<Rightarrow> string \<Rightarrow> string \<Rightarrow> gval \<times> gval" where
  "hostnameFactValues hostnameValue fqdn domain =
     (if hostnameValue = GNil then (GNil, GNil) else (GStr fqdn, if domain = [] then GNil else GStr domain))"

fun registryValue :: "string \<Rightarrow> string list \<Rightarrow> string \<times> bool" where
  "registryValue key [] = ([], False)"
| "registryValue key (line # lines) =
     (let ws = string_fields (trim_space line)
      in if length ws \<ge> 2 \<and> hd ws = key \<and> ws ! 1 = ''REG_SZ''
         then (if length ws = 2 then [] else join '' '' (drop 2 ws), True)
         else registryValue key lines)"

definition parseWindowsRegistryStringValue :: "string \<Rightarrow> string \<Rightarrow> string \<times> bool" where
  "parseWindowsRegistryStringValue input key = registryValue key (split_on NL input)"

definition parseWindowsRegistryString :: "string \<Rightarrow> string \<Rightarrow> string" where
  "parseWindowsRegistryString input key = fst (parseWindowsRegistryStringValue input key)"

definition tcpipParameters :: string where
  "tcpipParameters = join [BSLASH] [''HKLM'', ''SYSTEM'', ''CurrentControlSet'', ''Services'', ''Tcpip'', ''Parameters'']"

definition currentWindowsNetworkingDomain :: "gval gomap option \<Rightarrow> (string \<Rightarrow> string list \<Rightarrow> string) \<Rightarrow> string" where
  "currentWindowsNetworkingDomain interfaces0 run =
     (case interfaces0 of None \<Rightarrow> []
      | Some interfaces \<Rightarrow>
          (let suffix = (\<lambda>name. case mget interfaces name of Some (GMap iface) \<Rightarrow> as_string (mget iface ''dns_suffix'') | _ \<Rightarrow> [])
           in case find (\<lambda>name. suffix name \<noteq> []) (sorted_keys interfaces) of
                Some name \<Rightarrow> suffix name
              | None \<Rightarrow> parseWindowsRegistryString (run ''reg'' [''query'', tcpipParameters, ''/v'', ''Domain'']) ''Domain''))"

definition windowsFQDN :: "string \<Rightarrow> string \<Rightarrow> string" where
  "windowsFQDN hostname domain =
     (if hostname = [] then []
      else if domain = [] \<or> contains hostname ''.'' then hostname
      else hostname @ ''.'' @ domain)"

section \<open>Facts\<close>

definition plan9NetworkingCoreFacts :: "hostOS \<Rightarrow> ResolvedFact list" where
  "plan9NetworkingCoreFacts h =
     (let hostname = plan9CleanString (readFileString ''/dev/sysname'' (ho_readFile h));
          (primary, interfaces) = currentNetworkingData h ''plan9'' (currentPlan9Interfaces h);
          ipv4 = as_string (Some (primaryInterfaceFact interfaces primary ''ip''));
          binding = primaryIPv4Binding interfaces ipv4
      in [core_fact ''networking.hostname'' (optionalNetworkingString hostname),
          core_fact ''networking.interfaces'' (GMap interfaces),
          core_fact ''networking.ip'' (optionalNetworkingString ipv4),
          core_fact ''networking.mac'' (optionalNetworkingString (as_string (Some (primaryInterfaceFact interfaces primary ''mac'')))),
          core_fact ''networking.netmask'' (optionalNetworkingString (as_string (mget binding ''netmask''))),
          core_fact ''networking.network'' (optionalNetworkingString (as_string (mget binding ''network''))),
          core_fact ''networking.primary'' (optionalNetworkingString primary)])"

definition networkingCoreFacts :: "hostOS \<Rightarrow> hostNet \<Rightarrow> ResolvedFact list" where
  "networkingCoreFacts h net =
     (if ho_goos h = ''plan9'' then plan9NetworkingCoreFacts h
      else let goos = ho_goos h;
               (nodeName, nodeNameValue) = hostName h net;
               (hostname, fqdn0, domain0) =
                 currentHostnameFacts goos nodeName (fqdnWithLookup nodeName (hn_LookupAddr net)) ''/etc/resolv.conf'' (ho_readFile h);
               hostnameValue = (if nodeNameValue \<noteq> GNil then GStr hostname else GNil);
               found = networkingInterfaces h net;
               (configured, interfaces) = currentNetworkingData h goos (case found of None \<Rightarrow> [] | Some m \<Rightarrow> m);
               (fqdnName, domain) =
                 (if goos = ''windows''
                  then let d = currentWindowsNetworkingDomain (map_option (\<lambda>_. interfaces) found) (ho_run h) in (windowsFQDN hostname d, d)
                  else (fqdn0, domain0));
               (fqdnValue, domainValue) = hostnameFactValues hostnameValue fqdnName domain;
               ipv4a = primaryIPv4 (hn_InterfaceAddrs net);
               primary = (if configured = [] then primaryInterface interfaces ipv4a else configured);
               ipv4 = (if ipv4a = [] then as_string (Some (primaryInterfaceFact interfaces primary ''ip'')) else ipv4a);
               ipv6a = primaryIPv6Address interfaces primary;
               ipv6 = (if ipv6a = [] then primaryIPv6 (hn_InterfaceAddrs net) else ipv6a);
               binding = primaryIPv4Binding interfaces ipv4; binding6 = primaryIPv6Binding interfaces ipv6
           in [core_fact ''networking.hostname'' hostnameValue,
               core_fact ''networking.fqdn'' fqdnValue,
               core_fact ''networking.domain'' domainValue,
               core_fact ''networking.dhcp'' (networkingDHCPValue goos interfaces ipv4),
               core_fact ''networking.ip'' (optionalNetworkingString ipv4),
               core_fact ''networking.ip6'' (optionalNetworkingString ipv6),
               core_fact ''networking.interfaces'' (GMap interfaces),
               core_fact ''networking.mac'' (optionalNetworkingString (as_string (Some (primaryInterfaceFact interfaces primary ''mac'')))),
               core_fact ''networking.mtu'' (primaryInterfaceFact interfaces primary ''mtu''),
               core_fact ''networking.netmask'' (optionalNetworkingString (as_string (mget binding ''netmask''))),
               core_fact ''networking.netmask6'' (optionalNetworkingString (as_string (mget binding6 ''netmask''))),
               core_fact ''networking.network'' (optionalNetworkingString (as_string (mget binding ''network''))),
               core_fact ''networking.network6'' (optionalNetworkingString (as_string (mget binding6 ''network''))),
               core_fact ''networking.primary'' (optionalNetworkingString primary),
               core_fact ''networking.scope6'' (optionalNetworkingString (primaryIPv6Scope interfaces ipv6))])"

section \<open>Lemmas\<close>

lemma ParseIP_Nil [simp]: "ParseIP [] = []"
  by (simp add: ParseIP_def)

lemma ipv6SelectionRank_nil [simp]: "ipv6SelectionRank [] = None"
  by (simp add: ipv6SelectionRank_def)

text \<open>The candidates among bindings, with their ranks, in order.\<close>

definition ipv6Candidates :: "gval gomap list \<Rightarrow> (string \<times> int) list" where
  "ipv6Candidates bs =
     concat (map (\<lambda>b. let address = as_string (mget b ''address'')
       in case ipv6SelectionRank (ParseIP address) of None \<Rightarrow> [] | Some rank \<Rightarrow> [(address, rank)]) bs)"

definition first_least :: "(string \<times> int) list \<Rightarrow> (string \<times> int) option" where
  "first_least xs = find (\<lambda>(a, r). list_all (\<lambda>(b, s). r \<le> s) xs) xs"

lemma first_least_snoc:
  "first_least (xs @ [(a, r)]) =
     (case first_least xs of None \<Rightarrow> Some (a, r) | Some (b, s) \<Rightarrow> if r < s then Some (a, r) else Some (b, s))"
proof -
  have ex: "first_least ys \<noteq> None" if "ys \<noteq> []" for ys :: "(string \<times> int) list"
  proof -
    let ?y = "arg_min_list snd ys"
    have "?y \<in> set ys" "\<forall>z \<in> set ys. snd ?y \<le> snd z"
      using arg_min_list_in [OF that, of snd] f_arg_min_list_f [OF that, of snd] by auto
    then have "find (\<lambda>(a, r). list_all (\<lambda>(b, s). r \<le> s) ys) ys \<noteq> None"
      unfolding find_None_iff list_all_iff case_prod_beta by blast
    then show ?thesis by (simp add: first_least_def)
  qed
  show ?thesis
  proof (cases "first_least xs")
    case None
    then have "xs = []" using ex [of xs] by blast
    then show ?thesis by (simp add: first_least_def)
  next
    case (Some p)
    obtain b s where p: "p = (b, s)" by (cases p)
    with Some have least: "(b, s) \<in> set xs" "\<forall>(c, t) \<in> set xs. s \<le> t"
      by (auto simp: first_least_def find_Some_iff list_all_iff in_set_conv_nth)
    show ?thesis
    proof (cases "r < s")
      case True
      with least have "find (\<lambda>(a', r'). list_all (\<lambda>(b, s). r' \<le> s) (xs @ [(a, r)])) xs = None"
        by (auto simp: find_None_iff)
      moreover have "list_all (\<lambda>(b, t). r \<le> t) xs" using least True by (auto simp: list_all_iff)
      ultimately show ?thesis using True Some p by (simp add: first_least_def find_append)
    next
      case False
      have "find (\<lambda>(a', r'). list_all (\<lambda>(b, s). r' \<le> s) (xs @ [(a, r)])) xs = find (\<lambda>(a', r'). list_all (\<lambda>(b, s). r' \<le> s) xs) xs"
        by (rule find_cong [OF refl]) (use least False in \<open>auto simp: list_all_iff\<close>)
      with False Some p show ?thesis by (simp add: first_least_def find_append)
    qed
  qed
qed

lemma betterIPv6_candidates:
  "foldl betterIPv6 ([], 0) bs = (case first_least (ipv6Candidates bs) of None \<Rightarrow> ([], 0) | Some c \<Rightarrow> c)"
proof (induction bs rule: rev_induct)
  case Nil
  show ?case by (simp add: ipv6Candidates_def first_least_def)
next
  case (snoc b bs)
  have ne: "a \<noteq> []" if "first_least (ipv6Candidates bs) = Some (a, r)" for a r
  proof -
    from that have "(a, r) \<in> set (ipv6Candidates bs)" by (auto simp: first_least_def find_Some_iff in_set_conv_nth)
    then show ?thesis by (auto simp: ipv6Candidates_def Let_def split: option.splits)
  qed
  let ?a = "as_string (mget b ''address'')"
  have cands: "ipv6Candidates (bs @ [b]) = ipv6Candidates bs @
      (case ipv6SelectionRank (ParseIP ?a) of None \<Rightarrow> [] | Some rank \<Rightarrow> [(?a, rank)])"
    by (simp add: ipv6Candidates_def Let_def)
  show ?case
    unfolding foldl_append foldl.simps snoc cands
    by (cases "ipv6SelectionRank (ParseIP ?a)"; cases "first_least (ipv6Candidates bs)")
       (use ne in \<open>auto simp: betterIPv6_def first_least_snoc Let_def\<close>)
qed

text \<open>The IPv6 address reported as the primary one is, among the addresses of the primary interface that
  can be one (no IPv4, loopback or unspecified address), the first of the lowest rank: global
  before unique-local before link-local. There is none exactly when there is no candidate.\<close>

lemma primaryIPv6Address_least:
  "primaryIPv6Address interfaces name =
     (case (if name = [] then [] else case mget interfaces name of
              Some (GMap iface) \<Rightarrow> ipv6Candidates (bindingsOf iface ''bindings6'') | _ \<Rightarrow> []) of
        cands \<Rightarrow> case find (\<lambda>(a, r). list_all (\<lambda>(b, s). r \<le> s) cands) cands of None \<Rightarrow> [] | Some (a, _) \<Rightarrow> a)"
  by (auto simp: primaryIPv6Address_def betterIPv6_candidates first_least_def split: option.splits gval.splits)

text \<open>The fully qualified name is never found by resolution: the code asks for the names of an address
  but passes the host name, and the resolver refuses what is no address. So the name facts
  fall back to the node name and the search domain on every host.\<close>

lemma fqdnWithLookup_node_name:
  assumes "\<And>a. ParseIP a = [] \<Longrightarrow> \<exists>e. hn_LookupAddr net a = Inl e" "ParseIP hostname = []"
  shows "fqdnWithLookup hostname (hn_LookupAddr net) = hostname"
  using assms(1) [OF assms(2)] by (auto simp: fqdnWithLookup_def)

lemma fqdnWithLookup_node_name_witness:
  "fqdnWithLookup ''web1'' (hn_LookupAddr \<lparr>hn_Interfaces = Inr [], hn_InterfaceAddrs = Inr [], hn_Hostname = Inr ''web1'',
     hn_LookupAddr = (\<lambda>a. if ParseIP a = [] then Inl ErrNotExist else Inr [''web1.example.org.''])\<rparr>) =
   ''web1''"
  by (rule fqdnWithLookup_node_name) (simp_all add: ParseIP_def)

end
