(* ===== verification/Disks.thy ===== *)
theory Disks
  imports Networking
begin

text \<open>
  \<open>internal/engine/disks.go\<close> with \<open>statfs_math.go\<close> and \<open>statfs_linux.go\<close>: disks, partitions, mount points and the
  ZFS versions. Block counts are 64-bit words, as the system call gives them; byte counts are
  Go's \<open>int\<close>, of 64 bits. The decoder of \<open>encoding/xml\<close> is a parameter, like the \<open>statfs\<close> call.
\<close>

section \<open>Block counts\<close>

definition statfsBlockBytes :: "64 word \<Rightarrow> 64 word \<Rightarrow> int" where
  "statfsBlockBytes blocks blockSize =
     (if blocks = 0 \<or> blockSize = 0 then 0
      else if blockSize > 0x7FFFFFFFFFFFFFFF \<or> blocks > 0x7FFFFFFFFFFFFFFF div blockSize then max_int64
      else sint (blocks * blockSize))"

definition statfsUsedBlockBytes :: "64 word \<Rightarrow> 64 word \<Rightarrow> 64 word \<Rightarrow> int" where
  "statfsUsedBlockBytes blocks bfree blockSize =
     (if bfree \<ge> blocks then 0 else statfsBlockBytes (blocks - bfree) blockSize)"

text \<open>The native counts of the BSDs, which may be signed.\<close>

definition statfsNativeBlockBytes :: "int \<Rightarrow> 64 word \<Rightarrow> int" where
  "statfsNativeBlockBytes blocks blockSize = (if blocks \<le> 0 then 0 else statfsBlockBytes (word_of_int blocks) blockSize)"

definition statfsNativeUsedBytes :: "int \<Rightarrow> int \<Rightarrow> 64 word \<Rightarrow> int" where
  "statfsNativeUsedBytes blocks bfree blockSize =
     (if blocks \<le> 0 \<or> bfree < 0 then 0 else statfsUsedBlockBytes (word_of_int blocks) (word_of_int bfree) blockSize)"

definition linuxMountStat :: "64 word \<Rightarrow> 64 word \<Rightarrow> 64 word \<Rightarrow> 64 word \<Rightarrow> 64 word \<Rightarrow> mountStat" where
  "linuxMountStat blocks bavail bfree bsize frsize =
     (let blockSize = (if sint frsize > 0 then frsize else if sint bsize > 0 then bsize else 0)
      in \<lparr>ms_SizeBytes = statfsBlockBytes blocks blockSize, ms_AvailableBytes = statfsBlockBytes bavail blockSize,
          ms_UsedBytes = statfsUsedBlockBytes blocks bfree blockSize\<rparr>)"

section \<open>Linux disks and partitions\<close>

text \<open>A map the code leaves nil when nothing was found is the empty map.\<close>

definition linuxSectorSizeBytes :: "string \<Rightarrow> int option" where
  "linuxSectorSizeBytes v =
     (case parse_int (trim_space v) of None \<Rightarrow> None
      | Some sectors \<Rightarrow> if sectors \<le> 0 \<or> sectors > max_int64 div 512 then None else Some (sectors * 512))"

definition sized :: "int \<Rightarrow> gval gomap" where
  "sized bytes = [(''size'', bytesToHumanReadable bytes), (''size_bytes'', GInt bytes)]"

definition linuxDisk :: "string \<Rightarrow> hostOS \<Rightarrow> string \<Rightarrow> gval gomap" where
  "linuxDisk root h name =
     (let attr = (\<lambda>a. readSysfsString root name a (ho_readFile h)); rotational = attr ''queue/rotational''
      in stringEntries [(''model'', attr ''device/model''), (''vendor'', attr ''device/vendor''),
           (''type'', if rotational = [] then [] else if rotational = ''0'' then ''ssd'' else ''hdd'')] @
         (case linuxSectorSizeBytes (attr ''size'') of None \<Rightarrow> [] | Some bytes \<Rightarrow> sized bytes))"

definition disksFact :: "string \<Rightarrow> hostOS \<Rightarrow> gval gomap" where
  "disksFact root h =
     (case ho_readDir h root of Inl e \<Rightarrow> []
      | Inr entries \<Rightarrow>
          foldl (\<lambda>disks name.
              if dirExists h (path_join (path_join root name) ''device'') \<and> linuxDisk root h name \<noteq> []
              then mput name (GMap (linuxDisk root h name)) disks else disks) [] (map fst entries))"

definition currentLinuxDisks :: "string \<Rightarrow> (string \<Rightarrow> string list \<Rightarrow> string) \<Rightarrow> hostOS \<Rightarrow> gval gomap" where
  "currentLinuxDisks root run h =
     eachInterface (\<lambda>name disk.
       let ask = (\<lambda>field. trim_space (run ''lsblk'' [''-dn'', ''-o'', field, ''/dev/'' @ name]))
       in put_nonempty ''wwn'' (ask ''wwn'') (put_nonempty ''serial_number'' (ask ''serial'') disk)) (disksFact root h)"

definition addLinuxPartitionSize :: "gval gomap \<Rightarrow> string \<Rightarrow> string \<Rightarrow> (string \<Rightarrow> goerror + string) \<Rightarrow> gval gomap" where
  "addLinuxPartitionSize part root name readFile =
     (let sizeBytes = (case linuxSectorSizeBytes (readSysfsString root name ''size'' readFile) of None \<Rightarrow> 0 | Some b \<Rightarrow> b)
      in mput ''size'' (bytesToHumanReadable sizeBytes) (mput ''size_bytes'' (GInt sizeBytes) part))"

text \<open>The device and the attributes of an entry of \<open>/sys/class/block\<close>, if it is a partition, a device mapper
  volume or a loop device.\<close>

definition linuxPartition :: "string \<Rightarrow> hostOS \<Rightarrow> string \<Rightarrow> (string \<times> gval gomap) option" where
  "linuxPartition root h name =
     (let at = (\<lambda>sub. path_join (path_join root name) sub); readFile = ho_readFile h
      in if fileExists h (at ''partition'') then Some (''/dev/'' @ name, addLinuxPartitionSize [] root name readFile)
         else if fileExists h (at ''dm'')
         then let mapName = readSysfsString root (path_join name ''dm'') ''name'' readFile
              in Some (if mapName \<noteq> [] then ''/dev/mapper/'' @ mapName else ''/dev/'' @ name, addLinuxPartitionSize [] root name readFile)
         else if fileExists h (at ''loop'')
         then Some (''/dev/'' @ name,
                addLinuxPartitionSize
                  (put_nonempty ''backing_file'' (readSysfsString root (path_join name ''loop'') ''backing_file'' readFile) []) root name readFile)
         else None)"

definition discoverPartitions :: "string \<Rightarrow> hostOS \<Rightarrow> gval gomap" where
  "discoverPartitions root h =
     (case ho_readDir h root of Inl e \<Rightarrow> []
      | Inr entries \<Rightarrow>
          foldl (\<lambda>m name. case linuxPartition root h name of None \<Rightarrow> m | Some (device, p) \<Rightarrow> mput device (GMap p) m) [] (map fst entries))"

definition linuxLSBLKVersionPattern :: rx where
  "linuxLSBLKVersionPattern =
     cats [WordBoundary, Grp 1 (many1 rx_digit), chr DOT, Grp 2 (many1 rx_digit), WordBoundary]"

definition linuxLSBLKVersion :: "string \<Rightarrow> (int \<times> int) option" where
  "linuxLSBLKVersion output =
     (case FindSubmatch linuxLSBLKVersionPattern output of None \<Rightarrow> None
      | Some m \<Rightarrow> (case (atoi (grp m 1), atoi (grp m 2)) of (Some major, Some minor) \<Rightarrow> Some (major, minor) | _ \<Rightarrow> None))"

definition linuxVersionAtLeast :: "int \<Rightarrow> int \<Rightarrow> int \<Rightarrow> int \<Rightarrow> bool" where
  "linuxVersionAtLeast major minor wantMajor wantMinor \<longleftrightarrow>
     major > wantMajor \<or> (major = wantMajor \<and> minor \<ge> wantMinor)"

text \<open>The body of a quoted value, whose escapes stand for the character they precede: the value and what
  follows its closing quote.\<close>

fun lsblkQuoted :: "string \<Rightarrow> string \<Rightarrow> string \<times> string" where
  "lsblkQuoted out [] = (out, [])"
| "lsblkQuoted out [c] = (if c = BSLASH \<or> c = DQUOTE then out else out @ [c], [])"
| "lsblkQuoted out (c # d # cs) =
     (if c = BSLASH then lsblkQuoted (out @ [d]) cs
      else if c = DQUOTE then (out, d # cs)
      else lsblkQuoted (out @ [c]) (d # cs))"

definition lsblkValue :: "string \<Rightarrow> string \<times> string" where
  "lsblkValue s =
     (case s of [] \<Rightarrow> ([], [])
      | c # cs \<Rightarrow> if c = DQUOTE then lsblkQuoted [] cs
                else (takeWhile (\<lambda>c. c \<noteq> CHR '' '') s, dropWhile (\<lambda>c. c \<noteq> CHR '' '') s))"

lemma lsblkQuoted_shorter: "length (snd (lsblkQuoted out s)) \<le> length s"
  by (induction out s rule: lsblkQuoted.induct) auto

lemma lsblkValue_shorter: "length (snd (lsblkValue s)) \<le> length s"
proof (cases s)
  case (Cons c cs)
  then show ?thesis
    using lsblkQuoted_shorter [of "[]" cs] length_dropWhile_le [of "\<lambda>c. c \<noteq> CHR '' ''" s]
    by (simp add: lsblkValue_def)
qed (simp add: lsblkValue_def)

text \<open>The properties of a line: keys up to the equals sign, values quoted or up to a space.\<close>

function lsblkPairs :: "string gomap \<Rightarrow> string \<Rightarrow> string gomap" where
  "lsblkPairs values s0 =
     (let s = dropWhile (\<lambda>c. c = CHR '' '') s0; key = takeWhile (\<lambda>c. c \<noteq> CHR ''='' \<and> c \<noteq> CHR '' '') s;
          rest = drop (length key) s
      in if key = [] \<or> rest = [] \<or> hd rest \<noteq> CHR ''='' then values
         else let (v, after) = lsblkValue (tl rest)
              in lsblkPairs (if v \<noteq> [] then mput key v values else values) after)"
  by pat_completeness auto
termination
proof (relation "measure (\<lambda>(values, s). length s)", goal_cases)
  case (2 vs s0 s key rest x v after)
  have "length after \<le> length (tl rest)" using 2(5,6) lsblkValue_shorter [of "tl rest"] by (metis snd_conv)
  moreover have "length rest \<le> length s" "length s \<le> length s0" "rest \<noteq> []"
    using 2(1-4) by (auto simp: length_dropWhile_le)
  ultimately show ?case by (cases rest) auto
qed simp

declare lsblkPairs.simps [simp del]

definition parseLinuxLSBLKPropertyLine :: "string \<Rightarrow> string gomap" where
  "parseLinuxLSBLKPropertyLine line = lsblkPairs [] line"

definition parseLinuxLSBLKProperties :: "string \<Rightarrow> string gomap gomap" where
  "parseLinuxLSBLKProperties output =
     foldl (\<lambda>rows line.
         let values = parseLinuxLSBLKPropertyLine (trim_space line); name = sget values ''NAME''; others = mdel ''NAME'' values
         in if name = [] \<or> others = [] then rows else mput name others rows) [] (split_on NL output)"

definition addLinuxPartitionMetadata :: "gval gomap \<Rightarrow> string gomap \<Rightarrow> gval gomap" where
  "addLinuxPartitionMetadata part metadata =
     foldl (\<lambda>p (column, key). put_nonempty key (sget metadata column) p) part
       [(''FSTYPE'', ''filesystem''), (''UUID'', ''uuid''), (''LABEL'', ''label''), (''PARTUUID'', ''partuuid''),
        (''PARTLABEL'', ''partlabel''), (''PARTTYPE'', ''parttype'')]"

definition currentLinuxPartitions :: "string \<Rightarrow> (string \<Rightarrow> string list \<Rightarrow> string) \<Rightarrow> hostOS \<Rightarrow> gval gomap" where
  "currentLinuxPartitions root run h =
     (let partitions = discoverPartitions root h
      in if partitions = [] then []
         else case linuxLSBLKVersion (run ''lsblk'' [''--version'']) of None \<Rightarrow> partitions
              | Some (major, minor) \<Rightarrow>
                  if \<not> linuxVersionAtLeast major minor 2 23 then partitions
                  else let columns = ''NAME,FSTYPE,UUID,LABEL,PARTUUID,PARTLABEL'' @
                             (if linuxVersionAtLeast major minor 2 25 then '',PARTTYPE'' else []);
                           info = parseLinuxLSBLKProperties (run ''lsblk'' [''-p'', ''-P'', ''-o'', columns])
                       in eachInterface (\<lambda>name p. addLinuxPartitionMetadata p (case mget info name of None \<Rightarrow> [] | Some m \<Rightarrow> m)) partitions)"

section \<open>FreeBSD\<close>

record freeBSDGeomConfig =
  gc_Descr :: string
  gc_Ident :: string
  gc_Label :: string
  gc_RawType :: string
  gc_RawUUID :: string
  gc_RotationRate :: string
  gc_Type :: string

record freeBSDGeomProvider =
  gp_Name :: string
  gp_MediaSize :: string
  gp_Config :: freeBSDGeomConfig

record freeBSDGeomGeom =
  gg_Providers :: "freeBSDGeomProvider list"

record freeBSDGeomClass =
  gk_Name :: string
  gk_Geoms :: "freeBSDGeomGeom list"

record freeBSDGeomMesh =
  gm_Classes :: "freeBSDGeomClass list"

type_synonym geom_decoder = "string \<Rightarrow> freeBSDGeomMesh option"

definition freeBSDGeomProviders :: "geom_decoder \<Rightarrow> string \<Rightarrow> string \<Rightarrow> freeBSDGeomProvider list" where
  "freeBSDGeomProviders unmarshal input className =
     (case unmarshal input of None \<Rightarrow> []
      | Some mesh \<Rightarrow>
          concat (map (\<lambda>class. concat (map gg_Providers (gk_Geoms class)))
            (filter (\<lambda>class. trim_space (gk_Name class) = className) (gm_Classes mesh))))"

definition freeBSDPartitionType :: "freeBSDGeomConfig \<Rightarrow> string" where
  "freeBSDPartitionType config =
     (if trim_space (gc_Type config) \<noteq> [] then trim_space (gc_Type config) else trim_space (gc_RawType config))"

definition freeBSDDiskType :: "string \<Rightarrow> string" where
  "freeBSDDiskType rotationRate =
     (case atoi (trim_space rotationRate) of None \<Rightarrow> []
      | Some rate \<Rightarrow> if rate = 1 then ''ssd'' else if rate > 1 then ''hdd'' else [])"

definition addFreeBSDGeomSize :: "gval gomap \<Rightarrow> string \<Rightarrow> gval gomap" where
  "addFreeBSDGeomSize vs mediaSize =
     (case atoi (trim_space mediaSize) of None \<Rightarrow> vs | Some sizeBytes \<Rightarrow> vs @ sized sizeBytes)"

definition geomEntries :: "(freeBSDGeomProvider \<Rightarrow> gval gomap) \<Rightarrow> freeBSDGeomProvider list \<Rightarrow> gval gomap" where
  "geomEntries f providers =
     foldl (\<lambda>m p. let name = trim_space (gp_Name p) in if name = [] then m else mput name (GMap (f p)) m) [] providers"

definition parseFreeBSDGeomDisks :: "geom_decoder \<Rightarrow> string \<Rightarrow> gval gomap" where
  "parseFreeBSDGeomDisks unmarshal input =
     geomEntries (\<lambda>p. addFreeBSDGeomSize
         (stringEntries [(''model'', trim_space (gc_Descr (gp_Config p))), (''serial_number'', trim_space (gc_Ident (gp_Config p))),
            (''type'', freeBSDDiskType (gc_RotationRate (gp_Config p)))]) (gp_MediaSize p))
       (freeBSDGeomProviders unmarshal input ''DISK'')"

definition parseFreeBSDGeomPartitions :: "geom_decoder \<Rightarrow> string \<Rightarrow> gval gomap" where
  "parseFreeBSDGeomPartitions unmarshal input =
     geomEntries (\<lambda>p. addFreeBSDGeomSize
         (stringEntries [(''partlabel'', trim_space (gc_Label (gp_Config p))), (''partuuid'', trim_space (gc_RawUUID (gp_Config p))),
            (''parttype'', freeBSDPartitionType (gp_Config p))]) (gp_MediaSize p))
       (freeBSDGeomProviders unmarshal input ''PART'')"

section \<open>The other BSDs\<close>

definition isDecimalString :: "string \<Rightarrow> bool" where
  "isDecimalString v \<longleftrightarrow> v \<noteq> [] \<and> list_all is_digit v"

definition dragonFlyPseudoDisk :: "string \<Rightarrow> bool" where
  "dragonFlyPseudoDisk name \<longleftrightarrow> trim_right name ''0123456789'' \<in> set [''md'', ''cd'']"

text \<open>\<open>strconv.ParseInt\<close> with base 0.\<close>

definition parse_int0 :: "string \<Rightarrow> int option" where
  "parse_int0 s =
     (let (neg, ds) = (case s of [] \<Rightarrow> (False, [])
            | c # cs \<Rightarrow> if c = CHR ''-'' then (True, cs) else if c = CHR ''+'' then (False, cs) else (False, s))
      in case parse_uint0 64 ds of None \<Rightarrow> None
         | Some n \<Rightarrow> let v = (if neg then - int n else int n) in if in_int64 v then Some v else None)"

definition parseDragonFlyDiskInfo :: "string \<Rightarrow> gval gomap" where
  "parseDragonFlyDiskInfo input =
     (case find (\<lambda>field. has_prefix field ''size='') (string_fields input) of None \<Rightarrow> []
      | Some field \<Rightarrow>
          (case parse_int0 (trim_prefix field ''size='') of None \<Rightarrow> []
           | Some sizeBytes \<Rightarrow> if sizeBytes \<le> 0 then [] else sized sizeBytes))"

text \<open>The maps of several devices, those that are empty left out.\<close>

definition gather :: "(string \<Rightarrow> gval gomap) \<Rightarrow> string list \<Rightarrow> gval gomap" where
  "gather f devices = foldl (\<lambda>m d. if f d \<noteq> [] then mput d (GMap (f d)) m else m) [] devices"

definition putAll :: "gval gomap \<Rightarrow> gval gomap \<Rightarrow> gval gomap" where
  "putAll m new = foldl (\<lambda>m (k, v). mput k v m) m new"

definition currentDragonFlyDisks :: "(string \<Rightarrow> string list \<Rightarrow> string) \<Rightarrow> gval gomap" where
  "currentDragonFlyDisks run =
     gather (\<lambda>device. parseDragonFlyDiskInfo (run ''diskinfo'' [''/dev/'' @ device]))
       (filter (\<lambda>device. \<not> dragonFlyPseudoDisk device) (string_fields (run ''sysctl'' [''-n'', ''kern.disks''])))"

definition isNetBSDWedgeName :: "string \<Rightarrow> bool" where
  "isNetBSDWedgeName name \<longleftrightarrow> has_prefix name ''dk'' \<and> length name \<noteq> 2 \<and> list_all is_digit (drop 2 name)"

definition isBSDDiskName :: "string \<Rightarrow> bool" where
  "isBSDDiskName name \<longleftrightarrow> name \<noteq> [] \<and> list_all is_alnum name"

definition parseBSDDiskNames :: "string \<Rightarrow> string \<Rightarrow> string list" where
  "parseBSDDiskNames goos output0 =
     (let out = trim_space output0; out' = (case cut out ''='' of None \<Rightarrow> out | Some (_, after) \<Rightarrow> trim_space after);
          parts = filter (\<lambda>f. f \<noteq> [])
            (split_on NL (map (\<lambda>c. if c \<in> {CHR '','', CHR '' '', CHR 0x09, CHR 0x0D} then NL else c) out'))
      in filter (\<lambda>name. name \<noteq> [] \<and> \<not> (goos = ''netbsd'' \<and> isNetBSDWedgeName name))
           (map (\<lambda>field. trim_space (before_cut field '':'')) parts))"

fun disklabelInt :: "string \<Rightarrow> string list \<Rightarrow> int" where
  "disklabelInt key [] = 0"
| "disklabelInt key (line # lines) =
     (case cut_prefix (trim_space line) key of None \<Rightarrow> disklabelInt key lines
      | Some v \<Rightarrow> (case string_fields v of [] \<Rightarrow> 0 | f # _ \<Rightarrow> (case atoi f of None \<Rightarrow> 0 | Some n \<Rightarrow> n)))"

definition parseBSDDisklabelInt :: "string \<Rightarrow> string \<Rightarrow> int" where
  "parseBSDDisklabelInt input key = disklabelInt key (split_on NL input)"

definition parseBSDDisklabelSectorSize :: "string \<Rightarrow> int" where
  "parseBSDDisklabelSectorSize input =
     (let sectorSize = parseBSDDisklabelInt input ''bytes/sector:'' in if sectorSize \<le> 0 then 512 else sectorSize)"

definition parseBSDDisklabelDisk :: "string \<Rightarrow> gval gomap" where
  "parseBSDDisklabelDisk input =
     (let sectorSize = parseBSDDisklabelSectorSize input; totalSectors = parseBSDDisklabelInt input ''total sectors:''
      in if sectorSize \<le> 0 \<or> totalSectors \<le> 0 then [] else sized (wrap64 (totalSectors * sectorSize)))"

definition currentBSDDisklabel :: "string \<Rightarrow> string \<Rightarrow> (string \<Rightarrow> string list \<Rightarrow> string) \<Rightarrow> string" where
  "currentBSDDisklabel goos device run =
     (if goos = ''netbsd'' \<and> isBSDDiskName device
      then run ''sh'' [''-c'', ''disklabel '' @ device @ '' 2>/dev/null || true'']
      else run ''disklabel'' [device])"

definition currentBSDDisks :: "string \<Rightarrow> (string \<Rightarrow> string list \<Rightarrow> string) \<Rightarrow> gval gomap" where
  "currentBSDDisks goos run =
     gather (\<lambda>device. parseBSDDisklabelDisk (currentBSDDisklabel goos device run))
       (parseBSDDiskNames goos (run ''sysctl'' [''-n'', ''hw.disknames'']))"

text \<open>A partition line of a disk label: one letter other than c, a size in blocks and a file system.\<close>

definition disklabelPartition :: "string \<Rightarrow> int \<Rightarrow> string \<Rightarrow> (string \<times> gval) option" where
  "disklabelPartition device blockSize line =
     (let ws = string_fields (trim_space line); label = trim_suffix (hd ws) '':''
      in if length ws < 4 \<or> \<not> has_suffix (hd ws) '':'' \<or> length label \<noteq> 1 \<or> label = ''c'' then None
         else case atoi (ws ! 1) of None \<Rightarrow> None
              | Some n \<Rightarrow>
                  if n \<le> 0 \<or> ws ! 3 = [] \<or> ws ! 3 = ''unused'' then None
                  else Some (''/dev/'' @ device @ label, GMap ((''filesystem'', GStr (ws ! 3)) # sized (wrap64 (n * blockSize)))))"

definition disklabelPartitions :: "string \<Rightarrow> int \<Rightarrow> string \<Rightarrow> gval gomap" where
  "disklabelPartitions device blockSize input =
     foldl (\<lambda>m line. case disklabelPartition device blockSize line of None \<Rightarrow> m | Some (k, v) \<Rightarrow> mput k v m) [] (split_on NL input)"

definition parseBSDDisklabelPartitions :: "string \<Rightarrow> string \<Rightarrow> gval gomap" where
  "parseBSDDisklabelPartitions device input = disklabelPartitions device (parseBSDDisklabelSectorSize input) input"

definition parseDragonFlyDisklabelPartitions :: "string \<Rightarrow> string \<Rightarrow> gval gomap" where
  "parseDragonFlyDisklabelPartitions device input =
     (let b = parseBSDDisklabelInt input ''display block size:''
      in disklabelPartitions device (if b \<le> 0 then parseBSDDisklabelSectorSize input else b) input)"

definition currentOpenBSDPartitions :: "(string \<Rightarrow> string list \<Rightarrow> string) \<Rightarrow> gval gomap" where
  "currentOpenBSDPartitions run =
     foldl (\<lambda>m device. putAll m (parseBSDDisklabelPartitions device (run ''disklabel'' [device]))) []
       (parseBSDDiskNames ''openbsd'' (run ''sysctl'' [''-n'', ''hw.disknames'']))"

text \<open>The block count and the file system of a wedge: the last of each that the line gives.\<close>

definition wedgeField :: "int \<times> string \<Rightarrow> string \<times> string \<Rightarrow> int \<times> string" where
  "wedgeField st w =
     (let (blocks, filesystem) = st; (a, b) = w
      in (if b = ''blocks'' then (case atoi (trim_both a '','') of None \<Rightarrow> blocks | Some n \<Rightarrow> n) else blocks,
          if a = ''type:'' then trim_both b '','' else filesystem))"

definition wedgeLine :: "int \<Rightarrow> string \<Rightarrow> (string \<times> gval) option" where
  "wedgeLine sectorSize line =
     (case cut (trim_space line) '':'' of None \<Rightarrow> None
      | Some (name, rest) \<Rightarrow>
          if \<not> isNetBSDWedgeName name then None
          else case cut (trim_space rest) '','' of None \<Rightarrow> None
               | Some (label, _) \<Rightarrow>
                   (let ws = string_fields rest; (blocks, filesystem) = foldl wedgeField (0, []) (zip ws (tl ws))
                    in if blocks \<le> 0 \<or> filesystem = [] then None
                       else Some (''/dev/'' @ name,
                              GMap ([(''filesystem'', GStr filesystem), (''partlabel'', GStr (trim_space label))] @
                                sized (wrap64 (blocks * sectorSize))))))"

definition parseNetBSDDkctlWedges :: "string \<Rightarrow> int \<Rightarrow> gval gomap" where
  "parseNetBSDDkctlWedges input sectorSize =
     foldl (\<lambda>m line. case wedgeLine (if sectorSize \<le> 0 then 512 else sectorSize) line of None \<Rightarrow> m | Some (k, v) \<Rightarrow> mput k v m)
       [] (split_on NL input)"

definition currentNetBSDPartitions :: "(string \<Rightarrow> string list \<Rightarrow> string) \<Rightarrow> gval gomap" where
  "currentNetBSDPartitions run =
     foldl (\<lambda>m device.
         let disklabel = currentBSDDisklabel ''netbsd'' device run;
             wedges = parseNetBSDDkctlWedges (run ''dkctl'' [device, ''listwedges'']) (parseBSDDisklabelSectorSize disklabel)
         in putAll m (if wedges = [] then parseBSDDisklabelPartitions device disklabel else wedges)) []
       (parseBSDDiskNames ''netbsd'' (run ''sysctl'' [''-n'', ''hw.disknames'']))"

definition isDragonFlySlice :: "string \<Rightarrow> string \<Rightarrow> bool" where
  "isDragonFlySlice device name \<longleftrightarrow>
     (case cut_prefix name (device @ ''s'') of None \<Rightarrow> False | Some rest \<Rightarrow> isDecimalString rest)"

definition dragonFlyDisklabelTargets :: "string \<Rightarrow> (string \<Rightarrow> goerror + string list) \<Rightarrow> string list" where
  "dragonFlyDisklabelTargets device glob =
     (case glob (''/dev/'' @ device @ ''s*'') of Inl e \<Rightarrow> []
      | Inr paths \<Rightarrow> filter (isDragonFlySlice device) (map (\<lambda>p. trim_prefix p ''/dev/'') paths))"

definition currentDragonFlyPartitions ::
  "(string \<Rightarrow> string list \<Rightarrow> string) \<Rightarrow> (string \<Rightarrow> goerror + string list) \<Rightarrow> gval gomap" where
  "currentDragonFlyPartitions run glob =
     foldl (\<lambda>m target. putAll m (parseDragonFlyDisklabelPartitions target (run ''disklabel'' [target]))) []
       (concat (map (\<lambda>device. dragonFlyDisklabelTargets device glob)
         (filter (\<lambda>device. \<not> dragonFlyPseudoDisk device) (string_fields (run ''sysctl'' [''-n'', ''kern.disks''])))))"

section \<open>illumos\<close>

definition illumosWholeSliceDisk :: "string \<Rightarrow> string option" where
  "illumosWholeSliceDisk path =
     (let name = trim_prefix path ''/dev/rdsk/''; disk = trim_suffix name ''s2''
      in if has_suffix name ''s2'' \<and> disk \<noteq> [] then Some disk else None)"

definition vtocSize :: "string list \<Rightarrow> int option" where
  "vtocSize ws =
     (case find (\<lambda>(a, b). b = ''bytes/sector'' \<and> atoi a \<noteq> None) (zip ws (tl ws)) of None \<Rightarrow> None | Some (a, _) \<Rightarrow> atoi a)"

definition parseIllumosVTOCSectorSize :: "string \<Rightarrow> int" where
  "parseIllumosVTOCSectorSize input =
     (case first_some (map (\<lambda>line. vtocSize (string_fields line)) (split_on NL input)) of None \<Rightarrow> 0 | Some n \<Rightarrow> n)"

definition vtocPartition :: "string \<Rightarrow> int \<Rightarrow> string \<Rightarrow> (string \<times> gval gomap) option" where
  "vtocPartition disk sectorSize line =
     (let ws = string_fields line
      in if length ws < 6 \<or> \<not> isDecimalString (hd ws) \<or> hd ws = ''2'' then None
         else case atoi (ws ! 4) of None \<Rightarrow> None
              | Some n \<Rightarrow> if n \<le> 0 then None
                        else Some (''/dev/dsk/'' @ disk @ ''s'' @ hd ws, sized (wrap64 (n * sectorSize))))"

definition parseIllumosVTOCPartitions :: "string \<Rightarrow> string \<Rightarrow> gval gomap gomap" where
  "parseIllumosVTOCPartitions disk input =
     (let sectorSize = parseIllumosVTOCSectorSize input
      in if sectorSize \<le> 0 then []
         else foldl (\<lambda>m line. case vtocPartition disk sectorSize line of None \<Rightarrow> m | Some (k, v) \<Rightarrow> mput k v m) [] (split_on NL input))"

definition illumosRawPartitionDevice :: "string \<Rightarrow> string" where
  "illumosRawPartitionDevice blockDevice =
     (case cut blockDevice ''/dev/dsk/'' of None \<Rightarrow> blockDevice | Some (a, b) \<Rightarrow> a @ ''/dev/rdsk/'' @ b)"

definition illumosPartitionFilesystem :: "string \<Rightarrow> string" where
  "illumosPartitionFilesystem output =
     (case string_fields output of [] \<Rightarrow> []
      | f # _ \<Rightarrow> if f = ''unknown_fstyp'' \<or> contains f '':'' then [] else f)"

definition currentIllumosPartitions ::
  "(string \<Rightarrow> string list \<Rightarrow> string) \<Rightarrow> (string \<Rightarrow> goerror + string list) \<Rightarrow> gval gomap" where
  "currentIllumosPartitions run glob =
     (case glob (SLASH # ''dev/rdsk/*s2'') of Inl e \<Rightarrow> []
      | Inr wholeSlices \<Rightarrow>
          foldl (\<lambda>m wholeSlice.
              case illumosWholeSliceDisk wholeSlice of None \<Rightarrow> m
              | Some disk \<Rightarrow>
                  foldl (\<lambda>m (name, p). mput name
                      (GMap (put_nonempty ''filesystem'' (illumosPartitionFilesystem (run ''fstyp'' [illumosRawPartitionDevice name])) p)) m)
                    m (parseIllumosVTOCPartitions disk (run ''prtvtoc'' [wholeSlice]))) [] wholeSlices)"

definition currentDisks :: "string \<Rightarrow> geom_decoder \<Rightarrow> hostOS \<Rightarrow> gval gomap" where
  "currentDisks goos unmarshal h =
     (let run = ho_run h
      in if goos = ''freebsd'' then parseFreeBSDGeomDisks unmarshal (run ''sysctl'' [''-n'', ''kern.geom.confxml''])
         else if goos = ''dragonfly'' then currentDragonFlyDisks run
         else if goos = ''openbsd'' \<or> goos = ''netbsd'' then currentBSDDisks goos run
         else if goos = ''linux'' then currentLinuxDisks (SLASH # ''sys/block'') run h
         else [])"

definition currentPartitions :: "hostOS \<Rightarrow> geom_decoder \<Rightarrow> gval gomap" where
  "currentPartitions h unmarshal =
     (let goos = ho_goos h; run = ho_run h
      in if goos = ''freebsd'' then parseFreeBSDGeomPartitions unmarshal (run ''sysctl'' [''-n'', ''kern.geom.confxml''])
         else if goos = ''dragonfly'' then currentDragonFlyPartitions run (ho_glob h)
         else if goos = ''openbsd'' then currentOpenBSDPartitions run
         else if goos = ''netbsd'' then currentNetBSDPartitions run
         else if goos = ''illumos'' then currentIllumosPartitions run (ho_glob h)
         else if goos = ''linux'' then currentLinuxPartitions (SLASH # ''sys/class/block'') run h
         else [])"

section \<open>Mount entries\<close>

record mountEntry =
  me_Device :: string
  me_Path :: string
  me_Filesystem :: string
  me_Options :: "string list"

text \<open>The octal escapes of a mount table.\<close>

fun unescapeMountField :: "string \<Rightarrow> string" where
  "unescapeMountField (a # b # c # d # cs) =
     (if [a, b, c, d] = BSLASH # ''040'' then CHR '' '' # unescapeMountField cs
      else if [a, b, c, d] = BSLASH # ''011'' then CHR 0x09 # unescapeMountField cs
      else if [a, b, c, d] = BSLASH # ''012'' then NL # unescapeMountField cs
      else if [a, b, c, d] = BSLASH # ''134'' then BSLASH # unescapeMountField cs
      else a # unescapeMountField (b # c # d # cs))"
| "unescapeMountField s = s"

definition parseLinuxMountEntries :: "string \<Rightarrow> mountEntry list" where
  "parseLinuxMountEntries input =
     concat (map (\<lambda>line. let ws = string_fields line
         in if length ws < 4 then []
            else [\<lparr>me_Device = unescapeMountField (ws ! 0), me_Path = unescapeMountField (ws ! 1), me_Filesystem = ws ! 2,
                   me_Options = split_on (CHR '','') (ws ! 3)\<rparr>]) (split_on NL input))"

definition rootFromLinuxCmdline :: "string \<Rightarrow> string" where
  "rootFromLinuxCmdline input =
     (case find (\<lambda>field. has_prefix field ''root='') (string_fields input) of None \<Rightarrow> []
      | Some field \<Rightarrow> trim_prefix field ''root='')"

definition linuxDeviceForPartitionID :: "string \<Rightarrow> string \<Rightarrow> string" where
  "linuxDeviceForPartitionID partitionID blkidOutput =
     (case cut partitionID ''='' of None \<Rightarrow> []
      | Some (idKey, ident) \<Rightarrow>
          if ident = [] then []
          else case find (\<lambda>line. cut line '':'' \<noteq> None \<and>
                   list_ex (\<lambda>field. case cut field ''='' of None \<Rightarrow> False
                     | Some (key, raw) \<Rightarrow> equal_fold key idKey \<and> trim_both raw [DQUOTE] = ident) (string_fields line))
                 (split_on NL blkidOutput) of
                 None \<Rightarrow> [] | Some line \<Rightarrow> trim_space (before_cut line '':''))"

definition resolveLinuxRootMountDevice ::
  "(string \<Rightarrow> goerror + string) \<Rightarrow> (string \<Rightarrow> string list \<Rightarrow> string) \<Rightarrow> string" where
  "resolveLinuxRootMountDevice readFile run =
     (case readFile ''/proc/cmdline'' of Inl e \<Rightarrow> []
      | Inr data \<Rightarrow>
          (let root = rootFromLinuxCmdline data
           in if \<not> contains root ''='' then root
              else let device = linuxDeviceForPartitionID root (run ''blkid'' []) in if device \<noteq> [] then device else root))"

definition linuxMountEntriesWithRootDevice ::
  "mountEntry list \<Rightarrow> (string \<Rightarrow> goerror + string) \<Rightarrow> (string \<Rightarrow> string list \<Rightarrow> string) \<Rightarrow> mountEntry list" where
  "linuxMountEntriesWithRootDevice entries readFile run =
     map (\<lambda>e. if me_Device e = ''/dev/root'' then e\<lparr>me_Device := resolveLinuxRootMountDevice readFile run\<rparr> else e) entries"

definition normalizeDarwinMountOption :: "string \<Rightarrow> string" where
  "normalizeDarwinMountOption option =
     (if option = ''read-only'' then ''readonly'' else if option = ''asynchronous'' then ''async''
      else if option = ''synchronous'' then ''noasync'' else if option = ''quotas'' then ''quota''
      else if option = ''rootfs'' then ''root'' else if option = ''defwrite'' then ''deferwrites'' else option)"

definition mountOptions :: "string list \<Rightarrow> string list" where
  "mountOptions parts = filter (\<lambda>option. option \<noteq> []) (map trim_space parts)"

definition entryOf :: "string \<Rightarrow> string \<Rightarrow> string \<Rightarrow> string list \<Rightarrow> mountEntry" where
  "entryOf device path filesystem options =
     \<lparr>me_Device = unescapeMountField device, me_Path = unescapeMountField path, me_Filesystem = trim_space filesystem,
      me_Options = options\<rparr>"

definition darwinMountLine :: "string \<Rightarrow> mountEntry list" where
  "darwinMountLine line =
     (case cut line '' on '' of None \<Rightarrow> []
      | Some (device, rest) \<Rightarrow>
          (case cut rest '' ('' of None \<Rightarrow> []
           | Some (path, raw) \<Rightarrow>
               (let parts = split_on (CHR '','') (trim_suffix raw '')'')
                in [entryOf device path (hd parts)
                     (filter (\<lambda>option. option \<noteq> []) (map (\<lambda>p. normalizeDarwinMountOption (trim_space p)) (tl parts)))])))"

definition parseDarwinMountEntries :: "string \<Rightarrow> mountEntry list" where
  "parseDarwinMountEntries input = concat (map darwinMountLine (split_on NL input))"

definition parseBSDMountOptions :: "string \<Rightarrow> string list" where
  "parseBSDMountOptions rawOptions = mountOptions (split_on (CHR '','') (trim_suffix rawOptions '')''))"

text \<open>The two forms of a line: the file system first among the options, or after the word type.\<close>

definition bsdMountLine :: "string \<Rightarrow> mountEntry list" where
  "bsdMountLine line =
     (case cut line '' on '' of None \<Rightarrow> []
      | Some (device, rest) \<Rightarrow>
          (case cut rest '' ('' of
             None \<Rightarrow>
               (case cut rest '' type '' of None \<Rightarrow> []
                | Some (path, afterType) \<Rightarrow>
                    (case cut afterType '' ('' of None \<Rightarrow> []
                     | Some (filesystem, options) \<Rightarrow> [entryOf device path filesystem (parseBSDMountOptions options)]))
           | Some (path, raw) \<Rightarrow>
               (case cut path '' type '' of
                  Some (cleanPath, filesystem) \<Rightarrow> [entryOf device cleanPath filesystem (parseBSDMountOptions raw)]
                | None \<Rightarrow>
                    (let parts = split_on (CHR '','') (trim_suffix raw '')'')
                     in [entryOf device path (hd parts) (mountOptions (tl parts))]))))"

definition parseBSDMountEntries :: "string \<Rightarrow> mountEntry list" where
  "parseBSDMountEntries input = concat (map bsdMountLine (split_on NL input))"

definition parseFreeBSDMountEntries :: "string \<Rightarrow> mountEntry list" where
  "parseFreeBSDMountEntries input = parseBSDMountEntries input"

definition isDragonFlyPartitionName :: "string \<Rightarrow> bool" where
  "isDragonFlyPartitionName name \<longleftrightarrow>
     (let letters = takeWhile (\<lambda>c. is_lower c \<or> is_upper c) name; r1 = drop (length letters) name; r2 = dropWhile is_digit r1;
          r3 = tl r2; digits = takeWhile is_digit r3; r4 = drop (length digits) r3
      in if name = [] \<or> contains_any name ''/:'' \<or> letters = [] \<or> r2 = [] \<or> hd r2 \<noteq> CHR ''s'' then False
         else if digits = [] \<or> length r4 \<noteq> 1 then False
         else lower_char (hd r4) \<in> set ''abcdefghijklmnop'')"

definition dragonFlyMountDevice :: "string \<Rightarrow> string" where
  "dragonFlyMountDevice device =
     (if has_prefix device [SLASH] \<or> \<not> isDragonFlyPartitionName device then device else ''/dev/'' @ device)"

definition illumosMountLine :: "string \<Rightarrow> mountEntry list" where
  "illumosMountLine line =
     (case cut line '' on '' of None \<Rightarrow> []
      | Some (first, rest) \<Rightarrow>
          (case cut rest '' type '' of
             Some (path, afterType) \<Rightarrow>
               (case cut (trim_space afterType) '' '' of None \<Rightarrow> []
                | Some (filesystem, optionsText) \<Rightarrow>
                    if filesystem = [] then []
                    else [\<lparr>me_Device = first, me_Path = path, me_Filesystem = filesystem,
                           me_Options = split_on SLASH (trim_space (before_cut optionsText '' on ''))\<rparr>])
           | None \<Rightarrow>
               (let ws = string_fields rest
                in if length ws < 2 then []
                   else [\<lparr>me_Device = hd ws, me_Path = first, me_Filesystem = [], me_Options = split_on SLASH (ws ! 1)\<rparr>])))"

definition parseIllumosMountEntries :: "string \<Rightarrow> mountEntry list" where
  "parseIllumosMountEntries input = concat (map illumosMountLine (split_on NL input))"

definition parseOpenBSDMountEntries :: "string \<Rightarrow> mountEntry list" where
  "parseOpenBSDMountEntries input =
     concat (map (\<lambda>line. let ws = string_fields line
         in if length ws < 6 \<or> ws ! 1 \<noteq> ''on'' \<or> ws ! 3 \<noteq> ''type'' then []
            else [\<lparr>me_Device = ws ! 0, me_Path = ws ! 2, me_Filesystem = ws ! 4,
                   me_Options = filter (\<lambda>option. option \<noteq> []) (map (\<lambda>f. trim_both f ''(),'') (drop 5 ws))\<rparr>]) (split_on NL input))"

definition dfLine :: "mountStat gomap \<Rightarrow> string \<Rightarrow> mountStat gomap" where
  "dfLine stats line =
     (let ws = string_fields line
      in if length ws < 6 \<or> hd ws = ''Filesystem'' \<or> ws ! 1 = ''-'' then stats
         else case (atoi (ws ! 1), atoi (ws ! 2), atoi (ws ! 3)) of
                (Some sizeBlocks, Some usedBlocks, Some availableBlocks) \<Rightarrow>
                  mput (last ws) \<lparr>ms_SizeBytes = wrap64 (sizeBlocks * 512), ms_AvailableBytes = wrap64 (availableBlocks * 512),
                    ms_UsedBytes = wrap64 (usedBlocks * 512)\<rparr> stats
              | _ \<Rightarrow> stats)"

definition parseDFP512Stats :: "string \<Rightarrow> mountStat gomap" where
  "parseDFP512Stats input = foldl dfLine [] (split_on NL input)"

section \<open>Mount points\<close>

definition skipMountEntry :: "mountEntry \<Rightarrow> bool" where
  "skipMountEntry entry \<longleftrightarrow>
     ((has_prefix (me_Path entry) ''/proc'' \<or> has_prefix (me_Path entry) ''/sys'') \<and> me_Filesystem entry \<noteq> ''tmpfs'') \<or>
     me_Filesystem entry = ''autofs''"

definition mountpointValue :: "mountEntry \<Rightarrow> mountStat option \<Rightarrow> gval gomap" where
  "mountpointValue entry stats =
     (case stats of None \<Rightarrow> []
      | Some st \<Rightarrow>
          [(''available'', bytesToHumanReadable (ms_AvailableBytes st)), (''available_bytes'', GInt (ms_AvailableBytes st)),
           (''capacity'', GStr (filesystemCapacity (ms_UsedBytes st) (ms_AvailableBytes st))),
           (''size'', bytesToHumanReadable (ms_SizeBytes st)), (''size_bytes'', GInt (ms_SizeBytes st)),
           (''used'', bytesToHumanReadable (ms_UsedBytes st)), (''used_bytes'', GInt (ms_UsedBytes st))]) @
     stringEntries [(''device'', me_Device entry), (''filesystem'', me_Filesystem entry)] @
     (if me_Options entry \<noteq> [] \<or> me_Device entry \<noteq> [] \<or> me_Filesystem entry \<noteq> []
      then [(''options'', GStrs (me_Options entry))] else [])"

definition mountpointsFactWithSkip ::
  "mountEntry list \<Rightarrow> (string \<Rightarrow> mountStat option) \<Rightarrow> (mountEntry \<Rightarrow> bool) \<Rightarrow> gval gomap" where
  "mountpointsFactWithSkip entries stat skip =
     foldl (\<lambda>m entry.
         let v = mountpointValue entry (stat (me_Path entry))
         in if skip entry \<or> v = [] then m else mput (me_Path entry) (GMap v) m) [] entries"

definition mountpointsFact :: "mountEntry list \<Rightarrow> (string \<Rightarrow> mountStat option) \<Rightarrow> gval gomap" where
  "mountpointsFact entries stat = mountpointsFactWithSkip entries stat skipMountEntry"

text \<open>On macOS a mount point whose statistics are missing has zero sizes and a capacity of 100 percent.\<close>

definition darwinMountpointsFact :: "mountEntry list \<Rightarrow> (string \<Rightarrow> mountStat option) \<Rightarrow> gval gomap" where
  "darwinMountpointsFact entries stat =
     (let zero = \<lparr>ms_SizeBytes = 0, ms_AvailableBytes = 0, ms_UsedBytes = 0\<rparr>;
          missing = map me_Path (filter (\<lambda>e. \<not> skipMountEntry e \<and> stat (me_Path e) = None) entries)
      in foldl (\<lambda>m path. withInterface path (mput ''capacity'' (GStr ''100%'')) m)
           (mountpointsFactWithSkip entries (\<lambda>path. Some (case stat path of None \<Rightarrow> zero | Some st \<Rightarrow> st)) skipMountEntry) missing)"

definition openBSDMountpointsFact :: "string \<Rightarrow> string \<Rightarrow> gval gomap" where
  "openBSDMountpointsFact mountOutput dfOutput =
     mountpointsFact (parseOpenBSDMountEntries mountOutput) (mget (parseDFP512Stats dfOutput))"

definition netBSDMountpointsFact :: "string \<Rightarrow> string \<Rightarrow> gval gomap" where
  "netBSDMountpointsFact mountOutput dfOutput =
     mountpointsFact (parseBSDMountEntries mountOutput) (mget (parseDFP512Stats dfOutput))"

definition dragonFlyMountpointsFact :: "string \<Rightarrow> string \<Rightarrow> gval gomap" where
  "dragonFlyMountpointsFact mountOutput dfOutput =
     mountpointsFact (map (\<lambda>e. e\<lparr>me_Device := dragonFlyMountDevice (me_Device e)\<rparr>) (parseBSDMountEntries mountOutput))
       (mget (parseDFP512Stats dfOutput))"

definition illumosMountpointsFact :: "string \<Rightarrow> string \<Rightarrow> gval gomap" where
  "illumosMountpointsFact mountOutput dfOutput =
     mountpointsFact (parseIllumosMountEntries mountOutput) (mget (parseDFP512Stats dfOutput))"

definition rootEntry :: mountEntry where
  "rootEntry = \<lparr>me_Device = [], me_Path = [SLASH], me_Filesystem = [], me_Options = []\<rparr>"

definition currentMountEntries :: "hostOS \<Rightarrow> mountEntry list" where
  "currentMountEntries h =
     (let goos = ho_goos h; out = ho_run h ''mount'' []
      in if goos = ''darwin'' then parseDarwinMountEntries out
         else if goos = ''freebsd'' then parseFreeBSDMountEntries out
         else if goos = ''netbsd'' then parseBSDMountEntries out
         else if goos = ''linux''
         then (case ho_readFile h ''/proc/self/mounts'' of Inl e \<Rightarrow> []
               | Inr data \<Rightarrow> linuxMountEntriesWithRootDevice (parseLinuxMountEntries data) (ho_readFile h) (ho_run h))
         else [rootEntry])"

text \<open>The mount and df reports of the systems whose statistics come from df; without a mount report the
  root alone is asked for.\<close>

definition reportedMountpoints :: "hostOS \<Rightarrow> string list \<Rightarrow> (string \<Rightarrow> string \<Rightarrow> gval gomap) \<Rightarrow> gval gomap" where
  "reportedMountpoints h args f =
     (let mountOutput = ho_run h ''mount'' args
      in if mountOutput = [] then mountpointsFact [rootEntry] (ho_statMountpoint h)
         else f mountOutput (ho_run h ''df'' [''-P'']))"

definition currentOpenBSDMountpoints :: "hostOS \<Rightarrow> gval gomap" where
  "currentOpenBSDMountpoints h = reportedMountpoints h [] openBSDMountpointsFact"

definition currentNetBSDMountpoints :: "hostOS \<Rightarrow> gval gomap" where
  "currentNetBSDMountpoints h = reportedMountpoints h [] netBSDMountpointsFact"

definition currentDragonFlyMountpoints :: "hostOS \<Rightarrow> gval gomap" where
  "currentDragonFlyMountpoints h = reportedMountpoints h [] dragonFlyMountpointsFact"

definition currentIllumosMountpoints :: "hostOS \<Rightarrow> gval gomap" where
  "currentIllumosMountpoints h = reportedMountpoints h [''-v''] illumosMountpointsFact"

definition rootMountpoint :: "hostOS \<Rightarrow> gval gomap" where
  "rootMountpoint h =
     (let goos = ho_goos h; entries0 = currentMountEntries h; entries = (if entries0 = [] then [rootEntry] else entries0)
      in if goos = ''openbsd'' then currentOpenBSDMountpoints h
         else if goos = ''netbsd'' then currentNetBSDMountpoints h
         else if goos = ''dragonfly'' then currentDragonFlyMountpoints h
         else if goos = ''illumos'' then currentIllumosMountpoints h
         else if goos = ''darwin'' then darwinMountpointsFact entries (ho_statMountpoint h)
         else mountpointsFact entries (ho_statMountpoint h))"

section \<open>Partitions and their mount points\<close>

definition partitionByStringField :: "gval gomap \<Rightarrow> string \<Rightarrow> string \<Rightarrow> string option" where
  "partitionByStringField partitions field v =
     find (\<lambda>name. case mget partitions name of Some (GMap p) \<Rightarrow> mget p field = Some (GStr v) | _ \<Rightarrow> False) (sorted_keys partitions)"

text \<open>The name of the partition that a mounted device stands for.\<close>

definition partitionForMountDevice :: "gval gomap \<Rightarrow> string \<Rightarrow> string option" where
  "partitionForMountDevice partitions device =
     (let isPartition = (\<lambda>name. case mget partitions name of Some (GMap p) \<Rightarrow> True | _ \<Rightarrow> False);
          short = trim_prefix device ''/dev/''
      in if isPartition device then Some device
         else if isPartition short then Some short
         else case cut_prefix device ''/dev/gpt/'' of
                Some label \<Rightarrow> partitionByStringField partitions ''partlabel'' label
              | None \<Rightarrow>
                  (case cut_prefix device ''/dev/gptid/'' of
                     Some uuid \<Rightarrow> partitionByStringField partitions ''partuuid'' uuid
                   | None \<Rightarrow> None))"

definition addPartitionMount :: "gval gomap \<Rightarrow> string \<Rightarrow> gval gomap \<Rightarrow> gval gomap" where
  "addPartitionMount partitions path mountpoint =
     (case partitionForMountDevice partitions (as_string (mget mountpoint ''device'')) of None \<Rightarrow> partitions
      | Some name \<Rightarrow>
          withInterface name (\<lambda>p.
            let p' = (if not_nil (mget p ''mount'') then p else mput ''mount'' (GStr path) p)
            in if not_nil (mget p' ''filesystem'') then p'
               else put_nonempty ''filesystem'' (as_string (mget mountpoint ''filesystem'')) p') partitions)"

definition addMountAt :: "gval gomap \<Rightarrow> gval gomap \<Rightarrow> string \<Rightarrow> gval gomap" where
  "addMountAt mountpoints partitions path =
     (case mget mountpoints path of Some (GMap mountpoint) \<Rightarrow> addPartitionMount partitions path mountpoint | _ \<Rightarrow> partitions)"

definition partitionsFactWithMountEntries :: "gval gomap \<Rightarrow> mountEntry list \<Rightarrow> gval gomap \<Rightarrow> gval gomap" where
  "partitionsFactWithMountEntries partitions mountEntries mountpoints =
     (if partitions = [] \<or> mountpoints = [] then partitions
      else if mountEntries \<noteq> []
      then foldl (addMountAt mountpoints) partitions (map me_Path (filter (\<lambda>e. \<not> skipMountEntry e) mountEntries))
      else foldl (addMountAt mountpoints) partitions (sorted_keys mountpoints))"

section \<open>ZFS\<close>

definition zfsUpgradeNumbers :: "string \<Rightarrow> string list" where
  "zfsUpgradeNumbers output =
     concat (map (\<lambda>line. case string_fields line of [] \<Rightarrow> [] | f # _ \<Rightarrow> if isDecimalString f then [f] else []) (split_on NL output))"

definition isZpoolFeatureFlagName :: "string \<Rightarrow> bool" where
  "isZpoolFeatureFlagName v \<longleftrightarrow> v \<noteq> [] \<and> list_all (\<lambda>c. is_lower c \<or> is_digit c \<or> c = CHR ''_'') v"

definition zpoolFeatureFlags :: "string \<Rightarrow> string list" where
  "zpoolFeatureFlags output =
     concat (map (\<lambda>line0. let line = trim_space line0; name = before_cut line '' ''; suffix = trim_space (after_cut line '' '')
         in if line = [] \<or> \<not> isZpoolFeatureFlagName name then []
            else if suffix = [] \<or> suffix = ''(read-only compatible)'' then [name] else []) (split_on NL output))"

definition zfsFactsFromUpgradeOutput :: "string \<Rightarrow> ResolvedFact list" where
  "zfsFactsFromUpgradeOutput output =
     (let versions = zfsUpgradeNumbers output
      in if versions = [] then []
         else [core_fact ''zfs.feature_numbers'' (GStrs versions), core_fact ''zfs.version'' (GStr (last versions))])"

definition zpoolFactsFromUpgradeOutput :: "string \<Rightarrow> ResolvedFact list" where
  "zpoolFactsFromUpgradeOutput output =
     (let versions = zfsUpgradeNumbers output; featureFlags = zpoolFeatureFlags output
      in if versions = [] then []
         else core_fact ''zpool.feature_numbers'' (GStrs versions) #
              (if featureFlags \<noteq> []
               then [core_fact ''zpool.feature_flags'' (GStrs featureFlags), core_fact ''zpool.version'' (GStr ''5000'')]
               else [core_fact ''zpool.version'' (GStr (last versions))]))"

definition currentZFSFacts :: "string \<Rightarrow> (string \<Rightarrow> string list \<Rightarrow> string) \<Rightarrow> ResolvedFact list" where
  "currentZFSFacts goos run =
     (case Lookup goos of None \<Rightarrow> []
      | Some profile \<Rightarrow>
          if \<not> cp_ZFS (pp_Capabilities profile) then []
          else zfsFactsFromUpgradeOutput (run ''zfs'' [''upgrade'', ''-v'']) @
               zpoolFactsFromUpgradeOutput (run ''zpool'' [''upgrade'', ''-v'']))"

section \<open>Facts\<close>

definition nonemptyFact :: "string \<Rightarrow> gval gomap \<Rightarrow> ResolvedFact list" where
  "nonemptyFact name m = (if m = [] then [] else [core_fact name (GMap m)])"

definition disksFacts :: "gval gomap \<Rightarrow> ResolvedFact list" where "disksFacts disks = nonemptyFact ''disks'' disks"
definition partitionsFacts :: "gval gomap \<Rightarrow> ResolvedFact list" where "partitionsFacts ps = nonemptyFact ''partitions'' ps"
definition mountpointsFacts :: "gval gomap \<Rightarrow> ResolvedFact list" where "mountpointsFacts ms = nonemptyFact ''mountpoints'' ms"

definition disksCoreFacts :: "hostOS \<Rightarrow> geom_decoder \<Rightarrow> ResolvedFact list" where
  "disksCoreFacts h unmarshal =
     (let goos = ho_goos h; mountpoints = rootMountpoint h
      in mountpointsFacts mountpoints @ currentZFSFacts goos (ho_run h) @ disksFacts (currentDisks goos unmarshal h) @
         partitionsFacts (partitionsFactWithMountEntries (currentPartitions h unmarshal)
           (if goos = ''linux'' then currentMountEntries h else []) mountpoints))"

section \<open>Lemmas\<close>

lemma div_bound:
  assumes "0 < s"
  shows "m < (m div s + 1) * (s :: int)" "m div s * s \<le> m"
proof -
  have "m = m div s * s + m mod s" "0 \<le> m mod s" "m mod s < s" using assms by simp_all
  then show "m < (m div s + 1) * s" "m div s * s \<le> m" unfolding distrib_right mult_1 by linarith+
qed

text \<open>C32: A byte total is the product of the block count and the block size, kept below the largest \<open>int\<close>: for no
  counts of 64 bits does the product wrap or the conversion turn negative.\<close>

theorem statfsBlockBytes_saturates: "statfsBlockBytes blocks blockSize = min (uint blocks * uint blockSize) max_int64"
proof -
  let ?b = "uint blocks" let ?s = "uint blockSize"
  consider "blocks = 0 \<or> blockSize = 0" | "0 < ?b" "0 < ?s" "?s > max_int64 \<or> ?b > max_int64 div ?s"
    | "0 < ?b" "0 < ?s" "?s \<le> max_int64" "?b \<le> max_int64 div ?s"
    by (metis not_less uint_0_iff unsigned_greater_eq order_le_less)
  then show ?thesis
  proof cases
    case 1
    then show ?thesis by (auto simp: statfsBlockBytes_def)
  next
    case 2
    have "max_int64 < ?b * ?s"
    proof (cases "?s > max_int64")
      case True
      with 2 mult_mono [of 1 ?b "max_int64 + 1" ?s] show ?thesis by simp
    next
      case False
      with 2 have "max_int64 div ?s + 1 \<le> ?b" by simp
      with 2(2) have "(max_int64 div ?s + 1) * ?s \<le> ?b * ?s" by (intro mult_right_mono) auto
      moreover have "max_int64 < (max_int64 div ?s + 1) * ?s" using 2(2) by (rule div_bound)
      ultimately show ?thesis by simp
    qed
    moreover have "blocks \<noteq> 0" "blockSize \<noteq> 0" using 2 by auto
    ultimately show ?thesis using 2 by (auto simp: statfsBlockBytes_def word_less_def uint_div)
  next
    case 3
    then have "?b * ?s \<le> (max_int64 div ?s) * ?s" by (intro mult_right_mono) auto
    also have "\<dots> \<le> max_int64" using 3(2) by (rule div_bound)
    finally have le: "?b * ?s \<le> max_int64" .
    then have u: "uint (blocks * blockSize) = ?b * ?s"
      using 3 by (simp add: uint_word_ariths mod_pos_pos_trivial)
    moreover have "sint (blocks * blockSize) = uint (blocks * blockSize)"
      unfolding sint_uint by (rule signed_take_bit_int_eq_self) (use u le mult_pos_pos [OF 3(1,2)] in simp_all)
    moreover have "\<not> (blockSize > 0x7FFFFFFFFFFFFFFF \<or> blocks > 0x7FFFFFFFFFFFFFFF div blockSize)"
      using 3 by (auto simp: word_less_def uint_div)
    moreover have "blocks \<noteq> 0" "blockSize \<noteq> 0" using 3 by auto
    ultimately show ?thesis using le by (auto simp: statfsBlockBytes_def)
  qed
qed

text \<open>The escapes the kernel writes in a mount table.\<close>

definition escapeMountField :: "string \<Rightarrow> string" where
  "escapeMountField s =
     concat (map (\<lambda>c. if c = CHR '' '' then BSLASH # ''040'' else if c = CHR 0x09 then BSLASH # ''011''
       else if c = NL then BSLASH # ''012'' else if c = BSLASH then BSLASH # ''134'' else [c]) s)"

lemma unescape_plain: "c \<noteq> BSLASH \<Longrightarrow> unescapeMountField (c # s) = c # unescapeMountField s"
  by (cases s; cases "tl s"; cases "tl (tl s)") auto

text \<open>A device or path of a mount table is recovered from its escaped form, whatever spaces, tabs, line
  ends and backslashes it holds.\<close>

lemma unescapeMountField_roundtrip: "unescapeMountField (escapeMountField s) = s"
  by (induction s) (auto simp: escapeMountField_def unescape_plain)

end
