(* ===== verification/Packages.thy ===== *)
theory Packages
  imports Disks
begin

text \<open>
  The package databases of \<open>internal/engine/packages.go\<close>, \<open>packages_bsd.go\<close>, \<open>packages_extra.go\<close> and
  \<open>packages_win.go\<close>: one reader per source over what the host's files and commands answer, the record
  each installed package gives and the order records are reported in. A record is a Go map;
  a reader gives its records in the reported order.
\<close>

section \<open>Text helpers\<close>

text \<open>\<open>strings.Lines\<close>: the lines of a text with their newlines, the last one possibly without.\<close>

definition string_lines :: "string \<Rightarrow> string list" where
  "string_lines s =
     (let ls = split_on NL s
      in map (\<lambda>l. l @ [NL]) (butlast ls) @ (if last ls = [] then [] else [last ls]))"

text \<open>\<open>strings.SplitN\<close> at a character: at most n parts, the last one holding the rest.\<close>

definition split_n :: "char \<Rightarrow> nat \<Rightarrow> string \<Rightarrow> string list" where
  "split_n c n s =
     (let ps = split_on c s in if length ps \<le> n then ps else take (n - 1) ps @ [join [c] (drop (n - 1) ps)])"

text \<open>\<open>strings.Split\<close> at a non-empty text.\<close>

function split_text :: "string \<Rightarrow> string \<Rightarrow> string list" where
  "split_text sep s =
     (if sep = [] then [s]
      else case cut s sep of None \<Rightarrow> [s] | Some (a, rest) \<Rightarrow> a # split_text sep rest)"
  by pat_completeness auto

termination
proof (relation "measure (\<lambda>(sep, s). length s)")
  fix sep s :: string and x a rest
  assume "sep \<noteq> []" "cut s sep = Some x" "(a, rest) = x"
  then show "((sep, rest), sep, s) \<in> measure (\<lambda>(sep, s). length s)"
    by (cases s; cases sep) (auto simp: cut_def split: option.splits)
qed simp

declare split_text.simps [simp del]

text \<open>\<open>strings.CutSuffix\<close> and \<open>path.Dir\<close>.\<close>

definition cut_suffix :: "string \<Rightarrow> string \<Rightarrow> string option" where
  "cut_suffix s p = (if suffix p s then Some (take (length s - length p) s) else None)"

definition path_dir :: "string \<Rightarrow> string" where
  "path_dir p = path_clean (case last_index SLASH p of None \<Rightarrow> [] | Some i \<Rightarrow> take (Suc i) p)"

section \<open>Records and their order\<close>

type_synonym package = "gval gomap"

definition packageRecord :: "string \<Rightarrow> string \<Rightarrow> (string \<times> string) list \<Rightarrow> package" where
  "packageRecord name version kv =
     foldl (\<lambda>record (k, v). if v \<noteq> [] then mput k (GStr v) record else record)
       [(''name'', GStr name), (''version'', GStr version)] kv"

definition packageField :: "package \<Rightarrow> string \<Rightarrow> string" where
  "packageField record key = (case mget record key of Some (GStr v) \<Rightarrow> v | _ \<Rightarrow> [])"

definition packageKeys :: "string list" where
  "packageKeys = [''name'', ''architecture'', ''version'', ''type'', ''branch'', ''prefix'', ''product_code'',
     ''bundle_id'', ''store_path'', ''path'']"

text \<open>The less function of the sort: the first field the two differ in decides.\<close>

fun firstDifference :: "string list \<Rightarrow> package \<Rightarrow> package \<Rightarrow> bool" where
  "firstDifference [] a b = False"
| "firstDifference (key # keys) a b =
     (let av = packageField a key; bv = packageField b key
      in if av \<noteq> bv then av < bv else firstDifference keys a b)"

definition packageLess :: "package \<Rightarrow> package \<Rightarrow> bool" where
  "packageLess = firstDifference packageKeys"

text \<open>\<open>sort.SliceStable\<close> over a less function: a record moves left past the records it is less than only.\<close>

fun insertStable :: "('a \<Rightarrow> 'a \<Rightarrow> bool) \<Rightarrow> 'a \<Rightarrow> 'a list \<Rightarrow> 'a list" where
  "insertStable lt x [] = [x]"
| "insertStable lt x (y # ys) = (if lt y x then y # insertStable lt x ys else x # y # ys)"

definition sliceStable :: "('a \<Rightarrow> 'a \<Rightarrow> bool) \<Rightarrow> 'a list \<Rightarrow> 'a list" where
  "sliceStable lt xs = foldr (insertStable lt) xs []"

definition sortPackages :: "package list \<Rightarrow> package list" where
  "sortPackages records = sliceStable packageLess records"

section \<open>Linux\<close>

text \<open>The fields of a stanza; of a repeated field the last line counts.\<close>

definition stanzaFields :: "string \<Rightarrow> string \<Rightarrow> string gomap" where
  "stanzaFields sep stanza =
     foldl (\<lambda>m line. case cut (trim_right line [NL]) sep of None \<Rightarrow> m | Some (k, v) \<Rightarrow> mput k v m) [] (string_lines stanza)"

definition dpkgInstalled :: "string \<Rightarrow> bool" where
  "dpkgInstalled status =
     (case string_fields status of
        [a, b, c] \<Rightarrow> c \<in> set [''installed'', ''triggers-awaited'', ''triggers-pending'']
      | _ \<Rightarrow> False)"

definition dpkgStanza :: "string \<Rightarrow> package option" where
  "dpkgStanza stanza =
     (let m = stanzaFields '': '' stanza; name = sget m ''Package''; version = sget m ''Version''
      in if name = [] \<or> version = [] \<or> \<not> dpkgInstalled (sget m ''Status'') then None
         else Some (packageRecord name version [(''architecture'', sget m ''Architecture'')]))"

definition dpkgPackages :: "hostOS \<Rightarrow> package list" where
  "dpkgPackages h =
     (case ho_readFile h ''/var/lib/dpkg/status'' of Inl e \<Rightarrow> []
      | Inr data \<Rightarrow> sortPackages (List.map_filter dpkgStanza (split_text [NL, NL] data)))"

definition rpmLine :: "string \<Rightarrow> package option" where
  "rpmLine line =
     (case split_n (CHR ''|'') 3 (trim_space line) of
        [name, evr, arch] \<Rightarrow>
          if name = [] \<or> name = ''gpg-pubkey'' then None
          else Some (packageRecord name (trim_prefix evr ''(none):'')
                 [(''architecture'', if arch = ''(none)'' then [] else arch)])
      | _ \<Rightarrow> None)"

definition rpmPackages :: "hostOS \<Rightarrow> package list" where
  "rpmPackages h =
     sortPackages (List.map_filter rpmLine (string_lines
       (ho_run h ''rpm'' [''-qa'', ''--qf'', ''%{NAME}|%{EPOCH}:%{VERSION}-%{RELEASE}|%{ARCH}'' @ [NL]])))"

definition rpmDatabasePresent :: "hostOS \<Rightarrow> bool" where
  "rpmDatabasePresent h = list_ex (dirExists h) [''/var/lib/rpm'', ''/usr/lib/sysimage/rpm'']"

definition apkStanza :: "string \<Rightarrow> package option" where
  "apkStanza stanza =
     (let m = stanzaFields '':'' stanza; name = sget m ''P''; version = sget m ''V''
      in if name = [] \<or> version = [] then None
         else Some (packageRecord name version [(''architecture'', sget m ''A'')]))"

definition apkPackages :: "hostOS \<Rightarrow> package list" where
  "apkPackages h =
     (case ho_readFile h ''/lib/apk/db/installed'' of Inl e \<Rightarrow> []
      | Inr data \<Rightarrow> sortPackages (List.map_filter apkStanza (split_text [NL, NL] data)))"

text \<open>The line after a section's header is its value, whatever it is.\<close>

fun pacmanDescLines :: "string \<times> string \<times> string \<Rightarrow> string list \<Rightarrow> string \<times> string \<times> string" where
  "pacmanDescLines (name, version, arch) (line # value # rest) =
     (let header = trim_space line; v = trim_space value
      in pacmanDescLines
           (if header = ''%NAME%'' then (v, version, arch)
            else if header = ''%VERSION%'' then (name, v, arch)
            else if header = ''%ARCH%'' then (name, version, v)
            else (name, version, arch)) (value # rest))"
| "pacmanDescLines found _ = found"

definition parsePacmanDesc :: "string \<Rightarrow> string \<times> string \<times> string" where
  "parsePacmanDesc input = pacmanDescLines ([], [], []) (split_on NL input)"

definition pacmanEntry :: "hostOS \<Rightarrow> string \<Rightarrow> package option" where
  "pacmanEntry h path =
     (case ho_readFile h path of Inl e \<Rightarrow> None
      | Inr data \<Rightarrow>
          (let (name, version, arch) = parsePacmanDesc data
           in if name = [] \<or> version = [] then None else Some (packageRecord name version [(''architecture'', arch)])))"

definition pacmanPackages :: "hostOS \<Rightarrow> package list" where
  "pacmanPackages h =
     (case ho_glob h ''/var/lib/pacman/local/*/desc'' of Inl e \<Rightarrow> []
      | Inr paths \<Rightarrow> sortPackages (List.map_filter (pacmanEntry h) paths))"

section \<open>The BSDs and illumos\<close>

definition pkgngLine :: "string \<Rightarrow> package option" where
  "pkgngLine line =
     (case split_n (CHR ''|'') 3 (trim_space line) of
        [name, version, abi] \<Rightarrow>
          if name = [] \<or> version = [] then None else Some (packageRecord name version [(''architecture'', abi)])
      | _ \<Rightarrow> None)"

definition pkgngPackages :: "hostOS \<Rightarrow> package list" where
  "pkgngPackages h =
     sortPackages (List.map_filter pkgngLine
       (string_lines (ho_run h ''/usr/local/sbin/pkg'' [''query'', ''-a'', ''%n|%v|%q''])))"

text \<open>The index of the last part, after the first, that begins with a digit.\<close>

definition begins_digit :: "string \<Rightarrow> bool" where
  "begins_digit token = (case token of [] \<Rightarrow> False | c # _ \<Rightarrow> is_digit c)"

definition splitBSDPackageName :: "string \<Rightarrow> string \<times> string" where
  "splitBSDPackageName dir =
     (let parts = split_on (CHR ''-'') dir
      in case find (\<lambda>i. begins_digit (parts ! i)) (rev [1..<length parts]) of
           None \<Rightarrow> ([], [])
         | Some i \<Rightarrow> (join ''-'' (take i parts), parts ! i))"

fun contentsArch :: "string list \<Rightarrow> string" where
  "contentsArch [] = []"
| "contentsArch (line # rest) =
     (case cut_prefix (trim_right line [NL]) ''@arch '' of
        None \<Rightarrow> contentsArch rest
      | Some r \<Rightarrow> let arch = trim_space r in if arch \<noteq> ''*'' then arch else [])"

definition bsdContentsArch :: "hostOS \<Rightarrow> string \<Rightarrow> string" where
  "bsdContentsArch h path = (case ho_readFile h path of Inl e \<Rightarrow> [] | Inr data \<Rightarrow> contentsArch (string_lines data))"

definition openbsdEntry :: "hostOS \<Rightarrow> string \<times> bool \<Rightarrow> package option" where
  "openbsdEntry h entry =
     (let (name, version) = splitBSDPackageName (fst entry)
      in if \<not> snd entry \<or> name = [] \<or> version = [] then None
         else Some (packageRecord name version
           [(''architecture'', bsdContentsArch h (''/var/db/pkg/'' @ fst entry @ ''/+CONTENTS''))]))"

definition openbsdPackages :: "hostOS \<Rightarrow> package list" where
  "openbsdPackages h =
     (case ho_readDir h ''/var/db/pkg'' of Inl e \<Rightarrow> []
      | Inr entries \<Rightarrow> sortPackages (List.map_filter (openbsdEntry h) entries))"

definition pkgsrcEntry :: "string \<times> bool \<Rightarrow> package option" where
  "pkgsrcEntry entry =
     (let (name, version) = splitBSDPackageName (fst entry)
      in if \<not> snd entry \<or> name = [] \<or> version = [] then None else Some (packageRecord name version []))"

text \<open>The first database directory that lists any package is the one that counts.\<close>

fun pkgsrcFrom :: "hostOS \<Rightarrow> string list \<Rightarrow> package list" where
  "pkgsrcFrom h [] = []"
| "pkgsrcFrom h (dbdir # rest) =
     (case ho_readDir h dbdir of Inl e \<Rightarrow> pkgsrcFrom h rest
      | Inr entries \<Rightarrow>
          (let records = List.map_filter pkgsrcEntry entries
           in if records \<noteq> [] then sortPackages records else pkgsrcFrom h rest))"

definition pkgsrcPackages :: "hostOS \<Rightarrow> package list" where
  "pkgsrcPackages h = pkgsrcFrom h [''/usr/pkg/pkgdb'', ''/opt/local/pkgdb'', ''/opt/local/pkg'', ''/var/db/pkg'']"

definition ipsLine :: "string \<Rightarrow> package option" where
  "ipsLine line =
     (case string_fields line of
        name # f # more_fields \<Rightarrow>
          (let rest = (if has_prefix f ''('' then more_fields else f # more_fields)
           in case rest of [] \<Rightarrow> None
              | version # _ \<Rightarrow> if name = [] \<or> version = [] then None else Some (packageRecord name version []))
      | _ \<Rightarrow> None)"

definition ipsPackages :: "hostOS \<Rightarrow> package list" where
  "ipsPackages h = sortPackages (List.map_filter ipsLine (string_lines (ho_run h ''pkg'' [''list'', ''-H''])))"

section \<open>Snap, Flatpak and Nix\<close>

text \<open>The rows count from the header on; rows of fewer than two columns never do.\<close>

definition snapRows :: "string list \<Rightarrow> package list" where
  "snapRows ls =
     (let rows = filter (\<lambda>fs. length fs \<ge> 2) (map string_fields ls)
      in map (\<lambda>fs. packageRecord (fs ! 0) (fs ! 1) [])
           (tl (dropWhile (\<lambda>fs. \<not> (fs ! 0 = ''Name'' \<and> fs ! 1 = ''Version'')) rows)))"

definition snapPackages :: "hostOS \<Rightarrow> package list" where
  "snapPackages h = sortPackages (snapRows (string_lines (ho_run h ''snap'' [''list''])))"

definition flatpakLine :: "string \<Rightarrow> package option" where
  "flatpakLine line =
     (let columns = map trim_space (split_on (CHR 0x09) (trim_right line [NL]));
          column = (\<lambda>i. if i < length columns then columns ! i else [])
      in if length columns < 2 \<or> column 0 = [] \<or> column 1 = [] then None
         else Some (packageRecord (column 0) (column 1) [(''architecture'', column 2), (''branch'', column 3)]))"

definition flatpakPackages :: "hostOS \<Rightarrow> package list" where
  "flatpakPackages h =
     sortPackages (List.map_filter flatpakLine
       (string_lines (ho_run h ''flatpak'' [''list'', ''--columns=application,version,arch,branch''])))"

definition nixOutputs :: "string list" where
  "nixOutputs = [''out'', ''bin'', ''dev'', ''lib'', ''doc'', ''man'', ''info'', ''devdoc'', ''devman'', ''static'',
     ''dist'', ''debug'', ''terminfo'']"

definition parseNixNameVersion :: "string \<Rightarrow> string \<times> string" where
  "parseNixNameVersion tail =
     (let parts = split_on (CHR ''-'') tail
      in case find (\<lambda>i. begins_digit (parts ! i)) [1..<length parts] of
           None \<Rightarrow> ([], [])
         | Some b \<Rightarrow>
             (let ver = drop b parts; ver' = (if length ver > 1 \<and> last ver \<in> set nixOutputs then butlast ver else ver)
              in (join ''-'' (take b parts), join ''-'' ver')))"

definition lastHyphenComponent :: "string \<Rightarrow> string" where
  "lastHyphenComponent v = (case last_index (CHR ''-'') v of None \<Rightarrow> [] | Some i \<Rightarrow> drop (Suc i) v)"

definition digitless :: "string \<Rightarrow> bool" where
  "digitless v \<longleftrightarrow> v \<noteq> [] \<and> list_all (\<lambda>c. \<not> is_digit c) v"

definition nixLine :: "bool \<Rightarrow> string \<Rightarrow> (string \<times> string) option" where
  "nixLine storePaths raw =
     (let line = trim_space raw;
          base = (case last_index SLASH line of None \<Rightarrow> line | Some i \<Rightarrow> drop (Suc i) line)
      in if line = [] then None
         else case (if storePaths then map_option snd (cut base ''-'') else Some line) of
                None \<Rightarrow> None
              | Some tail \<Rightarrow>
                  (let (name, version) = parseNixNameVersion tail
                   in if name = [] \<or> version = [] then None else Some (name, version)))"

text \<open>Of the records with equal keys the first is kept; the keys are the seen set.\<close>

fun firstBy :: "('a \<Rightarrow> string) \<Rightarrow> string list \<Rightarrow> 'a list \<Rightarrow> 'a list" where
  "firstBy key seen [] = []"
| "firstBy key seen (x # xs) =
     (if key x \<in> set seen then firstBy key seen xs else x # firstBy key (key x # seen) xs)"

definition nixKey :: "string \<times> string \<Rightarrow> string" where
  "nixKey nv = fst nv @ NUL # snd nv"

definition customOutput :: "string list \<Rightarrow> string \<times> string \<Rightarrow> bool" where
  "customOutput seen nv =
     (let output = lastHyphenComponent (snd nv)
      in case cut_suffix (snd nv) (CHR ''-'' # output) of
           None \<Rightarrow> False
         | Some base \<Rightarrow> base \<noteq> [] \<and> digitless output \<and> nixKey (fst nv, base) \<in> set seen)"

definition collapseNixCustomOutputs :: "(string \<times> string) list \<Rightarrow> string list \<Rightarrow> (string \<times> string) list" where
  "collapseNixCustomOutputs records seen = filter (\<lambda>nv. \<not> customOutput seen nv) records"

definition nixRecordsFromLines :: "string \<Rightarrow> bool \<Rightarrow> package list" where
  "nixRecordsFromLines out storePaths =
     (let found = firstBy nixKey [] (List.map_filter (nixLine storePaths) (string_lines out))
      in sortPackages (map (\<lambda>(name, version). packageRecord name version []) (collapseNixCustomOutputs found (map nixKey found))))"

definition nixPackages :: "hostOS \<Rightarrow> package list" where
  "nixPackages h =
     (let references = [''-q'', ''--references'', ''/run/current-system/sw''];
          system = nixRecordsFromLines (ho_run h ''/run/current-system/sw/bin/nix-store'' references) True;
          daemon = nixRecordsFromLines (ho_run h ''/nix/var/nix/profiles/default/bin/nix-store'' references) True
      in if system \<noteq> [] then system
         else if daemon \<noteq> [] then daemon
         else nixRecordsFromLines (ho_run h ''/nix/var/nix/profiles/default/bin/nix-env''
                [''-q'', ''--profile'', ''/nix/var/nix/profiles/default'']) False)"

definition snapdPresent :: "hostOS \<Rightarrow> bool" where "snapdPresent h = dirExists h ''/var/lib/snapd''"
definition flatpakPresent :: "hostOS \<Rightarrow> bool" where "flatpakPresent h = dirExists h ''/var/lib/flatpak''"

definition nixProfilePresent :: "hostOS \<Rightarrow> bool" where
  "nixProfilePresent h \<longleftrightarrow> dirExists h ''/nix/var/nix/profiles/system'' \<or> dirExists h ''/nix/var/nix/profiles/default''"

section \<open>Windows\<close>

text \<open>One hive's part of the registry script: the rows of its uninstall keys under an architecture label.\<close>

definition registryHive :: "string list \<Rightarrow> string \<Rightarrow> string" where
  "registryHive key label =
     (let sep = ''$([char]31)''
      in ''Get-ItemProperty '' @ squoted (join [BSLASH] (''HKLM:'' # key @
           [''Microsoft'', ''Windows'', ''CurrentVersion'', ''Uninstall'', ''*''])) @
         ''|Where-Object DisplayName|ForEach-Object{'' @
         go_quote (join sep [label, ''$($_.PSChildName)'', ''$($_.DisplayVersion)'', ''$($_.SystemComponent)'', ''$($_.DisplayName)'']) @
         ''};'')"

definition scriptPrologue :: string where
  "scriptPrologue = ''[Console]::OutputEncoding=[Text.Encoding]::UTF8;'' @
     ''$ErrorActionPreference='' @ squoted ''SilentlyContinue'' @ '';''"

definition registryPackagesScript :: string where
  "registryPackagesScript =
     scriptPrologue @
     ''$na=@'' @ ''{'' @ join '';'' (map (\<lambda>(k, v). squoted k @ ''='' @ squoted v)
       [(''AMD64'', ''x64''), (''ARM64'', ''arm64''), (''X86'', ''x86'')]) @
     ''}[$env:PROCESSOR_ARCHITECTURE];if(-not $na){$na='' @ go_quote ''$env:PROCESSOR_ARCHITECTURE'' @ ''.ToLower()};'' @
     registryHive [''SOFTWARE''] ''$na'' @ registryHive [''SOFTWARE'', ''WOW6432Node''] ''x86'' @
     ''exit 0''"

definition msiDigit :: "char \<Rightarrow> bool" where
  "msiDigit c \<longleftrightarrow> is_digit c \<or> (97 \<le> code_of c \<and> code_of c \<le> 102) \<or> (65 \<le> code_of c \<and> code_of c \<le> 70)"

definition msiProductCode :: "string \<Rightarrow> string" where
  "msiProductCode name =
     (if length name \<noteq> 38 \<or> name ! 0 \<noteq> CHR ''{'' \<or> name ! 37 \<noteq> CHR ''}'' then []
      else if list_all (\<lambda>i. if i \<in> set [9, 14, 19, 24] then name ! i = CHR ''-'' else msiDigit (name ! i)) [1..<37]
      then name else [])"

definition registryLine :: "string \<Rightarrow> package option" where
  "registryLine line =
     (case split_n (CHR 0x1F) 5 (trim_right line [CHR 0x0D, NL]) of
        [arch, subkey, version, systemComponent, name] \<Rightarrow>
          if name = [] \<or> version = [] \<or> systemComponent = ''1'' then None
          else Some (packageRecord name version [(''product_code'', msiProductCode subkey), (''architecture'', arch)])
      | _ \<Rightarrow> None)"

definition registryPackages :: "hostOS \<Rightarrow> package list" where
  "registryPackages h =
     sortPackages (List.map_filter registryLine (string_lines
       (ho_run h ''powershell'' [''-NoProfile'', ''-NonInteractive'', ''-Command'', registryPackagesScript])))"

definition appxPackagesScript :: string where
  "appxPackagesScript =
     (let row = (\<lambda>name. ''|ForEach-Object{'' @ go_quote (join ''|'' [name, ''$($_.Version)'', ''$($_.Architecture)'']) @ ''};'')
      in scriptPrologue @ ''Get-AppxProvisionedPackage -Online'' @ row ''$($_.DisplayName)'' @
         ''Get-AppxPackage'' @ row ''$($_.Name)'' @ ''exit 0'')"

definition appxArchLabel :: "string \<Rightarrow> string" where
  "appxArchLabel raw =
     (let arch = to_lower raw
      in case mget [(''0'', ''x86''), (''5'', ''arm''), (''9'', ''x64''), (''11'', ''neutral''), (''12'', ''arm64'')] arch of
           Some label \<Rightarrow> label
         | None \<Rightarrow> arch)"

definition appxLine :: "string \<Rightarrow> (string \<times> string \<times> string) option" where
  "appxLine line =
     (case split_n (CHR ''|'') 3 (trim_right line [CHR 0x0D, NL]) of
        [name, version, arch] \<Rightarrow> if name = [] \<or> version = [] then None else Some (name, version, appxArchLabel arch)
      | _ \<Rightarrow> None)"

definition appxKey :: "string \<times> string \<times> string \<Rightarrow> string" where
  "appxKey nva = (case nva of (name, version, arch) \<Rightarrow> join ''|'' [name, version, arch])"

definition appxPackages :: "hostOS \<Rightarrow> package list" where
  "appxPackages h =
     (let out = ho_run h ''powershell'' [''-NoProfile'', ''-NonInteractive'', ''-Command'', appxPackagesScript]
      in sortPackages (map (\<lambda>(name, version, arch). packageRecord name version [(''architecture'', arch)])
           (firstBy appxKey [] (List.map_filter appxLine (string_lines out)))))"

section \<open>Properties\<close>

subsection \<open>The order of records\<close>

definition packageKey :: "package \<Rightarrow> string list" where
  "packageKey record = map (packageField record) packageKeys"

lemma firstDifference_less:
  "firstDifference keys a b \<longleftrightarrow> map (packageField a) keys < map (packageField b) keys"
  by (induction keys) (auto simp: Let_def)

lemma packageLess_key: "packageLess a b \<longleftrightarrow> packageKey a < packageKey b"
  by (simp add: packageLess_def packageKey_def firstDifference_less)

lemma insertStable_insort: "insertStable packageLess x ys = insort_key packageKey x ys"
  by (induction ys) (auto simp: packageLess_key not_less)

lemma sortPackages_sort: "sortPackages rs = sort_key packageKey rs"
proof -
  have "foldr (insertStable packageLess) rs [] = foldr (insort_key packageKey) rs []"
    by (induction rs) (simp_all add: insertStable_insort)
  then show ?thesis by (simp add: sortPackages_def sliceStable_def sort_key_def)
qed

text \<open>Sorting records rearranges them, leaves none before one that is less, and keeps records
  that agree in every identity field in the order they were read.\<close>

lemma sortPackages_stable:
  "mset (sortPackages rs) = mset rs \<and> sorted_wrt (\<lambda>a b. \<not> packageLess b a) (sortPackages rs) \<and>
   filter (\<lambda>r. packageKey r = k) (sortPackages rs) = filter (\<lambda>r. packageKey r = k) rs"
proof (intro conjI)
  have "sorted (map packageKey (sortPackages rs))" by (simp add: sortPackages_sort)
  then show "sorted_wrt (\<lambda>a b. \<not> packageLess b a) (sortPackages rs)"
    by (simp add: sorted_map packageLess_key not_less)
qed (simp_all add: sortPackages_sort stable_sort_key_sort_key[unfolded stable_sort_key_def, rule_format])

lemma set_sortPackages [simp]: "set (sortPackages rs) = set rs" "sortPackages rs = [] \<longleftrightarrow> rs = []"
  by (auto simp: sortPackages_sort simp flip: set_empty)

subsection \<open>Package directory names\<close>

lemma last_digit_index:
  assumes "begins_digit v" "\<not> list_ex begins_digit flavors" "ns \<noteq> []"
  shows "find (\<lambda>i. begins_digit ((ns @ v # flavors) ! i)) (rev [1..<length (ns @ v # flavors)]) = Some (length ns)"
  using assms(2)
proof (induction flavors rule: rev_induct)
  case Nil
  then show ?case using assms by (cases ns) (auto simp: nth_append)
next
  case (snoc f flavors)
  have "[1..<length (ns @ v # flavors @ [f])] = [1..<length (ns @ v # flavors)] @ [length (ns @ v # flavors)]"
    using assms(3) by (cases ns) auto
  moreover have "find (\<lambda>i. begins_digit ((ns @ v # flavors @ [f]) ! i)) (rev [1..<length (ns @ v # flavors)]) =
      find (\<lambda>i. begins_digit ((ns @ v # flavors) ! i)) (rev [1..<length (ns @ v # flavors)])"
    by (rule find_cong) (auto simp: nth_append nth_Cons split: nat.split)
  ultimately show ?case using snoc by (simp add: nth_append)
qed

lemma splitBSDPackageName_roundtrip:
  assumes "list_all (\<lambda>p. CHR ''-'' \<notin> set p) (ns @ v # flavors)"
    and "ns \<noteq> []" "begins_digit v" "\<not> list_ex begins_digit flavors"
  shows "splitBSDPackageName (join ''-'' (ns @ v # flavors)) = (join ''-'' ns, v)"
  using split_on_join [of "ns @ v # flavors" "CHR ''-''"] last_digit_index [OF assms(3,4,2)] assms(1)
  by (simp add: splitBSDPackageName_def list_all_iff Let_def)

lemma splitBSDPackageName_roundtrip_witness:
  "splitBSDPackageName (join ''-'' ([''gcc'', ''11''] @ ''11.2.0'' # [''no_x11''])) = (''gcc-11'', ''11.2.0'')"
  using splitBSDPackageName_roundtrip [of "[''gcc'', ''11'']" "''11.2.0''" "[''no_x11'']"]
  by (simp add: begins_digit_def is_digit_def)

end
