(* ===== verification/Packages_Mac.thy ===== *)
theory Packages_Mac
  imports Packages
begin

text \<open>
  \<open>internal/engine/packages_mac.go\<close> and the packages fact of \<open>packages.go\<close>: property lists printed by
  \<open>plutil -p\<close>, the batches they are asked for in and how a batch that fails is bisected, receipts,
  application bundles, Homebrew, and the fact that holds every source.
\<close>

section \<open>The blocks plutil prints\<close>

definition endsWithUnescapedQuote :: "string \<Rightarrow> bool" where
  "endsWithUnescapedQuote s \<longleftrightarrow>
     has_suffix s [DQUOTE] \<and> even (length (takeWhile (\<lambda>c. c = BSLASH) (tl (rev s))))"

definition stringRemainsOpen :: "string \<Rightarrow> bool" where
  "stringRemainsOpen rawValue =
     (case rawValue of [] \<Rightarrow> False | c # rest \<Rightarrow> c = DQUOTE \<and> \<not> endsWithUnescapedQuote rest)"

definition unquotePlutil :: "string \<Rightarrow> string" where
  "unquotePlutil text =
     (let s = trim_space text
      in if length s \<ge> 2 \<and> hd s = DQUOTE \<and> last s = DQUOTE then butlast (tl s)
         else if has_prefix s [DQUOTE] then tl s
         else s)"

definition plutilKeyValue :: "string \<Rightarrow> (string \<times> string) option" where
  "plutilKeyValue line =
     map_option (\<lambda>(rawKey, rawValue). (unquotePlutil rawKey, unquotePlutil rawValue)) (cut line '' => '')"

text \<open>The parser's variables: the open block's keys (nil outside a block), the depth, whether the root is an
  array, whether a string value is open, and the blocks handed to the callback.\<close>

record plutilState =
  pl_fields :: "string gomap option"
  pl_depth :: nat
  pl_rootIsArray :: bool
  pl_inString :: bool
  pl_blocks :: "string gomap list"

definition plutilStart :: plutilState where
  "plutilStart = \<lparr>pl_fields = None, pl_depth = 0, pl_rootIsArray = False, pl_inString = False, pl_blocks = []\<rparr>"

definition openBlock :: "bool \<Rightarrow> plutilState \<Rightarrow> plutilState" where
  "openBlock array s =
     (let s' = (if pl_depth s = 0 then s\<lparr>pl_fields := Some [], pl_rootIsArray := array\<rparr> else s)
      in s'\<lparr>pl_depth := pl_depth s' + 1\<rparr>)"

definition closeBlock :: "plutilState \<Rightarrow> plutilState" where
  "closeBlock s =
     (let s' = s\<lparr>pl_depth := pl_depth s - 1\<rparr>
      in case pl_fields s' of
           Some fields' \<Rightarrow>
             if pl_depth s' = 0 then s'\<lparr>pl_blocks := pl_blocks s' @ [fields'], pl_fields := None\<rparr> else s'
         | None \<Rightarrow> s')"

definition plutilScalar :: "string \<Rightarrow> plutilState \<Rightarrow> plutilState" where
  "plutilScalar trimmed s =
     (let s' = (if pl_depth s = 1 \<and> \<not> pl_rootIsArray s
                then case plutilKeyValue trimmed of
                       Some (k, v) \<Rightarrow> s\<lparr>pl_fields := map_option (mput k v) (pl_fields s)\<rparr>
                     | None \<Rightarrow> s
                else s)
      in case cut trimmed '' => '' of
           Some (_, rawValue) \<Rightarrow> if stringRemainsOpen rawValue then s'\<lparr>pl_inString := True\<rparr> else s'
         | None \<Rightarrow> s')"

definition plutilLine :: "plutilState \<Rightarrow> string \<Rightarrow> plutilState" where
  "plutilLine s line =
     (if pl_inString s
      then if endsWithUnescapedQuote (trim_right line [CHR 0x0D, NL]) then s\<lparr>pl_inString := False\<rparr> else s
      else let trimmed = trim_space line
           in if trimmed = ''{'' then openBlock False s
              else if trimmed = ''['' then openBlock True s
              else if trimmed = ''}'' \<or> trimmed = '']'' then closeBlock s
              else if pl_depth s = 0
              then if trimmed \<noteq> [] then s\<lparr>pl_blocks := pl_blocks s @ [[]]\<rparr> else s
              else if has_suffix trimmed '' => {'' \<or> has_suffix trimmed '' => [''
              then s\<lparr>pl_depth := pl_depth s + 1\<rparr>
              else plutilScalar trimmed s)"

definition plutilRun :: "plutilState \<Rightarrow> string \<Rightarrow> plutilState" where
  "plutilRun s out = foldl plutilLine s (string_lines out)"

definition parsePlutilBlocks :: "string \<Rightarrow> string gomap list" where
  "parsePlutilBlocks out = pl_blocks (plutilRun plutilStart out)"

section \<open>Batches\<close>

definition plutilMaxBytes :: nat where "plutilMaxBytes = 120 * 1024"

fun argChunks :: "string list \<Rightarrow> nat \<Rightarrow> string list \<Rightarrow> string list list" where
  "argChunks chunk used [] = (if chunk \<noteq> [] then [chunk] else [])"
| "argChunks chunk used (p # paths) =
     (if chunk \<noteq> [] \<and> used + length p + 1 > plutilMaxBytes
      then chunk # argChunks [p] (length p + 1) paths
      else argChunks (chunk @ [p]) (used + length p + 1) paths)"

definition plutilArgChunks :: "string list \<Rightarrow> string list list" where
  "plutilArgChunks paths = argChunks [] 0 paths"

text \<open>The calls of the callback, in order: the paths of the invocation, the block's index, its keys.\<close>

type_synonym plutilCall = "string list \<times> nat \<times> string gomap"

function runPlutilChunk :: "(string \<Rightarrow> string list \<Rightarrow> string) \<Rightarrow> string list \<Rightarrow> plutilCall list" where
  "runPlutilChunk run chunk =
     (let out = run ''plutil'' (''-p'' # chunk);
          blocks = (if out \<noteq> [] then parsePlutilBlocks out else [])
      in if length blocks \<noteq> length chunk
         then if length chunk > 1
              then let mid = length chunk div 2
                   in runPlutilChunk run (take mid chunk) @ runPlutilChunk run (drop mid chunk)
              else []
         else map (\<lambda>(index, keys). (chunk, index, keys)) (enumerate 0 blocks))"
  by pat_completeness auto
termination by (relation "measure (\<lambda>(run, chunk). length chunk)") auto

declare runPlutilChunk.simps [simp del]

definition runPlutilChunks :: "(string \<Rightarrow> string list \<Rightarrow> string) \<Rightarrow> string list \<Rightarrow> plutilCall list" where
  "runPlutilChunks run paths = concat (map (runPlutilChunk run) (plutilArgChunks paths))"

section \<open>Receipts, applications and Homebrew\<close>

definition receiptRecord :: "plutilCall \<Rightarrow> package option" where
  "receiptRecord call =
     (let keys = snd (snd call); name = sget keys ''PackageIdentifier''; version = sget keys ''PackageVersion''
      in if name = [] \<or> version = [] then None else Some (packageRecord name version []))"

definition receiptsPackages :: "hostOS \<Rightarrow> package list" where
  "receiptsPackages h =
     (case ho_glob h ''/var/db/receipts/*.plist'' of Inl e \<Rightarrow> []
      | Inr paths \<Rightarrow>
          if paths = [] then [] else sortPackages (List.map_filter receiptRecord (runPlutilChunks (ho_run h) paths)))"

definition appBundlePath :: "string \<Rightarrow> string" where
  "appBundlePath infoPlist = path_dir (path_dir infoPlist)"

definition appBundleName :: "string \<Rightarrow> string" where
  "appBundleName appPath = trim_suffix (path_base appPath) ''.app''"

definition appRecord :: "plutilCall \<Rightarrow> package option" where
  "appRecord call =
     (case call of (chunkPaths, blockIndex, keys) \<Rightarrow>
        if blockIndex \<ge> length chunkPaths then None
        else let appPath = appBundlePath (chunkPaths ! blockIndex);
                 name = firstNonEmptyValue [sget keys ''CFBundleName'', sget keys ''CFBundleDisplayName'', appBundleName appPath];
                 version = firstNonEmptyValue [sget keys ''CFBundleShortVersionString'', sget keys ''CFBundleVersion'']
             in if name = [] \<or> version = [] then None
                else Some (packageRecord name version
                       [(''bundle_id'', sget keys ''CFBundleIdentifier''), (''path'', appPath)]))"

definition globAll :: "hostOS \<Rightarrow> string list \<Rightarrow> string list" where
  "globAll h patterns = concat (map (\<lambda>p. case ho_glob h p of Inl e \<Rightarrow> [] | Inr found \<Rightarrow> found) patterns)"

definition appPatterns :: "string list" where
  "appPatterns = map (\<lambda>dir. dir @ ''/*.app/Contents/Info.plist'')
     [''/Applications'', ''/Applications/Utilities'', ''/System/Applications'', ''/System/Applications/Utilities'']"

definition appsPackages :: "hostOS \<Rightarrow> package list" where
  "appsPackages h =
     (let paths = globAll h appPatterns
      in if paths = [] then [] else sortPackages (List.map_filter appRecord (runPlutilChunks (ho_run h) paths)))"

definition brewRecord :: "string \<Rightarrow> string \<Rightarrow> string \<Rightarrow> package option" where
  "brewRecord kind brew p =
     (let version = path_base p; name = path_base (path_dir p)
      in if name = [] \<or> version = [] \<or> has_prefix version ''.'' then None
         else Some (packageRecord name version [(''type'', kind), (''prefix'', brew)]))"

definition appendBrewRecords :: "package list \<Rightarrow> string list \<Rightarrow> string \<Rightarrow> string \<Rightarrow> package list" where
  "appendBrewRecords records paths kind brew = records @ List.map_filter (brewRecord kind brew) paths"

definition brewPrefix :: "hostOS \<Rightarrow> package list \<Rightarrow> string \<Rightarrow> package list" where
  "brewPrefix h records brew =
     appendBrewRecords (appendBrewRecords records (globAll h [brew @ ''/Cellar/*/*'']) ''formula'' brew)
       (globAll h [brew @ ''/Caskroom/*/*'']) ''cask'' brew"

definition homebrewPackages :: "hostOS \<Rightarrow> package list" where
  "homebrewPackages h = sortPackages (foldl (brewPrefix h) [] [''/opt/homebrew'', ''/usr/local''])"

section \<open>The packages fact\<close>

definition packageSources :: "hostOS \<Rightarrow> (string \<times> package list) list" where
  "packageSources h =
     (let goos = ho_goos h; gated = (\<lambda>present records. if present then records else [])
      in if goos = ''linux'' then
           [(''dpkg'', dpkgPackages h), (''rpm'', gated (rpmDatabasePresent h) (rpmPackages h)),
            (''pacman'', pacmanPackages h), (''apk'', apkPackages h),
            (''snap'', gated (snapdPresent h) (snapPackages h)),
            (''flatpak'', gated (flatpakPresent h) (flatpakPackages h)),
            (''nix'', gated (nixProfilePresent h) (nixPackages h))]
         else if goos = ''freebsd'' then [(''pkg'', pkgngPackages h)]
         else if goos = ''dragonfly'' then [(''pkg'', pkgngPackages h), (''pkgsrc'', pkgsrcPackages h)]
         else if goos = ''openbsd'' then [(''openbsd_pkg'', openbsdPackages h)]
         else if goos = ''netbsd'' then [(''pkgsrc'', pkgsrcPackages h)]
         else if goos = ''illumos'' then [(''ips'', ipsPackages h), (''pkgsrc'', pkgsrcPackages h)]
         else if goos = ''darwin'' then
           [(''receipts'', receiptsPackages h), (''apps'', appsPackages h), (''homebrew'', homebrewPackages h),
            (''nix'', gated (nixProfilePresent h) (nixPackages h))]
         else if goos = ''windows'' then [(''registry'', registryPackages h), (''appx'', appxPackages h)]
         else [])"

definition packagesCoreFacts :: "hostOS \<Rightarrow> ResolvedFact list" where
  "packagesCoreFacts h =
     (let sources = foldl (\<lambda>m (name, records). if records \<noteq> [] then mput name (GList (map GMap records)) m else m)
        [] (packageSources h)
      in if sources = [] then [] else [core_fact ''packages'' (GMap sources)])"

section \<open>Properties\<close>

text \<open>A printed block ends its last line and, parsed on its own, gives one set of keys and leaves the parser
  outside every block and string.\<close>

definition plutilAtRest :: "plutilState \<Rightarrow> bool" where
  "plutilAtRest s \<longleftrightarrow> pl_fields s = None \<and> pl_depth s = 0 \<and> \<not> pl_inString s"

definition plutilBlock :: "string \<Rightarrow> string gomap \<Rightarrow> bool" where
  "plutilBlock printed keys \<longleftrightarrow> has_suffix printed [NL] \<and>
     plutilAtRest (plutilRun plutilStart printed) \<and> parsePlutilBlocks printed = [keys]"

text \<open>Two states that differ in the blocks already given and, outside a block, in the kind of the last root.\<close>

definition ahead :: "string gomap list \<Rightarrow> plutilState \<Rightarrow> plutilState \<Rightarrow> bool" where
  "ahead bs s t \<longleftrightarrow> pl_blocks t = bs @ pl_blocks s \<and> pl_fields t = pl_fields s \<and> pl_depth t = pl_depth s \<and>
     pl_inString t = pl_inString s \<and> (pl_depth s = 0 \<or> pl_rootIsArray t = pl_rootIsArray s)"

lemma ahead_open: "ahead bs s t \<Longrightarrow> ahead bs (openBlock a s) (openBlock a t)"
  by (auto simp: ahead_def openBlock_def Let_def)

lemma ahead_close: "ahead bs s t \<Longrightarrow> ahead bs (closeBlock s) (closeBlock t)"
  by (auto simp: ahead_def closeBlock_def Let_def split: option.splits)

lemma ahead_scalar: "ahead bs s t \<Longrightarrow> ahead bs (plutilScalar x s) (plutilScalar x t)"
  by (auto simp: ahead_def plutilScalar_def Let_def split: option.splits)

lemma ahead_updates:
  assumes "ahead bs s t"
  shows "ahead bs (s\<lparr>pl_inString := False\<rparr>) (t\<lparr>pl_inString := False\<rparr>)"
    and "ahead bs (s\<lparr>pl_blocks := pl_blocks s @ [[]]\<rparr>) (t\<lparr>pl_blocks := pl_blocks t @ [[]]\<rparr>)"
    and "pl_depth s \<noteq> 0 \<Longrightarrow> ahead bs (s\<lparr>pl_depth := Suc (pl_depth s)\<rparr>) (t\<lparr>pl_depth := Suc (pl_depth t)\<rparr>)"
    and "pl_depth t = pl_depth s" "pl_inString t = pl_inString s"
  using assms by (auto simp: ahead_def)

lemma ahead_line:
  assumes "ahead bs s t"
  shows "ahead bs (plutilLine s l) (plutilLine t l)"
  using assms ahead_updates [OF assms]
  by (simp add: plutilLine_def Let_def ahead_open ahead_close ahead_scalar)

lemma ahead_lines: "ahead bs s t \<Longrightarrow> ahead bs (foldl plutilLine s ls) (foldl plutilLine t ls)"
  by (induction ls arbitrary: s t) (auto intro: ahead_line)

lemma string_lines_append: "has_suffix a [NL] \<Longrightarrow> string_lines (a @ b) = string_lines a @ string_lines b"
  by (auto simp: suffix_def string_lines_def Let_def split_on_append butlast_append)

lemma plutilRun_blocks:
  assumes "list_all (\<lambda>p. plutilBlock (printed p) (keys p)) ps" "plutilAtRest s"
  shows "plutilAtRest (plutilRun s (concat (map printed ps))) \<and>
         pl_blocks (plutilRun s (concat (map printed ps))) = pl_blocks s @ map keys ps"
  using assms
proof (induction ps arbitrary: s)
  case Nil
  then show ?case by (simp add: plutilRun_def string_lines_def)
next
  case (Cons p ps)
  let ?t = "plutilRun s (printed p)"
  have "ahead (pl_blocks s) plutilStart s"
    using Cons.prems(2) by (simp add: ahead_def plutilStart_def plutilAtRest_def)
  from ahead_lines [OF this, of "string_lines (printed p)"]
  have "plutilAtRest ?t" "pl_blocks ?t = pl_blocks s @ [keys p]"
    using Cons.prems(1) by (auto simp: ahead_def plutilAtRest_def plutilBlock_def parsePlutilBlocks_def plutilRun_def)
  moreover have "plutilRun s (concat (map printed (p # ps))) = plutilRun ?t (concat (map printed ps))"
    using Cons.prems(1) by (simp add: plutilRun_def string_lines_append plutilBlock_def)
  ultimately show ?case using Cons.IH [of ?t] Cons.prems(1) by simp
qed

lemma parsePlutilBlocks_concat:
  "list_all (\<lambda>p. plutilBlock (printed p) (keys p)) ps \<Longrightarrow>
   parsePlutilBlocks (concat (map printed ps)) = map keys ps"
  using plutilRun_blocks [of printed keys ps plutilStart]
  by (simp add: parsePlutilBlocks_def) (simp add: plutilStart_def plutilAtRest_def)

text \<open>The path a call of the callback is about.\<close>

definition callPath :: "plutilCall \<Rightarrow> string" where
  "callPath call = fst call ! fst (snd call)"

definition callKeys :: "plutilCall \<Rightarrow> string \<times> string gomap" where
  "callKeys call = (callPath call, snd (snd call))"

lemma map_call:
  "length blocks = length chunk \<Longrightarrow>
   map callKeys (map (\<lambda>(index, keys). (chunk, index, keys)) (enumerate 0 blocks)) = zip chunk blocks"
  by (auto intro!: nth_equalityI simp: callKeys_def callPath_def nth_enumerate_eq)

lemma concat_argChunks: "concat (argChunks chunk used paths) = chunk @ paths"
  by (induction chunk used paths rule: argChunks.induct) auto

lemma argChunks_not_Nil: "[] \<notin> set (argChunks chunk used paths)"
  by (induction chunk used paths rule: argChunks.induct) auto

text \<open>What one invocation parses to, and the three ways the routine goes on.\<close>

definition chunkBlocks :: "(string \<Rightarrow> string list \<Rightarrow> string) \<Rightarrow> string list \<Rightarrow> string gomap list" where
  "chunkBlocks run chunk =
     (let out = run ''plutil'' (''-p'' # chunk) in if out \<noteq> [] then parsePlutilBlocks out else [])"

lemma chunk_committed:
  "length (chunkBlocks run chunk) = length chunk \<Longrightarrow>
   map callKeys (runPlutilChunk run chunk) = zip chunk (chunkBlocks run chunk)"
  using map_call [of "chunkBlocks run chunk" chunk]
  by (subst runPlutilChunk.simps) (simp add: Let_def chunkBlocks_def [symmetric, unfolded Let_def])

lemma chunk_bisected:
  "length (chunkBlocks run chunk) \<noteq> length chunk \<Longrightarrow> 1 < length chunk \<Longrightarrow>
   runPlutilChunk run chunk =
     runPlutilChunk run (take (length chunk div 2) chunk) @ runPlutilChunk run (drop (length chunk div 2) chunk)"
  by (subst runPlutilChunk.simps) (simp add: Let_def chunkBlocks_def [symmetric, unfolded Let_def])

lemma chunk_skipped:
  "length (chunkBlocks run chunk) \<noteq> length chunk \<Longrightarrow> \<not> 1 < length chunk \<Longrightarrow> runPlutilChunk run chunk = []"
  by (subst runPlutilChunk.simps) (simp add: Let_def chunkBlocks_def [symmetric, unfolded Let_def])

lemma callPath_keys: "map callPath calls = map fst (map callKeys calls)"
  by (simp add: callKeys_def)

lemma runPlutilChunk_complete:
  assumes run: "\<And>ps. ps \<noteq> [] \<Longrightarrow>
      run ''plutil'' (''-p'' # ps) = (if list_all readable ps then concat (map printed ps) else [])"
    and blocks: "\<And>p. readable p \<Longrightarrow> plutilBlock (printed p) (keys p)"
  shows "chunk \<noteq> [] \<Longrightarrow>
    map callKeys (runPlutilChunk run chunk) = map (\<lambda>p. (p, keys p)) (filter readable chunk)"
proof (induction "length chunk" arbitrary: chunk rule: less_induct)
  case less
  let ?mid = "length chunk div 2"
  show ?case
  proof (cases "list_all readable chunk")
    case True
    then have good: "list_all (\<lambda>p. plutilBlock (printed p) (keys p)) chunk"
      using blocks by (simp add: list_all_iff)
    have "printed p \<noteq> []" if "p \<in> set chunk" for p
      using good that by (auto simp: list_all_iff plutilBlock_def)
    then have "concat (map printed chunk) \<noteq> []" using less.prems by (cases chunk) auto
    then have "chunkBlocks run chunk = map keys chunk"
      using True run [OF less.prems] parsePlutilBlocks_concat [OF good] by (simp add: chunkBlocks_def)
    then show ?thesis
      using True chunk_committed [of run chunk] by (simp add: list_all_iff zip_map2 zip_same_conv_map filter_id_conv)
  next
    case False
    then have none: "chunkBlocks run chunk = []" using run [OF less.prems] by (simp add: chunkBlocks_def)
    show ?thesis
    proof (cases "1 < length chunk")
      case True
      then have halves: "length (take ?mid chunk) < length chunk" "take ?mid chunk \<noteq> []"
          "length (drop ?mid chunk) < length chunk" "drop ?mid chunk \<noteq> []"
        by (auto simp: drop_eq_Nil take_eq_Nil)
      have "runPlutilChunk run chunk = runPlutilChunk run (take ?mid chunk) @ runPlutilChunk run (drop ?mid chunk)"
        by (rule chunk_bisected) (use none True in auto)
      then have "map callKeys (runPlutilChunk run chunk) =
          map (\<lambda>p. (p, keys p)) (filter readable (take ?mid chunk)) @
          map (\<lambda>p. (p, keys p)) (filter readable (drop ?mid chunk))"
        by (simp add: less.hyps [OF halves(1,2)] less.hyps [OF halves(3,4)])
      then show ?thesis by (simp flip: map_append filter_append)
    next
      case False
      with \<open>\<not> list_all readable chunk\<close> less.prems obtain p where "chunk = [p]" "\<not> readable p"
        by (cases chunk) auto
      then show ?thesis using chunk_skipped [of run chunk] none by simp
    qed
  qed
qed

lemma runPlutilChunk_paired: "subseq (map callPath (runPlutilChunk run chunk)) chunk"
proof (induction "length chunk" arbitrary: chunk rule: less_induct)
  case less
  let ?mid = "length chunk div 2"
  consider "length (chunkBlocks run chunk) = length chunk"
    | "length (chunkBlocks run chunk) \<noteq> length chunk" "1 < length chunk"
    | "length (chunkBlocks run chunk) \<noteq> length chunk" "\<not> 1 < length chunk" by blast
  then show ?case
  proof cases
    case 1
    then show ?thesis by (simp add: callPath_keys chunk_committed del: map_map)
  next
    case 2
    have "subseq (map callPath (runPlutilChunk run (take ?mid chunk)) @ map callPath (runPlutilChunk run (drop ?mid chunk)))
        (take ?mid chunk @ drop ?mid chunk)"
      using 2 by (intro list_emb_append_mono less) auto
    then show ?thesis by (simp add: chunk_bisected [OF 2])
  next
    case 3
    then show ?thesis by (simp add: chunk_skipped)
  qed
qed

text \<open>C34: Bisection loses nothing that can be read: with a \<open>plutil\<close> that prints every file of an
  invocation or, when one of them is unreadable, nothing at all, the callback is called for
  exactly the readable files, in order, each with its own path and its own keys. Corrupt files
  cost only themselves, however they are spread over the batches.\<close>

theorem runPlutilChunks_complete:
  assumes "\<And>ps. ps \<noteq> [] \<Longrightarrow>
      run ''plutil'' (''-p'' # ps) = (if list_all readable ps then concat (map printed ps) else [])"
    and "\<And>p. readable p \<Longrightarrow> plutilBlock (printed p) (keys p)"
  shows "map callKeys (runPlutilChunks run paths) = map (\<lambda>p. (p, keys p)) (filter readable paths)"
proof -
  have "map callKeys (concat (map (runPlutilChunk run) chunks)) =
      map (\<lambda>p. (p, keys p)) (filter readable (concat chunks))" if "[] \<notin> set chunks" for chunks
    using that by (induction chunks) (auto simp: runPlutilChunk_complete [of run readable printed keys, OF assms])
  from this [of "plutilArgChunks paths"] show ?thesis
    by (simp add: runPlutilChunks_def plutilArgChunks_def concat_argChunks argChunks_not_Nil)
qed

theorem runPlutilChunks_complete_witness:
  "map callKeys (runPlutilChunks (\<lambda>name args. if ''bad'' \<in> set args then [] else concat (map (\<lambda>p. ''{'' @ [NL] @ ''}'' @ [NL]) (tl args)))
       [''a'', ''bad'', ''b'']) = [(''a'', []), (''b'', [])]"
proof -
  have keyless: "plutilBlock (''{'' @ [NL] @ ''}'' @ [NL]) []" by code_simp
  show ?thesis
    using runPlutilChunks_complete [where readable = "\<lambda>p. p \<noteq> ''bad''" and printed = "\<lambda>p. ''{'' @ [NL] @ ''}'' @ [NL]"
        and keys = "\<lambda>p. []" and paths = "[''a'', ''bad'', ''b'']"
        and run = "\<lambda>name args. if ''bad'' \<in> set args then [] else concat (map (\<lambda>p. ''{'' @ [NL] @ ''}'' @ [NL]) (tl args))"]
    using keyless by (simp add: list_all_iff)
qed

lemma runPlutilChunks_paired: "subseq (map callPath (runPlutilChunks run paths)) paths"
proof -
  have "subseq (map callPath (concat (map (runPlutilChunk run) chunks))) (concat chunks)" for chunks
    by (induction chunks) (auto intro: list_emb_append_mono runPlutilChunk_paired)
  from this [of "plutilArgChunks paths"] show ?thesis
    by (simp add: runPlutilChunks_def plutilArgChunks_def concat_argChunks)
qed

lemma argChunks_size:
  "chunk \<in> set (argChunks pending used paths) \<Longrightarrow> used = sum_list (map (\<lambda>p. length p + 1) pending) \<Longrightarrow>
   used \<le> plutilMaxBytes \<or> length pending = 1 \<Longrightarrow>
   sum_list (map (\<lambda>p. length p + 1) chunk) \<le> plutilMaxBytes \<or> length chunk = 1"
proof (induction pending used paths rule: argChunks.induct)
  case (2 pending used p paths)
  then show ?case by (cases "pending = []") (auto split: if_splits simp: not_less)
qed (auto split: if_splits)

lemma plutilArgChunks_bounds:
  "concat (plutilArgChunks paths) = paths \<and> [] \<notin> set (plutilArgChunks paths) \<and>
   list_all (\<lambda>chunk. sum_list (map (\<lambda>p. length p + 1) chunk) \<le> plutilMaxBytes \<or> length chunk = 1) (plutilArgChunks paths)"
  using argChunks_size [of _ "[]" 0 paths]
  by (auto simp: plutilArgChunks_def concat_argChunks argChunks_not_Nil list_all_iff)

subsection \<open>What every source lists\<close>

lemma record_step:
  "k \<noteq> key \<Longrightarrow> packageField (if v \<noteq> [] then mput k (GStr v) r else r) key = packageField r key"
  by (simp add: packageField_def gm.get_put)

lemma packageRecord_fields:
  assumes "list_all (\<lambda>(k, v). k \<noteq> ''name'' \<and> k \<noteq> ''version'') kv"
  shows "packageField (packageRecord name version kv) ''name'' = name"
    and "packageField (packageRecord name version kv) ''version'' = version"
proof -
  let ?step = "\<lambda>r (k, v). if v \<noteq> [] then mput k (GStr v) r else r"
  have "packageField (foldl ?step r kv) key = packageField r key"
    if "list_all (\<lambda>(k, v). k \<noteq> key) kv" for r key
    using that by (induction kv arbitrary: r) (auto simp: packageField_def update_conv')
  moreover have "list_all (\<lambda>(k, v). k \<noteq> ''name'') kv" "list_all (\<lambda>(k, v). k \<noteq> ''version'') kv"
    using assms by (auto simp: list_all_iff)
  ultimately show "packageField (packageRecord name version kv) ''name'' = name"
    "packageField (packageRecord name version kv) ''version'' = version"
    by (simp_all add: packageRecord_def) (simp_all add: packageField_def)
qed

definition identified :: "package \<Rightarrow> bool" where
  "identified r \<longleftrightarrow> packageField r ''name'' \<noteq> [] \<and> packageField r ''version'' \<noteq> []"

lemma identified_record:
  "list_all (\<lambda>(k, v). k \<noteq> ''name'' \<and> k \<noteq> ''version'') kv \<Longrightarrow>
   identified (packageRecord name version kv) \<longleftrightarrow> name \<noteq> [] \<and> version \<noteq> []"
  by (simp add: identified_def packageRecord_fields)

text \<open>A source is in order when it is a sorted list of records that pass a test.\<close>

definition listed :: "(package \<Rightarrow> bool) \<Rightarrow> package list \<Rightarrow> bool" where
  "listed ok rs \<longleftrightarrow> sortPackages rs = rs \<and> list_all ok rs"

lemma listed_Nil [simp]: "listed ok []"
  by (simp add: listed_def sortPackages_sort)

lemma listed_sort: "list_all ok rs \<Longrightarrow> listed ok (sortPackages rs)"
  by (simp add: listed_def list_all_iff) (simp add: sortPackages_sort sort_key_id_if_sorted)

lemma listed_filter: "(\<And>x r. f x = Some r \<Longrightarrow> ok r) \<Longrightarrow> listed ok (sortPackages (List.map_filter f xs))"
  by (rule listed_sort) (auto simp: list_all_iff List.map_filter_def)

lemma listed_dpkg: "listed identified (dpkgPackages h)"
  by (auto simp: dpkgPackages_def dpkgStanza_def Let_def identified_record intro!: listed_filter split: sum.split if_splits)

lemma listed_apk: "listed identified (apkPackages h)"
  by (auto simp: apkPackages_def apkStanza_def Let_def identified_record intro!: listed_filter split: sum.split if_splits)

lemma listed_pacman: "listed identified (pacmanPackages h)"
  by (auto simp: pacmanPackages_def pacmanEntry_def Let_def identified_record intro!: listed_filter
      split: sum.splits if_splits prod.splits)

lemma listed_rpm: "listed (\<lambda>r. packageField r ''name'' \<noteq> []) (rpmPackages h)"
  by (auto simp: rpmPackages_def rpmLine_def Let_def packageRecord_fields intro!: listed_filter
      split: list.splits if_splits)

lemma listed_pkgng: "listed identified (pkgngPackages h)"
  by (auto simp: pkgngPackages_def pkgngLine_def identified_record intro!: listed_filter split: list.splits if_splits)

lemma listed_openbsd: "listed identified (openbsdPackages h)"
  by (auto simp: openbsdPackages_def openbsdEntry_def Let_def identified_record intro!: listed_filter
      split: sum.splits if_splits prod.splits)

lemma listed_pkgsrc: "listed identified (pkgsrcPackages h)"
proof -
  have "listed identified (pkgsrcFrom h dirs)" for dirs
    by (induction dirs) (auto simp: Let_def pkgsrcEntry_def identified_record intro!: listed_filter
        split: sum.split if_splits prod.splits)
  then show ?thesis by (simp only: pkgsrcPackages_def)
qed

lemma listed_ips: "listed identified (ipsPackages h)"
  by (auto simp: ipsPackages_def ipsLine_def Let_def identified_record intro!: listed_filter split: list.splits if_splits)

lemma string_fields_words: "w \<in> set (string_fields_acc acc s) \<Longrightarrow> w \<noteq> []"
  by (induction acc s rule: string_fields_acc.induct) (auto split: if_splits)

lemma list_all_tl_dropWhile: "list_all q rows \<Longrightarrow> list_all q (tl (dropWhile P rows))"
  by (induction rows) (auto simp: list_all_iff)

lemma snap_row: "list_all (\<lambda>fs. identified (packageRecord (fs ! 0) (fs ! 1) [])) (filter (\<lambda>fs. length fs \<ge> 2) (map string_fields ls))"
proof (induction ls)
  case (Cons l ls)
  have "fs ! 0 \<noteq> [] \<and> fs ! 1 \<noteq> []" if "2 \<le> length fs" "fs = string_fields l" for fs
    using that string_fields_words [of "fs ! 0" "[]" l] string_fields_words [of "fs ! 1" "[]" l] nth_mem [of 0 fs] nth_mem [of 1 fs]
    by (simp add: string_fields_def del: length_greater_0_conv)
  with Cons show ?case by (simp add: identified_record)
qed simp

lemma listed_snap: "listed identified (snapPackages h)"
  unfolding snapPackages_def snapRows_def Let_def
  by (intro listed_sort) (use list_all_tl_dropWhile [OF snap_row] in \<open>simp add: list.pred_map comp_def\<close>)

lemma listed_flatpak: "listed identified (flatpakPackages h)"
  by (auto simp: flatpakPackages_def flatpakLine_def Let_def identified_record intro!: listed_filter split: if_splits)

lemma set_firstBy: "set (firstBy key seen xs) \<subseteq> set xs"
  by (induction key seen xs rule: firstBy.induct) auto

lemma nixLine_identified: "nixLine storePaths raw = Some (name, version) \<Longrightarrow> name \<noteq> [] \<and> version \<noteq> []"
  by (auto simp: nixLine_def Let_def split: if_splits option.splits prod.splits)

lemma listed_nixRecords: "listed identified (nixRecordsFromLines out storePaths)"
proof -
  let ?lines = "List.map_filter (nixLine storePaths) (string_lines out)"
  have "name \<noteq> [] \<and> version \<noteq> []" if "(name, version) \<in> set (firstBy nixKey [] ?lines)" for name version
    using subsetD [OF set_firstBy that] by (auto simp: List.map_filter_def dest: nixLine_identified)
  then show ?thesis
    unfolding nixRecordsFromLines_def collapseNixCustomOutputs_def Let_def
    by (intro listed_sort) (auto simp: list_all_iff identified_record)
qed

lemma listed_nix: "listed identified (nixPackages h)"
  by (simp add: nixPackages_def Let_def listed_nixRecords)

lemma listed_registry: "listed identified (registryPackages h)"
  by (auto simp: registryPackages_def registryLine_def identified_record intro!: listed_filter split: list.splits if_splits)

lemma appxLine_identified: "appxLine line = Some (name, version, arch) \<Longrightarrow> name \<noteq> [] \<and> version \<noteq> []"
  by (auto simp: appxLine_def split: if_splits list.splits)

lemma listed_appx: "listed identified (appxPackages h)"
proof -
  have "name \<noteq> [] \<and> version \<noteq> []"
    if "(name, version, arch) \<in> set (firstBy appxKey [] (List.map_filter appxLine ls))" for name version arch ls
    using subsetD [OF set_firstBy that] by (auto simp: List.map_filter_def dest: appxLine_identified)
  then show ?thesis
    unfolding appxPackages_def Let_def by (intro listed_sort) (auto simp: list_all_iff identified_record)
qed

lemma listed_receipts: "listed identified (receiptsPackages h)"
  by (auto simp: receiptsPackages_def receiptRecord_def Let_def identified_record intro!: listed_filter
      split: sum.split if_splits)

lemma listed_apps: "listed identified (appsPackages h)"
  by (auto simp: appsPackages_def appRecord_def Let_def identified_record intro!: listed_filter
      split: if_splits prod.splits)

lemma brewRecords_identified:
  "list_all identified records \<Longrightarrow> list_all identified (appendBrewRecords records paths kind brew)"
  by (auto simp: appendBrewRecords_def list_all_iff List.map_filter_def brewRecord_def Let_def identified_record
      split: if_splits)

lemma listed_homebrew: "listed identified (homebrewPackages h)"
  by (simp add: homebrewPackages_def brewPrefix_def listed_sort brewRecords_identified)

lemmas listed_sources = listed_dpkg listed_apk listed_pacman listed_rpm listed_pkgng listed_openbsd listed_pkgsrc
  listed_ips listed_snap listed_flatpak listed_nix listed_registry listed_appx listed_receipts listed_apps listed_homebrew

text \<open>C35: Every source of the packages fact lists its records in the report order, and every record
  carries a non-empty name and version, whatever the host's files and commands contain; rpm,
  which prints the version of a package it may not know, guarantees the name only.\<close>

theorem packageSources_listed:
  "list_all (\<lambda>(source, records).
     listed (if source = ''rpm'' then \<lambda>r. packageField r ''name'' \<noteq> [] else identified) records) (packageSources h)"
  by (simp add: packageSources_def Let_def listed_sources)

end
