(* ===== verification/Cloud.thy ===== *)
theory Cloud
  imports Disks
begin

text \<open>
  The cloud metadata clients: \<open>internal/engine/metadatahttp.go\<close>, \<open>ec2.go\<close>, \<open>gce.go\<close> and \<open>az.go\<close>. The
  network is a parameter that answers the n-th request of a discovery, or fails to, and redirects are
  followed; the clock is
  a parameter that answers the n-th reading. Requests are kept in the order they are made, so what
  is sent where is part of the model. The decoder of \<open>encoding/json\<close> is a parameter, too.
\<close>

section \<open>Requests\<close>

record metadataRequest =
  mr_Method :: string
  mr_URL :: string
  mr_Headers :: "string gomap"

text \<open>A response: its status, its headers by canonical name, the URL its \<open>Location\<close> header names, resolved
  against the request's, unless it cannot be parsed, the bytes of its body and whether reading on after
  these bytes fails.\<close>

record metadataResponse =
  mp_StatusCode :: int
  mp_Header :: "string gomap"
  mp_Location :: "string option"
  mp_Body :: string
  mp_Broken :: bool

type_synonym metadataService = "nat \<Rightarrow> metadataRequest \<Rightarrow> metadataResponse option"

text \<open>The clients are built by \<open>newMetadataHTTPClient\<close> without a \<open>CheckRedirect\<close>, so \<open>client.Do\<close> follows redirects by
  the rules of \<open>net/http\<close>: a response that redirects and names a location is followed, with the
  headers of the request, wherever it leads; after 301, 302 and 303 the method becomes GET; ten
  requests are sent at most. Headers are those the code sets.\<close>

definition redirects :: "metadataResponse \<Rightarrow> bool" where
  "redirects resp \<longleftrightarrow> mp_StatusCode resp \<in> set [301, 302, 303, 307, 308] \<and> sget (mp_Header resp) ''Location'' \<noteq> []"

definition redirected :: "metadataResponse \<Rightarrow> string \<Rightarrow> metadataRequest \<Rightarrow> metadataRequest" where
  "redirected resp url req =
     req\<lparr>mr_URL := url,
         mr_Method := (if mp_StatusCode resp \<in> set [301, 302, 303] \<and> mr_Method req \<notin> set [''GET'', ''HEAD'']
                       then ''GET'' else mr_Method req)\<rparr>"

fun clientDo :: "nat \<Rightarrow> metadataService \<Rightarrow> metadataRequest list \<Rightarrow> metadataRequest \<Rightarrow>
    metadataResponse option \<times> metadataRequest list" where
  "clientDo 0 svc sent req = (None, sent)"
| "clientDo (Suc n) svc sent req =
     (let sent' = sent @ [req]
      in case svc (length sent) req of
           None \<Rightarrow> (None, sent')
         | Some resp \<Rightarrow>
             if \<not> redirects resp then (Some resp, sent')
             else case mp_Location resp of
                    None \<Rightarrow> (None, sent')
                  | Some url \<Rightarrow> clientDo n svc sent' (redirected resp url req))"

definition metadataMaxBodyBytes :: nat where "metadataMaxBodyBytes = 1048576"

definition readLimited :: "nat \<Rightarrow> metadataResponse \<Rightarrow> string option" where
  "readLimited limit resp =
     (if mp_Broken resp \<and> length (mp_Body resp) < limit then None else Some (take limit (mp_Body resp)))"

text \<open>The requests sent so far and their answer: the body and the headers, or None.\<close>

definition fetchMetadata ::
  "metadataService \<Rightarrow> metadataRequest list \<Rightarrow> string \<Rightarrow> string \<Rightarrow> string gomap \<Rightarrow>
   (string \<times> string gomap) option \<times> metadataRequest list" where
  "fetchMetadata svc sent verb url headers =
     (case clientDo 10 svc sent \<lparr>mr_Method = verb, mr_URL = url, mr_Headers = headers\<rparr> of
        (None, sent') \<Rightarrow> (None, sent')
      | (Some resp, sent') \<Rightarrow>
          if mp_StatusCode resp \<noteq> 200 then (None, sent')
          else case readLimited metadataMaxBodyBytes resp of
                 None \<Rightarrow> (None, sent')
               | Some body \<Rightarrow> (Some (body, mp_Header resp), sent'))"

section \<open>EC2\<close>

definition ec2MetadataBaseURL :: string where "ec2MetadataBaseURL = ''http://169.254.169.254/latest''"
definition ec2MaxDepth :: nat where "ec2MaxDepth = 16"
definition ec2TokenTTL :: int where "ec2TokenTTL = 21600 * 1000000000"

text \<open>A client with what it has sent and how often it has read the clock. Times are nanoseconds.\<close>

record ec2Client =
  ec_baseURL :: string
  ec_token :: string
  ec_tokenUntil :: int
  ec_tokenTTL :: int
  ec_sent :: "metadataRequest list"
  ec_readings :: nat

definition newEC2Client :: "string \<Rightarrow> metadataRequest list \<Rightarrow> ec2Client" where
  "newEC2Client baseURL sent =
     \<lparr>ec_baseURL = trim_right baseURL [SLASH], ec_token = [], ec_tokenUntil = 0, ec_tokenTTL = ec2TokenTTL,
      ec_sent = sent, ec_readings = 0\<rparr>"

definition readClock :: "(nat \<Rightarrow> int) \<Rightarrow> ec2Client \<Rightarrow> int \<times> ec2Client" where
  "readClock clock ec = (clock (ec_readings ec), ec\<lparr>ec_readings := ec_readings ec + 1\<rparr>)"

definition ec2Fetch ::
  "metadataService \<Rightarrow> ec2Client \<Rightarrow> string \<Rightarrow> string \<Rightarrow> string gomap \<Rightarrow> string option \<times> ec2Client" where
  "ec2Fetch svc ec verb path headers =
     (let (answer, sent) = fetchMetadata svc (ec_sent ec) verb (ec_baseURL ec @ SLASH # path) headers
      in (map_option fst answer, ec\<lparr>ec_sent := sent\<rparr>))"

definition requestToken :: "metadataService \<Rightarrow> (nat \<Rightarrow> int) \<Rightarrow> ec2Client \<Rightarrow> string \<times> ec2Client" where
  "requestToken svc clock ec =
     (let ttl = (if ec_tokenTTL ec = 0 then ec2TokenTTL else ec_tokenTTL ec);
          (answer, ec1) = ec2Fetch svc ec ''PUT'' ''api/token''
            [(''X-aws-ec2-metadata-token-ttl-seconds'', itoa (go_div ttl 1000000000))]
      in case answer of
           None \<Rightarrow> ([], ec1)
         | Some body \<Rightarrow>
             (let (now, ec2) = readClock clock ec1; token = trim_space body
              in (token, ec2\<lparr>ec_token := token, ec_tokenUntil := now + ttl\<rparr>)))"

definition v2Token :: "metadataService \<Rightarrow> (nat \<Rightarrow> int) \<Rightarrow> ec2Client \<Rightarrow> string \<times> ec2Client" where
  "v2Token svc clock ec =
     (if ec_token ec \<noteq> []
      then let (now, ec') = readClock clock ec
           in if now < ec_tokenUntil ec then (ec_token ec, ec') else requestToken svc clock ec'
      else requestToken svc clock ec)"

definition getRaw :: "metadataService \<Rightarrow> (nat \<Rightarrow> int) \<Rightarrow> ec2Client \<Rightarrow> string \<Rightarrow> string option \<times> ec2Client" where
  "getRaw svc clock ec path =
     (let (token, ec') = v2Token svc clock ec
      in ec2Fetch svc ec' ''GET'' path (if token \<noteq> [] then [(''X-aws-ec2-metadata-token'', token)] else []))"

definition ec2Get :: "metadataService \<Rightarrow> (nat \<Rightarrow> int) \<Rightarrow> ec2Client \<Rightarrow> string \<Rightarrow> string option \<times> ec2Client" where
  "ec2Get svc clock ec path = (let (body, ec') = getRaw svc clock ec path in (map_option trim_space body, ec'))"

definition metadataChildren :: "string \<Rightarrow> string list" where
  "metadataChildren body = filter (\<lambda>line. line \<noteq> []) (map trim_space (split_on NL body))"

text \<open>A path that ends in a slash is listed and its children are fetched, to a depth; a path that cannot be
  fetched is the empty string; below the greatest depth there is no value.\<close>

function fetchMetadataPath ::
  "metadataService \<Rightarrow> (nat \<Rightarrow> int) \<Rightarrow> string \<Rightarrow> nat \<Rightarrow> ec2Client \<Rightarrow> gval option \<times> ec2Client" where
  "fetchMetadataPath svc clock path depth ec =
     (if depth > ec2MaxDepth then (None, ec)
      else let (answer, ec1) = ec2Get svc clock ec path
           in case answer of
                None \<Rightarrow> (Some (GStr []), ec1)
              | Some body \<Rightarrow>
                  if \<not> has_suffix path [SLASH] then (Some (GStr body), ec1)
                  else let (result, ec2) =
                         foldl (\<lambda>(result, ec) child.
                             let (v, ec') = fetchMetadataPath svc clock (path @ child) (depth + 1) ec
                             in (case v of None \<Rightarrow> result | Some x \<Rightarrow> mput (trim_suffix child [SLASH]) x result, ec'))
                           ([], ec1) (metadataChildren body)
                       in (Some (GMap result), ec2))"
  by pat_completeness auto
termination by (relation "measure (\<lambda>(svc, clock, path, depth, ec). ec2MaxDepth + 1 - depth)") auto

declare fetchMetadataPath.simps [simp del]

definition ec2Metadata :: "metadataService \<Rightarrow> (nat \<Rightarrow> int) \<Rightarrow> ec2Client \<Rightarrow> gval gomap \<times> ec2Client" where
  "ec2Metadata svc clock ec =
     (case fetchMetadataPath svc clock ''meta-data/'' 0 ec of
        (Some (GMap metadata), ec') \<Rightarrow> (metadata, ec')
      | (_, ec') \<Rightarrow> ([], ec'))"

definition userdata :: "metadataService \<Rightarrow> (nat \<Rightarrow> int) \<Rightarrow> ec2Client \<Rightarrow> string \<times> ec2Client" where
  "userdata svc clock ec =
     (let (body, ec') = getRaw svc clock ec ''user-data/'' in (case body of None \<Rightarrow> [] | Some b \<Rightarrow> b, ec'))"

definition awsHypervisor :: "string \<Rightarrow> bool" where
  "awsHypervisor name \<longleftrightarrow> list_ex (contains (to_lower name)) [''kvm'', ''xen'', ''aws'']"

definition fileExecutable :: "hostOS \<Rightarrow> string \<Rightarrow> bool" where
  "fileExecutable h path = (case ho_stat h path of Inl e \<Rightarrow> False | Inr info \<Rightarrow> fi_isRegular info \<and> fi_exec info)"

definition virtWhat :: string where "virtWhat = ''/opt/puppetlabs/puppet/bin/virt-what''"

definition linuxAWSCloudProvider ::
  "string \<Rightarrow> gval gomap \<Rightarrow> int \<Rightarrow> (string \<Rightarrow> bool) \<Rightarrow> (string \<Rightarrow> string list \<Rightarrow> string) \<Rightarrow> bool" where
  "linuxAWSCloudProvider name metadata euid executable run =
     (if \<not> awsHypervisor name \<or> metadata = [] then False
      else if equal_fold name ''aws'' \<or> euid \<noteq> 0 \<or> \<not> executable virtWhat then True
      else list_ex (\<lambda>field. equal_fold field ''aws'') (string_fields (run virtWhat [])))"

definition cloudProviderFactForPlatform ::
  "string \<Rightarrow> virtualization \<Rightarrow> gval gomap \<Rightarrow> int \<Rightarrow> (string \<Rightarrow> bool) \<Rightarrow> (string \<Rightarrow> string list \<Rightarrow> string) \<Rightarrow>
   ResolvedFact option" where
  "cloudProviderFactForPlatform goos virt metadata euid executable run =
     (if goos = ''linux''
      then if \<not> linuxAWSCloudProvider (vz_Name virt) metadata euid executable run then None
           else Some (core_fact ''cloud.provider'' (GStr ''aws''))
      else if \<not> awsHypervisor (vz_Name virt) \<or> metadata = [] then None
      else Some (core_fact ''cloud.provider'' (GStr ''aws'')))"

definition cloudProviderFact :: "hostOS \<Rightarrow> virtualization \<Rightarrow> gval gomap \<Rightarrow> ResolvedFact option" where
  "cloudProviderFact h virt metadata =
     cloudProviderFactForPlatform (ho_goos h) virt metadata (rt_euid (ho_runtime h)) (fileExecutable h) (ho_run h)"

definition ec2Facts ::
  "hostOS \<Rightarrow> metadataService \<Rightarrow> (nat \<Rightarrow> int) \<Rightarrow> ec2Client option \<Rightarrow> virtualization \<Rightarrow>
   ResolvedFact list \<times> metadataRequest list" where
  "ec2Facts h svc clock client virt =
     (let absent = [core_fact ''ec2_metadata'' GNil, core_fact ''ec2_userdata'' GNil]
      in case client of
           None \<Rightarrow> (absent, [])
         | Some ec \<Rightarrow>
             if \<not> awsHypervisor (vz_Name virt) then (absent, ec_sent ec)
             else let (metadata, ec1) = ec2Metadata svc clock ec; (user, ec2) = userdata svc clock ec1
                  in ([core_fact ''ec2_metadata'' (if metadata = [] then GNil else GMap metadata)] @
                      (case cloudProviderFact h virt metadata of None \<Rightarrow> [] | Some provider \<Rightarrow> [provider]) @
                      [core_fact ''ec2_userdata'' (if user = [] then GNil else GStr user)], ec_sent ec2))"

section \<open>GCE\<close>

definition gceMetadataBaseURL :: string where
  "gceMetadataBaseURL = ''http://metadata.google.internal/computeMetadata/v1''"

type_synonym json_decoder = "string \<Rightarrow> gval gomap option"

definition splitMetadataLines :: "string \<Rightarrow> gval list" where
  "splitMetadataLines v = map GStr (filter (\<lambda>line. line \<noteq> []) (map trim_space (split_on NL (trim_space v))))"

definition lastPathSegment :: "string \<Rightarrow> string" where
  "lastPathSegment v = last (split_on SLASH (trim_right v [SLASH]))"

text \<open>Updates of the map and of the string at a key, when there is one.\<close>

definition within_map :: "string \<Rightarrow> (gval gomap \<Rightarrow> gval gomap) \<Rightarrow> gval gomap \<Rightarrow> gval gomap" where
  "within_map key f m = (case mget m key of Some (GMap inner) \<Rightarrow> mput key (GMap (f inner)) m | _ \<Rightarrow> m)"

definition within_string :: "string \<Rightarrow> (string \<Rightarrow> gval) \<Rightarrow> gval gomap \<Rightarrow> gval gomap" where
  "within_string key f m = (case mget m key of Some (GStr s) \<Rightarrow> mput key (f s) m | _ \<Rightarrow> m)"

definition normalizeGCESSHKeys :: "string \<Rightarrow> gval gomap \<Rightarrow> gval gomap" where
  "normalizeGCESSHKeys root metadata =
     within_map root (within_map ''attributes'' (\<lambda>attributes.
       foldl (\<lambda>m name. within_string name (\<lambda>keys. GList (splitMetadataLines keys)) m) attributes [''sshKeys'', ''ssh-keys'']))
       metadata"

definition normalizeGCEInstance :: "gval gomap \<Rightarrow> gval gomap" where
  "normalizeGCEInstance machine =
     (let segment = (\<lambda>s. GStr (lastPathSegment s));
          machine' = foldl (\<lambda>m key. within_string key segment m) machine [''image'', ''machineType'', ''zone'']
      in case mget machine' ''networkInterfaces'' of
           Some (GList (GMap primary # others)) \<Rightarrow>
             mput ''networkInterfaces'' (GList (GMap (within_string ''network'' segment primary) # others)) machine'
         | _ \<Rightarrow> machine')"

definition normalizeGCEMetadata :: "gval gomap \<Rightarrow> gval gomap" where
  "normalizeGCEMetadata metadata =
     (case mget metadata ''instance'' of
        Some (GMap (entry # entries)) \<Rightarrow>
          within_map ''instance'' normalizeGCEInstance
            (normalizeGCESSHKeys ''instance'' (normalizeGCESSHKeys ''project'' metadata))
      | _ \<Rightarrow> metadata)"

text \<open>A client is its base URL; the response must carry the flavour header back.\<close>

definition newGCEClient :: "string \<Rightarrow> string" where
  "newGCEClient baseURL = trim_right baseURL [SLASH]"

definition gceGet :: "metadataService \<Rightarrow> string \<Rightarrow> metadataRequest list \<Rightarrow> string \<Rightarrow>
    string option \<times> metadataRequest list" where
  "gceGet svc baseURL sent path =
     (case fetchMetadata svc sent ''GET'' (baseURL @ SLASH # path)
         [(''Metadata-Flavor'', ''Google''), (''Accept'', ''application/json'')] of
        (None, sent') \<Rightarrow> (None, sent')
      | (Some (body, header), sent') \<Rightarrow>
          (if sget header ''Metadata-Flavor'' \<noteq> ''Google'' then None else Some (trim_space body), sent'))"

definition gceMetadata :: "metadataService \<Rightarrow> json_decoder \<Rightarrow> string \<Rightarrow> metadataRequest list \<Rightarrow>
    gval gomap \<times> metadataRequest list" where
  "gceMetadata svc unmarshal baseURL sent =
     (case gceGet svc baseURL sent ''?recursive=true&alt=json'' of
        (None, sent') \<Rightarrow> ([], sent')
      | (Some body, sent') \<Rightarrow>
          (if body = [] then []
           else case unmarshal body of None \<Rightarrow> [] | Some metadata \<Rightarrow> normalizeGCEMetadata metadata, sent'))"

definition gceAnswer :: "gval gomap \<Rightarrow> ResolvedFact list" where
  "gceAnswer metadata =
     (if metadata = [] then [core_fact ''gce'' GNil]
      else [core_fact ''gce'' (GMap metadata), core_fact ''cloud.provider'' (GStr ''gce'')])"

definition gceQuery :: "metadataService \<Rightarrow> json_decoder \<Rightarrow> bool \<Rightarrow> string option \<Rightarrow> metadataRequest list \<Rightarrow>
    ResolvedFact list \<times> metadataRequest list" where
  "gceQuery svc unmarshal onGCE client sent =
     (case client of None \<Rightarrow> ([core_fact ''gce'' GNil], sent)
      | Some baseURL \<Rightarrow>
          if \<not> onGCE then ([core_fact ''gce'' GNil], sent)
          else let (metadata, sent') = gceMetadata svc unmarshal baseURL sent in (gceAnswer metadata, sent'))"

definition linuxGCEFacts ::
  "metadataService \<Rightarrow> json_decoder \<Rightarrow> string \<Rightarrow> string \<Rightarrow> string option \<Rightarrow> metadataRequest list \<Rightarrow>
   ResolvedFact list \<times> metadataRequest list" where
  "linuxGCEFacts svc unmarshal goos biosVendor client sent =
     (if goos \<noteq> ''linux'' then ([], sent)
      else gceQuery svc unmarshal (contains biosVendor ''Google'') client sent)"

definition platformGCEFacts ::
  "metadataService \<Rightarrow> json_decoder \<Rightarrow> string \<Rightarrow> virtualization \<Rightarrow> string \<Rightarrow> string option \<Rightarrow> metadataRequest list \<Rightarrow>
   ResolvedFact list \<times> metadataRequest list" where
  "platformGCEFacts svc unmarshal goos virt biosVendor client sent =
     (if goos = ''linux'' then linuxGCEFacts svc unmarshal goos biosVendor client sent
      else if goos = ''windows'' then gceQuery svc unmarshal (contains (vz_Name virt) ''gce'') client sent
      else ([], sent))"

section \<open>Azure\<close>

definition azureMetadataBaseURL :: string where "azureMetadataBaseURL = ''http://169.254.169.254''"
definition azureAPIVersion :: string where "azureAPIVersion = ''2020-09-01''"

definition newAzureClient :: "string \<Rightarrow> string" where
  "newAzureClient baseURL = trim_right baseURL [SLASH]"

definition azureHypervisor :: "string \<Rightarrow> bool" where "azureHypervisor name = equal_fold name ''hyperv''"

definition azureMetadata :: "metadataService \<Rightarrow> json_decoder \<Rightarrow> string \<Rightarrow> metadataRequest list \<Rightarrow>
    gval gomap \<times> metadataRequest list" where
  "azureMetadata svc unmarshal baseURL sent =
     (case fetchMetadata svc sent ''GET'' (baseURL @ ''/metadata/instance?api-version='' @ azureAPIVersion)
         [(''Metadata'', ''true'')] of
        (None, sent') \<Rightarrow> ([], sent')
      | (Some (body, header), sent') \<Rightarrow> (case unmarshal body of None \<Rightarrow> [] | Some metadata \<Rightarrow> metadata, sent'))"

definition azureFacts ::
  "metadataService \<Rightarrow> json_decoder \<Rightarrow> string option \<Rightarrow> virtualization \<Rightarrow> metadataRequest list \<Rightarrow>
   ResolvedFact list \<times> metadataRequest list" where
  "azureFacts svc unmarshal client virt sent =
     (case client of None \<Rightarrow> ([core_fact ''az_metadata'' GNil], sent)
      | Some baseURL \<Rightarrow>
          if \<not> azureHypervisor (vz_Name virt) then ([core_fact ''az_metadata'' GNil], sent)
          else let (metadata, sent') = azureMetadata svc unmarshal baseURL sent
               in (if metadata = [] then [core_fact ''az_metadata'' GNil]
                   else [core_fact ''az_metadata'' (GMap metadata), core_fact ''cloud.provider'' (GStr ''azure'')], sent'))"

section \<open>The three descriptors\<close>

text \<open>The clients on their link-local addresses, run in the order of the descriptors: Azure, EC2, GCE.\<close>

definition cloudFacts ::
  "hostOS \<Rightarrow> metadataService \<Rightarrow> (nat \<Rightarrow> int) \<Rightarrow> json_decoder \<Rightarrow> virtualization \<Rightarrow> gval gomap \<Rightarrow>
   ResolvedFact list \<times> metadataRequest list" where
  "cloudFacts h svc clock unmarshal virt dmi =
     (let (azure, s1) = azureFacts svc unmarshal (Some (newAzureClient azureMetadataBaseURL)) virt [];
          (ec2, s2) = ec2Facts h svc clock (Some (newEC2Client ec2MetadataBaseURL s1)) virt;
          (gce, s3) = platformGCEFacts svc unmarshal (ho_goos h) virt (dmiBIOSVendor dmi)
            (Some (newGCEClient gceMetadataBaseURL)) s2
      in (azure @ ec2 @ gce, s3))"

section \<open>Properties\<close>

subsection \<open>What a fetch may do to its client\<close>

text \<open>A relation between the client before and after that every single request keeps, holds of a whole fetch.\<close>

locale client_step =
  fixes svc :: metadataService and clock :: "nat \<Rightarrow> int" and step :: "ec2Client \<Rightarrow> ec2Client \<Rightarrow> bool"
  assumes refl: "step ec ec"
    and trans: "step a b \<Longrightarrow> step b c \<Longrightarrow> step a c"
    and raw: "step ec (snd (getRaw svc clock ec path))"
begin

lemma get: "step ec (snd (ec2Get svc clock ec path))"
  using raw [of ec path] by (simp add: ec2Get_def case_prod_beta)

lemma children:
  assumes "\<And>child result ec. child \<in> set cs \<Longrightarrow> step ec (snd (f (result, ec) child))"
  shows "step ec (snd (foldl f (result, ec) cs))"
  using assms
proof (induction cs arbitrary: result ec)
  case (Cons c cs)
  obtain r e where "f (result, ec) c = (r, e)" by (cases "f (result, ec) c")
  then show ?case using Cons.prems [of c ec result] Cons.IH [of e r] Cons.prems trans by (auto intro: trans)
qed (simp add: refl)

lemma fetch: "step ec (snd (fetchMetadataPath svc clock path depth ec))"
proof (induction "ec2MaxDepth + 1 - depth" arbitrary: path depth ec rule: less_induct)
  case less
  show ?case
  proof (cases "depth > ec2MaxDepth")
    case True
    then show ?thesis by (subst fetchMetadataPath.simps) (simp add: refl)
  next
    case False
    obtain answer ec1 where got: "ec2Get svc clock ec path = (answer, ec1)" by (cases "ec2Get svc clock ec path")
    then have first: "step ec ec1" using get [of ec path] by simp
    have deeper: "step e (snd (fetchMetadataPath svc clock p (depth + 1) e))" for p e
      using False by (intro less) auto
    let ?f = "\<lambda>(result, ec) child.
        let (v, ec') = fetchMetadataPath svc clock (path @ child) (depth + 1) ec
        in (case v of None \<Rightarrow> result | Some x \<Rightarrow> mput (trim_suffix child [SLASH]) x result, ec')"
    have "step ec1 (snd (foldl ?f ([], ec1) cs))" for cs
      using deeper by (intro children) (simp add: case_prod_beta)
    moreover have "fetchMetadataPath svc clock path depth ec =
        (case answer of None \<Rightarrow> (Some (GStr []), ec1)
         | Some body \<Rightarrow> if \<not> has_suffix path [SLASH] then (Some (GStr body), ec1)
             else let r = foldl ?f ([], ec1) (metadataChildren body) in (Some (GMap (fst r)), snd r))"
      using False by (subst fetchMetadataPath.simps) (simp add: got Let_def split: option.split prod.split)
    ultimately show ?thesis using trans [OF first] first by (auto simp: Let_def split: option.split)
  qed
qed

lemma metadata: "step ec (snd (ec2Metadata svc clock ec))"
  using fetch [of ec "''meta-data/''" 0]
  by (auto simp: ec2Metadata_def split: prod.splits option.splits gval.splits)

lemma whole: "step ec (snd (userdata svc clock (snd (ec2Metadata svc clock ec))))"
  using trans [OF metadata raw] by (simp add: userdata_def case_prod_beta)

end

subsection \<open>Where requests go\<close>

definition grows :: "(metadataRequest \<Rightarrow> bool) \<Rightarrow> metadataRequest list \<Rightarrow> metadataRequest list \<Rightarrow> bool" where
  "grows ok sent sent' \<longleftrightarrow> prefix sent sent' \<and> list_all ok (drop (length sent) sent')"

lemma grows_refl: "grows ok sent sent"
  by (simp add: grows_def)

lemma grows_trans: "grows ok a b \<Longrightarrow> grows ok b c \<Longrightarrow> grows ok a c"
  by (auto simp: grows_def prefix_def)

lemma grows_one: "grows ok sent (sent @ [r]) \<longleftrightarrow> ok r"
  by (simp add: grows_def)

lemma snd_fetchMetadata:
  "snd (fetchMetadata svc sent verb url headers) =
     snd (clientDo 10 svc sent \<lparr>mr_Method = verb, mr_URL = url, mr_Headers = headers\<rparr>)"
  by (simp add: fetchMetadata_def case_prod_beta split: prod.split option.split)

lemma snd_ec2Fetch:
  "snd (ec2Fetch svc ec verb path headers) =
     ec\<lparr>ec_sent := snd (clientDo 10 svc (ec_sent ec)
       \<lparr>mr_Method = verb, mr_URL = ec_baseURL ec @ SLASH # path, mr_Headers = headers\<rparr>)\<rparr>"
  by (simp add: ec2Fetch_def case_prod_beta snd_fetchMetadata)

lemma grows_clientDo:
  assumes "\<And>resp url r. ok r \<Longrightarrow> ok (redirected resp url r)"
  shows "ok req \<Longrightarrow> grows ok sent (snd (clientDo n svc sent req))"
proof (induction n arbitrary: sent req)
  case (Suc n)
  have "grows ok (sent @ [req]) (snd (clientDo n svc (sent @ [req]) (redirected resp url req)))" for resp url
    using Suc assms by blast
  then show ?case
    using Suc.prems grows_trans [of ok sent "sent @ [req]"] by (auto simp: Let_def grows_one split: option.split)
qed (simp add: grows_refl)

text \<open>A request that follows a redirect: the answer to the request sent just before it names its URL, and it
  carries the headers of that request.\<close>

definition led :: "metadataService \<Rightarrow> metadataRequest list \<Rightarrow> nat \<Rightarrow> bool" where
  "led svc sent i \<longleftrightarrow> 0 < i \<and>
     (case svc (i - 1) (sent ! (i - 1)) of
        None \<Rightarrow> False
      | Some resp \<Rightarrow> redirects resp \<and> mp_Location resp = Some (mr_URL (sent ! i)) \<and>
          mr_Headers (sent ! i) = mr_Headers (sent ! (i - 1)))"

definition reached :: "metadataService \<Rightarrow> (metadataRequest \<Rightarrow> bool) \<Rightarrow> metadataRequest list \<Rightarrow> metadataRequest list \<Rightarrow> bool" where
  "reached svc ok sent sent' \<longleftrightarrow> prefix sent sent' \<and> (\<forall>i\<in>{length sent..<length sent'}. ok (sent' ! i) \<or> led svc sent' i)"

lemma reached_refl: "reached svc ok sent sent"
  by (simp add: reached_def)

lemma reached_trans:
  assumes "reached svc ok a b" "reached svc ok b c"
  shows "reached svc ok a c"
proof -
  obtain d e where b: "b = a @ d" and c: "c = b @ e" using assms by (auto simp: reached_def prefix_def)
  have same: "c ! i = b ! i" if "i < length b" for i using that c by (simp add: nth_append)
  have "ok (c ! i) \<or> led svc c i" if "length a \<le> i" "i < length c" for i
  proof (cases "i < length b")
    case True
    then have "ok (b ! i) \<or> led svc b i" using assms(1) that(1) by (simp add: reached_def)
    moreover have "c ! i = b ! i" "c ! (i - 1) = b ! (i - 1)" using same True by simp_all
    then have "led svc c i = led svc b i" by (simp only: led_def)
    ultimately show ?thesis using \<open>c ! i = b ! i\<close> by simp
  next
    case False
    then show ?thesis using assms(2) that(2) by (simp add: reached_def)
  qed
  then show ?thesis using b c by (simp add: reached_def)
qed

lemma reached_mono: "reached svc p a b \<Longrightarrow> (\<And>r. p r \<Longrightarrow> q r) \<Longrightarrow> reached svc q a b"
  by (auto simp: reached_def)

text \<open>What \<open>client.Do\<close> sends: the request, and the requests its redirects lead to.\<close>

lemma reached_clientDo:
  "ok req \<or> led svc (sent @ [req]) (length sent) \<Longrightarrow> reached svc ok sent (snd (clientDo n svc sent req))"
proof (induction n arbitrary: sent req)
  case (Suc n)
  have first: "reached svc ok sent (sent @ [req])" using Suc.prems by (simp add: reached_def)
  have "reached svc ok (sent @ [req]) (snd (clientDo n svc (sent @ [req]) (redirected resp url req)))"
    if "svc (length sent) req = Some resp" "redirects resp" "mp_Location resp = Some url" for resp url
    by (rule Suc.IH) (use that in \<open>simp add: led_def redirected_def nth_append\<close>)
  then show ?case using first reached_trans [OF first] by (auto simp: Let_def split: option.split)
qed (simp add: reached_refl)

definition below :: "string \<Rightarrow> metadataRequest \<Rightarrow> bool" where
  "below base r \<longleftrightarrow> has_prefix (mr_URL r) (base @ [SLASH])"

lemma reached_fetch:
  "reached svc (below base) sent (snd (fetchMetadata svc sent verb (base @ SLASH # path) headers))"
  unfolding snd_fetchMetadata by (rule reached_clientDo) (simp add: below_def)

definition addressed :: "metadataService \<Rightarrow> ec2Client \<Rightarrow> ec2Client \<Rightarrow> bool" where
  "addressed svc ec ec' \<longleftrightarrow>
     ec_baseURL ec' = ec_baseURL ec \<and> reached svc (below (ec_baseURL ec)) (ec_sent ec) (ec_sent ec')"

lemma addressed_trans: "addressed svc a b \<Longrightarrow> addressed svc b c \<Longrightarrow> addressed svc a c"
  by (auto simp: addressed_def intro: reached_trans)

lemma addressed_fetch: "addressed svc ec (snd (ec2Fetch svc ec verb path headers))"
  using reached_fetch [of svc "ec_baseURL ec" "ec_sent ec" verb path headers]
  by (simp add: addressed_def ec2Fetch_def case_prod_beta)

lemma addressed_token: "addressed svc ec (snd (requestToken svc clock ec))"
proof -
  have "addressed svc ec ec1 \<Longrightarrow> addressed svc ec (ec1\<lparr>ec_readings := r, ec_token := t, ec_tokenUntil := u\<rparr>)" for ec1 r t u
    by (simp add: addressed_def)
  then show ?thesis
    using addressed_fetch by (simp add: requestToken_def Let_def case_prod_beta readClock_def split: option.split)
qed

lemma addressed_raw: "addressed svc ec (snd (getRaw svc clock ec path))"
proof -
  have "addressed svc ec (ec\<lparr>ec_readings := r\<rparr>)" for r by (simp add: addressed_def reached_refl)
  then have "addressed svc ec (snd (v2Token svc clock ec))"
    using addressed_token addressed_trans by (fastforce simp: v2Token_def readClock_def)
  then show ?thesis using addressed_trans addressed_fetch by (simp add: getRaw_def case_prod_beta)
qed

interpretation addressing: client_step svc clock "addressed svc" for svc clock
  by unfold_locales (auto simp: addressed_raw intro: addressed_trans, simp add: addressed_def reached_refl)

lemma snd_ec2Facts:
  "snd (ec2Facts h svc clock (Some ec) virt) =
     (if awsHypervisor (vz_Name virt) then ec_sent (snd (userdata svc clock (snd (ec2Metadata svc clock ec)))) else ec_sent ec)"
  by (simp add: ec2Facts_def Let_def case_prod_beta)

lemma reached_ec2Facts:
  "reached svc (below (ec_baseURL ec)) (ec_sent ec) (snd (ec2Facts h svc clock (Some ec) virt))"
  using addressing.whole [where svc = svc and clock = clock and ec = ec] by (simp add: snd_ec2Facts addressed_def reached_refl)

lemma reached_azureFacts: "reached svc (below base) sent (snd (azureFacts svc unmarshal (Some base) virt sent))"
proof -
  have "snd (azureMetadata svc unmarshal base sent) =
      snd (fetchMetadata svc sent ''GET'' (base @ ''/metadata/instance?api-version='' @ azureAPIVersion) [(''Metadata'', ''true'')])"
    by (simp add: azureMetadata_def split: prod.split option.split)
  then show ?thesis
    using reached_fetch [of svc base sent "''GET''" "''metadata/instance?api-version='' @ azureAPIVersion"]
    by (simp add: azureFacts_def case_prod_beta reached_refl)
qed

lemma reached_gceQuery: "reached svc (below base) sent (snd (gceQuery svc unmarshal on (Some base) sent))"
proof -
  have "snd (gceMetadata svc unmarshal base sent) = snd (gceGet svc base sent ''?recursive=true&alt=json'')"
    by (simp add: gceMetadata_def split: prod.split option.split)
  moreover have "snd (gceGet svc base sent path) = snd (fetchMetadata svc sent ''GET'' (base @ SLASH # path)
      [(''Metadata-Flavor'', ''Google''), (''Accept'', ''application/json'')])" for path
    by (simp add: gceGet_def split: prod.split option.split)
  ultimately show ?thesis
    using reached_fetch [of svc base sent "''GET''" "''?recursive=true&alt=json''"]
    by (simp add: gceQuery_def case_prod_beta reached_refl)
qed

lemma reached_platformGCEFacts: "reached svc (below base) sent (snd (platformGCEFacts svc unmarshal goos virt vendor (Some base) sent))"
  by (simp add: platformGCEFacts_def linuxGCEFacts_def reached_gceQuery reached_refl)

lemma base_URLs [simp]:
  "trim_right ec2MetadataBaseURL [SLASH] = ec2MetadataBaseURL" "trim_right gceMetadataBaseURL [SLASH] = gceMetadataBaseURL"
  "trim_right azureMetadataBaseURL [SLASH] = azureMetadataBaseURL"
  by code_simp+

text \<open>C36: The cloud resolvers send a request only below one of the three metadata base URLs, or where a
  redirect leads: every request of a discovery that is not below a base URL has the URL that the
  answer to the request sent just before it, a redirect with a location, names, and carries the
  headers of that request. This holds whatever the services answer and whatever paths they list; nothing
  confines what a redirect may name.\<close>

theorem cloudFacts_addressed:
  "let sent = snd (cloudFacts h svc clock unmarshal virt dmi)
   in list_all (\<lambda>i. list_ex (\<lambda>base. below base (sent ! i)) [azureMetadataBaseURL, ec2MetadataBaseURL, gceMetadataBaseURL] \<or>
        led svc sent i) [0..<length sent]"
proof -
  let ?ok = "\<lambda>r. list_ex (\<lambda>base. below base r) [azureMetadataBaseURL, ec2MetadataBaseURL, gceMetadataBaseURL]"
  let ?s1 = "snd (azureFacts svc unmarshal (Some azureMetadataBaseURL) virt [])"
  let ?s2 = "snd (ec2Facts h svc clock (Some (newEC2Client ec2MetadataBaseURL ?s1)) virt)"
  let ?s3 = "snd (platformGCEFacts svc unmarshal (ho_goos h) virt (dmiBIOSVendor dmi) (Some gceMetadataBaseURL) ?s2)"
  have "reached svc ?ok [] ?s1" by (rule reached_mono [OF reached_azureFacts]) simp
  moreover have "reached svc ?ok ?s1 ?s2"
    using reached_ec2Facts [where ec = "newEC2Client ec2MetadataBaseURL ?s1" and h = h and svc = svc and clock = clock and virt = virt]
    by (auto simp: newEC2Client_def elim!: reached_mono)
  moreover have "reached svc ?ok ?s2 ?s3" by (rule reached_mono [OF reached_platformGCEFacts]) simp
  ultimately have "reached svc ?ok [] ?s3" by (blast intro: reached_trans)
  then show ?thesis
    by (simp add: cloudFacts_def newAzureClient_def newGCEClient_def case_prod_beta reached_def list_all_iff Let_def)
qed

text \<open>A redirect takes a request, with the token it carries, to any host; and one call of
  \<open>fetchMetadata\<close> is then more than one request.\<close>

lemma redirect_leaves_host:
  "let answer = \<lparr>mp_StatusCode = 302, mp_Header = [(''Location'', ''//example.org/'')], mp_Location = Some ''http://example.org/'',
         mp_Body = [], mp_Broken = False\<rparr>;
       page = \<lparr>mp_StatusCode = 200, mp_Header = [], mp_Location = None, mp_Body = ''page'', mp_Broken = False\<rparr>;
       sent = snd (fetchMetadata (\<lambda>k r. Some (if k = 0 then answer else page)) [] ''GET'' (ec2MetadataBaseURL @ ''/user-data/'')
         [(''X-aws-ec2-metadata-token'', ''T'')])
   in map mr_URL sent = [''http://169.254.169.254/latest/user-data/'', ''http://example.org/''] \<and>
      map mr_Headers sent = replicate 2 [(''X-aws-ec2-metadata-token'', ''T'')]"
  by (simp add: snd_fetchMetadata numeral_eq_Suc Let_def redirects_def redirected_def ec2MetadataBaseURL_def
      sget_def)

subsection \<open>Tokens\<close>

definition tokenHeader :: "string \<Rightarrow> string gomap" where
  "tokenHeader token = [(''X-aws-ec2-metadata-token'', token)]"

definition carries :: "string \<Rightarrow> metadataRequest \<Rightarrow> bool" where
  "carries token r \<longleftrightarrow> mr_Method r = ''GET'' \<and> mr_Headers r = tokenHeader token"

text \<open>While the clock stays before the expiry, the client keeps its token and sends only requests that carry it.\<close>

definition tokenKept :: "(nat \<Rightarrow> int) \<Rightarrow> ec2Client \<Rightarrow> ec2Client \<Rightarrow> bool" where
  "tokenKept clock ec ec' \<longleftrightarrow> ec_token ec \<noteq> [] \<longrightarrow> (\<forall>k. clock k < ec_tokenUntil ec) \<longrightarrow>
     ec_token ec' = ec_token ec \<and> ec_tokenUntil ec' = ec_tokenUntil ec \<and>
     grows (carries (ec_token ec)) (ec_sent ec) (ec_sent ec')"

lemma tokenKept_trans: "tokenKept clock a b \<Longrightarrow> tokenKept clock b c \<Longrightarrow> tokenKept clock a c"
  by (auto simp: tokenKept_def intro: grows_trans)

lemma carries_clientDo:
  "grows (carries token) sent (snd (clientDo n svc sent \<lparr>mr_Method = ''GET'', mr_URL = url, mr_Headers = tokenHeader token\<rparr>))"
  by (rule grows_clientDo) (simp_all add: carries_def redirected_def)

lemma tokenKept_raw: "tokenKept clock ec (snd (getRaw svc clock ec path))"
  unfolding tokenKept_def
proof (intro impI)
  assume token: "ec_token ec \<noteq> []" "\<forall>k. clock k < ec_tokenUntil ec"
  then have "getRaw svc clock ec path =
      ec2Fetch svc (ec\<lparr>ec_readings := ec_readings ec + 1\<rparr>) ''GET'' path (tokenHeader (ec_token ec))"
    by (simp add: getRaw_def v2Token_def readClock_def tokenHeader_def)
  then have "snd (getRaw svc clock ec path) = ec\<lparr>ec_readings := ec_readings ec + 1,
      ec_sent := snd (clientDo 10 svc (ec_sent ec)
        \<lparr>mr_Method = ''GET'', mr_URL = ec_baseURL ec @ SLASH # path, mr_Headers = tokenHeader (ec_token ec)\<rparr>)\<rparr>"
    by (simp add: snd_ec2Fetch)
  then show "ec_token (snd (getRaw svc clock ec path)) = ec_token ec \<and>
      ec_tokenUntil (snd (getRaw svc clock ec path)) = ec_tokenUntil ec \<and>
      grows (carries (ec_token ec)) (ec_sent ec) (ec_sent (snd (getRaw svc clock ec path)))"
    using carries_clientDo [of "ec_token ec" "ec_sent ec" 10 svc] by simp
qed

interpretation token_keeping: client_step svc clock "tokenKept clock" for svc clock
  by unfold_locales (auto simp: tokenKept_raw intro: tokenKept_trans, simp add: tokenKept_def grows_refl)

text \<open>C38: An EC2 client with a token asks for no other while the clock stays before the token's
  expiry: the walk of the metadata tree and the user data are GET requests that carry it.\<close>

theorem token_reused:
  assumes "ec_token ec \<noteq> []" and "\<And>k. clock k < ec_tokenUntil ec"
  shows "let ec' = snd (userdata svc clock (snd (ec2Metadata svc clock ec)))
         in ec_token ec' = ec_token ec \<and>
            list_all (carries (ec_token ec)) (drop (length (ec_sent ec)) (ec_sent ec'))"
  using token_keeping.whole [of clock ec svc] assms by (simp add: tokenKept_def grows_def)

theorem token_reused_witness:
  "let ec = (newEC2Client ec2MetadataBaseURL [])\<lparr>ec_token := ''T'', ec_tokenUntil := 1\<rparr>;
       ec' = snd (userdata (\<lambda>k r. None) (\<lambda>k. 0) (snd (ec2Metadata (\<lambda>k r. None) (\<lambda>k. 0) ec)))
   in ec_token ec' = ''T'' \<and> list_all (carries ''T'') (drop 0 (ec_sent ec'))"
  using token_reused [of "(newEC2Client ec2MetadataBaseURL [])\<lparr>ec_token := ''T'', ec_tokenUntil := 1\<rparr>" "\<lambda>k. 0" "\<lambda>k r. None"]
  by (simp add: newEC2Client_def Let_def)

subsection \<open>Failing closed\<close>

lemma fetchMetadata_refused:
  assumes "\<And>k req resp. svc k req = Some resp \<Longrightarrow> mp_StatusCode resp \<noteq> 200"
  shows "fst (fetchMetadata svc sent verb url headers) = None"
proof -
  have got: "fst (clientDo n svc sent req) = Some resp \<Longrightarrow> \<exists>k r. svc k r = Some resp" for n sent req resp
    by (induction n arbitrary: sent req) (auto simp: Let_def split: option.splits if_splits)
  have "mp_StatusCode resp \<noteq> 200" if "clientDo n svc sent req = (Some resp, sent')" for n sent req resp sent'
    using got [of n sent req resp] assms that by auto
  then show ?thesis by (auto simp: fetchMetadata_def split: prod.split option.split)
qed

text \<open>C37: The cloud resolvers fail closed: when no request is answered with status 200, every cloud
  fact is nil, on every platform and hypervisor, so no \<open>cloud.provider\<close> is reported.\<close>

theorem cloudFacts_fail_closed:
  assumes "\<And>k req resp. svc k req = Some resp \<Longrightarrow> mp_StatusCode resp \<noteq> 200"
  shows "list_all (\<lambda>f. rf_Value f = GNil) (fst (cloudFacts h svc clock unmarshal virt dmi))"
proof -
  have "fst (fetchMetadata svc sent verb url headers) = None" for sent verb url headers
    by (rule fetchMetadata_refused [of svc]) (rule assms)
  then obtain requests where
    refused: "\<And>sent verb url headers. fetchMetadata svc sent verb url headers = (None, requests sent verb url headers)"
    using that [of "\<lambda>sent verb url headers. snd (fetchMetadata svc sent verb url headers)"] by (simp add: prod_eq_iff)
  have raw: "fst (getRaw svc clock ec path) = None" for ec path
    by (simp add: getRaw_def ec2Fetch_def refused case_prod_beta)
  then have "fst (fetchMetadataPath svc clock path 0 ec) = Some (GStr [])" for path ec
    by (subst fetchMetadataPath.simps) (simp add: ec2Get_def case_prod_beta)
  then have "fst (ec2Metadata svc clock ec) = []" for ec
    by (simp add: ec2Metadata_def split: prod.split option.split gval.split) (metis fst_conv gval.distinct option.inject)
  moreover have "fst (userdata svc clock ec) = []" for ec by (simp add: userdata_def case_prod_beta raw)
  moreover have "fst (azureMetadata svc unmarshal base sent) = []" for base sent
    by (simp add: azureMetadata_def refused)
  moreover have "fst (gceMetadata svc unmarshal base sent) = []" for base sent
    by (simp add: gceMetadata_def gceGet_def refused)
  ultimately show ?thesis
    by (simp add: cloudFacts_def azureFacts_def ec2Facts_def platformGCEFacts_def linuxGCEFacts_def gceQuery_def gceAnswer_def
        cloudProviderFact_def cloudProviderFactForPlatform_def linuxAWSCloudProvider_def case_prod_beta Let_def)
qed

theorem cloudFacts_fail_closed_witness:
  "\<forall>h. list_all (\<lambda>f. rf_Value f = GNil)
     (fst (cloudFacts h (\<lambda>k req. Some \<lparr>mp_StatusCode = 404, mp_Header = [], mp_Location = None, mp_Body = ''no'', mp_Broken = False\<rparr>) (\<lambda>k. 0)
       (\<lambda>s. None) \<lparr>vz_Name = ''xenhvm'', vz_IsVirtual = True, vz_Unknown = False\<rparr> []))"
  by (intro allI cloudFacts_fail_closed) auto

subsection \<open>How deep a document is\<close>

text \<open>A tree of strings and maps with distinct keys, of at most n levels of maps.\<close>

fun fits :: "nat \<Rightarrow> gval \<Rightarrow> bool" where
  "fits n (GMap m) \<longleftrightarrow> (case n of 0 \<Rightarrow> False | Suc k \<Rightarrow> distinct (map fst m) \<and> list_all (\<lambda>kv. fits k (snd kv)) m)"
| "fits n (GStr s) \<longleftrightarrow> True"
| "fits n _ \<longleftrightarrow> False"

lemma fits_put: "fits (Suc n) (GMap m) \<Longrightarrow> fits n v \<Longrightarrow> fits (Suc n) (GMap (mput k v m))"
  by (induction m) (auto simp: list_all_iff distinct_update)

lemma fits_children:
  assumes "\<And>child ec v. fst (f child ec) = Some v \<Longrightarrow> fits n v" "fits (Suc n) (GMap result)"
  shows "fits (Suc n) (GMap (fst (foldl (\<lambda>(result, ec) child.
      let (v, ec') = f child ec in (case v of None \<Rightarrow> result | Some x \<Rightarrow> mput (trim_suffix child [SLASH]) x result, ec'))
    (result, ec) cs)))"
  using assms(2)
proof (induction cs arbitrary: result ec)
  case (Cons c cs)
  obtain v ec' where f: "f c ec = (v, ec')" by (cases "f c ec")
  then have "fits (Suc n) (GMap (case v of None \<Rightarrow> result | Some x \<Rightarrow> mput (trim_suffix c [SLASH]) x result))"
    using Cons.prems assms(1) [of c ec] by (auto simp del: fits.simps split: option.split intro: fits_put)
  from Cons.IH [OF this, of ec'] show ?case by (simp add: f del: fits.simps)
qed simp

lemma fetch_fits:
  "fst (fetchMetadataPath svc clock path depth ec) = Some v \<Longrightarrow> fits (ec2MaxDepth + 1 - depth) v"
proof (induction "ec2MaxDepth + 1 - depth" arbitrary: path depth ec v rule: less_induct)
  case less
  show ?case
  proof (cases "depth > ec2MaxDepth")
    case True
    with less.prems show ?thesis by (subst (asm) fetchMetadataPath.simps) simp
  next
    case False
    then obtain n where n: "ec2MaxDepth + 1 - depth = Suc n" "n = ec2MaxDepth + 1 - (depth + 1)" by auto
    have deeper: "fits n x" if "fst (fetchMetadataPath svc clock p (depth + 1) e) = Some x" for p e x
      using less.hyps [OF _ that] n by simp
    have empty: "fits (Suc n) (GMap [])" by simp
    show ?thesis
      using less.prems False fits_children [of "\<lambda>child. fetchMetadataPath svc clock (path @ child) (depth + 1)", OF deeper empty]
      unfolding n(1)
      by (subst (asm) fetchMetadataPath.simps)
        (auto simp: case_prod_beta Let_def simp del: fits.simps(1) split: if_splits option.splits)
  qed
qed

text \<open>C39: The EC2 metadata tree has at most \<open>ec2MaxDepth + 1\<close> levels of maps, with distinct keys, even
  when the service lists directories without end.\<close>

theorem ec2Metadata_bounded: "fits (ec2MaxDepth + 1) (GMap (fst (ec2Metadata svc clock ec)))"
  using fetch_fits [of svc clock "''meta-data/''" 0 ec]
  by (auto simp: ec2Metadata_def ec2MaxDepth_def numeral_eq_Suc split: prod.split option.split gval.split)

end
