(* ===== verification/Core_Resolvers.thy ===== *)
theory Core_Resolvers
  imports Fact_Groups Memory Packages_Mac Cloud
begin

text \<open>
  The descriptor table of \<open>internal/engine/descriptors.go\<close> filled with the resolvers of the other
  theories: the probes of one host, the build they are run in, and what every descriptor may
  emit. What lies outside the host (interfaces, the metadata services and their clock, the
  decoders, the character maps) is a record.
\<close>

record resolverWorld =
  rw_net :: hostNet
  rw_charmaps :: charmaps
  rw_geom :: geom_decoder
  rw_json :: json_decoder
  rw_service :: metadataService
  rw_clock :: "nat \<Rightarrow> int"
  rw_Version :: string

definition hostProbes :: "hostOS \<Rightarrow> resolverWorld \<Rightarrow> virtualization \<Rightarrow> (string \<times> ResolvedFact list) list" where
  "hostProbes h w virt =
     [(''networkingCoreFacts'', networkingCoreFacts h (rw_net w)),
      (''processorsCoreFacts'', processorsCoreFacts h),
      (''memoryCoreFacts'', memoryCoreFacts h),
      (''osCoreFacts'', osCoreFacts h),
      (''dmiCoreFacts'', dmiCoreFacts h),
      (''disksCoreFacts'', disksCoreFacts h (rw_geom w)),
      (''sshCoreFacts'', sshCoreFacts h),
      (''identityCoreFacts'', identityCoreFacts h),
      (''uptimeCoreFacts'', uptimeCoreFacts h),
      (''selinuxCoreFacts'', selinuxCoreFacts h),
      (''fipsCoreFacts'', fipsCoreFacts h),
      (''timezoneCoreFacts'', timezoneCoreFacts (rw_charmaps w) h),
      (''augeasCoreFacts'', augeasCoreFacts h),
      (''xenCoreFacts'', xenCoreFacts h),
      (''packagesCoreFacts'', packagesCoreFacts h),
      (''currentLinuxHypervisorFacts'', currentLinuxHypervisorFacts h),
      (''currentWindowsHypervisorFacts'', currentWindowsHypervisorFacts h),
      (''azureFacts'', fst (azureFacts (rw_service w) (rw_json w) (Some (newAzureClient azureMetadataBaseURL)) virt [])),
      (''ec2Facts'', fst (ec2Facts h (rw_service w) (rw_clock w) (Some (newEC2Client ec2MetadataBaseURL [])) virt)),
      (''platformGCEFacts'', fst (platformGCEFacts (rw_service w) (rw_json w) (ho_goos h) virt
         (dmiBIOSVendor (dmiFact ''/sys/class/dmi/id'' (ho_readFile h))) (Some (newGCEClient gceMetadataBaseURL)) []))]"

text \<open>\<open>newCoreFactBuild\<close> on a session's host.\<close>

definition hostBuild :: "hostOS \<Rightarrow> resolverWorld \<Rightarrow> coreFactBuild" where
  "hostBuild h w =
     (let virt = detectVirtualization h
      in newCoreFactBuild (ho_goos h) (envValue (ho_environ h) (ho_goos h)) virt (rw_Version w)
           (\<lambda>name. case map_of (hostProbes h w virt) name of None \<Rightarrow> [] | Some facts \<Rightarrow> facts))"

section \<open>Declared roots\<close>

definition rooted :: "string list \<Rightarrow> ResolvedFact list \<Rightarrow> bool" where
  "rooted roots facts \<longleftrightarrow> list_all (\<lambda>f. factRoot (rf_Name f) \<in> set roots) facts"

lemma rooted_simps [simp]:
  "rooted roots []"
  "rooted roots (core_fact n v # fs) \<longleftrightarrow> factRoot n \<in> set roots \<and> rooted roots fs"
  "rooted roots (fs @ gs) \<longleftrightarrow> rooted roots fs \<and> rooted roots gs"
  by (auto simp: rooted_def core_fact_def)

lemma rooted_if: "rooted roots fs \<Longrightarrow> rooted roots gs \<Longrightarrow> rooted roots (if c then fs else gs)"
  by simp

lemma rooted_option: "rooted roots fs \<Longrightarrow> (\<And>x. rooted roots (g x)) \<Longrightarrow> rooted roots (case v of None \<Rightarrow> fs | Some x \<Rightarrow> g x)"
  by (simp split: option.split)

lemma factRoot_simps [simp]: "factRoot [] = []" "factRoot (c # s) = (if c = DOT then [] else c # factRoot s)"
  by (simp_all add: factRoot_def)

lemma rooted_networking: "rooted [''networking''] (networkingCoreFacts h net)"
  by (simp add: networkingCoreFacts_def plan9NetworkingCoreFacts_def Let_def case_prod_beta split: option.split)

lemma rooted_processors: "rooted [''processors''] (processorsCoreFacts h)"
  by (simp add: processorsCoreFacts_def plan9ProcessorsCoreFacts_def processorSpeedFacts_def Let_def case_prod_beta)

lemma rooted_memory: "rooted [''memory''] (memoryCoreFacts h)"
  by (simp add: memoryCoreFacts_def plan9MemoryCoreFacts_def Let_def)

lemma rooted_packages: "rooted [''packages''] (packagesCoreFacts h)"
  by (simp add: packagesCoreFacts_def Let_def)

lemma rooted_identity: "rooted [''identity''] (identityCoreFacts h)"
  by (simp add: identityCoreFacts_def)

lemma rooted_timezone: "rooted [''timezone''] (timezoneCoreFacts c h)"
  by (simp add: timezoneCoreFacts_def)

lemma rooted_ssh: "rooted [''ssh''] (sshCoreFacts h)"
  by (simp add: sshCoreFacts_def sshFactsForPlatformWithPrivilege_def sshFactsForPlatform_def Let_def)

lemma rooted_fips: "rooted [''fips_enabled''] (fipsCoreFacts h)"
  by (simp add: fipsCoreFacts_def fipsEnabledFacts_def)

lemma rooted_augeas: "rooted [''augeas''] (augeasCoreFacts h)"
  by (simp add: augeasCoreFacts_def augeasVersionFacts_def)

lemma rooted_xen: "rooted [''xen''] (xenCoreFacts h)"
  by (simp add: xenCoreFacts_def xenFacts_def Let_def)

lemma rooted_azure: "rooted [''az_metadata'', ''cloud''] (fst (azureFacts svc unmarshal client virt sent))"
  by (simp add: azureFacts_def case_prod_beta Let_def split: option.split)

lemma rooted_ec2: "rooted [''cloud'', ''ec2_metadata'', ''ec2_userdata''] (fst (ec2Facts h svc clock client virt))"
  by (simp add: ec2Facts_def cloudProviderFact_def cloudProviderFactForPlatform_def case_prod_beta Let_def split: option.split)

lemma rooted_gce: "rooted [''cloud'', ''gce''] (fst (platformGCEFacts svc unmarshal goos virt vendor client sent))"
  by (simp add: platformGCEFacts_def linuxGCEFacts_def gceQuery_def gceAnswer_def case_prod_beta Let_def split: option.split)

lemma rooted_stringFacts [simp]: "list_all (\<lambda>e. factRoot (fst e) \<in> set roots) table \<Longrightarrow> rooted roots (stringFacts table)"
  by (auto simp: stringFacts_def rooted_def core_fact_def list_all_iff)

lemma rooted_selinux: "rooted [''os''] (selinuxCoreFacts h)"
  unfolding selinuxCoreFacts_def selinuxFactsForPlatform_def selinuxFacts_def Let_def case_prod_beta
  by (intro rooted_if) (simp_all split: option.split)

lemma rooted_dmi: "rooted [''dmi''] (dmiCoreFacts h)"
  by (simp add: dmiCoreFacts_def dmiFacts_def macOSDMIFacts_def windowsDMIFacts_def currentFreeBSDDMIFacts_def
      currentDragonFlyDMIFacts_def currentOpenBSDDMIFacts_def currentNetBSDDMIFacts_def currentIllumosDMIFacts_def
      freeBSDDMIFacts_def openBSDDMIFacts_def netBSDDMIFacts_def illumosDMIFacts_def dragonFlyDMIDecodeFacts_def Let_def)

lemma rooted_uptime: "rooted [''load_averages'', ''system_uptime''] (uptimeCoreFacts h)"
  by (simp add: uptimeCoreFacts_def plan9UptimeCoreFacts_def uptimeFacts_def uptimeNumbers_def Let_def)

lemma rooted_linux_hypervisors: "rooted [''hypervisors''] (currentLinuxHypervisorFacts h)"
  unfolding currentLinuxHypervisorFacts_def linuxHypervisorFacts_def Let_def
  by (intro rooted_if rooted_option) simp_all

lemma rooted_windows_hypervisors: "rooted [''hypervisors''] (currentWindowsHypervisorFacts h)"
  by (simp add: currentWindowsHypervisorFacts_def windowsHypervisorFacts_def Let_def)

lemma rooted_disks: "rooted [''disks'', ''mountpoints'', ''partitions'', ''zfs'', ''zpool''] (disksCoreFacts h unmarshal)"
  by (simp add: disksCoreFacts_def mountpointsFacts_def currentZFSFacts_def disksFacts_def partitionsFacts_def
      nonemptyFact_def zfsFactsFromUpgradeOutput_def zpoolFactsFromUpgradeOutput_def Let_def split: option.split)

lemma rooted_os_parts:
  "rooted [''filesystems'', ''kernel'', ''os'', ''system_profiler''] (kernelFacts name release version)"
  "rooted [''filesystems'', ''kernel'', ''os'', ''system_profiler''] (filesystemsFacts fs)"
  "rooted [''filesystems'', ''kernel'', ''os'', ''system_profiler''] (linuxDistroFacts d)"
  "rooted [''filesystems'', ''kernel'', ''os'', ''system_profiler''] (macOSVersionFacts pv pe)"
  "rooted [''filesystems'', ''kernel'', ''os'', ''system_profiler''] (macOSSystemProfilerFacts hw)"
  "rooted [''filesystems'', ''kernel'', ''os'', ''system_profiler''] (macOSSystemProfilerSoftwareFacts sw)"
  "rooted [''filesystems'', ''kernel'', ''os'', ''system_profiler''] (macOSSystemProfilerEthernetFacts e)"
  "rooted [''filesystems'', ''kernel'', ''os'', ''system_profiler''] (windowsSystem32Facts path)"
  "rooted [''filesystems'', ''kernel'', ''os'', ''system_profiler''] (windowsProductReleaseFacts wp)"
  "rooted [''filesystems'', ''kernel'', ''os'', ''system_profiler''] (macOSStringFact ''os.macosx.product'' v)"
  "rooted [''filesystems'', ''kernel'', ''os'', ''system_profiler''] (macOSStringFact ''os.macosx.build'' v)"
  by (simp_all add: kernelFacts_def filesystemsFacts_def linuxDistroFacts_def macOSVersionFacts_def
      macOSStringFact_def macOSSystemProfilerFacts_def macOSSystemProfilerSoftwareFacts_def
      macOSSystemProfilerEthernetFacts_def windowsSystem32Facts_def windowsProductReleaseFacts_def case_prod_beta
      split: option.split)

lemma rooted_os: "rooted [''filesystems'', ''kernel'', ''os'', ''system_profiler''] (osCoreFacts h)"
  unfolding osCoreFacts_def Let_def case_prod_beta
  by (rule rooted_if; simp add: rooted_os_parts)

lemmas rooted_resolvers = rooted_networking rooted_processors rooted_memory rooted_os rooted_dmi rooted_disks rooted_ssh
  rooted_identity rooted_uptime rooted_selinux rooted_fips rooted_timezone rooted_augeas rooted_xen rooted_packages
  rooted_linux_hypervisors rooted_windows_hypervisors rooted_azure rooted_ec2 rooted_gce

lemma hostBuild_sel:
  "cb_probe (hostBuild h w) name =
     (case map_of (hostProbes h w (detectVirtualization h)) name of None \<Rightarrow> [] | Some facts \<Rightarrow> facts)"
  by (simp add: hostBuild_def newCoreFactBuild_def Let_def case_prod_beta)

lemma hostBuild_rooted:
  "list_all (\<lambda>d. rooted (cd_emittedRoots d) (cd_assemble d (hostBuild h w))) coreFactDescriptors"
  unfolding coreFactDescriptors_def
  by (simp add: hostBuild_sel) (simp add: hostProbes_def rooted_resolvers)

lemma host_emits_declared_roots:
  "list_all (\<lambda>d. list_all (\<lambda>f. factRoot (rf_Name f) \<in> set (cd_emittedRoots d)) (cd_assemble d (hostBuild h w)))
     coreFactDescriptors"
  using hostBuild_rooted [of h w] by (simp add: rooted_def)

text \<open>C8: Gating is invisible on every host: every resolver emits facts of its declared roots only,
  so skipping the categories whose roots are all disabled and then filtering gives the facts
  that resolving every category and then filtering gives.\<close>

theorem host_gating_invisible:
  "FilterDisabledFacts (buildCoreFacts (hostBuild h w) disabled) disabled =
   FilterDisabledFacts (buildCoreFacts (hostBuild h w) []) disabled"
  by (rule gating_invisible) (use hostBuild_rooted [of h w] in \<open>auto simp: list_all_iff rooted_def\<close>)

end
