(* ===== verification/Session.thy ===== *)
theory Session
  imports Core_Resolvers
begin

text \<open>
  The memo cells of a session, \<open>internal/engine/session.go\<close>: every probe that several resolvers share
  runs at most once per session, and its first answer is the session's answer. The other theories
  call the probes directly; the lemmas here say that over one host the cells make no difference.
\<close>

section \<open>Cells\<close>

text \<open>\<open>memo[T].get\<close>: the cell is empty before its first call.\<close>

definition memo_get :: "'a \<Rightarrow> 'a option \<Rightarrow> 'a \<times> 'a option" where
  "memo_get probe cell = (case cell of Some v \<Rightarrow> (v, cell) | None \<Rightarrow> (probe, Some probe))"

record session =
  sn_augeasVersion :: "string option"
  sn_architectureName :: "string option"
  sn_kernelRelease :: "string option"
  sn_hardwareModel :: "string option"
  sn_macOSModel :: "string option"
  sn_oSRelease :: "gval option"
  sn_windowsOSVersionInput :: "string option"
  sn_macOSInfo :: "macOSInfo option"
  sn_macOSSystemProfilerHardware :: "macOSSystemProfilerHardware option"
  sn_macOSSystemProfilerSoftware :: "macOSSystemProfilerSoftware option"
  sn_macOSSystemProfilerEthernet :: "macOSSystemProfilerEthernet option"
  sn_linuxDistro :: "linuxDistro option"
  sn_totalPhysicalMemoryBytes :: "int option"
  sn_availablePhysicalMemoryBytes :: "int option"
  sn_totalSwapMemoryBytes :: "int option"
  sn_availableSwapMemoryBytes :: "int option"
  sn_swapEncrypted :: "bool option"
  sn_windowsMemory :: "windowsMemory option"
  sn_freeBSDMemoryInfo :: "bsdMemoryInfo option"
  sn_bsdMemoryInfo :: "bsdMemoryInfo option"
  sn_darwinSwapUsage :: "darwinSwapUsage option"
  sn_linuxMeminfo :: "string option"
  sn_processorSpeed :: "string option"
  sn_processorModels :: "(string list) option"
  sn_processorTopology :: "(int \<times> int) option"
  sn_platformProcessorInfo :: "processorInfo option"
  sn_processorExtensions :: "(string list) option"
  sn_uptime :: "uptimeInfo option"
  sn_loadAverages :: "gval option"
  sn_filesystems :: "(string list) option"
  sn_identity :: "(gval gomap) option"
  sn_dmi :: "(gval gomap) option"
  sn_linuxVirtualization :: "linuxVirtualizationInput option"
  sn_windowsVirtualization :: "windowsVirtualizationInput option"

definition NewSession :: session where
  "NewSession = \<lparr>sn_augeasVersion = None, sn_architectureName = None, sn_kernelRelease = None,
     sn_hardwareModel = None, sn_macOSModel = None, sn_oSRelease = None,
     sn_windowsOSVersionInput = None, sn_macOSInfo = None, sn_macOSSystemProfilerHardware = None,
     sn_macOSSystemProfilerSoftware = None, sn_macOSSystemProfilerEthernet = None, sn_linuxDistro = None,
     sn_totalPhysicalMemoryBytes = None, sn_availablePhysicalMemoryBytes = None, sn_totalSwapMemoryBytes = None,
     sn_availableSwapMemoryBytes = None, sn_swapEncrypted = None, sn_windowsMemory = None,
     sn_freeBSDMemoryInfo = None, sn_bsdMemoryInfo = None, sn_darwinSwapUsage = None,
     sn_linuxMeminfo = None, sn_processorSpeed = None, sn_processorModels = None,
     sn_processorTopology = None, sn_platformProcessorInfo = None, sn_processorExtensions = None,
     sn_uptime = None, sn_loadAverages = None, sn_filesystems = None,
     sn_identity = None, sn_dmi = None, sn_linuxVirtualization = None,
     sn_windowsVirtualization = None\<rparr>"

section \<open>Reads\<close>

definition cachedAugeasVersion :: "hostOS \<Rightarrow> session \<Rightarrow> string \<times> session" where
  "cachedAugeasVersion h s = (let (v, c) = memo_get (currentAugeasVersion h) (sn_augeasVersion s) in (v, s\<lparr>sn_augeasVersion := c\<rparr>))"

definition cachedArchitectureName :: "hostOS \<Rightarrow> session \<Rightarrow> string \<times> session" where
  "cachedArchitectureName h s = (let (v, c) = memo_get (probeArchitectureName h) (sn_architectureName s) in (v, s\<lparr>sn_architectureName := c\<rparr>))"

definition cachedKernelRelease :: "hostOS \<Rightarrow> session \<Rightarrow> string \<times> session" where
  "cachedKernelRelease h s = (let (v, c) = memo_get (probeKernelRelease h) (sn_kernelRelease s) in (v, s\<lparr>sn_kernelRelease := c\<rparr>))"

definition cachedHardwareModel :: "hostOS \<Rightarrow> session \<Rightarrow> string \<times> session" where
  "cachedHardwareModel h s = (let (v, c) = memo_get (probeHardwareModel h) (sn_hardwareModel s) in (v, s\<lparr>sn_hardwareModel := c\<rparr>))"

definition cachedMacOSModel :: "hostOS \<Rightarrow> session \<Rightarrow> string \<times> session" where
  "cachedMacOSModel h s = (let (v, c) = memo_get (probeMacOSModel h) (sn_macOSModel s) in (v, s\<lparr>sn_macOSModel := c\<rparr>))"

definition cachedOSRelease :: "hostOS \<Rightarrow> session \<Rightarrow> gval \<times> session" where
  "cachedOSRelease h s = (let (v, c) = memo_get (probeOSRelease h) (sn_oSRelease s) in (v, s\<lparr>sn_oSRelease := c\<rparr>))"

definition cachedWindowsOSVersionInput :: "hostOS \<Rightarrow> session \<Rightarrow> string \<times> session" where
  "cachedWindowsOSVersionInput h s = (let (v, c) = memo_get (probeWindowsOSVersionInput h) (sn_windowsOSVersionInput s) in (v, s\<lparr>sn_windowsOSVersionInput := c\<rparr>))"

definition cachedMacOSInfo :: "hostOS \<Rightarrow> session \<Rightarrow> macOSInfo \<times> session" where
  "cachedMacOSInfo h s = (let (v, c) = memo_get (probeMacOSInfo h) (sn_macOSInfo s) in (v, s\<lparr>sn_macOSInfo := c\<rparr>))"

definition cachedMacOSSystemProfilerHardware :: "hostOS \<Rightarrow> session \<Rightarrow> macOSSystemProfilerHardware \<times> session" where
  "cachedMacOSSystemProfilerHardware h s = (let (v, c) = memo_get (probeMacOSSystemProfilerHardware h) (sn_macOSSystemProfilerHardware s) in (v, s\<lparr>sn_macOSSystemProfilerHardware := c\<rparr>))"

definition cachedMacOSSystemProfilerSoftware :: "hostOS \<Rightarrow> session \<Rightarrow> macOSSystemProfilerSoftware \<times> session" where
  "cachedMacOSSystemProfilerSoftware h s = (let (v, c) = memo_get (probeMacOSSystemProfilerSoftware h) (sn_macOSSystemProfilerSoftware s) in (v, s\<lparr>sn_macOSSystemProfilerSoftware := c\<rparr>))"

definition cachedMacOSSystemProfilerEthernet :: "hostOS \<Rightarrow> session \<Rightarrow> macOSSystemProfilerEthernet \<times> session" where
  "cachedMacOSSystemProfilerEthernet h s = (let (v, c) = memo_get (probeMacOSSystemProfilerEthernet h) (sn_macOSSystemProfilerEthernet s) in (v, s\<lparr>sn_macOSSystemProfilerEthernet := c\<rparr>))"

definition cachedLinuxDistro :: "hostOS \<Rightarrow> session \<Rightarrow> linuxDistro \<times> session" where
  "cachedLinuxDistro h s = (let (v, c) = memo_get (currentLinuxDistro h) (sn_linuxDistro s) in (v, s\<lparr>sn_linuxDistro := c\<rparr>))"

definition cachedTotalPhysicalMemoryBytes :: "hostOS \<Rightarrow> session \<Rightarrow> int \<times> session" where
  "cachedTotalPhysicalMemoryBytes h s = (let (v, c) = memo_get (probeTotalPhysicalMemoryBytes h) (sn_totalPhysicalMemoryBytes s) in (v, s\<lparr>sn_totalPhysicalMemoryBytes := c\<rparr>))"

definition cachedAvailablePhysicalMemoryBytes :: "hostOS \<Rightarrow> session \<Rightarrow> int \<times> session" where
  "cachedAvailablePhysicalMemoryBytes h s = (let (v, c) = memo_get (probeAvailablePhysicalMemoryBytes h) (sn_availablePhysicalMemoryBytes s) in (v, s\<lparr>sn_availablePhysicalMemoryBytes := c\<rparr>))"

definition cachedTotalSwapMemoryBytes :: "hostOS \<Rightarrow> session \<Rightarrow> int \<times> session" where
  "cachedTotalSwapMemoryBytes h s = (let (v, c) = memo_get (probeTotalSwapMemoryBytes h) (sn_totalSwapMemoryBytes s) in (v, s\<lparr>sn_totalSwapMemoryBytes := c\<rparr>))"

definition cachedAvailableSwapMemoryBytes :: "hostOS \<Rightarrow> session \<Rightarrow> int \<times> session" where
  "cachedAvailableSwapMemoryBytes h s = (let (v, c) = memo_get (probeAvailableSwapMemoryBytes h) (sn_availableSwapMemoryBytes s) in (v, s\<lparr>sn_availableSwapMemoryBytes := c\<rparr>))"

definition cachedSwapEncrypted :: "hostOS \<Rightarrow> session \<Rightarrow> bool \<times> session" where
  "cachedSwapEncrypted h s = (let (v, c) = memo_get (probeSwapEncrypted h) (sn_swapEncrypted s) in (v, s\<lparr>sn_swapEncrypted := c\<rparr>))"

definition cachedWindowsMemory :: "hostOS \<Rightarrow> session \<Rightarrow> windowsMemory \<times> session" where
  "cachedWindowsMemory h s = (let (v, c) = memo_get (probeWindowsMemory h) (sn_windowsMemory s) in (v, s\<lparr>sn_windowsMemory := c\<rparr>))"

definition cachedFreeBSDMemoryInfo :: "hostOS \<Rightarrow> session \<Rightarrow> bsdMemoryInfo \<times> session" where
  "cachedFreeBSDMemoryInfo h s = (let (v, c) = memo_get (probeFreeBSDMemoryInfo h) (sn_freeBSDMemoryInfo s) in (v, s\<lparr>sn_freeBSDMemoryInfo := c\<rparr>))"

definition cachedBSDMemoryInfo :: "hostOS \<Rightarrow> session \<Rightarrow> bsdMemoryInfo \<times> session" where
  "cachedBSDMemoryInfo h s = (let (v, c) = memo_get (probeBSDMemoryInfo h) (sn_bsdMemoryInfo s) in (v, s\<lparr>sn_bsdMemoryInfo := c\<rparr>))"

definition cachedDarwinSwapUsage :: "hostOS \<Rightarrow> session \<Rightarrow> darwinSwapUsage \<times> session" where
  "cachedDarwinSwapUsage h s = (let (v, c) = memo_get (probeDarwinSwapUsage h) (sn_darwinSwapUsage s) in (v, s\<lparr>sn_darwinSwapUsage := c\<rparr>))"

definition cachedLinuxMeminfo :: "hostOS \<Rightarrow> session \<Rightarrow> string \<times> session" where
  "cachedLinuxMeminfo h s = (let (v, c) = memo_get (probeLinuxMeminfo h) (sn_linuxMeminfo s) in (v, s\<lparr>sn_linuxMeminfo := c\<rparr>))"

definition cachedProcessorSpeed :: "hostOS \<Rightarrow> session \<Rightarrow> string \<times> session" where
  "cachedProcessorSpeed h s = (let (v, c) = memo_get (probeProcessorSpeed h) (sn_processorSpeed s) in (v, s\<lparr>sn_processorSpeed := c\<rparr>))"

definition cachedProcessorModels :: "hostOS \<Rightarrow> session \<Rightarrow> string list \<times> session" where
  "cachedProcessorModels h s = (let (v, c) = memo_get (probeProcessorModels h) (sn_processorModels s) in (v, s\<lparr>sn_processorModels := c\<rparr>))"

definition cachedProcessorTopology :: "hostOS \<Rightarrow> session \<Rightarrow> (int \<times> int) \<times> session" where
  "cachedProcessorTopology h s = (let (v, c) = memo_get (probeProcessorTopology h) (sn_processorTopology s) in (v, s\<lparr>sn_processorTopology := c\<rparr>))"

definition cachedPlatformProcessorInfo :: "hostOS \<Rightarrow> session \<Rightarrow> processorInfo \<times> session" where
  "cachedPlatformProcessorInfo h s = (let (v, c) = memo_get (probePlatformProcessorInfo h) (sn_platformProcessorInfo s) in (v, s\<lparr>sn_platformProcessorInfo := c\<rparr>))"

definition cachedProcessorExtensions :: "hostOS \<Rightarrow> session \<Rightarrow> string list \<times> session" where
  "cachedProcessorExtensions h s = (let (v, c) = memo_get (probeProcessorExtensions h) (sn_processorExtensions s) in (v, s\<lparr>sn_processorExtensions := c\<rparr>))"

definition cachedUptime :: "hostOS \<Rightarrow> session \<Rightarrow> uptimeInfo \<times> session" where
  "cachedUptime h s = (let (v, c) = memo_get (currentUptimeInfo h (rt_now (ho_runtime h))) (sn_uptime s) in (v, s\<lparr>sn_uptime := c\<rparr>))"

definition cachedLoadAverages :: "hostOS \<Rightarrow> session \<Rightarrow> gval \<times> session" where
  "cachedLoadAverages h s = (let (v, c) = memo_get (currentLoadAverages h) (sn_loadAverages s) in (v, s\<lparr>sn_loadAverages := c\<rparr>))"

definition cachedFilesystems :: "hostOS \<Rightarrow> session \<Rightarrow> string list \<times> session" where
  "cachedFilesystems h s = (let (v, c) = memo_get (currentFilesystems h) (sn_filesystems s) in (v, s\<lparr>sn_filesystems := c\<rparr>))"

definition cachedIdentity :: "hostOS \<Rightarrow> session \<Rightarrow> gval gomap \<times> session" where
  "cachedIdentity h s = (let (v, c) = memo_get (identityFact h) (sn_identity s) in (v, s\<lparr>sn_identity := c\<rparr>))"

definition cachedDMI :: "hostOS \<Rightarrow> session \<Rightarrow> gval gomap \<times> session" where
  "cachedDMI h s = (let (v, c) = memo_get (dmiFact ''/sys/class/dmi/id'' (ho_readFile h)) (sn_dmi s) in (v, s\<lparr>sn_dmi := c\<rparr>))"

definition cachedLinuxVirtualizationInput :: "hostOS \<Rightarrow> session \<Rightarrow> linuxVirtualizationInput \<times> session" where
  "cachedLinuxVirtualizationInput h s = (let (v, c) = memo_get (currentLinuxVirtualizationInput h) (sn_linuxVirtualization s) in (v, s\<lparr>sn_linuxVirtualization := c\<rparr>))"

definition cachedWindowsVirtualizationInput :: "hostOS \<Rightarrow> session \<Rightarrow> windowsVirtualizationInput \<times> session" where
  "cachedWindowsVirtualizationInput h s = (let (v, c) = memo_get (currentWindowsVirtualizationInput (ho_goos h) (ho_run h)) (sn_windowsVirtualization s) in (v, s\<lparr>sn_windowsVirtualization := c\<rparr>))"

text \<open>The reads, each with the state it leaves.\<close>

definition sessionReads :: "(hostOS \<Rightarrow> session \<Rightarrow> session) list" where
  "sessionReads =
     [\<lambda>h s. snd (cachedAugeasVersion h s),
      \<lambda>h s. snd (cachedArchitectureName h s),
      \<lambda>h s. snd (cachedKernelRelease h s),
      \<lambda>h s. snd (cachedHardwareModel h s),
      \<lambda>h s. snd (cachedMacOSModel h s),
      \<lambda>h s. snd (cachedOSRelease h s),
      \<lambda>h s. snd (cachedWindowsOSVersionInput h s),
      \<lambda>h s. snd (cachedMacOSInfo h s),
      \<lambda>h s. snd (cachedMacOSSystemProfilerHardware h s),
      \<lambda>h s. snd (cachedMacOSSystemProfilerSoftware h s),
      \<lambda>h s. snd (cachedMacOSSystemProfilerEthernet h s),
      \<lambda>h s. snd (cachedLinuxDistro h s),
      \<lambda>h s. snd (cachedTotalPhysicalMemoryBytes h s),
      \<lambda>h s. snd (cachedAvailablePhysicalMemoryBytes h s),
      \<lambda>h s. snd (cachedTotalSwapMemoryBytes h s),
      \<lambda>h s. snd (cachedAvailableSwapMemoryBytes h s),
      \<lambda>h s. snd (cachedSwapEncrypted h s),
      \<lambda>h s. snd (cachedWindowsMemory h s),
      \<lambda>h s. snd (cachedFreeBSDMemoryInfo h s),
      \<lambda>h s. snd (cachedBSDMemoryInfo h s),
      \<lambda>h s. snd (cachedDarwinSwapUsage h s),
      \<lambda>h s. snd (cachedLinuxMeminfo h s),
      \<lambda>h s. snd (cachedProcessorSpeed h s),
      \<lambda>h s. snd (cachedProcessorModels h s),
      \<lambda>h s. snd (cachedProcessorTopology h s),
      \<lambda>h s. snd (cachedPlatformProcessorInfo h s),
      \<lambda>h s. snd (cachedProcessorExtensions h s),
      \<lambda>h s. snd (cachedUptime h s),
      \<lambda>h s. snd (cachedLoadAverages h s),
      \<lambda>h s. snd (cachedFilesystems h s),
      \<lambda>h s. snd (cachedIdentity h s),
      \<lambda>h s. snd (cachedDMI h s),
      \<lambda>h s. snd (cachedLinuxVirtualizationInput h s),
      \<lambda>h s. snd (cachedWindowsVirtualizationInput h s)]"

section \<open>Lemmas\<close>

text \<open>A cell that is filled holds what the host answers; a filled cell of one state is kept in another.\<close>

definition holds :: "'a \<Rightarrow> 'a option \<Rightarrow> bool" where "holds probe cell \<longleftrightarrow> cell = None \<or> cell = Some probe"
definition kept :: "'a option \<Rightarrow> 'a option \<Rightarrow> bool" where "kept cell cell' \<longleftrightarrow> cell = None \<or> cell' = cell"

lemma memo_get_simps [simp]:
  "holds probe cell \<Longrightarrow> fst (memo_get probe cell) = probe" "holds probe cell \<Longrightarrow> holds probe (snd (memo_get probe cell))"
  "kept cell (snd (memo_get probe cell))" "kept cell cell" "holds probe None"
  by (auto simp: memo_get_def holds_def kept_def split: option.splits)

definition sessionOf :: "hostOS \<Rightarrow> session \<Rightarrow> bool" where
  "sessionOf h s \<longleftrightarrow>
     holds (currentAugeasVersion h) (sn_augeasVersion s) \<and>
     holds (probeArchitectureName h) (sn_architectureName s) \<and>
     holds (probeKernelRelease h) (sn_kernelRelease s) \<and>
     holds (probeHardwareModel h) (sn_hardwareModel s) \<and>
     holds (probeMacOSModel h) (sn_macOSModel s) \<and>
     holds (probeOSRelease h) (sn_oSRelease s) \<and>
     holds (probeWindowsOSVersionInput h) (sn_windowsOSVersionInput s) \<and>
     holds (probeMacOSInfo h) (sn_macOSInfo s) \<and>
     holds (probeMacOSSystemProfilerHardware h) (sn_macOSSystemProfilerHardware s) \<and>
     holds (probeMacOSSystemProfilerSoftware h) (sn_macOSSystemProfilerSoftware s) \<and>
     holds (probeMacOSSystemProfilerEthernet h) (sn_macOSSystemProfilerEthernet s) \<and>
     holds (currentLinuxDistro h) (sn_linuxDistro s) \<and>
     holds (probeTotalPhysicalMemoryBytes h) (sn_totalPhysicalMemoryBytes s) \<and>
     holds (probeAvailablePhysicalMemoryBytes h) (sn_availablePhysicalMemoryBytes s) \<and>
     holds (probeTotalSwapMemoryBytes h) (sn_totalSwapMemoryBytes s) \<and>
     holds (probeAvailableSwapMemoryBytes h) (sn_availableSwapMemoryBytes s) \<and>
     holds (probeSwapEncrypted h) (sn_swapEncrypted s) \<and>
     holds (probeWindowsMemory h) (sn_windowsMemory s) \<and>
     holds (probeFreeBSDMemoryInfo h) (sn_freeBSDMemoryInfo s) \<and>
     holds (probeBSDMemoryInfo h) (sn_bsdMemoryInfo s) \<and>
     holds (probeDarwinSwapUsage h) (sn_darwinSwapUsage s) \<and>
     holds (probeLinuxMeminfo h) (sn_linuxMeminfo s) \<and>
     holds (probeProcessorSpeed h) (sn_processorSpeed s) \<and>
     holds (probeProcessorModels h) (sn_processorModels s) \<and>
     holds (probeProcessorTopology h) (sn_processorTopology s) \<and>
     holds (probePlatformProcessorInfo h) (sn_platformProcessorInfo s) \<and>
     holds (probeProcessorExtensions h) (sn_processorExtensions s) \<and>
     holds (currentUptimeInfo h (rt_now (ho_runtime h))) (sn_uptime s) \<and>
     holds (currentLoadAverages h) (sn_loadAverages s) \<and>
     holds (currentFilesystems h) (sn_filesystems s) \<and>
     holds (identityFact h) (sn_identity s) \<and>
     holds (dmiFact ''/sys/class/dmi/id'' (ho_readFile h)) (sn_dmi s) \<and>
     holds (currentLinuxVirtualizationInput h) (sn_linuxVirtualization s) \<and>
     holds (currentWindowsVirtualizationInput (ho_goos h) (ho_run h)) (sn_windowsVirtualization s)"

definition extends :: "session \<Rightarrow> session \<Rightarrow> bool" where
  "extends s t \<longleftrightarrow>
     kept (sn_augeasVersion s) (sn_augeasVersion t) \<and> kept (sn_architectureName s) (sn_architectureName t) \<and>
     kept (sn_kernelRelease s) (sn_kernelRelease t) \<and> kept (sn_hardwareModel s) (sn_hardwareModel t) \<and>
     kept (sn_macOSModel s) (sn_macOSModel t) \<and> kept (sn_oSRelease s) (sn_oSRelease t) \<and>
     kept (sn_windowsOSVersionInput s) (sn_windowsOSVersionInput t) \<and> kept (sn_macOSInfo s) (sn_macOSInfo t) \<and>
     kept (sn_macOSSystemProfilerHardware s) (sn_macOSSystemProfilerHardware t) \<and> kept (sn_macOSSystemProfilerSoftware s) (sn_macOSSystemProfilerSoftware t) \<and>
     kept (sn_macOSSystemProfilerEthernet s) (sn_macOSSystemProfilerEthernet t) \<and> kept (sn_linuxDistro s) (sn_linuxDistro t) \<and>
     kept (sn_totalPhysicalMemoryBytes s) (sn_totalPhysicalMemoryBytes t) \<and> kept (sn_availablePhysicalMemoryBytes s) (sn_availablePhysicalMemoryBytes t) \<and>
     kept (sn_totalSwapMemoryBytes s) (sn_totalSwapMemoryBytes t) \<and> kept (sn_availableSwapMemoryBytes s) (sn_availableSwapMemoryBytes t) \<and>
     kept (sn_swapEncrypted s) (sn_swapEncrypted t) \<and> kept (sn_windowsMemory s) (sn_windowsMemory t) \<and>
     kept (sn_freeBSDMemoryInfo s) (sn_freeBSDMemoryInfo t) \<and> kept (sn_bsdMemoryInfo s) (sn_bsdMemoryInfo t) \<and>
     kept (sn_darwinSwapUsage s) (sn_darwinSwapUsage t) \<and> kept (sn_linuxMeminfo s) (sn_linuxMeminfo t) \<and>
     kept (sn_processorSpeed s) (sn_processorSpeed t) \<and> kept (sn_processorModels s) (sn_processorModels t) \<and>
     kept (sn_processorTopology s) (sn_processorTopology t) \<and> kept (sn_platformProcessorInfo s) (sn_platformProcessorInfo t) \<and>
     kept (sn_processorExtensions s) (sn_processorExtensions t) \<and> kept (sn_uptime s) (sn_uptime t) \<and>
     kept (sn_loadAverages s) (sn_loadAverages t) \<and> kept (sn_filesystems s) (sn_filesystems t) \<and>
     kept (sn_identity s) (sn_identity t) \<and> kept (sn_dmi s) (sn_dmi t) \<and>
     kept (sn_linuxVirtualization s) (sn_linuxVirtualization t) \<and> kept (sn_windowsVirtualization s) (sn_windowsVirtualization t)"

lemmas cached_defs = cachedAugeasVersion_def cachedArchitectureName_def cachedKernelRelease_def cachedHardwareModel_def
  cachedMacOSModel_def cachedOSRelease_def cachedWindowsOSVersionInput_def cachedMacOSInfo_def
  cachedMacOSSystemProfilerHardware_def cachedMacOSSystemProfilerSoftware_def cachedMacOSSystemProfilerEthernet_def cachedLinuxDistro_def
  cachedTotalPhysicalMemoryBytes_def cachedAvailablePhysicalMemoryBytes_def cachedTotalSwapMemoryBytes_def cachedAvailableSwapMemoryBytes_def
  cachedSwapEncrypted_def cachedWindowsMemory_def cachedFreeBSDMemoryInfo_def cachedBSDMemoryInfo_def
  cachedDarwinSwapUsage_def cachedLinuxMeminfo_def cachedProcessorSpeed_def cachedProcessorModels_def
  cachedProcessorTopology_def cachedPlatformProcessorInfo_def cachedProcessorExtensions_def cachedUptime_def
  cachedLoadAverages_def cachedFilesystems_def cachedIdentity_def cachedDMI_def
  cachedLinuxVirtualizationInput_def cachedWindowsVirtualizationInput_def

lemma reads_extend: "list_all (\<lambda>read. extends s (read h s)) sessionReads"
  by (simp add: sessionReads_def) (simp add: extends_def cached_defs case_prod_beta)

lemma reads_session: "sessionOf h s \<Longrightarrow> list_all (\<lambda>read. sessionOf h (read h s)) sessionReads"
  by (simp add: sessionReads_def) (simp add: sessionOf_def cached_defs case_prod_beta)

lemma sessionOf_new: "sessionOf h NewSession"
  by (simp add: sessionOf_def NewSession_def)

lemma kept_trans: "kept a b \<Longrightarrow> kept b c \<Longrightarrow> kept a c"
  by (auto simp: kept_def)

lemma extends_trans: "extends a b \<Longrightarrow> extends b c \<Longrightarrow> extends a c"
  unfolding extends_def by (elim conjE, intro conjI; erule (1) kept_trans)

lemma extends_refl: "extends s s"
  by (simp add: extends_def)

text \<open>A run of reads, each on what the host is at that moment.\<close>

definition sessionRun :: "(nat \<times> hostOS) list \<Rightarrow> session \<Rightarrow> session" where
  "sessionRun trace s = foldl (\<lambda>s (i, h). if i < length sessionReads then (sessionReads ! i) h s else s) s trace"

lemma sessionRun_extends: "extends s (sessionRun trace s)"
proof (induction trace arbitrary: s)
  case (Cons x trace)
  have "extends s (sessionRun [x] s)"
    using reads_extend [of s "snd x"] extends_refl by (auto simp: sessionRun_def list_all_length split: prod.split)
  then show ?case using Cons [of "sessionRun [x] s"] by (simp add: sessionRun_def) (rule extends_trans)
qed (simp add: sessionRun_def extends_refl)

lemma sessionRun_session: "list_all (\<lambda>x. snd x = h) trace \<Longrightarrow> sessionOf h s \<Longrightarrow> sessionOf h (sessionRun trace s)"
proof (induction trace arbitrary: s)
  case (Cons x trace)
  have "sessionOf h (sessionRun [x] s)"
    using Cons.prems reads_session [of h s] by (auto simp: sessionRun_def list_all_length split: prod.split)
  then show ?case using Cons.IH [of "sessionRun [x] s"] Cons.prems(1) by (simp add: sessionRun_def)
qed (simp add: sessionRun_def)

lemma memo_kept: "kept (snd (memo_get p c)) c' \<Longrightarrow> fst (memo_get q c') = fst (memo_get p c)"
  by (auto simp: memo_get_def kept_def split: option.splits)

text \<open>C33: Within a session the first answer stands: after the identity, the DMI data or the
  virtualization input has been read once, every later read gives the same value, whatever
  other probes run in between and however the host has changed.\<close>

theorem session_first_answer:
  "fst (cachedIdentity h' (sessionRun trace (snd (cachedIdentity h s)))) = fst (cachedIdentity h s) \<and>
   fst (cachedDMI h' (sessionRun trace (snd (cachedDMI h s)))) = fst (cachedDMI h s) \<and>
   fst (cachedLinuxVirtualizationInput h' (sessionRun trace (snd (cachedLinuxVirtualizationInput h s)))) =
     fst (cachedLinuxVirtualizationInput h s) \<and>
   fst (cachedWindowsVirtualizationInput h' (sessionRun trace (snd (cachedWindowsVirtualizationInput h s)))) =
     fst (cachedWindowsVirtualizationInput h s)"
proof (intro conjI)
  note run = sessionRun_extends [of _ trace, unfolded extends_def]
  show "fst (cachedIdentity h' (sessionRun trace (snd (cachedIdentity h s)))) = fst (cachedIdentity h s)"
    using run [of "snd (cachedIdentity h s)"] by (simp add: cachedIdentity_def case_prod_beta memo_kept)
  show "fst (cachedDMI h' (sessionRun trace (snd (cachedDMI h s)))) = fst (cachedDMI h s)"
    using run [of "snd (cachedDMI h s)"] by (simp add: cachedDMI_def case_prod_beta memo_kept)
  show "fst (cachedLinuxVirtualizationInput h' (sessionRun trace (snd (cachedLinuxVirtualizationInput h s)))) =
      fst (cachedLinuxVirtualizationInput h s)"
    using run [of "snd (cachedLinuxVirtualizationInput h s)"]
    by (simp add: cachedLinuxVirtualizationInput_def case_prod_beta memo_kept)
  show "fst (cachedWindowsVirtualizationInput h' (sessionRun trace (snd (cachedWindowsVirtualizationInput h s)))) =
      fst (cachedWindowsVirtualizationInput h s)"
    using run [of "snd (cachedWindowsVirtualizationInput h s)"]
    by (simp add: cachedWindowsVirtualizationInput_def case_prod_beta memo_kept)
qed

text \<open>Over one host the cells are invisible: every read gives what the probe gives.\<close>

lemma session_transparent:
  assumes "list_all (\<lambda>x. snd x = h) trace"
  shows "sessionOf h (sessionRun trace NewSession)"
    and "fst (cachedUptime h (sessionRun trace NewSession)) = currentUptimeInfo h (rt_now (ho_runtime h))"
proof -
  show s: "sessionOf h (sessionRun trace NewSession)" by (rule sessionRun_session [OF assms sessionOf_new])
  then show "fst (cachedUptime h (sessionRun trace NewSession)) = currentUptimeInfo h (rt_now (ho_runtime h))"
    by (simp add: sessionOf_def cachedUptime_def case_prod_beta)
qed

end
