(* ===== verification/Facts_API.thy ===== *)
theory Facts_API
  imports Engine Formatter
begin

text \<open>
  The package's interface, \<open>engine.go\<close> and \<open>snapshot.go\<close> at the top of the repository: options, the
  construction of an engine, a discovery through it, and the decoding of a subtree into a type of
  the caller. The encoder and the decoder of \<open>encoding/json\<close> are parameters. A logger carries
  diagnostics only, so its option leaves the configuration as it is.
\<close>

section \<open>Options\<close>

type_synonym engineOption = "EngineConfig \<Rightarrow> goerror + EngineConfig"

definition zeroConfig :: EngineConfig where
  "zeroConfig =
     \<lparr>ec_ConfigFile = [], ec_ExternalDirs = [], ec_UseCache = False, ec_SystemDefaults = False, ec_Facts = [],
      ec_Defaults = None, ec_CLICompat = False, ec_NoExternalFacts = False, ec_DisabledFacts = None,
      ec_ExtraDisabled = [], ec_ConfigLoaded = False, ec_Config = empty_config, ec_IncludeTypedDotted = False\<rparr>"

definition WithConfigFile :: "string \<Rightarrow> engineOption" where
  "WithConfigFile path cfg =
     (if path = [] then Inl (ErrText ''config file path is empty'') else Inr (cfg\<lparr>ec_ConfigFile := path\<rparr>))"

definition WithExternalDirs :: "string list \<Rightarrow> engineOption" where
  "WithExternalDirs dirs cfg = Inr (cfg\<lparr>ec_ExternalDirs := ec_ExternalDirs cfg @ dirs\<rparr>)"

definition WithCache :: engineOption where
  "WithCache cfg = Inr (cfg\<lparr>ec_UseCache := True\<rparr>)"

definition WithFact :: "string \<Rightarrow> (goerror + gval) option \<Rightarrow> engineOption" where
  "WithFact name resolve cfg = Inr (cfg\<lparr>ec_Facts := ec_Facts cfg @ [\<lparr>pf_Name = name, pf_Resolve = resolve\<rparr>]\<rparr>)"

definition WithLogger :: engineOption where
  "WithLogger cfg = Inr cfg"

definition WithSystemDefaults :: engineOption where
  "WithSystemDefaults cfg = Inr (cfg\<lparr>ec_SystemDefaults := True\<rparr>)"

text \<open>A nil option is skipped; the first option that fails ends the construction.\<close>

fun applyOptions :: "engineOption option list \<Rightarrow> EngineConfig \<Rightarrow> goerror + EngineConfig" where
  "applyOptions [] cfg = Inr cfg"
| "applyOptions (None # opts) cfg = applyOptions opts cfg"
| "applyOptions (Some opt # opts) cfg = (case opt cfg of Inl e \<Rightarrow> Inl e | Inr cfg' \<Rightarrow> applyOptions opts cfg')"

definition New :: "engineOption option list \<Rightarrow> goerror + Engine" where
  "New opts = (case applyOptions opts zeroConfig of Inl e \<Rightarrow> Inl e | Inr cfg \<Rightarrow> NewEngine cfg)"

text \<open>An engine that New did not make is nil inside and discovers nothing.\<close>

definition engineDiscover ::
  "discoveryHost \<Rightarrow> string list \<Rightarrow> Engine option \<Rightarrow> cacheDir \<Rightarrow>
   (Snapshot option \<times> goerror option) \<times> Engine option \<times> cacheDir \<times> log" where
  "engineDiscover h queries en d =
     (case en of None \<Rightarrow> ((None, Some (ErrText ''facts: uninitialized Engine'')), None, d, [])
      | Some inner \<Rightarrow>
          (let ((sn, err), inner', d', lg) = Discover h queries inner d in ((Some sn, err), Some inner', d', lg)))"

section \<open>Decoding\<close>

text \<open>The values of a list or the first error.\<close>

fun first_error :: "(goerror + 'a) list \<Rightarrow> goerror + 'a list" where
  "first_error [] = Inr []"
| "first_error (r # rs) =
     (case r of Inl e \<Rightarrow> Inl e | Inr v \<Rightarrow> (case first_error rs of Inl e \<Rightarrow> Inl e | Inr vs \<Rightarrow> Inr (v # vs)))"

text \<open>Entries join a map under their printed keys; a key that is there already is an error, and is noticed
  before the entry's own.\<close>

fun addNormalized :: "gval gomap \<Rightarrow> (string \<times> (goerror + gval)) list \<Rightarrow> goerror + gval gomap" where
  "addNormalized out [] = Inr out"
| "addNormalized out ((name, r) # rest) =
     (if has_key out name
      then Inl (ErrText (''duplicate map key after string normalization: '' @ go_quote name))
      else case r of Inl e \<Rightarrow> Inl e | Inr v \<Rightarrow> addNormalized (mput name v out) rest)"

fun jsonValue :: "gval \<Rightarrow> goerror + gval" where
  "jsonValue (GMap m) =
     map_sum id GMap (first_error (map (\<lambda>kv. map_sum id (Pair (fst kv)) (jsonValue (snd kv))) m))"
| "jsonValue (GAnyMap m) =
     map_sum id GMap (addNormalized [] (map (\<lambda>kv. (sprint_key (fst kv), jsonValue (snd kv))) m))"
| "jsonValue (GList xs) = map_sum id GList (first_error (map jsonValue xs))"
| "jsonValue v = Inr v"

definition decodeError :: "string \<Rightarrow> string \<Rightarrow> goerror \<Rightarrow> goerror" where
  "decodeError query doing e = ErrWrap (''fact '' @ go_quote query @ '': '' @ doing) e"

definition As ::
  "(gval \<Rightarrow> goerror + string) \<Rightarrow> string \<Rightarrow> (string \<Rightarrow> goerror + 't) \<Rightarrow> Snapshot \<Rightarrow> string \<Rightarrow> goerror + 't" where
  "As marshal type_name decode sn query =
     (case snapshotValue sn query of Inl e \<Rightarrow> Inl e
      | Inr v \<Rightarrow>
          (case jsonValue v of Inl e \<Rightarrow> Inl (decodeError query ''encode canonical value'' e)
           | Inr ready \<Rightarrow>
               (case marshal ready of Inl e \<Rightarrow> Inl (decodeError query ''encode canonical value'' e)
                | Inr encoded \<Rightarrow>
                    (case decode encoded of Inl e \<Rightarrow> Inl (decodeError query (''decode into '' @ type_name) e)
                     | Inr out \<Rightarrow> Inr out))))"

section \<open>Properties\<close>

lemma applyOptions_append:
  "applyOptions (a @ b) cfg = (case applyOptions a cfg of Inl e \<Rightarrow> Inl e | Inr cfg' \<Rightarrow> applyOptions b cfg')"
  by (induction a cfg rule: applyOptions.induct) (auto split: sum.split)

lemma applyOptions_facts:
  "applyOptions (map (\<lambda>(n, r). Some (WithFact n r)) facts) cfg =
   Inr (cfg\<lparr>ec_Facts := ec_Facts cfg @ map (\<lambda>(n, r). \<lparr>pf_Name = n, pf_Resolve = r\<rparr>) facts\<rparr>)"
  by (induction facts arbitrary: cfg) (auto simp: WithFact_def)

lemma NewEngine_cfg:
  "NewEngine cfg = Inr en \<Longrightarrow>
   ec_SystemDefaults (en_cfg en) = ec_SystemDefaults cfg \<and> ec_CLICompat (en_cfg en) = ec_CLICompat cfg \<and>
   ec_UseCache (en_cfg en) = ec_UseCache cfg \<and> ec_ConfigFile (en_cfg en) = ec_ConfigFile cfg"
  by (auto simp: NewEngine_def split: sum.splits)

text \<open>C17: An engine made from registered facts, external directories and a logger is hermetic: its
  discovery plan is the same whatever the environment variables, the configuration files and
  the defaults of the host are, it fails nowhere, and it reads no environment facts.\<close>

theorem New_hermetic:
  assumes "New (map (\<lambda>(n, r). Some (WithFact n r)) facts @ [Some (WithExternalDirs dirs), Some WithLogger]) = Inr en"
  shows "planDiscovery (en_cfg en) host queries = planDiscovery (en_cfg en) host' queries \<and>
     snd (planDiscovery (en_cfg en) host queries) = [] \<and>
     \<not> pl_includeEnv (fst (planDiscovery (en_cfg en) host queries))"
proof (rule planDiscovery_hermetic)
  have "\<not> ec_SystemDefaults (en_cfg en) \<and> \<not> ec_CLICompat (en_cfg en) \<and> \<not> ec_UseCache (en_cfg en) \<and>
      ec_ConfigFile (en_cfg en) = []"
    using assms
    by (simp add: New_def applyOptions_append applyOptions_facts WithExternalDirs_def WithLogger_def zeroConfig_def)
      (drule NewEngine_cfg, simp)
  then show "\<not> ec_SystemDefaults (en_cfg en)" "\<not> ec_CLICompat (en_cfg en)" "\<not> ec_UseCache (en_cfg en)"
    "ec_ConfigFile (en_cfg en) = []" by simp_all
qed

theorem New_hermetic_witness:
  "\<forall>host host'. planDiscovery (zeroConfig\<lparr>ec_Facts := [\<lparr>pf_Name = ''site'', pf_Resolve = None\<rparr>], ec_ExternalDirs := [''/etc/d'']\<rparr>) host [] =
     planDiscovery (zeroConfig\<lparr>ec_Facts := [\<lparr>pf_Name = ''site'', pf_Resolve = None\<rparr>], ec_ExternalDirs := [''/etc/d'']\<rparr>) host' []"
proof (intro allI)
  fix host host'
  let ?cfg = "zeroConfig\<lparr>ec_Facts := [\<lparr>pf_Name = ''site'', pf_Resolve = None\<rparr>], ec_ExternalDirs := [''/etc/d'']\<rparr>"
  have "New (map (\<lambda>(n, r). Some (WithFact n r)) [(''site'', None)] @ [Some (WithExternalDirs [''/etc/d'']), Some WithLogger]) =
      Inr \<lparr>en_cfg = ?cfg, en_onceSeen = []\<rparr>" by code_simp
  from New_hermetic [OF this, of host "[]" host'] show "planDiscovery ?cfg host [] = planDiscovery ?cfg host' []" by simp
qed

subsection \<open>What can be decoded\<close>

text \<open>Two keys of a map print the same somewhere; a value whose maps have string keys.\<close>

fun clash :: "gval \<Rightarrow> bool" where
  "clash (GMap m) \<longleftrightarrow> list_ex (\<lambda>kv. clash (snd kv)) m"
| "clash (GAnyMap m) \<longleftrightarrow> \<not> distinct (map (\<lambda>kv. sprint_key (fst kv)) m) \<or> list_ex (\<lambda>kv. clash (snd kv)) m"
| "clash (GList xs) \<longleftrightarrow> list_ex clash xs"
| "clash v \<longleftrightarrow> False"

fun json_ready :: "gval \<Rightarrow> bool" where
  "json_ready (GMap m) \<longleftrightarrow> list_all (\<lambda>kv. json_ready (snd kv)) m"
| "json_ready (GAnyMap m) \<longleftrightarrow> False"
| "json_ready (GList xs) \<longleftrightarrow> list_all json_ready xs"
| "json_ready v \<longleftrightarrow> True"

definition is_ok :: "goerror + 'a \<Rightarrow> bool" where "is_ok r \<longleftrightarrow> (case r of Inl _ \<Rightarrow> False | Inr _ \<Rightarrow> True)"

lemma is_ok_simps [simp]: "is_ok (Inr x)" "\<not> is_ok (Inl e)" "is_ok (map_sum id f r) \<longleftrightarrow> is_ok r"
  by (auto simp: is_ok_def split: sum.split)

lemma first_error_ok: "is_ok (first_error rs) \<longleftrightarrow> list_all is_ok rs"
  by (induction rs) (auto simp: is_ok_def split: sum.split)

lemma first_error_map: "first_error (map f xs) = Inr ys \<Longrightarrow> y \<in> set ys \<Longrightarrow> \<exists>x\<in>set xs. f x = Inr y"
  by (induction xs arbitrary: ys) (auto split: sum.splits)

lemma addNormalized_ok:
  "is_ok (addNormalized out rest) \<longleftrightarrow>
   distinct (map fst rest) \<and> list_all (\<lambda>e. \<not> has_key out (fst e) \<and> is_ok (snd e)) rest"
proof (induction out rest rule: addNormalized.induct)
  case (2 out name r rest)
  then show ?case
    by (cases r) (auto simp: has_key_def gm.get_put list_all_iff split: if_splits)
qed simp

lemma jsonValue_ok: "is_ok (jsonValue v) \<longleftrightarrow> \<not> clash v"
proof (induction v rule: jsonValue.induct)
  case (1 m)
  then show ?case by (auto simp: first_error_ok list_all_iff list_ex_iff)
next
  case (2 m)
  then show ?case by (auto simp: addNormalized_ok list_all_iff list_ex_iff has_key_def comp_def)
next
  case (3 xs)
  then show ?case by (auto simp: first_error_ok list_all_iff list_ex_iff)
qed simp_all

lemma addNormalized_ready:
  assumes "addNormalized out rest = Inr m" "list_all (\<lambda>kv. json_ready (snd kv)) out"
    and "\<And>name v. (name, Inr v) \<in> set rest \<Longrightarrow> json_ready v"
  shows "list_all (\<lambda>kv. json_ready (snd kv)) m"
  using assms
proof (induction out rest rule: addNormalized.induct)
  case (2 out name r rest)
  obtain v where r: "r = Inr v" using 2(2) by (cases r) (auto split: if_splits)
  then have "json_ready v" using 2(4) by force
  moreover have "set (mput name v out) \<subseteq> insert (name, v) (set out)"
    by (induction out) auto
  ultimately have "list_all (\<lambda>kv. json_ready (snd kv)) (mput name v out)"
    using 2(3) by (auto simp: list_all_iff)
  then show ?case using 2 r by (auto split: if_splits)
qed simp

lemma map_sum_Inr: "map_sum id f r = Inr y \<longleftrightarrow> (\<exists>x. r = Inr x \<and> y = f x)"
  by (cases r) auto

lemma jsonValue_ready: "jsonValue v = Inr w \<Longrightarrow> json_ready w"
proof (induction v arbitrary: w rule: jsonValue.induct)
  case (1 m)
  then obtain es where es: "first_error (map (\<lambda>kv. map_sum id (Pair (fst kv)) (jsonValue (snd kv))) m) = Inr es" "w = GMap es"
    by (auto simp: map_sum_Inr)
  have "json_ready (snd e)" if "e \<in> set es" for e
  proof -
    from first_error_map [OF es(1) that]
    obtain kv where "kv \<in> set m" "map_sum id (Pair (fst kv)) (jsonValue (snd kv)) = Inr e" by blast
    then show ?thesis using 1(1) [of kv] by (auto simp: map_sum_Inr)
  qed
  then show ?case by (simp add: es(2) list_all_iff)
next
  case (2 m)
  then obtain es where es: "addNormalized [] (map (\<lambda>kv. (sprint_key (fst kv), jsonValue (snd kv))) m) = Inr es" "w = GMap es"
    by (auto simp: map_sum_Inr)
  have "list_all (\<lambda>kv. json_ready (snd kv)) es"
    by (rule addNormalized_ready [OF es(1)]) (use 2(1) in auto)
  then show ?case by (simp add: es(2))
next
  case (3 xs)
  then obtain ys where ys: "first_error (map jsonValue xs) = Inr ys" "w = GList ys"
    by (auto simp: map_sum_Inr)
  have "json_ready y" if "y \<in> set ys" for y
    using first_error_map [OF ys(1) that] 3(1) by blast
  then show ?case by (simp add: ys(2) list_all_iff)
qed auto

lemma jsonValue_same: "json_ready v \<Longrightarrow> jsonValue v = Inr v"
proof (induction v rule: jsonValue.induct)
  case (1 m)
  then have "first_error (map (\<lambda>kv. map_sum id (Pair (fst kv)) (jsonValue (snd kv))) m) = Inr m"
    by (induction m) auto
  then show ?case by simp
next
  case (3 xs)
  then have "first_error (map jsonValue xs) = Inr xs" by (induction xs) auto
  then show ?case by simp
qed simp_all

lemma jsonValue_spec:
  "case jsonValue v of Inl e \<Rightarrow> clash v | Inr w \<Rightarrow> \<not> clash v \<and> json_ready w \<and> jsonValue w = Inr w"
  using jsonValue_ok [of v] jsonValue_ready [of v] jsonValue_same by (auto simp: is_ok_def split: sum.splits)

lemma As_missing:
  "snapshotValue sn query = Inl e \<Longrightarrow> As marshal type_name decode sn query = Inl e \<and> errors_is e ErrFactNotFound"
  by (auto simp: As_def snapshotValue_def split: option.splits)

end
