(* ===== verification/Deep_Copy.thy ===== *)
theory Deep_Copy
  imports Go_Prelude
begin

text \<open>
  The defensive copies of \<open>internal/engine/snapshot.go\<close>: \<open>deepCopyValue\<close> over an explicit heap. Values hold
  references to maps, to the elements of slices and to the targets of pointers; structures and
  arrays are held in place. The copy goes through a table of the references it has met, so it
  keeps sharing and ends on cyclic values. The number of nested calls is bounded by fuel; that
  enough of it gives a result is a theorem.

  Copies have the type of what they copy, so the assignability tests of \<open>setReflectValue\<close> and of the
  map case hold, and the copy of a map's key is comparable as the key is. The order in which Go
  ranges over a map is the order of its list.
\<close>

section \<open>Values and the heap\<close>

text \<open>The type of a reference, with the name of the whole type.\<close>

datatype refType = SliceOf string | MapOf string | PtrTo string

text \<open>A reference is an address and, for a slice, a length. A field is exported or not.\<close>

datatype 'a dval =
    DNil
  | DPlain 'a
  | DNilRef refType
  | DRef refType nat nat
  | DArray string "'a dval list"
  | DStruct string "(bool \<times> 'a dval) list"

text \<open>A cell holds an element of a slice or the target of a pointer, or a map's entries.\<close>

datatype 'a cell = CVal "'a dval" | CMap "('a dval \<times> 'a dval) list"

type_synonym 'a heap = "nat \<Rightarrow> 'a cell option"

type_synonym deepCopyVisit = "refType \<times> nat \<times> nat"

record 'a copyState =
  cs_heap :: "'a heap"
  cs_next :: nat
  cs_seen :: "(deepCopyVisit \<times> 'a dval) list"

definition cellValue :: "'a heap \<Rightarrow> nat \<Rightarrow> 'a dval" where
  "cellValue heap a = (case heap a of Some (CVal v) \<Rightarrow> v | _ \<Rightarrow> DNil)"

definition cellEntries :: "'a heap \<Rightarrow> nat \<Rightarrow> ('a dval \<times> 'a dval) list" where
  "cellEntries heap a = (case heap a of Some (CMap es) \<Rightarrow> es | _ \<Rightarrow> [])"

definition writeCell :: "nat \<Rightarrow> 'a cell \<Rightarrow> 'a copyState \<Rightarrow> 'a copyState" where
  "writeCell a c s = s\<lparr>cs_heap := (cs_heap s)(a \<mapsto> c)\<rparr>"

text \<open>\<open>MakeSlice\<close>, \<open>MakeMap\<close> and \<open>reflect.New\<close>: so many cells after all others, with the zero value.\<close>

definition allocate :: "nat \<Rightarrow> 'a cell \<Rightarrow> 'a copyState \<Rightarrow> 'a copyState" where
  "allocate n zero s =
     s\<lparr>cs_heap := (\<lambda>a. if cs_next s \<le> a \<and> a < cs_next s + n then Some zero else cs_heap s a),
       cs_next := cs_next s + n\<rparr>"

section \<open>The table of visits\<close>

text \<open>An empty slice is not remembered.\<close>

definition deepCopyVisitFor :: "refType \<Rightarrow> nat \<Rightarrow> nat \<Rightarrow> deepCopyVisit option" where
  "deepCopyVisitFor ty a l =
     (case ty of SliceOf _ \<Rightarrow> if l = 0 then None else Some (ty, a, l) | _ \<Rightarrow> Some (ty, a, l))"

definition deepCopySeenValue :: "'a copyState \<Rightarrow> refType \<Rightarrow> nat \<Rightarrow> nat \<Rightarrow> 'a dval option" where
  "deepCopySeenValue s ty a l = (case deepCopyVisitFor ty a l of None \<Rightarrow> None | Some visit \<Rightarrow> map_of (cs_seen s) visit)"

definition rememberDeepCopy :: "refType \<Rightarrow> nat \<Rightarrow> nat \<Rightarrow> 'a dval \<Rightarrow> 'a copyState \<Rightarrow> 'a copyState" where
  "rememberDeepCopy ty a l copied s =
     (case deepCopyVisitFor ty a l of None \<Rightarrow> s | Some visit \<Rightarrow> s\<lparr>cs_seen := (visit, copied) # cs_seen s\<rparr>)"

section \<open>The copy\<close>

type_synonym 'a copier = "'a dval \<Rightarrow> 'a copyState \<Rightarrow> ('a dval \<times> 'a copyState) option"

text \<open>The elements at an address, copied to another, one after the other.\<close>

fun copyElems :: "'a copier \<Rightarrow> nat \<Rightarrow> nat \<Rightarrow> nat \<Rightarrow> 'a copyState \<Rightarrow> 'a copyState option" where
  "copyElems f a b 0 s = Some s"
| "copyElems f a b (Suc n) s =
     (case f (cellValue (cs_heap s) a) s of
        None \<Rightarrow> None
      | Some (v, s') \<Rightarrow> copyElems f (Suc a) (Suc b) n (writeCell b (CVal v) s'))"

fun copyEntries :: "'a copier \<Rightarrow> nat \<Rightarrow> ('a dval \<times> 'a dval) list \<Rightarrow> 'a copyState \<Rightarrow> 'a copyState option" where
  "copyEntries f b [] s = Some s"
| "copyEntries f b ((k, v) # es) s =
     (case f k s of
        None \<Rightarrow> None
      | Some (k', s1) \<Rightarrow>
          (case f v s1 of
             None \<Rightarrow> None
           | Some (v', s2) \<Rightarrow>
               copyEntries f b es (writeCell b (CMap (AList.update k' v' (cellEntries (cs_heap s2) b))) s2)))"

text \<open>Array elements; the fields of a structure, of which those not exported are left as they are.\<close>

fun copyAll :: "'a copier \<Rightarrow> 'a dval list \<Rightarrow> 'a copyState \<Rightarrow> ('a dval list \<times> 'a copyState) option" where
  "copyAll f [] s = Some ([], s)"
| "copyAll f (v # vs) s =
     (case f v s of
        None \<Rightarrow> None
      | Some (v', s') \<Rightarrow> map_option (\<lambda>(vs', s''). (v' # vs', s'')) (copyAll f vs s'))"

fun copyFields :: "'a copier \<Rightarrow> (bool \<times> 'a dval) list \<Rightarrow> 'a copyState \<Rightarrow> ((bool \<times> 'a dval) list \<times> 'a copyState) option" where
  "copyFields f [] s = Some ([], s)"
| "copyFields f ((exported, v) # fs) s =
     (case (if exported then f v s else Some (v, s)) of
        None \<Rightarrow> None
      | Some (v', s') \<Rightarrow> map_option (\<lambda>(fs', s''). ((exported, v') # fs', s'')) (copyFields f fs s'))"

definition deepCopyReflect :: "'a copier \<Rightarrow> 'a copier" where
  "deepCopyReflect f v s =
     (case v of
        DRef ty a l \<Rightarrow>
          (case deepCopySeenValue s ty a l of
             Some copied \<Rightarrow> Some (copied, s)
           | None \<Rightarrow>
               (let b = cs_next s; out = DRef ty b l; start = (\<lambda>n zero. rememberDeepCopy ty a l out (allocate n zero s))
                in map_option (Pair out)
                     (case ty of
                        SliceOf _ \<Rightarrow> copyElems f a b l (start l (CVal DNil))
                      | PtrTo _ \<Rightarrow> copyElems f a b 1 (start 1 (CVal DNil))
                      | MapOf _ \<Rightarrow> copyEntries f b (cellEntries (cs_heap s) a) (start 1 (CMap [])))))
      | DArray t vs \<Rightarrow> map_option (\<lambda>(vs', s'). (DArray t vs', s')) (copyAll f vs s)
      | DStruct t fs \<Rightarrow> map_option (\<lambda>(fs', s'). (DStruct t fs', s')) (copyFields f fs s)
      | _ \<Rightarrow> Some (v, s))"

primrec deepCopyValueSeen :: "nat \<Rightarrow> 'a copier" where
  "deepCopyValueSeen 0 v s = None"
| "deepCopyValueSeen (Suc fuel) v s = deepCopyReflect (deepCopyValueSeen fuel) v s"

text \<open>A copy over a heap whose cells lie below an address.\<close>

definition deepCopyValue :: "nat \<Rightarrow> 'a heap \<Rightarrow> nat \<Rightarrow> 'a dval \<Rightarrow> ('a dval \<times> 'a heap) option" where
  "deepCopyValue fuel heap bound v =
     map_option (\<lambda>(v', s). (v', cs_heap s))
       (deepCopyValueSeen fuel v \<lparr>cs_heap = heap, cs_next = bound, cs_seen = []\<rparr>)"

section \<open>What is copied\<close>

definition span :: "deepCopyVisit \<Rightarrow> nat" where
  "span visit = (case visit of (SliceOf _, a, l) \<Rightarrow> l | _ \<Rightarrow> 1)"

text \<open>The values a visited reference leads to.\<close>

definition children :: "'a heap \<Rightarrow> deepCopyVisit \<Rightarrow> 'a dval list" where
  "children heap visit =
     (case visit of (SliceOf _, a, l) \<Rightarrow> map (cellValue heap) [a..<a + l]
      | (PtrTo _, a, l) \<Rightarrow> [cellValue heap a]
      | (MapOf _, a, l) \<Rightarrow> map snd (cellEntries heap a))"

text \<open>A value without references outside fields that are not exported; the references of a value are among
  given ones.\<close>

fun flat :: "'a dval \<Rightarrow> bool" where
  "flat (DRef ty a l) = False"
| "flat (DArray t vs) = list_all flat vs"
| "flat (DStruct t fs) = list_all (\<lambda>f. fst f \<longrightarrow> flat (snd f)) fs"
| "flat v = True"

fun within :: "deepCopyVisit set \<Rightarrow> 'a dval \<Rightarrow> bool" where
  "within G (DRef ty a l) = (case deepCopyVisitFor ty a l of None \<Rightarrow> True | Some visit \<Rightarrow> visit \<in> G)"
| "within G (DArray t vs) = list_all (within G) vs"
| "within G (DStruct t fs) = list_all (\<lambda>f. fst f \<longrightarrow> within G (snd f)) fs"
| "within G v = True"

text \<open>A graph of references below an address: its references lead to its own, and the keys of its maps
  are distinct and hold no references.\<close>

definition graph :: "'a heap \<Rightarrow> nat \<Rightarrow> deepCopyVisit set \<Rightarrow> bool" where
  "graph heap bound G \<longleftrightarrow> (\<forall>visit\<in>G.
     fst (snd visit) + span visit \<le> bound \<and> list_all (within G) (children heap visit) \<and>
     (case visit of (MapOf _, a, l) \<Rightarrow>
        distinct (map fst (cellEntries heap a)) \<and> list_all (\<lambda>e. flat (fst e)) (cellEntries heap a)
      | _ \<Rightarrow> True))"

section \<open>What a copy is like\<close>

text \<open>A copy is like a value under the table: references are the copies the table holds for them.\<close>

inductive like :: "(deepCopyVisit \<Rightarrow> 'a dval option) \<Rightarrow> 'a dval \<Rightarrow> 'a dval \<Rightarrow> bool" for \<sigma> where
  nil: "like \<sigma> DNil DNil"
| plain: "like \<sigma> (DPlain x) (DPlain x)"
| nilref: "like \<sigma> (DNilRef ty) (DNilRef ty)"
| ref: "deepCopyVisitFor ty a l = Some visit \<Longrightarrow> \<sigma> visit = Some w \<Longrightarrow> like \<sigma> (DRef ty a l) w"
| empty: "deepCopyVisitFor ty a l = None \<Longrightarrow> like \<sigma> (DRef ty a l) (DRef ty b l)"
| array: "list_all2 (like \<sigma>) vs ws \<Longrightarrow> like \<sigma> (DArray t vs) (DArray t ws)"
| struct: "list_all2 (\<lambda>f g. fst g = fst f \<and> (fst f \<longrightarrow> like \<sigma> (snd f) (snd g)) \<and> (\<not> fst f \<longrightarrow> snd g = snd f)) fs gs \<Longrightarrow>
    like \<sigma> (DStruct t fs) (DStruct t gs)"

lemma map_leD: "\<sigma> \<subseteq>\<^sub>m \<tau> \<Longrightarrow> \<sigma> k = Some w \<Longrightarrow> \<tau> k = Some w"
  by (metis domI map_le_def)

lemma like_mono: "like \<sigma> v w \<Longrightarrow> \<sigma> \<subseteq>\<^sub>m \<tau> \<Longrightarrow> like \<tau> v w"
proof (induction rule: like.induct)
  case (ref ty a l visit w)
  then show ?case by (auto intro!: like.ref dest: map_leD)
next
  case (array vs ws t)
  then show ?case by (auto intro!: like.array elim!: list_all2_mono)
next
  case (struct fs gs t)
  then show ?case by (auto intro!: like.struct elim!: list_all2_mono)
qed (auto intro: like.intros)

definition completed ::
  "(deepCopyVisit \<Rightarrow> 'a dval option) \<Rightarrow> 'a heap \<Rightarrow> 'a heap \<Rightarrow> deepCopyVisit \<Rightarrow> nat \<Rightarrow> bool" where
  "completed \<sigma> heap heap' visit b \<longleftrightarrow>
     (case visit of
        (SliceOf _, a, l) \<Rightarrow> \<forall>i<l. like \<sigma> (cellValue heap (a + i)) (cellValue heap' (b + i))
      | (PtrTo _, a, l) \<Rightarrow> like \<sigma> (cellValue heap a) (cellValue heap' b)
      | (MapOf _, a, l) \<Rightarrow>
          list_all2 (\<lambda>e e'. fst e' = fst e \<and> like \<sigma> (snd e) (snd e')) (cellEntries heap a) (cellEntries heap' b))"

lemma completed_mono:
  assumes "completed \<sigma> heap h visit b" "\<sigma> \<subseteq>\<^sub>m \<tau>" "\<And>x. b \<le> x \<Longrightarrow> x < b + span visit \<Longrightarrow> h' x = h x"
  shows "completed \<tau> heap h' visit b"
proof -
  obtain ty a l where v: "visit = (ty, a, l)" by (cases visit)
  show ?thesis
  proof (cases ty)
    case (SliceOf t)
    then show ?thesis
      using assms by (auto simp: completed_def v span_def cellValue_def intro: like_mono)
  next
    case (MapOf t)
    then have "cellEntries h' b = cellEntries h b" using assms(3) by (simp add: v span_def cellEntries_def)
    then show ?thesis
      using assms(1,2) MapOf by (auto simp: completed_def v intro: like_mono elim!: list_all2_mono)
  next
    case (PtrTo t)
    then show ?thesis
      using assms by (auto simp: completed_def v span_def cellValue_def intro: like_mono)
  qed
qed

text \<open>How a state may become another: cells below the first free address keep what they hold outside a
  region, the table is extended, and what is added leads to completed copies in new cells.\<close>

abbreviation seen :: "'a copyState \<Rightarrow> deepCopyVisit \<Rightarrow> 'a dval option" where "seen s \<equiv> map_of (cs_seen s)"

definition placed :: "'a heap \<Rightarrow> 'a copyState \<Rightarrow> nat \<Rightarrow> deepCopyVisit \<Rightarrow> 'a dval \<Rightarrow> bool" where
  "placed heap s bound visit w \<longleftrightarrow> (\<exists>b. w = DRef (fst visit) b (snd (snd visit)) \<and> bound \<le> b \<and>
     b + span visit \<le> cs_next s \<and> completed (seen s) heap (cs_heap s) visit b)"

definition evolves :: "'a heap \<Rightarrow> nat set \<Rightarrow> 'a copyState \<Rightarrow> 'a copyState \<Rightarrow> bool" where
  "evolves heap R s t \<longleftrightarrow> cs_next s \<le> cs_next t \<and> (\<forall>x<cs_next s. x \<notin> R \<longrightarrow> cs_heap t x = cs_heap s x) \<and>
     seen s \<subseteq>\<^sub>m seen t \<and> (\<forall>visit w. seen t visit = Some w \<longrightarrow> seen s visit = None \<longrightarrow> placed heap t (cs_next s) visit w)"

lemma evolvesD:
  assumes "evolves heap R s t"
  shows "cs_next s \<le> cs_next t" "\<And>x. x < cs_next s \<Longrightarrow> x \<notin> R \<Longrightarrow> cs_heap t x = cs_heap s x" "seen s \<subseteq>\<^sub>m seen t"
    "\<And>visit w. seen t visit = Some w \<Longrightarrow> seen s visit = None \<Longrightarrow> placed heap t (cs_next s) visit w"
  using assms unfolding evolves_def by blast+

lemma evolves_refl: "evolves heap R s s"
  by (simp add: evolves_def)

lemma placed_mono:
  assumes "placed heap s bound visit w" "evolves heap R s t" "\<forall>x\<in>R. x < bound" "bound' \<le> bound"
  shows "placed heap t bound' visit w"
proof -
  obtain b where b: "w = DRef (fst visit) b (snd (snd visit))" "bound \<le> b" "b + span visit \<le> cs_next s"
    "completed (seen s) heap (cs_heap s) visit b" using assms(1) by (auto simp: placed_def)
  have "cs_heap t x = cs_heap s x" if "b \<le> x" "x < b + span visit" for x
    by (rule evolvesD(2) [OF assms(2)]) (use that assms(3) b(2,3) in auto)
  then have "completed (seen t) heap (cs_heap t) visit b"
    by (rule completed_mono [OF b(4) evolvesD(3) [OF assms(2)]])
  then show ?thesis using b assms(4) evolvesD(1) [OF assms(2)] by (auto simp: placed_def)
qed

lemma evolves_trans:
  assumes "evolves heap R s t" "evolves heap R t u" "\<forall>x\<in>R. x < cs_next s"
  shows "evolves heap R s u"
proof -
  have new: "placed heap u (cs_next s) visit w" if u: "seen u visit = Some w" and s: "seen s visit = None" for visit w
  proof (cases "seen t visit")
    case None
    show ?thesis
      by (rule placed_mono [OF evolvesD(4) [OF assms(2) u None] evolves_refl [where R = "{}"]])
        (use evolvesD(1) [OF assms(1)] in auto)
  next
    case (Some w')
    with u map_leD [OF evolvesD(3) [OF assms(2)]] have "seen t visit = Some w" by fastforce
    from evolvesD(4) [OF assms(1) this s] show ?thesis by (rule placed_mono [OF _ assms(2,3)]) simp
  qed
  have "cs_heap u x = cs_heap s x" if "x < cs_next s" "x \<notin> R" for x
    using evolvesD(1,2) [OF assms(1)] evolvesD(2) [OF assms(2), of x] that by simp
  then show ?thesis
    using new evolvesD(1,3) [OF assms(1)] evolvesD(1,3) [OF assms(2)]
    unfolding evolves_def by (blast intro: map_le_trans order_trans)
qed

lemma evolves_mono: "evolves heap R s t \<Longrightarrow> R \<subseteq> R' \<Longrightarrow> evolves heap R' s t"
  by (auto simp: evolves_def)

lemma evolves_write: "b \<in> R \<Longrightarrow> evolves heap R s (writeCell b c s)"
  by (auto simp: evolves_def writeCell_def)

section \<open>A copier that is right, and its loops\<close>

text \<open>A state over a heap: the heap's own cells read as they did at the start.\<close>

definition over :: "'a heap \<Rightarrow> nat \<Rightarrow> 'a copyState \<Rightarrow> bool" where
  "over heap bound s \<longleftrightarrow> bound \<le> cs_next s \<and> (\<forall>x<bound. cs_heap s x = heap x)"

lemma over_evolves:
  assumes "over heap bound s" "evolves heap R s t" "\<forall>x\<in>R. bound \<le> x"
  shows "over heap bound t"
proof -
  have "cs_heap t x = heap x" if "x < bound" for x
    using evolvesD(2) [OF assms(2), of x] assms(1,3) that by (force simp: over_def)
  then show ?thesis using assms(1) evolvesD(1) [OF assms(2)] by (simp add: over_def)
qed

lemma over_write: "over heap bound s \<Longrightarrow> bound \<le> b \<Longrightarrow> over heap bound (writeCell b c s)"
  by (simp add: over_def writeCell_def)

lemma over_cell: "over heap bound s \<Longrightarrow> a < bound \<Longrightarrow> cs_heap s a = heap a"
  by (simp add: over_def)

definition rightCopier :: "'a heap \<Rightarrow> nat \<Rightarrow> deepCopyVisit set \<Rightarrow> 'a copier \<Rightarrow> bool" where
  "rightCopier heap bound G f \<longleftrightarrow>
     (\<forall>v s v' s'. within G v \<longrightarrow> over heap bound s \<longrightarrow> f v s = Some (v', s') \<longrightarrow>
        evolves heap {} s s' \<and> like (seen s') v v')"

definition leavesFlat :: "'a copier \<Rightarrow> bool" where
  "leavesFlat f \<longleftrightarrow> (\<forall>v s r. flat v \<longrightarrow> f v s = Some r \<longrightarrow> r = (v, s))"

lemma rightCopierD:
  assumes "rightCopier heap bound G f" "within G v" "over heap bound s" "f v s = Some (v', s')"
  shows "evolves heap {} s s'" "like (seen s') v v'" "over heap bound s'"
proof -
  show e: "evolves heap {} s s'" and "like (seen s') v v'" using assms by (auto simp: rightCopier_def)
  show "over heap bound s'" by (rule over_evolves [OF assms(3) e]) simp
qed

lemma copyAll_right:
  assumes f: "rightCopier heap bound G f"
  shows "list_all (within G) vs \<Longrightarrow> over heap bound s \<Longrightarrow> copyAll f vs s = Some (vs', s') \<Longrightarrow>
    evolves heap {} s s' \<and> list_all2 (like (seen s')) vs vs'"
proof (induction vs arbitrary: s vs')
  case Nil
  then show ?case by (simp add: evolves_refl)
next
  case (Cons v vs)
  then obtain v1 s1 rest where r: "f v s = Some (v1, s1)" "copyAll f vs s1 = Some (rest, s')" "vs' = v1 # rest"
    by (auto split: option.splits)
  note one = rightCopierD [OF f _ Cons.prems(2) r(1)]
  have "evolves heap {} s1 s' \<and> list_all2 (like (seen s')) vs rest"
    using Cons.IH [OF _ _ r(2)] one Cons.prems(1) by simp
  then show ?case
    using one Cons.prems(1) r(3) by (auto intro: evolves_trans like_mono [OF _ evolvesD(3)])
qed

lemma copyFields_right:
  assumes f: "rightCopier heap bound G f"
  shows "list_all (\<lambda>x. fst x \<longrightarrow> within G (snd x)) fs \<Longrightarrow> over heap bound s \<Longrightarrow>
    copyFields f fs s = Some (fs', s') \<Longrightarrow>
    evolves heap {} s s' \<and>
    list_all2 (\<lambda>f g. fst g = fst f \<and> (fst f \<longrightarrow> like (seen s') (snd f) (snd g)) \<and> (\<not> fst f \<longrightarrow> snd g = snd f)) fs fs'"
proof (induction fs arbitrary: s fs')
  case Nil
  then show ?case by (simp add: evolves_refl)
next
  case (Cons x fs)
  obtain e v where x: "x = (e, v)" by (cases x)
  with Cons.prems obtain v1 s1 rest where
    r: "(if e then f v s else Some (v, s)) = Some (v1, s1)" "copyFields f fs s1 = Some (rest, s')" "fs' = (e, v1) # rest"
    by (auto split: option.splits)
  have one: "evolves heap {} s s1" "over heap bound s1" "e \<longrightarrow> like (seen s1) v v1" "\<not> e \<longrightarrow> v1 = v"
    using rightCopierD [OF f _ Cons.prems(2), of v v1 s1] Cons.prems(1,2) r(1) x
    by (auto simp: evolves_refl split: if_splits)
  have "evolves heap {} s1 s' \<and>
      list_all2 (\<lambda>f g. fst g = fst f \<and> (fst f \<longrightarrow> like (seen s') (snd f) (snd g)) \<and> (\<not> fst f \<longrightarrow> snd g = snd f)) fs rest"
    using Cons.IH [OF _ one(2) r(2)] Cons.prems(1) by simp
  then show ?case
    using one r(3) x by (auto intro: evolves_trans like_mono [OF _ evolvesD(3)])
qed

lemma cellValue_write: "cellValue (cs_heap (writeCell b (CVal v) s)) x = (if x = b then v else cellValue (cs_heap s) x)"
  by (simp add: cellValue_def writeCell_def)

lemma copyElems_right:
  assumes f: "rightCopier heap bound G f"
  shows "(\<And>i. i < n \<Longrightarrow> within G (cellValue heap (a + i))) \<Longrightarrow> a + n \<le> bound \<Longrightarrow> bound \<le> b \<Longrightarrow> b + n \<le> cs_next s \<Longrightarrow>
    over heap bound s \<Longrightarrow> copyElems f a b n s = Some s' \<Longrightarrow>
    evolves heap {b..<b + n} s s' \<and> (\<forall>i<n. like (seen s') (cellValue heap (a + i)) (cellValue (cs_heap s') (b + i)))"
proof (induction n arbitrary: a b s)
  case 0
  then show ?case by (simp add: evolves_refl)
next
  case (Suc n)
  have src: "cellValue (cs_heap s) a = cellValue heap a"
    using over_cell [OF Suc.prems(5), of a] Suc.prems(2) by (simp add: cellValue_def)
  obtain v s1 where r: "f (cellValue heap a) s = Some (v, s1)" "copyElems f (Suc a) (Suc b) n (writeCell b (CVal v) s1) = Some s'"
    using Suc.prems(6) by (auto simp: src split: option.splits)
  let ?s2 = "writeCell b (CVal v) s1"
  have w: "within G (cellValue heap a)" using Suc.prems(1) [of 0] by simp
  note one = rightCopierD [OF f w Suc.prems(5) r(1)]
  have e2: "evolves heap {b..<b + Suc n} s ?s2"
    by (rule evolves_trans [OF evolves_mono [OF one(1)] evolves_write]) (use Suc.prems(4) in auto)
  have next2: "Suc b + n \<le> cs_next ?s2" using Suc.prems(4) evolvesD(1) [OF one(1)] by (simp add: writeCell_def)
  have rest: "evolves heap {Suc b..<Suc b + n} ?s2 s' \<and>
      (\<forall>i<n. like (seen s') (cellValue heap (Suc a + i)) (cellValue (cs_heap s') (Suc b + i)))"
    by (rule Suc.IH [OF _ _ _ next2 over_write [OF one(3) Suc.prems(3)] r(2)])
      (use Suc.prems(1) [of "Suc _"] Suc.prems(2,3) in auto)
  have "cs_heap s' b = cs_heap ?s2 b" by (rule evolvesD(2) [OF conjunct1 [OF rest]]) (use next2 in auto)
  then have "cellValue (cs_heap s') b = v" by (simp add: cellValue_def writeCell_def)
  moreover have "seen s1 \<subseteq>\<^sub>m seen s'" using evolvesD(3) [OF conjunct1 [OF rest]] by (simp add: writeCell_def)
  ultimately have first: "like (seen s') (cellValue heap a) (cellValue (cs_heap s') b)"
    using like_mono [OF one(2)] by simp
  have "like (seen s') (cellValue heap (a + i)) (cellValue (cs_heap s') (b + i))" if "i < Suc n" for i
    using that first conjunct2 [OF rest] by (cases i) auto
  moreover have "evolves heap {b..<b + Suc n} s s'"
    by (rule evolves_trans [OF e2 evolves_mono [OF conjunct1 [OF rest]]]) (use Suc.prems(4) in auto)
  ultimately show ?case by blast
qed

lemma update_new: "k \<notin> fst ` set ds \<Longrightarrow> AList.update k v ds = ds @ [(k, v)]"
  by (induction ds) auto

abbreviation alike :: "(deepCopyVisit \<Rightarrow> 'a dval option) \<Rightarrow> 'a dval \<times> 'a dval \<Rightarrow> 'a dval \<times> 'a dval \<Rightarrow> bool" where
  "alike \<sigma> e e' \<equiv> fst e' = fst e \<and> like \<sigma> (snd e) (snd e')"

lemma alike_mono: "list_all2 (alike \<sigma>) es es' \<Longrightarrow> \<sigma> \<subseteq>\<^sub>m \<tau> \<Longrightarrow> list_all2 (alike \<tau>) es es'"
  by (auto elim!: list_all2_mono intro: like_mono)

lemma leavesFlatD: "leavesFlat f \<Longrightarrow> flat v \<Longrightarrow> f v s = Some (v', s') \<Longrightarrow> v' = v \<and> s' = s"
  unfolding leavesFlat_def by blast

lemma copyEntries_right:
  assumes f: "rightCopier heap bound G f" "leavesFlat f"
  shows "list_all (\<lambda>e. flat (fst e) \<and> within G (snd e)) es \<Longrightarrow> distinct (map fst es) \<Longrightarrow>
    cs_heap s b = Some (CMap ds) \<Longrightarrow> fst ` set ds \<inter> fst ` set es = {} \<Longrightarrow> bound \<le> b \<Longrightarrow> b < cs_next s \<Longrightarrow>
    over heap bound s \<Longrightarrow> copyEntries f b es s = Some s' \<Longrightarrow>
    evolves heap {b} s s' \<and> (\<exists>es'. cellEntries (cs_heap s') b = ds @ es' \<and> list_all2 (alike (seen s')) es es')"
proof (induction es arbitrary: s ds)
  case Nil
  then show ?case by (simp add: evolves_refl cellEntries_def)
next
  case (Cons e es)
  obtain k v where e: "e = (k, v)" by (cases e)
  with Cons.prems(8) obtain k1 s0 v1 s1 where r0: "f k s = Some (k1, s0)" "f v s0 = Some (v1, s1)"
    "copyEntries f b es (writeCell b (CMap (AList.update k1 v1 (cellEntries (cs_heap s1) b))) s1) = Some s'"
    by (auto split: option.splits)
  have "k1 = k \<and> s0 = s" using leavesFlatD [OF f(2) _ r0(1)] Cons.prems(1) e by simp
  with r0 have r: "f v s = Some (v1, s1)"
    "copyEntries f b es (writeCell b (CMap (AList.update k v1 (cellEntries (cs_heap s1) b))) s1) = Some s'" by simp_all
  have w: "within G v" using Cons.prems(1) e by simp
  note one = rightCopierD [OF f(1) w Cons.prems(7) r(1)]
  have "cs_heap s1 b = Some (CMap ds)" using evolvesD(2) [OF one(1) Cons.prems(6)] Cons.prems(3) by simp
  then have "AList.update k v1 (cellEntries (cs_heap s1) b) = ds @ [(k, v1)]"
    using Cons.prems(4) e by (auto simp: cellEntries_def intro!: update_new)
  with r(2) have r2: "copyEntries f b es (writeCell b (CMap (ds @ [(k, v1)])) s1) = Some s'" by simp
  let ?s2 = "writeCell b (CMap (ds @ [(k, v1)])) s1"
  have e2: "evolves heap {b} s ?s2"
    by (rule evolves_trans [OF evolves_mono [OF one(1)] evolves_write]) (use Cons.prems(6) in auto)
  have b2: "b < cs_next ?s2" using Cons.prems(6) evolvesD(1) [OF one(1)] by (simp add: writeCell_def)
  obtain es' where rest: "evolves heap {b} ?s2 s'" "cellEntries (cs_heap s') b = (ds @ [(k, v1)]) @ es'"
    "list_all2 (alike (seen s')) es es'"
    using Cons.IH [OF _ _ _ _ Cons.prems(5) b2 over_write [OF one(3) Cons.prems(5)] r2, of "ds @ [(k, v1)]"]
      Cons.prems(1,2,4) e by (auto simp: writeCell_def)
  have "seen s1 \<subseteq>\<^sub>m seen s'" using evolvesD(3) [OF rest(1)] by (simp add: writeCell_def)
  then have "like (seen s') v v1" by (rule like_mono [OF one(2)])
  moreover have "evolves heap {b} s s'"
    by (rule evolves_trans [OF e2 rest(1)]) (use Cons.prems(6) in auto)
  ultimately show ?case using rest(2,3) e by auto
qed

text \<open>Values without references are copied as they are.\<close>

lemma copyAll_flat: "leavesFlat f \<Longrightarrow> list_all flat vs \<Longrightarrow> copyAll f vs s = Some (vs', s') \<Longrightarrow> vs' = vs \<and> s' = s"
proof (induction vs arbitrary: vs')
  case (Cons v vs)
  then obtain v1 s1 rest where r: "f v s = Some (v1, s1)" "copyAll f vs s1 = Some (rest, s')" "vs' = v1 # rest"
    by (auto split: option.splits)
  have "(v1, s1) = (v, s)" using leavesFlatD [OF Cons.prems(1) _ r(1)] Cons.prems(2) by simp
  then show ?case using Cons r by simp
qed simp

lemma copyFields_flat:
  "leavesFlat f \<Longrightarrow> list_all (\<lambda>x. fst x \<longrightarrow> flat (snd x)) fs \<Longrightarrow> copyFields f fs s = Some (fs', s') \<Longrightarrow> fs' = fs \<and> s' = s"
proof (induction fs arbitrary: fs')
  case (Cons x fs)
  obtain e v where x: "x = (e, v)" by (cases x)
  with Cons.prems obtain v1 s1 rest where
    r: "(if e then f v s else Some (v, s)) = Some (v1, s1)" "copyFields f fs s1 = Some (rest, s')" "fs' = (e, v1) # rest"
    by (auto split: option.splits)
  have "(v1, s1) = (v, s)" using leavesFlatD [OF Cons.prems(1), of v s v1 s1] Cons.prems(2) r(1) x by (auto split: if_splits)
  then show ?case using Cons r x by simp
qed simp

lemma deepCopyReflect_flat: "leavesFlat f \<Longrightarrow> leavesFlat (deepCopyReflect f)"
  unfolding leavesFlat_def [of "deepCopyReflect f"]
proof (intro allI impI)
  fix v :: "'a dval" and s r
  assume f: "leavesFlat f" and v: "flat v" "deepCopyReflect f v s = Some r"
  show "r = (v, s)"
  proof (cases v)
    case (DArray t vs)
    then obtain vs' s' where "copyAll f vs s = Some (vs', s')" "r = (DArray t vs', s')"
      using v by (auto simp: deepCopyReflect_def)
    then show ?thesis using copyAll_flat [OF f, of vs s vs' s'] v DArray by simp
  next
    case (DStruct t fs)
    then obtain fs' s' where "copyFields f fs s = Some (fs', s')" "r = (DStruct t fs', s')"
      using v by (auto simp: deepCopyReflect_def)
    then show ?thesis using copyFields_flat [OF f, of fs s fs' s'] v DStruct by simp
  qed (use v in \<open>auto simp: deepCopyReflect_def\<close>)
qed

lemma deepCopyValueSeen_flat: "leavesFlat (deepCopyValueSeen fuel)"
proof (induction fuel)
  case (Suc fuel)
  have "deepCopyValueSeen (Suc fuel) = deepCopyReflect (deepCopyValueSeen fuel)" by (rule ext)+ simp
  then show ?case using deepCopyReflect_flat [OF Suc] by simp
qed (simp add: leavesFlat_def)

lemma evolves_allocate: "evolves heap {} s (allocate n zero s)"
  by (simp add: evolves_def allocate_def)

lemma visitFor_eq: "deepCopyVisitFor ty a l = Some visit \<Longrightarrow> visit = (ty, a, l)"
  by (auto simp: deepCopyVisitFor_def split: refType.splits if_splits)

text \<open>A reference that is remembered, its cells allocated and filled.\<close>

lemma evolves_fill:
  assumes start: "s1 = rememberDeepCopy ty a l (DRef ty (cs_next s) l) (allocate (span visit) zero s)"
    and visit: "deepCopyVisitFor ty a l = Some visit" "seen s visit = None"
    and fill: "evolves heap {cs_next s..<cs_next s + span visit} s1 s2"
      "completed (seen s2) heap (cs_heap s2) visit (cs_next s)"
  shows "evolves heap {} s s2" "like (seen s2) (DRef ty a l) (DRef ty (cs_next s) l)"
proof -
  have v: "visit = (ty, a, l)" using visitFor_eq [OF visit(1)] .
  have s1: "cs_next s1 = cs_next s + span visit" "seen s1 = (seen s)(visit \<mapsto> DRef ty (cs_next s) l)"
    "\<And>x. x < cs_next s \<Longrightarrow> cs_heap s1 x = cs_heap s x"
    by (auto simp: start rememberDeepCopy_def visit(1) allocate_def)
  have out: "seen s2 visit = Some (DRef ty (cs_next s) l)"
    by (rule map_leD [OF evolvesD(3) [OF fill(1)]]) (simp add: s1(2))
  have new: "placed heap s2 (cs_next s) key w" if "seen s2 key = Some w" "seen s key = None" for key w
  proof (cases "key = visit")
    case True
    then show ?thesis
      using that out evolvesD(1) [OF fill(1)] fill(2) by (auto simp: placed_def v s1(1))
  next
    case False
    then have "seen s1 key = None" using that(2) by (simp add: s1(2))
    from evolvesD(4) [OF fill(1) that(1) this] show ?thesis by (auto simp: placed_def s1(1))
  qed
  have old: "cs_heap s2 x = cs_heap s x" if "x < cs_next s" for x
    using evolvesD(2) [OF fill(1), of x] that s1(1,3) by simp
  have "seen s \<subseteq>\<^sub>m seen s1" using visit(2) by (auto simp: s1(2) map_le_def)
  then have "seen s \<subseteq>\<^sub>m seen s2" using evolvesD(3) [OF fill(1)] by (rule map_le_trans)
  then show "evolves heap {} s s2"
    using new old evolvesD(1) [OF fill(1)] s1(1) unfolding evolves_def by auto
  show "like (seen s2) (DRef ty a l) (DRef ty (cs_next s) l)" by (rule like.ref [of _ _ _ visit]) (use visit(1) out in auto)
qed

lemma graphD:
  assumes "graph heap bound G" "visit \<in> G"
  shows "fst (snd visit) + span visit \<le> bound" "list_all (within G) (children heap visit)"
    "\<And>t a l. visit = (MapOf t, a, l) \<Longrightarrow>
      distinct (map fst (cellEntries heap a)) \<and> list_all (\<lambda>e. flat (fst e)) (cellEntries heap a)"
  using assms unfolding graph_def by fastforce+

lemma over_start: "over heap bound s \<Longrightarrow> over heap bound (rememberDeepCopy ty a l out (allocate n zero s))"
  by (auto simp: over_def rememberDeepCopy_def allocate_def split: option.split)

lemma start_next: "cs_next (rememberDeepCopy ty a l out (allocate n zero s)) = cs_next s + n"
  by (simp add: rememberDeepCopy_def allocate_def split: option.split)

lemma reference_right:
  assumes g: "graph heap bound G" and f: "rightCopier heap bound G f" "leavesFlat f"
    and v: "within G (DRef ty a l)" "over heap bound s" "deepCopySeenValue s ty a l = None"
    and r: "deepCopyReflect f (DRef ty a l) s = Some (v', s')"
  shows "evolves heap {} s s' \<and> like (seen s') (DRef ty a l) v'"
proof (cases "deepCopyVisitFor ty a l")
  case None
  then obtain t where t: "ty = SliceOf t" "l = 0" by (auto simp: deepCopyVisitFor_def split: refType.splits if_splits)
  then have "v' = DRef ty (cs_next s) 0" "s' = allocate 0 (CVal DNil) s"
    using r v(3) by (auto simp: deepCopyReflect_def rememberDeepCopy_def deepCopyVisitFor_def Let_def)
  then show ?thesis using evolves_allocate None t by (auto intro: like.empty)
next
  case (Some visit)
  then have visit: "visit = (ty, a, l)" "visit \<in> G" "seen s visit = None"
    using visitFor_eq v(1,3) by (auto simp: deepCopySeenValue_def)
  note src = graphD [OF g visit(2)]
  let ?b = "cs_next s" and ?out = "DRef ty (cs_next s) l"
  let ?start = "\<lambda>n zero. rememberDeepCopy ty a l ?out (allocate n zero s)"
  have b: "bound \<le> ?b" using v(2) by (simp add: over_def)
  have "v' = ?out \<and> evolves heap {?b..<?b + span visit} (?start (span visit) (case ty of MapOf _ \<Rightarrow> CMap [] | _ \<Rightarrow> CVal DNil)) s' \<and>
      completed (seen s') heap (cs_heap s') visit ?b"
  proof (cases ty)
    case (SliceOf t)
    then have fill: "v' = ?out" "copyElems f a ?b l (?start l (CVal DNil)) = Some s'"
      using r v(3) by (auto simp: deepCopyReflect_def Let_def)
    have "evolves heap {?b..<?b + l} (?start l (CVal DNil)) s' \<and>
        (\<forall>i<l. like (seen s') (cellValue heap (a + i)) (cellValue (cs_heap s') (?b + i)))"
      by (rule copyElems_right [OF f(1) _ _ b _ over_start [OF v(2)] fill(2)])
        (use src(1,2) SliceOf in \<open>auto simp: visit(1) span_def children_def list_all_iff start_next\<close>)
    then show ?thesis using fill(1) SliceOf by (auto simp: visit(1) span_def completed_def)
  next
    case (PtrTo t)
    then have fill: "v' = ?out" "copyElems f a ?b 1 (?start 1 (CVal DNil)) = Some s'"
      using r v(3) by (auto simp: deepCopyReflect_def Let_def)
    have "evolves heap {?b..<?b + 1} (?start 1 (CVal DNil)) s' \<and>
        (\<forall>i<1. like (seen s') (cellValue heap (a + i)) (cellValue (cs_heap s') (?b + i)))"
      by (rule copyElems_right [OF f(1) _ _ b _ over_start [OF v(2)] fill(2)])
        (use src(1,2) PtrTo in \<open>auto simp: visit(1) span_def children_def start_next\<close>)
    then show ?thesis using fill(1) PtrTo by (auto simp: visit(1) span_def completed_def)
  next
    case (MapOf t)
    have "cellEntries (cs_heap s) a = cellEntries heap a"
      using over_cell [OF v(2), of a] src(1) MapOf by (simp add: visit(1) span_def cellEntries_def)
    then have fill: "v' = ?out" "copyEntries f ?b (cellEntries heap a) (?start 1 (CMap [])) = Some s'"
      using r v(3) MapOf by (auto simp: deepCopyReflect_def Let_def)
    have "evolves heap {?b} (?start 1 (CMap [])) s' \<and>
        (\<exists>es'. cellEntries (cs_heap s') ?b = [] @ es' \<and> list_all2 (alike (seen s')) (cellEntries heap a) es')"
      by (rule copyEntries_right [OF f _ _ _ _ b _ over_start [OF v(2)] fill(2)])
        (use src(2) src(3) [of t a l] MapOf in
          \<open>auto simp: visit(1) children_def list_all_iff start_next, auto simp: rememberDeepCopy_def allocate_def split: option.split\<close>)
    then show ?thesis using fill(1) MapOf by (auto simp: visit(1) span_def completed_def)
  qed
  then show ?thesis using evolves_fill [OF refl Some visit(3)] by blast
qed

lemma deepCopyReflect_right:
  assumes g: "graph heap bound G" and f: "rightCopier heap bound G f" "leavesFlat f"
  shows "rightCopier heap bound G (deepCopyReflect f)"
  unfolding rightCopier_def
proof (intro allI impI)
  fix v :: "'a dval" and s v' s'
  assume v: "within G v" "over heap bound s" "deepCopyReflect f v s = Some (v', s')"
  show "evolves heap {} s s' \<and> like (seen s') v v'"
  proof (cases v)
    case (DRef ty a l)
    show ?thesis
    proof (cases "deepCopySeenValue s ty a l")
      case None
      then show ?thesis using reference_right [OF g f _ v(2)] v DRef by blast
    next
      case (Some copied)
      then obtain visit where "deepCopyVisitFor ty a l = Some visit" "seen s visit = Some copied"
        by (auto simp: deepCopySeenValue_def split: option.splits)
      moreover have "v' = copied \<and> s' = s" using v(3) Some DRef by (simp add: deepCopyReflect_def)
      ultimately show ?thesis using DRef by (auto simp: evolves_refl intro: like.ref)
    qed
  next
    case (DArray t vs)
    then obtain vs' where r: "copyAll f vs s = Some (vs', s')" "v' = DArray t vs'"
      using v(3) by (auto simp: deepCopyReflect_def)
    show ?thesis using copyAll_right [OF f(1) _ v(2) r(1)] v(1) DArray r(2) by (auto intro: like.array)
  next
    case (DStruct t fs)
    then obtain fs' where r: "copyFields f fs s = Some (fs', s')" "v' = DStruct t fs'"
      using v(3) by (auto simp: deepCopyReflect_def)
    show ?thesis using copyFields_right [OF f(1) _ v(2) r(1)] v(1) DStruct r(2) by (auto intro: like.struct)
  qed (use v in \<open>auto simp: deepCopyReflect_def evolves_refl intro: like.intros\<close>)
qed

lemma deepCopyValueSeen_right: "graph heap bound G \<Longrightarrow> rightCopier heap bound G (deepCopyValueSeen fuel)"
proof (induction fuel)
  case (Suc fuel)
  have "deepCopyValueSeen (Suc fuel) = deepCopyReflect (deepCopyValueSeen fuel)" by (rule ext)+ simp
  then show ?case using deepCopyReflect_right [OF Suc.prems Suc.IH [OF Suc.prems] deepCopyValueSeen_flat] by simp
qed (simp add: rightCopier_def)

text \<open>The entries of the table are different references to cells already given out. The loops only write
  to the heap, and every reference that is entered refers to a cell not given out before.\<close>

definition below :: "nat \<Rightarrow> deepCopyVisit \<times> 'a dval \<Rightarrow> bool" where
  "below n entry \<longleftrightarrow> (\<exists>b<n. snd entry = DRef (fst (fst entry)) b (snd (snd (fst entry))))"

definition numbered :: "'a copyState \<Rightarrow> bool" where
  "numbered s \<longleftrightarrow> distinct (map snd (cs_seen s)) \<and> (\<forall>entry\<in>set (cs_seen s). below (cs_next s) entry)"

lemma below_more: "below n entry \<Longrightarrow> n \<le> m \<Longrightarrow> below m entry"
  unfolding below_def using less_le_trans by blast

lemma below_next: "\<not> below n (visit, DRef ty n l)"
  by (simp add: below_def)

definition keepsNumbers :: "'a copier \<Rightarrow> bool" where
  "keepsNumbers f \<longleftrightarrow> (\<forall>v s v' s'. numbered s \<longrightarrow> f v s = Some (v', s') \<longrightarrow> numbered s')"

lemma keepsNumbersD: "keepsNumbers f \<Longrightarrow> f v s = Some (v', s') \<Longrightarrow> numbered s \<Longrightarrow> numbered s'"
  unfolding keepsNumbers_def by blast

lemma numbered_write [simp]: "numbered (writeCell b c s) = numbered s"
  by (simp add: numbered_def writeCell_def)

lemma copyElems_numbered:
  "keepsNumbers f \<Longrightarrow> copyElems f a b n s = Some s' \<Longrightarrow> numbered s \<Longrightarrow> numbered s'"
  by (induction n arbitrary: a b s) (auto split: option.splits dest: keepsNumbersD)

lemma copyEntries_numbered:
  "keepsNumbers f \<Longrightarrow> copyEntries f b es s = Some s' \<Longrightarrow> numbered s \<Longrightarrow> numbered s'"
proof (induction es arbitrary: s)
  case (Cons e es)
  obtain k v where e: "e = (k, v)" by (cases e)
  with Cons.prems(2) obtain k' s1 v' s2 where r: "f k s = Some (k', s1)" "f v s1 = Some (v', s2)"
    "copyEntries f b es (writeCell b (CMap (AList.update k' v' (cellEntries (cs_heap s2) b))) s2) = Some s'"
    by (auto split: option.splits)
  have "numbered s2"
    by (rule keepsNumbersD [OF Cons.prems(1) r(2) keepsNumbersD [OF Cons.prems(1) r(1) Cons.prems(3)]])
  then show ?case using Cons.IH [OF Cons.prems(1) r(3)] by simp
qed simp

lemma copyAll_numbered:
  "keepsNumbers f \<Longrightarrow> copyAll f vs s = Some (vs', s') \<Longrightarrow> numbered s \<Longrightarrow> numbered s'"
  by (induction vs arbitrary: s vs') (auto split: option.splits dest: keepsNumbersD)

lemma copyFields_numbered:
  "keepsNumbers f \<Longrightarrow> copyFields f fs s = Some (fs', s') \<Longrightarrow> numbered s \<Longrightarrow> numbered s'"
  by (induction f fs s arbitrary: fs' rule: copyFields.induct)
    (auto split: option.splits if_splits dest: keepsNumbersD)

lemma numberedD:
  assumes "numbered s"
  shows "distinct (map snd (cs_seen s))" "entry \<in> set (cs_seen s) \<Longrightarrow> below (cs_next s) entry"
  using assms unfolding numbered_def by blast+

lemma start_numbered:
  assumes "numbered s" "span (ty, a, l) \<le> n"
  shows "numbered (rememberDeepCopy ty a l (DRef ty (cs_next s) l) (allocate n zero s))"
proof -
  let ?out = "DRef ty (cs_next s) l"
  have old: "\<forall>entry\<in>set (cs_seen s). below (cs_next s + n) entry"
    using numberedD(2) [OF assms(1)] below_more [OF _ le_add1] by blast
  have new: "?out \<notin> snd ` set (cs_seen s)"
  proof
    assume "?out \<in> snd ` set (cs_seen s)"
    then obtain visit where "(visit, ?out) \<in> set (cs_seen s)" by auto
    from numberedD(2) [OF assms(1) this] show False using below_next by blast
  qed
  show ?thesis
  proof (cases "deepCopyVisitFor ty a l")
    case None
    then show ?thesis
      using old numberedD(1) [OF assms(1)] unfolding numbered_def rememberDeepCopy_def allocate_def by simp
  next
    case (Some visit)
    then have v: "visit = (ty, a, l)" "0 < span (ty, a, l)"
      by (auto simp: deepCopyVisitFor_def span_def split: refType.splits if_splits)
    then have "below (cs_next s + n) (visit, ?out)" using assms(2) by (simp add: below_def)
    then show ?thesis
      using old new numberedD(1) [OF assms(1)] unfolding numbered_def rememberDeepCopy_def allocate_def
      by (simp add: Some)
  qed
qed

lemma deepCopyReflect_numbered: "keepsNumbers f \<Longrightarrow> keepsNumbers (deepCopyReflect f)"
  unfolding keepsNumbers_def [of "deepCopyReflect f"]
proof (intro allI impI)
  fix v :: "'a dval" and s v' s'
  assume f: "keepsNumbers f" and s: "numbered s" and r: "deepCopyReflect f v s = Some (v', s')"
  show "numbered s'"
  proof (cases v)
    case (DRef ty a l)
    show ?thesis
    proof (cases "deepCopySeenValue s ty a l")
      case None
      show ?thesis
      proof (cases ty)
        case (SliceOf t)
        have "span (ty, a, l) \<le> l" by (simp add: span_def SliceOf)
        then show ?thesis
          using r DRef None SliceOf copyElems_numbered [OF f _ start_numbered [OF s]]
          by (auto simp: deepCopyReflect_def Let_def)
      next
        case (MapOf t)
        have "span (ty, a, l) \<le> 1" by (simp add: span_def MapOf)
        then show ?thesis
          using r DRef None MapOf copyEntries_numbered [OF f _ start_numbered [OF s]]
          by (auto simp: deepCopyReflect_def Let_def)
      next
        case (PtrTo t)
        have "span (ty, a, l) \<le> 1" by (simp add: span_def PtrTo)
        then show ?thesis
          using r DRef None PtrTo copyElems_numbered [OF f _ start_numbered [OF s]]
          by (auto simp: deepCopyReflect_def Let_def simp del: copyElems.simps)
      qed
    qed (use r s DRef in \<open>simp add: deepCopyReflect_def\<close>)
  qed (use r s copyAll_numbered [OF f] copyFields_numbered [OF f] in \<open>auto simp: deepCopyReflect_def\<close>)
qed

lemma deepCopyValueSeen_numbered: "keepsNumbers (deepCopyValueSeen fuel)"
proof (induction fuel)
  case (Suc fuel)
  have "deepCopyValueSeen (Suc fuel) = deepCopyReflect (deepCopyValueSeen fuel)" by (rule ext)+ simp
  then show ?case using deepCopyReflect_numbered [OF Suc] by simp
qed (simp add: keepsNumbers_def)

text \<open>All that a whole copy gives: a table of different references, whose every entry is a completed copy in a
  new cell.\<close>

lemma deepCopyValue_right:
  assumes "graph heap bound G" "within G v" "deepCopyValue fuel heap bound v = Some (v', heap')"
  obtains s where "cs_heap s = heap'" "like (seen s) v v'" "over heap bound s"
    "\<And>visit w. seen s visit = Some w \<Longrightarrow> placed heap s bound visit w" "numbered s"
proof -
  let ?s0 = "\<lparr>cs_heap = heap, cs_next = bound, cs_seen = []\<rparr>"
  obtain s where s: "deepCopyValueSeen fuel v ?s0 = Some (v', s)" "cs_heap s = heap'"
    using assms(3) by (auto simp: deepCopyValue_def)
  have o: "over heap bound ?s0" by (simp add: over_def)
  note right = rightCopierD [OF deepCopyValueSeen_right [OF assms(1)] assms(2) o s(1)]
  have "numbered s" by (rule keepsNumbersD [OF deepCopyValueSeen_numbered s(1)]) (simp add: numbered_def)
  then show thesis by (rule that [OF s(2) right(2,3), rotated]) (use evolvesD(4) [OF right(1)] in simp)
qed

section \<open>What can be seen of a value\<close>

datatype 'a tree =
    TNil
  | TPlain 'a
  | TNilRef refType
  | TCut
  | TRef refType nat "'a tree list"
  | TMap refType "('a dval \<times> 'a tree) list"
  | TArray string "'a tree list"
  | TStruct string "(bool \<times> ('a tree + 'a dval)) list"

text \<open>A value unfolded through so many references. A field that is not exported is what it holds.\<close>

function (sequential) view :: "nat \<Rightarrow> 'a heap \<Rightarrow> 'a dval \<Rightarrow> 'a tree" where
  "view 0 heap (DRef ty a l) = TCut"
| "view (Suc k) heap (DRef ty a l) =
     (case ty of
        MapOf _ \<Rightarrow> TMap ty (map (\<lambda>e. (fst e, view k heap (snd e))) (cellEntries heap a))
      | _ \<Rightarrow> TRef ty l (map (view k heap) (children heap (ty, a, l))))"
| "view k heap (DArray t vs) = TArray t (map (view k heap) vs)"
| "view k heap (DStruct t fs) = TStruct t (map (\<lambda>f. (fst f, if fst f then Inl (view k heap (snd f)) else Inr (snd f))) fs)"
| "view k heap DNil = TNil"
| "view k heap (DPlain x) = TPlain x"
| "view k heap (DNilRef ty) = TNilRef ty"
  by pat_completeness auto

termination
proof (relation "measures [\<lambda>(k, heap, v). k, \<lambda>(k, heap, v). size v]")
  show "((k, heap, v), (k, heap, DArray t vs)) \<in> measures [\<lambda>(k, heap, v). k, \<lambda>(k, heap, v). size v]"
    if "v \<in> set vs" for k and heap :: "'a heap" and v t vs
    using size_list_estimation' [OF that, of "size v" size] by simp
  show "((k, heap, snd f), (k, heap, DStruct t fs)) \<in> measures [\<lambda>(k, heap, v). k, \<lambda>(k, heap, v). size v]"
    if "f \<in> set fs" for k and heap :: "'a heap" and f t fs
    using size_list_estimation' [OF that, of "size (snd f)" "size_prod (\<lambda>_. 0) size"] by (cases f) simp
qed auto

lemma children_agree:
  assumes "\<And>x. x < bound \<Longrightarrow> h x = heap x" "fst (snd visit) + span visit \<le> bound"
  shows "children h visit = children heap visit"
    and "\<And>t a l. visit = (MapOf t, a, l) \<Longrightarrow> cellEntries h a = cellEntries heap a"
  using assms
  by (auto simp: children_def span_def cellValue_def cellEntries_def split: prod.splits refType.splits)

lemma view_by_refs:
  assumes "\<And>ty a l. within G (DRef ty a l) \<Longrightarrow> view k h (DRef ty a l) = view k heap (DRef ty a l)"
  shows "within G v \<Longrightarrow> view k h v = view k heap v"
proof (induction v)
  case (DStruct t fs)
  then have "view k h (snd f) = view k heap (snd f)" if "f \<in> set fs" "fst f" for f
    using that by (cases f) (force simp: list_all_iff)
  then show ?case by simp
qed (auto simp: list_all_iff assms)

lemma view_agree:
  assumes "graph heap bound G" "\<And>x. x < bound \<Longrightarrow> h x = heap x"
  shows "within G v \<Longrightarrow> view k h v = view k heap v"
proof (induction k arbitrary: v)
  case 0
  show ?case by (rule view_by_refs [OF _ 0]) simp
next
  case (Suc k)
  have "view (Suc k) h (DRef ty a l) = view (Suc k) heap (DRef ty a l)" if "within G (DRef ty a l)" for ty a l
  proof (cases "deepCopyVisitFor ty a l")
    case None
    then show ?thesis by (auto simp: deepCopyVisitFor_def children_def split: refType.splits if_splits)
  next
    case (Some visit)
    then have visit: "(ty, a, l) \<in> G" using visitFor_eq that by auto
    note src = graphD [OF assms(1) visit]
    note same = children_agree [OF assms(2) src(1)]
    have "view k h w = view k heap w" if "w \<in> set (children heap (ty, a, l))" for w
      using that src(2) Suc.IH by (auto simp: list_all_iff)
    then show ?thesis
      using same by (cases ty) (auto simp: children_def)
  qed
  then show ?case by (rule view_by_refs [OF _ Suc.prems])
qed

lemma view_like_by_refs:
  assumes "\<And>ty a l w. within G (DRef ty a l) \<Longrightarrow> like \<sigma> (DRef ty a l) w \<Longrightarrow> view k h w = view k heap (DRef ty a l)"
  shows "within G v \<Longrightarrow> like \<sigma> v w \<Longrightarrow> view k h w = view k heap v"
proof (induction v arbitrary: w)
  case (DArray t vs)
  then obtain ws where ws: "w = DArray t ws" "list_all2 (like \<sigma>) vs ws" by (auto elim: like.cases)
  then have "map (view k h) ws = map (view k heap) vs"
    using DArray by (auto simp: list_all2_conv_all_nth list_all_iff intro!: nth_equalityI)
  then show ?case by (simp add: ws(1))
next
  case (DStruct t fs)
  then obtain gs where gs: "w = DStruct t gs"
    "list_all2 (\<lambda>f g. fst g = fst f \<and> (fst f \<longrightarrow> like \<sigma> (snd f) (snd g)) \<and> (\<not> fst f \<longrightarrow> snd g = snd f)) fs gs"
    by (auto elim: like.cases)
  have "view k h (snd (gs ! i)) = view k heap (snd (fs ! i))" if "i < length fs" "fst (fs ! i)" for i
  proof -
    have "fs ! i \<in> set fs" "like \<sigma> (snd (fs ! i)) (snd (gs ! i))" "within G (snd (fs ! i))"
      using that gs(2) DStruct.prems(1) by (auto simp: list_all2_conv_all_nth list_all_length)
    then show ?thesis
      by (intro DStruct.IH [of "fs ! i" "snd (fs ! i)"]) (auto simp: Basic_BNFs.prod_set_defs)
  qed
  then have "map (\<lambda>f. (fst f, if fst f then Inl (view k h (snd f)) else Inr (snd f))) gs =
      map (\<lambda>f. (fst f, if fst f then Inl (view k heap (snd f)) else Inr (snd f))) fs"
    using gs(2) by (auto simp: list_all2_conv_all_nth intro!: nth_equalityI)
  then show ?case by (simp add: gs(1))
qed (auto elim: like.cases simp: assms)

text \<open>The cells an owner of a value can write to.\<close>

fun refs :: "'a dval \<Rightarrow> deepCopyVisit list" where
  "refs (DRef ty a l) = (case deepCopyVisitFor ty a l of None \<Rightarrow> [] | Some visit \<Rightarrow> [visit])"
| "refs (DArray t vs) = concat (map refs vs)"
| "refs (DStruct t fs) = concat (map (\<lambda>f. if fst f then refs (snd f) else []) fs)"
| "refs v = []"

inductive reaches :: "'a heap \<Rightarrow> 'a dval \<Rightarrow> nat \<Rightarrow> bool" for heap where
  here: "visit \<in> set (refs v) \<Longrightarrow> fst (snd visit) \<le> x \<Longrightarrow> x < fst (snd visit) + span visit \<Longrightarrow> reaches heap v x"
| deeper: "visit \<in> set (refs v) \<Longrightarrow> w \<in> set (children heap visit) \<Longrightarrow> reaches heap w x \<Longrightarrow> reaches heap v x"

lemma like_refs:
  assumes "\<And>visit w. \<sigma> visit = Some w \<Longrightarrow> \<exists>b. w = DRef (fst visit) b (snd (snd visit))"
  shows "like \<sigma> v w \<Longrightarrow> visit' \<in> set (refs w) \<Longrightarrow>
    \<exists>visit b. \<sigma> visit = Some (DRef (fst visit) b (snd (snd visit))) \<and> visit' = (fst visit, b, snd (snd visit))"
proof (induction rule: like.induct)
  case (ref ty a l visit w)
  then obtain b where "w = DRef (fst visit) b (snd (snd visit))" using assms by blast
  then show ?case
    using ref by (auto split: option.splits dest!: visitFor_eq visitFor_eq [OF sym])
next
  case (empty ty a l b)
  then have "deepCopyVisitFor ty b l = None" by (auto simp: deepCopyVisitFor_def split: refType.splits if_splits)
  then show ?case using empty by simp
next
  case (array vs ws t)
  then show ?case by (fastforce simp: list_all2_conv_all_nth in_set_conv_nth)
next
  case (struct fs gs t)
  then obtain g where "g \<in> set gs" "fst g" "visit' \<in> set (refs (snd g))" by (auto split: if_splits)
  then obtain i where "i < length gs" "fst (gs ! i)" "visit' \<in> set (refs (snd (gs ! i)))" by (auto simp: in_set_conv_nth)
  then show ?case using struct.IH by (auto simp: list_all2_conv_all_nth)
qed auto

lemma list_all2_member: "list_all2 P xs ys \<Longrightarrow> y \<in> set ys \<Longrightarrow> \<exists>x\<in>set xs. P x y"
  by (induction rule: list_all2_induct) auto

lemma completed_children:
  assumes "completed \<sigma> heap h visit b" "w \<in> set (children h (fst visit, b, snd (snd visit)))"
  shows "\<exists>v\<in>set (children heap visit). like \<sigma> v w"
proof -
  obtain ty a l where v: "visit = (ty, a, l)" by (cases visit)
  show ?thesis
  proof (cases ty)
    case (SliceOf t)
    then obtain x where "b \<le> x" "x < b + l" "w = cellValue h x" using assms(2) by (auto simp: children_def v)
    then have "x - b < l" "w = cellValue h (b + (x - b))" by auto
    moreover from this(1) have "cellValue heap (a + (x - b)) \<in> set (children heap visit)"
      by (simp add: children_def v SliceOf)
    ultimately show ?thesis using assms(1) SliceOf by (auto simp: completed_def v)
  next
    case (PtrTo t)
    then show ?thesis using assms by (auto simp: children_def completed_def v)
  next
    case (MapOf t)
    then obtain e' where e': "e' \<in> set (cellEntries h b)" "w = snd e'" using assms(2) by (auto simp: children_def v)
    have "list_all2 (alike \<sigma>) (cellEntries heap a) (cellEntries h b)"
      using assms(1) MapOf by (simp add: completed_def v)
    from list_all2_member [OF this e'(1)] obtain e where "e \<in> set (cellEntries heap a)" "like \<sigma> (snd e) w"
      using e'(2) by blast
    then show ?thesis using MapOf by (auto simp: children_def v)
  qed
qed

lemma view_like:
  assumes g: "graph heap bound G" and p: "\<And>visit w. seen s visit = Some w \<Longrightarrow> placed heap s bound visit w"
  shows "within G v \<Longrightarrow> like (seen s) v w \<Longrightarrow> view k (cs_heap s) w = view k heap v"
proof (induction k arbitrary: v w)
  case 0
  have "view 0 (cs_heap s) w = view 0 heap (DRef ty a l)" if "like (seen s) (DRef ty a l) w" for ty a l w
    using that
  proof (cases rule: like.cases)
    case (ref visit)
    from p [OF ref(2)] show ?thesis by (auto simp: placed_def)
  qed simp_all
  then show ?case by (rule view_like_by_refs [OF _ 0])
next
  case (Suc k)
  have "view (Suc k) (cs_heap s) w = view (Suc k) heap (DRef ty a l)"
    if v: "within G (DRef ty a l)" and l: "like (seen s) (DRef ty a l) w" for ty a l w
  proof (cases "deepCopyVisitFor ty a l")
    case None
    with l obtain b where "w = DRef ty b l" by (auto elim: like.cases)
    then show ?thesis using None by (auto simp: deepCopyVisitFor_def children_def split: refType.splits if_splits)
  next
    case (Some visit)
    then have visit: "visit = (ty, a, l)" "(ty, a, l) \<in> G" using visitFor_eq v by auto
    have "seen s (ty, a, l) = Some w" using l Some visit(1) by (auto elim: like.cases)
    from p [OF this] obtain b where b: "w = DRef ty b l" "completed (seen s) heap (cs_heap s) (ty, a, l) b"
      by (auto simp: placed_def)
    have src: "list_all (within G) (children heap (ty, a, l))" by (rule graphD [OF g visit(2)])
    show ?thesis
    proof (cases ty)
      case (SliceOf t)
      have "view k (cs_heap s) (cellValue (cs_heap s) (b + i)) = view k heap (cellValue heap (a + i))" if "i < l" for i
        by (rule Suc.IH) (use that b(2) src SliceOf in \<open>auto simp: completed_def children_def list_all_iff\<close>)
      then have "map (view k (cs_heap s)) (children (cs_heap s) (ty, b, l)) = map (view k heap) (children heap (ty, a, l))"
        by (auto simp: children_def SliceOf intro!: nth_equalityI)
      then show ?thesis by (simp add: b(1) SliceOf)
    next
      case (PtrTo t)
      have "view k (cs_heap s) (cellValue (cs_heap s) b) = view k heap (cellValue heap a)"
        by (rule Suc.IH) (use b(2) src PtrTo in \<open>auto simp: completed_def children_def\<close>)
      then show ?thesis by (simp add: b(1) PtrTo children_def)
    next
      case (MapOf t)
      have "list_all2 (\<lambda>e e'. fst e' = fst e \<and> view k (cs_heap s) (snd e') = view k heap (snd e))
          (cellEntries heap a) (cellEntries (cs_heap s) b)"
        using b(2) src MapOf Suc.IH
        by (auto simp: completed_def children_def list_all_iff list_all2_conv_all_nth)
      then have "map (\<lambda>e. (fst e, view k (cs_heap s) (snd e))) (cellEntries (cs_heap s) b) =
          map (\<lambda>e. (fst e, view k heap (snd e))) (cellEntries heap a)"
        by (auto simp: list_all2_conv_all_nth intro!: nth_equalityI)
      then show ?thesis by (simp add: b(1) MapOf)
    qed
  qed
  then show ?case by (rule view_like_by_refs [OF _ Suc.prems])
qed

lemma reaches_new:
  assumes p: "\<And>visit w. seen s visit = Some w \<Longrightarrow> placed heap s bound visit w"
  shows "reaches (cs_heap s) w x \<Longrightarrow> like (seen s) v w \<Longrightarrow> bound \<le> x"
proof (induction arbitrary: v rule: reaches.induct)
  case (here visit' w x)
  obtain visit b where m: "seen s visit = Some (DRef (fst visit) b (snd (snd visit)))" "visit' = (fst visit, b, snd (snd visit))"
    using like_refs [OF _ here.prems here.hyps(1)] p unfolding placed_def by blast
  from p [OF m(1)] have "bound \<le> b" by (auto simp: placed_def)
  then show ?case using here.hyps(2) m(2) by simp
next
  case (deeper visit' w w' x)
  obtain visit b where m: "seen s visit = Some (DRef (fst visit) b (snd (snd visit)))" "visit' = (fst visit, b, snd (snd visit))"
    using like_refs [OF _ deeper.prems deeper.hyps(1)] p unfolding placed_def by blast
  from p [OF m(1)] have "completed (seen s) heap (cs_heap s) visit b" by (auto simp: placed_def)
  from completed_children [OF this] deeper.hyps(2) m(2) obtain v' where "like (seen s) v' w'" by blast
  then show ?case by (rule deeper.IH)
qed

text \<open>Where a path leads: to a reference of the value itself, or on through an element, an entry or the target
  of it. Two paths lead to the same reference exactly when the value shares it. A slice without
  elements is no reference here, and has no cell.\<close>

fun visitAt :: "'a heap \<Rightarrow> 'a dval \<Rightarrow> nat \<Rightarrow> (nat \<times> nat) list \<Rightarrow> deepCopyVisit option" where
  "visitAt heap v i [] = (if i < length (refs v) then Some (refs v ! i) else None)"
| "visitAt heap v i ((c, j) # path) =
     (if i < length (refs v) \<and> c < length (children heap (refs v ! i))
      then visitAt heap (children heap (refs v ! i) ! c) j path else None)"

definition copied :: "(deepCopyVisit \<Rightarrow> 'a dval option) \<Rightarrow> deepCopyVisit \<Rightarrow> deepCopyVisit" where
  "copied \<sigma> visit = (case \<sigma> visit of Some (DRef ty b l) \<Rightarrow> (ty, b, l) | _ \<Rightarrow> visit)"

definition refTable :: "(deepCopyVisit \<Rightarrow> 'a dval option) \<Rightarrow> bool" where
  "refTable \<sigma> \<longleftrightarrow> (\<forall>visit w. \<sigma> visit = Some w \<longrightarrow> (\<exists>b. w = DRef (fst visit) b (snd (snd visit))))"

lemma visitFor_size: "deepCopyVisitFor ty a l = Some visit \<Longrightarrow> deepCopyVisitFor ty b l = Some (ty, b, l)"
  by (auto simp: deepCopyVisitFor_def split: refType.splits if_splits)

lemma like_copied:
  assumes t: "refTable \<sigma>"
  shows "like \<sigma> v w \<Longrightarrow> refs w = map (copied \<sigma>) (refs v) \<and> (\<forall>visit\<in>set (refs v). \<sigma> visit \<noteq> None)"
proof (induction rule: like.induct)
  case (ref ty a l visit w)
  moreover have "visit = (ty, a, l)" by (rule visitFor_eq [OF ref(1)])
  moreover from this ref(2) t obtain b where "w = DRef ty b l" by (fastforce simp: refTable_def)
  ultimately show ?case by (simp add: copied_def visitFor_size [OF ref(1)])
next
  case (empty ty a l b)
  then have "deepCopyVisitFor ty b l = None" by (auto simp: deepCopyVisitFor_def split: refType.splits if_splits)
  then show ?case using empty by simp
next
  case (array vs ws t)
  then have "map refs ws = map (\<lambda>v. map (copied \<sigma>) (refs v)) vs"
    by (auto simp: list_all2_conv_all_nth intro!: nth_equalityI)
  then have "refs (DArray t ws) = map (copied \<sigma>) (refs (DArray t vs))" by (simp add: map_concat comp_def)
  then show ?case using array by (auto simp: list_all2_conv_all_nth in_set_conv_nth [of _ vs])
next
  case (struct fs gs t)
  then have "map (\<lambda>g. if fst g then refs (snd g) else []) gs =
      map (\<lambda>f. map (copied \<sigma>) (if fst f then refs (snd f) else [])) fs"
    by (auto simp: list_all2_conv_all_nth intro!: nth_equalityI)
  then have "refs (DStruct t gs) = map (copied \<sigma>) (refs (DStruct t fs))"
    by (simp add: map_concat comp_def)
  then show ?case using struct by (auto simp: list_all2_conv_all_nth in_set_conv_nth [of _ fs] split: if_splits)
qed auto

lemma completed_all:
  assumes "completed \<sigma> heap h (ty, a, l) b"
  shows "list_all2 (like \<sigma>) (children heap (ty, a, l)) (children h (ty, b, l))"
  using assms
  by (cases ty) (auto simp: completed_def children_def list_all2_conv_all_nth)

text \<open>Every path leads in the copy to the copy of what it leads to in the value.\<close>

lemma visitAt_copied:
  assumes p: "\<And>visit w. seen s visit = Some w \<Longrightarrow> placed heap s bound visit w"
  shows "like (seen s) v w \<Longrightarrow>
    visitAt (cs_heap s) w i path = map_option (copied (seen s)) (visitAt heap v i path) \<and>
    (\<forall>visit. visitAt heap v i path = Some visit \<longrightarrow> seen s visit \<noteq> None)"
proof (induction path arbitrary: v w i)
  case Nil
  have "refTable (seen s)" using p by (fastforce simp: refTable_def placed_def)
  note refs = like_copied [OF this Nil]
  then have "i < length (refs v) \<longrightarrow> seen s (refs v ! i) \<noteq> None" using nth_mem [of i "refs v"] by blast
  then show ?case using refs by (cases "refs v ! i") simp
next
  case (Cons step path)
  obtain c j where step: "step = (c, j)" by (cases step)
  have "refTable (seen s)" using p by (fastforce simp: refTable_def placed_def)
  note refs = like_copied [OF this Cons.prems]
  show ?case
  proof (cases "i < length (refs v)")
    case True
    obtain ty a l where visit: "refs v ! i = (ty, a, l)" by (cases "refs v ! i")
    obtain x where x: "seen s (ty, a, l) = Some x" using refs nth_mem [OF True] unfolding visit by blast
    from p [OF this] obtain b where b: "x = DRef ty b l" "completed (seen s) heap (cs_heap s) (ty, a, l) b"
      by (auto simp: placed_def)
    have "refs w ! i = (ty, b, l)" using refs True visit x b(1) by (simp add: copied_def)
    moreover have "length (refs w) = length (refs v)" using refs by simp
    ultimately show ?thesis
      using completed_all [OF b(2)] Cons.IH True visit by (auto simp: step list_all2_conv_all_nth)
  qed (use refs in \<open>simp add: step\<close>)
qed

lemma numbered_inj:
  assumes "numbered s" "seen s x = Some w" "seen s y = Some w'" "copied (seen s) x = copied (seen s) y"
  shows "x = y"
proof -
  have mem: "(x, w) \<in> set (cs_seen s)" "(y, w') \<in> set (cs_seen s)" using assms(2,3) by (auto dest: map_of_SomeD)
  then obtain b b' where "w = DRef (fst x) b (snd (snd x))" "w' = DRef (fst y) b' (snd (snd y))"
    using assms(1) by (fastforce simp: numbered_def below_def)
  then have "w = w'" using assms(2-4) by (simp add: copied_def)
  then show ?thesis using mem assms(1) inj_onD [of snd "set (cs_seen s)" "(x, w)" "(y, w')"]
    by (simp add: numbered_def distinct_map)
qed

text \<open>Sharing is kept, and none is made up.\<close>

lemma copy_shares:
  assumes "like (seen s) v w" "numbered s" "\<And>visit x. seen s visit = Some x \<Longrightarrow> placed heap s bound visit x"
  shows "visitAt (cs_heap s) w i path = visitAt (cs_heap s) w i' path' \<longleftrightarrow> visitAt heap v i path = visitAt heap v i' path'"
proof -
  note one = visitAt_copied [OF assms(3,1), of i path]
  note two = visitAt_copied [OF assms(3,1), of i' path']
  show ?thesis
    using one two numbered_inj [OF assms(2)] by (cases "visitAt heap v i path"; cases "visitAt heap v i' path'") auto
qed

text \<open>C13: mutating a copy does not affect the original: whatever is written to cells the copy leads to, what
  can be seen of the original stays what it was before the copy.\<close>

theorem deepCopyValue_isolated:
  assumes "graph heap bound G" "within G v" "deepCopyValue fuel heap bound v = Some (v', heap')"
    and "\<And>x. \<not> reaches heap' v' x \<Longrightarrow> mutated x = heap' x"
  shows "view k mutated v = view k heap v"
proof -
  obtain s where s: "cs_heap s = heap'" "like (seen s) v v'" "over heap bound s"
    "\<And>visit w. seen s visit = Some w \<Longrightarrow> placed heap s bound visit w"
    by (rule deepCopyValue_right [OF assms(1-3)]) (rule that)
  have "bound \<le> x" if "reaches heap' v' x" for x using reaches_new [OF s(4) _ s(2)] that s(1) by blast
  then have "mutated x = heap x" if "x < bound" for x
    using assms(4) [of x] over_cell [OF s(3) that] s(1) that by fastforce
  then show ?thesis by (rule view_agree [OF assms(1) _ assms(2)])
qed

section \<open>Enough fuel\<close>

fun depth :: "'a dval \<Rightarrow> nat" where
  "depth (DArray t vs) = Suc (foldr (\<lambda>v. max (depth v)) vs 0)"
| "depth (DStruct t fs) = Suc (foldr (\<lambda>f. max (depth (snd f))) fs 0)"
| "depth v = 0"

lemma foldr_max_member: "x \<in> set xs \<Longrightarrow> (f x :: nat) \<le> foldr (\<lambda>v. max (f v)) xs 0"
  by (induction xs) auto

lemma depth_member:
  "v \<in> set vs \<Longrightarrow> depth v < depth (DArray t vs)" "f \<in> set fs \<Longrightarrow> depth (snd f) < depth (DStruct t fs)"
  using foldr_max_member [of v vs depth] foldr_max_member [of f fs "\<lambda>f. depth (snd f)"] by (auto simp: less_Suc_eq_le)

lemma flat_within: "flat v \<Longrightarrow> within G v"
proof (induction v)
  case (DStruct t fs)
  have "within G (snd f)" if "f \<in> set fs" "fst f" for f
    using DStruct.IH [of f "snd f"] DStruct.prems that by (auto simp: list_all_iff Basic_BNFs.prod_set_defs)
  then show ?case by (simp add: list_all_iff)
qed (auto simp: list_all_iff)

text \<open>What cells hold is nested at most so deep.\<close>

definition shallow :: "'a heap \<Rightarrow> nat \<Rightarrow> deepCopyVisit set \<Rightarrow> bool" where
  "shallow heap D G \<longleftrightarrow> (\<forall>visit\<in>G. list_all (\<lambda>v. depth v \<le> D) (children heap visit) \<and>
     (case visit of (MapOf _, a, l) \<Rightarrow> list_all (\<lambda>e. depth (fst e) \<le> D) (cellEntries heap a) | _ \<Rightarrow> True))"

text \<open>Fuel for a value so deep and for the references not yet met.\<close>

definition room :: "deepCopyVisit set \<Rightarrow> nat \<Rightarrow> nat \<Rightarrow> 'a copyState \<Rightarrow> nat \<Rightarrow> bool" where
  "room G D n s m \<longleftrightarrow> m + Suc D * card (G - dom (seen s)) < n"

lemma room_less: "room G D n s m \<Longrightarrow> m' \<le> m \<Longrightarrow> room G D n s m'"
  by (simp add: room_def)

lemma room_table:
  assumes "finite G" "seen s \<subseteq>\<^sub>m seen t" "room G D n s m"
  shows "room G D n t m"
proof -
  have "card (G - dom (seen t)) \<le> card (G - dom (seen s))"
    by (rule card_mono) (use assms(1) map_le_implies_dom_le [OF assms(2)] in auto)
  then have "Suc D * card (G - dom (seen t)) \<le> Suc D * card (G - dom (seen s))" by (rule mult_le_mono2)
  then show ?thesis using assms(3) by (simp add: room_def)
qed

lemma room_reference:
  assumes "finite G" "room G D (Suc n) s 0" "visit \<in> G" "seen s visit = None" "seen t = (seen s)(visit \<mapsto> w)"
  shows "room G D n t D"
proof -
  have "G - dom (seen t) = G - dom (seen s) - {visit}" using assms(5) by auto
  then have "Suc (card (G - dom (seen t))) = card (G - dom (seen s))"
    using card_Suc_Diff1 [of "G - dom (seen s)" visit] assms(1,3,4) by (simp add: domIff)
  then have "Suc D * Suc (card (G - dom (seen t))) < Suc n" using assms(2) by (simp add: room_def)
  then show ?thesis by (simp add: room_def)
qed

definition answers :: "'a heap \<Rightarrow> nat \<Rightarrow> deepCopyVisit set \<Rightarrow> nat \<Rightarrow> nat \<Rightarrow> 'a copier \<Rightarrow> bool" where
  "answers heap bound G D n f \<longleftrightarrow>
     (\<forall>v s. within G v \<longrightarrow> over heap bound s \<longrightarrow> room G D n s (depth v) \<longrightarrow> f v s \<noteq> None)"

text \<open>One call of a right copier that answers, and the state it leaves for the next.\<close>

lemma answersE:
  assumes "answers heap bound G D n f" "rightCopier heap bound G f" "finite G"
    and "within G v" "over heap bound s" "room G D n s m" "depth v \<le> m"
  obtains v' s' where "f v s = Some (v', s')" "over heap bound s'" "room G D n s' m"
proof -
  have "f v s \<noteq> None" using assms(1,4,5) room_less [OF assms(6,7)] by (simp add: answers_def)
  then obtain v' s' where r: "f v s = Some (v', s')" by auto
  note right = rightCopierD [OF assms(2,4,5) r]
  show thesis by (rule that [OF r right(3) room_table [OF assms(3) evolvesD(3) [OF right(1)] assms(6)]])
qed

lemma copyAll_answers:
  assumes f: "answers heap bound G D n f" "rightCopier heap bound G f" "finite G"
  shows "list_all (\<lambda>v. within G v \<and> depth v \<le> m) vs \<Longrightarrow> over heap bound s \<Longrightarrow> room G D n s m \<Longrightarrow> copyAll f vs s \<noteq> None"
proof (induction vs arbitrary: s)
  case (Cons v vs)
  then obtain v' s' where "f v s = Some (v', s')" "over heap bound s'" "room G D n s' m"
    by (auto intro: answersE [OF f, of v s m])
  then show ?case using Cons by simp
qed simp

lemma copyFields_answers:
  assumes f: "answers heap bound G D n f" "rightCopier heap bound G f" "finite G"
  shows "list_all (\<lambda>x. (fst x \<longrightarrow> within G (snd x)) \<and> depth (snd x) \<le> m) fs \<Longrightarrow> over heap bound s \<Longrightarrow> room G D n s m \<Longrightarrow>
    copyFields f fs s \<noteq> None"
proof (induction fs arbitrary: s)
  case (Cons x fs)
  obtain e v where x: "x = (e, v)" by (cases x)
  have "\<exists>v' s'. (if e then f v s else Some (v, s)) = Some (v', s') \<and> over heap bound s' \<and> room G D n s' m"
  proof (cases e)
    case True
    then show ?thesis using Cons.prems x by (auto intro: answersE [OF f, of v s m])
  qed (use Cons.prems in auto)
  then obtain v' s' where "(if e then f v s else Some (v, s)) = Some (v', s')" "over heap bound s'" "room G D n s' m"
    by blast
  then show ?case using Cons x by simp
qed simp

lemma room_write: "room G D n (writeCell b c s) m = room G D n s m"
  by (simp add: room_def writeCell_def)

lemma copyElems_answers:
  assumes f: "answers heap bound G D n f" "rightCopier heap bound G f" "finite G"
  shows "(\<And>i. i < l \<Longrightarrow> within G (cellValue heap (a + i)) \<and> depth (cellValue heap (a + i)) \<le> m) \<Longrightarrow> a + l \<le> bound \<Longrightarrow>
    bound \<le> b \<Longrightarrow> over heap bound s \<Longrightarrow> room G D n s m \<Longrightarrow> copyElems f a b l s \<noteq> None"
proof (induction l arbitrary: a b s)
  case (Suc l)
  have read: "cellValue (cs_heap s) a = cellValue heap a"
    using over_cell [OF Suc.prems(4), of a] Suc.prems(2) by (simp add: cellValue_def)
  obtain v' s' where r: "f (cellValue heap a) s = Some (v', s')" "over heap bound s'" "room G D n s' m"
    using Suc.prems(1) [of 0] Suc.prems(4,5) by (auto intro: answersE [OF f, of "cellValue heap a" s m])
  have "copyElems f (Suc a) (Suc b) l (writeCell b (CVal v') s') \<noteq> None"
    by (rule Suc.IH) (use Suc.prems(1) [of "Suc _"] Suc.prems(2,3) r(2,3) in \<open>auto simp: over_write room_write\<close>)
  then show ?case by (simp add: read r(1))
qed simp

lemma copyEntries_answers:
  assumes f: "answers heap bound G D n f" "rightCopier heap bound G f" "finite G"
  shows "list_all (\<lambda>e. within G (fst e) \<and> depth (fst e) \<le> m \<and> within G (snd e) \<and> depth (snd e) \<le> m) es \<Longrightarrow>
    bound \<le> b \<Longrightarrow> over heap bound s \<Longrightarrow> room G D n s m \<Longrightarrow> copyEntries f b es s \<noteq> None"
proof (induction es arbitrary: s)
  case (Cons e es)
  obtain k v where e: "e = (k, v)" by (cases e)
  obtain k' s1 where r1: "f k s = Some (k', s1)" "over heap bound s1" "room G D n s1 m"
    using Cons.prems e by (auto intro: answersE [OF f, of k s m])
  obtain v' s2 where r2: "f v s1 = Some (v', s2)" "over heap bound s2" "room G D n s2 m"
    using Cons.prems e r1 by (auto intro: answersE [OF f, of v s1 m])
  show ?case
    using Cons.IH [of "writeCell b (CMap (AList.update k' v' (cellEntries (cs_heap s2) b))) s2"] Cons.prems r2(2,3)
    by (simp add: e r1(1) r2(1) over_write room_write)
qed simp

lemma reference_answers:
  assumes g: "graph heap bound G" "shallow heap D G" and f: "answers heap bound G D n f" "rightCopier heap bound G f" "finite G"
    and v: "within G (DRef ty a l)" "over heap bound s" "deepCopySeenValue s ty a l = None" "room G D (Suc n) s 0"
  shows "deepCopyReflect f (DRef ty a l) s \<noteq> None"
proof (cases "deepCopyVisitFor ty a l")
  case None
  then obtain t where "ty = SliceOf t" "l = 0" by (auto simp: deepCopyVisitFor_def split: refType.splits if_splits)
  then show ?thesis using v(3) by (simp add: deepCopyReflect_def Let_def)
next
  case (Some visit)
  then have visit: "visit = (ty, a, l)" "visit \<in> G" "seen s visit = None"
    using visitFor_eq v(1,3) by (auto simp: deepCopySeenValue_def)
  note src = graphD [OF g(1) visit(2)]
  have flat_enough: "list_all (\<lambda>v. depth v \<le> D) (children heap visit)"
    "\<And>t. ty = MapOf t \<Longrightarrow> list_all (\<lambda>e. depth (fst e) \<le> D) (cellEntries heap a)"
    using g(2) visit(2) unfolding shallow_def visit(1) by fastforce+
  let ?b = "cs_next s" and ?out = "DRef ty (cs_next s) l"
  let ?start = "\<lambda>n zero. rememberDeepCopy ty a l ?out (allocate n zero s)"
  have b: "bound \<le> ?b" using v(2) by (simp add: over_def)
  have r: "room G D n (?start k zero) D" for k zero
    by (rule room_reference [OF f(3) v(4) visit(2,3), where w = ?out])
      (simp add: rememberDeepCopy_def Some allocate_def)
  show ?thesis
  proof (cases ty)
    case (SliceOf t)
    have "copyElems f a ?b l (?start l (CVal DNil)) \<noteq> None"
      by (rule copyElems_answers [OF f _ _ b over_start [OF v(2)] r])
        (use src(1,2) flat_enough(1) SliceOf in \<open>auto simp: visit(1) span_def children_def list_all_iff\<close>)
    then show ?thesis using SliceOf v(3) by (auto simp: deepCopyReflect_def Let_def)
  next
    case (PtrTo t)
    have "copyElems f a ?b 1 (?start 1 (CVal DNil)) \<noteq> None"
      by (rule copyElems_answers [OF f _ _ b over_start [OF v(2)] r])
        (use src(1,2) flat_enough(1) PtrTo in \<open>auto simp: visit(1) span_def children_def\<close>)
    then show ?thesis using PtrTo v(3) by (auto simp: deepCopyReflect_def Let_def)
  next
    case (MapOf t)
    have read: "cellEntries (cs_heap s) a = cellEntries heap a"
      using over_cell [OF v(2), of a] src(1) MapOf by (simp add: visit(1) span_def cellEntries_def)
    have "copyEntries f ?b (cellEntries heap a) (?start 1 (CMap [])) \<noteq> None"
      by (rule copyEntries_answers [OF f _ b over_start [OF v(2)] r])
        (use src(2) src(3) [of t a l] flat_enough MapOf in
          \<open>auto simp: visit(1) children_def list_all_iff flat_within\<close>)
    then show ?thesis using MapOf v(3) read by (auto simp: deepCopyReflect_def Let_def)
  qed
qed

lemma deepCopyReflect_answers:
  assumes g: "graph heap bound G" "shallow heap D G" and f: "answers heap bound G D n f" "rightCopier heap bound G f" "finite G"
  shows "answers heap bound G D (Suc n) (deepCopyReflect f)"
  unfolding answers_def
proof (intro allI impI)
  fix v :: "'a dval" and s
  assume v: "within G v" "over heap bound s" "room G D (Suc n) s (depth v)"
  show "deepCopyReflect f v s \<noteq> None"
  proof (cases v)
    case (DRef ty a l)
    show ?thesis
    proof (cases "deepCopySeenValue s ty a l")
      case None
      then show ?thesis using reference_answers [OF g f _ v(2)] v(1,3) DRef by simp
    qed (simp add: DRef deepCopyReflect_def)
  next
    case (DArray t vs)
    obtain m where m: "depth v = Suc m" by (simp add: DArray)
    have "copyAll f vs s \<noteq> None"
      by (rule copyAll_answers [OF f _ v(2), of m])
        (use v(1,3) m depth_member(1) [of _ vs t] DArray in \<open>auto simp: list_all_iff room_def less_Suc_eq_le\<close>)
    then show ?thesis by (auto simp: DArray deepCopyReflect_def)
  next
    case (DStruct t fs)
    obtain m where m: "depth v = Suc m" by (simp add: DStruct)
    have "copyFields f fs s \<noteq> None"
      by (rule copyFields_answers [OF f _ v(2), of m])
        (use v(1,3) m depth_member(2) [of _ fs t] DStruct in \<open>auto simp: list_all_iff room_def less_Suc_eq_le\<close>)
    then show ?thesis by (auto simp: DStruct deepCopyReflect_def)
  qed (simp_all add: deepCopyReflect_def)
qed

lemma deepCopyValueSeen_answers:
  assumes "graph heap bound G" "shallow heap D G" "finite G"
  shows "answers heap bound G D fuel (deepCopyValueSeen fuel)"
proof (induction fuel)
  case (Suc fuel)
  have "deepCopyValueSeen (Suc fuel) = deepCopyReflect (deepCopyValueSeen fuel)" by (rule ext)+ simp
  then show ?case
    using deepCopyReflect_answers [OF assms(1,2) Suc deepCopyValueSeen_right [OF assms(1)] assms(3)] by simp
qed (simp add: answers_def room_def)

lemma deepCopyValue_ends:
  assumes "graph heap bound G" "within G v" "finite G" "shallow heap D G" "depth v \<le> D"
    and "Suc D * Suc (card G) \<le> fuel"
  shows "\<exists>v' heap'. deepCopyValue fuel heap bound v = Some (v', heap')"
proof -
  let ?s = "\<lparr>cs_heap = heap, cs_next = bound, cs_seen = []\<rparr>"
  have "over heap bound ?s" "room G D fuel ?s (depth v)" using assms(5,6) by (simp_all add: over_def room_def)
  then have "deepCopyValueSeen fuel v ?s \<noteq> None"
    using deepCopyValueSeen_answers [OF assms(1,4,3), of fuel] assms(2) by (auto simp: answers_def)
  then show ?thesis by (auto simp: deepCopyValue_def)
qed

text \<open>C15: a copy ends, on cyclic values too: with as much fuel as the references the value leads to,
  times the depth to which arrays and structures are nested, \<open>deepCopyValue\<close> gives a result.\<close>

theorem deepCopyValue_returns:
  assumes "graph heap bound G" "within G v" "finite G" "shallow heap D G" "depth v \<le> D"
    and "Suc D * Suc (card G) \<le> fuel"
  shows "\<exists>v' heap'. deepCopyValue fuel heap bound v = Some (v', heap')"
  by (rule deepCopyValue_ends [OF assms])

text \<open>C14: a copy is made, it is what it was made of, and it shares what that shares. For a value whose
  references form a finite graph, with map keys that hold no references, arrays and structures nested to a
  bounded depth and fuel for both, \<open>deepCopyValue\<close> gives a copy such that: through any number of references, what
  can be seen of the copy in the heap it leaves is what can be seen of the value; and any two paths lead
  to the same map, pointer target or non-empty slice (of the same address and length) in the copy exactly when they
  do in the value. So a reference met twice is copied once, a cycle is a cycle of the copy, and no
  two references become one.\<close>

theorem deepCopyValue_same:
  assumes "graph heap bound G" "within G v" "finite G" "shallow heap D G" "depth v \<le> D"
    and "Suc D * Suc (card G) \<le> fuel"
  shows "\<exists>v' heap'. deepCopyValue fuel heap bound v = Some (v', heap') \<and>
    (\<forall>k. view k heap' v' = view k heap v) \<and>
    (\<forall>i path i' path'. visitAt heap' v' i path = visitAt heap' v' i' path' \<longleftrightarrow>
      visitAt heap v i path = visitAt heap v i' path')"
proof -
  obtain v' heap' where r: "deepCopyValue fuel heap bound v = Some (v', heap')"
    using deepCopyValue_ends [OF assms] by blast
  obtain s where s: "cs_heap s = heap'" "like (seen s) v v'" "over heap bound s"
    "\<And>visit w. seen s visit = Some w \<Longrightarrow> placed heap s bound visit w" "numbered s"
    by (rule deepCopyValue_right [OF assms(1,2) r]) (rule that)
  have "view k heap' v' = view k heap v" for k
    using view_like [OF assms(1) s(4) assms(2) s(2)] s(1) by simp
  moreover have "visitAt heap' v' i path = visitAt heap' v' i' path' \<longleftrightarrow> visitAt heap v i path = visitAt heap v i' path'"
    for i path i' path' using copy_shares [OF s(2,5,4)] s(1) by simp
  ultimately show ?thesis using r by blast
qed

text \<open>A map that holds itself, a slice of it, and a structure with a field that is not exported.\<close>

definition loopedHeap :: "string heap" where
  "loopedHeap = [0 \<mapsto> CMap [(DPlain ''self'', DRef (MapOf ''m'') 0 0), (DPlain ''all'', DRef (SliceOf ''s'') 1 2)],
     1 \<mapsto> CVal (DRef (MapOf ''m'') 0 0), 2 \<mapsto> CVal (DStruct ''t'' [(True, DPlain ''x''), (False, DRef (PtrTo ''p'') 0 0)])]"

definition loopedGraph :: "deepCopyVisit set" where
  "loopedGraph = {(MapOf ''m'', 0, 0), (SliceOf ''s'', 1, 2)}"

lemma looped:
  "graph loopedHeap 3 loopedGraph" "within loopedGraph (DRef (MapOf ''m'') 0 0)" "finite loopedGraph"
  "shallow loopedHeap 1 loopedGraph" "card loopedGraph = 2"
  by (simp_all add: graph_def shallow_def loopedGraph_def loopedHeap_def span_def children_def cellEntries_def cellValue_def
      deepCopyVisitFor_def upt_rec)

lemma deepCopyValue_returns_witness:
  "\<exists>v' heap'. deepCopyValue 6 loopedHeap 3 (DRef (MapOf ''m'') 0 0) = Some (v', heap')"
  by (rule deepCopyValue_returns [OF looped(1-4)]) (simp_all add: looped(5))

lemma looped_copy:
  obtains s where "deepCopyValue 6 loopedHeap 3 (DRef (MapOf ''m'') 0 0) = Some (DRef (MapOf ''m'') 3 0, s)"
    "s 3 = Some (CMap [(DPlain ''self'', DRef (MapOf ''m'') 3 0), (DPlain ''all'', DRef (SliceOf ''s'') 4 2)])"
  by (simp add: deepCopyValue_def loopedHeap_def numeral_eq_Suc deepCopyReflect_def deepCopySeenValue_def
      deepCopyVisitFor_def rememberDeepCopy_def allocate_def Let_def cellEntries_def cellValue_def writeCell_def)

text \<open>The looped map is shared: by itself, and by the first element of its slice.\<close>

lemma looped_shared:
  "visitAt loopedHeap (DRef (MapOf ''m'') 0 0) 0 [(1, 0), (0, 0)] = visitAt loopedHeap (DRef (MapOf ''m'') 0 0) 0 []"
  "visitAt loopedHeap (DRef (MapOf ''m'') 0 0) 0 [(1, 0)] \<noteq> visitAt loopedHeap (DRef (MapOf ''m'') 0 0) 0 []"
  by (simp_all add: loopedHeap_def children_def cellEntries_def cellValue_def deepCopyVisitFor_def upt_rec)

lemma deepCopyValue_same_witness:
  "\<exists>v' heap'. deepCopyValue 6 loopedHeap 3 (DRef (MapOf ''m'') 0 0) = Some (v', heap') \<and>
     view 4 heap' v' = view 4 loopedHeap (DRef (MapOf ''m'') 0 0) \<and>
     visitAt heap' v' 0 [(1, 0), (0, 0)] = visitAt heap' v' 0 [] \<and> visitAt heap' v' 0 [(1, 0)] \<noteq> visitAt heap' v' 0 []"
proof -
  have "\<exists>v' heap'. deepCopyValue 6 loopedHeap 3 (DRef (MapOf ''m'') 0 0) = Some (v', heap') \<and>
    (\<forall>k. view k heap' v' = view k loopedHeap (DRef (MapOf ''m'') 0 0)) \<and>
    (\<forall>i path i' path'. visitAt heap' v' i path = visitAt heap' v' i' path' \<longleftrightarrow>
      visitAt loopedHeap (DRef (MapOf ''m'') 0 0) i path = visitAt loopedHeap (DRef (MapOf ''m'') 0 0) i' path')"
    by (rule deepCopyValue_same [OF looped(1-4)]) (simp_all add: looped(5))
  then show ?thesis using looped_shared by blast
qed

lemma deepCopyValue_isolated_witness:
  "\<exists>v' heap'. deepCopyValue 6 loopedHeap 3 (DRef (MapOf ''m'') 0 0) = Some (v', heap') \<and> reaches heap' v' 3 \<and>
     view 4 (heap'(3 \<mapsto> CMap [])) (DRef (MapOf ''m'') 0 0) = view 4 loopedHeap (DRef (MapOf ''m'') 0 0)"
proof (rule looped_copy)
  fix h :: "string heap"
  assume h: "deepCopyValue 6 loopedHeap 3 (DRef (MapOf ''m'') 0 0) = Some (DRef (MapOf ''m'') 3 0, h)"
  have r: "reaches h (DRef (MapOf ''m'') 3 0) 3"
    by (rule reaches.here [of "(MapOf ''m'', 3, 0)"]) (simp_all add: deepCopyVisitFor_def span_def)
  have "view 4 (h(3 \<mapsto> CMap [])) (DRef (MapOf ''m'') 0 0) = view 4 loopedHeap (DRef (MapOf ''m'') 0 0)"
    by (rule deepCopyValue_isolated [OF looped(1,2) h]) (use r in auto)
  then show ?thesis using h r by blast
qed

end
