(* ===== verification/Supported_Docs.thy ===== *)
theory Supported_Docs
  imports Schema Packages
begin

text \<open>
  The generator of the supported-facts pages, \<open>tools/supportedfacts/main.go\<close>: an index and one page for
  each documented platform, with a row of a Markdown table for each schema entry of the
  platform. \<open>json.Indent\<close> is a parameter; the examples it indents are the texts of the program.
\<close>

section \<open>The examples\<close>

definition rawText :: "(nat \<times> string) list \<Rightarrow> string" where
  "rawText rows = join [NL] (map (\<lambda>(tabs, row). replicate tabs (CHR 0x09) @ row) rows)"

definition exampleJSON :: "(string \<times> string) list" where
  "exampleJSON = map (\<lambda>(platform, rows). (platform, rawText rows)) [
    (''linux'', [
      (0, ''{''),
      (2, ''\"disks\": {\"sda\": {\"serial_number\": \"S250NXAG959927J\", \"size\": \"64.00 GiB\", \"size_bytes\": 68719476736, \"type\": \"ssd\"}},''),
      (2, ''\"filesystems\": [\"ext4\", \"tmpfs\", \"xfs\"],''),
      (2, ''\"kernel\": {\"name\": \"Linux\", \"release\": {\"full\": \"6.8.0-31-generic\", \"major\": \"6\", \"minor\": \"8\", \"patch\": \"0\"}, \"version\": {\"full\": \"6.8.0\"}},''),
      (2, ''\"networking\": {\"hostname\": \"linux01\", \"interfaces\": {\"eth0\": {\"ip\": \"192.0.2.10\", \"mac\": \"52:54:00:12:34:56\", \"mtu\": 1500}}},''),
      (2, ''\"os\": {\"family\": \"Debian\", \"name\": \"Ubuntu\", \"release\": {\"major\": \"24\", \"full\": \"24.04\"}},''),
      (2, ''\"partitions\": {\"/dev/sda1\": {\"filesystem\": \"ext4\", \"mount\": \"/\", \"size\": \"63.00 GiB\", \"size_bytes\": 67645734912}},''),
      (2, ''\"path\": [\"/usr/local/bin\", \"/usr/bin\", \"/bin\"]''),
      (1, ''}'')]),
    (''darwin'', [
      (0, ''{''),
      (2, ''\"filesystems\": [\"apfs\", \"autofs\", \"devfs\"],''),
      (2, ''\"kernel\": {\"name\": \"Darwin\", \"release\": {\"full\": \"24.5.0\", \"major\": \"24\", \"minor\": \"5\", \"patch\": \"0\"}, \"version\": {\"full\": \"24.5.0\"}},''),
      (2, ''\"networking\": {\"hostname\": \"macbook\", \"interfaces\": {\"en0\": {\"ip\": \"192.0.2.20\", \"mac\": \"3c:22:fb:00:00:01\", \"mtu\": 1500}}},''),
      (2, ''\"os\": {\"family\": \"Darwin\", \"macosx\": {\"product\": \"macOS\", \"version\": {\"full\": \"15.5\", \"major\": \"15\", \"minor\": \"5\"}}, \"name\": \"Darwin\"},''),
      (2, ''\"path\": [\"/usr/local/bin\", \"/usr/bin\", \"/bin\"],''),
      (2, ''\"system_profiler\": {\"hardware\": {\"model_name\": \"MacBook Pro\"}}''),
      (1, ''}'')]),
    (''windows'', [
      (0, ''{''),
      (2, ''\"fips_enabled\": false,''),
      (2, ''\"kernel\": {\"name\": \"windows\", \"release\": {\"full\": \"10.0.22631\", \"major\": \"10\", \"minor\": \"0\", \"patch\": \"22631\"}, \"version\": {\"full\": \"10.0.22631\"}},''),
      (2, ''\"networking\": {\"hostname\": \"winbuild01\", \"interfaces\": {\"Ethernet\": {\"ip\": \"192.0.2.30\", \"mac\": \"00:15:5d:00:00:01\", \"mtu\": 1500}}},''),
      (2, ''\"os\": {\"family\": \"windows\", \"name\": \"windows\", \"windows\": {\"system32\": \"C:'' @ [BSLASH] @ [BSLASH] @ ''Windows'' @ [BSLASH] @ [BSLASH] @ ''System32\"}},''),
      (2, ''\"path\": [\"C:'' @ [BSLASH] @ [BSLASH] @ ''Windows'' @ [BSLASH] @ [BSLASH] @ ''system32\", \"C:'' @ [BSLASH] @ [BSLASH] @ ''Windows\"]''),
      (1, ''}'')]),
    (''freebsd'', [
      (0, ''{''),
      (2, ''\"disks\": {\"ada0\": {\"model\": \"Virtual Disk\", \"serial_number\": \"S250NXAG959927J\", \"size\": \"64.00 GiB\", \"size_bytes\": 68719476736}},''),
      (2, ''\"kernel\": {\"name\": \"FreeBSD\", \"release\": {\"full\": \"14.3-RELEASE\", \"major\": \"14\", \"minor\": \"3\"}, \"version\": {\"full\": \"14.3\"}},''),
      (2, ''\"networking\": {\"hostname\": \"freebsd01\", \"interfaces\": {\"vtnet0\": {\"ip\": \"192.0.2.40\", \"mac\": \"58:9c:fc:00:00:01\", \"mtu\": 1500}}},''),
      (2, ''\"os\": {\"family\": \"FreeBSD\", \"name\": \"FreeBSD\", \"release\": {\"major\": \"14\", \"full\": \"14.3-RELEASE\"}},''),
      (2, ''\"partitions\": {\"ada0p1\": {\"partlabel\": \"gptboot0\", \"size\": \"512.00 KiB\", \"size_bytes\": 524288}},''),
      (2, ''\"path\": [\"/sbin\", \"/bin\", \"/usr/sbin\", \"/usr/bin\"]''),
      (1, ''}'')]),
    (''openbsd'', [
      (0, ''{''),
      (2, ''\"disks\": {\"sd0\": {\"size\": \"10.00 GiB\", \"size_bytes\": 10737418240}},''),
      (2, ''\"kernel\": {\"name\": \"OpenBSD\", \"release\": {\"full\": \"7.9\", \"major\": \"7\", \"minor\": \"9\"}, \"version\": {\"full\": \"7.9\"}},''),
      (2, ''\"networking\": {\"hostname\": \"openbsd01\", \"interfaces\": {\"vio0\": {\"ip\": \"192.0.2.50\", \"mac\": \"52:54:00:12:34:79\", \"mtu\": 1500}}},''),
      (2, ''\"os\": {\"family\": \"OpenBSD\", \"name\": \"OpenBSD\", \"release\": {\"major\": \"7\", \"minor\": \"9\", \"full\": \"7.9\"}},''),
      (2, ''\"partitions\": {\"/dev/sd0a\": {\"filesystem\": \"4.2BSD\", \"mount\": \"/\", \"size\": \"1.15 GiB\", \"size_bytes\": 1233534976}},''),
      (2, ''\"path\": [\"/sbin\", \"/bin\", \"/usr/sbin\", \"/usr/bin\"]''),
      (1, ''}'')]),
    (''netbsd'', [
      (0, ''{''),
      (2, ''\"disks\": {\"ld4\": {\"size\": \"10.00 GiB\", \"size_bytes\": 10737418240}},''),
      (2, ''\"kernel\": {\"name\": \"NetBSD\", \"release\": {\"full\": \"10.1\", \"major\": \"10\", \"minor\": \"1\"}, \"version\": {\"full\": \"10.1\"}},''),
      (2, ''\"networking\": {\"hostname\": \"netbsd01\", \"interfaces\": {\"vioif0\": {\"ip\": \"192.0.2.60\", \"mac\": \"52:54:00:12:34:23\", \"mtu\": 1500}}},''),
      (2, ''\"os\": {\"family\": \"NetBSD\", \"name\": \"NetBSD\", \"release\": {\"major\": \"10\", \"minor\": \"1\", \"full\": \"10.1\"}},''),
      (2, ''\"partitions\": {\"/dev/dk1\": {\"filesystem\": \"ffs\", \"mount\": \"/\", \"partlabel\": \"netbsd-root\", \"size\": \"9.90 GiB\", \"size_bytes\": 10632560640}},''),
      (2, ''\"path\": [\"/sbin\", \"/bin\", \"/usr/sbin\", \"/usr/bin\"],''),
      (2, ''\"zfs\": {\"feature_numbers\": [\"1\", \"2\", \"3\", \"4\", \"5\"], \"version\": \"5\"},''),
      (2, ''\"zpool\": {\"feature_numbers\": [\"1\", \"2\", \"3\", \"4\", \"5\"], \"version\": \"5000\"}''),
      (1, ''}'')]),
    (''dragonfly'', [
      (0, ''{''),
      (2, ''\"kernel\": {\"name\": \"DragonFly\", \"release\": {\"full\": \"6.4-RELEASE\", \"major\": \"6\", \"minor\": \"4-RELEASE\"}, \"version\": {\"full\": \"6.4\"}},''),
      (2, ''\"load_averages\": {\"1m\": 0.00, \"5m\": 0.00, \"15m\": 0.00},''),
      (2, ''\"memory\": {\"system\": {\"total\": \"1.97 GiB\", \"total_bytes\": 2110259200}, \"swap\": {\"total\": \"2.00 GiB\", \"total_bytes\": 2147483648}},''),
      (2, ''\"mountpoints\": {\"/\": {\"device\": \"da0s1d\", \"filesystem\": \"hammer2\", \"size\": \"118.22 GiB\", \"size_bytes\": 126933073920}},''),
      (2, ''\"networking\": {\"hostname\": \"dragonfly01\", \"interfaces\": {}},''),
      (2, ''\"os\": {\"family\": \"DragonFly\", \"name\": \"DragonFly\", \"release\": {\"major\": \"6\", \"minor\": \"4-RELEASE\", \"full\": \"6.4-RELEASE\"}},''),
      (2, ''\"path\": [\"/sbin\", \"/usr/sbin\", \"/bin\", \"/usr/bin\"]''),
      (1, ''}'')]),
    (''illumos'', [
      (0, ''{''),
      (2, ''\"kernel\": {\"name\": \"SunOS\", \"release\": {\"full\": \"5.11\", \"major\": \"5\"}, \"version\": {\"full\": \"5\"}},''),
      (2, ''\"load_averages\": {\"1m\": 0.01, \"5m\": 0.00, \"15m\": 0.00},''),
      (2, ''\"memory\": {\"system\": {\"total\": \"3.99 GiB\", \"total_bytes\": 4286013440}, \"swap\": {\"total\": \"2.49 GiB\", \"total_bytes\": 2676846592}},''),
      (2, ''\"mountpoints\": {\"/\": {\"device\": \"rpool/ROOT/omnios-r151058\", \"size\": \"28.58 GiB\", \"size_bytes\": 30685528064}},''),
      (2, ''\"networking\": {\"hostname\": \"omnios01\", \"interfaces\": {\"net0\": {\"ip\": \"192.0.2.70\", \"mac\": \"52:54:00:12:34:70\", \"mtu\": 1500}}},''),
      (2, ''\"os\": {\"family\": \"illumos\", \"name\": \"OmniOS\", \"release\": {\"major\": \"151058\", \"full\": \"r151058\"}},''),
      (2, ''\"path\": [\"/usr/bin\", \"/usr/sbin\", \"/sbin\"],''),
      (2, ''\"zfs\": {\"feature_numbers\": [\"1\", \"2\", \"3\", \"4\", \"5\"], \"version\": \"5\"},''),
      (2, ''\"zpool\": {\"feature_numbers\": [\"1\", \"2\", \"3\", \"4\", \"5\"], \"version\": \"5000\"}''),
      (1, ''}'')]),
    (''plan9'', [
      (0, ''{''),
      (2, ''\"facterversion\": \"dev\",''),
      (2, ''\"kernel\": {\"name\": \"Plan 9\"},''),
      (2, ''\"memory\": {\"system\": {\"total\": \"1018.38 MiB\", \"total_bytes\": 1067843584}},''),
      (3, ''\"networking\": {\"hostname\": \"plan9host\", \"interfaces\": {\"ether0\": {\"bindings\": [{\"address\": \"192.0.2.90\", \"netmask\": \"255.255.255.0\", \"network\": \"192.0.2.0\"}], \"ip\": \"192.0.2.90\", \"netmask\": \"255.255.255.0\", \"network\": \"192.0.2.0\", \"mac\": \"52:54:00:12:34:90\"}}, \"primary\": \"ether0\", \"ip\": \"192.0.2.90\", \"netmask\": \"255.255.255.0\", \"network\": \"192.0.2.0\", \"mac\": \"52:54:00:12:34:90\"},''),
      (2, ''\"os\": {\"architecture\": \"amd64\", \"family\": \"Plan 9\", \"hardware\": \"amd64\", \"name\": \"Plan 9\"},''),
      (2, ''\"path\": [\"/bin\", \"/usr/glenda/bin\"],''),
      (2, ''\"processors\": {\"count\": 1, \"isa\": \"amd64\", \"models\": [\"Core 2/Xeon 3600\"]},''),
      (2, ''\"system_uptime\": {\"days\": 0, \"hours\": 23, \"seconds\": 83717, \"uptime\": \"23:15 hours\"},''),
      (2, ''\"timezone\": \"CET\"''),
      (1, ''}'')])]"

definition exampleOutput :: "(string \<Rightarrow> goerror + string) \<Rightarrow> string \<Rightarrow> goerror + string" where
  "exampleOutput indent platform =
     (case map_of exampleJSON platform of
        None \<Rightarrow> Inl (ErrText (''missing example JSON for platform '' @ go_quote platform))
      | Some raw \<Rightarrow>
          (case indent raw of
             Inl e \<Rightarrow> Inl (ErrWrap (''indent example JSON for platform '' @ go_quote platform) e)
           | Inr shown \<Rightarrow> Inr shown))"

section \<open>The pages\<close>

definition docsSchemaPath :: string where "docsSchemaPath = ''docs/schema/facts.yaml''"

definition escapeMarkdown :: "string \<Rightarrow> string" where
  "escapeMarkdown s = replace_all (replace_all s [BSLASH] [BSLASH, BSLASH]) ''|'' [BSLASH, CHR ''|'']"

definition writeHeader :: "string \<Rightarrow> string" where
  "writeHeader title =
     ''<!-- Code generated by `go run ./tools/supportedfacts`; DO NOT EDIT. -->'' @ [NL, NL] @ ''# '' @ title @ [NL, NL]"

definition renderIndex :: "Schema \<Rightarrow> string" where
  "renderIndex s =
     writeHeader ''Supported Facts'' @
     ''These pages are generated from [`docs/schema/facts.yaml`](../schema/facts.yaml). '' @
     ''The examples are synthetic, platform-shaped output for documentation; the tables are the supported fact contract.'' @
     [NL, NL] @ ''| Platform | Supported facts |'' @ [NL] @ ''| --- | ---: |'' @ [NL] @
     concat (map (\<lambda>p. ''| ['' @ pl_Label p @ ''](''  @ pl_ID p @ ''.md) | '' @
       itoa (int (length (EntriesForPlatform s (pl_ID p)))) @ '' |'' @ [NL]) Platforms)"

definition renderRow :: "Item \<Rightarrow> string" where
  "renderRow item =
     ''| `'' @ it_Path item @ ''` | `'' @ en_Type (it_Entry item) @ ''` | '' @
     (if en_Conditional (it_Entry item) then ''yes'' else ''no'') @ '' | '' @
     escapeMarkdown (en_Description (it_Entry item)) @ '' |'' @ [NL]"

definition renderPlatform :: "(string \<Rightarrow> goerror + string) \<Rightarrow> Schema \<Rightarrow> Platform \<Rightarrow> goerror + string" where
  "renderPlatform indent s p =
     (let entries = EntriesForPlatform s (pl_ID p)
      in case exampleOutput indent (pl_ID p) of
           Inl e \<Rightarrow> Inl e
         | Inr example \<Rightarrow>
             Inr (writeHeader (pl_Label p @ '' Supported Facts'') @
               ''Generated from [`docs/schema/facts.yaml`](../schema/facts.yaml). `conditional` entries may be absent on a host when their preconditions do not hold.'' @
               [NL, NL] @ ''## Example Output'' @ [NL, NL] @ ''```console'' @ [NL] @ ''$ facts --json'' @ [NL] @ example @ [NL] @
               ''```'' @ [NL, NL] @ ''## Fact Contract'' @ [NL, NL] @ itoa (int (length entries)) @
               '' schema entries include `'' @ pl_ID p @ ''`.'' @ [NL, NL] @
               ''| Fact | Type | Conditional | Description |'' @ [NL] @ ''| --- | --- | --- | --- |'' @ [NL] @
               concat (map renderRow entries)))"

definition docPath :: "Platform \<Rightarrow> string" where
  "docPath p = ''docs/supported-facts/'' @ pl_ID p @ ''.md''"

fun renderPlatforms :: "(string \<Rightarrow> goerror + string) \<Rightarrow> Schema \<Rightarrow> Platform list \<Rightarrow> string gomap \<Rightarrow> goerror + string gomap" where
  "renderPlatforms indent s [] docs = Inr docs"
| "renderPlatforms indent s (p # ps) docs =
     (case renderPlatform indent s p of
        Inl e \<Rightarrow> Inl e
      | Inr doc \<Rightarrow> renderPlatforms indent s ps (mput (docPath p) doc docs))"

definition renderDocs :: "(string \<Rightarrow> goerror + string) \<Rightarrow> goerror + Schema \<Rightarrow> goerror + string gomap" where
  "renderDocs indent loaded =
     (case loaded of
        Inl e \<Rightarrow> Inl e
      | Inr s \<Rightarrow> renderPlatforms indent s Platforms [(''docs/supported-facts/README.md'', renderIndex s)])"

section \<open>Writing them\<close>

text \<open>The two calls to the file system give their errors, as texts; the result holds the exit code, what
  goes to standard error and the files written. Go ranges over the pages in any order.\<close>

record docsHost =
  dh_MkdirAll :: "string \<Rightarrow> string option"
  dh_WriteFile :: "string \<Rightarrow> string \<Rightarrow> string option"
  dh_errorText :: "goerror \<Rightarrow> string"

fun writeDocs :: "docsHost \<Rightarrow> (string \<times> string) list \<Rightarrow> (string \<times> string) list \<Rightarrow> int \<times> string \<times> (string \<times> string) list" where
  "writeDocs h [] written = (0, [], written)"
| "writeDocs h ((path, content) # docs) written =
     (case dh_MkdirAll h (path_dir path) of
        Some e \<Rightarrow> (1, ''create '' @ path_dir path @ '': '' @ e @ [NL], written)
      | None \<Rightarrow>
          (case dh_WriteFile h path content of
             Some e \<Rightarrow> (1, ''write '' @ path @ '': '' @ e @ [NL], written)
           | None \<Rightarrow> writeDocs h docs (written @ [(path, content)])))"

definition runDocs :: "docsHost \<Rightarrow> (string \<Rightarrow> goerror + string) \<Rightarrow> (string \<Rightarrow> goerror + Schema) \<Rightarrow>
    int \<times> string \<times> (string \<times> string) list" where
  "runDocs h indent loadFile =
     (case renderDocs indent (loadFile docsSchemaPath) of
        Inl e \<Rightarrow> (1, dh_errorText h e @ [NL], [])
      | Inr docs \<Rightarrow> writeDocs h docs [])"

section \<open>Rows as a Markdown reader sees them\<close>

text \<open>A row is a line, so it ends at the first newline. In it a backslash takes the meaning of the character after it
  away and a bar ends a cell.\<close>

fun tableCells :: "string \<Rightarrow> bool \<Rightarrow> string \<Rightarrow> string list" where
  "tableCells cell esc [] = [if esc then cell @ [BSLASH] else cell]"
| "tableCells cell esc (c # s) =
     (if c = NL then [if esc then cell @ [BSLASH] else cell]
      else if esc then tableCells (cell @ [c]) False s
      else if c = BSLASH then tableCells cell True s
      else if c = CHR ''|'' then cell # tableCells [] False s
      else tableCells (cell @ [c]) False s)"

lemma escapeMarkdown_chars:
  "escapeMarkdown s = concat (map (\<lambda>c. if c = BSLASH \<or> c = CHR ''|'' then [BSLASH, c] else [c]) s)"
  by (simp add: escapeMarkdown_def replace_all_char) (induction s; simp)

lemma tableCells_escaped:
  "NL \<notin> set s \<Longrightarrow> tableCells cell False (escapeMarkdown s @ rest) = tableCells (cell @ s) False rest"
  by (induction s arbitrary: cell) (auto simp: escapeMarkdown_chars)

definition plainCell :: "string \<Rightarrow> bool" where
  "plainCell s \<longleftrightarrow> list_all (\<lambda>c. c \<notin> set [BSLASH, CHR ''|'', NL]) s"

lemma tableCells_plain: "plainCell s \<Longrightarrow> tableCells cell False (s @ rest) = tableCells (cell @ s) False rest"
  by (induction s arbitrary: cell) (simp_all add: plainCell_def)

lemma plainCell_schemaTypes: "ty \<in> set schemaTypes \<Longrightarrow> plainCell ty"
  by (auto simp: schemaTypes_def plainCell_def)

text \<open>An entry whose row can be read, and the cells of its row.\<close>

definition readable :: "Item \<Rightarrow> bool" where
  "readable item \<longleftrightarrow> plainCell (it_Path item) \<and> en_Type (it_Entry item) \<in> set schemaTypes \<and>
     NL \<notin> set (en_Description (it_Entry item))"

definition rowCells :: "Item \<Rightarrow> string list" where
  "rowCells item =
     [[], '' `'' @ it_Path item @ ''` '', '' `'' @ en_Type (it_Entry item) @ ''` '',
      (if en_Conditional (it_Entry item) then '' yes '' else '' no ''),
      '' '' @ en_Description (it_Entry item) @ '' '', []]"

lemma renderRow_cells: "readable item \<Longrightarrow> tableCells [] False (renderRow item @ rest) = rowCells item"
  using plainCell_schemaTypes [of "en_Type (it_Entry item)"]
  by (simp add: readable_def rowCells_def renderRow_def tableCells_plain tableCells_escaped)

lemma renderRow_line:
  assumes "readable item"
  obtains line where "renderRow item = line @ [NL]" "NL \<notin> set line" "tableCells [] False line = rowCells item"
proof
  let ?line = "butlast (renderRow item)"
  show whole: "renderRow item = ?line @ [NL]" by (simp add: renderRow_def butlast_append)
  have "plainCell (it_Path item)" "plainCell (en_Type (it_Entry item))" "NL \<notin> set (en_Description (it_Entry item))"
    using assms plainCell_schemaTypes by (auto simp: readable_def)
  then show "NL \<notin> set ?line"
    by (auto simp: renderRow_def butlast_append plainCell_def list_all_iff escapeMarkdown_chars)
  have "tableCells cell esc (line @ [NL]) = tableCells cell esc line" for cell esc line
    by (induction cell esc line rule: tableCells.induct) auto
  then show "tableCells [] False ?line = rowCells item"
    using renderRow_cells [OF assms, of "[]"] whole by (metis append_Nil2)
qed

lemma renderRows_lines:
  "list_all readable items \<Longrightarrow>
    \<exists>rows. split_on NL (concat (map renderRow items)) = rows @ [[]] \<and> map (tableCells [] False) rows = map rowCells items"
proof (induction items)
  case (Cons item items)
  then obtain line where line: "renderRow item = line @ [NL]" "NL \<notin> set line" "tableCells [] False line = rowCells item"
    by (auto elim: renderRow_line)
  obtain rows where "split_on NL (concat (map renderRow items)) = rows @ [[]]"
    "map (tableCells [] False) rows = map rowCells items" using Cons by auto
  then have "split_on NL (concat (map renderRow (item # items))) = (line # rows) @ [[]]"
    "map (tableCells [] False) (line # rows) = map rowCells (item # items)"
    using line by (simp_all add: split_on_append_sep)
  then show ?case by blast
qed simp

text \<open>A page ends with its table.\<close>

lemma ends_here: "\<exists>start. t = start @ t"
  by (rule exI [of _ "[]"]) simp

lemma ends_later: "\<exists>start. s = start @ t \<Longrightarrow> \<exists>start. r @ s = start @ t"
  by (metis append_assoc)

lemma renderPlatform_end:
  assumes "renderPlatform indent s p = Inr doc"
  shows "\<exists>start. doc = start @ [NL] @ ''| --- | --- | --- | --- |'' @ [NL] @ concat (map renderRow (EntriesForPlatform s (pl_ID p)))"
proof (cases "exampleOutput indent (pl_ID p)")
  case (Inl e)
  then show ?thesis using assms unfolding renderPlatform_def Let_def Inl sum.case by blast
next
  case (Inr example)
  show ?thesis
    using assms unfolding renderPlatform_def Let_def Inr sum.case sum.inject(2)
    by (elim subst) (rule ends_here | rule ends_later)+
qed

text \<open>C40: the table of a platform's page can be read back. When every entry of the platform has a path without bars,
  backslashes and newlines, a type of the schema language, and a description without newlines, the page
  ends with the line under the table's head, one line for each entry and nothing else, and a Markdown reader
  finds in the line of an entry exactly its path, its type, whether it is conditional, and its description
  with every bar and backslash it holds.\<close>

theorem renderPlatform_rows:
  assumes "renderPlatform indent s p = Inr doc" and "list_all readable (EntriesForPlatform s (pl_ID p))"
  shows "\<exists>intro rows. split_on NL doc = intro @ ''| --- | --- | --- | --- |'' # rows @ [[]] \<and>
    map (tableCells [] False) rows = map rowCells (EntriesForPlatform s (pl_ID p))"
proof -
  let ?rule = "''| --- | --- | --- | --- |''"
  obtain start where "doc = start @ [NL] @ ?rule @ [NL] @ concat (map renderRow (EntriesForPlatform s (pl_ID p)))"
    using renderPlatform_end [OF assms(1)] by blast
  moreover have "split_on NL (?rule @ NL # rest) = ?rule # split_on NL rest" for rest
    by (rule split_on_append_sep) simp
  ultimately show ?thesis
    using renderRows_lines [OF assms(2)] split_on_append [of NL start] by auto
qed

definition barEntry :: Entry where
  "barEntry = \<lparr>en_Type = ''string'', en_Description = ''a|b'' @ [BSLASH], en_Platforms = [''linux''], en_Conditional = False,
     en_OpenSubtree = False\<rparr>"

theorem renderPlatform_rows_witness:
  "\<exists>doc intro rows. renderPlatform Inr [(''os.name'', barEntry)] \<lparr>pl_ID = ''linux'', pl_Label = ''Linux''\<rparr> = Inr doc \<and>
     split_on NL doc = intro @ ''| --- | --- | --- | --- |'' # rows @ [[]] \<and>
     map (tableCells [] False) rows = [[[], '' `os.name` '', '' `string` '', '' no '', '' a|b'' @ [BSLASH] @ '' '', []]]"
proof -
  let ?s = "[(''os.name'', barEntry)]" and ?p = "\<lparr>pl_ID = ''linux'', pl_Label = ''Linux''\<rparr>"
  obtain raw where "map_of exampleJSON ''linux'' = Some raw" by (simp add: exampleJSON_def)
  then obtain doc where doc: "renderPlatform Inr ?s ?p = Inr doc"
    by (auto simp: renderPlatform_def exampleOutput_def Let_def)
  have items: "EntriesForPlatform ?s (pl_ID ?p) = [\<lparr>it_Path = ''os.name'', it_Entry = barEntry\<rparr>]"
    by code_simp
  then have "list_all readable (EntriesForPlatform ?s (pl_ID ?p))"
    by (simp add: readable_def plainCell_def barEntry_def schemaTypes_def)
  from renderPlatform_rows [OF doc this] doc show ?thesis
    unfolding items by (auto simp: rowCells_def barEntry_def)
qed

text \<open>A newline in a description is not escaped, and validation accepts it: the row breaks in two.\<close>

definition brokenEntry :: Entry where
  "brokenEntry = \<lparr>en_Type = ''string'', en_Description = ''a'' @ NL # ''b'', en_Platforms = [''linux''], en_Conditional = False,
     en_OpenSubtree = False\<rparr>"

lemma newline_breaks_row:
  "Validate [(''os.name'', brokenEntry)] = None \<and>
   split_on NL (renderRow \<lparr>it_Path = ''os.name'', it_Entry = brokenEntry\<rparr>) = [''| `os.name` | `string` | no | a'', ''b |'', []]"
  by code_simp

lemma examples_complete: "list_all (\<lambda>p. map_of exampleJSON (pl_ID p) \<noteq> None) Platforms"
  by code_simp

lemma docPaths_distinct: "distinct (''docs/supported-facts/README.md'' # map docPath Platforms)"
  by code_simp

lemma renderPlatform_answers:
  assumes "map_of exampleJSON (pl_ID p) = Some raw" "indent raw = Inr shown"
  shows "\<exists>doc. renderPlatform indent s p = Inr doc"
  using assms by (simp add: renderPlatform_def exampleOutput_def Let_def)

lemma renderPlatforms_answers:
  assumes "\<And>raw. raw \<in> snd ` set exampleJSON \<Longrightarrow> \<exists>shown. indent raw = Inr shown"
  shows "list_all (\<lambda>p. map_of exampleJSON (pl_ID p) \<noteq> None) ps \<Longrightarrow> distinct (map fst docs @ map docPath ps) \<Longrightarrow>
    \<exists>docs'. renderPlatforms indent s ps docs = Inr docs' \<and> map fst docs' = map fst docs @ map docPath ps"
proof (induction ps arbitrary: docs)
  case (Cons p ps)
  then obtain raw where raw: "map_of exampleJSON (pl_ID p) = Some raw" by auto
  then have "raw \<in> snd ` set exampleJSON" by (force dest: map_of_SomeD)
  with assms obtain shown where "indent raw = Inr shown" by blast
  with raw obtain doc where doc: "renderPlatform indent s p = Inr doc" using renderPlatform_answers by blast
  have keys: "map fst (mput (docPath p) doc docs) = map fst docs @ [docPath p]"
    using Cons.prems(2) by (simp add: update_keys)
  show ?case using Cons.IH [of "mput (docPath p) doc docs"] Cons.prems by (simp add: doc keys)
qed simp

text \<open>When the examples are JSON, every schema that loads gives an index and a page for each platform.\<close>

lemma renderDocs_complete:
  assumes "\<And>raw. raw \<in> snd ` set exampleJSON \<Longrightarrow> \<exists>shown. indent raw = Inr shown"
  shows "\<exists>docs. renderDocs indent (Inr s) = Inr docs \<and> map fst docs = ''docs/supported-facts/README.md'' # map docPath Platforms"
  using renderPlatforms_answers [where docs = "[(''docs/supported-facts/README.md'', renderIndex s)]" and s = s,
      OF assms examples_complete] docPaths_distinct
  by (simp add: renderDocs_def)

end
