(* ===== verification/Cache_File.thy ===== *)
theory Cache_File
  imports Cache Packages
begin

text \<open>
  \<open>writeCacheFile\<close> of \<open>internal/engine/cache.go\<close>, below the one step \<open>CacheFacts\<close> takes for it: a
  temporary file is created beside the target, filled, given its mode, closed and renamed, and
  removed when one of these fails. The result holds every state the directory goes through, which
  is where a crash may leave it.
\<close>

section \<open>The calls\<close>

record savedFile =
  sf_data :: string
  sf_mode :: nat

type_synonym savedFiles = "savedFile gomap"

text \<open>What the operating system answers: the name \<open>os.CreateTemp\<close> chooses, how many bytes a write
  that fails has written, and the errors.\<close>

record writeHost =
  wh_CreateTemp :: "savedFiles \<Rightarrow> string \<Rightarrow> string \<Rightarrow> goerror + string"
  wh_Write :: "(nat \<times> goerror) option"
  wh_Chmod :: "goerror option"
  wh_Close :: "goerror option"
  wh_Rename :: "goerror option"
  wh_Remove :: "goerror option"

definition tempWrite :: "string \<Rightarrow> string \<Rightarrow> nat \<Rightarrow> savedFiles \<Rightarrow> savedFiles list" where
  "tempWrite tmp data n d = map (\<lambda>k. mput tmp \<lparr>sf_data = take k data, sf_mode = 0x180\<rparr> d) [0..<Suc n]"

definition tempChmod :: "string \<Rightarrow> nat \<Rightarrow> savedFiles \<Rightarrow> savedFiles" where
  "tempChmod tmp perm d = (case mget d tmp of Some file \<Rightarrow> mput tmp (file\<lparr>sf_mode := perm\<rparr>) d | None \<Rightarrow> d)"

definition tempRename :: "string \<Rightarrow> string \<Rightarrow> savedFiles \<Rightarrow> savedFiles" where
  "tempRename tmp path d = (case mget d tmp of Some file \<Rightarrow> mput path file (mdel tmp d) | None \<Rightarrow> d)"

text \<open>The deferred removal, whose own error is dropped.\<close>

definition cleanupTemp :: "writeHost \<Rightarrow> string \<Rightarrow> goerror \<Rightarrow> savedFiles list \<Rightarrow> goerror option \<times> savedFiles list" where
  "cleanupTemp h tmp e ds = (Some e, ds @ (if wh_Remove h = None then [mdel tmp (last ds)] else []))"

definition writeCacheFile ::
  "writeHost \<Rightarrow> string \<Rightarrow> string \<Rightarrow> nat \<Rightarrow> savedFiles \<Rightarrow> goerror option \<times> savedFiles list" where
  "writeCacheFile h path data perm d =
     (case wh_CreateTemp h d (path_dir path) (path_base path @ ''.tmp-*'') of
        Inl e \<Rightarrow> (Some e, [d])
      | Inr tmp \<Rightarrow>
          (case wh_Write h of
             Some (n, e) \<Rightarrow> cleanupTemp h tmp e (d # tempWrite tmp data n d)
           | None \<Rightarrow>
               (let written = d # tempWrite tmp data (length data) d;
                    moded = tempChmod tmp perm (last written)
                in case wh_Chmod h of
                     Some e \<Rightarrow> cleanupTemp h tmp e written
                   | None \<Rightarrow>
                       (case wh_Close h of
                          Some e \<Rightarrow> cleanupTemp h tmp e (written @ [moded])
                        | None \<Rightarrow>
                            (case wh_Rename h of
                               Some e \<Rightarrow> cleanupTemp h tmp e (written @ [moded])
                             | None \<Rightarrow> (None, written @ [moded, tempRename tmp path moded]))))))"

section \<open>All or nothing\<close>

text \<open>A state that differs from the first in the temporary file only.\<close>

definition besides :: "string \<Rightarrow> savedFiles \<Rightarrow> savedFiles \<Rightarrow> bool" where
  "besides tmp d d' \<longleftrightarrow> (\<forall>k. k \<noteq> tmp \<longrightarrow> mget d' k = mget d k)"

lemma besides_refl: "besides tmp d d"
  by (simp add: besides_def)

lemma besides_write: "list_all (besides tmp d) (tempWrite tmp data n d)"
  by (simp add: tempWrite_def list_all_iff besides_def update_conv')

lemma besides_chmod: "besides tmp d d' \<Longrightarrow> besides tmp d (tempChmod tmp perm d')"
  by (simp add: besides_def tempChmod_def update_conv' split: option.split)

lemma besides_last: "list_all (besides tmp d) ds \<Longrightarrow> ds \<noteq> [] \<Longrightarrow> besides tmp d (last ds)"
  by (simp add: list_all_iff)

lemma besides_path: "besides tmp d d' \<Longrightarrow> tmp \<noteq> path \<Longrightarrow> mget d' path = mget d path"
  by (simp add: besides_def)

lemma delete_besides: "besides tmp d d' \<Longrightarrow> mget d tmp = None \<Longrightarrow> mget (mdel tmp d') = mget d"
  by (rule ext) (simp add: besides_def delete_conv')

text \<open>A failed write: nothing but the temporary file was touched, and without an error of its own the
  removal leaves the directory as it was.\<close>

definition allOrNothing :: "writeHost \<Rightarrow> string \<Rightarrow> savedFile \<Rightarrow> savedFiles \<Rightarrow> goerror option \<times> savedFiles list \<Rightarrow> bool" where
  "allOrNothing h path new d r \<longleftrightarrow>
     list_all (\<lambda>d'. mget d' path = mget d path \<or> mget d' path = Some new) (snd r) \<and>
     (case fst r of
        None \<Rightarrow> mget (last (snd r)) = (mget d)(path \<mapsto> new)
      | Some e \<Rightarrow> mget (last (snd r)) path = mget d path \<and> (wh_Remove h = None \<longrightarrow> mget (last (snd r)) = mget d))"

lemma cleanupTemp_undone:
  assumes "list_all (besides tmp d) ds" "ds \<noteq> []" "mget d tmp = None" "tmp \<noteq> path"
  shows "allOrNothing h path new d (cleanupTemp h tmp e ds)"
proof -
  have "mget (mdel tmp (last ds)) = mget d" by (rule delete_besides [OF besides_last [OF assms(1,2)] assms(3)])
  moreover have "list_all (\<lambda>d'. mget d' path = mget d path) ds"
    using assms(1) besides_path [OF _ assms(4)] by (auto simp: list_all_iff)
  ultimately show ?thesis using assms(2) by (auto simp: cleanupTemp_def allOrNothing_def list_all_iff)
qed

lemma tempRename_written:
  assumes "mget d tmp = None" "tmp \<noteq> path"
  shows "mget (tempRename tmp path (tempChmod tmp perm (last (d # tempWrite tmp data (length data) d)))) =
    (mget d)(path \<mapsto> \<lparr>sf_data = data, sf_mode = perm\<rparr>)"
  using assms by (intro ext) (simp add: tempWrite_def tempChmod_def tempRename_def update_conv' delete_conv')

text \<open>C23: a cache file is replaced as a whole or not at all: at every moment a crash may strike, its path
  holds what it held before or the new content in full; on success the new content with its mode is the
  only change to the directory; on failure the path is as it was, and so is the directory unless the
  temporary file cannot be removed.\<close>

theorem writeCacheFile_atomic:
  assumes "\<And>tmp. wh_CreateTemp h d (path_dir path) (path_base path @ ''.tmp-*'') = Inr tmp \<Longrightarrow> mget d tmp = None \<and> tmp \<noteq> path"
  shows "let (err, ds) = writeCacheFile h path data perm d; new = \<lparr>sf_data = data, sf_mode = perm\<rparr> in
    list_all (\<lambda>d'. mget d' path = mget d path \<or> mget d' path = Some new) ds \<and>
    (case err of
       None \<Rightarrow> mget (last ds) = (mget d)(path \<mapsto> new)
     | Some e \<Rightarrow> mget (last ds) path = mget d path \<and> (wh_Remove h = None \<longrightarrow> mget (last ds) = mget d))"
proof (cases "wh_CreateTemp h d (path_dir path) (path_base path @ ''.tmp-*'')")
  case (Inr tmp)
  then have tmp: "mget d tmp = None" "tmp \<noteq> path" using assms by auto
  define written where "written = (\<lambda>n. d # tempWrite tmp data n d)"
  define moded where "moded = tempChmod tmp perm (last (written (length data)))"
  have all: "list_all (besides tmp d) (written n)" for n by (simp add: written_def besides_refl besides_write)
  have mode: "besides tmp d moded" unfolding moded_def
    by (rule besides_chmod [OF besides_last [OF all]]) (simp add: written_def)
  let ?new = "\<lparr>sf_data = data, sf_mode = perm\<rparr>"
  have fails: "allOrNothing h path ?new d (cleanupTemp h tmp e (written n))"
    "allOrNothing h path ?new d (cleanupTemp h tmp e (written n @ [moded]))" for e n
    by (rule cleanupTemp_undone [OF _ _ tmp]; use all mode in \<open>simp add: written_def\<close>)+
  have "mget d' path = mget d path" if "d' \<in> set (written n)" for d' n
    using all [of n] besides_path [OF _ tmp(2)] that by (auto simp: list_all_iff)
  moreover have "mget (tempRename tmp path moded) = (mget d)(path \<mapsto> ?new)"
    using tempRename_written [OF tmp, of perm data] by (simp add: moded_def written_def)
  ultimately have renamed: "allOrNothing h path ?new d (None, written (length data) @ [moded, tempRename tmp path moded])"
    using besides_path [OF mode tmp(2)] by (simp add: allOrNothing_def list_all_iff)
  have "allOrNothing h path ?new d (writeCacheFile h path data perm d)"
  proof -
    have w: "d # tempWrite tmp data n d = written n" for n by (simp add: written_def)
    show ?thesis
      unfolding writeCacheFile_def Inr sum.case w Let_def moded_def [symmetric]
      using fails renamed by (simp split: option.split prod.split)
  qed
  then show ?thesis by (simp add: allOrNothing_def Let_def case_prod_beta)
qed (simp add: writeCacheFile_def)

theorem writeCacheFile_atomic_witness:
  "snd (writeCacheFile \<lparr>wh_CreateTemp = \<lambda>d dir pat. Inr ''/c/g.tmp-1'', wh_Write = None, wh_Chmod = None, wh_Close = None,
      wh_Rename = None, wh_Remove = None\<rparr> ''/c/g'' ''{}'' 0x180 []) \<noteq> [] \<and>
   mget (last (snd (writeCacheFile \<lparr>wh_CreateTemp = \<lambda>d dir pat. Inr ''/c/g.tmp-1'', wh_Write = None, wh_Chmod = None,
      wh_Close = None, wh_Rename = None, wh_Remove = None\<rparr> ''/c/g'' ''{}'' 0x180 []))) ''/c/g'' = Some \<lparr>sf_data = ''{}'', sf_mode = 0x180\<rparr>"
  using writeCacheFile_atomic [where h = "\<lparr>wh_CreateTemp = \<lambda>d dir pat. Inr ''/c/g.tmp-1'', wh_Write = None, wh_Chmod = None,
      wh_Close = None, wh_Rename = None, wh_Remove = None\<rparr>" and d = "[]" and path = "''/c/g''" and data = "''{}''" and perm = "0x180"]
  by (simp add: writeCacheFile_def Let_def)

end
