(* ===== verification/Spec2Isabelle.thy ===== *)
theory Spec2Isabelle
  imports Schema App Session Facts_API Deep_Copy Supported_Docs Cache_File
begin

text \<open>
  A model of \<open>ncode/facts\<close>, a program that discovers facts about a host and reports them, and the
  theorems that make it correct. The model follows the Go sources under \<open>src/\<close> file by file and
  function by function; definitions carry the names of the functions they model, and a Go name
  that clashes with one of Isabelle's is suffixed or spelled out.

  \<^bold>\<open>The program.\<close> The command line (\<open>internal/cli\<close>, \<open>internal/app\<close>) is parsed and validated, a
  configuration file is read, and a discovery plan is drawn up. The engine (\<open>internal/engine\<close>)
  resolves core facts from a host, loads external facts from directories and the environment,
  passes them through a persistent cache, drops what is disabled, and collects what is left in
  one canonical tree. A snapshot answers queries over the tree; a projection selects what was
  asked for, and a formatter prints it. A schema (\<open>internal/schema\<close>) says which facts which platform
  may report, and a profile (\<open>internal/platform\<close>) what each platform is capable of.

  \<^bold>\<open>Foundations.\<close> \<open>Go_Prelude\<close>: characters, the functions of package \<open>strings\<close>, integers that wrap at
  64 bits, Go maps as association lists with distinct keys (locale \<open>string_map\<close>), memo cells (locale
  \<open>memo_cell\<close>). \<open>Go_Value\<close>: the dynamic values facts hold, and resolved facts. \<open>Go_Library\<close>: quoting,
  paths, wrapped errors, the UTF-8 characters of a byte string. \<open>Go_Regexp\<close>: a backtracking matcher for the expressions the code
  compiles. \<open>Go_Float\<close>: rounding to a 53-bit significand, with error bounds.

  \<^bold>\<open>The engine.\<close>
    \<^item> \<open>Fact_Tree\<close> (\<open>fact.go\<close>): insertion of dotted names and the collection of a list of facts;
      when insertion is refused, that the tree holds exactly the facts collected, that the order of
      unrelated facts does not matter.
    \<^item> \<open>Core_Facts\<close> (\<open>descriptors.go\<close>, \<open>core.go\<close>): the descriptor table, the gate that skips a category, its
      memo. The gate is the locale \<open>schedule_gate\<close>. \<open>Core_Resolvers\<close> fills the table with the resolvers
      of one host and shows that each emits declared roots only, so gating is invisible.
    \<^item> \<open>Session\<close> (\<open>session.go\<close>): the cells that make each shared probe run once, and that over one host
      they change nothing - which is why resolvers call probes directly here.
    \<^item> \<open>Env_Facts\<close>, \<open>External_Facts\<close> (\<open>external.go\<close>): environment facts, text, JSON, YAML and executable facts,
      the limits on their output, and that what is loaded is free of typed maps and, outside
      \<open>map[any]any\<close>, of null bytes.
    \<^item> \<open>Fact_Groups\<close> (\<open>groups.go\<close>), \<open>Discovery_Plan\<close> (\<open>discovery_plan.go\<close>), \<open>Config_File\<close> (\<open>config.go\<close>): what is
      disabled, by name, group, configuration or environment, and what a hermetic plan ignores.
    \<^item> \<open>Cache\<close> (\<open>cache.go\<close>): durations, groups, paths, and the round trip of cached facts over a directory
      that is part of the state. \<open>Cache_File\<close>: the calls that replace one cache file, with the states a crash
      may leave, and that the file is replaced as a whole or not at all.
    \<^item> \<open>Projection\<close> (\<open>projection.go\<close>), \<open>Snapshot\<close> (\<open>snapshot.go\<close>), \<open>Formatter\<close> (\<open>formatter.go\<close>): queries, the tree
      behind them, registered values, and the output formats; a value cannot break the lines of a YAML document.
    \<^item> \<open>Deep_Copy\<close> (\<open>snapshot.go\<close>): the copies a snapshot hands out, over a heap with sharing and cycles; a
      copy ends, looks like its original, shares exactly what that shares, and is made of new cells. The other theories take values for
      trees, on which a copy is the identity.
    \<^item> \<open>Engine\<close> (\<open>engine.go\<close>): a whole discovery; disabled facts are neither shown nor persisted.
      \<open>Facts_API\<close> (\<open>engine.go\<close> and \<open>snapshot.go\<close> at the top): the options of the package, the engine they build, and
      the decoding of subtrees.

  \<^bold>\<open>The application.\<close> \<open>Cli_Options\<close>, \<open>Cli\<close>, \<open>App_Options\<close> (\<open>internal/cli\<close>, \<open>app/options.go\<close>): the option table,
  argument preparation, validation and flag parsing, and that validated options are parsed as
  validated. \<open>App\<close> (\<open>app.go\<close>): a run with its exit status, output and cache directory.
  \<open>Platform_Profile\<close> and \<open>Schema\<close>: the profile table, and paths, leaves and validation of the schema.
  \<open>Supported_Docs\<close> (\<open>tools/supportedfacts\<close>): the pages generated from the schema, whose rows read back as the
  entries as long as no description holds a newline.

  \<^bold>\<open>The resolvers.\<close> They take a host: a record that answers what the interface \<open>hostOS\<close> of
  \<open>session.go\<close> is asked for (files, directories, commands, environment), with what Go's run-time system
  is asked for beside it. \<open>Host_Session\<close> models the host's command runner - trusted directories,
  managed environment - and helpers. \<open>Memory\<close>, \<open>Os_Release\<close> and \<open>Os_Facts\<close> (\<open>os.go\<close>), \<open>Virtual\<close>
  (\<open>virtual.go\<close>, \<open>xen.go\<close>), \<open>Uptime\<close>, \<open>Processors\<close>, \<open>Host_Facts\<close> (\<open>dmi.go\<close>, \<open>ssh.go\<close>, \<open>identity.go\<close>, \<open>selinux.go\<close>,
  \<open>timezone.go\<close>, \<open>fips.go\<close>, \<open>augeas.go\<close>), \<open>Net_Address\<close>, \<open>Net_Leases\<close>, \<open>Net_Interfaces\<close> and \<open>Networking\<close>
  (\<open>networking.go\<close>, \<open>plan9.go\<close>), \<open>Disks\<close> (\<open>disks.go\<close>, \<open>statfs_*.go\<close>), \<open>Packages\<close> and \<open>Packages_Mac\<close>
  (\<open>packages*.go\<close>), \<open>Cloud\<close> (\<open>metadatahttp.go\<close>, \<open>ec2.go\<close>, \<open>gce.go\<close>, \<open>az.go\<close>; one call of
  the metadata client is the chain of requests that redirects make of it, as \<open>net/http\<close> follows them).

  \<^bold>\<open>Interfaces.\<close> \<open>string_map\<close>: what a lookup gives after an update or deletion; \<open>map_range\<close>: a pass over the
  values of a map; \<open>memo_cell\<close>: a cell whose second reading is its first; \<open>schedule_gate\<close>: a scheduler
  that skips only what is switched off; \<open>client_step\<close>: a relation between the states of a metadata
  client that every single request keeps. Each is interpreted on the model's definitions.

  \<^bold>\<open>Recursion and bounds.\<close> Loops over text and lists are structural or have a measure. The scanner of
  lease files is a \<open>partial_function\<close> whose termination is a theorem; the walk of the EC2 metadata
  tree descends to \<open>ec2MaxDepth\<close>, as the code does. The only fuel is that of \<open>Deep_Copy\<close>, which bounds nested
  calls: with \<open>D\<close> the depth to which arrays and structures are nested and \<open>n\<close> the number of references a
  value leads to, \<open>(D + 1) * (n + 1)\<close> is enough. Integers are unbounded
  where the code cannot overflow, wrapped by \<open>wrap64\<close> where it can, and 64-bit words in \<open>Disks\<close>. Go's \<open>int\<close> has 64 bits, as on all but
  the 32-bit targets of the profile table.

  \<^bold>\<open>Parameters.\<close> Code that is not in the repository is an argument: the decoders of \<open>encoding/json\<close>,
  \<open>encoding/xml\<close> and the YAML package, \<open>json.Indent\<close>, the HTTP transport and the clock (which answer the n-th request
  and reading), digests, character maps, the \<open>statfs\<close> system call, and what package \<open>net\<close> says of
  interfaces and names. Text is a list of bytes; white space and letter case are ASCII.

  \<^bold>\<open>Not modelled.\<close> Cancellation inside a command and its time limit, locks and goroutines (a
  discovery is sequential), log output other than the diagnostics the engine reports, the difference
  between a nil and an empty map, which no fact shows, the Windows API call that names the system
  directory (the model takes it to be \<open>C:\Windows\<close>, the directory \<open>coreWindowsRoot\<close> gives where there is no such call), and helpers that only tests call (\<open>deepStringifyKeys\<close>).
\<close>

end
